(* ===== verification/Prelude.thy ===== *)
theory Prelude
  imports Main "HOL-Library.Word" "HOL-Library.Sublist"
begin

text \<open>
  What every component of the development shares.

  A Go function that may fail, panic or end the process becomes an \<open>action\<close>: a function
  from the state of the world to an \<open>outcome\<close> and the next state. \<open>Ok\<close> is a normal return,
  \<open>Err\<close> a returned non-nil \<open>error\<close> (its message), \<open>Crash\<close> a panic or a \<open>log.Fatal\<close>, which
  no caller of the agents recovers from. \<open>andthen\<close> is the pattern
  \<^verbatim>\<open>x, err := f(); if err != nil { return err }\<close>; \<open>attempt\<close> keeps the error as a value, for
  the callers that log it and go on; \<open>wrap\<close> is \<^verbatim>\<open>fmt.Errorf("prefix%v", err)\<close>.

  The lemmas are the congruences the components use: \<open>keeps\<close> (an invariant is preserved by
  an action, whatever its outcome) and its rules, collected in \<open>keeps_rules\<close>, and
  \<open>action_simps\<close>, the evaluation of the combinators.
\<close>

section \<open>Outcomes and actions\<close>

datatype 'a outcome = Ok 'a | Err string | Crash string

type_synonym ('s, 'a) action = "'s \<Rightarrow> 'a outcome \<times> 's"

named_theorems action_simps \<open>evaluation of the action combinators\<close>
named_theorems keeps_rules \<open>preservation of an invariant by actions\<close>
named_theorems safe_rules \<open>actions that never panic\<close>

definition ret :: "'a \<Rightarrow> ('s, 'a) action" where
  "ret x = (\<lambda>s. (Ok x, s))"

definition fail :: "string \<Rightarrow> ('s, 'a) action" where
  "fail e = (\<lambda>s. (Err e, s))"

definition crash :: "string \<Rightarrow> ('s, 'a) action" where
  "crash e = (\<lambda>s. (Crash e, s))"

definition andthen :: "('s, 'a) action \<Rightarrow> ('a \<Rightarrow> ('s, 'b) action) \<Rightarrow> ('s, 'b) action" where
  "andthen m f = (\<lambda>s. case m s of
     (Ok x, s') \<Rightarrow> f x s'
   | (Err e, s') \<Rightarrow> (Err e, s')
   | (Crash e, s') \<Rightarrow> (Crash e, s'))"

definition wrap :: "string \<Rightarrow> ('s, 'a) action \<Rightarrow> ('s, 'a) action" where
  "wrap p m = (\<lambda>s. case m s of (Err e, s') \<Rightarrow> (Err (p @ e), s') | r \<Rightarrow> r)"

definition attempt :: "('s, 'a) action \<Rightarrow> ('s, string + 'a) action" where
  "attempt m = (\<lambda>s. case m s of
     (Ok x, s') \<Rightarrow> (Ok (Inr x), s')
   | (Err e, s') \<Rightarrow> (Ok (Inl e), s')
   | (Crash e, s') \<Rightarrow> (Crash e, s'))"

definition ignore :: "('s, 'a) action \<Rightarrow> ('s, unit) action" where
  "ignore m = andthen (attempt m) (\<lambda>_. ret ())"

definition asks :: "('s \<Rightarrow> 'a) \<Rightarrow> ('s, 'a) action" where
  "asks f = (\<lambda>s. (Ok (f s), s))"

definition modify :: "('s \<Rightarrow> 's) \<Rightarrow> ('s, unit) action" where
  "modify f = (\<lambda>s. (Ok (), f s))"

text \<open>A deferred clean-up: it runs after the body, and its own error is only logged.\<close>

definition deferred :: "('s, 'a) action \<Rightarrow> ('s, unit) action \<Rightarrow> ('s, 'a) action" where
  "deferred m d = (\<lambda>s. case m s of
     (Crash e, s') \<Rightarrow> (Crash e, s')
   | (r, s') \<Rightarrow> (case ignore d s' of (Crash e, s'') \<Rightarrow> (Crash e, s'') | (_, s'') \<Rightarrow> (r, s'')))"

definition lift_result :: "string + 'a \<Rightarrow> ('s, 'a) action" where
  "lift_result r = (case r of Inl e \<Rightarrow> fail e | Inr x \<Rightarrow> ret x)"

fun foreach :: "('a \<Rightarrow> ('s, unit) action) \<Rightarrow> 'a list \<Rightarrow> ('s, unit) action" where
  "foreach f [] = ret ()"
| "foreach f (x # xs) = andthen (f x) (\<lambda>_. foreach f xs)"

text \<open>\<open>backoff.Retry\<close>: the action again, at most \<open>n\<close> more times, until it succeeds.\<close>

fun retry :: "nat \<Rightarrow> ('s, 'a) action \<Rightarrow> ('s, 'a) action" where
  "retry 0 m = m"
| "retry (Suc n) m = andthen (attempt m) (\<lambda>r. case r of Inr x \<Rightarrow> ret x | Inl _ \<Rightarrow> retry n m)"

lemma ret_apply [action_simps]: "ret x s = (Ok x, s)"
  by (simp add: ret_def)

lemma fail_apply [action_simps]: "fail e s = (Err e, s)"
  by (simp add: fail_def)

lemma crash_apply [action_simps]: "crash e s = (Crash e, s)"
  by (simp add: crash_def)

lemma asks_apply [action_simps]: "asks f s = (Ok (f s), s)"
  by (simp add: asks_def)

lemma modify_apply [action_simps]: "modify f s = (Ok (), f s)"
  by (simp add: modify_def)

lemma lift_result_Inl [simp]: "lift_result (Inl e) = fail e"
  by (simp add: lift_result_def)

lemma lift_result_Inr [simp]: "lift_result (Inr x) = ret x"
  by (simp add: lift_result_def)

lemma andthen_apply [action_simps]:
  "andthen m f s = (case m s of (Ok x, s') \<Rightarrow> f x s' | (Err e, s') \<Rightarrow> (Err e, s') | (Crash e, s') \<Rightarrow> (Crash e, s'))"
  by (simp add: andthen_def)

lemma wrap_apply [action_simps]:
  "wrap p m s = (case m s of (Err e, s') \<Rightarrow> (Err (p @ e), s') | r \<Rightarrow> r)"
  by (simp add: wrap_def)

lemma attempt_apply [action_simps]:
  "attempt m s = (case m s of (Ok x, s') \<Rightarrow> (Ok (Inr x), s') | (Err e, s') \<Rightarrow> (Ok (Inl e), s')
     | (Crash e, s') \<Rightarrow> (Crash e, s'))"
  by (simp add: attempt_def)

lemma ignore_apply [action_simps]:
  "ignore m s = (case m s of (Ok x, s') \<Rightarrow> (Ok (), s') | (Err e, s') \<Rightarrow> (Ok (), s')
     | (Crash e, s') \<Rightarrow> (Crash e, s'))"
  by (simp add: ignore_def andthen_def attempt_def ret_def split: prod.splits outcome.splits)

lemma if_app [action_simps]: "(if b then m else n) s = (if b then m s else n s)"
  by simp

lemma case_option_app [action_simps]:
  "(case a of None \<Rightarrow> m | Some x \<Rightarrow> f x) s = (case a of None \<Rightarrow> m s | Some x \<Rightarrow> f x s)"
  by (cases a) simp_all

lemma case_sum_app [action_simps]:
  "(case a of Inl x \<Rightarrow> f x | Inr x \<Rightarrow> g x) s = (case a of Inl x \<Rightarrow> f x s | Inr x \<Rightarrow> g x s)"
  by (cases a) simp_all

lemma case_list_app [action_simps]:
  "(case a of [] \<Rightarrow> m | x # xs \<Rightarrow> f x xs) s = (case a of [] \<Rightarrow> m s | x # xs \<Rightarrow> f x xs s)"
  by (cases a) simp_all

lemma case_prod_app [action_simps]: "(case a of (x, y) \<Rightarrow> f x y) s = (case a of (x, y) \<Rightarrow> f x y s)"
  by (cases a) simp_all

lemma andthen_Ok: "m s = (Ok x, s') \<Longrightarrow> andthen m f s = f x s'"
  by (simp add: andthen_def)

lemma andthen_Err: "m s = (Err e, s') \<Longrightarrow> andthen m f s = (Err e, s')"
  by (simp add: andthen_def)

lemma andthen_ret [simp]: "andthen (ret x) f = f x"
  by (simp add: andthen_def ret_def)

lemma andthen_ret_right [simp]: "andthen m ret = m"
  by (rule ext) (simp add: andthen_def ret_def split: prod.splits outcome.splits)

lemma andthen_assoc: "andthen (andthen m f) g = andthen m (\<lambda>x. andthen (f x) g)"
  by (rule ext) (simp add: andthen_def split: prod.splits outcome.splits)

lemma andthen_eq_Ok:
  "andthen m f s = (Ok y, t) \<longleftrightarrow> (\<exists>x s'. m s = (Ok x, s') \<and> f x s' = (Ok y, t))"
  by (auto simp: andthen_def split: prod.splits outcome.splits)

lemma wrap_eq_Ok: "wrap p m w = (Ok x, w') \<longleftrightarrow> m w = (Ok x, w')"
  by (auto simp: wrap_apply split: prod.splits outcome.splits)

lemma ignore_never_Err: "ignore m s \<noteq> (Err e, t)"
  by (simp add: ignore_def andthen_def attempt_def ret_def split: prod.splits outcome.splits)

section \<open>Preservation of an invariant\<close>

definition keeps :: "('s \<Rightarrow> bool) \<Rightarrow> ('s, 'a) action \<Rightarrow> bool" where
  "keeps I m \<longleftrightarrow> (\<forall>s. I s \<longrightarrow> I (snd (m s)))"

lemma keepsI: "(\<And>s. I s \<Longrightarrow> I (snd (m s))) \<Longrightarrow> keeps I m"
  by (simp add: keeps_def)

lemma keepsD: "keeps I m \<Longrightarrow> I s \<Longrightarrow> m s = (r, t) \<Longrightarrow> I t"
  unfolding keeps_def by (metis snd_conv)

lemma keeps_ret [keeps_rules]: "keeps I (ret x)"
  by (simp add: keeps_def ret_def)

lemma keeps_fail [keeps_rules]: "keeps I (fail e)"
  by (simp add: keeps_def fail_def)

lemma keeps_crash [keeps_rules]: "keeps I (crash e)"
  by (simp add: keeps_def crash_def)

lemma keeps_asks [keeps_rules]: "keeps I (asks f)"
  by (simp add: keeps_def asks_def)

lemma keeps_andthen [keeps_rules]:
  "keeps I m \<Longrightarrow> (\<And>x. keeps I (f x)) \<Longrightarrow> keeps I (andthen m f)"
  by (auto simp: keeps_def andthen_def split: prod.splits outcome.splits)

lemma keeps_wrap [keeps_rules]: "keeps I m \<Longrightarrow> keeps I (wrap p m)"
  by (auto simp: keeps_def wrap_def split: prod.splits outcome.splits)

lemma keeps_attempt [keeps_rules]: "keeps I m \<Longrightarrow> keeps I (attempt m)"
  by (auto simp: keeps_def attempt_def split: prod.splits outcome.splits)

lemma keeps_ignore [keeps_rules]: "keeps I m \<Longrightarrow> keeps I (ignore m)"
  unfolding ignore_def by (intro keeps_rules)

lemma keeps_if [keeps_rules]: "keeps I m \<Longrightarrow> keeps I n \<Longrightarrow> keeps I (if b then m else n)"
  by simp

lemma keeps_deferred [keeps_rules]: "keeps I m \<Longrightarrow> keeps I d \<Longrightarrow> keeps I (deferred m d)"
  using keeps_ignore [of I d]
  by (auto simp: keeps_def deferred_def split: prod.splits outcome.splits)

lemma keeps_lift_result [keeps_rules]: "keeps I (lift_result r)"
  by (cases r) (simp_all add: keeps_fail keeps_ret)

lemma keeps_foreach [keeps_rules]: "(\<And>x. keeps I (f x)) \<Longrightarrow> keeps I (foreach f xs)"
  by (induction xs) (auto intro: keeps_rules)

lemma keeps_case_option [keeps_rules]:
  "keeps I m \<Longrightarrow> (\<And>x. keeps I (f x)) \<Longrightarrow> keeps I (case a of None \<Rightarrow> m | Some x \<Rightarrow> f x)"
  by (cases a) simp_all

lemma keeps_case_sum [keeps_rules]:
  "(\<And>e. keeps I (f e)) \<Longrightarrow> (\<And>x. keeps I (g x)) \<Longrightarrow>
   keeps I (case a of Inl e \<Rightarrow> f e | Inr x \<Rightarrow> g x)"
  by (cases a) simp_all

lemma keeps_case_list [keeps_rules]:
  "keeps I m \<Longrightarrow> (\<And>x xs. keeps I (f x xs)) \<Longrightarrow> keeps I (case a of [] \<Rightarrow> m | x # xs \<Rightarrow> f x xs)"
  by (cases a) simp_all

lemma keeps_case_prod [keeps_rules]:
  "(\<And>x y. keeps I (f x y)) \<Longrightarrow> keeps I (case a of (x, y) \<Rightarrow> f x y)"
  by (cases a) simp_all

lemma keeps_retry [keeps_rules]: "keeps I m \<Longrightarrow> keeps I (retry n m)"
  by (induction n) (auto intro!: keeps_rules)

section \<open>Clean-ups, loops and orders\<close>

lemma ignore_modify [action_simps]: "ignore (modify f) s = (Ok (), f s)"
  by (simp add: ignore_apply modify_apply)

lemma deferred_modify:
  "deferred m (modify f) s = (case m s of (Crash e, s') \<Rightarrow> (Crash e, s') | (r, s') \<Rightarrow> (r, f s'))"
  by (simp add: deferred_def ignore_modify split: prod.splits outcome.splits)

lemma foreach_append: "foreach f (xs @ ys) = andthen (foreach f xs) (\<lambda>_. foreach f ys)"
  by (induction xs) (simp_all add: andthen_assoc)

lemma sort_key_hd_min:
  "sort_key f xs = y # ys \<Longrightarrow> y \<in> set xs \<and> (\<forall>x \<in> set xs. f y \<le> f x)"
proof -
  assume e: "sort_key f xs = y # ys"
  then have "set xs = set (y # ys)" using set_sort [of f xs] by simp
  moreover have "sorted (map f (y # ys))" using sorted_sort_key [of f xs] e by simp
  ultimately show ?thesis by auto
qed

lemma length_filter_filter: "length (filter P (filter Q xs)) \<le> length (filter P xs)"
  by (induction xs) auto

section \<open>Actions that never panic\<close>

definition safe :: "('s, 'a) action \<Rightarrow> bool" where
  "safe m \<longleftrightarrow> (\<forall>s e t. m s \<noteq> (Crash e, t))"

lemma safeD: "safe m \<Longrightarrow> m s \<noteq> (Crash e, t)"
  by (simp add: safe_def)

lemma safe_basic [safe_rules]: "safe (ret x)" "safe (fail e)" "safe (asks f)" "safe (modify g)"
  by (simp_all add: safe_def action_simps)

lemma safe_andthen [safe_rules]: "safe m \<Longrightarrow> (\<And>x. safe (f x)) \<Longrightarrow> safe (andthen m f)"
  by (auto simp: safe_def andthen_apply split: prod.splits outcome.splits)

lemma safe_wrap [safe_rules]: "safe m \<Longrightarrow> safe (wrap p m)"
  by (auto simp: safe_def wrap_apply split: prod.splits outcome.splits)

lemma safe_attempt [safe_rules]: "safe m \<Longrightarrow> safe (attempt m)"
  by (auto simp: safe_def attempt_apply split: prod.splits outcome.splits)

lemma safe_ignore [safe_rules]: "safe m \<Longrightarrow> safe (ignore m)"
  unfolding ignore_def by (intro safe_rules)

lemma safe_if [safe_rules]: "safe m \<Longrightarrow> safe n \<Longrightarrow> safe (if b then m else n)"
  by simp

lemma safe_deferred [safe_rules]: "safe m \<Longrightarrow> safe d \<Longrightarrow> safe (deferred m d)"
  using safe_ignore [of d] by (auto simp: safe_def deferred_def split: prod.splits outcome.splits)

lemma safe_lift_result [safe_rules]: "safe (lift_result r)"
  by (cases r) (simp_all add: safe_basic)

lemma safe_foreach [safe_rules]: "(\<And>x. safe (f x)) \<Longrightarrow> safe (foreach f xs)"
  by (induction xs) (auto intro: safe_rules)

lemma safe_case_option [safe_rules]:
  "safe m \<Longrightarrow> (\<And>x. safe (f x)) \<Longrightarrow> safe (case a of None \<Rightarrow> m | Some x \<Rightarrow> f x)"
  by (cases a) simp_all

lemma safe_case_sum [safe_rules]:
  "(\<And>e. safe (f e)) \<Longrightarrow> (\<And>x. safe (g x)) \<Longrightarrow> safe (case a of Inl e \<Rightarrow> f e | Inr x \<Rightarrow> g x)"
  by (cases a) simp_all

lemma safe_case_list [safe_rules]:
  "safe m \<Longrightarrow> (\<And>x xs. safe (f x xs)) \<Longrightarrow> safe (case a of [] \<Rightarrow> m | x # xs \<Rightarrow> f x xs)"
  by (cases a) simp_all

lemma safe_case_prod [safe_rules]: "(\<And>x y. safe (f x y)) \<Longrightarrow> safe (case a of (x, y) \<Rightarrow> f x y)"
  by (cases a) simp_all

lemma safe_retry [safe_rules]: "safe m \<Longrightarrow> safe (retry n m)"
  by (induction n) (auto intro!: safe_rules)

end
