(* ===== verification/Go_Strings.thy ===== *)
theory Go_Strings
  imports Prelude
begin

text \<open>
  The part of Go's \<^verbatim>\<open>strings\<close>, \<^verbatim>\<open>strconv\<close> and \<^verbatim>\<open>unicode\<close> packages that the agents call, over
  byte strings (\<open>string\<close> is a list of bytes here, as a Go string is). Names and argument
  order follow Go. White space and letter case are those of ASCII.
\<close>

section \<open>Searching and trimming\<close>

abbreviation nl :: char where "nl \<equiv> CHR 0x0A"

fun HasPrefix :: "string \<Rightarrow> string \<Rightarrow> bool" where
  "HasPrefix s [] = True"
| "HasPrefix [] (p # ps) = False"
| "HasPrefix (c # s) (p # ps) = (c = p \<and> HasPrefix s ps)"

definition HasSuffix :: "string \<Rightarrow> string \<Rightarrow> bool" where
  "HasSuffix s p = HasPrefix (rev s) (rev p)"

fun Index :: "string \<Rightarrow> string \<Rightarrow> nat option" where
  "Index [] sub = (if sub = [] then Some 0 else None)"
| "Index (c # s) sub = (if HasPrefix (c # s) sub then Some 0 else map_option Suc (Index s sub))"

definition Contains :: "string \<Rightarrow> string \<Rightarrow> bool" where
  "Contains s sub = (Index s sub \<noteq> None)"

definition TrimPrefix :: "string \<Rightarrow> string \<Rightarrow> string" where
  "TrimPrefix s p = (if HasPrefix s p then drop (length p) s else s)"

definition TrimSuffix :: "string \<Rightarrow> string \<Rightarrow> string" where
  "TrimSuffix s p = (if HasSuffix s p then take (length s - length p) s else s)"

definition is_space :: "char \<Rightarrow> bool" where
  "is_space c = (c \<in> {CHR 0x09, CHR 0x0A, CHR 0x0B, CHR 0x0C, CHR 0x0D, CHR '' ''})"

definition TrimFunc :: "(char \<Rightarrow> bool) \<Rightarrow> string \<Rightarrow> string" where
  "TrimFunc p s = rev (dropWhile p (rev (dropWhile p s)))"

definition TrimSpace :: "string \<Rightarrow> string" where
  "TrimSpace = TrimFunc is_space"

definition lower_char :: "char \<Rightarrow> char" where
  "lower_char c = (if 65 \<le> (of_char c :: nat) \<and> (of_char c :: nat) \<le> 90
                   then char_of ((of_char c :: nat) + 32) else c)"

definition ToLower :: "string \<Rightarrow> string" where
  "ToLower = map lower_char"

definition upper_char :: "char \<Rightarrow> char" where
  "upper_char c = (if 97 \<le> (of_char c :: nat) \<and> (of_char c :: nat) \<le> 122
                   then char_of ((of_char c :: nat) - 32) else c)"

definition ToUpper :: "string \<Rightarrow> string" where
  "ToUpper = map upper_char"

definition hex_digit :: "nat \<Rightarrow> char" where
  "hex_digit n = (if n < 10 then char_of (48 + n) else char_of (87 + n))"

section \<open>Splitting, joining, replacing\<close>

text \<open>\<open>Split s c\<close> is \<^verbatim>\<open>strings.Split(s, sep)\<close> for a separator of one byte.\<close>

fun Split :: "string \<Rightarrow> char \<Rightarrow> string list" where
  "Split [] c = [[]]"
| "Split (x # s) c =
     (if x = c then [] # Split s c
      else (case Split s c of [] \<Rightarrow> [[x]] | w # ws \<Rightarrow> (x # w) # ws))"

fun Join :: "string list \<Rightarrow> string \<Rightarrow> string" where
  "Join [] sep = []"
| "Join [w] sep = w"
| "Join (w # v # ws) sep = w @ sep @ Join (v # ws) sep"

text \<open>\<open>SplitN2 s c\<close> is \<^verbatim>\<open>strings.SplitN(s, sep, 2)\<close>.\<close>

fun SplitN2 :: "string \<Rightarrow> char \<Rightarrow> string list" where
  "SplitN2 [] c = [[]]"
| "SplitN2 (x # s) c =
     (if x = c then [[], s]
      else (case SplitN2 s c of [] \<Rightarrow> [[x]] | w # ws \<Rightarrow> (x # w) # ws))"

text \<open>\<open>strings.ReplaceAll(s, old, new)\<close> for a non-empty \<open>old\<close>: replaces from the left,
  without rescanning what it has written. (No call of the agents passes an empty \<open>old\<close>.)\<close>

function ReplaceAll :: "string \<Rightarrow> string \<Rightarrow> string \<Rightarrow> string" where
  "ReplaceAll [] old new = []"
| "ReplaceAll (c # s) old new =
     (if old \<noteq> [] \<and> HasPrefix (c # s) old then new @ ReplaceAll (drop (length old) (c # s)) old new
      else c # ReplaceAll s old new)"
  by pat_completeness auto
termination
  by (relation "measure (\<lambda>(s, old, new). length s)") auto

text \<open>The lines of a \<^verbatim>\<open>bufio.Scanner\<close>: it stops at a line that does not fit its buffer.\<close>

definition scanner_lines :: "string \<Rightarrow> string list" where
  "scanner_lines s = map (\<lambda>l. TrimSuffix l [CHR 0x0D]) (takeWhile (\<lambda>l. length l < 65536) (Split s nl))"

section \<open>Numbers\<close>

fun show_nat :: "nat \<Rightarrow> string" where
  "show_nat n = (if n < 10 then [char_of (48 + n)]
                 else show_nat (n div 10) @ [char_of (48 + n mod 10)])"

declare show_nat.simps [simp del]

definition show_int :: "int \<Rightarrow> string" where
  "show_int i = (if i < 0 then CHR ''-'' # show_nat (nat (- i)) else show_nat (nat i))"

definition digit_of :: "char \<Rightarrow> nat option" where
  "digit_of c = (if 48 \<le> (of_char c :: nat) \<and> (of_char c :: nat) \<le> 57
                 then Some (of_char c - 48) else None)"

definition is_digit :: "char \<Rightarrow> bool" where
  "is_digit c = (digit_of c \<noteq> None)"

text \<open>The class \<^verbatim>\<open>\s\<close> of the regular expressions.\<close>

definition re_space :: "char \<Rightarrow> bool" where
  "re_space c = (c \<in> {CHR 0x09, CHR 0x0A, CHR 0x0C, CHR 0x0D, CHR '' ''})"

fun read_digits :: "nat \<Rightarrow> string \<Rightarrow> nat option" where
  "read_digits acc [] = Some acc"
| "read_digits acc (c # cs) =
     (case digit_of c of None \<Rightarrow> None | Some d \<Rightarrow> read_digits (10 * acc + d) cs)"

definition read_nat :: "string \<Rightarrow> nat option" where
  "read_nat s = (if s = [] then None else read_digits 0 s)"

text \<open>\<open>strconv.ParseInt(s, 10, 64)\<close> and \<open>strconv.Atoi\<close>: an optional sign, at least one digit,
  and a value that fits in 64 bits.\<close>

definition ParseInt64 :: "string \<Rightarrow> int option" where
  "ParseInt64 s =
     (let (neg, ds) = (case s of [] \<Rightarrow> (False, [])
                       | c # cs \<Rightarrow> if c = CHR ''-'' then (True, cs)
                                   else if c = CHR ''+'' then (False, cs) else (False, s))
      in case read_nat ds of None \<Rightarrow> None
         | Some n \<Rightarrow> (let v = (if neg then - int n else int n)
                     in if - (2 ^ 63) \<le> v \<and> v < 2 ^ 63 then Some v else None))"

definition ParseBool :: "string \<Rightarrow> bool option" where
  "ParseBool s =
     (if s \<in> {''1'', ''t'', ''T'', ''true'', ''TRUE'', ''True''} then Some True
      else if s \<in> {''0'', ''f'', ''F'', ''false'', ''FALSE'', ''False''} then Some False
      else None)"

section \<open>Laws\<close>

lemma HasPrefix_iff: "HasPrefix s p \<longleftrightarrow> (\<exists>t. s = p @ t)"
  by (induction s p rule: HasPrefix.induct) auto

lemma HasPrefix_append [simp]: "HasPrefix (p @ t) p"
  by (simp add: HasPrefix_iff)

lemma HasSuffix_iff: "HasSuffix s p \<longleftrightarrow> (\<exists>t. s = t @ p)"
proof
  assume "HasSuffix s p"
  then obtain t where "rev s = rev p @ t"
    by (auto simp: HasSuffix_def HasPrefix_iff)
  then have "rev (rev s) = rev (rev p @ t)" by simp
  then show "\<exists>t. s = t @ p" by auto
qed (auto simp: HasSuffix_def)

lemma Index_Some: "Index s sub = Some i \<Longrightarrow> \<exists>t. drop i s = sub @ t \<and> i \<le> length s"
  by (induction s sub arbitrary: i rule: Index.induct)
     (auto simp: HasPrefix_iff split: if_splits)

lemma Index_least: "Index s sub = Some i \<Longrightarrow> j < i \<Longrightarrow> \<not> HasPrefix (drop j s) sub"
proof (induction s sub arbitrary: i j rule: Index.induct)
  case (2 c s sub)
  then show ?case by (cases j) (auto split: if_splits)
qed (simp split: if_splits)

lemma Index_prefix: "HasPrefix s sub \<Longrightarrow> Index s sub = Some 0"
  by (cases s; cases sub) auto

lemma Contains_iff: "Contains s sub \<longleftrightarrow> (\<exists>u v. s = u @ sub @ v)"
proof -
  have "Index (u @ sub @ v) sub \<noteq> None" for u v
    by (induction u) (simp_all add: Index_prefix)
  moreover have "\<exists>u v. s = u @ sub @ v" if "Index s sub = Some i" for i
    using Index_Some [OF that] by (metis append_take_drop_id)
  ultimately show ?thesis
    unfolding Contains_def by blast
qed

lemma Contains_mono: "Contains s sub \<Longrightarrow> Contains (u @ s) sub"
  unfolding Contains_iff by (metis append.assoc)

lemma TrimPrefix_append [simp]: "TrimPrefix (p @ s) p = s"
  by (simp add: TrimPrefix_def)

lemma Split_nonempty [simp]: "Split s c \<noteq> []"
  by (induction s c rule: Split.induct) (auto split: list.splits)

lemma Split_no_sep: "c \<notin> set s \<Longrightarrow> Split s c = [s]"
  by (induction s) auto

lemma Split_append_sep: "c \<notin> set w \<Longrightarrow> Split (w @ c # s) c = w # Split s c"
  by (induction w) auto

lemma Join_Cons: "ws \<noteq> [] \<Longrightarrow> Join (w # ws) sep = w @ sep @ Join ws sep"
  by (cases ws) auto

lemma Join_Split: "Join (Split s c) [c] = s"
proof (induction s)
  case (Cons x s)
  obtain w ws where sp: "Split s c = w # ws"
    by (cases "Split s c") auto
  show ?case
  proof (cases ws)
    case Nil
    with Cons sp show ?thesis by (auto simp: Join_Cons)
  next
    case (Cons v vs)
    with \<open>Join (Split s c) [c] = s\<close> sp show ?thesis by (auto simp: Join_Cons)
  qed
qed simp

lemma Split_Join:
  "ws \<noteq> [] \<Longrightarrow> (\<And>w. w \<in> set ws \<Longrightarrow> c \<notin> set w) \<Longrightarrow> Split (Join ws [c]) c = ws"
proof (induction ws)
  case (Cons w ws)
  then show ?case
    by (cases ws) (auto simp: Split_no_sep Split_append_sep)
qed simp

lemma Split_parts_no_sep: "w \<in> set (Split s c) \<Longrightarrow> c \<notin> set w"
  by (induction s arbitrary: w) (fastforce split: list.splits if_splits)+

lemma SplitN2_no_sep: "c \<notin> set s \<Longrightarrow> SplitN2 s c = [s]"
  by (induction s) auto

lemma SplitN2_append_sep: "c \<notin> set w \<Longrightarrow> SplitN2 (w @ c # s) c = [w, s]"
  by (induction w) auto

lemma SplitN2_cases:
  "(SplitN2 s c = [s] \<and> c \<notin> set s) \<or> (\<exists>w t. SplitN2 s c = [w, t] \<and> s = w @ c # t \<and> c \<notin> set w)"
proof (cases "c \<in> set s")
  case True
  then obtain w t where "s = w @ c # t" "c \<notin> set w"
    by (meson split_list_first)
  then show ?thesis by (auto simp: SplitN2_append_sep)
qed (simp add: SplitN2_no_sep)

lemma TrimFunc_idem: "TrimFunc p (TrimFunc p s) = TrimFunc p s"
proof -
  let ?m = "dropWhile p s"
  let ?r = "dropWhile p (rev ?m)"
  have "dropWhile p (rev ?r) = rev ?r"
  proof (cases "rev ?r")
    case (Cons x xs)
    obtain k where "rev ?m = k @ ?r"
      by (metis takeWhile_dropWhile_id)
    then have "?m = rev ?r @ rev k"
      by (metis rev_append rev_rev_ident)
    with Cons have "hd ?m = x" "?m \<noteq> []" by auto
    then have "\<not> p x" by (metis hd_dropWhile)
    with Cons show ?thesis by simp
  next
    case Nil
    show ?thesis unfolding Nil by simp
  qed
  then show ?thesis
    by (simp add: TrimFunc_def)
qed

lemma TrimSpace_idem [simp]: "TrimSpace (TrimSpace s) = TrimSpace s"
  by (simp add: TrimSpace_def TrimFunc_idem)

lemma set_TrimSpace: "set (TrimSpace s) \<subseteq> set s"
  unfolding TrimSpace_def TrimFunc_def by (metis set_dropWhileD set_rev subsetI)

lemma ReplaceAll_absent: "\<not> Contains s old \<Longrightarrow> ReplaceAll s old new = s"
proof (induction s old new rule: ReplaceAll.induct)
  case (2 c s old new)
  then show ?case
    by (auto simp: Contains_def split: if_splits)
qed simp

lemma ReplaceAll_char: "ReplaceAll s [a] [b] = map (\<lambda>c. if c = a then b else c) s"
  by (induction s) auto

lemma read_digits_append:
  "read_digits acc (xs @ ys) = (case read_digits acc xs of None \<Rightarrow> None | Some a \<Rightarrow> read_digits a ys)"
  by (induction xs arbitrary: acc) (auto split: option.splits)

lemma digit_of_char_of: "d < 10 \<Longrightarrow> digit_of (char_of (48 + d)) = Some d"
  by (simp add: digit_of_def)

lemma show_nat_nonempty [simp]: "show_nat n \<noteq> []"
  by (subst show_nat.simps) simp

lemma read_show_digits: "read_digits 0 (show_nat n) = Some n"
proof (induction n rule: show_nat.induct)
  case (1 n)
  show ?case
  proof (cases "n < 10")
    case True
    then show ?thesis by (subst show_nat.simps) (simp add: digit_of_char_of)
  next
    case False
    with 1 show ?thesis
      by (subst show_nat.simps) (simp add: digit_of_char_of read_digits_append)
  qed
qed

lemma read_show_nat: "read_nat (show_nat n) = Some n"
  by (simp add: read_nat_def read_show_digits)

lemma show_nat_digits: "c \<in> set (show_nat n) \<Longrightarrow> digit_of c \<noteq> None"
proof (induction n rule: show_nat.induct)
  case (1 n)
  then show ?case
    by (subst (asm) (2) show_nat.simps) (auto simp: digit_of_char_of split: if_splits)
qed

lemma show_nat_inj: "show_nat m = show_nat n \<Longrightarrow> m = n"
  by (metis option.inject read_show_nat)

lemma Split_snoc_sep: "Split (s @ [c]) c = Split s c @ [[]]"
  by (induction s) (auto split: list.splits)

lemma Join_snoc_empty: "xs \<noteq> [] \<Longrightarrow> Join (xs @ [[]]) sep = Join xs sep @ sep"
  by (induction xs sep rule: Join.induct) auto

lemma concat_lines: "ls \<noteq> [] \<Longrightarrow> concat (map (\<lambda>l. l @ [c]) ls) = Join ls [c] @ [c]"
proof (induction ls)
  case (Cons l ls)
  then show ?case by (cases ls) auto
qed simp

lemma Split_lines: "\<forall>l \<in> set ls. c \<notin> set l \<Longrightarrow> Split (concat (map (\<lambda>l. l @ [c]) ls)) c = ls @ [[]]"
  by (induction ls) (auto simp: Split_append_sep)

lemma TrimFunc_fixed_last: "TrimFunc p s = s \<Longrightarrow> s \<noteq> [] \<Longrightarrow> \<not> p (last s)"
proof -
  assume f: "TrimFunc p s = s" and ne: "s \<noteq> []"
  have "rev s = dropWhile p (rev (dropWhile p s))" using f unfolding TrimFunc_def by (metis rev_rev_ident)
  moreover have "rev s \<noteq> []" using ne by simp
  ultimately show "\<not> p (last s)" by (metis hd_dropWhile hd_rev)
qed

lemma TrimSpace_id:
  assumes "\<not> is_space (hd s)" "\<not> is_space (last s)"
  shows "TrimSpace s = s"
proof -
  have "dropWhile is_space s = s" "dropWhile is_space (rev s) = rev s"
    using assms by (auto simp: dropWhile_eq_self_iff hd_rev)
  then show ?thesis by (simp add: TrimSpace_def TrimFunc_def)
qed

lemma TrimSpace_last:
  assumes "TrimSpace s = s" "s \<noteq> []"
  shows "\<not> is_space (last s)"
proof -
  have "s = rev (dropWhile is_space (rev (dropWhile is_space s)))"
    using assms(1) by (simp add: TrimSpace_def TrimFunc_def)
  then have "rev s = dropWhile is_space (rev (dropWhile is_space s))"
    by (metis rev_rev_ident)
  then have "\<not> is_space (hd (rev s))"
    using assms(2) hd_dropWhile by (metis rev_is_Nil_conv)
  then show ?thesis by (simp add: hd_rev)
qed

lemma set_TrimPrefix: "set (TrimPrefix s p) \<subseteq> set s"
  by (simp add: TrimPrefix_def set_drop_subset)

lemma Index_iff:
  "Index s sub = Some i \<longleftrightarrow> i \<le> length s \<and> HasPrefix (drop i s) sub \<and> (\<forall>j < i. \<not> HasPrefix (drop j s) sub)"
proof
  assume "Index s sub = Some i"
  then show "i \<le> length s \<and> HasPrefix (drop i s) sub \<and> (\<forall>j < i. \<not> HasPrefix (drop j s) sub)"
    using Index_Some [of s sub i] Index_least [of s sub i] by (auto simp: HasPrefix_iff)
next
  assume r: "i \<le> length s \<and> HasPrefix (drop i s) sub \<and> (\<forall>j < i. \<not> HasPrefix (drop j s) sub)"
  then have "s = take i s @ sub @ drop (length sub) (drop i s)"
    by (metis HasPrefix_iff append_eq_conv_conj append_take_drop_id)
  then have "Contains s sub" unfolding Contains_iff by blast
  then obtain k where k: "Index s sub = Some k" by (auto simp: Contains_def)
  then have "k \<le> length s" "HasPrefix (drop k s) sub" "\<forall>j < k. \<not> HasPrefix (drop j s) sub"
    using Index_Some [of s sub k] Index_least [of s sub k] by (auto simp: HasPrefix_iff)
  with r k show "Index s sub = Some i" by (metis linorder_neqE_nat)
qed

lemma HasPrefix_take: "HasPrefix s p \<longleftrightarrow> take (length p) s = p"
  by (metis HasPrefix_iff append_eq_conv_conj append_take_drop_id)

lemma Index_common_prefix:
  assumes "Index s sub = Some i" "take (i + length sub) s' = take (i + length sub) s"
  shows "Index s' sub = Some i"
proof -
  have eq: "take (length sub) (drop j s') = take (length sub) (drop j s)" if "j \<le> i" for j
  proof -
    have "take (j + length sub) s' = take (j + length sub) s"
      using that assms(2) by (metis add_le_cancel_right min.absorb1 take_take)
    then show ?thesis by (metis add.commute take_drop)
  qed
  have r: "i \<le> length s" "take (length sub) (drop i s) = sub" "\<forall>j < i. take (length sub) (drop j s) \<noteq> sub"
    using assms(1) by (auto simp: Index_iff HasPrefix_take)
  then have "take i s' = take i s"
    using assms(2) by (metis le_add1 min.absorb1 take_take)
  then have "i \<le> length s'" using r(1) by (metis length_take min.absorb2 min.cobounded1)
  with r eq show ?thesis by (simp add: Index_iff HasPrefix_take)
qed

lemma Index_first_char:
  assumes "c \<notin> set a" "HasPrefix b (c # cs)"
  shows "Index (a @ b) (c # cs) = Some (length a)"
  using assms by (induction a) (auto simp: Index_prefix)

lemma Index_char: "Index s [c] = Some k \<Longrightarrow> s = take k s @ c # drop (Suc k) s \<and> takeWhile (\<lambda>x. x \<noteq> c) s = take k s"
  by (induction s arbitrary: k) (auto split: if_splits)

lemma Split_single: "length (Split s c) \<le> 1 \<Longrightarrow> c \<notin> set s"
proof
  assume l: "length (Split s c) \<le> 1" and "c \<in> set s"
  then obtain w t where "s = w @ c # t" "c \<notin> set w" by (meson split_list_first)
  with l show False by (simp add: Split_append_sep)
qed

lemma TrimSpace_empty: "TrimSpace s = [] \<longleftrightarrow> (\<forall>c \<in> set s. is_space c)"
proof
  assume "TrimSpace s = []"
  then have "\<forall>c \<in> set (dropWhile is_space s). is_space c"
    by (auto simp: TrimSpace_def TrimFunc_def)
  then have "dropWhile is_space s = []"
    using hd_dropWhile [of is_space s] by (cases "dropWhile is_space s") auto
  then show "\<forall>c \<in> set s. is_space c" by (simp add: dropWhile_eq_Nil_conv)
qed (auto simp: TrimSpace_def TrimFunc_def dropWhile_eq_Nil_conv dest: set_dropWhileD)

lemma ParseInt64_range: "ParseInt64 s = Some n \<Longrightarrow> - (2 ^ 63) \<le> n \<and> n < 2 ^ 63"
  by (auto simp: ParseInt64_def Let_def split: prod.splits if_splits option.splits)

lemma Split_last: "c \<notin> set b \<Longrightarrow> Split (a @ c # b) c = Split a c @ [b]"
proof (induction a)
  case Nil
  then show ?case using Split_append_sep [of c "[]" b] by (simp add: Split_no_sep)
next
  case (Cons x a)
  then show ?case by (cases "Split a c") (auto split: list.splits)
qed

lemma nl_space: "is_space nl"
  by (simp add: is_space_def)

lemma TrimSpace_snoc: "is_space c \<Longrightarrow> TrimSpace (s @ [c]) = TrimSpace s"
  by (cases "\<forall>x \<in> set s. is_space x") (auto simp: TrimSpace_def TrimFunc_def dropWhile_append dest: set_dropWhileD)

lemma Join_ends:
  "ws \<noteq> [] \<Longrightarrow> \<forall>w \<in> set ws. w \<noteq> [] \<Longrightarrow> Join ws sep \<noteq> [] \<and> hd (Join ws sep) = hd (hd ws) \<and> last (Join ws sep) = last (last ws)"
  by (induction ws sep rule: Join.induct) auto

end
