(* ===== verification/Pua_Metadata.thy ===== *)
theory Pua_Metadata
  imports Go_Strings
begin

text \<open>
  The Platform Update Agent's world and its metadata file
  (\<^verbatim>\<open>platform-update-agent/internal/metadata/metadata.go\<close>,
  \<^verbatim>\<open>internal/utils/command.go\<close>).

  Everything outside the agent is an oracle in \<open>env\<close>: what a command answers, what the clock
  reads, whether an operation on a file fails. Every interaction takes the next number
  (\<open>tick\<close>) and the oracle is a function of it, so two reads of the clock may differ and a
  command may fail once and succeed later. The world keeps the commands that were executed
  (\<open>trace\<close>), the metadata file, the other text files, the symbolic links, the agent's two
  mutexes, the state of its downloader and the jobs of its scheduler.

  The metadata file holds JSON. It is represented by what \<^verbatim>\<open>json.Unmarshal\<close> reads from it: a
  \<open>Meta\<close> (\<open>Encoded\<close>), an error (\<open>Garbage\<close>) or nothing (\<open>Empty\<close>). In the same way the
  \<open>UpdateTime\<close> text is represented by what \<^verbatim>\<open>time.Parse(time.RFC3339, _)\<close> reads from it.
  Times are nanoseconds since the epoch. A write that fails is taken to leave the old content.
\<close>

section \<open>Messages of the maintenance manager\<close>

text \<open>The fields of the protobuf messages that the agent reads.\<close>

datatype StatusType = UNSPECIFIED | UP_TO_DATE | STARTED | UPDATED | FAILED | DOWNLOADING | DOWNLOADED

record UpdateSource =
  KernelCommand :: string
  OsRepoUrl :: string
  CustomRepos :: "string list"

record OSProfile =
  OsImageUrl :: string
  OsImageSha :: string
  OsImageId :: string
  ProfileName :: string
  ProfileVersion :: string

record SingleSchedule =
  StartSeconds :: "64 word"
  EndSeconds :: "64 word"

record RepeatedSchedule =
  DurationSeconds :: "32 word"
  CronMinutes :: string
  CronHours :: string
  CronDayMonth :: string
  CronMonth :: string
  CronDayWeek :: string

section \<open>The metadata record\<close>

datatype UpdateType = NONE | SELF | INBM | OS | NEW

primrec string_of_UpdateType :: "UpdateType \<Rightarrow> string" where
  "string_of_UpdateType NONE = ''NONE''"
| "string_of_UpdateType SELF = ''SELF''"
| "string_of_UpdateType INBM = ''INBM''"
| "string_of_UpdateType OS = ''OS''"
| "string_of_UpdateType NEW = ''NEW''"

primrec string_of_StatusType :: "StatusType \<Rightarrow> string" where
  "string_of_StatusType UNSPECIFIED = ''STATUS_TYPE_UNSPECIFIED''"
| "string_of_StatusType UP_TO_DATE = ''STATUS_TYPE_UP_TO_DATE''"
| "string_of_StatusType STARTED = ''STATUS_TYPE_STARTED''"
| "string_of_StatusType UPDATED = ''STATUS_TYPE_UPDATED''"
| "string_of_StatusType FAILED = ''STATUS_TYPE_FAILED''"
| "string_of_StatusType DOWNLOADING = ''STATUS_TYPE_DOWNLOADING''"
| "string_of_StatusType DOWNLOADED = ''STATUS_TYPE_DOWNLOADED''"

record Meta =
  UpdateTime :: "int option"
  UpdateDuration :: int
  UpdateInProgress :: string
  UpdateStatus :: string
  UpdateLog :: string
  MetaSingleSchedule :: "SingleSchedule option"
  MetaRepeatedSchedules :: "RepeatedSchedule list"
  MetaUpdateSource :: "UpdateSource option"
  SingleScheduleFinished :: bool
  InstalledPackages :: string
  OSProfileUpdateSourceActual :: "OSProfile option"
  OSProfileUpdateSourceDesired :: "OSProfile option"

datatype meta_content = Empty | Garbage string | Encoded Meta

section \<open>The world\<close>

text \<open>A job of the scheduler library: its tag, the schedule it was made from, how often it has
  finished and when it runs next.\<close>

datatype job_kind = CronJob string int | OnceJob int int

record Job =
  job_tag :: string
  job_kind :: job_kind
  finished_runs :: nat
  next_run :: int

text \<open>What the two INBC log files decode to.\<close>

record InbcStatus =
  Status :: string
  StatusTime :: string
  StatusError :: string

record env =
  exec_result :: "nat \<Rightarrow> string list \<Rightarrow> string + string"
  clock :: "nat \<Rightarrow> int"
  failed_output :: "nat \<Rightarrow> string list \<Rightarrow> string"
  io_error :: "nat \<Rightarrow> string \<Rightarrow> string \<Rightarrow> string option"
  read_dir :: "nat \<Rightarrow> string \<Rightarrow> string + (string \<times> bool) list"
  MetaPath :: string
  decode_status :: "string \<Rightarrow> string + InbcStatus"
  decode_log :: "string \<Rightarrow> string list option"
  cron_next :: "nat \<Rightarrow> string \<Rightarrow> string + int"
  random_below :: "nat \<Rightarrow> int \<Rightarrow> int"
  poll_rounds :: nat

record world =
  tick :: nat
  trace :: "string list list"
  metafile :: "meta_content option"
  files :: "string \<Rightarrow> string option"
  links :: "string \<Rightarrow> bool"
  edgeNodeUpdateMutex :: bool
  operationLock :: bool
  downloadTimer :: "(int \<times> string \<times> OSProfile option) option"
  lastUpdateStart :: "int option"
  lastUpdateSource :: "OSProfile option"
  lastDownloaded :: "OSProfile option"
  jobs :: "Job list"

definition bump :: "(world, unit) action" where
  "bump = modify (\<lambda>s. s\<lparr>tick := Suc (tick s)\<rparr>)"

text \<open>\<open>io env op path\<close>: one operation on a file, which the environment lets through or fails.\<close>

definition io :: "env \<Rightarrow> string \<Rightarrow> string \<Rightarrow> (world, unit) action" where
  "io env op p = (\<lambda>s. case io_error env (tick s) op p of
     None \<Rightarrow> bump s
   | Some e \<Rightarrow> (Err e, s\<lparr>tick := Suc (tick s)\<rparr>))"

definition Now :: "env \<Rightarrow> (world, int) action" where
  "Now env = andthen (asks (\<lambda>s. clock env (tick s))) (\<lambda>t. andthen bump (\<lambda>_. ret t))"

text \<open>\<^verbatim>\<open>executor.Execute\<close>: \<^verbatim>\<open>args[0]\<close> of an empty command panics.\<close>

definition Execute :: "env \<Rightarrow> string list \<Rightarrow> (world, string) action" where
  "Execute env args = (\<lambda>s.
     if args = [] then (Crash ''index out of range'', s)
     else (case exec_result env (tick s) args of Inl e \<Rightarrow> Err e | Inr out \<Rightarrow> Ok out,
           s\<lparr>tick := Suc (tick s), trace := trace s @ [args]\<rparr>))"

text \<open>\<^verbatim>\<open>fmt.Errorf("failed to execute shell command(%v)- ", cmd)\<close>\<close>

definition shell_error :: "string list \<Rightarrow> string" where
  "shell_error cmd = ''failed to execute shell command(['' @ Join cmd '' '' @ ''])- ''"

definition enoent :: "string \<Rightarrow> string" where
  "enoent p = p @ '': no such file or directory''"

definition os_ReadFile :: "env \<Rightarrow> string \<Rightarrow> (world, string) action" where
  "os_ReadFile env p = andthen (io env ''read'' p) (\<lambda>_. andthen (asks (\<lambda>s. files s p)) (\<lambda>c.
     case c of None \<Rightarrow> fail (enoent p) | Some t \<Rightarrow> ret t))"

definition os_WriteFile :: "env \<Rightarrow> string \<Rightarrow> string \<Rightarrow> (world, unit) action" where
  "os_WriteFile env p t = andthen (io env ''write'' p) (\<lambda>_.
     modify (\<lambda>s. s\<lparr>files := (files s)(p := Some t)\<rparr>))"

text \<open>The entries of a directory, each with whether it is a directory itself.\<close>

definition os_ReadDir :: "env \<Rightarrow> string \<Rightarrow> (world, (string \<times> bool) list) action" where
  "os_ReadDir env p = andthen (asks (\<lambda>s. read_dir env (tick s) p)) (\<lambda>r. andthen bump (\<lambda>_. lift_result r))"

text \<open>\<^verbatim>\<open>utils.IsSymlink\<close>: an error when the path cannot be examined or is a symbolic link.\<close>

definition IsSymlink :: "env \<Rightarrow> string \<Rightarrow> (world, unit) action" where
  "IsSymlink env p = andthen (wrap ''lstat command failed: '' (io env ''lstat'' p)) (\<lambda>_.
     andthen (asks (\<lambda>s. files s p = None \<and> \<not> links s p \<and> (p = MetaPath env \<longrightarrow> metafile s = None)))
       (\<lambda>absent. if absent then fail (''lstat command failed: '' @ enoent p) else
     andthen (asks (\<lambda>s. links s p)) (\<lambda>l.
       if l then fail (''loading metadata failed- '' @ p @ '' is a symlink'') else ret ())))"

section \<open>Reading and writing the file\<close>

definition ReadMeta :: "env \<Rightarrow> (world, Meta) action" where
  "ReadMeta env =
     andthen (io env ''read'' (MetaPath env)) (\<lambda>_.
     andthen (asks metafile) (\<lambda>content.
     case content of None \<Rightarrow> fail (enoent (MetaPath env)) | Some c \<Rightarrow>
     andthen (IsSymlink env (MetaPath env)) (\<lambda>_.
     case c of Empty \<Rightarrow> fail ''no content found in metadata file''
     | Garbage e \<Rightarrow> fail e
     | Encoded m \<Rightarrow> ret m)))"

text \<open>A failing \<^verbatim>\<open>os.WriteFile\<close> is a \<^verbatim>\<open>log.Fatal\<close>: the agent exits.\<close>

definition writeMeta :: "env \<Rightarrow> Meta \<Rightarrow> (world, unit) action" where
  "writeMeta env m =
     andthen (IsSymlink env (MetaPath env)) (\<lambda>_.
     andthen (attempt (io env ''write'' (MetaPath env))) (\<lambda>r.
     case r of Inl e \<Rightarrow> crash e
     | Inr _ \<Rightarrow> modify (\<lambda>s. s\<lparr>metafile := Some (Encoded m)\<rparr>)))"

definition fileExists :: "env \<Rightarrow> string \<Rightarrow> (world, bool) action" where
  "fileExists env f = andthen (io env ''stat'' f) (\<lambda>_. asks (\<lambda>s. metafile s \<noteq> None))"

text \<open>A failing \<^verbatim>\<open>os.Stat\<close> is a \<^verbatim>\<open>log.Fatal\<close> here.\<close>

definition fileHasContent :: "env \<Rightarrow> (world, bool) action" where
  "fileHasContent env = andthen (attempt (io env ''stat'' (MetaPath env))) (\<lambda>r.
     case r of Inl e \<Rightarrow> crash e
     | Inr _ \<Rightarrow> andthen (asks metafile) (\<lambda>c.
         case c of None \<Rightarrow> crash (enoent (MetaPath env)) | Some t \<Rightarrow> ret (t \<noteq> Empty)))"

definition initial_meta :: Meta where
  "initial_meta = \<lparr>UpdateTime = None, UpdateDuration = 0, UpdateInProgress = [],
     UpdateStatus = string_of_StatusType UP_TO_DATE, UpdateLog = [],
     MetaSingleSchedule = None, MetaRepeatedSchedules = [], MetaUpdateSource = None,
     SingleScheduleFinished = False, InstalledPackages = [],
     OSProfileUpdateSourceActual = None, OSProfileUpdateSourceDesired = None\<rparr>"

text \<open>An error of the existence check leaves \<open>exists\<close> false; an error of the last write is
  only logged.\<close>

definition InitMetadata :: "env \<Rightarrow> (world, unit) action" where
  "InitMetadata env =
     andthen (attempt (fileExists env (MetaPath env))) (\<lambda>r.
     andthen (case r of Inr True \<Rightarrow> ret ()
              | _ \<Rightarrow> andthen (io env ''create'' (MetaPath env)) (\<lambda>_.
                     andthen (modify (\<lambda>s. s\<lparr>metafile := Some Empty\<rparr>)) (\<lambda>_.
                     io env ''chmod'' (MetaPath env)))) (\<lambda>_.
     andthen (fileHasContent env) (\<lambda>notEmpty.
     if notEmpty then ret () else ignore (writeMeta env initial_meta))))"

section \<open>Setters and getters\<close>

text \<open>Every setter reads the record, changes one field and writes it back, under the file
  mutex: one atomic step.\<close>

definition update_meta :: "env \<Rightarrow> (Meta \<Rightarrow> Meta) \<Rightarrow> (world, unit) action" where
  "update_meta env f = andthen (ReadMeta env) (\<lambda>m. writeMeta env (f m))"

definition SetMetaUpdateStatus :: "env \<Rightarrow> StatusType \<Rightarrow> (world, unit) action" where
  "SetMetaUpdateStatus env st = update_meta env (\<lambda>m. m\<lparr>UpdateStatus := string_of_StatusType st\<rparr>)"

definition SetMetaUpdateLog :: "env \<Rightarrow> string \<Rightarrow> (world, unit) action" where
  "SetMetaUpdateLog env l = update_meta env (\<lambda>m. m\<lparr>UpdateLog := l\<rparr>)"

definition SetMetaUpdateSource :: "env \<Rightarrow> UpdateSource option \<Rightarrow> (world, unit) action" where
  "SetMetaUpdateSource env u = update_meta env (\<lambda>m. m\<lparr>MetaUpdateSource := u\<rparr>)"

text \<open>A nil single schedule, or a nil slice of repeated ones, keeps what is stored.\<close>

definition SetMetaSchedules ::
  "env \<Rightarrow> SingleSchedule option \<Rightarrow> RepeatedSchedule list option \<Rightarrow> bool \<Rightarrow> (world, unit) action" where
  "SetMetaSchedules env single repeated finished = update_meta env (\<lambda>m.
     m\<lparr>MetaSingleSchedule := (case single of None \<Rightarrow> MetaSingleSchedule m | Some x \<Rightarrow> Some x),
       MetaRepeatedSchedules := (case repeated of None \<Rightarrow> MetaRepeatedSchedules m | Some x \<Rightarrow> x),
       SingleScheduleFinished := finished\<rparr>)"

definition SetSingleScheduleFinished :: "env \<Rightarrow> bool \<Rightarrow> (world, unit) action" where
  "SetSingleScheduleFinished env b = update_meta env (\<lambda>m. m\<lparr>SingleScheduleFinished := b\<rparr>)"

definition SetMetaUpdateInProgress :: "env \<Rightarrow> UpdateType \<Rightarrow> (world, unit) action" where
  "SetMetaUpdateInProgress env t = update_meta env (\<lambda>m. m\<lparr>UpdateInProgress := string_of_UpdateType t\<rparr>)"

definition SetMetaUpdateDuration :: "env \<Rightarrow> int \<Rightarrow> (world, unit) action" where
  "SetMetaUpdateDuration env d = update_meta env (\<lambda>m. m\<lparr>UpdateDuration := d\<rparr>)"

text \<open>The RFC 3339 text keeps whole seconds.\<close>

definition SetMetaUpdateTime :: "env \<Rightarrow> int \<Rightarrow> (world, unit) action" where
  "SetMetaUpdateTime env t = update_meta env (\<lambda>m. m\<lparr>UpdateTime := Some (t div 1000000000)\<rparr>)"

definition SetInstalledPackages :: "env \<Rightarrow> string \<Rightarrow> (world, unit) action" where
  "SetInstalledPackages env p = update_meta env (\<lambda>m. m\<lparr>InstalledPackages := p\<rparr>)"

definition SetMetaOSProfileUpdateSourceActual :: "env \<Rightarrow> OSProfile option \<Rightarrow> (world, unit) action" where
  "SetMetaOSProfileUpdateSourceActual env p = update_meta env (\<lambda>m. m\<lparr>OSProfileUpdateSourceActual := p\<rparr>)"

definition SetMetaOSProfileUpdateSourceDesired :: "env \<Rightarrow> OSProfile option \<Rightarrow> (world, unit) action" where
  "SetMetaOSProfileUpdateSourceDesired env p = update_meta env (\<lambda>m. m\<lparr>OSProfileUpdateSourceDesired := p\<rparr>)"

definition get_meta :: "env \<Rightarrow> (Meta \<Rightarrow> 'a) \<Rightarrow> (world, 'a) action" where
  "get_meta env f = andthen (ReadMeta env) (\<lambda>m. ret (f m))"

definition GetMetaUpdateSource :: "env \<Rightarrow> (world, UpdateSource option) action" where
  "GetMetaUpdateSource env = get_meta env MetaUpdateSource"

definition convertStatusType :: "string \<Rightarrow> StatusType" where
  "convertStatusType s =
     (if s = string_of_StatusType UP_TO_DATE then UP_TO_DATE
      else if s = string_of_StatusType STARTED then STARTED
      else if s = string_of_StatusType UPDATED then UPDATED
      else if s = string_of_StatusType FAILED then FAILED
      else if s = string_of_StatusType DOWNLOADING then DOWNLOADING
      else if s = string_of_StatusType DOWNLOADED then DOWNLOADED
      else UNSPECIFIED)"

definition GetMetaUpdateStatus :: "env \<Rightarrow> (world, StatusType) action" where
  "GetMetaUpdateStatus env = get_meta env (\<lambda>m. convertStatusType (UpdateStatus m))"

definition GetMetaUpdateLog :: "env \<Rightarrow> (world, string) action" where
  "GetMetaUpdateLog env = get_meta env UpdateLog"

definition GetMetaUpdateInProgress :: "env \<Rightarrow> (world, string) action" where
  "GetMetaUpdateInProgress env = get_meta env UpdateInProgress"

definition GetMetaUpdateDuration :: "env \<Rightarrow> (world, int) action" where
  "GetMetaUpdateDuration env = get_meta env UpdateDuration"

definition GetMetaUpdateTime :: "env \<Rightarrow> (world, int) action" where
  "GetMetaUpdateTime env = andthen (ReadMeta env) (\<lambda>m.
     case UpdateTime m of None \<Rightarrow> fail ''cannot parse update time'' | Some t \<Rightarrow> ret (t * 1000000000))"

definition GetInstalledPackages :: "env \<Rightarrow> (world, string) action" where
  "GetInstalledPackages env = get_meta env InstalledPackages"

definition GetMetaOSProfileUpdateSourceActual :: "env \<Rightarrow> (world, OSProfile option) action" where
  "GetMetaOSProfileUpdateSourceActual env = get_meta env OSProfileUpdateSourceActual"

definition GetMetaOSProfileUpdateSourceDesired :: "env \<Rightarrow> (world, OSProfile option) action" where
  "GetMetaOSProfileUpdateSourceDesired env = get_meta env OSProfileUpdateSourceDesired"

text \<open>\<^verbatim>\<open>time.Unix(int64(x), 0)\<close>: the 64-bit value is read as signed.\<close>

definition Unix :: "64 word \<Rightarrow> int" where
  "Unix x = sint x * 1000000000"

definition in_window :: "int \<Rightarrow> SingleSchedule \<Rightarrow> bool" where
  "in_window t w = (Unix (StartSeconds w) < t \<and> t < Unix (EndSeconds w))"

definition IsInsideSingleScheduleWindow :: "env \<Rightarrow> int \<Rightarrow> (world, bool) action" where
  "IsInsideSingleScheduleWindow env currentTime = andthen (ReadMeta env) (\<lambda>m.
     case MetaSingleSchedule m of None \<Rightarrow> ret False
     | Some w \<Rightarrow> ret (in_window currentTime w))"

section \<open>Preservation rules\<close>

text \<open>Most invariants do not mention the interaction counter; then every interaction that only
  looks at the environment keeps them.\<close>

definition env_blind :: "(world \<Rightarrow> bool) \<Rightarrow> bool" where
  "env_blind I \<longleftrightarrow> (\<forall>s n. I s \<longrightarrow> I (s\<lparr>tick := n\<rparr>))"

lemma keeps_bump [keeps_rules]: "env_blind I \<Longrightarrow> keeps I bump"
  by (simp add: keeps_def bump_def modify_def env_blind_def)

lemma keeps_io [keeps_rules]: "env_blind I \<Longrightarrow> keeps I (io env op p)"
  by (simp add: keeps_def io_def bump_def modify_def env_blind_def split: option.splits)

lemma keeps_Now [keeps_rules]: "env_blind I \<Longrightarrow> keeps I (Now env)"
  unfolding Now_def by (intro keeps_rules)

lemma keeps_os_ReadFile [keeps_rules]: "env_blind I \<Longrightarrow> keeps I (os_ReadFile env p)"
  unfolding os_ReadFile_def by (intro keeps_rules)

lemma keeps_os_ReadDir [keeps_rules]: "env_blind I \<Longrightarrow> keeps I (os_ReadDir env p)"
  unfolding os_ReadDir_def by (intro keeps_rules)

lemma keeps_os_WriteFile:
  "env_blind I \<Longrightarrow> (\<And>s. I s \<Longrightarrow> I (s\<lparr>files := (files s)(p := Some t)\<rparr>)) \<Longrightarrow> keeps I (os_WriteFile env p t)"
  unfolding os_WriteFile_def by (intro keeps_rules) (simp_all add: keeps_def modify_def)

lemma keeps_IsSymlink [keeps_rules]: "env_blind I \<Longrightarrow> keeps I (IsSymlink env p)"
  unfolding IsSymlink_def by (intro keeps_rules)

lemma keeps_Execute:
  "env_blind I \<Longrightarrow> (\<And>s. I s \<Longrightarrow> I (s\<lparr>trace := trace s @ [args]\<rparr>)) \<Longrightarrow> keeps I (Execute env args)"
proof (rule keepsI)
  fix s assume blind: "env_blind I" and ext: "\<And>s. I s \<Longrightarrow> I (s\<lparr>trace := trace s @ [args]\<rparr>)" and "I s"
  have "I (s\<lparr>trace := trace s @ [args]\<rparr>\<lparr>tick := Suc (tick s)\<rparr>)"
    using blind ext [OF \<open>I s\<close>] unfolding env_blind_def by blast
  moreover have "s\<lparr>trace := trace s @ [args]\<rparr>\<lparr>tick := Suc (tick s)\<rparr> =
      s\<lparr>tick := Suc (tick s), trace := trace s @ [args]\<rparr>" by simp
  ultimately have "I (s\<lparr>tick := Suc (tick s), trace := trace s @ [args]\<rparr>)" by metis
  then show "I (snd (Execute env args s))"
    using \<open>I s\<close> by (simp add: Execute_def)
qed

lemma keeps_ReadMeta [keeps_rules]: "env_blind I \<Longrightarrow> keeps I (ReadMeta env)"
proof -
  assume blind: "env_blind I"
  have "keeps I (case c of Empty \<Rightarrow> fail a | Garbage e \<Rightarrow> fail e | Encoded m \<Rightarrow> ret m)" for a c
    by (cases c) (auto intro: keeps_rules)
  with blind show ?thesis
    unfolding ReadMeta_def by (auto intro!: keeps_rules)
qed

lemma keeps_get_meta [keeps_rules]: "env_blind I \<Longrightarrow> keeps I (get_meta env f)"
  unfolding get_meta_def by (intro keeps_rules)

lemma keeps_writeMeta:
  assumes "env_blind I" "\<And>s. I s \<Longrightarrow> I (s\<lparr>metafile := Some (Encoded m)\<rparr>)"
  shows "keeps I (writeMeta env m)"
  unfolding writeMeta_def
  by (intro keeps_rules assms(1)) (simp add: keeps_def modify_def assms(2))

lemma keeps_update_meta:
  assumes "env_blind I" "\<And>s m. I s \<Longrightarrow> I (s\<lparr>metafile := Some (Encoded m)\<rparr>)"
  shows "keeps I (update_meta env f)"
  unfolding update_meta_def by (intro keeps_rules keeps_writeMeta assms)

lemmas setter_defs = SetMetaUpdateStatus_def SetMetaUpdateLog_def SetMetaUpdateSource_def
  SetMetaSchedules_def SetSingleScheduleFinished_def SetMetaUpdateInProgress_def
  SetMetaUpdateDuration_def SetMetaUpdateTime_def SetInstalledPackages_def
  SetMetaOSProfileUpdateSourceActual_def SetMetaOSProfileUpdateSourceDesired_def

lemmas getter_defs = GetMetaUpdateSource_def GetMetaUpdateStatus_def GetMetaUpdateLog_def
  GetMetaUpdateInProgress_def GetMetaUpdateDuration_def GetInstalledPackages_def
  GetMetaOSProfileUpdateSourceActual_def GetMetaOSProfileUpdateSourceDesired_def

lemma keeps_GetMetaUpdateTime [keeps_rules]: "env_blind I \<Longrightarrow> keeps I (GetMetaUpdateTime env)"
  unfolding GetMetaUpdateTime_def by (intro keeps_rules)

lemma keeps_getters [keeps_rules]:
  assumes "env_blind I"
  shows "keeps I (GetMetaUpdateSource env)" "keeps I (GetMetaUpdateStatus env)"
    "keeps I (GetMetaUpdateLog env)" "keeps I (GetMetaUpdateInProgress env)"
    "keeps I (GetMetaUpdateDuration env)" "keeps I (GetInstalledPackages env)"
    "keeps I (GetMetaOSProfileUpdateSourceActual env)"
    "keeps I (GetMetaOSProfileUpdateSourceDesired env)"
  unfolding getter_defs by (intro keeps_rules assms)+

lemma keeps_IsInsideSingleScheduleWindow [keeps_rules]:
  "env_blind I \<Longrightarrow> keeps I (IsInsideSingleScheduleWindow env t)"
  unfolding IsInsideSingleScheduleWindow_def by (intro keeps_rules)

section \<open>The well-formed metadata file\<close>

definition wf_meta :: "Meta \<Rightarrow> bool" where
  "wf_meta m \<longleftrightarrow> UpdateStatus m \<in> range string_of_StatusType \<and>
     (UpdateInProgress m = [] \<or> UpdateInProgress m \<in> range string_of_UpdateType)"

definition meta_ok :: "world \<Rightarrow> bool" where
  "meta_ok s \<longleftrightarrow> (\<exists>m. metafile s = Some (Encoded m) \<and> wf_meta m)"

lemma env_blind_meta_ok [keeps_rules]: "env_blind meta_ok"
  by (simp add: env_blind_def meta_ok_def)

lemma ReadMeta_result:
  assumes "ReadMeta env s = (Ok m, t)"
  shows "metafile s = Some (Encoded m) \<and> (\<exists>n. t = s\<lparr>tick := n\<rparr>) \<and> \<not> links s (MetaPath env)"
  using assms
  by (auto simp: ReadMeta_def IsSymlink_def andthen_def wrap_def io_def bump_def modify_def asks_def
        fail_def ret_def split: option.splits outcome.splits prod.splits if_splits meta_content.splits)

lemma keeps_update_meta_ok:
  assumes "\<And>m. wf_meta m \<Longrightarrow> wf_meta (f m)"
  shows "keeps meta_ok (update_meta env f)"
proof (rule keepsI)
  fix s assume ok: "meta_ok s"
  show "meta_ok (snd (update_meta env f s))"
  proof (cases "ReadMeta env s")
    case (Pair r t)
    have t: "meta_ok t"
      using keepsD [OF keeps_ReadMeta [OF env_blind_meta_ok] ok Pair] .
    show ?thesis
    proof (cases r)
      case (Ok m)
      with ReadMeta_result [of env s m t] Pair ok have "wf_meta m"
        by (auto simp: meta_ok_def)
      then have "keeps meta_ok (writeMeta env (f m))"
        by (intro keeps_writeMeta env_blind_meta_ok) (auto simp: meta_ok_def assms)
      with t Ok Pair show ?thesis
        by (simp add: update_meta_def action_simps keeps_def)
    qed (use t Pair in \<open>simp_all add: update_meta_def action_simps\<close>)
  qed
qed

text \<open>An invariant is \<open>robust\<close> when no interaction with the environment, no command, no write of an
  ordinary file and no well-formed change of the metadata record breaks it. Every operation
  that only does these things keeps it: \<open>meta_ok\<close> is robust, and so is a statement about a field
  that the operation does not touch.\<close>

definition robust :: "(world \<Rightarrow> bool) \<Rightarrow> bool" where
  "robust I \<longleftrightarrow> env_blind I \<and> (\<forall>s t. I s \<longrightarrow> I (s\<lparr>trace := t\<rparr>)) \<and> (\<forall>s f. I s \<longrightarrow> I (s\<lparr>files := f\<rparr>)) \<and>
     (\<forall>env f. (\<forall>m. wf_meta m \<longrightarrow> wf_meta (f m)) \<longrightarrow> keeps I (update_meta env f))"

lemma robust_env_blind [keeps_rules]: "robust I \<Longrightarrow> env_blind I"
  by (simp add: robust_def)

lemma robust_meta_ok [keeps_rules]: "robust meta_ok"
  by (simp add: robust_def env_blind_meta_ok keeps_update_meta_ok) (simp add: meta_ok_def)

lemma robust_frame:
  assumes "\<And>s n. I (s\<lparr>tick := n\<rparr>) = I s" "\<And>s t. I (s\<lparr>trace := t\<rparr>) = I s"
    "\<And>s f. I (s\<lparr>files := f\<rparr>) = I s" "\<And>s m. I (s\<lparr>metafile := m\<rparr>) = I s"
  shows "robust I"
proof -
  have "env_blind I" by (simp add: env_blind_def assms)
  then show ?thesis by (simp add: robust_def assms keeps_update_meta)
qed

lemma robust_fields [keeps_rules]:
  "robust (\<lambda>s. P (jobs s))" "robust (\<lambda>s. operationLock s = b)" "robust (\<lambda>s. edgeNodeUpdateMutex s = b)"
  "robust (\<lambda>s. lastDownloaded s = d)" "robust (\<lambda>s. downloadTimer s = t)"
  by (rule robust_frame; simp)+

lemma keeps_modify: "(\<And>s. I s \<Longrightarrow> I (f s)) \<Longrightarrow> keeps I (modify f)"
  by (simp add: keeps_def modify_def)

lemma keeps_effects [keeps_rules]:
  assumes "robust I"
  shows "keeps I (Execute env args)" "keeps I (os_WriteFile env p t)"
  using assms
  by (auto intro!: keeps_Execute keeps_os_WriteFile robust_env_blind) (auto simp: robust_def)

lemma keeps_setters [keeps_rules]:
  assumes "robust I"
  shows "keeps I (SetMetaUpdateStatus env st)" "keeps I (SetMetaUpdateLog env l)"
  "keeps I (SetMetaUpdateSource env u)" "keeps I (SetMetaSchedules env sg rp fin)"
  "keeps I (SetSingleScheduleFinished env b)" "keeps I (SetMetaUpdateInProgress env ty)"
  "keeps I (SetMetaUpdateDuration env d)" "keeps I (SetMetaUpdateTime env tm)"
  "keeps I (SetInstalledPackages env p)"
  "keeps I (SetMetaOSProfileUpdateSourceActual env os)"
  "keeps I (SetMetaOSProfileUpdateSourceDesired env os)"
  using assms unfolding setter_defs robust_def by (simp_all add: wf_meta_def)

lemma string_of_StatusType_inj: "inj string_of_StatusType"
proof (rule injI)
  fix x y show "string_of_StatusType x = string_of_StatusType y \<Longrightarrow> x = y"
    by (cases x; cases y) simp_all
qed

lemma convert_string_of: "convertStatusType (string_of_StatusType st) = st"
  by (cases st) (simp_all add: convertStatusType_def)

section \<open>A metadata file that can be used, and the contract of a field\<close>

definition stored :: "env \<Rightarrow> Meta \<Rightarrow> world \<Rightarrow> bool" where
  "stored env m s \<longleftrightarrow> (\<forall>n op p. io_error env n op p = None) \<and>
     metafile s = Some (Encoded m) \<and> \<not> links s (MetaPath env)"

lemma io_healthy: "\<forall>n op p. io_error env n op p = None \<Longrightarrow>
  io env op p s = (Ok (), s\<lparr>tick := Suc (tick s)\<rparr>)"
  by (simp add: io_def bump_def modify_def)

lemma ReadMeta_stored:
  "stored env m s \<Longrightarrow> ReadMeta env s = (Ok m, s\<lparr>tick := tick s + 2\<rparr>)"
  by (simp add: stored_def ReadMeta_def IsSymlink_def io_healthy action_simps)

lemma writeMeta_stored:
  "stored env m s \<Longrightarrow>
   writeMeta env m' s = (Ok (), s\<lparr>tick := tick s + 2, metafile := Some (Encoded m')\<rparr>)"
  by (simp add: stored_def writeMeta_def IsSymlink_def io_healthy action_simps)

lemma stored_tick [simp]: "stored env m (s\<lparr>tick := n\<rparr>) = stored env m s"
  by (simp add: stored_def)

lemma update_meta_stored:
  "stored env m s \<Longrightarrow>
   update_meta env f s = (Ok (), s\<lparr>tick := tick s + 4, metafile := Some (Encoded (f m))\<rparr>)"
  by (simp add: update_meta_def ReadMeta_stored writeMeta_stored [of env m] action_simps)

lemma stored_update:
  "stored env m s \<Longrightarrow> stored env m' (s\<lparr>tick := n, metafile := Some (Encoded m')\<rparr>)"
  by (simp add: stored_def)

lemma get_meta_stored:
  "stored env m s \<Longrightarrow> get_meta env f s = (Ok (f m), s\<lparr>tick := tick s + 2\<rparr>)"
  by (simp add: get_meta_def ReadMeta_stored action_simps)

text \<open>The contract between a setter and its getter, on which the other components rely: on a
  usable file the setter succeeds and changes the record by \<open>upd\<close>, the getter returns \<open>proj\<close>
  of the record and changes nothing in it.\<close>

locale meta_field =
  fixes env :: env
    and put :: "'v \<Rightarrow> (world, unit) action"
    and get :: "(world, 'v) action"
    and upd :: "'v \<Rightarrow> Meta \<Rightarrow> Meta"
    and proj :: "Meta \<Rightarrow> 'v"
  assumes put_stored: "stored env m s \<Longrightarrow> \<exists>s'. put v s = (Ok (), s') \<and> stored env (upd v m) s'"
    and get_stored: "stored env m s \<Longrightarrow> \<exists>s'. get s = (Ok (proj m), s') \<and> stored env m s'"
    and proj_upd: "proj (upd v m) = v"
    and upd_upd: "upd w (upd v m) = upd w m"
begin

lemma get_after_put:
  assumes "stored env m s"
  shows "\<exists>s'. andthen (put v) (\<lambda>_. get) s = (Ok v, s') \<and> stored env (upd v m) s'"
  using put_stored [OF assms, of v] get_stored proj_upd by (metis andthen_Ok)

lemma put_put:
  assumes "stored env m s"
  shows "\<exists>s'. andthen (put v) (\<lambda>_. put w) s = (Ok (), s') \<and> stored env (upd w m) s'"
  using put_stored [OF assms, of v] put_stored upd_upd by (metis andthen_Ok)

end

lemmas meta_field_simps = update_meta_stored get_meta_stored stored_def setter_defs getter_defs

interpretation status_field: meta_field env "SetMetaUpdateStatus env" "GetMetaUpdateStatus env"
  "\<lambda>st m. m\<lparr>UpdateStatus := string_of_StatusType st\<rparr>" "\<lambda>m. convertStatusType (UpdateStatus m)" for env
  by unfold_locales (simp_all add: setter_defs getter_defs update_meta_stored get_meta_stored stored_update convert_string_of)

interpretation log_field: meta_field env "SetMetaUpdateLog env" "GetMetaUpdateLog env"
  "\<lambda>l m. m\<lparr>UpdateLog := l\<rparr>" UpdateLog for env
  by unfold_locales (simp_all add: setter_defs getter_defs update_meta_stored get_meta_stored stored_update)

interpretation source_field: meta_field env "SetMetaUpdateSource env" "GetMetaUpdateSource env"
  "\<lambda>u m. m\<lparr>MetaUpdateSource := u\<rparr>" MetaUpdateSource for env
  by unfold_locales (simp_all add: setter_defs getter_defs update_meta_stored get_meta_stored stored_update)

interpretation duration_field: meta_field env "SetMetaUpdateDuration env" "GetMetaUpdateDuration env"
  "\<lambda>d m. m\<lparr>UpdateDuration := d\<rparr>" UpdateDuration for env
  by unfold_locales (simp_all add: setter_defs getter_defs update_meta_stored get_meta_stored stored_update)

interpretation packages_field: meta_field env "SetInstalledPackages env" "GetInstalledPackages env"
  "\<lambda>p m. m\<lparr>InstalledPackages := p\<rparr>" InstalledPackages for env
  by unfold_locales (simp_all add: setter_defs getter_defs update_meta_stored get_meta_stored stored_update)

interpretation actual_field: meta_field env "SetMetaOSProfileUpdateSourceActual env"
  "GetMetaOSProfileUpdateSourceActual env"
  "\<lambda>p m. m\<lparr>OSProfileUpdateSourceActual := p\<rparr>" OSProfileUpdateSourceActual for env
  by unfold_locales (simp_all add: setter_defs getter_defs update_meta_stored get_meta_stored stored_update)

interpretation desired_field: meta_field env "SetMetaOSProfileUpdateSourceDesired env"
  "GetMetaOSProfileUpdateSourceDesired env"
  "\<lambda>p m. m\<lparr>OSProfileUpdateSourceDesired := p\<rparr>" OSProfileUpdateSourceDesired for env
  by unfold_locales (simp_all add: setter_defs getter_defs update_meta_stored get_meta_stored stored_update)

section \<open>Reading never panics\<close>

lemma safe_io [safe_rules]: "safe (io env op p)"
  by (simp add: safe_def io_def bump_def action_simps split: option.splits)

lemma safe_bump [safe_rules]: "safe bump"
  by (simp add: bump_def safe_basic)

lemma safe_Execute [safe_rules]: "args \<noteq> [] \<Longrightarrow> safe (Execute env args)"
  by (simp add: safe_def Execute_def split: sum.splits)

lemma safe_reads [safe_rules]: "safe (os_ReadFile env p)" "safe (IsSymlink env p)" "safe (Now env)"
  "safe (os_WriteFile env p t)" "safe (os_ReadDir env p)"
  unfolding os_ReadFile_def IsSymlink_def Now_def os_WriteFile_def os_ReadDir_def by (intro safe_rules)+

lemma safe_ReadMeta [safe_rules]: "safe (ReadMeta env)"
proof -
  have "safe (case c of Empty \<Rightarrow> fail a | Garbage e \<Rightarrow> fail e | Encoded m \<Rightarrow> ret m)" for a c
    by (cases c) (simp_all add: safe_basic)
  then show ?thesis
    unfolding ReadMeta_def by (intro safe_rules)
qed

lemma safe_get_meta [safe_rules]: "safe (get_meta env f)"
  unfolding get_meta_def by (intro safe_rules)

section \<open>What an operation on the file may change\<close>

lemma only_tick:
  assumes "\<And>I. env_blind I \<Longrightarrow> keeps I m" "m s = (r, t)"
  shows "\<exists>n. t = s\<lparr>tick := n\<rparr>"
proof -
  let ?I = "\<lambda>x. \<exists>n. x = s\<lparr>tick := n\<rparr>"
  have "env_blind ?I" by (auto simp: env_blind_def)
  then have "keeps ?I m" by (rule assms(1))
  moreover have "?I s" by (rule exI [of _ "tick s"]) simp
  ultimately show ?thesis using assms(2) by (rule keepsD)
qed

lemma get_meta_result:
  assumes "get_meta env f s = (r, t)"
  shows "\<exists>n. t = s\<lparr>tick := n\<rparr>" "r = Ok x \<Longrightarrow> \<exists>m. metafile s = Some (Encoded m) \<and> x = f m"
proof -
  show "\<exists>n. t = s\<lparr>tick := n\<rparr>"
    using only_tick [OF keeps_get_meta assms] .
  assume "r = Ok x"
  with assms obtain m s' where "ReadMeta env s = (Ok m, s')" "x = f m"
    by (auto simp: get_meta_def andthen_eq_Ok ret_def)
  then show "\<exists>m. metafile s = Some (Encoded m) \<and> x = f m"
    using ReadMeta_result by blast
qed

lemma keeps_IsSymlink_only: "IsSymlink env p s = (r, t) \<Longrightarrow> \<exists>n. t = s\<lparr>tick := n\<rparr>"
  by (rule only_tick) (rule keeps_IsSymlink)

lemma writeMeta_result:
  assumes "writeMeta env m s = (r, t)"
  shows "(\<exists>n. t = s\<lparr>tick := n\<rparr> \<and> r \<noteq> Ok ()) \<or> (\<exists>n. t = s\<lparr>tick := n, metafile := Some (Encoded m)\<rparr> \<and> r = Ok ())"
proof (cases "IsSymlink env (MetaPath env) s")
  case (Pair a u)
  from keeps_IsSymlink_only [OF this] obtain n where "u = s\<lparr>tick := n\<rparr>" by blast
  with assms Pair show ?thesis
    by (auto simp: writeMeta_def action_simps io_def bump_def split: outcome.splits option.splits)
qed

lemma update_meta_result:
  assumes "update_meta env f s = (r, t)"
  shows "(\<exists>n. t = s\<lparr>tick := n\<rparr> \<and> r \<noteq> Ok ()) \<or>
    (\<exists>m n. metafile s = Some (Encoded m) \<and> t = s\<lparr>tick := n, metafile := Some (Encoded (f m))\<rparr> \<and> r = Ok ())"
proof (cases "ReadMeta env s")
  case (Pair a u)
  have u: "\<exists>n. u = s\<lparr>tick := n\<rparr>"
    using only_tick [OF keeps_ReadMeta Pair] .
  show ?thesis
  proof (cases a)
    case (Ok m)
    with Pair have "metafile s = Some (Encoded m)" using ReadMeta_result by blast
    with Ok Pair assms u writeMeta_result [of env "f m" u r t] show ?thesis
      by (auto simp: update_meta_def action_simps)
  qed (use Pair assms u in \<open>auto simp: update_meta_def action_simps\<close>)
qed

lemma GetMetaUpdateTime_stored:
  "stored env m s \<Longrightarrow> UpdateTime m = Some t0 \<Longrightarrow>
   GetMetaUpdateTime env s = (Ok (t0 * 1000000000), s\<lparr>tick := tick s + 2\<rparr>)"
  by (simp add: GetMetaUpdateTime_def action_simps ReadMeta_stored)

lemma update_meta_step:
  assumes "stored env m s"
  obtains s' where "update_meta env f s = (Ok (), s')" "stored env (f m) s'" "files s' = files s"
    "trace s' = trace s" "tick s' = tick s + 4" "edgeNodeUpdateMutex s' = edgeNodeUpdateMutex s"
  using update_meta_stored [OF assms, of f] stored_update [OF assms] that by simp

lemma stored_metafile: "stored env m s \<Longrightarrow> metafile s = Some (Encoded m)"
  by (simp add: stored_def)

lemma os_ReadFile_healthy:
  "\<forall>n op p. io_error env n op p = None \<Longrightarrow> os_ReadFile env p s =
    ((case files s p of None \<Rightarrow> Err (enoent p) | Some c \<Rightarrow> Ok c), s\<lparr>tick := Suc (tick s)\<rparr>)"
  by (simp add: os_ReadFile_def action_simps io_healthy split: option.splits)

text \<open>\<open>usable\<close>: no operation on a file fails and the metadata file holds a record.\<close>

definition usable :: "env \<Rightarrow> world \<Rightarrow> bool" where
  "usable env s \<longleftrightarrow> (\<exists>m. stored env m s)"

lemma robust_usable [keeps_rules]: "robust (usable env)"
proof -
  have "usable env s \<Longrightarrow> usable env (s\<lparr>tick := n\<rparr>)" "usable env s \<Longrightarrow> usable env (s\<lparr>trace := t\<rparr>)"
     "usable env s \<Longrightarrow> usable env (s\<lparr>files := f\<rparr>)" 
     "usable env s \<Longrightarrow> usable env (s\<lparr>tick := n, metafile := Some (Encoded m)\<rparr>)" for s n t f m
    by (auto simp: usable_def stored_def)
  moreover have "keeps (usable env) (update_meta env' f)" for env' f
  proof (rule keepsI)
    fix s assume u: "usable env s"
    obtain r t where e: "update_meta env' f s = (r, t)" by fastforce
    with update_meta_result [OF e] u show "usable env (snd (update_meta env' f s))"
      by (auto simp: usable_def stored_def)
  qed
  ultimately show ?thesis
    by (simp add: robust_def env_blind_def)
qed

lemma usable_frame: "usable env (s\<lparr>edgeNodeUpdateMutex := b\<rparr>) = usable env s"
  by (simp add: usable_def stored_def)

section \<open>A calm environment\<close>

text \<open>In the examples every command and every operation on a file succeeds and the clock stands still.\<close>

definition calm_env :: env where
  "calm_env = \<lparr>exec_result = \<lambda>n c. Inr [], clock = \<lambda>n. 5000000000, failed_output = \<lambda>n c. [],
     io_error = \<lambda>n op p. None, read_dir = \<lambda>n p. Inr [], MetaPath = ''meta'',
     decode_status = \<lambda>c. Inl ''bad'', decode_log = \<lambda>c. None, cron_next = \<lambda>n c. Inr 7000000000,
     random_below = \<lambda>n d. 0, poll_rounds = 1\<rparr>"

definition calm_world :: "Meta \<Rightarrow> world" where
  "calm_world m = \<lparr>tick = 0, trace = [], metafile = Some (Encoded m), files = (\<lambda>p. None), links = (\<lambda>p. False),
     edgeNodeUpdateMutex = False, operationLock = False, downloadTimer = None, lastUpdateStart = None,
     lastUpdateSource = None, lastDownloaded = None, jobs = []\<rparr>"

lemma calm_stored [simp]: "stored calm_env m (calm_world m)"
  by (simp add: stored_def calm_env_def calm_world_def)

lemmas run_simps = action_simps io_def bump_def ReadMeta_def writeMeta_def IsSymlink_def update_meta_def
  get_meta_def Execute_def Now_def setter_defs getter_defs calm_env_def calm_world_def

definition image_a :: OSProfile where
  "image_a = \<lparr>OsImageUrl = ''u'', OsImageSha = ''a'', OsImageId = [], ProfileName = [], ProfileVersion = []\<rparr>"

end
