(* ===== verification/Go_Url.thy ===== *)
theory Go_Url
  imports Go_Strings
begin

text \<open>
  Go's \<^verbatim>\<open>net/url.Parse\<close> as far as the agents read its result (scheme, host, path), and a
  matcher for the one kind of regular expression they use: a sequence of literals and of
  repeated character classes, with captures. Zones of IPv6 literals are read like the rest
  of the host.
\<close>

section \<open>Percent-encoding\<close>

definition hex_val :: "char \<Rightarrow> nat option" where
  "hex_val c = (let n = (of_char c :: nat) in
     if 48 \<le> n \<and> n \<le> 57 then Some (n - 48)
     else if 97 \<le> n \<and> n \<le> 102 then Some (n - 87)
     else if 65 \<le> n \<and> n \<le> 70 then Some (n - 55) else None)"

text \<open>\<open>unescape ok s\<close>: \<open>ok\<close> says which decoded bytes may be written as \<^verbatim>\<open>%xy\<close>.\<close>

fun unescape :: "(nat \<Rightarrow> bool) \<Rightarrow> string \<Rightarrow> string option" where
  "unescape ok [] = Some []"
| "unescape ok (c # s) =
     (if c = CHR ''%'' then
        (case s of a # b # t \<Rightarrow>
           (case (hex_val a, hex_val b) of (Some x, Some y) \<Rightarrow>
              (if ok (16 * x + y) then map_option (\<lambda>r. char_of (16 * x + y) # r) (unescape ok t) else None)
            | _ \<Rightarrow> None)
         | _ \<Rightarrow> None)
      else map_option (\<lambda>r. c # r) (unescape ok s))"

definition host_char :: "char \<Rightarrow> bool" where
  "host_char c = (let n = (of_char c :: nat) in
     128 \<le> n \<or> (48 \<le> n \<and> n \<le> 57) \<or> (65 \<le> n \<and> n \<le> 90) \<or> (97 \<le> n \<and> n \<le> 122)
     \<or> c \<in> set ''-_.~!$&()*+,;=:[]<>%'' \<or> c = CHR 0x22 \<or> c = CHR 0x27)"

section \<open>Parsing\<close>

fun scheme_scan :: "bool \<Rightarrow> string \<Rightarrow> string \<Rightarrow> string \<Rightarrow> string + string \<times> string" where
  "scheme_scan first pre [] raw = Inr ([], raw)"
| "scheme_scan first pre (c # s) raw =
     (let n = (of_char c :: nat) in
      if (97 \<le> n \<and> n \<le> 122) \<or> (65 \<le> n \<and> n \<le> 90) then scheme_scan False (pre @ [c]) s raw
      else if (48 \<le> n \<and> n \<le> 57) \<or> c \<in> set ''+-.'' then
        (if first then Inr ([], raw) else scheme_scan False (pre @ [c]) s raw)
      else if c = CHR '':'' then
        (if first then Inl ''missing protocol scheme'' else Inr (pre, s))
      else Inr ([], raw))"

definition getScheme :: "string \<Rightarrow> string + string \<times> string" where
  "getScheme raw = scheme_scan True [] raw raw"

definition before :: "char \<Rightarrow> string \<Rightarrow> string" where
  "before c s = takeWhile (\<lambda>x. x \<noteq> c) s"

definition from_char :: "char \<Rightarrow> string \<Rightarrow> string" where
  "from_char c s = dropWhile (\<lambda>x. x \<noteq> c) s"

definition after_last :: "char \<Rightarrow> string \<Rightarrow> string" where
  "after_last c s = rev (takeWhile (\<lambda>x. x \<noteq> c) (rev s))"

definition validOptionalPort :: "string \<Rightarrow> bool" where
  "validOptionalPort p = (case p of [] \<Rightarrow> True
     | c # ds \<Rightarrow> c = CHR '':'' \<and> (\<forall>d \<in> set ds. digit_of d \<noteq> None))"

definition parseHost :: "string \<Rightarrow> string option" where
  "parseHost h =
     (let port = (if HasPrefix h ''['' then after_last (CHR '']'') h
                  else if CHR '':'' \<in> set h then CHR '':'' # after_last (CHR '':'') h else [])
      in if HasPrefix h ''['' \<and> CHR '']'' \<notin> set h then None
         else if \<not> validOptionalPort port then None
         else if \<exists>c \<in> set h. \<not> host_char c then None
         else unescape (\<lambda>n. 128 \<le> n \<or> n = 37) h)"

definition userinfo_char :: "char \<Rightarrow> bool" where
  "userinfo_char c = (let n = (of_char c :: nat) in
     (48 \<le> n \<and> n \<le> 57) \<or> (65 \<le> n \<and> n \<le> 90) \<or> (97 \<le> n \<and> n \<le> 122)
     \<or> c \<in> set ''-._:~!$&()*+,;=%@'' \<or> c = CHR 0x27)"

text \<open>The host of an authority, when its user information is valid too.\<close>

definition parseAuthority :: "string \<Rightarrow> string option" where
  "parseAuthority auth = (if CHR ''@'' \<notin> set auth then parseHost auth
     else (let host = after_last (CHR ''@'') auth; userinfo = take (length auth - Suc (length host)) auth in
       if (\<forall>c \<in> set userinfo. userinfo_char c) \<and> unescape (\<lambda>_. True) userinfo \<noteq> None then parseHost host else None))"

record url =
  Scheme :: string
  Host :: string
  Path :: string

definition url_Parse :: "string \<Rightarrow> string + url" where
  "url_Parse full =
     (let raw = before (CHR ''#'') full in
      if \<exists>c \<in> set full. (of_char c :: nat) < 32 \<or> (of_char c :: nat) = 127
      then Inl ''net/url: invalid control character in URL''
      else if raw = ''*'' then Inr \<lparr>Scheme = [], Host = [], Path = ''*''\<rparr>
      else case getScheme raw of Inl e \<Rightarrow> Inl e | Inr (sch, rest0) \<Rightarrow>
        (let rest = before (CHR ''?'') rest0; scheme = ToLower sch in
         if \<not> HasPrefix rest ''/'' \<and> scheme \<noteq> [] then Inr \<lparr>Scheme = scheme, Host = [], Path = []\<rparr>
         else if \<not> HasPrefix rest ''/'' \<and> CHR '':'' \<in> set (before (CHR ''/'') rest)
         then Inl ''first path segment in URL cannot contain colon''
         else
           (let has_auth = ((scheme \<noteq> [] \<or> \<not> HasPrefix rest ''///'') \<and> HasPrefix rest ''//'');
                auth = before (CHR ''/'') (drop 2 rest);
                path = (if has_auth then from_char (CHR ''/'') (drop 2 rest) else rest)
            in case (if has_auth then parseAuthority auth else Some []) of
                 None \<Rightarrow> Inl ''invalid host''
               | Some h \<Rightarrow>
                  (case unescape (\<lambda>_. True) path of None \<Rightarrow> Inl ''invalid URL escape''
                   | Some p \<Rightarrow> Inr \<lparr>Scheme = scheme, Host = h, Path = p\<rparr>))))"

text \<open>\<^verbatim>\<open>url.ParseRequestURI\<close>: no fragment is cut off, and a text without a scheme must start with a slash.\<close>

definition url_ParseRequestURI :: "string \<Rightarrow> string + url" where
  "url_ParseRequestURI raw =
     (if \<exists>c \<in> set raw. (of_char c :: nat) < 32 \<or> (of_char c :: nat) = 127
      then Inl ''net/url: invalid control character in URL''
      else if raw = [] then Inl ''empty url''
      else if raw = ''*'' then Inr \<lparr>Scheme = [], Host = [], Path = ''*''\<rparr>
      else case getScheme raw of Inl e \<Rightarrow> Inl e | Inr (sch, rest0) \<Rightarrow>
        (let rest = before (CHR ''?'') rest0; scheme = ToLower sch in
         if \<not> HasPrefix rest ''/'' \<and> scheme \<noteq> [] then Inr \<lparr>Scheme = scheme, Host = [], Path = []\<rparr>
         else if \<not> HasPrefix rest ''/'' then Inl ''invalid URI for request''
         else
           (let has_auth = (scheme \<noteq> [] \<and> HasPrefix rest ''//'');
                path = (if has_auth then from_char (CHR ''/'') (drop 2 rest) else rest)
            in case (if has_auth then parseAuthority (before (CHR ''/'') (drop 2 rest)) else Some []) of
                 None \<Rightarrow> Inl ''invalid host''
               | Some h \<Rightarrow>
                  (case unescape (\<lambda>_. True) path of None \<Rightarrow> Inl ''invalid URL escape''
                   | Some p \<Rightarrow> Inr \<lparr>Scheme = scheme, Host = h, Path = p\<rparr>))))"

section \<open>Sequences of literals and repeated classes\<close>

text \<open>\<open>Lazy cls cap\<close> is \<^verbatim>\<open>[cls]+?\<close>, in a capturing group when \<open>cap\<close>; \<open>Greedy n cls\<close> is \<^verbatim>\<open>[cls]+\<close>
  or \<^verbatim>\<open>[cls]*\<close> for \<open>n\<close> 1 or 0. Alternatives are tried in Perl's (and Go's) order; the pattern
  is anchored at the start.\<close>

datatype re_item = Lit string | Lazy "char \<Rightarrow> bool" bool | Greedy nat "char \<Rightarrow> bool"

fun first_some :: "('a \<Rightarrow> 'b option) \<Rightarrow> 'a list \<Rightarrow> 'b option" where
  "first_some f [] = None"
| "first_some f (x # xs) = (case f x of Some y \<Rightarrow> Some y | None \<Rightarrow> first_some f xs)"

primrec re_match :: "re_item list \<Rightarrow> string \<Rightarrow> string list option" where
  "re_match [] s = Some []"
| "re_match (i # is) s = (case i of
     Lit p \<Rightarrow> if HasPrefix s p then re_match is (drop (length p) s) else None
   | Lazy cls cap \<Rightarrow> first_some (\<lambda>k. map_option (\<lambda>cs. if cap then take k s # cs else cs) (re_match is (drop k s)))
        [1..<Suc (length (takeWhile cls s))]
   | Greedy n cls \<Rightarrow> first_some (\<lambda>k. re_match is (drop k s)) (rev [n..<Suc (length (takeWhile cls s))]))"

lemma first_some_unique:
  assumes "x \<in> set xs" "f x = Some y" "\<And>z. z \<in> set xs \<Longrightarrow> z \<noteq> x \<Longrightarrow> f z = None"
  shows "first_some f xs = Some y"
  using assms
proof (induction xs)
  case (Cons a xs)
  then show ?case by (cases "a = x") (auto split: option.splits)
qed simp

lemma first_some_None: "first_some f xs = None \<longleftrightarrow> (\<forall>x \<in> set xs. f x = None)"
  by (induction xs) (auto split: option.splits)

text \<open>How a lazy or a greedy item consumes a word that is followed by a character outside.\<close>

lemma takeWhile_word:
  assumes "\<forall>c \<in> set w. P c" "u = [] \<or> \<not> P (hd u)"
  shows "takeWhile P (w @ u) = w"
  using assms by (cases u) (simp_all add: takeWhile_append)

lemma greedy_step:
  assumes "\<forall>c \<in> set w. cls c" "u = [] \<or> \<not> cls (hd u)" "n \<le> length w" "re_match is u = Some r"
  shows "re_match (Greedy n cls # is) (w @ u) = Some r"
proof -
  have "rev [n..<Suc (length w)] = length w # rev [n..<length w]"
    using assms(3) by (simp add: upt_Suc_append)
  with assms(3) takeWhile_word [OF assms(1,2)] assms(4) show ?thesis by simp
qed

lemma first_some_append: "\<forall>x \<in> set xs. f x = None \<Longrightarrow> first_some f (xs @ ys) = first_some f ys"
  by (induction xs) auto

lemma nth_not_in: "c \<notin> set w \<Longrightarrow> k < length w \<Longrightarrow> w ! k \<noteq> c"
  by auto

lemma lazy_step:
  assumes "w \<noteq> []" "\<forall>c \<in> set w. cls c" "re_match is u = Some r"
    and "\<And>k. 0 < k \<Longrightarrow> k < length w \<Longrightarrow> re_match is (drop k (w @ u)) = None"
  shows "re_match (Lazy cls cap # is) (w @ u) = Some (if cap then w # r else r)"
proof -
  let ?n = "length (takeWhile cls (w @ u))"
  have n: "length w \<le> ?n" using assms(2) by (simp add: takeWhile_append)
  let ?f = "\<lambda>k. map_option (\<lambda>cs. if cap then take k (w @ u) # cs else cs) (re_match is (drop k (w @ u)))"
  obtain d where d: "?n = length w + d" using n le_Suc_ex by blast
  have split: "[1..<Suc ?n] = [1..<length w] @ length w # [Suc (length w)..<Suc ?n]"
    using upt_add_eq_append [of 1 "length w" "Suc d"] assms(1) d
    by (simp add: upt_conv_Cons Suc_le_eq)
  have "first_some ?f ([1..<length w] @ length w # ks) = Some (if cap then w # r else r)" for ks
  proof -
    have "\<forall>k \<in> set [1..<length w]. ?f k = None" using assms(4) by auto
    from first_some_append [OF this] assms(3) show ?thesis by simp
  qed
  then show ?thesis using split by simp
qed

lemma no_greedy: "u \<noteq> [] \<Longrightarrow> \<not> cls (hd u) \<Longrightarrow> re_match (Greedy (Suc n) cls # is) u = None"
  by (cases u) simp_all

lemma no_lit: "s = c # t \<Longrightarrow> u \<noteq> [] \<Longrightarrow> hd u \<noteq> c \<Longrightarrow> re_match (Lit s # is) u = None"
  by (cases u) simp_all

end
