(* ===== verification/Pua_Apt.thy ===== *)
theory Pua_Apt
  imports Pua_Metadata Go_Url
begin

text \<open>
  The APT side of the Platform Update Agent: custom repositories, the forward proxy and the
  list of upgradable packages (\<^verbatim>\<open>internal/aptmirror/aptmirror.go\<close>), and the installer of
  packages (\<^verbatim>\<open>internal/installer/installer.go\<close>).
\<close>

section \<open>Custom repositories\<close>

definition aptSourceDirectory :: string where "aptSourceDirectory = ''/etc/apt/sources.list.d/''"
definition forwardProxyConfPath :: string where "forwardProxyConfPath = ''/etc/caddy/pua.caddy''"
definition forwardProxyUrl :: string where "forwardProxyUrl = ''http://localhost:60444''"
definition aptSourcesListTemplatePath :: string where
  "aptSourcesListTemplatePath = ''/etc/edge-node/node/confs/apt.sources.list.template''"
definition AptRepoPath :: string where "AptRepoPath = ''/etc/apt/sources.list.d/pua.list''"
definition ERR_INVALID_SIGNATURE :: string where
  "ERR_INVALID_SIGNATURE = ''The following signatures were invalid''"

definition toCommandSlice :: "string \<Rightarrow> string list" where
  "toCommandSlice commandStr = Split commandStr (CHR '' '')"

definition CleanupCustomRepos :: "env \<Rightarrow> (world, unit) action" where
  "CleanupCustomRepos env =
     andthen (wrap ''failed to read the existing custom repos - '' (os_ReadDir env aptSourceDirectory)) (\<lambda>dir.
     foreach (\<lambda>(name, isDir).
       if isDir then ret ()
       else wrap ''failed to remove the existing custom repo - ''
              (andthen (Execute env (toCommandSlice ''sudo inbc source application remove --filename'' @ [name]))
                 (\<lambda>_. ret ()))) dir)"

definition isCustomRepoValid :: "string \<Rightarrow> bool" where
  "isCustomRepoValid repo = (Contains repo ''Types:'' \<and> Contains repo ''URIs:'' \<and>
     Contains repo ''Suites:'' \<and> Contains repo ''Components:'' \<and> Contains repo ''Signed-By:'')"

definition add_repo_command :: "nat \<Rightarrow> string \<Rightarrow> string list" where
  "add_repo_command i repo = toCommandSlice ''sudo inbc source application add'' @
     [''--filename'', ''pua-'' @ show_nat i @ ''.sources'', ''--sources''] @ Split repo nl"

fun add_repos :: "env \<Rightarrow> nat \<Rightarrow> string list \<Rightarrow> (world, unit) action" where
  "add_repos env i [] = ret ()"
| "add_repos env i (repo # repos) =
     (if \<not> isCustomRepoValid repo then fail (''incomplete custom repo data - '' @ repo)
      else andthen (wrap ''failed to configure custom repo - '' (Execute env (add_repo_command i repo)))
             (\<lambda>_. add_repos env (Suc i) repos))"

definition ConfigureCustomAptRepos :: "env \<Rightarrow> string list \<Rightarrow> (world, unit) action" where
  "ConfigureCustomAptRepos env customRepos = add_repos env 0 customRepos"

definition ConfigureOsAptRepo :: "env \<Rightarrow> string \<Rightarrow> (world, unit) action" where
  "ConfigureOsAptRepo env osRepoURL =
     (if osRepoURL = [] then ret () else
      andthen (IsSymlink env aptSourcesListTemplatePath) (\<lambda>_.
      andthen (wrap ''failed to read apt sources list template - ''
                 (os_ReadFile env aptSourcesListTemplatePath)) (\<lambda>tmpl.
      andthen (Execute env (toCommandSlice ''sudo inbc source os update --sources'' @
                 Split (ReplaceAll tmpl ''<repoURL>'' osRepoURL) nl)) (\<lambda>_. ret ()))))"

definition UpdatePackages :: "env \<Rightarrow> (world, unit) action" where
  "UpdatePackages env =
     andthen (wrap ''failed to execute shell command - '' (Execute env (toCommandSlice ''sudo apt update''))) (\<lambda>out.
     if Contains out ERR_INVALID_SIGNATURE then fail (''failed to verify signature - '' @ out) else ret ())"

definition IsDeprecatedFormat :: "string list \<Rightarrow> bool" where
  "IsDeprecatedFormat customRepos = (\<exists>repo \<in> set customRepos. \<not> Contains repo [nl])"

definition ConfigureDeprecatedCustomAptRepos :: "env \<Rightarrow> string list \<Rightarrow> (world, unit) action" where
  "ConfigureDeprecatedCustomAptRepos env customRepos =
     (if \<exists>repo \<in> set customRepos. \<not> Contains repo ''signed-by=''
      then fail ''invalid custom repo - missing signed key''
      else andthen (IsSymlink env AptRepoPath) (\<lambda>_.
           wrap (''failed to write custom repos to '' @ AptRepoPath @ '' file - '')
             (os_WriteFile env AptRepoPath (Join customRepos [nl]))))"

section \<open>The forward proxy\<close>

definition splitURL :: "string \<Rightarrow> string + string \<times> string" where
  "splitURL fullURL = (case url_Parse fullURL of Inl e \<Rightarrow> Inl e
     | Inr u \<Rightarrow> if Scheme u = [] \<or> Host u = []
         then Inl (''failed to validate source URL ['' @ fullURL @ '']'')
         else let rootURL = Scheme u @ ''://'' @ Host u in Inr (rootURL, TrimPrefix fullURL rootURL))"

text \<open>The line that starts at \<open>URIs:\<close>, cut out of the repository text.\<close>

definition readAndReplaceToRPUrl :: "string \<Rightarrow> string + string \<times> string" where
  "readAndReplaceToRPUrl repo = (case Index repo ''URIs:'' of None \<Rightarrow> Inl ''URIs key not found''
     | Some urisIndex \<Rightarrow>
        (case Index (drop urisIndex repo) [nl] of None \<Rightarrow> Inl ''URIs end line not found''
         | Some k \<Rightarrow>
            (let urisEnd = k + urisIndex;
                 urisValue = take k (drop urisIndex repo);
                 urls = TrimSpace (TrimPrefix urisValue ''URIs:'')
             in if 1 < length (Split urls (CHR '' ''))
                then Inl (''release service doesn't support multiple releaseServiceUrls - '' @ urls)
                else case splitURL urls of Inl e \<Rightarrow> Inl (''error parsing URL: '' @ e)
                     | Inr (root, remaining) \<Rightarrow>
                        Inr (take urisIndex repo @ ''URIs: '' @ forwardProxyUrl @ remaining @ drop urisEnd repo,
                             root))))"

definition proxy_config :: "string \<Rightarrow> string \<Rightarrow> string + string" where
  "proxy_config rpConfig url = (case Index rpConfig ''reverse_proxy'' of
     None \<Rightarrow> Inl ''not found reverse_proxy key''
   | Some i \<Rightarrow> (case Index (drop i rpConfig) (''{'' @ [nl]) of
       None \<Rightarrow> Inl ''not found reverse_proxy endline key''
     | Some k \<Rightarrow> Inr (take i rpConfig @ ''reverse_proxy '' @ url @ '' '' @ drop (k + i) rpConfig)))"

definition updateForwardProxyConfig :: "env \<Rightarrow> string \<Rightarrow> string \<Rightarrow> (world, unit) action" where
  "updateForwardProxyConfig env path url =
     andthen (IsSymlink env path) (\<lambda>_.
     andthen (wrap ''failed to read forward proxy config - '' (os_ReadFile env path)) (\<lambda>content.
     if content = [] then fail ''no content found in forward proxy config file'' else
     andthen (lift_result (proxy_config content url)) (\<lambda>rpConfig.
     wrap (''failed to write forward proxy config to '' @ path @ '' file - '') (os_WriteFile env path rpConfig))))"

text \<open>Only the first repository with the tag is rewritten. The Go code writes into the caller's
  slice; the model returns the slice as it is afterwards.\<close>

fun ConfigureForwardProxy :: "env \<Rightarrow> string list \<Rightarrow> (world, string list) action" where
  "ConfigureForwardProxy env [] = ret []"
| "ConfigureForwardProxy env (repo # repos) =
     (if \<not> Contains repo ''#ReleaseService''
      then andthen (ConfigureForwardProxy env repos) (\<lambda>rs. ret (repo # rs))
      else andthen (lift_result (readAndReplaceToRPUrl repo)) (\<lambda>(updatedRepo, url).
           andthen (wrap ''failed to update forward proxy config - ''
                      (updateForwardProxyConfig env forwardProxyConfPath url)) (\<lambda>_.
           andthen (wrap ''failed to reload forward proxy config - ''
                      (Execute env (toCommandSlice ''sudo systemctl reload caddy''))) (\<lambda>_.
           ret (updatedRepo # repos)))))"

section \<open>Upgradable packages\<close>

record UpgradablePackage =
  Name :: string
  CurrentVersion :: string
  AvailableVersion :: string
  Architecture :: string

definition re_dot :: "char \<Rightarrow> bool" where
  "re_dot c = (c \<noteq> nl)"

definition apt_line :: "re_item list" where
  "apt_line = [Lazy re_dot True, Lit ''/'', Lazy re_dot False, Greedy 1 re_space, Lazy re_dot True,
     Greedy 1 re_space, Lazy re_dot True, Greedy 1 re_space, Lit ''[upgradable from:'',
     Greedy 0 re_space, Lazy re_dot True, Lit '']'']"

definition parse_apt_line :: "string \<Rightarrow> UpgradablePackage option" where
  "parse_apt_line line = (case re_match apt_line line of
     Some [name, available, arch, current] \<Rightarrow>
       Some \<lparr>Name = name, CurrentVersion = current, AvailableVersion = available, Architecture = arch\<rparr>
   | _ \<Rightarrow> None)"

text \<open>The packages; \<^verbatim>\<open>TotalCount\<close> is their number.\<close>

definition parseAptListOutput :: "string \<Rightarrow> UpgradablePackage list" where
  "parseAptListOutput out = List.map_filter (\<lambda>l.
     let line = TrimSpace l in
     if line = [] \<or> HasPrefix line ''Listing'' \<or> HasPrefix line ''WARNING'' then None
     else parse_apt_line line) (Split out nl)"

definition ListUpgradablePackages :: "env \<Rightarrow> (world, UpgradablePackage list) action" where
  "ListUpgradablePackages env =
     andthen (wrap ''failed to execute apt list --upgradable - ''
                (Execute env (toCommandSlice ''apt list --upgradable''))) (\<lambda>out.
     ret (parseAptListOutput out))"

definition GetUpgradablePackageNames :: "env \<Rightarrow> (world, string list) action" where
  "GetUpgradablePackageNames env = andthen (ListUpgradablePackages env) (\<lambda>ps. ret (map Name ps))"

definition HasUpgradablePackages :: "env \<Rightarrow> (world, bool) action" where
  "HasUpgradablePackages env = andthen (ListUpgradablePackages env) (\<lambda>ps. ret (0 < length ps))"

section \<open>The installer\<close>

definition inbmConfigSuccessPath :: string where
  "inbmConfigSuccessPath = ''/var/edge-node/pua/.inbm-config-success''"

definition ERR_PATH_DOES_NOT_CONTAIN_VALUE :: string where
  "ERR_PATH_DOES_NOT_CONTAIN_VALUE =
     ''The following element path doesn't contain the value to remove''"

definition sudo_apt_upgrade :: "string \<Rightarrow> string list" where
  "sudo_apt_upgrade p = [''sudo'', ''apt'', ''install'', ''--only-upgrade'', ''-y'', p]"

definition sota_install :: "string \<Rightarrow> string list" where
  "sota_install mode =
     [''sudo'', ''inbc'', ''sota'', ''--mode'', mode, ''--reboot'', ''no'', ''--package-list'']"

text \<open>\<^verbatim>\<open>fileOrDirExists\<close>: any outcome of \<^verbatim>\<open>os.Stat\<close> but "not found" counts as existing.\<close>

definition ProvisionInbm :: "env \<Rightarrow> (world, unit) action" where
  "ProvisionInbm env =
     andthen (attempt (io env ''stat'' inbmConfigSuccessPath)) (\<lambda>r.
     andthen (asks (\<lambda>s. files s inbmConfigSuccessPath \<noteq> None \<or> r \<noteq> Inr ())) (\<lambda>exists.
     andthen (if exists then ret () else
                andthen (io env ''create'' inbmConfigSuccessPath) (\<lambda>_.
                  modify (\<lambda>s. s\<lparr>files := (files s)(inbmConfigSuccessPath := Some [])\<rparr>))) (\<lambda>_.
     wrap ''failed to start inbd service - ''
       (andthen (Execute env [''sudo'', ''systemctl'', ''start'', ''inbd'']) (\<lambda>_. ret ())))))"

definition isUpdated :: "string \<Rightarrow> bool" where
  "isUpdated out = (\<not> Contains out ''0 upgraded'')"

text \<open>One round of the poll; the stabilising sleep succeeds (the agent's context is never
  cancelled).\<close>

definition removeDocker :: "env \<Rightarrow> (world, bool) action" where
  "removeDocker env =
     andthen (attempt (Execute env [''sudo'', ''inbc'', ''remove'', ''--path'', ''sotaSW:docker''])) (\<lambda>r.
     case r of Inl e \<Rightarrow> ret (Contains e ERR_PATH_DOES_NOT_CONTAIN_VALUE)
     | Inr _ \<Rightarrow> ret True)"

text \<open>\<^verbatim>\<open>wait.PollUntilContextTimeout\<close> tries at once and then every 30 seconds; how many rounds
  fit before the 5 minutes are over depends on how long a command takes, so it is the
  environment's \<open>poll_rounds\<close>.\<close>

fun poll :: "nat \<Rightarrow> (world, bool) action \<Rightarrow> (world, unit) action" where
  "poll 0 m = fail ''context deadline exceeded''"
| "poll (Suc n) m = andthen m (\<lambda>done. if done then ret () else poll n m)"

definition modifyConfiguration :: "env \<Rightarrow> (world, unit) action" where
  "modifyConfiguration env =
     andthen (wrap ''failed to modify INBM configuration - '' (poll (poll_rounds env) (removeDocker env))) (\<lambda>_.
     andthen (wrap ''failed to execute shell command - ''
                (Execute env [''sudo'', ''systemctl'', ''restart'', ''inbd''])) (\<lambda>_. ret ()))"

definition UpgradeInbmPackages :: "env \<Rightarrow> (world, unit) action" where
  "UpgradeInbmPackages env =
     andthen (wrap ''failed to execute shell command - ''
                (Execute env (sudo_apt_upgrade ''in-band-manageability''))) (\<lambda>out.
     if isUpdated out then wrap ''failed to modify INBC configuration - '' (modifyConfiguration env) else ret ())"

definition InstallAdditionalPackages :: "env \<Rightarrow> string \<Rightarrow> (world, unit) action" where
  "InstallAdditionalPackages env pkgs =
     (if pkgs = [] then ret () else
      let packages = ReplaceAll pkgs [nl] '','' in
      andthen (wrap (shell_error (sota_install ''download-only''))
                 (Execute env (sota_install ''download-only'' @ [packages]))) (\<lambda>_.
      andthen (wrap ''cannot write metafile: '' (SetMetaUpdateInProgress env OS)) (\<lambda>_.
      andthen (wrap (shell_error (sota_install ''no-download''))
                 (Execute env (sota_install ''no-download'' @ [packages]))) (\<lambda>_. ret ()))))"

section \<open>Preservation\<close>

lemma keeps_apt [keeps_rules]:
  assumes "robust I"
  shows "keeps I (CleanupCustomRepos env)" "keeps I (UpdatePackages env)"
    "keeps I (ConfigureDeprecatedCustomAptRepos env rs)" "keeps I (updateForwardProxyConfig env p u)"
  unfolding CleanupCustomRepos_def UpdatePackages_def ConfigureDeprecatedCustomAptRepos_def
    updateForwardProxyConfig_def
  by (intro keeps_rules assms)+

lemma keeps_add_repos [keeps_rules]: "robust I \<Longrightarrow> keeps I (add_repos env i rs)"
  by (induction rs arbitrary: i) (auto intro!: keeps_rules)

lemma keeps_ConfigureForwardProxy [keeps_rules]: "robust I \<Longrightarrow> keeps I (ConfigureForwardProxy env rs)"
  by (induction rs) (auto intro!: keeps_rules)

lemma keeps_poll [keeps_rules]: "keeps I m \<Longrightarrow> keeps I (poll n m)"
  by (induction n) (auto intro!: keeps_rules)

lemma keeps_installer [keeps_rules]:
  assumes "robust I"
  shows "keeps I (removeDocker env)" "keeps I (modifyConfiguration env)"
  "keeps I (UpgradeInbmPackages env)" "keeps I (InstallAdditionalPackages env p)"
  unfolding UpgradeInbmPackages_def modifyConfiguration_def removeDocker_def InstallAdditionalPackages_def Let_def
  by (intro keeps_rules assms)+

section \<open>The listing of packages\<close>

definition word :: "string \<Rightarrow> bool" where
  "word w \<longleftrightarrow> w \<noteq> [] \<and> (\<forall>c \<in> set w. \<not> is_space c)"

definition show_apt_line :: "string \<Rightarrow> UpgradablePackage \<Rightarrow> string" where
  "show_apt_line origin p = Name p @ ''/'' @ origin @ '' '' @ AvailableVersion p @ '' '' @ Architecture p @
     '' [upgradable from: '' @ CurrentVersion p @ '']''"

definition apt_package :: "UpgradablePackage \<Rightarrow> bool" where
  "apt_package p \<longleftrightarrow> word (Name p) \<and> hd (Name p) \<notin> {CHR ''L'', CHR ''W''} \<and> CHR ''/'' \<notin> set (Name p) \<and> word (AvailableVersion p) \<and> word (Architecture p) \<and>
     word (CurrentVersion p) \<and> CHR '']'' \<notin> set (CurrentVersion p)"

lemma is_space_re: "re_space c \<Longrightarrow> is_space c"
  by (auto simp: re_space_def is_space_def)

lemma word_drop: "word w \<Longrightarrow> k < length w \<Longrightarrow> drop k (w @ u) \<noteq> [] \<and> \<not> is_space (hd (drop k (w @ u)))"
  by (auto simp: word_def hd_drop_conv_nth nth_append)

lemma parse_show_apt_line:
  assumes "apt_package p" "word origin"
  shows "parse_apt_line (show_apt_line origin p) = Some p"
proof -
  have dot: "\<forall>c \<in> set w. re_dot c" if "word w" for w
    using that by (auto simp: word_def re_dot_def is_space_def)
  have sp: "\<not> re_space (hd (drop k (w @ u)))" "drop k (w @ u) \<noteq> []" if "word w" "k < length w" for w k u
    using word_drop [OF that, of u] is_space_re by blast+
  have w0: "\<not> re_space (hd (w @ v))" if "word w" for w v
    using sp [OF that, of 0] that by (auto simp: word_def)
  note ws = assms [unfolded apt_package_def]
  have nm: "word (Name p)" "word (AvailableVersion p)" "word (Architecture p)" "word (CurrentVersion p)"
    using ws by simp_all
  let ?lit = "''[upgradable from:''"
  have 7: "re_match [Lit '']''] '']'' = Some []" by simp
  have 6: "re_match [Lazy re_dot True, Lit '']''] (CurrentVersion p @ '']'') = Some [CurrentVersion p]"
  proof -
    have "re_match [Lit '']''] (drop k (CurrentVersion p @ '']'')) = None" if "0 < k" "k < length (CurrentVersion p)" for k
      using that ws nth_not_in [OF _ that(2)]
      by (intro no_lit) (auto simp: hd_drop_conv_nth nth_append)
    from lazy_step [OF _ dot [OF nm(4)] 7 this] nm(4) show ?thesis by (simp add: word_def)
  qed
  have 5: "re_match [Greedy 0 re_space, Lazy re_dot True, Lit '']''] ('' '' @ CurrentVersion p @ '']'') = Some [CurrentVersion p]"
    using w0 [OF nm(4)] by (intro greedy_step [OF _ _ _ 6]) (simp_all add: re_space_def)
  have 4: "re_match [Lit ?lit, Greedy 0 re_space, Lazy re_dot True, Lit '']''] (?lit @ '' '' @ CurrentVersion p @ '']'') = Some [CurrentVersion p]"
    using 5 by simp
  let ?r4 = "?lit @ '' '' @ CurrentVersion p @ '']''"
  have 3: "re_match [Greedy 1 re_space, Lit ?lit, Greedy 0 re_space, Lazy re_dot True, Lit '']''] ('' '' @ ?r4) = Some [CurrentVersion p]"
    by (rule greedy_step [OF _ _ _ 4]) (simp_all add: re_space_def)
  note step_word = lazy_step [OF _ dot]
  let ?i3 = "[Greedy 1 re_space, Lit ?lit, Greedy 0 re_space, Lazy re_dot True, Lit '']'']"
  have 2: "re_match (Lazy re_dot True # ?i3) (Architecture p @ '' '' @ ?r4) = Some [Architecture p, CurrentVersion p]"
  proof -
    have "re_match ?i3 (drop k (Architecture p @ '' '' @ ?r4)) = None" if "0 < k" "k < length (Architecture p)" for k
      using sp [OF nm(3) that(2)] unfolding One_nat_def by (intro no_greedy) 
    from lazy_step [OF _ dot [OF nm(3)] 3 this] nm(3) show ?thesis by (simp add: word_def)
  qed
  let ?r2 = "Architecture p @ '' '' @ ?r4"
  have 1: "re_match (Greedy 1 re_space # Lazy re_dot True # ?i3) ('' '' @ ?r2) = Some [Architecture p, CurrentVersion p]"
    using w0 [OF nm(3)] by (intro greedy_step [OF _ _ _ 2]) (simp_all add: re_space_def)
  let ?i1 = "Greedy 1 re_space # Lazy re_dot True # ?i3"
  have 0: "re_match (Lazy re_dot True # ?i1) (AvailableVersion p @ '' '' @ ?r2) = Some [AvailableVersion p, Architecture p, CurrentVersion p]"
  proof -
    have "re_match ?i1 (drop k (AvailableVersion p @ '' '' @ ?r2)) = None" if "0 < k" "k < length (AvailableVersion p)" for k
      using sp [OF nm(2) that(2)] unfolding One_nat_def by (intro no_greedy)
    from lazy_step [OF _ dot [OF nm(2)] 1 this] nm(2) show ?thesis by (simp add: word_def)
  qed
  let ?r0 = "AvailableVersion p @ '' '' @ ?r2"
  let ?i0 = "Lazy re_dot True # ?i1"
  have a: "re_match (Greedy 1 re_space # ?i0) ('' '' @ ?r0) = Some [AvailableVersion p, Architecture p, CurrentVersion p]"
    using w0 [OF nm(2)] by (intro greedy_step [OF _ _ _ 0]) (simp_all add: re_space_def)
  have b: "re_match (Lazy re_dot False # Greedy 1 re_space # ?i0) (origin @ '' '' @ ?r0) =
      Some [AvailableVersion p, Architecture p, CurrentVersion p]"
  proof -
    have "re_match (Greedy 1 re_space # ?i0) (drop k (origin @ '' '' @ ?r0)) = None" if "0 < k" "k < length origin" for k
      using sp [OF assms(2) that(2)] unfolding One_nat_def by (intro no_greedy)
    from lazy_step [OF _ dot [OF assms(2)] a this] assms(2) show ?thesis by (simp add: word_def)
  qed
  let ?ib = "Lazy re_dot False # Greedy 1 re_space # ?i0"
  have c: "re_match (Lit ''/'' # ?ib) (''/'' @ origin @ '' '' @ ?r0) = Some [AvailableVersion p, Architecture p, CurrentVersion p]"
    using b by simp
  have "re_match (Lazy re_dot True # Lit ''/'' # ?ib) (Name p @ ''/'' @ origin @ '' '' @ ?r0) =
      Some [Name p, AvailableVersion p, Architecture p, CurrentVersion p]"
  proof -
    have "re_match (Lit ''/'' # ?ib) (drop k (Name p @ ''/'' @ origin @ '' '' @ ?r0)) = None" if "0 < k" "k < length (Name p)" for k
      using that ws nth_not_in [OF _ that(2)]
      by (intro no_lit) (auto simp: hd_drop_conv_nth nth_append)
    from lazy_step [OF _ dot [OF nm(1)] c this] nm(1) show ?thesis by (simp add: word_def)
  qed
  then show ?thesis
    by (simp add: parse_apt_line_def apt_line_def show_apt_line_def)
qed

text \<open>The listing that apt prints for any packages is parsed back to exactly these packages, in order: name, available version, architecture and current version.\<close>

theorem listing_is_parsed:
  assumes "\<forall>p \<in> set ps. apt_package p" "word origin"
  shows "parseAptListOutput (Join (''Listing... Done'' # map (show_apt_line origin) ps @ [[]]) [nl]) = ps"
proof -
  let ?ls = "''Listing... Done'' # map (show_apt_line origin) ps @ [[]]"
  have line: "nl \<notin> set (show_apt_line origin p) \<and> TrimSpace (show_apt_line origin p) = show_apt_line origin p \<and>
      show_apt_line origin p \<noteq> [] \<and> \<not> HasPrefix (show_apt_line origin p) ''Listing'' \<and>
      \<not> HasPrefix (show_apt_line origin p) ''WARNING''" if "p \<in> set ps" for p
  proof -
    have p: "apt_package p" using that assms(1) by blast
    then obtain c cs where nm: "Name p = c # cs" "\<not> is_space c" "c \<noteq> CHR ''L''" "c \<noteq> CHR ''W''"
      by (cases "Name p") (auto simp: apt_package_def word_def)
    have sp: "nl \<notin> set w" if "word w" for w using that by (auto simp: word_def is_space_def)
    have "last (show_apt_line origin p) = CHR '']''" by (simp add: show_apt_line_def)
    then have "TrimSpace (show_apt_line origin p) = show_apt_line origin p"
      using nm by (intro TrimSpace_id) (simp_all add: show_apt_line_def is_space_def)
    moreover have "nl \<notin> set (show_apt_line origin p)"
      using p assms(2) sp by (simp add: show_apt_line_def apt_package_def)
    ultimately show ?thesis
      using nm by (simp add: show_apt_line_def)
  qed
  have "Split (Join ?ls [nl]) nl = ?ls"
    using line by (intro Split_Join) auto
  moreover have "TrimSpace [] = []" by (simp add: TrimSpace_def TrimFunc_def)
  moreover have "List.map_filter (\<lambda>l. let line = TrimSpace l in
     if line = [] \<or> HasPrefix line ''Listing'' \<or> HasPrefix line ''WARNING'' then None
     else parse_apt_line line) (map (show_apt_line origin) ps) = ps"
    using line parse_show_apt_line [OF _ assms(2)] assms(1)
    by (induction ps) (simp_all add: map_filter_simps)
  moreover have "TrimSpace ''Listing... Done'' = ''Listing... Done''"
    by (rule TrimSpace_id) (simp_all add: is_space_def)
  ultimately show ?thesis
    by (simp add: parseAptListOutput_def map_filter_def)
qed

lemma listing_is_parsed_witness:
  "parseAptListOutput (Join (''Listing... Done'' # map (show_apt_line ''jammy-updates'')
     [\<lparr>Name = ''git'', CurrentVersion = ''1:2.34.1-1'', AvailableVersion = ''1:2.34.1-2'', Architecture = ''amd64''\<rparr>] @ [[]]) [nl]) =
   [\<lparr>Name = ''git'', CurrentVersion = ''1:2.34.1-1'', AvailableVersion = ''1:2.34.1-2'', Architecture = ''amd64''\<rparr>]"
  by (rule listing_is_parsed) (simp_all add: apt_package_def word_def is_space_def)

section \<open>Properties of the forward proxy\<close>

text \<open>Pointing the forward proxy at one service and then at another gives the configuration of the second alone; applying the same address twice changes nothing.\<close>

theorem proxy_config_last_wins:
  assumes "proxy_config c u1 = Inr c1" "CHR ''{'' \<notin> set u1"
  shows "proxy_config c1 u2 = proxy_config c u2"
proof -
  obtain i k where i: "Index c ''reverse_proxy'' = Some i" and k: "Index (drop i c) (''{'' @ [nl]) = Some k"
    and c1: "c1 = take i c @ ''reverse_proxy '' @ u1 @ '' '' @ drop (k + i) c"
    using assms(1) by (auto simp: proxy_config_def split: option.splits)
  have il: "i \<le> length c" and pre: "HasPrefix (drop i c) ''reverse_proxy''"
    using i unfolding Index_iff by auto
  have blk: "HasPrefix (drop (k + i) c) (''{'' @ [nl])"
    using k unfolding Index_iff by (simp add: add.commute)
  have "take (i + length ''reverse_proxy'') c = take i c @ ''reverse_proxy''"
    unfolding take_add using pre [unfolded HasPrefix_take] by simp
  moreover have "take (i + length ''reverse_proxy'') c1 = take i c @ ''reverse_proxy''"
    using il by (simp add: c1)
  ultimately have i1: "Index c1 ''reverse_proxy'' = Some i"
    using Index_common_prefix [OF i] by metis
  define X where "X = ''reverse_proxy '' @ u1 @ '' ''"
  have X: "c1 = take i c @ X @ drop (k + i) c" "CHR ''{'' \<notin> set X"
    using c1 assms(2) by (simp_all add: X_def)
  then have d1: "drop i c1 = X @ drop (k + i) c" "take i c1 = take i c" "drop (length X + i) c1 = drop (k + i) c"
    using il by simp_all
  have "Index (drop i c1) (''{'' @ [nl]) = Some (length X)"
    unfolding d1(1) using Index_first_char [OF X(2), of "drop (k + i) c" "[nl]"] blk by simp
  then show ?thesis
    unfolding proxy_config_def i i1 k option.simps d1(2) by (simp add: d1(3))
qed

lemma proxy_config_last_wins_witness:
  "proxy_config (''a reverse_proxy x {'' @ [nl] @ ''}'') ''u'' = Inr (''a reverse_proxy u {'' @ [nl] @ ''}'') \<and>
   proxy_config (''a reverse_proxy u {'' @ [nl] @ ''}'') ''v'' = Inr (''a reverse_proxy v {'' @ [nl] @ ''}'')"
proof -
  have a: "proxy_config (''a reverse_proxy x {'' @ [nl] @ ''}'') ''u'' = Inr (''a reverse_proxy u {'' @ [nl] @ ''}'')"
    by code_simp
  have b: "proxy_config (''a reverse_proxy x {'' @ [nl] @ ''}'') ''v'' = Inr (''a reverse_proxy v {'' @ [nl] @ ''}'')"
    by code_simp
  from proxy_config_last_wins [OF a, of "''v''"] a b show ?thesis by simp
qed

text \<open>Of a repository description only the value of the first URIs line is rewritten: its scheme and host become the local proxy and are returned for the proxy's configuration, the rest of the address and every other line stay, and an address list is refused.\<close>

theorem rp_url_rewritten:
  assumes "readAndReplaceToRPUrl repo = Inr (repo', root)"
  shows "\<exists>a u b. repo = a @ ''URIs:'' @ u @ nl # b \<and> nl \<notin> set u \<and> CHR '' '' \<notin> set (TrimSpace u) \<and>
    (\<exists>x. url_Parse (TrimSpace u) = Inr x \<and> Scheme x \<noteq> [] \<and> Host x \<noteq> [] \<and> root = Scheme x @ ''://'' @ Host x) \<and>
    repo' = a @ ''URIs: '' @ forwardProxyUrl @ TrimPrefix (TrimSpace u) root @ nl # b"
proof -
  obtain i where i: "Index repo ''URIs:'' = Some i"
    using assms by (auto simp: readAndReplaceToRPUrl_def split: option.splits)
  obtain k where k: "Index (drop i repo) [nl] = Some k"
    using assms i by (auto simp: readAndReplaceToRPUrl_def split: option.splits)
  obtain d where d: "drop i repo = ''URIs:'' @ d"
    using i by (auto simp: Index_iff HasPrefix_iff)
  let ?u = "takeWhile (\<lambda>x. x \<noteq> nl) d"
  obtain b where b: "drop i repo = take k (drop i repo) @ nl # b"
    using Index_char [OF k] by blast
  have v: "take k (drop i repo) = ''URIs:'' @ ?u"
    using Index_char [OF k] unfolding d by (simp add: takeWhile_append)
  have "k \<le> length (drop i repo)" using k by (simp add: Index_iff)
  then have "drop k (take k (drop i repo) @ nl # b) = nl # b" by simp
  then have "drop k (drop i repo) = nl # b" using b by metis
  then have rest: "drop (k + i) repo = nl # b" unfolding drop_drop .
  have repo: "repo = take i repo @ ''URIs:'' @ ?u @ nl # b"
    using b v by (metis append.assoc append_take_drop_id)
  have "TrimPrefix (take k (drop i repo)) ''URIs:'' = ?u"
    unfolding v by (rule TrimPrefix_append)
  with assms i k rest have r: "length (Split (TrimSpace ?u) (CHR '' '')) \<le> 1"
    "\<exists>rem. splitURL (TrimSpace ?u) = Inr (root, rem) \<and> repo' = take i repo @ ''URIs: '' @ forwardProxyUrl @ rem @ nl # b"
    by (auto simp: readAndReplaceToRPUrl_def Let_def split: if_splits sum.splits)
  then obtain x where "url_Parse (TrimSpace ?u) = Inr x" "Scheme x \<noteq> []" "Host x \<noteq> []" "root = Scheme x @ ''://'' @ Host x"
    "repo' = take i repo @ ''URIs: '' @ forwardProxyUrl @ TrimPrefix (TrimSpace ?u) root @ nl # b"
    by (auto simp: splitURL_def Let_def split: sum.splits if_splits)
  moreover have "nl \<notin> set ?u" using set_takeWhileD by fast
  ultimately show ?thesis
    using repo Split_single [OF r(1)] by blast
qed

lemma rp_url_rewritten_witness:
  "\<exists>a u b. ''Types: deb'' @ [nl] @ ''URIs: https://h/p'' @ [nl] @ ''Suites: s'' = a @ ''URIs:'' @ u @ nl # b \<and> nl \<notin> set u"
proof -
  have e: "readAndReplaceToRPUrl (''Types: deb'' @ [nl] @ ''URIs: https://h/p'' @ [nl] @ ''Suites: s'') =
    Inr (''Types: deb'' @ [nl] @ ''URIs: http://localhost:60444/p'' @ [nl] @ ''Suites: s'', ''https://h'')"
    by code_simp
  from rp_url_rewritten [OF e] show ?thesis by blast
qed

lemma upper_case_scheme_corrupts:
  "readAndReplaceToRPUrl (''URIs: HTTP://h/p'' @ [nl]) =
     Inr (''URIs: http://localhost:60444HTTP://h/p'' @ [nl], ''http://h'')"
  by code_simp

end
