(* ===== verification/Pua_Updater.thy ===== *)
theory Pua_Updater
  imports Pua_Apt
begin

text \<open>
  The update controller of the Platform Update Agent
  (\<^verbatim>\<open>internal/updater/updater.go\<close>): the updaters of the subsystems in the order in which the
  edge node updater runs them, the timeout between them, the start and the continuation of an
  update, the verification after the reboot and the clean-up.

  An updater is an action. \<open>subsystems\<close> is the list that \<^verbatim>\<open>NewUpdateController\<close> builds for an
  operating system.
\<close>

section \<open>Commands and paths\<close>

definition kernelPath :: string where "kernelPath = ''/etc/default/grub.d/90-platform-update-agent.cfg''"
definition emtKernelParamDir :: string where "emtKernelParamDir = ''/boot/efi/loader/entries''"
definition emtKernelParamFile :: string where
  "emtKernelParamFile = ''/boot/efi/loader/entries/emt_user_kernel_param.conf''"
definition emtKernelDefCfgFile :: string where "emtKernelDefCfgFile = ''/boot/efi/loader/loader.conf''"

definition installPlatformUpdateAgentCommand :: "string list" where
  "installPlatformUpdateAgentCommand = [''sudo'', ''NEEDRESTART_MODE=a'', ''apt'', ''install'',
     ''--only-upgrade'', ''-y'', ''platform-update-agent'']"
definition inbcEmtUpdateCommand :: "string list" where
  "inbcEmtUpdateCommand = [''sudo'', ''inbc'', ''sota'', ''--mode'', ''no-download'']"
definition inbcSotaNoDownloadCommand :: "string list" where
  "inbcSotaNoDownloadCommand = [''sudo'', ''inbc'', ''sota'', ''--mode'', ''no-download'']"
definition inbcSotaDownloadOnlyCommand :: "string list" where
  "inbcSotaDownloadOnlyCommand =
     [''sudo'', ''inbc'', ''sota'', ''--mode'', ''download-only'', ''--reboot'', ''no'']"
definition upgradeGrubCommand :: "string list" where "upgradeGrubCommand = [''sudo'', ''update-grub'']"
definition aptCleanCommand :: "string list" where "aptCleanCommand = [''sudo'', ''apt'', ''clean'']"
definition granularLogTruncateCommand :: "string list" where
  "granularLogTruncateCommand = [''sudo'', ''truncate'', ''-s'', ''0'', ''/var/log/inbm-update-log.log'']"
definition cmdlineCommand :: "string list" where "cmdlineCommand = [''cat'', ''/proc/cmdline'']"
definition cmdlineListEfiCommand :: "string list" where
  "cmdlineListEfiCommand = [''sudo'', ''ls'', ''/boot/efi/EFI/Linux/'']"
definition cmdlineRebootCommand :: "string list" where "cmdlineRebootCommand = [''sudo'', ''reboot'']"

definition run :: "env \<Rightarrow> string list \<Rightarrow> (world, unit) action" where
  "run env cmd = andthen (Execute env cmd) (\<lambda>_. ret ())"

section \<open>The updaters of the subsystems\<close>

text \<open>\<^verbatim>\<open>osAndAgentsUpdater\<close>: download, record that the OS update is in progress, then install and
  reboot.\<close>

definition osAndAgentsUpdater_update :: "env \<Rightarrow> (world, unit) action" where
  "osAndAgentsUpdater_update env =
     andthen (wrap (shell_error inbcSotaDownloadOnlyCommand) (run env inbcSotaDownloadOnlyCommand)) (\<lambda>_.
     andthen (wrap ''cannot write metafile: '' (SetMetaUpdateInProgress env OS)) (\<lambda>_.
     wrap (shell_error inbcSotaNoDownloadCommand) (run env inbcSotaNoDownloadCommand)))"

definition has_kernel_command :: "UpdateSource option \<Rightarrow> bool" where
  "has_kernel_command u = (case u of None \<Rightarrow> False | Some x \<Rightarrow> KernelCommand x \<noteq> [])"

definition emtUpdater_update :: "env \<Rightarrow> (world, bool) action \<Rightarrow> (world, unit) action" where
  "emtUpdater_update env DownloadChecker =
     andthen (attempt (GetMetaUpdateSource env)) (\<lambda>r.
     if (case r of Inr u \<Rightarrow> has_kernel_command u | Inl _ \<Rightarrow> False) then ret () else
     andthen DownloadChecker (\<lambda>done.
     if \<not> done then fail ''cannot execute Edge Microvisor Toolkit update as download has not taken place'' else
     andthen (wrap ''cannot write metafile: '' (SetMetaUpdateInProgress env OS)) (\<lambda>_.
     wrap (shell_error inbcEmtUpdateCommand) (run env inbcEmtUpdateCommand))))"

text \<open>The first file of the listing that is an EFI kernel; "" when there is none.\<close>

fun find_efi :: "string list \<Rightarrow> string" where
  "find_efi [] = []"
| "find_efi (line # lines) =
     (if HasPrefix line ''linux-'' \<and> HasSuffix line ''.efi'' then line else find_efi lines)"

definition new_kernel_conf :: "string \<Rightarrow> string \<Rightarrow> string \<Rightarrow> string" where
  "new_kernel_conf efiFile currentCmdline kernelCommand =
     ''title   Edge Microvisor Toolkit Kernel Parameters'' @ [nl] @
     ''linux   /EFI/Linux/'' @ efiFile @ [nl] @
     ''options '' @ currentCmdline @ '' '' @ kernelCommand @ [nl] @
     ''# '' @ currentCmdline @ [nl]"

text \<open>The third line becomes the original command line (kept in the comment of the fourth) and
  the new parameters.\<close>

definition edit_kernel_conf :: "string \<Rightarrow> string \<Rightarrow> string + string" where
  "edit_kernel_conf existing kernelCommand =
     (let lines = Split existing nl in
      if length lines < 4 then Inl (''unexpected format in '' @ emtKernelParamFile)
      else let originalCmdline = TrimPrefix (TrimSpace (lines ! 3)) ''# '';
               newOptions = originalCmdline @ '' '' @ kernelCommand
           in Inr (Join (lines[2 := ''options '' @ newOptions]) [nl]))"

definition emt_file_content :: "env \<Rightarrow> string \<Rightarrow> string \<Rightarrow> string \<Rightarrow> (world, string) action" where
  "emt_file_content env efiFile currentCmdline kernelCommand =
     andthen (attempt (run env [''sudo'', ''stat'', emtKernelParamFile])) (\<lambda>st.
     case st of
       Inl _ \<Rightarrow>
         andthen (attempt (run env [''sudo'', ''stat'', emtKernelParamDir])) (\<lambda>dir.
         andthen (case dir of Inr _ \<Rightarrow> ret ()
                  | Inl _ \<Rightarrow>
                     andthen (wrap (''failed to create directory '' @ emtKernelParamDir @ '': '')
                                (run env [''sudo'', ''mkdir'', ''-p'', emtKernelParamDir])) (\<lambda>_.
                     wrap (''failed to set permissions on '' @ emtKernelParamDir @ '': '')
                       (run env [''sudo'', ''chmod'', ''0755'', emtKernelParamDir]))) (\<lambda>_.
         ret (new_kernel_conf efiFile currentCmdline kernelCommand)))
     | Inr _ \<Rightarrow>
         andthen (wrap (''failed to read '' @ emtKernelParamFile @ '': '')
                    (Execute env [''sudo'', ''cat'', emtKernelParamFile])) (\<lambda>existing.
         lift_result (edit_kernel_conf existing kernelCommand)))"

definition os_Remove :: "env \<Rightarrow> string \<Rightarrow> (world, unit) action" where
  "os_Remove env p = andthen (io env ''remove'' p) (\<lambda>_. modify (\<lambda>s. s\<lparr>files := (files s)(p := None)\<rparr>))"

definition tmpFile :: string where "tmpFile = ''/tmp/emt_debug_entry.conf.tmp''"
definition tmpDefFile :: string where "tmpDefFile = ''/tmp/loader.conf.tmp''"

definition emt_default_boot :: "env \<Rightarrow> (world, unit) action \<Rightarrow> (world, unit) action" where
  "emt_default_boot env rest =
     andthen (attempt (run env [''sudo'', ''stat'', emtKernelDefCfgFile])) (\<lambda>st.
     case st of Inr _ \<Rightarrow> rest
     | Inl _ \<Rightarrow>
        andthen (wrap ''failed to write temporary file: ''
                   (os_WriteFile env tmpDefFile (''default emt_user_kernel_param.conf'' @ [nl]))) (\<lambda>_.
        deferred
          (andthen (wrap (''failed to copy '' @ tmpDefFile @ '' to '' @ emtKernelDefCfgFile @ '': '')
                     (run env [''sudo'', ''cp'', tmpDefFile, emtKernelDefCfgFile])) (\<lambda>_.
           andthen (wrap (''failed to set permissions on '' @ emtKernelDefCfgFile @ '': '')
                     (run env [''sudo'', ''chmod'', ''0600'', emtKernelDefCfgFile])) (\<lambda>_.
           rest)))
          (os_Remove env tmpDefFile)))"

definition emt_commit :: "env \<Rightarrow> (world, unit) action" where
  "emt_commit env =
     andthen (wrap ''failed to set metadata - '' (SetMetaUpdateStatus env UPDATED)) (\<lambda>_.
     andthen (ignore (SetMetaUpdateSource env None)) (\<lambda>_.
     wrap (shell_error cmdlineRebootCommand) (run env cmdlineRebootCommand)))"

definition emt_kernel_update :: "env \<Rightarrow> string \<Rightarrow> (world, unit) action" where
  "emt_kernel_update env kernelCommand =
     andthen (wrap ''failed to read /proc/cmdline: '' (Execute env cmdlineCommand)) (\<lambda>cmdlineOut.
     andthen (wrap ''failed to list EFI files: '' (Execute env cmdlineListEfiCommand)) (\<lambda>efiOut.
     let currentCmdline = TrimSpace cmdlineOut; efiFile = find_efi (Split (TrimSpace efiOut) nl) in
     if efiFile = [] then fail ''no EFI kernel file found in /boot/efi/EFI/Linux/'' else
     andthen (emt_file_content env efiFile currentCmdline kernelCommand) (\<lambda>fileContent.
     andthen (wrap ''failed to write temporary file: ''
                (run env [''sh'', ''-c'', ''echo '' @ [CHR 0x27] @ fileContent @ [CHR 0x27] @ '' > '' @ tmpFile])) (\<lambda>_.
     deferred
       (andthen (wrap (''failed to copy '' @ tmpFile @ '' to '' @ emtKernelParamFile @ '': '')
                  (run env [''sudo'', ''cp'', tmpFile, emtKernelParamFile])) (\<lambda>_.
        andthen (wrap (''failed to set permissions on '' @ emtKernelParamFile @ '': '')
                  (run env [''sudo'', ''chmod'', ''0600'', emtKernelParamFile])) (\<lambda>_.
        emt_default_boot env (emt_commit env))))
       (os_Remove env tmpFile)))))"

text \<open>On the Edge Microvisor Toolkit the update source is dereferenced without a nil check.\<close>

definition kernelUpdater_update :: "env \<Rightarrow> string \<Rightarrow> string \<Rightarrow> (world, unit) action" where
  "kernelUpdater_update env kernelFile osType =
     andthen (GetMetaUpdateSource env) (\<lambda>src.
     if osType = ''emt'' then
       (case src of None \<Rightarrow> crash ''invalid memory address or nil pointer dereference''
        | Some u \<Rightarrow> if KernelCommand u = [] then ret () else emt_kernel_update env (KernelCommand u))
     else (case src of None \<Rightarrow> ret ()
        | Some u \<Rightarrow> if KernelCommand u = [] then ret () else
           andthen (IsSymlink env kernelFile) (\<lambda>_.
           andthen (wrap (''failed to write modified kernel params to '' @ kernelFile @ '' file - '')
              (os_WriteFile env kernelFile (''GRUB_CMDLINE_LINUX_DEFAULT='' @ [CHR 0x22] @ KernelCommand u @ [CHR 0x22]))) (\<lambda>_.
           andthen (wrap ''GRUB update failed: '' (run env upgradeGrubCommand)) (\<lambda>_.
           wrap ''cannot write metafile: '' (SetMetaUpdateInProgress env OS))))))"

definition packagesUpdater_update :: "env \<Rightarrow> (world, unit) action" where
  "packagesUpdater_update env =
     andthen (wrap ''error reading metadata file - '' (GetMetaUpdateSource env)) (\<lambda>src.
     case src of None \<Rightarrow> ret ()
     | Some u \<Rightarrow>
        if CustomRepos u = [] then ret ()
        else if IsDeprecatedFormat (CustomRepos u) then
          andthen (wrap ''deprecated custom apt repo configuration failed. Error - ''
                     (ConfigureDeprecatedCustomAptRepos env (CustomRepos u))) (\<lambda>_. UpdatePackages env)
        else
          andthen (wrap ''failed to cleanup custom repos - '' (CleanupCustomRepos env)) (\<lambda>_.
          andthen (wrap ''failed to configure forward proxy - ''
                     (ConfigureForwardProxy env (CustomRepos u))) (\<lambda>repos.
          andthen (wrap ''custom apt repo configuration failed. Error - ''
                     (ConfigureCustomAptRepos env repos)) (\<lambda>_.
          UpdatePackages env))))"

definition selfUpdater_update :: "env \<Rightarrow> (world, unit) action" where
  "selfUpdater_update env =
     andthen (wrap ''cannot write metafile: '' (SetMetaUpdateInProgress env SELF)) (\<lambda>_.
     wrap ''PUA installation failed: '' (run env installPlatformUpdateAgentCommand))"

definition inbmUpdater_update :: "env \<Rightarrow> (world, unit) action" where
  "inbmUpdater_update env =
     andthen (wrap ''cannot write metafile: '' (SetMetaUpdateInProgress env INBM)) (\<lambda>_.
     UpgradeInbmPackages env)"

definition newPackageInstaller_update :: "env \<Rightarrow> (world, unit) action" where
  "newPackageInstaller_update env =
     andthen (wrap ''error reading metadata file: '' (GetInstalledPackages env)) (\<lambda>packages.
     InstallAdditionalPackages env packages)"

section \<open>The edge node updater\<close>

definition unix_seconds :: "int \<Rightarrow> int" where
  "unix_seconds t = t div 1000000000"

definition checkTimeout :: "env \<Rightarrow> (world, unit) action" where
  "checkTimeout env =
     andthen (wrap ''error reading metadata file: '' (GetMetaUpdateTime env)) (\<lambda>updateStartTime.
     andthen (wrap ''error reading metadata file: '' (GetMetaUpdateDuration env)) (\<lambda>updateDuration.
     if updateDuration = 0 then ret () else
     andthen (Now env) (\<lambda>now.
     if updateDuration \<le> unix_seconds now - unix_seconds updateStartTime
     then fail ''partial success - timed out before was able to perform full update'' else ret ())))"

definition edgeNodeUpdater_update :: "env \<Rightarrow> (world, unit) action list \<Rightarrow> (world, unit) action" where
  "edgeNodeUpdater_update env subsystemUpdaters =
     foreach (\<lambda>updater. andthen (checkTimeout env) (\<lambda>_. updater)) subsystemUpdaters"

definition NewUpdateController ::
  "env \<Rightarrow> string \<Rightarrow> (world, bool) action \<Rightarrow> string + (world, unit) action list" where
  "NewUpdateController env osType downloadChecker =
     (if osType \<noteq> ''ubuntu'' \<and> osType \<noteq> ''emt'' \<and> osType \<noteq> ''debian''
      then Inl (''unsupported os type: '' @ osType)
      else if osType = ''ubuntu'' \<or> osType = ''debian'' then
        Inr [packagesUpdater_update env, selfUpdater_update env, inbmUpdater_update env,
             kernelUpdater_update env kernelPath osType, newPackageInstaller_update env,
             osAndAgentsUpdater_update env]
      else Inr [emtUpdater_update env downloadChecker, kernelUpdater_update env emtKernelParamFile osType])"

definition CleanupAfterUpdate :: "env \<Rightarrow> string \<Rightarrow> string \<Rightarrow> (world, unit) action" where
  "CleanupAfterUpdate env osType granularLogPath =
     (if osType \<noteq> ''ubuntu'' \<and> osType \<noteq> ''emt'' \<and> osType \<noteq> ''debian''
      then fail (''unsupported os type: '' @ osType)
      else
        andthen (if osType = ''ubuntu'' \<or> osType = ''debian''
                 then wrap (shell_error aptCleanCommand) (run env aptCleanCommand) else ret ()) (\<lambda>_.
        andthen (attempt (io env ''stat'' granularLogPath)) (\<lambda>st.
        andthen (asks (\<lambda>s. files s granularLogPath \<noteq> None)) (\<lambda>exists.
        if st = Inr () \<and> exists
        then wrap (shell_error granularLogTruncateCommand) (run env granularLogTruncateCommand)
        else ret ()))))"

section \<open>Starting, continuing and verifying an update\<close>

text \<open>What \<^verbatim>\<open>StartUpdate\<close> does when the edge node updater has returned the error \<open>err\<close>.\<close>

definition update_failed :: "env \<Rightarrow> string \<Rightarrow> string \<Rightarrow> string \<Rightarrow> (world, unit) action" where
  "update_failed env osType granularLogPath err =
     andthen (ignore (SetMetaUpdateStatus env FAILED)) (\<lambda>_.
     andthen (if Contains err ERR_INVALID_SIGNATURE then ret []
              else andthen (attempt (os_ReadFile env granularLogPath)) (\<lambda>r.
                   ret (case r of Inl _ \<Rightarrow> [] | Inr content \<Rightarrow> content))) (\<lambda>updateLog.
     andthen (ignore (SetMetaUpdateLog env updateLog)) (\<lambda>_.
     ignore (CleanupAfterUpdate env osType granularLogPath))))"

definition run_update ::
  "env \<Rightarrow> string \<Rightarrow> string \<Rightarrow> (world, unit) action list \<Rightarrow> int \<Rightarrow> (world, unit) action" where
  "run_update env osType granularLogPath updaters durationSeconds =
     andthen (SetMetaUpdateStatus env STARTED) (\<lambda>_.
     andthen (Now env) (\<lambda>startTime.
     andthen (SetMetaUpdateTime env startTime) (\<lambda>_.
     andthen (SetMetaUpdateDuration env durationSeconds) (\<lambda>_.
     andthen (attempt (edgeNodeUpdater_update env updaters)) (\<lambda>r.
     case r of Inr _ \<Rightarrow> ret () | Inl err \<Rightarrow> update_failed env osType granularLogPath err)))))"

text \<open>A held mutex means that another update runs: nothing happens. An error that only leads to
  an early return is logged.\<close>

definition StartUpdate ::
  "env \<Rightarrow> string \<Rightarrow> string \<Rightarrow> (world, unit) action list \<Rightarrow> int \<Rightarrow> (world, unit) action" where
  "StartUpdate env osType granularLogPath updaters durationSeconds =
     andthen (asks edgeNodeUpdateMutex) (\<lambda>locked.
     if locked then ret () else
     andthen (modify (\<lambda>s. s\<lparr>edgeNodeUpdateMutex := True\<rparr>)) (\<lambda>_.
     deferred (ignore (run_update env osType granularLogPath updaters durationSeconds))
       (modify (\<lambda>s. s\<lparr>edgeNodeUpdateMutex := False\<rparr>))))"

definition ContinueUpdate :: "env \<Rightarrow> (world, unit) action list \<Rightarrow> (world, unit) action" where
  "ContinueUpdate env updaters =
     andthen (attempt (edgeNodeUpdater_update env updaters)) (\<lambda>r.
     case r of Inr _ \<Rightarrow> ret () | Inl _ \<Rightarrow> ignore (SetMetaUpdateStatus env FAILED))"

text \<open>The result of \<^verbatim>\<open>VerifyUpdate\<close>: status, granular log, time and error.\<close>

type_synonym verdict = "StatusType \<times> string \<times> string \<times> string option"

definition kernel_updated :: verdict where
  "kernel_updated = (UPDATED, ''Kernel command line parameters updated successfully'', [], None)"

definition granularLogShowsUpdate :: "env \<Rightarrow> string \<Rightarrow> bool" where
  "granularLogShowsUpdate env l = (case decode_log env l of None \<Rightarrow> False
     | Some statuses \<Rightarrow> ''SUCCESS'' \<in> set statuses)"

text \<open>No usable INBC log: a kernel-only update leaves none, and counts as updated.\<close>

definition verify_without_log :: "env \<Rightarrow> string \<Rightarrow> (world, verdict) action" where
  "verify_without_log env err =
     andthen (attempt (GetMetaUpdateInProgress env)) (\<lambda>p.
     if p \<noteq> Inr (string_of_UpdateType OS) then ret (FAILED, [], [], Some err) else
     andthen (attempt (GetMetaUpdateSource env)) (\<lambda>src.
     if (case src of Inr u \<Rightarrow> has_kernel_command u | Inl _ \<Rightarrow> False) then ret kernel_updated
     else ret (FAILED, [], [], Some err)))"

definition verdict_of :: "env \<Rightarrow> InbcStatus \<Rightarrow> string \<Rightarrow> verdict" where
  "verdict_of env st updateLog =
     (if Status st = ''SUCCESS'' then (UPDATED, updateLog, StatusTime st, None)
      else if Status st = ''NO_UPDATE_AVAILABLE'' then
        (if granularLogShowsUpdate env updateLog then (UPDATED, updateLog, StatusTime st, None)
         else (UP_TO_DATE, updateLog, StatusTime st, None))
      else if Status st = ''FAIL'' then (FAILED, updateLog, StatusTime st, Some (StatusError st))
      else if Status st = ''PENDING'' then (STARTED, updateLog, StatusTime st, None)
      else (FAILED, updateLog, StatusTime st,
            Some ''status of the last OS update is unknown. Please verify logs''))"

definition VerifyUpdate :: "env \<Rightarrow> string \<Rightarrow> string \<Rightarrow> (world, verdict) action" where
  "VerifyUpdate env logPath granularLogPath =
     andthen (attempt (os_ReadFile env logPath)) (\<lambda>r.
     case r of
       Inl e \<Rightarrow> verify_without_log env (''reading INBC logs failed: '' @ e)
     | Inr content \<Rightarrow>
        if content = [] then verify_without_log env ''INBC log file is empty''
        else (case decode_status env content of
          Inl e \<Rightarrow> ret (FAILED, [], [], Some (''unmarshalling INBC update status failed: '' @ e))
        | Inr st \<Rightarrow>
           andthen (attempt (os_ReadFile env granularLogPath)) (\<lambda>g.
           ret (verdict_of env st (case g of Inl _ \<Rightarrow> [] | Inr l \<Rightarrow> l)))))"

section \<open>Preservation\<close>

lemma keeps_run [keeps_rules]: "robust I \<Longrightarrow> keeps I (run env cmd)"
  unfolding run_def by (intro keeps_rules)

lemma keeps_os_Remove [keeps_rules]: "robust I \<Longrightarrow> keeps I (os_Remove env p)"
  unfolding os_Remove_def by (intro keeps_rules keeps_modify) (simp_all add: robust_def)

lemma keeps_updaters [keeps_rules]:
  assumes "robust I"
  shows "keeps I chk \<Longrightarrow> keeps I (emtUpdater_update env chk)"
  "keeps I (osAndAgentsUpdater_update env)" "keeps I (packagesUpdater_update env)"
  "keeps I (selfUpdater_update env)" "keeps I (inbmUpdater_update env)"
  "keeps I (newPackageInstaller_update env)"
  unfolding emtUpdater_update_def osAndAgentsUpdater_update_def packagesUpdater_update_def
    selfUpdater_update_def inbmUpdater_update_def newPackageInstaller_update_def ConfigureCustomAptRepos_def
  by (intro keeps_rules assms; assumption?)+

lemma keeps_kernelUpdater [keeps_rules]: "robust I \<Longrightarrow> keeps I (kernelUpdater_update env f os)"
  unfolding kernelUpdater_update_def emt_kernel_update_def emt_file_content_def emt_default_boot_def
    emt_commit_def Let_def
  by (intro keeps_rules)

lemma keeps_checkTimeout [keeps_rules]: "robust I \<Longrightarrow> keeps I (checkTimeout env)"
  unfolding checkTimeout_def by (intro keeps_rules)

lemma keeps_edgeNodeUpdater:
  "robust I \<Longrightarrow> (\<And>u. u \<in> set us \<Longrightarrow> keeps I u) \<Longrightarrow> keeps I (edgeNodeUpdater_update env us)"
  unfolding edgeNodeUpdater_update_def by (induction us) (auto intro!: keeps_rules)

lemma keeps_NewUpdateController:
  "robust I \<Longrightarrow> keeps I chk \<Longrightarrow> NewUpdateController env osType chk = Inr us \<Longrightarrow> u \<in> set us \<Longrightarrow> keeps I u"
  by (auto simp: NewUpdateController_def split: if_splits intro!: keeps_rules)

lemma keeps_CleanupAfterUpdate [keeps_rules]: "robust I \<Longrightarrow> keeps I (CleanupAfterUpdate env os p)"
  unfolding CleanupAfterUpdate_def by (intro keeps_rules)

lemma keeps_run_update:
  assumes "robust I" "\<And>u. u \<in> set us \<Longrightarrow> keeps I u"
  shows "keeps I (run_update env os p us d)"
  unfolding run_update_def update_failed_def
  by (intro keeps_rules keeps_edgeNodeUpdater assms)

lemma keeps_StartUpdate:
  assumes "robust I" "\<And>u. u \<in> set us \<Longrightarrow> keeps I u"
    "\<And>s b. I s \<Longrightarrow> I (s\<lparr>edgeNodeUpdateMutex := b\<rparr>)"
  shows "keeps I (StartUpdate env os p us d)"
  unfolding StartUpdate_def
  by (intro keeps_rules keeps_run_update keeps_modify assms)

lemma keeps_ContinueUpdate:
  assumes "robust I" "\<And>u. u \<in> set us \<Longrightarrow> keeps I u"
  shows "keeps I (ContinueUpdate env us)"
  unfolding ContinueUpdate_def by (intro keeps_rules keeps_edgeNodeUpdater assms)

lemma keeps_VerifyUpdate [keeps_rules]: "robust I \<Longrightarrow> keeps I (VerifyUpdate env p q)"
  unfolding VerifyUpdate_def verify_without_log_def by (intro keeps_rules)

section \<open>What the updaters do\<close>

lemma run_result:
  "run env cmd s = (r, t) \<Longrightarrow> cmd \<noteq> [] \<Longrightarrow> t = s\<lparr>tick := Suc (tick s), trace := trace s @ [cmd]\<rparr>"
  by (auto simp: run_def action_simps Execute_def split: sum.splits)

text \<open>The Ubuntu OS updater runs the command that installs and reboots only after the download command succeeded and the metadata file holds "OS" as the update in progress, so that the agent finds out after the reboot what it was doing.\<close>

theorem install_marked_before_reboot:
  assumes "osAndAgentsUpdater_update env s = (r, t)"
    and "inbcSotaNoDownloadCommand \<in> set (drop (length (trace s)) (trace t))"
  shows "\<exists>m. metafile s = Some (Encoded m) \<and> metafile t = Some (Encoded (m\<lparr>UpdateInProgress := ''OS''\<rparr>)) \<and>
    trace t = trace s @ [inbcSotaDownloadOnlyCommand, inbcSotaNoDownloadCommand]"
proof -
  obtain r1 s1 where g1: "run env inbcSotaDownloadOnlyCommand s = (r1, s1)" by fastforce
  obtain r3 s3 where g3: "update_meta env (\<lambda>m. m\<lparr>UpdateInProgress := ''OS''\<rparr>) s1 = (r3, s3)" by fastforce
  obtain r4 s4 where g4: "run env inbcSotaNoDownloadCommand s3 = (r4, s4)" by fastforce
  note res = run_result [OF g1] update_meta_result [OF g3] run_result [OF g4]
  from assms g1 g3 g4 res show ?thesis
    by (auto simp: osAndAgentsUpdater_update_def action_simps setter_defs
        inbcSotaDownloadOnlyCommand_def inbcSotaNoDownloadCommand_def split: outcome.splits if_splits)
qed

lemma install_marked_before_reboot_witness:
  "\<exists>t. osAndAgentsUpdater_update calm_env (calm_world initial_meta) = (Ok (), t) \<and>
     trace t = [inbcSotaDownloadOnlyCommand, inbcSotaNoDownloadCommand]"
proof -
  obtain r t where g: "osAndAgentsUpdater_update calm_env (calm_world initial_meta) = (r, t)" by fastforce
  then have tr: "r = Ok ()" "inbcSotaNoDownloadCommand \<in> set (drop 0 (trace t))"
    by (auto simp: osAndAgentsUpdater_update_def run_def run_simps inbcSotaDownloadOnlyCommand_def inbcSotaNoDownloadCommand_def)
  with install_marked_before_reboot [OF g] g show ?thesis by (auto simp: calm_world_def)
qed

text \<open>When the recorded duration of an update is over, no further subsystem updater runs: the update ends with an error before the first command, and nothing but the clock has moved.\<close>

theorem timed_out_update_stops:
  assumes "stored env m s" "UpdateTime m = Some t0" "UpdateDuration m \<noteq> 0"
    and "UpdateDuration m \<le> clock env (tick s + 4) div 1000000000 - t0"
  shows "\<exists>e n. edgeNodeUpdater_update env (u # us) s = (Err e, s\<lparr>tick := n\<rparr>)"
  using assms
  by (auto simp: edgeNodeUpdater_update_def checkTimeout_def action_simps GetMetaUpdateTime_stored
      GetMetaUpdateDuration_def get_meta_stored Now_def bump_def unix_seconds_def numeral_eq_Suc)

lemma timed_out_update_stops_witness:
  "\<exists>e n. edgeNodeUpdater_update calm_env [crash ''never''] (calm_world (initial_meta\<lparr>UpdateTime := Some 1, UpdateDuration := 2\<rparr>)) =
     (Err e, (calm_world (initial_meta\<lparr>UpdateTime := Some 1, UpdateDuration := 2\<rparr>))\<lparr>tick := n\<rparr>)"
  by (rule timed_out_update_stops [OF calm_stored, of _ 1]) (simp_all add: calm_env_def)

text \<open>Editing the kernel parameter file a second time replaces the parameters of the first edit: the result is the one of a single edit of the original file, up to the newline that the shell adds.\<close>

theorem edit_kernel_conf_replaces:
  assumes "edit_kernel_conf c k1 = Inr c1" "nl \<notin> set k1"
  shows "edit_kernel_conf (c1 @ [nl]) k2 = map_sum id (\<lambda>x. x @ [nl]) (edit_kernel_conf c k2)"
proof -
  let ?ls = "Split c nl"
  let ?orig = "TrimPrefix (TrimSpace (?ls ! 3)) ''# ''"
  let ?ls1 = "?ls[2 := ''options '' @ ?orig @ '' '' @ k1]"
  have len: "4 \<le> length ?ls" and c1: "c1 = Join ?ls1 [nl]"
    using assms(1) by (auto simp: edit_kernel_conf_def Let_def split: if_splits)
  have "nl \<notin> set (?ls ! 3)"
    using Split_parts_no_sep [of "?ls ! 3" c nl] len by simp
  then have orig: "nl \<notin> set ?orig"
    using set_TrimPrefix set_TrimSpace by blast
  have "nl \<notin> set w" if "w \<in> set ?ls1" for w
    using that orig assms(2) Split_parts_no_sep set_update_subset_insert by fastforce
  then have split: "Split c1 nl = ?ls1"
    unfolding c1 using len by (intro Split_Join) auto
  show ?thesis
    using len split by (auto simp: edit_kernel_conf_def Let_def Split_snoc_sep list_update_append nth_append Join_snoc_empty)
qed

lemma edit_kernel_conf_replaces_witness:
  "edit_kernel_conf (''t'' @ [nl] @ ''l'' @ [nl] @ ''options r a'' @ [nl] @ ''# r'' @ [nl]) ''b'' =
     Inr (''t'' @ [nl] @ ''l'' @ [nl] @ ''options r b'' @ [nl] @ ''# r'' @ [nl])"
proof -
  let ?c = "''t'' @ [nl] @ ''l'' @ [nl] @ ''options r'' @ [nl] @ ''# r''"
  have e: "edit_kernel_conf ?c ''a'' = Inr (''t'' @ [nl] @ ''l'' @ [nl] @ ''options r a'' @ [nl] @ ''# r'')"
    by (simp add: edit_kernel_conf_def TrimSpace_def TrimFunc_def is_space_def TrimPrefix_def)
  from edit_kernel_conf_replaces [OF e, of "''b''"] show ?thesis
    by (simp add: edit_kernel_conf_def TrimSpace_def TrimFunc_def is_space_def TrimPrefix_def)
qed

text \<open>A file that the agent created itself is edited to exactly the file it would have created for the new parameters.\<close>

theorem kernel_conf_update:
  assumes "nl \<notin> set efi" "nl \<notin> set cur" "nl \<notin> set k1" "TrimSpace cur = cur" "cur \<noteq> []"
  shows "edit_kernel_conf (new_kernel_conf efi cur k1 @ [nl]) k2 = Inr (new_kernel_conf efi cur k2 @ [nl])"
proof -
  let ?title = "''title   Edge Microvisor Toolkit Kernel Parameters''"
  have conf: "new_kernel_conf efi cur k @ [nl] = Join [?title, ''linux   /EFI/Linux/'' @ efi,
      ''options '' @ cur @ '' '' @ k, ''# '' @ cur, [], []] [nl]" for k
    by (simp add: new_kernel_conf_def)
  have "Split (new_kernel_conf efi cur k1 @ [nl]) nl = [?title, ''linux   /EFI/Linux/'' @ efi,
      ''options '' @ cur @ '' '' @ k1, ''# '' @ cur, [], []]"
    unfolding conf by (rule Split_Join) (use assms in auto)
  moreover have "TrimSpace (''# '' @ cur) = ''# '' @ cur"
    using TrimSpace_last [OF assms(4,5)] assms(5) by (intro TrimSpace_id) (auto simp: is_space_def)
  ultimately show ?thesis
    by (simp add: edit_kernel_conf_def conf TrimPrefix_def)
qed

lemma kernel_conf_update_witness:
  "edit_kernel_conf (new_kernel_conf ''linux-1.efi'' ''root'' ''a'' @ [nl]) ''b'' =
     Inr (new_kernel_conf ''linux-1.efi'' ''root'' ''b'' @ [nl])"
  by (rule kernel_conf_update) (simp_all add: TrimSpace_def TrimFunc_def is_space_def)

text \<open>An update that is requested while another one runs does nothing, and an update that returns has released the mutex; no error is returned to the scheduler.\<close>

theorem start_update_mutex:
  "(edgeNodeUpdateMutex s \<longrightarrow> StartUpdate env osType p us d s = (Ok (), s)) \<and>
   (\<not> edgeNodeUpdateMutex s \<longrightarrow> (case StartUpdate env osType p us d s of
       (Ok _, t) \<Rightarrow> \<not> edgeNodeUpdateMutex t | (Err e, t) \<Rightarrow> False | (Crash e, t) \<Rightarrow> True))"
proof -
  let ?m = "ignore (run_update env osType p us d)"
  let ?s = "s\<lparr>edgeNodeUpdateMutex := True\<rparr>"
  have start: "StartUpdate env osType p us d s = (if edgeNodeUpdateMutex s then (Ok (), s) else
      case ?m ?s of (Crash e, s') \<Rightarrow> (Crash e, s') | (r, s') \<Rightarrow> (r, s'\<lparr>edgeNodeUpdateMutex := False\<rparr>))"
    by (simp add: StartUpdate_def andthen_apply asks_apply modify_apply ret_apply deferred_modify
        split: prod.splits outcome.splits)
  obtain r t where rt: "?m ?s = (r, t)" by fastforce
  moreover have "r \<noteq> Err e" for e
    using rt ignore_never_Err [of "run_update env osType p us d" ?s] by metis
  ultimately show ?thesis
    unfolding start by (cases r) auto
qed

lemma start_update_mutex_witness:
  "StartUpdate calm_env ''ubuntu'' ''log'' [crash ''never''] 10 ((calm_world initial_meta)\<lparr>edgeNodeUpdateMutex := True\<rparr>) =
     (Ok (), (calm_world initial_meta)\<lparr>edgeNodeUpdateMutex := True\<rparr>)"
  using start_update_mutex [of "(calm_world initial_meta)\<lparr>edgeNodeUpdateMutex := True\<rparr>" calm_env] by simp

section \<open>A failed update is recorded\<close>

definition granular_content :: "string \<Rightarrow> string \<Rightarrow> world \<Rightarrow> string" where
  "granular_content err p s = (if Contains err ERR_INVALID_SIGNATURE then []
     else case files s p of None \<Rightarrow> [] | Some c \<Rightarrow> c)"

lemma CleanupAfterUpdate_metafile:
  "CleanupAfterUpdate env os p s = (r, t) \<Longrightarrow> metafile t = metafile s"
proof -
  assume "CleanupAfterUpdate env os p s = (r, t)"
  then show ?thesis
    by (auto simp: CleanupAfterUpdate_def action_simps run_def Execute_def io_def bump_def
        split: if_splits option.splits outcome.splits prod.splits sum.splits)
qed

lemma safe_run [safe_rules]: "cmd \<noteq> [] \<Longrightarrow> safe (run env cmd)"
  unfolding run_def by (intro safe_rules)

lemma safe_CleanupAfterUpdate [safe_rules]: "safe (CleanupAfterUpdate env os p)"
  unfolding CleanupAfterUpdate_def
  by (intro safe_rules) (simp_all add: aptCleanCommand_def granularLogTruncateCommand_def)

lemma update_failed_spec:
  assumes "stored env m s"
  shows "\<exists>t. update_failed env os p err s = (Ok (), t) \<and>
    metafile t = Some (Encoded (m\<lparr>UpdateStatus := ''STATUS_TYPE_FAILED'', UpdateLog := granular_content err p s\<rparr>))"
proof -
  let ?m1 = "m\<lparr>UpdateStatus := ''STATUS_TYPE_FAILED''\<rparr>"
  let ?log = "granular_content err p s"
  have healthy: "\<forall>n op p. io_error env n op p = None" using assms by (simp add: stored_def)
  obtain s1 where s1: "update_meta env (\<lambda>m. m\<lparr>UpdateStatus := ''STATUS_TYPE_FAILED''\<rparr>) s = (Ok (), s1)"
    "stored env ?m1 s1" "files s1 = files s"
    using update_meta_step [OF assms] .
  let ?s2 = "if Contains err ERR_INVALID_SIGNATURE then s1 else s1\<lparr>tick := Suc (tick s1)\<rparr>"
  have "stored env ?m1 ?s2" using s1 by simp
  then obtain s3 where s3: "update_meta env (\<lambda>m. m\<lparr>UpdateLog := ?log\<rparr>) ?s2 = (Ok (), s3)"
    "stored env (?m1\<lparr>UpdateLog := ?log\<rparr>) s3"
    by (rule update_meta_step)
  obtain r t where c: "CleanupAfterUpdate env os p s3 = (r, t)" by fastforce
  have "update_failed env os p err s = (Ok (), t)"
    using s1 s3(1) c safeD [OF safe_CleanupAfterUpdate, of env os p s3]
    by (cases r) (auto simp: update_failed_def setter_defs action_simps
        os_ReadFile_healthy [OF healthy] granular_content_def split: option.splits if_splits)
  with CleanupAfterUpdate_metafile [OF c] stored_metafile [OF s3(2)] show ?thesis by auto
qed

end
