(* ===== verification/Pua_Downloader.thy ===== *)
theory Pua_Downloader
  imports Pua_Metadata
begin

text \<open>
  The downloader of the Platform Update Agent (\<^verbatim>\<open>internal/downloader/downloader.go\<close> and
  \<^verbatim>\<open>real_downloader.go\<close>): the window in which a download starts, the timer that
  \<^verbatim>\<open>Notify\<close> arms, and the download itself under the operation lock that it shares with
  updates.

  Times and windows are nanoseconds; the zero time is \<open>None\<close>. \<open>time.AfterFunc\<close> with a delay
  of \<^verbatim>\<open>time.Until(t)\<close> is a timer due at \<open>t\<close>.
\<close>

section \<open>When to download\<close>

definition GetRandomTimeInRange :: "env \<Rightarrow> int \<Rightarrow> int \<Rightarrow> (world, int) action" where
  "GetRandomTimeInRange env a b =
     (let start = min a b; end = max a b; duration = end - start in
      if duration = 0 then ret start
      else andthen (asks (\<lambda>s. random_below env (tick s) duration)) (\<lambda>r.
           andthen bump (\<lambda>_. ret (start + r))))"

definition CalculateDownloadStart :: "int \<Rightarrow> int \<Rightarrow> int \<Rightarrow> int \<Rightarrow> int \<times> int" where
  "CalculateDownloadStart immediateWindow downloadWindow now updateStart =
     (let immediateWindowStart = updateStart - immediateWindow;
          downloadWindowStart = immediateWindowStart - downloadWindow
      in if now = downloadWindowStart \<or> now < downloadWindowStart
         then (downloadWindowStart, immediateWindowStart)
         else if downloadWindowStart < now \<and> now < immediateWindowStart
         then (now, immediateWindowStart)
         else (now, now))"

text \<open>Two pointers to update sources: nil equals only nil, otherwise the image hashes decide.\<close>

definition AreOsImagesEqual :: "OSProfile option \<Rightarrow> OSProfile option \<Rightarrow> bool" where
  "AreOsImagesEqual a b = (case (a, b) of
     (Some x, Some y) \<Rightarrow> OsImageSha x = OsImageSha y
   | (None, None) \<Rightarrow> True
   | _ \<Rightarrow> False)"

definition stop_timer :: "(world, unit) action" where
  "stop_timer = modify (\<lambda>s. s\<lparr>downloadTimer := None\<rparr>)"

definition Notify ::
  "env \<Rightarrow> int \<Rightarrow> int \<Rightarrow> string \<Rightarrow> OSProfile option \<Rightarrow> int option \<Rightarrow> OSProfile option \<Rightarrow> (world, unit) action" where
  "Notify env immediateWindow downloadWindow prependToImageURL updateSource nextRunTime bootedOsProfileSource =
     (if AreOsImagesEqual updateSource bootedOsProfileSource then stop_timer else
      andthen (asks (\<lambda>s. lastUpdateStart s \<noteq> nextRunTime \<or> \<not> AreOsImagesEqual updateSource (lastUpdateSource s))) (\<lambda>changed.
      if \<not> changed then ret () else
      andthen stop_timer (\<lambda>_.
      andthen (case nextRunTime of None \<Rightarrow> ret ()
               | Some t \<Rightarrow>
                  andthen (Now env) (\<lambda>now.
                  let (rangeStart, rangeEnd) = CalculateDownloadStart immediateWindow downloadWindow now t in
                  andthen (GetRandomTimeInRange env rangeStart rangeEnd) (\<lambda>downloadTime.
                  modify (\<lambda>s. s\<lparr>downloadTimer := Some (downloadTime, prependToImageURL, updateSource)\<rparr>)))) (\<lambda>_.
      modify (\<lambda>s. s\<lparr>lastUpdateStart := nextRunTime, lastUpdateSource := updateSource\<rparr>)))))"

section \<open>The download\<close>

text \<open>\<^verbatim>\<open>cmd.CombinedOutput()\<close>: output and error together.\<close>

definition CombinedOutput :: "env \<Rightarrow> string list \<Rightarrow> (world, string \<times> string option) action" where
  "CombinedOutput env args = (\<lambda>s.
     (Ok (case exec_result env (tick s) args of Inr out \<Rightarrow> (out, None)
          | Inl e \<Rightarrow> (failed_output env (tick s) args, Some e)),
      s\<lparr>tick := Suc (tick s), trace := trace s @ [args]\<rparr>))"

definition runInbcCommand :: "env \<Rightarrow> string list \<Rightarrow> (world, unit) action" where
  "runInbcCommand env args =
     andthen (CombinedOutput env ([''sudo'', ''inbc''] @ args)) (\<lambda>(out, err).
     case err of None \<Rightarrow> ret ()
     | Some e \<Rightarrow> if Contains out ''SOTA Command Response: 200-Success'' then ret ()
                 else fail (''command failed. output: '' @ [nl] @ out @ [nl] @ ''error: '' @ e))"

definition Download :: "env \<Rightarrow> string \<Rightarrow> OSProfile option \<Rightarrow> (world, unit) action" where
  "Download env prependToImageURL source = (case source of
     None \<Rightarrow> crash ''invalid memory address or nil pointer dereference''
   | Some src \<Rightarrow> wrap ''cannot download: '' (runInbcCommand env
       [''sota'', ''--mode'', ''download-only'', ''--signature'', OsImageSha src,
        ''--uri'', prependToImageURL @ OsImageUrl src]))"

definition setStatus :: "env \<Rightarrow> StatusType \<Rightarrow> (world, unit) action" where
  "setStatus env st =
     wrap (''cannot set metadata update status to '' @ string_of_StatusType st @ '': '') (SetMetaUpdateStatus env st)"

definition LockForUpdate :: "(world, unit) action" where
  "LockForUpdate = modify (\<lambda>s. s\<lparr>operationLock := True\<rparr>)"

definition tryLockForDownload :: "(world, bool) action" where
  "tryLockForDownload = andthen (asks operationLock) (\<lambda>held.
     if held then ret False else andthen LockForUpdate (\<lambda>_. ret True))"

definition Unlock :: "(world, unit) action" where
  "Unlock = modify (\<lambda>s. s\<lparr>operationLock := False\<rparr>)"

definition locked_download :: "env \<Rightarrow> string \<Rightarrow> OSProfile option \<Rightarrow> (world, bool) action" where
  "locked_download env prependToImageURL updateSource =
     andthen (attempt (setStatus env DOWNLOADING)) (\<lambda>st.
     case st of Inl _ \<Rightarrow> ret False
     | Inr _ \<Rightarrow>
        andthen (attempt (Download env prependToImageURL updateSource)) (\<lambda>r.
        case r of
          Inl e \<Rightarrow> andthen (ignore (setStatus env FAILED)) (\<lambda>_.
                   andthen (ignore (SetMetaUpdateLog env e)) (\<lambda>_. ret False))
        | Inr _ \<Rightarrow> andthen (attempt (setStatus env DOWNLOADED)) (\<lambda>st2.
                   ret (case st2 of Inl _ \<Rightarrow> False | Inr _ \<Rightarrow> True))))"

definition startDownload :: "env \<Rightarrow> string \<Rightarrow> OSProfile option \<Rightarrow> (world, bool) action" where
  "startDownload env prependToImageURL updateSource =
     andthen tryLockForDownload (\<lambda>got.
     if got then deferred (locked_download env prependToImageURL updateSource) Unlock else ret False)"

definition setLastDownloaded :: "OSProfile option \<Rightarrow> (world, unit) action" where
  "setLastDownloaded p = modify (\<lambda>s. s\<lparr>lastDownloaded := p\<rparr>)"

definition GetLastDownloaded :: "(world, OSProfile option) action" where
  "GetLastDownloaded = asks lastDownloaded"

text \<open>The function that the timer runs when it is due.\<close>

definition timer_fires :: "env \<Rightarrow> (world, unit) action" where
  "timer_fires env = andthen (asks downloadTimer) (\<lambda>t.
     case t of None \<Rightarrow> ret ()
     | Some (due, prependToImageURL, updateSource) \<Rightarrow>
        andthen stop_timer (\<lambda>_.
        andthen (startDownload env prependToImageURL updateSource) (\<lambda>ok.
        if ok then setLastDownloaded updateSource else ret ())))"

section \<open>Preservation\<close>

lemma keeps_CombinedOutput [keeps_rules]: "robust I \<Longrightarrow> keeps I (CombinedOutput env args)"
proof -
  assume "robust I"
  then have "I s \<Longrightarrow> I (s\<lparr>tick := n\<rparr>\<lparr>trace := t\<rparr>)" for s n t
    unfolding robust_def env_blind_def by blast
  then show ?thesis by (simp add: keeps_def CombinedOutput_def)
qed

lemma keeps_Download [keeps_rules]: "robust I \<Longrightarrow> keeps I (Download env p s)"
  unfolding Download_def runInbcCommand_def by (intro keeps_rules)

lemma keeps_locked_download [keeps_rules]: "robust I \<Longrightarrow> keeps I (locked_download env p s)"
  unfolding locked_download_def setStatus_def by (intro keeps_rules)

lemma keeps_GetRandomTimeInRange [keeps_rules]: "robust I \<Longrightarrow> keeps I (GetRandomTimeInRange env a b)"
  unfolding GetRandomTimeInRange_def Let_def by (intro keeps_rules)

text \<open>The downloader's own fields: its timer, its lock and what it remembers.\<close>

definition downloader_blind :: "(world \<Rightarrow> bool) \<Rightarrow> bool" where
  "downloader_blind I \<longleftrightarrow> (\<forall>s b t u v w. I s \<longrightarrow> I (s\<lparr>operationLock := b\<rparr>) \<and> I (s\<lparr>downloadTimer := t\<rparr>) \<and>
     I (s\<lparr>lastUpdateStart := u, lastUpdateSource := v\<rparr>) \<and> I (s\<lparr>lastDownloaded := w\<rparr>))"

lemma keeps_startDownload [keeps_rules]:
  "robust I \<Longrightarrow> downloader_blind I \<Longrightarrow> keeps I (startDownload env p u)"
  unfolding startDownload_def tryLockForDownload_def LockForUpdate_def Unlock_def
  by (intro keeps_rules keeps_modify) (simp_all add: downloader_blind_def)

lemma keeps_timer_fires [keeps_rules]:
  "robust I \<Longrightarrow> downloader_blind I \<Longrightarrow> keeps I (timer_fires env)"
  unfolding timer_fires_def stop_timer_def setLastDownloaded_def
  by (intro keeps_rules keeps_modify) (simp_all add: downloader_blind_def)

lemma keeps_Notify [keeps_rules]:
  "robust I \<Longrightarrow> downloader_blind I \<Longrightarrow> keeps I (Notify env iw dw p u n b)"
  unfolding Notify_def stop_timer_def Let_def
  by (intro keeps_rules keeps_modify) (simp_all add: downloader_blind_def)

lemma downloader_blind_meta_ok [keeps_rules]: "downloader_blind meta_ok"
  by (simp add: downloader_blind_def meta_ok_def)

lemma downloader_blind_jobs [keeps_rules]: "downloader_blind (\<lambda>s. P (jobs s))"
  by (simp add: downloader_blind_def)

section \<open>Properties of the downloader\<close>

text \<open>The download starts in the download window before the immediate window when there is still time for it, inside what is left of it when it has begun, and at once in the immediate window; never in the past.\<close>

theorem download_time_in_window:
  assumes "0 \<le> iw" "0 \<le> dw" "\<And>n d. 0 < d \<Longrightarrow> 0 \<le> random_below env n d \<and> random_below env n d < d"
    and "CalculateDownloadStart iw dw now us = (a, b)" "GetRandomTimeInRange env a b s = (Ok dt, t)"
  shows "now \<le> dt \<and> (now < us - iw \<longrightarrow> us - iw - dw \<le> dt \<and> dt < us - iw \<or> dw = 0) \<and> (us - iw \<le> now \<longrightarrow> dt = now)"
  using assms(1,2,4,5) assms(3) [of "b - a" "tick s"]
  by (auto simp: CalculateDownloadStart_def GetRandomTimeInRange_def Let_def bump_def action_simps split: if_splits)

lemma download_time_in_window_witness:
  "(50::int) \<le> 70 \<and> (70::int) < 90"
  using download_time_in_window [of 10 20 calm_env 50 100 70 90 "calm_world initial_meta" 70
     "(calm_world initial_meta)\<lparr>tick := 1\<rparr>"]
  by (auto simp: calm_env_def CalculateDownloadStart_def GetRandomTimeInRange_def run_simps)

text \<open>A second notification with the same arguments changes nothing: it neither moves the timer nor draws a new random time.\<close>

theorem notify_idempotent:
  "andthen (Notify env iw dw p u n b) (\<lambda>_. Notify env iw dw p u n b) = Notify env iw dw p u n b"
proof (rule ext)
  fix s
  have eq: "AreOsImagesEqual u u" by (simp add: AreOsImagesEqual_def split: option.splits)
  show "andthen (Notify env iw dw p u n b) (\<lambda>_. Notify env iw dw p u n b) s = Notify env iw dw p u n b s"
    using eq
    by (auto simp: Notify_def action_simps stop_timer_def Now_def bump_def GetRandomTimeInRange_def
        CalculateDownloadStart_def Let_def split: option.splits outcome.splits prod.splits if_splits)
qed

lemma timer_under_lock:
  assumes "operationLock s" "timer_fires env s = (r, t)"
  shows "t = s\<lparr>downloadTimer := None\<rparr>"
  using assms
  by (auto simp: timer_fires_def stop_timer_def startDownload_def tryLockForDownload_def action_simps
      split: option.splits prod.splits)

text \<open>A timer that fires while an update holds the operation lock downloads nothing.\<close>

theorem download_respects_lock:
  assumes "operationLock s" "timer_fires env s = (r, t)"
  shows "t = s\<lparr>downloadTimer := None\<rparr>"
  using assms by (rule timer_under_lock)

definition armed :: world where
  "armed = (calm_world initial_meta)\<lparr>downloadTimer := Some (1, ''h/'', Some image_a)\<rparr>"

lemma download_respects_lock_witness:
  "snd (timer_fires calm_env (armed\<lparr>operationLock := True\<rparr>)) = armed\<lparr>operationLock := True, downloadTimer := None\<rparr>"
proof -
  obtain r t where g: "timer_fires calm_env (armed\<lparr>operationLock := True\<rparr>) = (r, t)" by fastforce
  from download_respects_lock [OF _ g] g show ?thesis by simp
qed

lemma setStatus_result:
  "setStatus env st s = (r, t) \<Longrightarrow> (\<exists>n. t = s\<lparr>tick := n\<rparr> \<and> r \<noteq> Ok ()) \<or>
    (\<exists>m n. metafile s = Some (Encoded m) \<and>
       t = s\<lparr>tick := n, metafile := Some (Encoded (m\<lparr>UpdateStatus := string_of_StatusType st\<rparr>))\<rparr> \<and> r = Ok ())"
  unfolding setStatus_def SetMetaUpdateStatus_def wrap_apply
  by (cases "update_meta env (\<lambda>m. m\<lparr>UpdateStatus := string_of_StatusType st\<rparr>) s")
     (auto dest!: update_meta_result split: outcome.splits)

lemma Download_result:
  "Download env p src s = (r, t) \<Longrightarrow>
   t = s \<and> src = None \<and> (\<exists>e. r = Crash e) \<or>
   (\<exists>x. src = Some x \<and> t = s\<lparr>tick := Suc (tick s), trace := trace s @ [[''sudo'', ''inbc'', ''sota'', ''--mode'', ''download-only'',
      ''--signature'', OsImageSha x, ''--uri'', p @ OsImageUrl x]]\<rparr>)"
  by (auto simp: Download_def runInbcCommand_def CombinedOutput_def action_simps split: option.splits sum.splits if_splits)

text \<open>The agent remembers an image as downloaded only after the download command for exactly that image succeeded under the operation lock and the status DOWNLOADED was written.\<close>

theorem last_downloaded_was_downloaded:
  assumes "timer_fires env s = (Ok (), t)" "lastDownloaded t \<noteq> lastDownloaded s"
  shows "\<exists>due p x m. downloadTimer s = Some (due, p, Some x) \<and> lastDownloaded t = Some x \<and>
    \<not> operationLock s \<and> \<not> operationLock t \<and> downloadTimer t = None \<and>
    metafile t = Some (Encoded (m\<lparr>UpdateStatus := ''STATUS_TYPE_DOWNLOADED''\<rparr>)) \<and>
    trace t = trace s @ [[''sudo'', ''inbc'', ''sota'', ''--mode'', ''download-only'',
      ''--signature'', OsImageSha x, ''--uri'', p @ OsImageUrl x]]"
proof -
  obtain due p src where tm: "downloadTimer s = Some (due, p, src)"
    using assms by (cases "downloadTimer s") (auto simp: timer_fires_def action_simps)
  let ?s0 = "s\<lparr>downloadTimer := None, operationLock := True\<rparr>"
  have free: "\<not> operationLock s"
    using assms by (auto dest: timer_under_lock)
  obtain r1 s1 where g1: "setStatus env DOWNLOADING ?s0 = (r1, s1)" by fastforce
  obtain r2 s2 where g2: "Download env p src s1 = (r2, s2)" by fastforce
  obtain r3 s3 where g3: "setStatus env DOWNLOADED s2 = (r3, s3)" by fastforce
  have fr: "keeps (\<lambda>x. lastDownloaded x = lastDownloaded s) (locked_download env p src)"
    by (intro keeps_rules)
  obtain r4 s4 where g4: "locked_download env p src ?s0 = (r4, s4)" by fastforce
  have l4: "lastDownloaded s4 = lastDownloaded s"
    using keepsD [OF fr _ g4] by simp
  have r4: "r4 = Ok True" and t: "t = s4\<lparr>operationLock := False, lastDownloaded := src\<rparr>"
    using assms tm free g4 l4
    by (auto simp: timer_fires_def stop_timer_def startDownload_def tryLockForDownload_def LockForUpdate_def
        Unlock_def setLastDownloaded_def deferred_def action_simps split: outcome.splits if_splits)
  have "s4 = s3 \<and> r1 = Ok () \<and> r2 = Ok () \<and> r3 = Ok ()"
    using g4 g1 g2 g3 r4
    by (auto simp: locked_download_def action_simps split: outcome.splits prod.splits)
  with t tm free setStatus_result [OF g1] Download_result [OF g2] setStatus_result [OF g3] show ?thesis
    by auto
qed

lemma last_downloaded_was_downloaded_witness:
  "\<exists>t. timer_fires calm_env armed = (Ok (), t) \<and> lastDownloaded t = Some image_a \<and> \<not> operationLock t"
proof -
  obtain r t where g: "timer_fires calm_env armed = (r, t)" by fastforce
  then have "r = Ok ()" "lastDownloaded t \<noteq> lastDownloaded armed"
    by (auto simp: timer_fires_def startDownload_def tryLockForDownload_def LockForUpdate_def Unlock_def
       locked_download_def setStatus_def Download_def runInbcCommand_def CombinedOutput_def stop_timer_def
       deferred_modify armed_def setLastDownloaded_def run_simps)
  with last_downloaded_was_downloaded [of calm_env armed t] g show ?thesis by (auto simp: armed_def)
qed

end
