(* ===== verification/Pua_Scheduler.thy ===== *)
theory Pua_Scheduler
  imports Pua_Updater Pua_Downloader
begin

text \<open>
  The scheduler of the Platform Update Agent (\<^verbatim>\<open>internal/scheduler/scheduler.go\<close>). The jobs
  of the gocron library are the list \<open>jobs\<close> of the world, in the order in which they were
  added: \<^verbatim>\<open>RemoveByTag\<close> drops those with the tag, \<^verbatim>\<open>FindJobsByTag\<close> selects them, a successful
  \<^verbatim>\<open>Do\<close> appends one. The library's cron parser is the oracle \<open>cron_next\<close>.
\<close>

section \<open>Jobs\<close>

definition repeatedScheduleTag :: string where "repeatedScheduleTag = ''RepeatedSchedule''"
definition singleScheduleTag :: string where "singleScheduleTag = ''SingleSchedule''"

definition RemoveByTag :: "string \<Rightarrow> (world, unit) action" where
  "RemoveByTag tag = modify (\<lambda>s. s\<lparr>jobs := filter (\<lambda>j. job_tag j \<noteq> tag) (jobs s)\<rparr>)"

definition FindJobsByTag :: "string \<Rightarrow> world \<Rightarrow> Job list" where
  "FindJobsByTag tag s = filter (\<lambda>j. job_tag j = tag) (jobs s)"

definition add_job :: "Job \<Rightarrow> (world, unit) action" where
  "add_job j = modify (\<lambda>s. s\<lparr>jobs := jobs s @ [j]\<rparr>)"

definition CronScheduleToString :: "RepeatedSchedule \<Rightarrow> string" where
  "CronScheduleToString schedule = CronMinutes schedule @ '' '' @ CronHours schedule @ '' '' @
     CronDayMonth schedule @ '' '' @ CronMonth schedule @ '' '' @ CronDayWeek schedule"

definition scheduleRepeatedSchedule :: "env \<Rightarrow> RepeatedSchedule \<Rightarrow> (world, unit) action" where
  "scheduleRepeatedSchedule env schedule =
     andthen (asks (\<lambda>s. cron_next env (tick s) (CronScheduleToString schedule))) (\<lambda>r.
     andthen bump (\<lambda>_.
     case r of
       Inl _ \<Rightarrow> ignore (SetMetaUpdateStatus env FAILED)
     | Inr t \<Rightarrow> add_job \<lparr>job_tag = repeatedScheduleTag,
                 job_kind = CronJob (CronScheduleToString schedule) (uint (DurationSeconds schedule)),
                 finished_runs = 0, next_run = t\<rparr>))"

section \<open>Running an update\<close>

text \<open>\<^verbatim>\<open>int64(math.Round(d.Seconds()))\<close>, half away from zero, and \<^verbatim>\<open>int64(d.Seconds())\<close>, towards
  zero. The rounding of the intermediate float64 is not modelled.\<close>

definition round_seconds :: "int \<Rightarrow> int" where
  "round_seconds d = (if 0 \<le> d then (d + 500000000) div 1000000000
                      else - ((- d + 500000000) div 1000000000))"

definition trunc_seconds :: "int \<Rightarrow> int" where
  "trunc_seconds d = (if 0 \<le> d then d div 1000000000 else - ((- d) div 1000000000))"

definition IsUpdateAlreadyApplied :: "env \<Rightarrow> string \<Rightarrow> (world, bool) action" where
  "IsUpdateAlreadyApplied env osType =
     (if osType = ''emt'' then
        andthen (attempt (GetMetaOSProfileUpdateSourceActual env)) (\<lambda>actual.
        case actual of Inl _ \<Rightarrow> ret False
        | Inr a \<Rightarrow>
           andthen (attempt (GetMetaOSProfileUpdateSourceDesired env)) (\<lambda>desired.
           case desired of Inl _ \<Rightarrow> ret False
           | Inr d \<Rightarrow> ret (AreOsImagesEqual d a)))
      else ret False)"

text \<open>The acquisition of the lock blocks while it is held; the model's run starts when it is
  granted.\<close>

definition triggerUpdate ::
  "env \<Rightarrow> (int \<Rightarrow> (world, unit) action) \<Rightarrow> int \<Rightarrow> string \<Rightarrow> (world, unit) action" where
  "triggerUpdate env start endTime osType =
     andthen (IsUpdateAlreadyApplied env osType) (\<lambda>applied.
     if applied then ret () else
     andthen LockForUpdate (\<lambda>_.
     deferred
       (andthen (Now env) (\<lambda>now.
        if now < endTime
        then andthen (Now env) (\<lambda>now2. start (round_seconds (endTime - now2)))
        else ret ()))
       Unlock))"

text \<open>What a job runs when it is due at \<open>now\<close>.\<close>

definition run_job ::
  "env \<Rightarrow> (int \<Rightarrow> (world, unit) action) \<Rightarrow> string \<Rightarrow> Job \<Rightarrow> (world, unit) action" where
  "run_job env start osType j = (case job_kind j of
     CronJob _ duration \<Rightarrow> andthen (Now env) (\<lambda>now.
        triggerUpdate env start (now + duration * 1000000000) osType)
   | OnceJob _ endTime \<Rightarrow> triggerUpdate env start endTime osType)"

section \<open>Schedules\<close>

definition single_start :: "int \<Rightarrow> SingleSchedule \<Rightarrow> int" where
  "single_start now schedule =
     (let startTime = Unix (StartSeconds schedule); endTime = Unix (EndSeconds schedule) in
      if EndSeconds schedule \<noteq> 0 \<and> startTime < now \<and> now + 600 * 1000000000 < endTime
      then now + 1000000000 else startTime)"

definition single_duration :: "int \<Rightarrow> SingleSchedule \<Rightarrow> int" where
  "single_duration now schedule =
     (if EndSeconds schedule \<noteq> 0
      then trunc_seconds (Unix (EndSeconds schedule) - single_start now schedule) else 0)"

definition scheduleSingleRun :: "env \<Rightarrow> SingleSchedule \<Rightarrow> (world, unit) action" where
  "scheduleSingleRun env schedule =
     andthen (RemoveByTag singleScheduleTag) (\<lambda>_.
     andthen (Now env) (\<lambda>now.
     let startTime = single_start now schedule; durationSeconds = single_duration now schedule in
     if startTime < now then ret () else
     andthen (attempt (io env ''schedule'' singleScheduleTag)) (\<lambda>r.
     case r of
       Inl _ \<Rightarrow> ignore (SetMetaUpdateStatus env FAILED)
     | Inr _ \<Rightarrow> add_job \<lparr>job_tag = singleScheduleTag,
                 job_kind = OnceJob startTime (startTime + durationSeconds * 1000000000),
                 finished_runs = 0, next_run = startTime\<rparr>)))"

text \<open>Whether every new schedule is among the stored ones.\<close>

definition all_known :: "RepeatedSchedule list \<Rightarrow> RepeatedSchedule list \<Rightarrow> bool" where
  "all_known schedules stored_schedules =
     (schedules \<noteq> [] \<and> (\<forall>x \<in> set schedules. x \<in> set stored_schedules))"

definition HandleRepeatedSchedule ::
  "env \<Rightarrow> RepeatedSchedule list \<Rightarrow> Meta \<Rightarrow> (world, Meta) action" where
  "HandleRepeatedSchedule env schedules meta =
     andthen (asks (FindJobsByTag repeatedScheduleTag)) (\<lambda>js.
     andthen (if schedules = [] then RemoveByTag repeatedScheduleTag else ret ()) (\<lambda>_.
     let exists = (js \<noteq> [] \<and> length schedules = length (MetaRepeatedSchedules meta) \<and>
                   all_known schedules (MetaRepeatedSchedules meta)) in
     if exists then ret meta else
     andthen (if js \<noteq> [] then RemoveByTag repeatedScheduleTag else ret ()) (\<lambda>_.
     andthen (foreach (scheduleRepeatedSchedule env) schedules) (\<lambda>_.
     ret (meta\<lparr>MetaRepeatedSchedules := schedules\<rparr>)))))"

definition HandleSingleSchedule ::
  "env \<Rightarrow> SingleSchedule option \<Rightarrow> Meta \<Rightarrow> (world, Meta) action" where
  "HandleSingleSchedule env schedule meta = (case schedule of
     None \<Rightarrow> andthen (RemoveByTag singleScheduleTag) (\<lambda>_. ret (meta\<lparr>SingleScheduleFinished := True\<rparr>))
   | Some sch \<Rightarrow>
      if MetaSingleSchedule meta \<noteq> Some sch \<or> \<not> SingleScheduleFinished meta then
        andthen (asks (FindJobsByTag singleScheduleTag)) (\<lambda>js.
        case js of
          [] \<Rightarrow> andthen (scheduleSingleRun env sch) (\<lambda>_.
                ret (meta\<lparr>MetaSingleSchedule := Some sch, SingleScheduleFinished := False\<rparr>))
        | j # _ \<Rightarrow> if finished_runs j = 1 then ret (meta\<lparr>SingleScheduleFinished := True\<rparr>) else ret meta)
      else ret meta)"

definition CleanupSchedule :: "(world, unit) action" where
  "CleanupSchedule = andthen (RemoveByTag singleScheduleTag) (\<lambda>_. RemoveByTag repeatedScheduleTag)"

text \<open>A job that runs first.\<close>

definition GetNextJob :: "world \<Rightarrow> Job option" where
  "GetNextJob s = (case sort_key next_run (jobs s) of [] \<Rightarrow> None | j # _ \<Rightarrow> Some j)"

section \<open>Preservation\<close>

definition jobs_blind :: "(world \<Rightarrow> bool) \<Rightarrow> bool" where
  "jobs_blind I \<longleftrightarrow> (\<forall>s js. I s \<longrightarrow> I (s\<lparr>jobs := js\<rparr>))"

lemma jobs_blind_meta_ok [keeps_rules]: "jobs_blind meta_ok"
  by (simp add: jobs_blind_def meta_ok_def)

lemma keeps_scheduler [keeps_rules]:
  assumes "robust I" "jobs_blind I"
  shows "keeps I (RemoveByTag tag)" "keeps I (add_job j)" "keeps I (scheduleRepeatedSchedule env sch)"
    "keeps I (scheduleSingleRun env single)" "keeps I CleanupSchedule"
    "keeps I (HandleSingleSchedule env os meta)" "keeps I (HandleRepeatedSchedule env rs meta)"
proof -
  have base [keeps_rules]: "keeps I (RemoveByTag tag)" "keeps I (add_job j)" for tag j
    using assms(2) by (auto simp: RemoveByTag_def add_job_def jobs_blind_def intro!: keeps_modify)
  have rep [keeps_rules]: "keeps I (scheduleRepeatedSchedule env sch)" "keeps I (scheduleSingleRun env single)" for sch single
    unfolding scheduleRepeatedSchedule_def scheduleSingleRun_def Let_def by (intro keeps_rules assms)+
  show "keeps I (RemoveByTag tag)" "keeps I (add_job j)" "keeps I (scheduleRepeatedSchedule env sch)"
    "keeps I (scheduleSingleRun env single)" "keeps I CleanupSchedule"
    "keeps I (HandleSingleSchedule env os meta)" "keeps I (HandleRepeatedSchedule env rs meta)"
    unfolding CleanupSchedule_def HandleSingleSchedule_def HandleRepeatedSchedule_def Let_def
    by (intro keeps_rules assms)+
qed

lemma keeps_IsUpdateAlreadyApplied [keeps_rules]: "robust I \<Longrightarrow> keeps I (IsUpdateAlreadyApplied env os)"
  unfolding IsUpdateAlreadyApplied_def by (intro keeps_rules)

lemma keeps_triggerUpdate:
  assumes "robust I" "downloader_blind I" "\<And>d. keeps I (start d)"
  shows "keeps I (triggerUpdate env start e os)"
  unfolding triggerUpdate_def LockForUpdate_def Unlock_def
  by (intro keeps_rules keeps_modify assms) (use assms(2) in \<open>simp_all add: downloader_blind_def\<close>)

lemma keeps_run_job:
  assumes "robust I" "downloader_blind I" "\<And>d. keeps I (start d)"
  shows "keeps I (run_job env start os j)"
  unfolding run_job_def by (cases "job_kind j") (simp_all add: keeps_rules keeps_triggerUpdate assms)

section \<open>Properties of the scheduler\<close>

text \<open>The next job is one of the scheduled jobs with the least time of the next run, and there is one unless no job is scheduled.\<close>

theorem next_job_is_first:
  "(GetNextJob s = None \<longleftrightarrow> jobs s = []) \<and>
   (\<forall>j. GetNextJob s = Some j \<longrightarrow> j \<in> set (jobs s) \<and> (\<forall>k \<in> set (jobs s). next_run j \<le> next_run k))"
proof -
  have "sort_key next_run (jobs s) = [] \<longleftrightarrow> jobs s = []"
    by (metis length_0_conv length_sort)
  then show ?thesis
    using sort_key_hd_min [of next_run "jobs s"]
    by (auto simp: GetNextJob_def split: list.splits)
qed

definition job_at :: "int \<Rightarrow> Job" where
  "job_at t = \<lparr>job_tag = repeatedScheduleTag, job_kind = CronJob ''* * * * *'' 60, finished_runs = 0, next_run = t\<rparr>"

lemma next_job_is_first_witness:
  "GetNextJob ((calm_world initial_meta)\<lparr>jobs := [job_at 5, job_at 3, job_at 4]\<rparr>) = Some (job_at 3)"
proof -
  let ?s = "(calm_world initial_meta)\<lparr>jobs := [job_at 5, job_at 3, job_at 4]\<rparr>"
  obtain j where j: "GetNextJob ?s = Some j" using next_job_is_first [of ?s] by (cases "GetNextJob ?s") auto
  with next_job_is_first [of ?s] show ?thesis by (auto simp: job_at_def)
qed

text \<open>A trigger less than half a second before the end of the window rounds the remaining time to 0, which the timeout check takes for "no timeout": the update that starts then is not bounded by the window.\<close>

theorem zero_duration_never_times_out:
  assumes "stored env m s" "UpdateTime m = Some t0" "UpdateDuration m = round_seconds d"
    and "0 < d" "d < 500000000"
  shows "checkTimeout env s = (Ok (), s\<lparr>tick := tick s + 4\<rparr>)"
  using assms
  by (auto simp: checkTimeout_def action_simps GetMetaUpdateTime_stored
      GetMetaUpdateDuration_def get_meta_stored round_seconds_def)

lemma zero_duration_never_times_out_witness:
  "checkTimeout calm_env (calm_world (initial_meta\<lparr>UpdateTime := Some 1\<rparr>)) =
     (Ok (), (calm_world (initial_meta\<lparr>UpdateTime := Some 1\<rparr>))\<lparr>tick := 4\<rparr>)"
  using zero_duration_never_times_out [OF calm_stored, of "initial_meta\<lparr>UpdateTime := Some 1\<rparr>" 1 400000000]
  by (simp add: initial_meta_def round_seconds_def calm_world_def)

lemma IsUpdateAlreadyApplied_result:
  assumes "IsUpdateAlreadyApplied env os s = (r, t)"
  shows "\<exists>n. t = s\<lparr>tick := n\<rparr>" "\<exists>b. r = Ok b"
proof -
  obtain r1 s1 where g1: "get_meta env OSProfileUpdateSourceActual s = (r1, s1)" by fastforce
  obtain r2 s2 where g2: "get_meta env OSProfileUpdateSourceDesired s1 = (r2, s2)" by fastforce
  have "r1 \<noteq> Crash e" "r2 \<noteq> Crash e" for e
    using g1 g2 safeD [OF safe_get_meta] by metis+
  with g1 g2 get_meta_result(1) [OF g1] get_meta_result(1) [OF g2] assms
  have "(\<exists>n. t = s\<lparr>tick := n\<rparr>) \<and> (\<exists>b. r = Ok b)"
    by (auto simp: IsUpdateAlreadyApplied_def getter_defs action_simps split: outcome.splits if_splits)
       (rule exI [of _ "tick s"], simp)
  then show "\<exists>n. t = s\<lparr>tick := n\<rparr>" "\<exists>b. r = Ok b" by blast+
qed

lemma triggerUpdate_late:
  assumes "\<And>n. endTime \<le> clock env n"
  shows "\<exists>n b. triggerUpdate env start endTime os s = (Ok (), s\<lparr>tick := n, operationLock := b\<rparr>)"
proof -
  obtain r t where g: "IsUpdateAlreadyApplied env os s = (r, t)" by fastforce
  obtain n b where "t = s\<lparr>tick := n\<rparr>" "r = Ok b"
    using IsUpdateAlreadyApplied_result [OF g] by blast
  moreover have late: "\<not> clock env k < endTime" for k
    using assms [of k] by simp
  moreover have "s\<lparr>tick := n\<rparr> = s\<lparr>tick := n, operationLock := operationLock s\<rparr>" by simp
  ultimately have "triggerUpdate env start endTime os s =
      (if b then (Ok (), s\<lparr>tick := n, operationLock := operationLock s\<rparr>)
       else (Ok (), s\<lparr>tick := Suc n, operationLock := False\<rparr>))"
    using g by (cases b) (auto simp: triggerUpdate_def LockForUpdate_def Unlock_def deferred_modify Now_def
        bump_def action_simps)
  then show ?thesis by (metis (full_types))
qed

text \<open>A job that is run after the end of its window starts no update.\<close>

theorem no_update_after_window:
  assumes "\<And>n. endTime \<le> clock env n"
  shows "\<exists>n b. triggerUpdate env start endTime os s = (Ok (), s\<lparr>tick := n, operationLock := b\<rparr>)"
  using assms by (rule triggerUpdate_late)

lemma no_update_after_window_witness:
  "\<exists>n b. triggerUpdate calm_env (\<lambda>d. crash ''never'') 5000000000 ''ubuntu'' (calm_world initial_meta) =
     (Ok (), (calm_world initial_meta)\<lparr>tick := n, operationLock := b\<rparr>)"
  by (rule no_update_after_window) (simp add: calm_env_def)

definition single_job :: "int \<Rightarrow> SingleSchedule \<Rightarrow> Job" where
  "single_job now sch = \<lparr>job_tag = singleScheduleTag,
     job_kind = OnceJob (single_start now sch) (single_start now sch + single_duration now sch * 1000000000),
     finished_runs = 0, next_run = single_start now sch\<rparr>"

lemma setter_jobs: "SetMetaUpdateStatus env st s = (r, t) \<Longrightarrow> jobs t = jobs s"
  by (auto simp: setter_defs dest!: update_meta_result)

lemma scheduleSingleRun_jobs:
  assumes "scheduleSingleRun env sch s = (r, t)"
  shows "jobs t = filter (\<lambda>j. job_tag j \<noteq> singleScheduleTag) (jobs s) \<or>
    clock env (tick s) \<le> single_start (clock env (tick s)) sch \<and>
    jobs t = filter (\<lambda>j. job_tag j \<noteq> singleScheduleTag) (jobs s) @ [single_job (clock env (tick s)) sch]"
  using assms
  by (auto simp: scheduleSingleRun_def RemoveByTag_def Now_def bump_def add_job_def io_def action_simps Let_def
      single_job_def not_less split: if_splits option.splits outcome.splits prod.splits dest!: setter_jobs)

text \<open>A single schedule without an end (end 0, documented as open) is scheduled with a window of length zero, so the job it adds never starts an update.\<close>

theorem open_ended_single_never_runs:
  assumes "EndSeconds sch = 0" "scheduleSingleRun env sch s = (Ok (), t)"
    and "j \<in> set (jobs t)" "job_tag j = singleScheduleTag" "\<And>n. next_run j \<le> clock env' n"
  shows "\<exists>n b. run_job env' start os j u = (Ok (), u\<lparr>tick := n, operationLock := b\<rparr>)"
proof -
  have "job_kind j = OnceJob (next_run j) (next_run j)"
    using scheduleSingleRun_jobs [OF assms(2)] assms(1,3,4)
    by (auto simp: single_job_def single_duration_def)
  with triggerUpdate_late [of "next_run j" env' start os u] assms(5) show ?thesis
    by (simp add: run_job_def)
qed

lemma open_ended_single_never_runs_witness:
  "\<exists>n b. run_job calm_env (\<lambda>d. crash ''never'') ''ubuntu'' (single_job 5000000000 \<lparr>StartSeconds = 5, EndSeconds = 0\<rparr>)
       (calm_world initial_meta) = (Ok (), (calm_world initial_meta)\<lparr>tick := n, operationLock := b\<rparr>)"
proof -
  let ?sch = "\<lparr>StartSeconds = 5, EndSeconds = 0\<rparr>"
  obtain r t where g: "scheduleSingleRun calm_env ?sch (calm_world initial_meta) = (r, t)" by fastforce
  then have "r = Ok ()" "single_job 5000000000 ?sch \<in> set (jobs t)"
    by (auto simp: scheduleSingleRun_def RemoveByTag_def single_job_def single_start_def single_duration_def
       add_job_def Unix_def Let_def run_simps)
  with g show ?thesis
    by (intro open_ended_single_never_runs [of ?sch calm_env "calm_world initial_meta" t])
       (simp_all add: single_job_def calm_env_def single_start_def Unix_def)
qed

section \<open>At most one single schedule\<close>

definition one_single :: "world \<Rightarrow> bool" where
  "one_single s \<longleftrightarrow> length (FindJobsByTag singleScheduleTag s) \<le> 1"

lemma robust_one_single [keeps_rules]: "robust one_single"
  by (rule robust_frame) (simp_all add: one_single_def FindJobsByTag_def)

lemma tags_differ [simp]: "repeatedScheduleTag \<noteq> singleScheduleTag" "singleScheduleTag \<noteq> repeatedScheduleTag"
  by (simp_all add: repeatedScheduleTag_def singleScheduleTag_def)

lemma keeps_one_single [keeps_rules]:
  "keeps one_single (RemoveByTag tag)" "keeps one_single (scheduleRepeatedSchedule env rs)"
  "keeps one_single (scheduleSingleRun env sch)" "keeps one_single CleanupSchedule"
proof -
  show rm [keeps_rules]: "keeps one_single (RemoveByTag tag)" for tag
    unfolding RemoveByTag_def
  proof (intro keeps_modify)
    fix s assume "one_single s"
    moreover have "length (filter (\<lambda>j. job_tag j = singleScheduleTag) (filter (\<lambda>j. job_tag j \<noteq> tag) (jobs s))) \<le>
        length (filter (\<lambda>j. job_tag j = singleScheduleTag) (jobs s))"
      by (rule length_filter_filter)
    ultimately show "one_single (s\<lparr>jobs := filter (\<lambda>j. job_tag j \<noteq> tag) (jobs s)\<rparr>)"
      by (simp add: one_single_def FindJobsByTag_def)
  qed
  have add [keeps_rules]: "keeps one_single (add_job j)" if "job_tag j = repeatedScheduleTag" for j
    using that unfolding add_job_def by (intro keeps_modify) (simp add: one_single_def FindJobsByTag_def)
  show "keeps one_single (scheduleRepeatedSchedule env rs)"
    unfolding scheduleRepeatedSchedule_def by (intro keeps_rules) simp
  show "keeps one_single CleanupSchedule"
    unfolding CleanupSchedule_def by (intro keeps_rules)
  show "keeps one_single (scheduleSingleRun env sch)"
  proof (rule keepsI)
    fix s
    obtain r t where g: "scheduleSingleRun env sch s = (r, t)" by fastforce
    with scheduleSingleRun_jobs [OF g] show "one_single (snd (scheduleSingleRun env sch s))"
      by (auto simp: one_single_def FindJobsByTag_def single_job_def filter_empty_conv)
  qed
qed

lemma keeps_one_single_handlers [keeps_rules]:
  "keeps one_single (HandleSingleSchedule env os meta)" "keeps one_single (HandleRepeatedSchedule env rs meta)"
  unfolding HandleSingleSchedule_def HandleRepeatedSchedule_def Let_def by (intro keeps_rules)+

lemma downloader_blind_one_single [keeps_rules]: "downloader_blind one_single"
  by (simp add: downloader_blind_def one_single_def FindJobsByTag_def)

text \<open>When the schedules of a response differ from those read at start-up, every repeated job is dropped and rebuilt from the response, in order, with its cron expression and duration; jobs of other tags stay.\<close>

theorem repeated_schedules_rebuilt:
  assumes "FindJobsByTag repeatedScheduleTag s \<noteq> []"
    and "length rs \<noteq> length (MetaRepeatedSchedules meta) \<or> \<not> set rs \<subseteq> set (MetaRepeatedSchedules meta) \<or> rs = []"
    and "\<And>n x. \<exists>t. cron_next env n x = Inr t"
    and "HandleRepeatedSchedule env rs meta s = (r, t)"
  shows "\<exists>new. jobs t = filter (\<lambda>j. job_tag j \<noteq> repeatedScheduleTag) (jobs s) @ new \<and>
    map job_kind new = map (\<lambda>x. CronJob (CronScheduleToString x) (uint (DurationSeconds x))) rs \<and>
    (\<forall>j \<in> set new. job_tag j = repeatedScheduleTag \<and> finished_runs j = 0) \<and>
    r = Ok (meta\<lparr>MetaRepeatedSchedules := rs\<rparr>)"
proof -
  have loop: "\<exists>t new. foreach (scheduleRepeatedSchedule env) rs s = (Ok (), t) \<and> jobs t = jobs s @ new \<and>
      map job_kind new = map (\<lambda>x. CronJob (CronScheduleToString x) (uint (DurationSeconds x))) rs \<and>
      (\<forall>j \<in> set new. job_tag j = repeatedScheduleTag \<and> finished_runs j = 0)" for rs s
  proof (induction rs arbitrary: s)
    case (Cons x xs)
    obtain c where c: "cron_next env (tick s) (CronScheduleToString x) = Inr c" using assms(3) by blast
    let ?j = "\<lparr>job_tag = repeatedScheduleTag,
                 job_kind = CronJob (CronScheduleToString x) (uint (DurationSeconds x)),
                 finished_runs = 0, next_run = c\<rparr>"
    let ?s = "s\<lparr>tick := Suc (tick s), jobs := jobs s @ [?j]\<rparr>"
    obtain t new where t: "foreach (scheduleRepeatedSchedule env) xs ?s = (Ok (), t)" "jobs t = jobs ?s @ new"
      "map job_kind new = map (\<lambda>x. CronJob (CronScheduleToString x) (uint (DurationSeconds x))) xs"
      "\<forall>j \<in> set new. job_tag j = repeatedScheduleTag \<and> finished_runs j = 0"
      using Cons.IH [of ?s] by blast
    have "scheduleRepeatedSchedule env x s = (Ok (), ?s)"
      using c by (simp add: scheduleRepeatedSchedule_def bump_def add_job_def action_simps)
    with t show ?case
      by (intro exI [of _ t] exI [of _ "?j # new"]) (simp add: action_simps)
  qed (simp add: ret_def)
  let ?s = "s\<lparr>jobs := filter (\<lambda>j. job_tag j \<noteq> repeatedScheduleTag) (jobs s)\<rparr>"
  obtain u new where "foreach (scheduleRepeatedSchedule env) rs ?s = (Ok (), u)" "jobs u = jobs ?s @ new"
      "map job_kind new = map (\<lambda>x. CronJob (CronScheduleToString x) (uint (DurationSeconds x))) rs"
      "\<forall>j \<in> set new. job_tag j = repeatedScheduleTag \<and> finished_runs j = 0"
    using loop [of rs ?s] by blast
  moreover have "\<not> (length rs = length (MetaRepeatedSchedules meta) \<and> all_known rs (MetaRepeatedSchedules meta))"
    using assms(2) by (auto simp: all_known_def)
  ultimately show ?thesis
    using assms(1,4)
    by (auto simp: HandleRepeatedSchedule_def RemoveByTag_def action_simps Let_def filter_filter split: if_splits)
qed

definition noon :: RepeatedSchedule where
  "noon = \<lparr>DurationSeconds = 60, CronMinutes = ''0'', CronHours = ''12'', CronDayMonth = ''*'', CronMonth = ''*'', CronDayWeek = ''*''\<rparr>"

lemma repeated_schedules_rebuilt_witness:
  "\<exists>t. HandleRepeatedSchedule calm_env [noon] initial_meta ((calm_world initial_meta)\<lparr>jobs := [job_at 5]\<rparr>) =
     (Ok (initial_meta\<lparr>MetaRepeatedSchedules := [noon]\<rparr>), t) \<and> map job_kind (jobs t) = [CronJob ''0 12 * * *'' 60]"
proof -
  let ?s = "(calm_world initial_meta)\<lparr>jobs := [job_at 5]\<rparr>"
  obtain r t where g: "HandleRepeatedSchedule calm_env [noon] initial_meta ?s = (r, t)" by fastforce
  have "\<exists>new. jobs t = filter (\<lambda>j. job_tag j \<noteq> repeatedScheduleTag) (jobs ?s) @ new \<and>
    map job_kind new = map (\<lambda>x. CronJob (CronScheduleToString x) (uint (DurationSeconds x))) [noon] \<and>
    (\<forall>j \<in> set new. job_tag j = repeatedScheduleTag \<and> finished_runs j = 0) \<and>
    r = Ok (initial_meta\<lparr>MetaRepeatedSchedules := [noon]\<rparr>)"
    by (rule repeated_schedules_rebuilt [OF _ _ _ g])
       (simp_all add: FindJobsByTag_def job_at_def calm_env_def initial_meta_def)
  with g show ?thesis by (auto simp: job_at_def noon_def CronScheduleToString_def)
qed

end
