(* ===== verification/Pua_Agent.thy ===== *)
theory Pua_Agent
  imports Pua_Scheduler
begin

text \<open>
  The main program of the Platform Update Agent
  (\<^verbatim>\<open>cmd/platform-update-agent/platform_update_agent.go\<close>, \<^verbatim>\<open>internal/utils/os_detection.go\<close>):
  the filter on the maintenance manager's responses, what a response changes, what happens at
  start-up after a restart or a reboot, and the readiness of the agent.
\<close>

section \<open>Detecting the operating system\<close>

fun os_id_line :: "string list \<Rightarrow> string" where
  "os_id_line [] = []"
| "os_id_line (line # lines) =
     (if HasPrefix line ''ID='' then TrimFunc (\<lambda>c. c = CHR 0x22 \<or> c = CHR 0x27) (TrimPrefix line ''ID='')
      else os_id_line lines)"

text \<open>\<^verbatim>\<open>bufio.Scanner\<close> splits at newlines and drops one trailing carriage return.\<close>

definition scan_lines :: "string \<Rightarrow> string list" where
  "scan_lines s = map (\<lambda>l. TrimSuffix l [CHR 0x0D]) (Split s nl)"

definition DetectOS :: "env \<Rightarrow> string \<Rightarrow> (world, string) action" where
  "DetectOS env forcedOS =
     (if forcedOS \<noteq> [] then
        (if forcedOS \<in> {''ubuntu'', ''emt'', ''debian''} then ret forcedOS
         else fail (''unsupported forced OS: '' @ forcedOS))
      else andthen (wrap ''failed to open /etc/os-release: '' (os_ReadFile env ''/etc/os-release'')) (\<lambda>content.
        let osId = os_id_line (scan_lines content) in
        if osId = ''ubuntu'' then ret ''ubuntu''
        else if osId = ''Edge Microvisor Toolkit'' then ret ''emt''
        else if osId = ''debian'' then ret ''debian''
        else fail (''unsupported OS: '' @ osId)))"

section \<open>Filtering the responses of the maintenance manager\<close>

datatype OSType = OS_TYPE_UNSPECIFIED | OS_TYPE_MUTABLE | OS_TYPE_IMMUTABLE

record UpdateSchedule =
  ResSingleSchedule :: "SingleSchedule option"
  ResRepeatedSchedules :: "RepeatedSchedule list"

record Response =
  ResUpdateSource :: "UpdateSource option"
  ResUpdateSchedule :: "UpdateSchedule option"
  ResInstalledPackages :: string
  ResOsType :: OSType
  ResOsProfileUpdateSource :: "OSProfile option"

text \<open>\<^verbatim>\<open>(^[A-Za-z0-9-_=.,/ ]*$)\<close>\<close>

definition kernel_char :: "char \<Rightarrow> bool" where
  "kernel_char c = (let n = (of_char c :: nat) in
     (65 \<le> n \<and> n \<le> 90) \<or> (97 \<le> n \<and> n \<le> 122) \<or> (48 \<le> n \<and> n \<le> 57) \<or> c \<in> set ''-_=.,/ '')"

definition kernelRegexp :: "string \<Rightarrow> bool" where
  "kernelRegexp s = list_all kernel_char s"

text \<open>A response is written to the channel only when the receiver is reading from it
  (\<open>ready\<close>).\<close>

definition trySendUpdateStatus :: "bool \<Rightarrow> Response \<Rightarrow> (world, Response option) action" where
  "trySendUpdateStatus ready res = ret (if ready then Some res else None)"

definition handleUbuntuResponse :: "env \<Rightarrow> bool \<Rightarrow> Response \<Rightarrow> (world, Response option) action" where
  "handleUbuntuResponse env ready res = (case (ResUpdateSource res, ResUpdateSchedule res) of
     (Some src, Some sched) \<Rightarrow>
       if ResOsType res = OS_TYPE_IMMUTABLE then
         andthen (ignore (SetMetaUpdateLog env ''skipping IMMUTABLE update request on Ubuntu node'')) (\<lambda>_. ret None)
       else if kernelRegexp (KernelCommand src) then trySendUpdateStatus ready res
       else ret None
   | _ \<Rightarrow> ret None)"

definition handleEmtResponse :: "env \<Rightarrow> bool \<Rightarrow> Response \<Rightarrow> (world, Response option) action" where
  "handleEmtResponse env ready res =
     (if ResOsProfileUpdateSource res = None \<or> ResUpdateSchedule res = None \<or> ResOsType res = OS_TYPE_UNSPECIFIED
      then ret None
      else if ResOsType res = OS_TYPE_MUTABLE then
        andthen (ignore (SetMetaUpdateLog env ''skipping MUTABLE update request on Edge Microvisor Toolkit node'')) (\<lambda>_. ret None)
      else trySendUpdateStatus ready res)"

text \<open>One round of \<^verbatim>\<open>handleEdgeInfrastructureManagerRequest\<close> after the request has been answered
  by \<open>res\<close>; \<open>sent\<close> is the status that was reported.\<close>

definition handle_answer :: "env \<Rightarrow> string \<Rightarrow> bool \<Rightarrow> StatusType \<Rightarrow> Response \<Rightarrow> (world, Response option) action" where
  "handle_answer env osType ready sent res =
     andthen (if osType = ''ubuntu'' \<or> osType = ''debian'' then handleUbuntuResponse env ready res
              else if osType = ''emt'' then handleEmtResponse env ready res else ret None) (\<lambda>out.
     andthen (if sent = UPDATED then ignore (SetMetaUpdateStatus env UP_TO_DATE) else ret ()) (\<lambda>_.
     ret out))"

section \<open>Acting on a response\<close>

text \<open>protobuf decodes an absent repeated field as a nil slice.\<close>

definition nil_if_empty :: "'a list \<Rightarrow> 'a list option" where
  "nil_if_empty xs = (if xs = [] then None else Some xs)"

definition handle_schedule :: "env \<Rightarrow> UpdateSchedule option \<Rightarrow> Meta \<Rightarrow> (world, unit) action" where
  "handle_schedule env sched meta = (case sched of
     None \<Rightarrow> CleanupSchedule
   | Some sc \<Rightarrow>
      andthen (HandleSingleSchedule env (ResSingleSchedule sc) meta) (\<lambda>meta1.
      andthen (HandleRepeatedSchedule env (ResRepeatedSchedules sc) meta1) (\<lambda>meta2.
      ignore (SetMetaSchedules env (ResSingleSchedule sc) (nil_if_empty (ResRepeatedSchedules sc))
                (SingleScheduleFinished meta2)))))"

text \<open>\<open>meta\<close> is passed by value: what the two handlers change in it is lost when the function
  returns, so every response is compared with the record that was read at start-up.\<close>

definition handleUpdateRes ::
  "env \<Rightarrow> int \<Rightarrow> int \<Rightarrow> string \<Rightarrow> string \<Rightarrow> Meta \<Rightarrow> Response \<Rightarrow> (world, unit) action" where
  "handleUpdateRes env immediateWindow downloadWindow osType rsFQDN meta res =
     andthen (ignore (SetMetaOSProfileUpdateSourceDesired env (ResOsProfileUpdateSource res))) (\<lambda>_.
     andthen (ignore (SetMetaUpdateSource env (ResUpdateSource res))) (\<lambda>_.
     andthen (handle_schedule env (ResUpdateSchedule res) meta) (\<lambda>_.
     andthen (ignore (SetInstalledPackages env (ResInstalledPackages res))) (\<lambda>_.
     if osType \<noteq> ''emt'' then ret () else
     andthen (asks (\<lambda>s. map_option next_run (GetNextJob s))) (\<lambda>nextRunTime.
     if has_kernel_command (ResUpdateSource res) then ret () else
     andthen (attempt (GetMetaOSProfileUpdateSourceActual env)) (\<lambda>actual.
     case actual of Inl _ \<Rightarrow> ret ()
     | Inr actualOSSource \<Rightarrow>
         Notify env immediateWindow downloadWindow (rsFQDN @ ''/'') (ResOsProfileUpdateSource res)
           nextRunTime actualOSSource))))))"

text \<open>The check that guards an update of the Edge Microvisor Toolkit.\<close>

definition downloadChecker :: "env \<Rightarrow> (world, bool) action" where
  "downloadChecker env =
     andthen GetLastDownloaded (\<lambda>lastDownloadedOS.
     andthen (attempt (GetMetaOSProfileUpdateSourceDesired env)) (\<lambda>r.
     case r of Inl _ \<Rightarrow> ret False | Inr desired \<Rightarrow> ret (AreOsImagesEqual lastDownloadedOS desired)))"

section \<open>After a restart\<close>

text \<open>Up to \<open>n\<close> rounds of \<^verbatim>\<open>VerifyUpdate\<close>, while the update is still reported as running.\<close>

fun verify_retries :: "env \<Rightarrow> string \<Rightarrow> string \<Rightarrow> nat \<Rightarrow> StatusType \<times> string \<Rightarrow> (world, StatusType \<times> string) action" where
  "verify_retries env logPath granularLogPath 0 r = ret r"
| "verify_retries env logPath granularLogPath (Suc n) r =
     andthen (VerifyUpdate env logPath granularLogPath) (\<lambda>(status, granularLog, time, err).
     if err \<noteq> None \<or> status \<noteq> STARTED then ret (status, granularLog)
     else verify_retries env logPath granularLogPath n (status, granularLog))"

definition finish_window :: "env \<Rightarrow> (world, unit) action" where
  "finish_window env =
     andthen (Now env) (\<lambda>now.
     andthen (attempt (IsInsideSingleScheduleWindow env now)) (\<lambda>inWindow.
     if inWindow = Inr True then ignore (SetSingleScheduleFinished env True) else ret ()))"

definition record_actual :: "env \<Rightarrow> string \<Rightarrow> StatusType \<Rightarrow> (world, unit) action" where
  "record_actual env osType status =
     (if osType = ''emt'' \<and> status = UPDATED then
        andthen (attempt (GetMetaOSProfileUpdateSourceDesired env)) (\<lambda>r.
        case r of Inl _ \<Rightarrow> ret () | Inr desired \<Rightarrow> ignore (SetMetaOSProfileUpdateSourceActual env desired))
      else ret ())"

text \<open>An error of the last three writes is a \<^verbatim>\<open>log.Fatal\<close>.\<close>

definition or_fatal :: "(world, 'a) action \<Rightarrow> (world, 'a) action" where
  "or_fatal m = andthen (attempt m) (\<lambda>r. case r of Inl e \<Rightarrow> crash (''Metadata update failed: '' @ e) | Inr x \<Rightarrow> ret x)"

definition continueUpdateAfterOsReboot :: "env \<Rightarrow> string \<Rightarrow> string \<Rightarrow> string \<Rightarrow> (world, unit) action" where
  "continueUpdateAfterOsReboot env osType logPath granularLogPath =
     andthen (verify_retries env logPath granularLogPath 5 (UNSPECIFIED, [])) (\<lambda>(status, granularLog).
     andthen (finish_window env) (\<lambda>_.
     andthen (record_actual env osType status) (\<lambda>_.
     andthen (ignore (CleanupAfterUpdate env osType granularLogPath)) (\<lambda>_.
     andthen (or_fatal (SetMetaUpdateStatus env status)) (\<lambda>_.
     andthen (or_fatal (SetMetaUpdateLog env granularLog)) (\<lambda>_.
     or_fatal (SetMetaUpdateInProgress env NONE)))))))"

text \<open>The start-up check of \<^verbatim>\<open>main\<close>.\<close>

definition resume_update ::
  "env \<Rightarrow> string \<Rightarrow> string \<Rightarrow> string \<Rightarrow> (world, unit) action list \<Rightarrow> (world, unit) action" where
  "resume_update env osType logPath granularLogPath updaters =
     andthen (attempt (GetMetaUpdateStatus env)) (\<lambda>st.
     if st \<noteq> Inr STARTED then ret () else
     andthen (or_fatal (GetMetaUpdateInProgress env)) (\<lambda>inProgress.
     if inProgress = string_of_UpdateType SELF then ContinueUpdate env updaters
     else if inProgress = string_of_UpdateType OS
     then continueUpdateAfterOsReboot env osType logPath granularLogPath
     else ret ()))"

section \<open>Readiness\<close>

definition status_ready :: "int \<Rightarrow> int \<Rightarrow> int \<Rightarrow> int \<Rightarrow> bool" where
  "status_ready statusInterval tickerInterval lastCheck now =
     (now - lastCheck \<le> 2 * max (trunc_seconds statusInterval) (trunc_seconds tickerInterval))"

section \<open>Preservation\<close>


lemma keeps_handle_answer [keeps_rules]:
  "robust I \<Longrightarrow> keeps I (handle_answer env os ready sent res)"
  unfolding handle_answer_def handleUbuntuResponse_def handleEmtResponse_def trySendUpdateStatus_def
  by (intro keeps_rules)

lemma keeps_handleUpdateRes [keeps_rules]:
  "robust I \<Longrightarrow> downloader_blind I \<Longrightarrow> jobs_blind I \<Longrightarrow> keeps I (handleUpdateRes env iw dw os fq meta res)"
  unfolding handleUpdateRes_def handle_schedule_def by (intro keeps_rules)

lemma keeps_downloadChecker [keeps_rules]: "robust I \<Longrightarrow> keeps I (downloadChecker env)"
  unfolding downloadChecker_def GetLastDownloaded_def by (intro keeps_rules)

lemma keeps_or_fatal [keeps_rules]: "keeps I m \<Longrightarrow> keeps I (or_fatal m)"
  unfolding or_fatal_def by (intro keeps_rules)

lemma keeps_verify_retries [keeps_rules]: "robust I \<Longrightarrow> keeps I (verify_retries env p q n r)"
  by (induction n arbitrary: r) (auto intro!: keeps_rules)

lemma keeps_continueUpdateAfterOsReboot [keeps_rules]: "robust I \<Longrightarrow> keeps I (continueUpdateAfterOsReboot env os p q)"
  unfolding continueUpdateAfterOsReboot_def finish_window_def record_actual_def by (intro keeps_rules)

lemma keeps_resume_update:
  "robust I \<Longrightarrow> (\<And>u. u \<in> set us \<Longrightarrow> keeps I u) \<Longrightarrow> keeps I (resume_update env os p q us)"
  unfolding resume_update_def by (intro keeps_rules keeps_ContinueUpdate)

section \<open>Properties of the agent\<close>

lemma keeps_one_single_handleUpdateRes [keeps_rules]: "keeps one_single (handleUpdateRes env iw dw os fq meta res)"
  unfolding handleUpdateRes_def handle_schedule_def by (intro keeps_rules)

text \<open>On the Edge Microvisor Toolkit a command is executed only if the image that was downloaded last is the desired one; the only command is then the update without download, and the metadata file says that an OS update is in progress.\<close>

theorem emt_update_needs_download:
  assumes "emtUpdater_update env (downloadChecker env) s = (r, t)" "trace t \<noteq> trace s"
  shows "\<exists>m. metafile s = Some (Encoded m) \<and>
    AreOsImagesEqual (lastDownloaded s) (OSProfileUpdateSourceDesired m) \<and>
    trace t = trace s @ [inbcEmtUpdateCommand] \<and>
    metafile t = Some (Encoded (m\<lparr>UpdateInProgress := ''OS''\<rparr>))"
proof -
  obtain r1 s1 where g1: "get_meta env MetaUpdateSource s = (r1, s1)" by fastforce
  obtain r2 s2 where g2: "get_meta env OSProfileUpdateSourceDesired s1 = (r2, s2)" by fastforce
  obtain r3 s3 where g3: "update_meta env (\<lambda>m. m\<lparr>UpdateInProgress := ''OS''\<rparr>) s2 = (r3, s3)" by fastforce
  obtain r4 s4 where g4: "run env inbcEmtUpdateCommand s3 = (r4, s4)" by fastforce
  note res = get_meta_result [OF g1] get_meta_result [OF g2] update_meta_result [OF g3] run_result [OF g4]
  from assms g1 g2 g3 g4 res show ?thesis
    by (auto simp: emtUpdater_update_def action_simps getter_defs setter_defs downloadChecker_def
        GetLastDownloaded_def inbcEmtUpdateCommand_def split: outcome.splits if_splits sum.splits)
qed

lemma emt_update_needs_download_witness:
  "\<exists>t. emtUpdater_update calm_env (downloadChecker calm_env)
      ((calm_world (initial_meta\<lparr>OSProfileUpdateSourceDesired := Some image_a\<rparr>))\<lparr>lastDownloaded := Some image_a\<rparr>) = (Ok (), t) \<and>
     trace t = [inbcEmtUpdateCommand]"
proof -
  let ?s = "(calm_world (initial_meta\<lparr>OSProfileUpdateSourceDesired := Some image_a\<rparr>))\<lparr>lastDownloaded := Some image_a\<rparr>"
  obtain r t where g: "emtUpdater_update calm_env (downloadChecker calm_env) ?s = (r, t)" by fastforce
  then have "r = Ok ()" "trace t \<noteq> trace ?s"
    by (auto simp: emtUpdater_update_def downloadChecker_def GetLastDownloaded_def AreOsImagesEqual_def
      run_def inbcEmtUpdateCommand_def has_kernel_command_def initial_meta_def run_simps)
  with emt_update_needs_download [OF g] g show ?thesis by (auto simp: calm_world_def)
qed

text \<open>On Ubuntu only a response whose kernel command line matches the allowed characters is handed on: no quote, dollar, backquote, semicolon or newline reaches the GRUB configuration.\<close>

theorem ubuntu_forwards_only_safe:
  assumes "handleUbuntuResponse env ready res s = (Ok (Some res'), t)"
  shows "res' = res \<and> t = s \<and> ResOsType res \<noteq> OS_TYPE_IMMUTABLE \<and>
    (\<exists>src. ResUpdateSource res = Some src \<and> (\<forall>c \<in> set (KernelCommand src).
       kernel_char c \<and> c \<notin> {nl, CHR 0x22, CHR 0x27, CHR '';'', CHR ''$'', CHR 0x60}))"
  using assms
  by (auto simp: handleUbuntuResponse_def trySendUpdateStatus_def action_simps kernelRegexp_def list_all_iff
      kernel_char_def Let_def split: option.splits if_splits outcome.splits prod.splits)

lemma ubuntu_forwards_only_safe_witness:
  "\<exists>res. handleUbuntuResponse calm_env True res (calm_world initial_meta) = (Ok (Some res), calm_world initial_meta) \<and>
     ResUpdateSource res = Some \<lparr>KernelCommand = ''quiet'', OsRepoUrl = [], CustomRepos = []\<rparr>"
proof -
  let ?res = "\<lparr>ResUpdateSource = Some \<lparr>KernelCommand = ''quiet'', OsRepoUrl = [], CustomRepos = []\<rparr>,
    ResUpdateSchedule = Some \<lparr>ResSingleSchedule = None, ResRepeatedSchedules = []\<rparr>,
    ResInstalledPackages = [], ResOsType = OS_TYPE_MUTABLE, ResOsProfileUpdateSource = None\<rparr>"
  have "handleUbuntuResponse calm_env True ?res (calm_world initial_meta) = (Ok (Some ?res), calm_world initial_meta)"
    by (simp add: handleUbuntuResponse_def kernelRegexp_def kernel_char_def trySendUpdateStatus_def action_simps)
  with ubuntu_forwards_only_safe [OF this] show ?thesis by (intro exI [of _ ?res]) simp
qed

text \<open>On the Edge Microvisor Toolkit the kernel command line is not checked: any text at all is handed on.\<close>

theorem emt_forwards_any_kernel_command:
  "\<exists>res src. ResUpdateSource res = Some src \<and> KernelCommand src = k \<and>
     handleEmtResponse env True res s = (Ok (Some res), s)"
proof -
  let ?src = "\<lparr>KernelCommand = k, OsRepoUrl = [], CustomRepos = []\<rparr>"
  let ?res = "\<lparr>ResUpdateSource = Some ?src, ResUpdateSchedule = Some \<lparr>ResSingleSchedule = None, ResRepeatedSchedules = []\<rparr>,
    ResInstalledPackages = [], ResOsType = OS_TYPE_IMMUTABLE,
    ResOsProfileUpdateSource = Some \<lparr>OsImageUrl = [], OsImageSha = [], OsImageId = [], ProfileName = [], ProfileVersion = []\<rparr>\<rparr>"
  have "handleEmtResponse env True ?res s = (Ok (Some ?res), s)"
    by (simp add: handleEmtResponse_def trySendUpdateStatus_def action_simps)
  then show ?thesis by (intro exI [of _ ?res] exI [of _ ?src]) simp
qed

text \<open>On a usable metadata file an update first records that it started, when, and for how long; if it then fails the status FAILED and the granular log are in the metadata file afterwards, and if it succeeds the file is what the subsystem updaters left.\<close>

theorem start_update_records_failure:
  assumes "NewUpdateController env osType (downloadChecker env) = Inr us"
    and "stored env m s" "\<not> edgeNodeUpdateMutex s"
    and "StartUpdate env osType p us d s = (Ok (), t)"
  shows "\<exists>s0 s1 m0 m1 r. stored env m0 s0 \<and> UpdateStatus m0 = ''STATUS_TYPE_STARTED'' \<and> UpdateDuration m0 = d \<and>
      UpdateTime m0 = Some (clock env (tick s + 4) div 1000000000) \<and>
      edgeNodeUpdater_update env us s0 = (r, s1) \<and> metafile s1 = Some (Encoded m1) \<and>
      (r = Ok () \<and> metafile t = metafile s1 \<or>
       (\<exists>e. r = Err e \<and> metafile t = Some (Encoded
          (m1\<lparr>UpdateStatus := ''STATUS_TYPE_FAILED'', UpdateLog := granular_content e p s1\<rparr>))))"
proof -
  let ?s = "s\<lparr>edgeNodeUpdateMutex := True\<rparr>"
  have "stored env m ?s" using assms(2) by (simp add: stored_def)
  then obtain sa where sa: "update_meta env (\<lambda>m. m\<lparr>UpdateStatus := ''STATUS_TYPE_STARTED''\<rparr>) ?s = (Ok (), sa)"
    "stored env (m\<lparr>UpdateStatus := ''STATUS_TYPE_STARTED''\<rparr>) sa" "tick sa = tick s + 4"
    by (rule update_meta_step) simp
  let ?now = "clock env (tick s + 4) div 1000000000"
  have "stored env (m\<lparr>UpdateStatus := ''STATUS_TYPE_STARTED''\<rparr>) (sa\<lparr>tick := Suc (tick sa)\<rparr>)" using sa by simp
  then obtain sb where sb: "update_meta env (\<lambda>m. m\<lparr>UpdateTime := Some ?now\<rparr>) (sa\<lparr>tick := Suc (tick sa)\<rparr>) = (Ok (), sb)"
    "stored env (m\<lparr>UpdateStatus := ''STATUS_TYPE_STARTED'', UpdateTime := Some ?now\<rparr>) sb"
    by (rule update_meta_step)
  let ?m0 = "m\<lparr>UpdateStatus := ''STATUS_TYPE_STARTED'', UpdateTime := Some ?now, UpdateDuration := d\<rparr>"
  obtain s0 where s0: "update_meta env (\<lambda>m. m\<lparr>UpdateDuration := d\<rparr>) sb = (Ok (), s0)" "stored env ?m0 s0"
    using update_meta_step [OF sb(2)] .
  obtain r s1 where g: "edgeNodeUpdater_update env us s0 = (r, s1)" by fastforce
  have "keeps (usable env) (edgeNodeUpdater_update env us)"
    using keeps_NewUpdateController [OF robust_usable keeps_downloadChecker [OF robust_usable] assms(1)]
    by (intro keeps_edgeNodeUpdater robust_usable)
  then have "usable env s1"
    using g s0(2) by (meson keepsD usable_def)
  then obtain m1 where m1: "stored env m1 s1" by (auto simp: usable_def)
  have run: "run_update env osType p us d ?s = (case r of Ok _ \<Rightarrow> (Ok (), s1)
      | Err e \<Rightarrow> update_failed env osType p e s1 | Crash e \<Rightarrow> (Crash e, s1))"
    using sa sb(1) s0(1) g
    by (simp add: run_update_def setter_defs action_simps Now_def bump_def split: outcome.splits)
  have fin: "metafile t = metafile u" if "run_update env osType p us d ?s = (Ok (), u)" for u
    using assms(3,4) that by (auto simp: StartUpdate_def action_simps deferred_def)
  have nocrash: "run_update env osType p us d ?s \<noteq> (Crash e, u)" for e u
    using assms(3,4) by (auto simp: StartUpdate_def action_simps deferred_def)
  show ?thesis
  proof (cases r)
    case (Ok x)
    with run fin [of s1] g m1 s0(2) show ?thesis
      by (intro exI [of _ s0] exI [of _ s1] exI [of _ ?m0] exI [of _ m1] exI [of _ r]) (simp add: stored_def)
  next
    case (Err e)
    from update_failed_spec [OF m1, of osType p e] obtain u where
      u: "update_failed env osType p e s1 = (Ok (), u)" "metafile u = Some (Encoded
          (m1\<lparr>UpdateStatus := ''STATUS_TYPE_FAILED'', UpdateLog := granular_content e p s1\<rparr>))" by blast
    with run fin [of u] g m1 s0(2) Err show ?thesis
      by (intro exI [of _ s0] exI [of _ s1] exI [of _ ?m0] exI [of _ m1] exI [of _ r]) (simp add: stored_def)
  next
    case (Crash e)
    with run nocrash show ?thesis by simp
  qed
qed

lemma start_update_records_failure_witness:
  "\<exists>t s0 m0. StartUpdate calm_env ''emt'' ''log''
      [emtUpdater_update calm_env (downloadChecker calm_env), kernelUpdater_update calm_env emtKernelParamFile ''emt''] 60
      (calm_world (initial_meta\<lparr>OSProfileUpdateSourceDesired := Some image_a\<rparr>)) = (Ok (), t) \<and>
     stored calm_env m0 s0 \<and> UpdateStatus m0 = ''STATUS_TYPE_STARTED'' \<and> UpdateDuration m0 = 60"
proof -
  let ?us = "[emtUpdater_update calm_env (downloadChecker calm_env), kernelUpdater_update calm_env emtKernelParamFile ''emt'']"
  let ?s = "calm_world (initial_meta\<lparr>OSProfileUpdateSourceDesired := Some image_a\<rparr>)"
  have us: "NewUpdateController calm_env ''emt'' (downloadChecker calm_env) = Inr ?us"
    by (simp add: NewUpdateController_def)
  obtain r t where g: "StartUpdate calm_env ''emt'' ''log'' ?us 60 ?s = (r, t)" by fastforce
  then have "r = Ok ()"
    by (auto simp: StartUpdate_def run_update_def update_failed_def deferred_modify edgeNodeUpdater_update_def
      checkTimeout_def GetMetaUpdateTime_def emtUpdater_update_def downloadChecker_def GetLastDownloaded_def AreOsImagesEqual_def
      has_kernel_command_def initial_meta_def CleanupAfterUpdate_def os_ReadFile_def unix_seconds_def Contains_def ERR_INVALID_SIGNATURE_def run_simps)
  with g have run: "StartUpdate calm_env ''emt'' ''log'' ?us 60 ?s = (Ok (), t)" by simp
  have "\<not> edgeNodeUpdateMutex ?s" by (simp add: calm_world_def)
  from start_update_records_failure [OF us calm_stored this run] run show ?thesis by blast
qed

end
