(* ===== verification/Pua_System.thy ===== *)
theory Pua_System
  imports Pua_Agent
begin

text \<open>
  The Platform Update Agent over time: which states it reaches by answering the maintenance
  manager, acting on responses, its download timer, its scheduler's jobs, restarts and power
  losses. A step is one whole handler; the metadata operations inside are each atomic in the
  program too (they hold the file's mutex), and every one of them keeps the metadata
  invariant. A panic or a \<open>log.Fatal\<close> ends the process: memory is lost, files stay.

  The second part says what is recorded after a reboot.
\<close>

section \<open>The agent as a transition system\<close>

record agent_config =
  cfg_os :: string
  cfg_updaters :: "(world, unit) action list"
  cfg_immediate_window :: int
  cfg_download_window :: int
  cfg_rs_fqdn :: string
  cfg_log :: string
  cfg_granular_log :: string

definition well_configured :: "env \<Rightarrow> agent_config \<Rightarrow> bool" where
  "well_configured env c \<longleftrightarrow> NewUpdateController env (cfg_os c) (downloadChecker env) = Inr (cfg_updaters c)"

datatype event = Resume | Answer bool StatusType Response | Respond Meta Response | Timer | RunJob Job

fun enabled :: "event \<Rightarrow> world \<Rightarrow> bool" where
  "enabled (RunJob j) s \<longleftrightarrow> j \<in> set (jobs s) \<and> \<not> operationLock s"
| "enabled _ s \<longleftrightarrow> True"

fun perform :: "env \<Rightarrow> agent_config \<Rightarrow> event \<Rightarrow> (world, unit) action" where
  "perform env c Resume = resume_update env (cfg_os c) (cfg_log c) (cfg_granular_log c) (cfg_updaters c)"
| "perform env c (Answer ready sent res) = ignore (handle_answer env (cfg_os c) ready sent res)"
| "perform env c (Respond meta res) =
     handleUpdateRes env (cfg_immediate_window c) (cfg_download_window c) (cfg_os c) (cfg_rs_fqdn c) meta res"
| "perform env c Timer = timer_fires env"
| "perform env c (RunJob j) =
     run_job env (StartUpdate env (cfg_os c) (cfg_granular_log c) (cfg_updaters c)) (cfg_os c) j"

text \<open>A new process: what was in memory is lost, files stay.\<close>

definition restart :: "world \<Rightarrow> world" where
  "restart s = s\<lparr>edgeNodeUpdateMutex := False, operationLock := False, downloadTimer := None,
     lastUpdateStart := None, lastUpdateSource := None, lastDownloaded := None, jobs := []\<rparr>"

inductive step :: "env \<Rightarrow> agent_config \<Rightarrow> world \<Rightarrow> world \<Rightarrow> bool" for env c where
  event: "enabled e s \<Longrightarrow> perform env c e s = (Ok (), t) \<Longrightarrow> step env c s t"
| event_error: "enabled e s \<Longrightarrow> perform env c e s = (Err x, t) \<Longrightarrow> step env c s t"
| event_crash: "enabled e s \<Longrightarrow> perform env c e s = (Crash x, t) \<Longrightarrow> step env c s (restart t)"
| power_loss: "step env c s (restart s)"
| job_ran: "jobs s = xs @ j # ys \<Longrightarrow>
    step env c s (s\<lparr>jobs := xs @ j\<lparr>finished_runs := Suc (finished_runs j), next_run := n\<rparr> # ys\<rparr>)"

inductive reachable :: "env \<Rightarrow> agent_config \<Rightarrow> world \<Rightarrow> bool" for env c where
  boot: "metafile s = None \<or> metafile s = Some Empty \<Longrightarrow> InitMetadata env (restart s) = (Ok (), t) \<Longrightarrow> reachable env c t"
| step: "reachable env c s \<Longrightarrow> step env c s t \<Longrightarrow> reachable env c t"

inductive_cases step_cases: "step env c s t"

definition meta_sane :: "world \<Rightarrow> bool" where
  "meta_sane s \<longleftrightarrow> (case metafile s of None \<Rightarrow> True | Some Empty \<Rightarrow> True | Some (Garbage _) \<Rightarrow> False
     | Some (Encoded m) \<Rightarrow> wf_meta m)"

lemma robust_meta_sane [keeps_rules]: "robust meta_sane"
proof -
  have "keeps meta_sane (update_meta env f)" if "\<forall>m. wf_meta m \<longrightarrow> wf_meta (f m)" for env f
  proof (rule keepsI)
    fix s assume s: "meta_sane s"
    obtain r t where e: "update_meta env f s = (r, t)" by fastforce
    with update_meta_result [OF e] s that show "meta_sane (snd (update_meta env f s))"
      by (auto simp: meta_sane_def)
  qed
  then show ?thesis by (simp add: robust_def env_blind_def meta_sane_def)
qed

lemma blind_meta_sane [keeps_rules]: "downloader_blind meta_sane" "jobs_blind meta_sane"
  by (simp_all add: downloader_blind_def jobs_blind_def meta_sane_def)

lemma keeps_configured:
  assumes "well_configured env c" "robust I" "u \<in> set (cfg_updaters c)"
  shows "keeps I u"
  using keeps_NewUpdateController [OF assms(2) keeps_downloadChecker [OF assms(2)]] assms(1,3)
  unfolding well_configured_def by blast

text \<open>What every operation keeps, for an invariant on which memory and lock changes have no influence.\<close>

lemma keeps_perform:
  assumes "well_configured env c" "robust I" "downloader_blind I"
    and "\<And>s b. I s \<Longrightarrow> I (s\<lparr>edgeNodeUpdateMutex := b\<rparr>)"
    and "\<And>meta res. keeps I (handleUpdateRes env (cfg_immediate_window c) (cfg_download_window c) (cfg_os c)
      (cfg_rs_fqdn c) meta res)"
  shows "keeps I (perform env c e)"
proof -
  have us: "keeps I u" if "u \<in> set (cfg_updaters c)" for u
    using keeps_configured [OF assms(1,2) that] .
  show ?thesis
    by (cases e) (auto intro!: keeps_resume_update keeps_run_job keeps_StartUpdate keeps_ignore keeps_handle_answer
        keeps_timer_fires assms(2-5) intro: us)
qed

lemma keeps_unlocked_handleUpdateRes:
  "keeps (\<lambda>s. operationLock s = b) (handleUpdateRes env iw dw os fq meta res)"
proof -
  have [keeps_rules]: "jobs_blind (\<lambda>s. operationLock s = b)" by (simp add: jobs_blind_def)
  have [keeps_rules]: "keeps (\<lambda>s. operationLock s = b) (Notify env iw dw p u n x)" for p u n x
    unfolding Notify_def stop_timer_def Let_def by (intro keeps_rules keeps_modify) simp_all
  show ?thesis
    unfolding handleUpdateRes_def handle_schedule_def by (intro keeps_rules)
qed

lemma handleUpdateRes_mutex:
  "keeps (\<lambda>s. edgeNodeUpdateMutex s = b) (handleUpdateRes env iw dw os fq meta res)"
  by (intro keeps_rules) (simp_all add: downloader_blind_def jobs_blind_def)

lemma triggerUpdate_unlocks:
  assumes "triggerUpdate env start e os s = (r, t)" "\<not> operationLock s" "\<And>x. r \<noteq> Crash x"
  shows "\<not> operationLock t"
proof -
  obtain r1 s1 where g: "IsUpdateAlreadyApplied env os s = (r1, s1)" by fastforce
  with IsUpdateAlreadyApplied_result [OF g] assms show ?thesis
    by (auto simp: triggerUpdate_def LockForUpdate_def Unlock_def deferred_modify andthen_apply ret_apply modify_apply
        split: if_splits prod.splits outcome.splits)
qed

lemma StartUpdate_mutex:
  assumes "StartUpdate env os p us d s = (r, t)" "\<not> edgeNodeUpdateMutex s" "\<And>x. r \<noteq> Crash x"
  shows "\<not> edgeNodeUpdateMutex t"
  using assms
  by (auto simp: StartUpdate_def andthen_apply asks_apply modify_apply ret_apply deferred_modify
      split: prod.splits outcome.splits)

definition unlocked :: "world \<Rightarrow> bool" where
  "unlocked s \<longleftrightarrow> \<not> operationLock s \<and> \<not> edgeNodeUpdateMutex s"

lemma timer_unlocks:
  assumes "timer_fires env s = (r, t)" "\<not> operationLock s" "\<And>x. r \<noteq> Crash x"
  shows "\<not> operationLock t"
proof (cases "downloadTimer s")
  case (Some a)
  obtain due p u where a: "a = (due, p, u)" by (cases a)
  obtain r1 s1 where g: "locked_download env p u (s\<lparr>downloadTimer := None, operationLock := True\<rparr>) = (r1, s1)"
    by fastforce
  with assms Some a show ?thesis
    by (auto simp: timer_fires_def stop_timer_def startDownload_def tryLockForDownload_def LockForUpdate_def Unlock_def
        setLastDownloaded_def deferred_modify action_simps split: outcome.splits if_splits)
qed (use assms in \<open>simp add: timer_fires_def action_simps\<close>)

lemma run_job_is_trigger:
  "\<exists>e s'. run_job env start os j s = triggerUpdate env start e os s' \<and> (\<exists>n. s' = s\<lparr>tick := n\<rparr>)"
proof (cases "job_kind j")
  case (CronJob x d)
  then show ?thesis
    by (simp add: run_job_def Now_def bump_def action_simps)
       (rule exI [of _ "clock env (tick s) + d * 1000000000"], rule exI [of _ "s\<lparr>tick := Suc (tick s)\<rparr>"], auto)
next
  case (OnceJob x e)
  then show ?thesis
    by (auto simp: run_job_def intro!: exI [of _ e] exI [of _ s] exI [of _ "tick s"])
qed

lemma triggerUpdate_mutex:
  assumes "triggerUpdate env (StartUpdate env os p us) e os' s = (r, t)" "\<not> edgeNodeUpdateMutex s" "\<And>x. r \<noteq> Crash x"
  shows "\<not> edgeNodeUpdateMutex t"
proof -
  obtain r1 s1 where g: "IsUpdateAlreadyApplied env os' s = (r1, s1)" by fastforce
  from IsUpdateAlreadyApplied_result [OF g] obtain n b where s1: "s1 = s\<lparr>tick := n\<rparr>" "r1 = Ok b" by blast
  obtain r2 s2 where g2: "StartUpdate env os p us (round_seconds (e - clock env (Suc n)))
      (s\<lparr>operationLock := True, tick := Suc (Suc n)\<rparr>) = (r2, s2)" by fastforce
  from g s1 g2 StartUpdate_mutex [OF g2] assms show ?thesis
    by (cases r2) (auto simp: triggerUpdate_def LockForUpdate_def Unlock_def deferred_modify andthen_apply ret_apply
        modify_apply Now_def bump_def asks_apply split: if_splits prod.splits outcome.splits)
qed

lemma robust_unlocked: "robust (\<lambda>s. \<not> operationLock s)" "robust (\<lambda>s. \<not> edgeNodeUpdateMutex s)"
  using robust_fields(2) [of False] robust_fields(3) [of False] by simp_all

lemma perform_unlocked:
  assumes "well_configured env c" "perform env c e s = (r, t)" "unlocked s" "\<And>x. r \<noteq> Crash x"
  shows "unlocked t"
proof -
  have plain: "unlocked t" if "keeps (\<lambda>s. \<not> operationLock s) (perform env c e)"
      "keeps (\<lambda>s. \<not> edgeNodeUpdateMutex s) (perform env c e)"
    using keepsD [OF that(1) _ assms(2)] keepsD [OF that(2) _ assms(2)] assms(3) by (simp add: unlocked_def)
  note us = keeps_configured [OF assms(1)]
  show ?thesis
  proof (cases e)
    case Resume
    then show ?thesis
      by (intro plain) (simp_all add: keeps_resume_update robust_unlocked us)
  next
    case (Answer x y z)
    then show ?thesis
      by (intro plain) (simp_all add: keeps_ignore keeps_handle_answer robust_unlocked)
  next
    case (Respond m x)
    then show ?thesis
      using keeps_unlocked_handleUpdateRes [of False] handleUpdateRes_mutex [of False] by (intro plain) simp_all
  next
    case Timer
    have "downloader_blind (\<lambda>s. \<not> edgeNodeUpdateMutex s)" by (simp add: downloader_blind_def)
    with Timer have "keeps (\<lambda>s. \<not> edgeNodeUpdateMutex s) (perform env c e)"
      by (simp add: keeps_timer_fires robust_unlocked)
    from keepsD [OF this _ assms(2)] Timer assms(2-4) timer_unlocks [of env s r t] show ?thesis
      by (simp add: unlocked_def)
  next
    case (RunJob j)
    with assms(2) have j: "run_job env (StartUpdate env (cfg_os c) (cfg_granular_log c) (cfg_updaters c)) (cfg_os c) j s = (r, t)"
      by simp
    obtain d n where d: "triggerUpdate env (StartUpdate env (cfg_os c) (cfg_granular_log c) (cfg_updaters c))
        d (cfg_os c) (s\<lparr>tick := n\<rparr>) = (r, t)"
      using run_job_is_trigger j by metis
    from triggerUpdate_unlocks [OF d] triggerUpdate_mutex [OF d] assms(3,4) show ?thesis
      by (simp add: unlocked_def)
  qed
qed

definition same_memory :: "world \<Rightarrow> world \<Rightarrow> bool" where
  "same_memory s t \<longleftrightarrow> jobs t = jobs s \<and> operationLock t = operationLock s \<and>
     edgeNodeUpdateMutex t = edgeNodeUpdateMutex s"

lemma InitMetadata_sane:
  assumes "metafile s = None \<or> metafile s = Some Empty" "InitMetadata env s = (r, t)"
  shows "meta_sane t \<and> (same_memory s t)"
proof -
  have wf: "wf_meta initial_meta" by (simp add: wf_meta_def initial_meta_def del: string_of_StatusType.simps)
  have blind: "env_blind (\<lambda>t. meta_sane t \<and> (same_memory s t))"
    by (auto simp: env_blind_def meta_sane_def same_memory_def)
  have k: "keeps (\<lambda>t. meta_sane t \<and> (same_memory s t)) (InitMetadata env)"
  proof -
    have w: "keeps (\<lambda>t. meta_sane t \<and> (same_memory s t)) (writeMeta env initial_meta)"
      using wf by (intro keeps_writeMeta blind) (auto simp: meta_sane_def same_memory_def)
    have c: "keeps (\<lambda>t. meta_sane t \<and> (same_memory s t)) (modify (\<lambda>s. s\<lparr>metafile := Some Empty\<rparr>))"
      by (rule keeps_modify) (auto simp: meta_sane_def same_memory_def)
    have b: "keeps I (case x of Inl e \<Rightarrow> m | Inr True \<Rightarrow> m' | Inr False \<Rightarrow> m)" if "keeps I m" "keeps I m'"
      for I :: "world \<Rightarrow> bool" and x :: "string + bool" and m m' :: "(world, unit) action"
      using that by (simp split: sum.splits bool.splits)
    show ?thesis
      unfolding InitMetadata_def fileExists_def fileHasContent_def
      by (intro keeps_rules blind w c b)
  qed
  have "meta_sane s \<and> same_memory s s" using assms(1) by (auto simp: meta_sane_def same_memory_def)
  from keepsD [OF k this assms(2)] show ?thesis .
qed

definition agent_inv :: "world \<Rightarrow> bool" where
  "agent_inv s \<longleftrightarrow> meta_sane s \<and> one_single s \<and> unlocked s"

lemma agent_inv_restart: "meta_sane s \<Longrightarrow> agent_inv (restart s)"
  by (simp add: agent_inv_def restart_def meta_sane_def one_single_def FindJobsByTag_def unlocked_def)

lemma perform_sane:
  assumes "well_configured env c" "perform env c e s = (r, t)"
  shows "meta_sane s \<Longrightarrow> meta_sane t" "one_single s \<Longrightarrow> one_single t"
proof -
  have "keeps meta_sane (perform env c e)"
    using keeps_handleUpdateRes [OF robust_meta_sane blind_meta_sane]
    by (intro keeps_perform [OF assms(1) robust_meta_sane blind_meta_sane(1)]) (simp_all add: meta_sane_def)
  from keepsD [OF this _ assms(2)] show "meta_sane s \<Longrightarrow> meta_sane t" .
  have "keeps one_single (perform env c e)"
    using keeps_one_single_handleUpdateRes
    by (intro keeps_perform [OF assms(1) robust_one_single downloader_blind_one_single])
       (simp_all add: one_single_def FindJobsByTag_def)
  from keepsD [OF this _ assms(2)] show "one_single s \<Longrightarrow> one_single t" .
qed

lemma step_agent_inv:
  assumes "well_configured env c" "step env c s t" "agent_inv s"
  shows "agent_inv t"
  using assms(2)
proof (cases rule: step.cases)
  case (event e)
  with assms show ?thesis
    using perform_sane [OF assms(1) event(2)] perform_unlocked [OF assms(1) event(2)]
    by (simp add: agent_inv_def)
next
  case (event_error e x)
  with assms show ?thesis
    using perform_sane [OF assms(1) event_error(2)] perform_unlocked [OF assms(1) event_error(2)]
    by (simp add: agent_inv_def)
next
  case (event_crash e x u)
  with assms show ?thesis
    using perform_sane(1) [OF assms(1) event_crash(3)] agent_inv_restart by (simp add: agent_inv_def)
next
  case power_loss
  with assms show ?thesis using agent_inv_restart by (simp add: agent_inv_def)
next
  case (job_ran xs j ys n)
  with assms show ?thesis
    by (auto simp: agent_inv_def meta_sane_def one_single_def FindJobsByTag_def unlocked_def split: if_splits)
qed


definition demo_config :: agent_config where
  "demo_config = \<lparr>cfg_os = ''emt'',
     cfg_updaters = [emtUpdater_update calm_env (downloadChecker calm_env),
                     kernelUpdater_update calm_env emtKernelParamFile ''emt''],
     cfg_immediate_window = 10, cfg_download_window = 20, cfg_rs_fqdn = ''rs'', cfg_log = ''log'',
     cfg_granular_log = ''granular''\<rparr>"


lemma keeps_verify_blind: "env_blind I \<Longrightarrow> keeps I (verify_retries env p q n r)"
proof -
  assume b: "env_blind I"
  then have "keeps I (VerifyUpdate env p q)"
    unfolding VerifyUpdate_def verify_without_log_def by (intro b keeps_rules)
  then show ?thesis by (induction n arbitrary: r) (auto intro!: keeps_ret keeps_andthen)
qed

lemma safe_VerifyUpdate [safe_rules]: "safe (VerifyUpdate env p q)"
  unfolding VerifyUpdate_def verify_without_log_def getter_defs by (intro safe_rules)

lemma verify_retries_never_fails: "\<exists>x t. verify_retries env p q n r s = (Ok x, t)"
proof (induction n arbitrary: r s)
  case (Suc n)
  obtain r1 s1 where g: "VerifyUpdate env p q s = (r1, s1)" by fastforce
  have "\<exists>x. r1 = Ok x"
  proof (cases r1)
    case (Err e)
    with g show ?thesis
      by (auto simp: VerifyUpdate_def verify_without_log_def action_simps
          split: prod.splits outcome.splits sum.splits if_splits)
  qed (use g safeD [OF safe_VerifyUpdate] in auto)
  with g Suc show ?case by (auto simp: action_simps split: prod.splits)
qed (simp add: action_simps)

lemma CleanupAfterUpdate_stored:
  assumes "stored env m s" "CleanupAfterUpdate env os p s = (r, t)"
  shows "stored env m t"
  using assms
  by (auto simp: CleanupAfterUpdate_def action_simps run_def Execute_def io_def bump_def stored_def
        split: if_splits option.splits outcome.splits prod.splits sum.splits)

definition window_now :: "Meta \<Rightarrow> int \<Rightarrow> bool" where
  "window_now m now = (case MetaSingleSchedule m of None \<Rightarrow> False | Some w \<Rightarrow> in_window now w)"

lemma finish_window_stored:
  assumes "stored env m s"
  obtains t where "finish_window env s = (Ok (), t)"
    "stored env (m\<lparr>SingleScheduleFinished := window_now m (clock env (tick s)) \<or> SingleScheduleFinished m\<rparr>) t"
proof -
  let ?s = "s\<lparr>tick := tick s + 3\<rparr>"
  have st: "stored env m ?s" "stored env m (s\<lparr>tick := Suc (tick s)\<rparr>)" using assms by simp_all
  show thesis
  proof (cases "window_now m (clock env (tick s))")
    case True
    obtain t where "update_meta env (\<lambda>m. m\<lparr>SingleScheduleFinished := True\<rparr>) ?s = (Ok (), t)"
      "stored env (m\<lparr>SingleScheduleFinished := True\<rparr>) t"
      using update_meta_step [OF st(1)] .
    with True st that show thesis
      by (auto simp: finish_window_def Now_def bump_def IsInsideSingleScheduleWindow_def ReadMeta_stored
          SetSingleScheduleFinished_def window_now_def action_simps numeral_eq_Suc split: option.splits)
  next
    case False
    with st that [of ?s] show thesis
      by (auto simp: finish_window_def Now_def bump_def IsInsideSingleScheduleWindow_def ReadMeta_stored
          window_now_def action_simps numeral_eq_Suc split: option.splits)
  qed
qed

lemma record_actual_stored:
  assumes "stored env m s"
  obtains t where "record_actual env os st s = (Ok (), t)"
    "stored env (m\<lparr>OSProfileUpdateSourceActual := (if os = ''emt'' \<and> st = UPDATED
       then OSProfileUpdateSourceDesired m else OSProfileUpdateSourceActual m)\<rparr>) t"
proof -
  let ?s = "s\<lparr>tick := tick s + 2\<rparr>"
  have "stored env m ?s" using assms by simp
  then obtain t where "update_meta env (\<lambda>m'. m'\<lparr>OSProfileUpdateSourceActual := OSProfileUpdateSourceDesired m\<rparr>) ?s = (Ok (), t)"
    "stored env (m\<lparr>OSProfileUpdateSourceActual := OSProfileUpdateSourceDesired m\<rparr>) t"
    by (rule update_meta_step)
  with assms that show thesis
    by (cases "os = ''emt'' \<and> st = UPDATED")
       (auto simp: record_actual_def getter_defs setter_defs get_meta_stored action_simps)
qed

lemma or_fatal_Ok: "m s = (Ok x, t) \<Longrightarrow> or_fatal m s = (Ok x, t)"
  by (simp add: or_fatal_def action_simps)

text \<open>C2: on a usable metadata file the continuation after a reboot always returns; it records the verified status and log, clears the update in progress, closes the single schedule whose window is open, and on the Edge Microvisor Toolkit records the desired image as the actual one exactly if the update is verified.\<close>

theorem reboot_outcome_recorded:
  assumes "stored env m s"
  shows "\<exists>st l n t. verify_retries env p q 5 (UNSPECIFIED, []) s = (Ok (st, l), s\<lparr>tick := n\<rparr>) \<and>
    continueUpdateAfterOsReboot env os p q s = (Ok (), t) \<and>
    metafile t = Some (Encoded (m\<lparr>
      SingleScheduleFinished := window_now m (clock env n) \<or> SingleScheduleFinished m,
      OSProfileUpdateSourceActual := (if os = ''emt'' \<and> st = UPDATED then OSProfileUpdateSourceDesired m
                                      else OSProfileUpdateSourceActual m),
      UpdateStatus := string_of_StatusType st, UpdateLog := l, UpdateInProgress := ''NONE''\<rparr>))"
proof -
  obtain st l s1 where v: "verify_retries env p q 5 (UNSPECIFIED, []) s = (Ok (st, l), s1)"
    using verify_retries_never_fails by (metis surj_pair)
  then obtain n where s1: "s1 = s\<lparr>tick := n\<rparr>"
    using only_tick [OF keeps_verify_blind] by blast
  have st1: "stored env m s1" using assms s1 by simp
  obtain s2 where s2: "finish_window env s1 = (Ok (), s2)"
    "stored env (m\<lparr>SingleScheduleFinished := window_now m (clock env n) \<or> SingleScheduleFinished m\<rparr>) s2"
    using finish_window_stored [OF st1] s1 by auto
  obtain s3 where s3: "record_actual env os st s2 = (Ok (), s3)"
    "stored env (m\<lparr>SingleScheduleFinished := window_now m (clock env n) \<or> SingleScheduleFinished m,
       OSProfileUpdateSourceActual := (if os = ''emt'' \<and> st = UPDATED
       then OSProfileUpdateSourceDesired m else OSProfileUpdateSourceActual m)\<rparr>) s3"
    using record_actual_stored [OF s2(2)] by (auto cong: if_cong)
  obtain r s4 where s4: "CleanupAfterUpdate env os q s3 = (r, s4)" by fastforce
  note st4 = CleanupAfterUpdate_stored [OF s3(2) s4]
  let ?m = "m\<lparr>SingleScheduleFinished := window_now m (clock env n) \<or> SingleScheduleFinished m,
       OSProfileUpdateSourceActual := (if os = ''emt'' \<and> st = UPDATED
       then OSProfileUpdateSourceDesired m else OSProfileUpdateSourceActual m)\<rparr>"
  let ?m5 = "?m\<lparr>UpdateStatus := string_of_StatusType st\<rparr>"
  obtain s5 where s5: "update_meta env (\<lambda>m. m\<lparr>UpdateStatus := string_of_StatusType st\<rparr>) s4 = (Ok (), s5)"
    "stored env ?m5 s5"
    using update_meta_step [OF st4] .
  obtain s6 where s6: "update_meta env (\<lambda>m. m\<lparr>UpdateLog := l\<rparr>) s5 = (Ok (), s6)" "stored env (?m5\<lparr>UpdateLog := l\<rparr>) s6"
    using update_meta_step [OF s5(2)] .
  obtain s7 where s7: "update_meta env (\<lambda>m. m\<lparr>UpdateInProgress := ''NONE''\<rparr>) s6 = (Ok (), s7)"
    "stored env (?m5\<lparr>UpdateLog := l, UpdateInProgress := ''NONE''\<rparr>) s7"
    using update_meta_step [OF s6(2)] .
  have "continueUpdateAfterOsReboot env os p q s = (Ok (), s7)"
    using v s2(1) s3(1) s4 s5(1) s6(1) s7(1) safeD [OF safe_CleanupAfterUpdate, of env os q s3]
    by (cases r) (simp_all add: continueUpdateAfterOsReboot_def setter_defs action_simps or_fatal_def)
  with v s1 stored_metafile [OF s7(2)] show ?thesis by auto
qed

lemma reboot_outcome_recorded_witness:
  "\<exists>t m. continueUpdateAfterOsReboot calm_env ''emt'' ''log'' ''granular'' (calm_world initial_meta) = (Ok (), t) \<and>
     metafile t = Some (Encoded m) \<and> UpdateInProgress m = ''NONE''"
  using reboot_outcome_recorded [OF calm_stored, of "''log''" "''granular''" initial_meta "''emt''"] by fastforce

text \<open>C3: an update is verified as successful only with evidence: the INBC log says SUCCESS, or that nothing was to do while the granular log shows an update, or there is no usable log and the metadata file holds an OS update in progress with a kernel command line.\<close>

theorem updated_only_with_evidence:
  assumes "VerifyUpdate env p q s = (Ok (UPDATED, l, tm, e), t)"
  shows "e = None \<and>
    ((\<exists>c st. files s p = Some c \<and> decode_status env c = Inr st \<and>
       (Status st = ''SUCCESS'' \<or> Status st = ''NO_UPDATE_AVAILABLE'' \<and> granularLogShowsUpdate env l)) \<or>
     (\<exists>m u. metafile s = Some (Encoded m) \<and> UpdateInProgress m = ''OS'' \<and> MetaUpdateSource m = Some u \<and>
       KernelCommand u \<noteq> []))"
proof -
  obtain r1 s1 where g: "os_ReadFile env p s = (r1, s1)" by fastforce
  have f: "\<exists>n. s1 = s\<lparr>tick := n\<rparr>" "\<And>c. r1 = Ok c \<Longrightarrow> files s p = Some c"
    using g by (auto simp: os_ReadFile_def io_def bump_def action_simps split: option.splits outcome.splits)
  have nolog: ?thesis if "verify_without_log env err s1 = (Ok (UPDATED, l, tm, e), t)" for err
  proof -
    obtain r2 s2 where g2: "get_meta env UpdateInProgress s1 = (r2, s2)" by fastforce
    obtain r3 s3 where g3: "get_meta env MetaUpdateSource s2 = (r3, s3)" by fastforce
    from that g2 g3 get_meta_result [OF g2] get_meta_result [OF g3] f(1) show ?thesis
      by (auto simp: verify_without_log_def getter_defs kernel_updated_def has_kernel_command_def action_simps
          split: outcome.splits if_splits sum.splits option.splits)
  qed
  obtain r4 s4 where g4: "os_ReadFile env q s1 = (r4, s4)" by fastforce
  from assms g g4 f nolog show ?thesis
    by (auto simp: VerifyUpdate_def verdict_of_def action_simps split: outcome.splits sum.splits if_splits)
qed

lemma updated_only_with_evidence_witness:
  "\<exists>m t. VerifyUpdate calm_env ''log'' ''granular'' (calm_world m) =
     (Ok (UPDATED, ''Kernel command line parameters updated successfully'', [], None), t) \<and> UpdateInProgress m = ''OS''"
proof -
  let ?m = "initial_meta\<lparr>UpdateInProgress := ''OS'',
    MetaUpdateSource := Some \<lparr>KernelCommand = ''quiet'', OsRepoUrl = [], CustomRepos = []\<rparr>\<rparr>"
  obtain r t where g: "VerifyUpdate calm_env ''log'' ''granular'' (calm_world ?m) = (r, t)" by fastforce
  then have r: "r = Ok (UPDATED, ''Kernel command line parameters updated successfully'', [], None)"
    by (auto simp: VerifyUpdate_def verify_without_log_def os_ReadFile_def has_kernel_command_def
        kernel_updated_def initial_meta_def run_simps)
  from updated_only_with_evidence [of calm_env "''log''" "''granular''" "calm_world ?m"] g r show ?thesis
    by (intro exI [of _ ?m] exI [of _ t]) simp
qed

end
