(* ===== verification/Cluster_Agent.thy ===== *)
theory Cluster_Agent
  imports Go_Strings
begin

text \<open>
  The Cluster Agent (\<^verbatim>\<open>cluster-agent/internal/state/*.go\<close>, \<^verbatim>\<open>internal/comms/comms.go\<close>,
  \<^verbatim>\<open>internal/config/config.go\<close>, the action loop of \<^verbatim>\<open>cmd/cluster-agent/cluster-agent.go\<close>): a
  state machine that installs and removes Kubernetes on the request of the cluster
  orchestrator.

  The orchestrator, bash and the file \<^verbatim>\<open>/etc/lsb-release\<close> are oracles of \<open>cluster_env\<close>; every
  interaction takes the next number. The machine's record keeps the commands that were run, with
  whether they succeeded, and the states that were entered. \<open>register_attempts\<close> is the number
  of attempts that fit before the exponential back-off of the retry library gives up.
\<close>

section \<open>The state machine\<close>

datatype State = INACTIVE | REGISTERING | INSTALL_IN_PROGRESS | ACTIVE | DEREGISTERING | UNINSTALL_IN_PROGRESS

primrec State_string :: "State \<Rightarrow> string" where
  "State_string INACTIVE = ''INACTIVE''"
| "State_string REGISTERING = ''REGISTERING''"
| "State_string INSTALL_IN_PROGRESS = ''INSTALL_IN_PROGRESS''"
| "State_string ACTIVE = ''ACTIVE''"
| "State_string DEREGISTERING = ''DEREGISTERING''"
| "State_string UNINSTALL_IN_PROGRESS = ''UNINSTALL_IN_PROGRESS''"

record StateMachine =
  currentState :: State
  installCmd :: string
  uninstallCmd :: string
  commands_run :: "(string \<times> bool) list"
  entered :: "State list"
  sm_tick :: nat

definition cleanupCmd :: string where
  "cleanupCmd = ''for lvname in $(sudo lvs --noheadings -o lv_name lvmvg); do sudo lvremove /dev/lvmvg/${lvname} -y; done;''"

definition NewStateMachine :: StateMachine where
  "NewStateMachine = \<lparr>currentState = INACTIVE, installCmd = [], uninstallCmd = [], commands_run = [],
     entered = [], sm_tick = 0\<rparr>"

datatype ActionRequest = NO_ACTION | REGISTER | DEREGISTER | UNKNOWN_ACTION

datatype StatusCode = CODE_INACTIVE | CODE_REGISTERING | CODE_INSTALL_IN_PROGRESS | CODE_ACTIVE
  | CODE_DEREGISTERING | CODE_UNINSTALL_IN_PROGRESS | CODE_ERROR

text \<open>The look-up in the Go map; a missing key gives the zero value, \<^verbatim>\<open>INACTIVE\<close>.\<close>

definition convertStatus :: "string \<Rightarrow> StatusCode" where
  "convertStatus s =
     (case map_of [(''INACTIVE'', CODE_INACTIVE), (''REGISTERING'', CODE_REGISTERING),
        (''INSTALL_IN_PROGRESS'', CODE_INSTALL_IN_PROGRESS), (''ACTIVE'', CODE_ACTIVE),
        (''DEREGISTERING'', CODE_DEREGISTERING), (''UNINSTALL_IN_PROGRESS'', CODE_UNINSTALL_IN_PROGRESS),
        (''ERROR'', CODE_ERROR)] s of None \<Rightarrow> CODE_INACTIVE | Some c \<Rightarrow> c)"

record RegisterClusterResponse =
  Res_error :: bool
  InstallCmd :: string
  UninstallCmd :: string

record cluster_env =
  rpc_RegisterCluster :: "nat \<Rightarrow> string + RegisterClusterResponse"
  rpc_UpdateClusterStatus :: "nat \<Rightarrow> StatusCode \<Rightarrow> string \<Rightarrow> string + ActionRequest"
  conn_Close :: "nat \<Rightarrow> string option"
  conn_Connect :: "nat \<Rightarrow> string option"
  register_attempts :: "nat \<Rightarrow> nat"
  bash_error :: "nat \<Rightarrow> string \<Rightarrow> string option"
  lsb_release :: "nat \<Rightarrow> string + string"

definition set_state :: "State \<Rightarrow> (StateMachine, unit) action" where
  "set_state st = modify (\<lambda>sm. sm\<lparr>currentState := st, entered := entered sm @ [st]\<rparr>)"

definition incorrectActionRequest :: "(StateMachine, unit) action" where
  "incorrectActionRequest = andthen (asks currentState) (\<lambda>st.
     fail (''incorrect ActionRequest for current state: '' @ State_string st))"

definition sm_next :: "(StateMachine, nat) action" where
  "sm_next = andthen (asks sm_tick) (\<lambda>n. andthen (modify (\<lambda>sm. sm\<lparr>sm_tick := Suc n\<rparr>)) (\<lambda>_. ret n))"

text \<open>\<^verbatim>\<open>bash -o pipefail -c command\<close>\<close>

definition bash :: "cluster_env \<Rightarrow> string \<Rightarrow> (StateMachine, unit) action" where
  "bash env command = andthen sm_next (\<lambda>n.
     andthen (modify (\<lambda>sm. sm\<lparr>commands_run := commands_run sm @ [(command, bash_error env n command = None)]\<rparr>)) (\<lambda>_.
     case bash_error env n command of None \<Rightarrow> ret () | Some e \<Rightarrow> fail e))"

section \<open>Registering with the orchestrator\<close>

definition cli_Register :: "cluster_env \<Rightarrow> (StateMachine, RegisterClusterResponse) action" where
  "cli_Register env = andthen sm_next (\<lambda>n. case rpc_RegisterCluster env n of
     Inl e \<Rightarrow> fail e
   | Inr r \<Rightarrow> if Res_error r then fail ''ERROR response from cluster orchestrator'' else ret r)"

text \<open>Two empty commands when the retries end without an answer.\<close>

definition registerToClusterOrch :: "cluster_env \<Rightarrow> (StateMachine, string \<times> string) action" where
  "registerToClusterOrch env = andthen (asks (\<lambda>sm. register_attempts env (sm_tick sm))) (\<lambda>n.
     andthen (attempt (retry n (cli_Register env))) (\<lambda>r. case r of
       Inl _ \<Rightarrow> ret ([], [])
     | Inr resp \<Rightarrow> ret (InstallCmd resp, UninstallCmd resp)))"

definition fetch_commands :: "cluster_env \<Rightarrow> (StateMachine, unit) action" where
  "fetch_commands env = andthen (registerToClusterOrch env) (\<lambda>(i, u).
     modify (\<lambda>sm. sm\<lparr>installCmd := i, uninstallCmd := u\<rparr>))"

section \<open>Reporting the state\<close>

definition conn_step :: "(nat \<Rightarrow> string option) \<Rightarrow> (StateMachine, unit) action" where
  "conn_step f = andthen sm_next (\<lambda>n. case f n of None \<Rightarrow> ret () | Some e \<Rightarrow> fail e)"

text \<open>At most three retries; then the connection is closed and opened again, and the error of the
  call is returned unless one of these two fails.\<close>

definition UpdateClusterStatus :: "cluster_env \<Rightarrow> State \<Rightarrow> string \<Rightarrow> (StateMachine, ActionRequest) action" where
  "UpdateClusterStatus env state guid =
     andthen (asks (\<lambda>sm. min 3 (register_attempts env (sm_tick sm)))) (\<lambda>n.
     andthen (attempt (retry n (andthen sm_next (\<lambda>k.
        lift_result (rpc_UpdateClusterStatus env k (convertStatus (State_string state)) guid))))) (\<lambda>r.
     case r of Inr resp \<Rightarrow> ret resp
     | Inl err \<Rightarrow>
        andthen (conn_step (conn_Close env)) (\<lambda>_.
        andthen (conn_step (conn_Connect env)) (\<lambda>_. fail err))))"

section \<open>What each state does\<close>

text \<open>The call to the state that was just entered, through \<^verbatim>\<open>sm.currentState\<close>, is the call of
  that state's method.\<close>

definition InstallInProgress_Register :: "cluster_env \<Rightarrow> (StateMachine, unit) action" where
  "InstallInProgress_Register env =
     andthen (asks installCmd) (\<lambda>cmd.
     andthen (attempt (bash env cmd)) (\<lambda>r. case r of
       Inl e \<Rightarrow> andthen (set_state INACTIVE) (\<lambda>_. fail e)
     | Inr _ \<Rightarrow> set_state ACTIVE))"

definition Registering_Register :: "cluster_env \<Rightarrow> (StateMachine, unit) action" where
  "Registering_Register env =
     andthen (fetch_commands env) (\<lambda>_.
     andthen (set_state INSTALL_IN_PROGRESS) (\<lambda>_.
     InstallInProgress_Register env))"

definition Inactive_Register :: "cluster_env \<Rightarrow> (StateMachine, unit) action" where
  "Inactive_Register env = andthen (set_state REGISTERING) (\<lambda>_. Registering_Register env)"

definition patch_cmd :: string where
  "patch_cmd = ''sudo sed -i '' @ [CHR 0x27] @ ''s|'' @ [CHR 0x5C] @ ''/etc'' @ [CHR 0x5C] @ ''/cni$|'' @ [CHR 0x5C] @
     ''/etc'' @ [CHR 0x5C] @ ''/cni'' @ [CHR 0x5C] @ ''/*|g'' @ [CHR 0x27] @ '' /opt/rke2/bin/rke2-uninstall.sh''"

definition read_lsb_release :: "cluster_env \<Rightarrow> (StateMachine, string) action" where
  "read_lsb_release env = andthen sm_next (\<lambda>n. lift_result (lsb_release env n))"

definition UninstallInProgress_Deregister :: "cluster_env \<Rightarrow> (StateMachine, unit) action" where
  "UninstallInProgress_Deregister env =
     andthen (read_lsb_release env) (\<lambda>lsb.
     andthen (if Contains lsb (''DISTRIB_ID='' @ [CHR 0x22] @ ''Edge Microvisor Toolkit'' @ [CHR 0x22])
              then ignore (bash env patch_cmd) else ret ()) (\<lambda>_.
     andthen (asks uninstallCmd) (\<lambda>cmd.
     andthen (attempt (bash env cmd)) (\<lambda>r. case r of
       Inl e \<Rightarrow>
         andthen (modify (\<lambda>sm. sm\<lparr>uninstallCmd := []\<rparr>)) (\<lambda>_.
         andthen (set_state INACTIVE) (\<lambda>_. fail e))
     | Inr _ \<Rightarrow>
         andthen (attempt (bash env cleanupCmd)) (\<lambda>r2.
         andthen (set_state INACTIVE) (\<lambda>_.
         case r2 of Inl e \<Rightarrow> fail e | Inr _ \<Rightarrow> ret ()))))))"

definition Deregistering_Deregister :: "cluster_env \<Rightarrow> (StateMachine, unit) action" where
  "Deregistering_Deregister env =
     andthen (asks uninstallCmd) (\<lambda>cmd.
     andthen (if cmd = [] then fetch_commands env else ret ()) (\<lambda>_.
     andthen (set_state UNINSTALL_IN_PROGRESS) (\<lambda>_.
     UninstallInProgress_Deregister env)))"

definition Active_Deregister :: "cluster_env \<Rightarrow> (StateMachine, unit) action" where
  "Active_Deregister env = andthen (set_state DEREGISTERING) (\<lambda>_. Deregistering_Deregister env)"

definition Inactive_Deregister :: "cluster_env \<Rightarrow> (StateMachine, unit) action" where
  "Inactive_Deregister env = andthen (set_state DEREGISTERING) (\<lambda>_. Deregistering_Deregister env)"

definition Register :: "cluster_env \<Rightarrow> (StateMachine, unit) action" where
  "Register env = andthen (asks currentState) (\<lambda>st. case st of
     INACTIVE \<Rightarrow> Inactive_Register env
   | REGISTERING \<Rightarrow> Registering_Register env
   | INSTALL_IN_PROGRESS \<Rightarrow> InstallInProgress_Register env
   | ACTIVE \<Rightarrow> incorrectActionRequest
   | DEREGISTERING \<Rightarrow> incorrectActionRequest
   | UNINSTALL_IN_PROGRESS \<Rightarrow> incorrectActionRequest)"

definition Deregister :: "cluster_env \<Rightarrow> (StateMachine, unit) action" where
  "Deregister env = andthen (asks currentState) (\<lambda>st. case st of
     INACTIVE \<Rightarrow> Inactive_Deregister env
   | REGISTERING \<Rightarrow> incorrectActionRequest
   | INSTALL_IN_PROGRESS \<Rightarrow> incorrectActionRequest
   | ACTIVE \<Rightarrow> Active_Deregister env
   | DEREGISTERING \<Rightarrow> Deregistering_Deregister env
   | UNINSTALL_IN_PROGRESS \<Rightarrow> UninstallInProgress_Deregister env)"

section \<open>The action loop\<close>

definition handle_action :: "cluster_env \<Rightarrow> ActionRequest \<Rightarrow> (StateMachine, unit) action" where
  "handle_action env a = (case a of
     NO_ACTION \<Rightarrow> ret ()
   | REGISTER \<Rightarrow> ignore (Register env)
   | DEREGISTER \<Rightarrow> ignore (Deregister env)
   | UNKNOWN_ACTION \<Rightarrow> ret ())"

definition run_actions :: "cluster_env \<Rightarrow> ActionRequest list \<Rightarrow> (StateMachine, unit) action" where
  "run_actions env = foreach (handle_action env)"

section \<open>Configuration\<close>

record ClusterConfig =
  cc_GUID :: string
  cc_LogLevel :: string
  cc_ServerAddr :: string
  cc_Heartbeat :: int
  cc_AccessTokenPath :: string

definition cc_setDefaults :: "ClusterConfig \<Rightarrow> ClusterConfig" where
  "cc_setDefaults c =
     (let c1 = (if cc_LogLevel c = [] then c\<lparr>cc_LogLevel := ''info''\<rparr> else c)
      in if cc_Heartbeat c1 \<le> 0 then c1\<lparr>cc_Heartbeat := 10 * 1000000000\<rparr> else c1)"

definition cc_validate :: "ClusterConfig \<Rightarrow> string + unit" where
  "cc_validate c =
     (if cc_GUID c = [] then Inl ''GUID is required''
      else if cc_ServerAddr c = [] then Inl ''clusterOrchestratorURL is required''
      else if cc_AccessTokenPath c = [] then Inl ''JWT.accessTokenPath is required''
      else Inr ())"

text \<open>\<open>decoded\<close>: what \<^verbatim>\<open>yaml.Unmarshal\<close> reads from the file.\<close>

definition cc_New :: "string + ClusterConfig \<Rightarrow> string + ClusterConfig" where
  "cc_New decoded = (case decoded of Inl e \<Rightarrow> Inl e
     | Inr c \<Rightarrow> (let c' = cc_setDefaults c in case cc_validate c' of Inl e \<Rightarrow> Inl e | Inr _ \<Rightarrow> Inr c'))"

section \<open>The state diagram\<close>

inductive arrow :: "State \<Rightarrow> State \<Rightarrow> bool" where
  start: "arrow INACTIVE REGISTERING"
| registered: "arrow REGISTERING INSTALL_IN_PROGRESS"
| installed: "arrow INSTALL_IN_PROGRESS ACTIVE"
| install_failed: "arrow INSTALL_IN_PROGRESS INACTIVE"
| leave: "arrow ACTIVE DEREGISTERING"
| leave_inactive: "arrow INACTIVE DEREGISTERING"
| uninstall: "arrow DEREGISTERING UNINSTALL_IN_PROGRESS"
| uninstalled: "arrow UNINSTALL_IN_PROGRESS INACTIVE"

inductive_simps arrow_simps [simp]: "arrow INACTIVE s" "arrow REGISTERING s" "arrow INSTALL_IN_PROGRESS s"
  "arrow ACTIVE s" "arrow DEREGISTERING s" "arrow UNINSTALL_IN_PROGRESS s"

fun path :: "State list \<Rightarrow> bool" where
  "path [] \<longleftrightarrow> True"
| "path [s] \<longleftrightarrow> True"
| "path (s # t # ss) \<longleftrightarrow> arrow s t \<and> path (t # ss)"

lemma path_snoc: "path (xs @ [s]) \<longleftrightarrow> path xs \<and> (xs = [] \<or> arrow (last xs) s)"
  by (induction xs rule: path.induct) auto

definition on_path :: "StateMachine \<Rightarrow> bool" where
  "on_path sm \<longleftrightarrow> path (INACTIVE # entered sm) \<and> last (INACTIVE # entered sm) = currentState sm"

lemma on_path_extend:
  "on_path sm \<Longrightarrow> arrow (currentState sm) s \<Longrightarrow> entered t = entered sm @ [s] \<Longrightarrow> currentState t = s \<Longrightarrow> on_path t"
  using path_snoc [of "INACTIVE # entered sm" s] by (auto simp: on_path_def)

lemma on_path_set: "on_path sm \<Longrightarrow> arrow (currentState sm) s \<Longrightarrow> set_state s sm = (r, t) \<Longrightarrow> on_path t"
  using path_snoc [of "INACTIVE # entered sm" s]
  by (auto simp: on_path_def set_state_def action_simps)

section \<open>What the steps change\<close>

definition same_course :: "StateMachine \<Rightarrow> StateMachine \<Rightarrow> bool" where
  "same_course sm t \<longleftrightarrow> currentState t = currentState sm \<and> entered t = entered sm \<and> commands_run t = commands_run sm"

lemma same_course_refl [simp]: "same_course sm sm"
  by (simp add: same_course_def)

lemma same_course_trans: "same_course a b \<Longrightarrow> same_course b c \<Longrightarrow> same_course a c"
  by (simp add: same_course_def)

lemma retry_course: "retry n (cli_Register env) sm = (r, t) \<Longrightarrow>
  same_course sm t \<and> installCmd t = installCmd sm \<and> uninstallCmd t = uninstallCmd sm \<and> (\<forall>e. r \<noteq> Crash e)"
proof (induction n arbitrary: sm)
  case 0
  then show ?case
    by (auto simp: cli_Register_def sm_next_def action_simps same_course_def split: sum.splits if_splits)
next
  case (Suc n)
  obtain r1 s1 where g: "cli_Register env sm = (r1, s1)" by fastforce
  then have s1: "same_course sm s1 \<and> installCmd s1 = installCmd sm \<and> uninstallCmd s1 = uninstallCmd sm \<and> (\<forall>e. r1 \<noteq> Crash e)"
    by (auto simp: cli_Register_def sm_next_def action_simps same_course_def split: sum.splits if_splits)
  with Suc g show ?case
    by (cases r1) (auto simp: action_simps same_course_def)
qed

lemma fetch_commands_course: "fetch_commands env sm = (r, t) \<Longrightarrow> r = Ok () \<and> same_course sm t"
proof -
  assume f: "fetch_commands env sm = (r, t)"
  obtain r1 s1 where g: "retry (register_attempts env (sm_tick sm)) (cli_Register env) sm = (r1, s1)" by fastforce
  from f g retry_course [OF g] show ?thesis
    by (cases r1) (auto simp: fetch_commands_def registerToClusterOrch_def action_simps same_course_def)
qed

lemma bash_result: "bash env c sm = (r, t) \<Longrightarrow>
  (r = Ok () \<or> (\<exists>e. r = Err e)) \<and> currentState t = currentState sm \<and> entered t = entered sm \<and>
  installCmd t = installCmd sm \<and> uninstallCmd t = uninstallCmd sm \<and>
  commands_run t = commands_run sm @ [(c, r = Ok ())]"
  by (auto simp: bash_def sm_next_def action_simps split: option.splits)

text \<open>The states in which the machine waits for a request.\<close>

definition resting :: "StateMachine \<Rightarrow> bool" where
  "resting sm \<longleftrightarrow> currentState sm \<in> {INACTIVE, ACTIVE, UNINSTALL_IN_PROGRESS}"

definition machine_inv :: "StateMachine \<Rightarrow> bool" where
  "machine_inv sm \<longleftrightarrow> on_path sm \<and> resting sm \<and>
     (currentState sm = ACTIVE \<longrightarrow> commands_run sm \<noteq> [] \<and> last (commands_run sm) = (installCmd sm, True))"

lemma InstallInProgress_Register_inv:
  assumes "on_path sm" "currentState sm = INSTALL_IN_PROGRESS" "InstallInProgress_Register env sm = (r, t)"
  shows "machine_inv t \<and> currentState t \<in> {ACTIVE, INACTIVE} \<and> (\<forall>e. r \<noteq> Crash e) \<and> (r = Ok () \<longleftrightarrow> currentState t = ACTIVE)"
proof -
  obtain r1 s1 where g: "bash env (installCmd sm) sm = (r1, s1)" by fastforce
  note b = bash_result [OF g]
  then have "on_path s1" using assms(1) by (simp add: on_path_def)
  obtain u v where u: "set_state ACTIVE s1 = (Ok (), u)" "set_state INACTIVE s1 = (Ok (), v)"
    by (simp add: set_state_def action_simps)
  have "on_path u" "on_path v"
    using on_path_set [OF \<open>on_path s1\<close> _ u(1)] on_path_set [OF \<open>on_path s1\<close> _ u(2)] b assms(2) by simp_all
  moreover have "currentState u = ACTIVE" "currentState v = INACTIVE" "commands_run u = commands_run s1"
      "installCmd u = installCmd s1"
    using u by (auto simp: set_state_def action_simps)
  ultimately show ?thesis
    using assms(3) g u b
    by (auto simp: InstallInProgress_Register_def action_simps machine_inv_def resting_def)
qed

lemma Registering_Register_inv:
  assumes "on_path sm" "currentState sm = REGISTERING" "Registering_Register env sm = (r, t)"
  shows "machine_inv t \<and> currentState t \<in> {ACTIVE, INACTIVE} \<and> (\<forall>e. r \<noteq> Crash e) \<and> (r = Ok () \<longleftrightarrow> currentState t = ACTIVE)"
proof -
  obtain r1 s1 where g: "fetch_commands env sm = (r1, s1)" by fastforce
  obtain s2 where s2: "set_state INSTALL_IN_PROGRESS s1 = (Ok (), s2)" by (simp add: set_state_def action_simps)
  have c: "r1 = Ok ()" "on_path s1" "currentState s1 = REGISTERING"
    using fetch_commands_course [OF g] assms by (auto simp: same_course_def on_path_def)
  have "on_path s2" using on_path_set [OF c(2) _ s2] c(3) by simp
  moreover have "currentState s2 = INSTALL_IN_PROGRESS" using s2 by (auto simp: set_state_def action_simps)
  moreover have "InstallInProgress_Register env s2 = (r, t)"
    using assms(3) g c(1) s2 by (simp add: Registering_Register_def action_simps)
  ultimately show ?thesis by (rule InstallInProgress_Register_inv)
qed

lemma Register_inv:
  assumes "machine_inv sm" "Register env sm = (r, t)"
  shows "machine_inv t \<and> (\<forall>e. r \<noteq> Crash e) \<and>
    (currentState sm = INACTIVE \<and> (r = Ok () \<longleftrightarrow> currentState t = ACTIVE) \<or> currentState sm \<noteq> INACTIVE \<and> t = sm \<and> r \<noteq> Ok ())"
proof (cases "currentState sm = INACTIVE")
  case True
  obtain s1 where s1: "set_state REGISTERING sm = (Ok (), s1)" by (simp add: set_state_def action_simps)
  have "on_path s1" using on_path_set [OF _ _ s1] assms(1) True by (simp add: machine_inv_def)
  moreover have "currentState s1 = REGISTERING" using s1 by (auto simp: set_state_def action_simps)
  moreover have "Registering_Register env s1 = (r, t)"
    using assms(2) True s1 by (simp add: Register_def Inactive_Register_def action_simps)
  ultimately have "machine_inv t \<and> currentState t \<in> {ACTIVE, INACTIVE} \<and> (\<forall>e. r \<noteq> Crash e) \<and> (r = Ok () \<longleftrightarrow> currentState t = ACTIVE)"
    by (rule Registering_Register_inv)
  with True show ?thesis by blast
next
  case False
  with assms show ?thesis
    by (auto simp: Register_def incorrectActionRequest_def action_simps machine_inv_def resting_def)
qed

lemma UninstallInProgress_inv:
  assumes "on_path sm" "currentState sm = UNINSTALL_IN_PROGRESS" "UninstallInProgress_Deregister env sm = (r, t)"
  shows "machine_inv t \<and> (\<forall>e. r \<noteq> Crash e) \<and> currentState t \<in> {INACTIVE, UNINSTALL_IN_PROGRESS} \<and>
    (r = Ok () \<longrightarrow> currentState t = INACTIVE)"
proof -
  obtain r1 s1 where g1: "read_lsb_release env sm = (r1, s1)" by fastforce
  then have s1: "same_course sm s1" "\<forall>e. r1 \<noteq> Crash e"
    by (auto simp: read_lsb_release_def sm_next_def action_simps same_course_def lift_result_def split: sum.splits)
  obtain r2 s2 where g2: "bash env patch_cmd s1 = (r2, s2)" by fastforce
  have key: ?thesis
    if s: "on_path s" "currentState s = UNINSTALL_IN_PROGRESS"
      and g: "andthen (asks uninstallCmd) (\<lambda>cmd. andthen (attempt (bash env cmd)) (\<lambda>r. case r of
       Inl e \<Rightarrow> andthen (modify (\<lambda>sm. sm\<lparr>uninstallCmd := []\<rparr>)) (\<lambda>_. andthen (set_state INACTIVE) (\<lambda>_. fail e))
     | Inr _ \<Rightarrow> andthen (attempt (bash env cleanupCmd)) (\<lambda>r2. andthen (set_state INACTIVE) (\<lambda>_.
         case r2 of Inl e \<Rightarrow> fail e | Inr _ \<Rightarrow> ret ())))) s = (r, t)" for s
  proof -
    obtain r3 s3 where g3: "bash env (uninstallCmd s) s = (r3, s3)" by fastforce
    obtain r4 s4 where g4: "bash env cleanupCmd s3 = (r4, s4)" by fastforce
    have e: "entered t = entered s @ [INACTIVE] \<and> currentState t = INACTIVE \<and> (\<forall>e. r \<noteq> Crash e)"
      using g g3 g4 s(2) bash_result [OF g3] bash_result [OF g4]
      by (auto simp: action_simps set_state_def split: outcome.splits sum.splits)
    with on_path_extend [OF s(1), of INACTIVE t] s(2) show ?thesis
      by (auto simp: machine_inv_def resting_def)
  qed
  show ?thesis
  proof (cases r1)
    case (Ok lsb)
    have "on_path s1" "currentState s1 = UNINSTALL_IN_PROGRESS" using s1 assms by (auto simp: same_course_def on_path_def)
    moreover have "on_path s2" "currentState s2 = UNINSTALL_IN_PROGRESS"
      using bash_result [OF g2] calculation by (auto simp: on_path_def)
    ultimately show ?thesis
      using assms(3) g1 g2 Ok bash_result [OF g2] key [of s1] key [of s2]
      by (auto simp: UninstallInProgress_Deregister_def andthen_apply ignore_apply ret_apply split: if_splits)
  qed (use assms g1 s1 in \<open>auto simp: UninstallInProgress_Deregister_def action_simps machine_inv_def resting_def
        same_course_def on_path_def\<close>)
qed

lemma Deregistering_inv:
  assumes "on_path sm" "currentState sm = DEREGISTERING" "Deregistering_Deregister env sm = (r, t)"
  shows "machine_inv t \<and> (\<forall>e. r \<noteq> Crash e) \<and> currentState t \<in> {INACTIVE, UNINSTALL_IN_PROGRESS} \<and>
    (r = Ok () \<longrightarrow> currentState t = INACTIVE)"
proof -
  obtain r1 s1 where g: "(if uninstallCmd sm = [] then fetch_commands env else ret ()) sm = (r1, s1)" by fastforce
  obtain s2 where s2: "set_state UNINSTALL_IN_PROGRESS s1 = (Ok (), s2)" by (simp add: set_state_def action_simps)
  have c: "r1 = Ok ()" "on_path s1" "currentState s1 = DEREGISTERING"
    using fetch_commands_course [of env sm r1 s1] g assms(1,2)
    by (auto simp: same_course_def on_path_def ret_apply split: if_splits)
  have "on_path s2" using on_path_set [OF c(2) _ s2] c(3) by simp
  moreover have "currentState s2 = UNINSTALL_IN_PROGRESS" using s2 by (auto simp: set_state_def action_simps)
  moreover have "UninstallInProgress_Deregister env s2 = (r, t)"
    using assms(3) g c(1) s2 by (simp add: Deregistering_Deregister_def andthen_apply asks_apply)
  ultimately show ?thesis by (rule UninstallInProgress_inv)
qed

lemma Deregister_inv:
  assumes "machine_inv sm" "Deregister env sm = (r, t)"
  shows "machine_inv t \<and> (\<forall>e. r \<noteq> Crash e) \<and> currentState t \<in> {INACTIVE, UNINSTALL_IN_PROGRESS}"
proof (cases "currentState sm = UNINSTALL_IN_PROGRESS")
  case True
  with assms UninstallInProgress_inv [of sm env r t] show ?thesis
    by (auto simp: Deregister_def machine_inv_def action_simps)
next
  case False
  with assms(1) have st: "currentState sm = INACTIVE \<or> currentState sm = ACTIVE"
    by (auto simp: machine_inv_def resting_def)
  obtain s1 where s1: "set_state DEREGISTERING sm = (Ok (), s1)" by (simp add: set_state_def action_simps)
  have "on_path s1" using on_path_set [OF _ _ s1] assms(1) st by (auto simp: machine_inv_def)
  moreover have "currentState s1 = DEREGISTERING" using s1 by (auto simp: set_state_def action_simps)
  moreover have "Deregistering_Deregister env s1 = (r, t)"
    using assms(2) st s1 by (auto simp: Deregister_def Inactive_Deregister_def Active_Deregister_def action_simps)
  ultimately show ?thesis using Deregistering_inv by blast
qed

lemma run_actions_inv:
  "machine_inv sm \<Longrightarrow> \<exists>t. run_actions env as sm = (Ok (), t) \<and> machine_inv t"
proof (induction as arbitrary: sm)
  case (Cons a as)
  have "\<exists>s1. handle_action env a sm = (Ok (), s1) \<and> machine_inv s1"
  proof (cases a)
    case REGISTER
    obtain r t where "Register env sm = (r, t)" by fastforce
    with REGISTER Register_inv [OF Cons.prems this] show ?thesis
      by (cases r) (auto simp: handle_action_def action_simps)
  next
    case DEREGISTER
    obtain r t where "Deregister env sm = (r, t)" by fastforce
    with DEREGISTER Deregister_inv [OF Cons.prems this] show ?thesis
      by (cases r) (auto simp: handle_action_def action_simps)
  qed (use Cons.prems in \<open>simp_all add: handle_action_def action_simps\<close>)
  with Cons.IH show ?case by (force simp: run_actions_def action_simps)
qed (simp add: run_actions_def action_simps)

lemma machine_inv_New: "machine_inv NewStateMachine"
  by (simp add: machine_inv_def NewStateMachine_def on_path_def resting_def)

text \<open>C7: every sequence of requests is answered; the states entered follow the diagram from INACTIVE, the machine comes to rest in INACTIVE, ACTIVE or (only) UNINSTALL_IN_PROGRESS, and it is ACTIVE only when the last command that ran is the install command and succeeded.\<close>

theorem actions_follow_diagram:
  "\<exists>sm. run_actions env as NewStateMachine = (Ok (), sm) \<and> path (INACTIVE # entered sm) \<and>
     last (INACTIVE # entered sm) = currentState sm \<and>
     currentState sm \<in> {INACTIVE, ACTIVE, UNINSTALL_IN_PROGRESS} \<and>
     (currentState sm = ACTIVE \<longrightarrow> last (commands_run sm) = (installCmd sm, True))"
  using run_actions_inv [OF machine_inv_New, of env as]
  by (auto simp: machine_inv_def on_path_def resting_def)

definition helpful_env :: cluster_env where
  "helpful_env = \<lparr>rpc_RegisterCluster = (\<lambda>n. Inr \<lparr>Res_error = False, InstallCmd = ''install'', UninstallCmd = ''remove''\<rparr>),
     rpc_UpdateClusterStatus = (\<lambda>n c g. Inr NO_ACTION), conn_Close = (\<lambda>n. None), conn_Connect = (\<lambda>n. None),
     register_attempts = (\<lambda>n. 3), bash_error = (\<lambda>n c. None), lsb_release = (\<lambda>n. Inl ''no such file'')\<rparr>"

definition deaf_env :: cluster_env where
  "deaf_env = helpful_env\<lparr>rpc_RegisterCluster := \<lambda>n. Inl ''unavailable''\<rparr>"

lemma actions_follow_diagram_witness:
  "\<exists>sm. run_actions helpful_env [REGISTER] NewStateMachine = (Ok (), sm) \<and> currentState sm = ACTIVE \<and>
     last (commands_run sm) = (''install'', True)"
proof -
  obtain sm where sm: "run_actions helpful_env [REGISTER] NewStateMachine = (Ok (), sm)"
    "currentState sm = ACTIVE \<longrightarrow> last (commands_run sm) = (installCmd sm, True)"
    using actions_follow_diagram [of helpful_env "[REGISTER]"] by blast
  then have "currentState sm = ACTIVE" "installCmd sm = ''install''"
    by (auto simp: run_actions_def handle_action_def Register_def Inactive_Register_def Registering_Register_def
        InstallInProgress_Register_def fetch_commands_def registerToClusterOrch_def cli_Register_def set_state_def
        bash_def sm_next_def helpful_env_def NewStateMachine_def numeral_eq_Suc action_simps)
  with sm show ?thesis by auto
qed

section \<open>Corner cases\<close>

lemma retry_all_fail:
  "(\<And>k. \<exists>e. rpc_RegisterCluster env k = Inl e) \<Longrightarrow> \<exists>e m. retry n (cli_Register env) sm = (Err e, sm\<lparr>sm_tick := m\<rparr>)"
proof (induction n arbitrary: sm)
  case 0
  obtain e where "rpc_RegisterCluster env (sm_tick sm) = Inl e" using 0 by blast
  then show ?case by (auto simp: cli_Register_def sm_next_def action_simps)
next
  case (Suc n)
  obtain e where "rpc_RegisterCluster env (sm_tick sm) = Inl e" using Suc.prems by blast
  then have "cli_Register env sm = (Err e, sm\<lparr>sm_tick := Suc (sm_tick sm)\<rparr>)"
    by (simp add: cli_Register_def sm_next_def action_simps)
  with Suc.IH [of "sm\<lparr>sm_tick := Suc (sm_tick sm)\<rparr>"] Suc.prems show ?case
    by (auto simp: action_simps)
qed

text \<open>When no registration attempt succeeds before the back-off gives up, the empty command is executed as the install command, and the agent reports ACTIVE although nothing was installed.\<close>

theorem unreachable_orchestrator_becomes_active:
  assumes "\<And>k. \<exists>e. rpc_RegisterCluster env k = Inl e" "\<And>k. bash_error env k [] = None"
    and "currentState sm = INACTIVE"
  shows "\<exists>t. Register env sm = (Ok (), t) \<and> currentState t = ACTIVE \<and> commands_run t = commands_run sm @ [([], True)]"
proof -
  let ?sm = "sm\<lparr>currentState := REGISTERING, entered := entered sm @ [REGISTERING]\<rparr>"
  obtain e m where r: "retry (register_attempts env (sm_tick sm)) (cli_Register env) ?sm = (Err e, ?sm\<lparr>sm_tick := m\<rparr>)"
    using retry_all_fail [OF assms(1)] by blast
  show ?thesis
    using assms(2,3) r
    by (simp add: Register_def Inactive_Register_def Registering_Register_def InstallInProgress_Register_def
        fetch_commands_def registerToClusterOrch_def set_state_def bash_def sm_next_def action_simps)
qed

lemma unreachable_orchestrator_becomes_active_witness:
  "\<exists>t. Register deaf_env NewStateMachine = (Ok (), t) \<and> currentState t = ACTIVE \<and> commands_run t = [([], True)]"
  using unreachable_orchestrator_becomes_active [of deaf_env NewStateMachine]
  by (auto simp: deaf_env_def helpful_env_def NewStateMachine_def)

text \<open>On a node without /etc/lsb-release an uninstallation never leaves UNINSTALL_IN_PROGRESS: whatever is requested, no command runs and no state is entered.\<close>

theorem missing_lsb_release_sticks:
  assumes "\<And>k. lsb_release env k = Inl e" "currentState sm = UNINSTALL_IN_PROGRESS"
  shows "\<exists>n. run_actions env as sm = (Ok (), sm\<lparr>sm_tick := n\<rparr>)"
  using assms(2)
proof (induction as arbitrary: sm)
  case Nil
  show ?case by (rule exI [of _ "sm_tick sm"]) (simp add: run_actions_def action_simps)
next
  case (Cons a as)
  have "\<exists>n. handle_action env a sm = (Ok (), sm\<lparr>sm_tick := n\<rparr>)"
  proof (cases a)
    case DEREGISTER
    with Cons.prems assms(1) show ?thesis
      by (auto simp: handle_action_def Deregister_def UninstallInProgress_Deregister_def read_lsb_release_def
          sm_next_def action_simps)
  qed (use Cons.prems in \<open>auto simp: handle_action_def Register_def incorrectActionRequest_def action_simps
        intro!: exI [of _ "sm_tick sm"]\<close>)
  then obtain n where "handle_action env a sm = (Ok (), sm\<lparr>sm_tick := n\<rparr>)" by blast
  with Cons.IH [of "sm\<lparr>sm_tick := n\<rparr>"] Cons.prems show ?case
    by (auto simp: run_actions_def action_simps)
qed

lemma missing_lsb_release_sticks_witness:
  "\<exists>n. run_actions helpful_env [REGISTER, DEREGISTER, DEREGISTER] (NewStateMachine\<lparr>currentState := UNINSTALL_IN_PROGRESS\<rparr>) =
     (Ok (), NewStateMachine\<lparr>currentState := UNINSTALL_IN_PROGRESS, sm_tick := n\<rparr>)"
  using missing_lsb_release_sticks [of helpful_env "''no such file''" "NewStateMachine\<lparr>currentState := UNINSTALL_IN_PROGRESS\<rparr>"]
  by (simp add: helpful_env_def)

lemma reported_state: "State_string s = State_string u \<longleftrightarrow> s = u"
  by (cases s; cases u) simp_all

lemma convertStatus_faithful: "convertStatus (State_string s) = convertStatus (State_string u) \<longleftrightarrow> s = u"
  by (cases s; cases u) (simp_all add: convertStatus_def)

end
