(* ===== verification/Inbd_Files.thy ===== *)
theory Inbd_Files
  imports Go_Strings
begin

text \<open>
  The file service of the in-band manageability daemon
  (\<^verbatim>\<open>in-band-manageability/internal/inbd/utils/file_service.go\<close>): which paths the daemon may
  touch, how it tells symbolic links, and the operations that go through these checks.

  A path is the list of its components below the root. A file system maps paths to nodes;
  \<open>resolve\<close> is the walk of the kernel and of \<^verbatim>\<open>filepath.EvalSymlinks\<close>, following at most a
  given number of links. Abs, Clean, Dir and Rel are those of \<^verbatim>\<open>path/filepath\<close> on Unix. An
  operation fails when the path does not lead to a node of the right kind; full disks and
  permissions are not modelled.
\<close>

section \<open>Paths\<close>

type_synonym path = "string list"

fun clean_from :: "path \<Rightarrow> string list \<Rightarrow> path" where
  "clean_from acc [] = acc"
| "clean_from acc (c # cs) =
     clean_from (if c = [] \<or> c = ''.'' then acc else if c = ''..'' then butlast acc else acc @ [c]) cs"

definition components :: "path \<Rightarrow> string \<Rightarrow> string list" where
  "components cwd p = (if HasPrefix p ''/'' then Split p (CHR ''/'') else cwd @ Split p (CHR ''/''))"

definition filepath_Abs :: "path \<Rightarrow> string \<Rightarrow> path" where
  "filepath_Abs cwd p = clean_from [] (components cwd p)"

definition path_string :: "path \<Rightarrow> string" where
  "path_string q = ''/'' @ Join q ''/''"

fun strip_common :: "path \<Rightarrow> path \<Rightarrow> path \<times> path" where
  "strip_common (a # as) (b # bs) = (if a = b then strip_common as bs else (a # as, b # bs))"
| "strip_common as bs = (as, bs)"

definition filepath_Rel :: "path \<Rightarrow> path \<Rightarrow> string" where
  "filepath_Rel base target = (let (as, bs) = strip_common base target; cs = replicate (length as) ''..'' @ bs
     in if cs = [] then ''.'' else Join cs ''/'')"

section \<open>File names\<close>

text \<open>\<^verbatim>\<open>filepath.Ext\<close>, \<open>Base\<close>, \<open>Clean\<close>, \<open>Dir\<close> and \<open>Join\<close> of two elements.\<close>

definition last_element :: "string \<Rightarrow> string" where
  "last_element p = rev (takeWhile (\<lambda>c. c \<noteq> CHR ''/'') (rev p))"

definition filepath_Ext :: "string \<Rightarrow> string" where
  "filepath_Ext p = (let e = last_element p in
     if CHR ''.'' \<in> set e then CHR ''.'' # rev (takeWhile (\<lambda>c. c \<noteq> CHR ''.'') (rev e)) else [])"

definition filepath_Base :: "string \<Rightarrow> string" where
  "filepath_Base p =
     (let p' = rev (dropWhile (\<lambda>c. c = CHR ''/'') (rev p)) in
      if p = [] then ''.'' else if p' = [] then ''/'' else last_element p')"

fun clean_elements :: "bool \<Rightarrow> string list \<Rightarrow> string list \<Rightarrow> string list" where
  "clean_elements rooted acc [] = acc"
| "clean_elements rooted acc (c # cs) = clean_elements rooted
     (if c = [] \<or> c = ''.'' then acc
      else if c = ''..'' then (if acc \<noteq> [] \<and> last acc \<noteq> ''..'' then butlast acc else if rooted then acc else acc @ [c])
      else acc @ [c]) cs"

definition filepath_Clean :: "string \<Rightarrow> string" where
  "filepath_Clean p =
     (let rooted = HasPrefix p ''/''; cs = clean_elements rooted [] (Split p (CHR ''/'')) in
      if rooted then ''/'' @ Join cs ''/'' else if cs = [] then ''.'' else Join cs ''/'')"

definition filepath_Dir :: "string \<Rightarrow> string" where
  "filepath_Dir p = filepath_Clean (take (length p - length (last_element p)) p)"

definition filepath_Join :: "string \<Rightarrow> string \<Rightarrow> string" where
  "filepath_Join a b = (if a = [] then (if b = [] then [] else filepath_Clean b) else filepath_Clean (a @ ''/'' @ b))"

section \<open>Files\<close>

datatype node = Regular string | Directory | Link string | Special

type_synonym filesystem = "path \<Rightarrow> node option"

datatype walk_error = ENOENT | ENOTDIR | ELOOP

text \<open>\<open>follow\<close>: also follow a link in the last component. \<open>create\<close>: the last component need not
  exist.\<close>

function resolve ::
  "bool \<Rightarrow> bool \<Rightarrow> nat \<Rightarrow> filesystem \<Rightarrow> path \<Rightarrow> string list \<Rightarrow> walk_error + path" where
  "resolve follow create n fs done [] = Inr done"
| "resolve follow create n fs done (c # cs) =
     (if c = [] \<or> c = ''.'' then resolve follow create n fs done cs
      else if c = ''..'' then resolve follow create n fs (butlast done) cs
      else case fs (done @ [c]) of
        None \<Rightarrow> if create \<and> cs = [] then Inr (done @ [c]) else Inl ENOENT
      | Some Directory \<Rightarrow> resolve follow create n fs (done @ [c]) cs
      | Some (Link t) \<Rightarrow>
          if cs = [] \<and> \<not> follow then Inr (done @ [c])
          else (case n of 0 \<Rightarrow> Inl ELOOP
                | Suc m \<Rightarrow> resolve follow create m fs (if HasPrefix t ''/'' then [] else done) (Split t (CHR ''/'') @ cs))
      | Some _ \<Rightarrow> if cs = [] then Inr (done @ [c]) else Inl ENOTDIR)"
  by pat_completeness auto
termination
  by (relation "(\<lambda>(_, _, n, _, _, cs). n) <*mlex*> measure (\<lambda>(_, _, _, _, _, cs). length cs)")
     (auto simp: mlex_less mlex_leq wf_mlex)

text \<open>The kernel follows 40 links, \<^verbatim>\<open>EvalSymlinks\<close> 255.\<close>

definition os_Lstat :: "filesystem \<Rightarrow> path \<Rightarrow> string list \<Rightarrow> walk_error + path" where
  "os_Lstat fs cwd cs = resolve False False 40 fs [] cs"

definition EvalSymlinks :: "filesystem \<Rightarrow> path \<Rightarrow> walk_error + path" where
  "EvalSymlinks fs q = resolve True False 255 fs [] q"

section \<open>The checks\<close>

definition allowedBaseDirs :: "string list" where
  "allowedBaseDirs = [''/etc'', ''/tmp'', ''/usr/share'', ''/usr/bin'', ''/usr/sbin'', ''/opt'',
     ''/var/cache/manageability'', ''/var/intel-manageability'', ''/var/log'', ''/sys/class/dmi/id/'',
     ''/sys/devices/virtual/dmi/id/'', ''/proc'']"

definition base_path :: "string \<Rightarrow> path" where
  "base_path b = clean_from [] (Split b (CHR ''/''))"

definition dmi_base :: "string \<Rightarrow> bool" where
  "dmi_base b = (HasPrefix b ''/sys/class/dmi/id/'' \<or> HasPrefix b ''/sys/devices/virtual/dmi/id/'')"

definition isFilePathAbsolute :: "path \<Rightarrow> string \<Rightarrow> string + unit" where
  "isFilePathAbsolute cwd p =
     (let absPath = filepath_Abs cwd p in
      if \<exists>b \<in> set allowedBaseDirs. (let rel = filepath_Rel (base_path b) absPath in
            \<not> HasPrefix rel ''..'' \<and> (rel \<noteq> ''.'' \<or> dmi_base b))
      then Inr ()
      else Inl (''access to the path is outside the allowed directories: '' @ path_string absPath))"

definition isDirPathAbsolute :: "path \<Rightarrow> string \<Rightarrow> string + unit" where
  "isDirPathAbsolute cwd p =
     (let absPath = filepath_Abs cwd p in
      if \<exists>b \<in> set allowedBaseDirs. \<not> HasPrefix (filepath_Rel (base_path b) absPath) ''..''
      then Inr ()
      else Inl (''access to the directory is outside the allowed directories: '' @ path_string absPath))"

text \<open>The parents of a path that does not exist, from the nearest one up to below the root.\<close>

function check_parents :: "filesystem \<Rightarrow> path \<Rightarrow> string \<Rightarrow> path \<Rightarrow> string + unit" where
  "check_parents fs cwd p dir =
     (if dir = [] then Inr ()
      else case os_Lstat fs cwd dir of
        Inl _ \<Rightarrow> check_parents fs cwd p (butlast dir)
      | Inr _ \<Rightarrow> (case EvalSymlinks fs dir of
          Inl _ \<Rightarrow> Inl ''failed to evaluate symlinks in path''
        | Inr canonDir \<Rightarrow> if dir \<noteq> canonDir then Inl (''path contains symlinks: '' @ p)
                          else check_parents fs cwd p (butlast dir)))"
  by pat_completeness auto
termination
  by (relation "measure (\<lambda>(_, _, _, dir). length dir)") auto

declare check_parents.simps [simp del]

definition dmi_path :: "string \<Rightarrow> bool" where
  "dmi_path p = (HasPrefix p ''/sys/class/dmi/id/'' \<or> HasPrefix p ''/sys/devices/virtual/dmi/id/'')"

definition isFilePathSymLink :: "filesystem \<Rightarrow> path \<Rightarrow> string \<Rightarrow> string + unit" where
  "isFilePathSymLink fs cwd p =
     (let absPath = filepath_Abs cwd p in
      if dmi_path p then Inr ()
      else if os_Lstat fs cwd (components cwd p) = Inl ENOENT then check_parents fs cwd p (butlast absPath)
      else case EvalSymlinks fs absPath of
        Inl _ \<Rightarrow> Inl ''failed to evaluate symlinks''
      | Inr canonPath \<Rightarrow> if absPath \<noteq> canonPath then Inl (''path contains symlinks: '' @ p) else Inr ())"

section \<open>The operations\<close>

definition os_Open :: "path \<Rightarrow> string \<Rightarrow> (filesystem, path) action" where
  "os_Open cwd p = (\<lambda>fs. case resolve True False 40 fs [] (components cwd p) of
     Inl _ \<Rightarrow> (Err ''error opening file'', fs) | Inr q \<Rightarrow> (Ok q, fs))"

definition IsFileExist :: "path \<Rightarrow> string \<Rightarrow> (filesystem, bool) action" where
  "IsFileExist cwd p = asks (\<lambda>fs. case resolve True False 40 fs [] (components cwd p) of
     Inl _ \<Rightarrow> False | Inr _ \<Rightarrow> True)"

text \<open>A directory cannot be opened for writing; a special file is opened and stays what it is.\<close>

definition os_OpenTrunc :: "path \<Rightarrow> string \<Rightarrow> (filesystem, path) action" where
  "os_OpenTrunc cwd p = (\<lambda>fs. case resolve True True 40 fs [] (components cwd p) of
     Inl _ \<Rightarrow> (Err ''error opening file for writing'', fs)
   | Inr q \<Rightarrow> (case (if q = [] then Some Directory else fs q) of
        Some Directory \<Rightarrow> (Err ''error opening file for writing'', fs)
      | Some Special \<Rightarrow> (Ok q, fs)
      | _ \<Rightarrow> (Ok q, fs(q := Some (Regular [])))))"

text \<open>The descriptor knows the path \<open>realPath\<close> of the file that was opened
  (\<^verbatim>\<open>/proc/self/fd\<close>).\<close>

definition validateOpenedFile :: "path \<Rightarrow> path \<Rightarrow> string \<Rightarrow> (filesystem, unit) action" where
  "validateOpenedFile cwd realPath originalPath =
     andthen (wrap ''opened file is outside allowed directories: ''
                (lift_result (isFilePathAbsolute cwd (path_string realPath)))) (\<lambda>_.
     let isDMIPath = (HasPrefix originalPath ''/sys/class/dmi/id/'' \<or>
                      HasPrefix (path_string realPath) ''/sys/devices/virtual/dmi/id/'') in
     if \<not> isDMIPath \<and> filepath_Abs cwd originalPath \<noteq> filepath_Abs cwd (path_string realPath)
     then fail ''file path was changed via symlink''
     else andthen (asks (\<lambda>fs. fs realPath)) (\<lambda>nd.
          case nd of Some (Regular _) \<Rightarrow> ret () | _ \<Rightarrow> fail (''file is not a regular file: '' @ originalPath)))"

definition content_of :: "path \<Rightarrow> (filesystem, string) action" where
  "content_of q = andthen (asks (\<lambda>fs. fs q)) (\<lambda>nd. case nd of
     Some (Regular d) \<Rightarrow> ret d | _ \<Rightarrow> fail ''error reading file'')"

definition ReadFile :: "path \<Rightarrow> string \<Rightarrow> (filesystem, string) action" where
  "ReadFile cwd p =
     andthen (lift_result (isFilePathAbsolute cwd p)) (\<lambda>_.
     andthen (os_Open cwd p) (\<lambda>q.
     andthen (validateOpenedFile cwd q p) (\<lambda>_. content_of q)))"

definition WriteFile :: "path \<Rightarrow> string \<Rightarrow> string \<Rightarrow> (filesystem, unit) action" where
  "WriteFile cwd p data =
     andthen (lift_result (isFilePathAbsolute cwd p)) (\<lambda>_.
     andthen (os_OpenTrunc cwd p) (\<lambda>q.
     andthen (validateOpenedFile cwd q p) (\<lambda>_.
     modify (\<lambda>fs. fs(q := Some (Regular data))))))"

text \<open>The removal of an empty directory is not modelled: a directory is left and the call fails.\<close>

definition os_Remove_path :: "path \<Rightarrow> string \<Rightarrow> (filesystem, unit) action" where
  "os_Remove_path cwd p = (\<lambda>fs. case resolve False False 40 fs [] (components cwd p) of
     Inl _ \<Rightarrow> (Err ''error removing file'', fs)
   | Inr q \<Rightarrow> if q = [] \<or> fs q = Some Directory then (Err ''error removing file'', fs) else (Ok (), fs(q := None)))"

definition check_path :: "path \<Rightarrow> string \<Rightarrow> (filesystem, unit) action" where
  "check_path cwd p = andthen (lift_result (isFilePathAbsolute cwd p)) (\<lambda>_.
     andthen (asks (\<lambda>fs. isFilePathSymLink fs cwd p)) (\<lambda>r. lift_result r))"

definition RemoveFile :: "path \<Rightarrow> string \<Rightarrow> (filesystem, unit) action" where
  "RemoveFile cwd p = andthen (check_path cwd p) (\<lambda>_. os_Remove_path cwd p)"

definition Open :: "path \<Rightarrow> string \<Rightarrow> (filesystem, path) action" where
  "Open cwd p = andthen (check_path cwd p) (\<lambda>_. os_Open cwd p)"

definition CopyFile :: "path \<Rightarrow> string \<Rightarrow> string \<Rightarrow> (filesystem, unit) action" where
  "CopyFile cwd srcPath destPath =
     andthen (lift_result (isFilePathAbsolute cwd srcPath)) (\<lambda>_.
     andthen (lift_result (isFilePathAbsolute cwd destPath)) (\<lambda>_.
     andthen (asks (\<lambda>fs. isFilePathSymLink fs cwd srcPath)) (\<lambda>r.
     andthen (lift_result r) (\<lambda>_.
     andthen (os_Open cwd srcPath) (\<lambda>src.
     andthen (os_OpenTrunc cwd destPath) (\<lambda>dest.
     andthen (content_of src) (\<lambda>data.
     modify (\<lambda>fs. if fs dest = Some Special then fs else fs(dest := Some (Regular data)))))))))) "

text \<open>\<^verbatim>\<open>os.MkdirAll\<close>, one component after the other.\<close>

fun mkdirs :: "string list \<Rightarrow> string list \<Rightarrow> (filesystem, unit) action" where
  "mkdirs done [] = ret ()"
| "mkdirs done (c # cs) = andthen (\<lambda>fs. case resolve True False 40 fs [] (done @ [c]) of
       Inr q \<Rightarrow> if q = [] \<or> fs q = Some Directory then (Ok (), fs) else (Err ''error creating directory'', fs)
     | Inl _ \<Rightarrow> (case resolve False True 40 fs [] (done @ [c]) of
          Inr q \<Rightarrow> if fs q = None then (Ok (), fs(q := Some Directory)) else (Err ''error creating directory'', fs)
        | Inl _ \<Rightarrow> (Err ''error creating directory'', fs)))
     (\<lambda>_. mkdirs (done @ [c]) cs)"

definition MkdirAll :: "path \<Rightarrow> string \<Rightarrow> (filesystem, unit) action" where
  "MkdirAll cwd p =
     andthen (lift_result (isDirPathAbsolute cwd p)) (\<lambda>_.
     andthen (asks (\<lambda>fs. isFilePathSymLink fs cwd p)) (\<lambda>r.
     andthen (lift_result r) (\<lambda>_. mkdirs [] (components cwd p))))"

text \<open>The flags of \<^verbatim>\<open>OpenFile\<close> choose the operation \<open>open_op\<close> that follows the checks.\<close>

definition OpenFile :: "path \<Rightarrow> string \<Rightarrow> (filesystem, path) action \<Rightarrow> (filesystem, path) action" where
  "OpenFile cwd p open_op = andthen (check_path cwd p) (\<lambda>_. open_op)"

text \<open>\<^verbatim>\<open>os.CreateTemp\<close>: the name is built from the directory and the pattern with the random
  part \<open>rnd\<close> in the place of the last star; the file must be new.\<close>

definition temp_name :: "string \<Rightarrow> string \<Rightarrow> string \<Rightarrow> string" where
  "temp_name dir pat rnd =
     (let name = (if CHR ''*'' \<in> set pat
                  then rev (tl (dropWhile (\<lambda>c. c \<noteq> CHR ''*'') (rev pat))) @ rnd @
                       rev (takeWhile (\<lambda>c. c \<noteq> CHR ''*'') (rev pat))
                  else pat @ rnd)
      in if HasSuffix dir ''/'' then dir @ name else dir @ ''/'' @ name)"

definition os_CreateTemp :: "path \<Rightarrow> string \<Rightarrow> (filesystem, path) action" where
  "os_CreateTemp cwd name = (\<lambda>fs. case resolve False True 40 fs [] (components cwd name) of
     Inl _ \<Rightarrow> (Err ''failed to create temp file'', fs)
   | Inr q \<Rightarrow> if q = [] \<or> fs q \<noteq> None then (Err ''failed to create temp file'', fs)
              else (Ok q, fs(q := Some (Regular []))))"

text \<open>The handle is the name and the path of the new file.\<close>

definition CreateTempFile :: "path \<Rightarrow> string \<Rightarrow> string \<Rightarrow> string \<Rightarrow> (filesystem, string \<times> path) action" where
  "CreateTempFile cwd dir0 pat rnd =
     (let dir = (if dir0 = [] then ''/tmp'' else dir0); name = temp_name dir pat rnd in
      if \<not> (\<exists>b \<in> set allowedBaseDirs. HasPrefix dir b)
      then fail (''path not allowed: directory '' @ dir @ '' is outside allowed directories'')
      else andthen (os_CreateTemp cwd name) (\<lambda>q.
           andthen (attempt (check_path cwd name)) (\<lambda>r. case r of
             Inr _ \<Rightarrow> ret (name, q)
           | Inl e \<Rightarrow> andthen (ignore (os_Remove_path cwd name)) (\<lambda>_. fail e))))"

text \<open>The type that \<^verbatim>\<open>statfs\<close> reports.\<close>

definition IsBTRFSFileSystem :: "string + int \<Rightarrow> string + bool" where
  "IsBTRFSFileSystem stat = (case stat of Inl e \<Rightarrow> Inl (''failed to get filesystem stats: '' @ e)
     | Inr ty \<Rightarrow> Inr (ty = 0x9123683E))"

section \<open>Clean paths\<close>

definition name_ok :: "string \<Rightarrow> bool" where
  "name_ok c \<longleftrightarrow> c \<noteq> [] \<and> c \<noteq> ''.'' \<and> c \<noteq> ''..'' \<and> CHR ''/'' \<notin> set c"

definition clean :: "path \<Rightarrow> bool" where
  "clean q \<longleftrightarrow> (\<forall>c \<in> set q. name_ok c)"

lemma clean_simps [simp]: "clean []" "clean (a @ b) \<longleftrightarrow> clean a \<and> clean b" "clean (c # cs) \<longleftrightarrow> name_ok c \<and> clean cs"
  by (auto simp: clean_def)

lemma clean_butlast: "clean q \<Longrightarrow> clean (butlast q)"
  by (auto simp: clean_def dest: in_set_butlastD)

lemma clean_from_clean: "clean acc \<Longrightarrow> \<forall>c \<in> set cs. CHR ''/'' \<notin> set c \<Longrightarrow> clean (clean_from acc cs)"
  by (induction acc cs rule: clean_from.induct) (auto simp: name_ok_def clean_butlast)

lemma clean_from_id: "clean cs \<Longrightarrow> clean_from acc cs = acc @ cs"
  by (induction cs arbitrary: acc) (auto simp: name_ok_def)

lemma components_path_string: "clean q \<Longrightarrow> q \<noteq> [] \<Longrightarrow> components cwd (path_string q) = [] # q"
proof -
  assume c: "clean q" "q \<noteq> []"
  then have "Split (Join q ''/'') (CHR ''/'') = q"
    by (intro Split_Join) (auto simp: clean_def name_ok_def)
  then show ?thesis by (simp add: components_def path_string_def)
qed

lemma Abs_path_string: "clean q \<Longrightarrow> filepath_Abs cwd (path_string q) = q"
proof (cases "q = []")
  case True
  then show ?thesis by (simp add: filepath_Abs_def components_def path_string_def)
next
  case False
  assume "clean q"
  with False show ?thesis
    by (simp add: filepath_Abs_def components_path_string clean_from_id)
qed

lemma components_no_slash: "clean cwd \<Longrightarrow> c \<in> set (components cwd p) \<Longrightarrow> CHR ''/'' \<notin> set c"
  using Split_parts_no_sep by (auto simp: components_def clean_def name_ok_def split: if_splits)

lemma Abs_clean: "clean cwd \<Longrightarrow> clean (filepath_Abs cwd p)"
  unfolding filepath_Abs_def by (rule clean_from_clean) (auto dest: components_no_slash)

section \<open>The walk as a relation\<close>

inductive walk :: "bool \<Rightarrow> bool \<Rightarrow> filesystem \<Rightarrow> nat \<Rightarrow> path \<Rightarrow> string list \<Rightarrow> path \<Rightarrow> bool" for follow create fs where
  arrived: "walk follow create fs n done [] done"
| stay: "c = [] \<or> c = ''.'' \<Longrightarrow> walk follow create fs n done cs q \<Longrightarrow> walk follow create fs n done (c # cs) q"
| up: "walk follow create fs n (butlast done) cs q \<Longrightarrow> walk follow create fs n done (''..'' # cs) q"
| new: "c \<noteq> [] \<Longrightarrow> c \<noteq> ''.'' \<Longrightarrow> c \<noteq> ''..'' \<Longrightarrow> fs (done @ [c]) = None \<Longrightarrow> create \<Longrightarrow>
    walk follow create fs n done [c] (done @ [c])"
| dir: "c \<noteq> [] \<Longrightarrow> c \<noteq> ''.'' \<Longrightarrow> c \<noteq> ''..'' \<Longrightarrow> fs (done @ [c]) = Some Directory \<Longrightarrow>
    walk follow create fs n (done @ [c]) cs q \<Longrightarrow> walk follow create fs n done (c # cs) q"
| the_link: "c \<noteq> [] \<Longrightarrow> c \<noteq> ''.'' \<Longrightarrow> c \<noteq> ''..'' \<Longrightarrow> fs (done @ [c]) = Some (Link t) \<Longrightarrow> \<not> follow \<Longrightarrow>
    walk follow create fs n done [c] (done @ [c])"
| jump: "c \<noteq> [] \<Longrightarrow> c \<noteq> ''.'' \<Longrightarrow> c \<noteq> ''..'' \<Longrightarrow> fs (done @ [c]) = Some (Link t) \<Longrightarrow> cs \<noteq> [] \<or> follow \<Longrightarrow>
    walk follow create fs m (if HasPrefix t ''/'' then [] else done) (Split t (CHR ''/'') @ cs) q \<Longrightarrow>
    walk follow create fs (Suc m) done (c # cs) q"
| leaf: "c \<noteq> [] \<Longrightarrow> c \<noteq> ''.'' \<Longrightarrow> c \<noteq> ''..'' \<Longrightarrow> fs (done @ [c]) = Some nd \<Longrightarrow> nd \<noteq> Directory \<Longrightarrow> (\<And>t. nd \<noteq> Link t) \<Longrightarrow>
    walk follow create fs n done [c] (done @ [c])"

lemma resolve_walk: "resolve fo cr n fs done cs = Inr q \<Longrightarrow> walk fo cr fs n done cs q"
proof (induction fo cr n fs "done" cs rule: resolve.induct)
  case (2 fo cr n fs "done" c cs)
  show ?case
  proof (cases "c = [] \<or> c = ''.''")
    case True
    with 2 show ?thesis by (intro walk.stay) auto
  next
    case dot: False
    show ?thesis
    proof (cases "c = ''..''")
      case True
      with 2 dot show ?thesis by (auto intro: walk.up)
    next
      case False
      show ?thesis
      proof (cases "fs (done @ [c])")
        case None
        with 2(5) dot False show ?thesis by (auto split: if_splits intro: walk.new)
      next
        case (Some nd)
        show ?thesis
        proof (cases nd)
          case (Link t)
          show ?thesis
          proof (cases "cs = [] \<and> \<not> fo")
            case True
            with 2(5) dot False Some Link show ?thesis by (auto intro: walk.the_link)
          next
            case follow: False
            with 2(5) dot False Some Link obtain m where m: "n = Suc m"
              "resolve fo cr m fs (if HasPrefix t ''/'' then [] else done) (Split t (CHR ''/'') @ cs) = Inr q"
              by (auto split: nat.splits)
            from 2(4) [OF dot False Some Link follow m] dot False Some Link m(1) follow show ?thesis
              by (auto intro: walk.jump)
          qed
        qed (use 2 dot False Some in \<open>auto split: if_splits intro: walk.dir walk.leaf\<close>)
      qed
    qed
  qed
qed (auto intro: walk.arrived)

lemma walk_resolve: "walk fo cr fs n done cs q \<Longrightarrow> resolve fo cr n fs done cs = Inr q"
proof (induction rule: walk.induct)
  case (leaf c "done" nd n)
  then show ?case by (cases nd) auto
next
  case (jump c "done" t cs m q)
  then show ?case by (cases cs) auto
qed auto

lemma walk_create: "walk fo False fs n done cs q \<Longrightarrow> walk fo True fs n done cs q"
  by (induction rule: walk.induct) (auto intro: walk.intros)

lemma resolve_create: "resolve fo False n fs done cs = Inr q \<Longrightarrow> resolve fo True n fs done cs = Inr q"
  by (rule walk_resolve [OF walk_create [OF resolve_walk]])

text \<open>The walk sees the kinds of the nodes, not the contents of files.\<close>

lemma resolve_content:
  "fs q = Some (Regular a) \<Longrightarrow> resolve fo cr n (fs(q := Some (Regular b))) done cs = resolve fo cr n fs done cs"
proof (induction fo cr n fs "done" cs rule: resolve.induct)
  case (2 fo cr n fs "done" c cs)
  let ?fs = "fs(q := Some (Regular b))"
  show ?case
  proof (cases "c = [] \<or> c = ''.''")
    case dot: False
    show ?thesis
    proof (cases "c = ''..''")
      case False
      show ?thesis
      proof (cases "done @ [c] = q")
        case True
        with 2(5) dot False show ?thesis by simp
      next
        case other: False
        show ?thesis
        proof (cases "fs (done @ [c])")
          case (Some nd)
          show ?thesis
          proof (cases nd)
            case (Link t)
            show ?thesis
            proof (cases "cs = [] \<and> \<not> fo")
              case follow: False
              show ?thesis
                using 2(4) [OF dot False Some Link follow _ 2(5)] dot False Some Link other follow
                by (cases n; cases "cs = []"; cases fo) simp_all
            qed (use dot False Some Link other in simp)
          qed (use 2 dot False Some other in simp_all)
        qed (use dot False other in simp)
      qed
    qed (use 2 dot in simp)
  qed (use 2 in simp)
qed simp

text \<open>Every directory above the end of the walk is a directory, not a link.\<close>

definition straight :: "filesystem \<Rightarrow> path \<Rightarrow> bool" where
  "straight fs q \<longleftrightarrow> (\<forall>k. 0 < k \<and> k < length q \<longrightarrow> fs (take k q) = Some Directory)"

lemma straight_Nil [simp]: "straight fs []"
  by (simp add: straight_def)

lemma straight_snoc: "straight fs q \<Longrightarrow> q = [] \<or> fs q = Some Directory \<Longrightarrow> straight fs (q @ [c])"
  unfolding straight_def by (auto simp: less_Suc_eq)

lemma straight_butlast: "straight fs q \<Longrightarrow> straight fs (butlast q) \<and> (butlast q = [] \<or> fs (butlast q) = Some Directory)"
  unfolding straight_def by (auto simp: butlast_conv_take)

lemma clean_walk: "walk fo cr fs n done cs q \<Longrightarrow> clean done \<Longrightarrow> \<forall>c \<in> set cs. CHR ''/'' \<notin> set c \<Longrightarrow> clean q"
proof (induction rule: walk.induct)
  case (jump c "done" t cs m q)
  then show ?case using Split_parts_no_sep [of _ t "CHR ''/''"] by (auto split: if_splits)
qed (auto simp: name_ok_def clean_butlast)

lemma walk_straight:
  "walk fo cr fs n done cs q \<Longrightarrow> straight fs done \<Longrightarrow> done = [] \<or> fs done = Some Directory \<Longrightarrow> straight fs q"
proof (induction rule: walk.induct)
  case (up n "done" cs q)
  then show ?case using straight_butlast by blast
qed (auto simp: straight_snoc split: if_splits)

lemma walk_end:
  "walk fo cr fs n done cs q \<Longrightarrow> straight fs done \<Longrightarrow> done = [] \<or> fs done = Some Directory \<Longrightarrow>
   q = [] \<or> (fs q = None \<longrightarrow> cr) \<and> (\<forall>t. fs q = Some (Link t) \<longrightarrow> \<not> fo)"
proof (induction rule: walk.induct)
  case (up n "done" cs q)
  then show ?case using straight_butlast by blast
next
  case (jump c "done" t cs m q)
  then show ?case by (auto split: if_splits)
qed (auto simp: straight_snoc)

lemma walk_created:
  "walk fo True fs n done cs q \<Longrightarrow> straight fs done \<Longrightarrow> done = [] \<or> fs done = Some Directory \<Longrightarrow> fs q = None \<Longrightarrow>
   q \<noteq> [] \<Longrightarrow> walk fo False (fs(q := Some (Regular d))) n done cs q"
proof (induction rule: walk.induct)
  case (up n "done" cs q)
  then show ?case using straight_butlast by (blast intro: walk.up)
next
  case (dir c "done" n cs q)
  then have "done @ [c] \<noteq> q" by auto
  with dir show ?case by (intro walk.dir) (auto simp: straight_snoc)
next
  case (jump c "done" t cs m q)
  then have "done @ [c] \<noteq> q" by auto
  with jump show ?case by (intro walk.jump) (auto split: if_splits)
qed (auto intro: walk.intros)

lemma resolve_along:
  "clean (done @ cs) \<Longrightarrow> straight fs (done @ cs) \<Longrightarrow> done @ cs = [] \<or> (\<exists>nd. fs (done @ cs) = Some nd \<and> (\<forall>t. nd = Link t \<longrightarrow> \<not> fo)) \<Longrightarrow>
   resolve fo cr n fs done cs = Inr (done @ cs)"
proof (induction cs arbitrary: "done")
  case (Cons c cs)
  have c: "c \<noteq> []" "c \<noteq> ''.''" "c \<noteq> ''..''" using Cons.prems(1) by (auto simp: name_ok_def)
  show ?case
  proof (cases "cs = []")
    case True
    then obtain nd where "fs (done @ [c]) = Some nd" "\<forall>t. nd = Link t \<longrightarrow> \<not> fo"
      using Cons.prems(3) by auto
    with c True show ?thesis by (cases nd) auto
  next
    case False
    then have "fs (done @ [c]) = Some Directory"
      using Cons.prems(2) [unfolded straight_def, rule_format, of "Suc (length done)"] by (cases cs) auto
    with c Cons.IH [of "done @ [c]"] Cons.prems show ?thesis by simp
  qed
qed simp

section \<open>What the checks mean\<close>

definition inside :: "path \<Rightarrow> bool" where
  "inside q \<longleftrightarrow> (\<exists>b \<in> set allowedBaseDirs. \<exists>r. q = base_path b @ r)"

lemma strip_common_result: "strip_common as bs = (xs, ys) \<Longrightarrow> \<exists>zs. as = zs @ xs \<and> bs = zs @ ys"
proof (induction as bs arbitrary: xs ys rule: strip_common.induct)
  case (1 a as b bs)
  show ?case
  proof (cases "a = b")
    case True
    with 1 obtain zs where "as = zs @ xs" "bs = zs @ ys" by auto
    with True show ?thesis by (intro exI [of _ "a # zs"]) simp
  qed (use 1 in auto)
qed auto

lemma Rel_inside: "\<not> HasPrefix (filepath_Rel base q) ''..'' \<Longrightarrow> \<exists>r. q = base @ r"
proof -
  assume h: "\<not> HasPrefix (filepath_Rel base q) ''..''"
  obtain xs ys where s: "strip_common base q = (xs, ys)" by fastforce
  then obtain zs where z: "base = zs @ xs" "q = zs @ ys" using strip_common_result by blast
  have "xs = []"
  proof (rule ccontr)
    assume "xs \<noteq> []"
    then obtain k where k: "length xs = Suc k" by (cases xs) auto
    have j: "\<exists>t. Join (''..'' # zs) ''/'' = ''..'' @ t" for zs by (cases zs) auto
    from h s k \<open>xs \<noteq> []\<close> j [of "replicate k ''..'' @ ys"] show False
      by (auto simp: filepath_Rel_def HasPrefix_iff)
  qed
  with z show ?thesis by simp
qed

lemma absolute_inside: "isFilePathAbsolute cwd p = Inr () \<Longrightarrow> inside (filepath_Abs cwd p)"
  unfolding isFilePathAbsolute_def inside_def Let_def by (meson Inl_Inr_False Rel_inside)

lemma directory_inside: "isDirPathAbsolute cwd p = Inr () \<Longrightarrow> inside (filepath_Abs cwd p)"
  unfolding isDirPathAbsolute_def inside_def Let_def by (meson Inl_Inr_False Rel_inside)

lemma opened_clean:
  assumes "clean cwd" "resolve True cr 40 fs [] (components cwd p) = Inr q"
  shows "clean q"
  by (rule clean_walk [OF resolve_walk [OF assms(2)]]) (use assms(1) in \<open>auto dest: components_no_slash\<close>)

lemma validate_result:
  assumes "validateOpenedFile cwd q p fs = (Ok (), t)" "clean q"
  shows "t = fs \<and> inside q \<and> (\<exists>d. fs q = Some (Regular d)) \<and>
    (dmi_path p \<or> HasPrefix (path_string q) ''/sys/devices/virtual/dmi/id/'' \<or> filepath_Abs cwd p = q)"
  using assms absolute_inside [of cwd "path_string q"] Abs_path_string [of q cwd]
  by (auto simp: validateOpenedFile_def Let_def dmi_path_def lift_result_def action_simps
      split: if_splits sum.splits option.splits node.splits outcome.splits)

text \<open>A file system for the examples, with links from the allowed directories to \<^verbatim>\<open>/root\<close>.\<close>

definition escape_fs :: filesystem where
  "escape_fs q = map_of [([''etc''], Directory), ([''etc'', ''conf''], Regular ''c''), ([''root''], Directory), ([''root'', ''secret''], Regular ''key''),
     ([''etc'', ''l''], Link ''/root''), ([''tmp''], Directory), ([''tmp'', ''f''], Link ''/root/secret''),
     ([''sys''], Directory), ([''sys'', ''class''], Directory), ([''sys'', ''class'', ''dmi''], Directory),
     ([''sys'', ''class'', ''dmi'', ''id''], Directory)] q"





text \<open>WriteFile opens with O_TRUNC before it checks where the path leads: a path that leads through a link out of the allowed directories is rejected, but the file there is empty by then.\<close>

theorem write_truncates_through_link:
  assumes "isFilePathAbsolute cwd p = Inr ()" "clean cwd" "resolve True True 40 fs [] (components cwd p) = Inr q"
    and "fs q = Some (Regular secret)" "q \<noteq> []" "\<not> inside q"
  shows "\<exists>e. WriteFile cwd p data fs = (Err e, fs(q := Some (Regular [])))"
proof -
  have o: "os_OpenTrunc cwd p fs = (Ok q, fs(q := Some (Regular [])))"
    using assms(3-5) by (simp add: os_OpenTrunc_def)
  have "clean q" by (rule opened_clean [OF assms(2,3)])
  then have "isFilePathAbsolute cwd (path_string q) \<noteq> Inr ()"
    using assms(6) absolute_inside [of cwd "path_string q"] Abs_path_string by auto
  then obtain e where "isFilePathAbsolute cwd (path_string q) = Inl e"
    by (cases "isFilePathAbsolute cwd (path_string q)") auto
  with o assms(1) show ?thesis
    by (simp add: WriteFile_def validateOpenedFile_def action_simps)
qed

lemma write_truncates_through_link_witness:
  "\<exists>e. WriteFile [] ''/tmp/f'' ''x'' escape_fs = (Err e, escape_fs([''root'', ''secret''] := Some (Regular [])))"
proof (rule write_truncates_through_link)
  show "isFilePathAbsolute [] ''/tmp/f'' = Inr ()" by code_simp
  show "resolve True True 40 escape_fs [] (components [] ''/tmp/f'') = Inr [''root'', ''secret'']" by code_simp
  show "\<not> inside [''root'', ''secret'']" by (simp add: inside_def allowedBaseDirs_def base_path_def)
qed (simp_all add: escape_fs_def)

lemma EvalSymlinks_self:
  assumes "EvalSymlinks fs q = Inr q" "q \<noteq> []"
  shows "straight fs q \<and> (\<exists>nd. fs q = Some nd \<and> (\<forall>t. nd \<noteq> Link t))"
proof -
  have w: "walk True False fs 255 [] q q"
    using assms(1) unfolding EvalSymlinks_def by (rule resolve_walk)
  from walk_straight [OF w] walk_end [OF w] assms(2) show ?thesis by auto
qed

text \<open>For a cleaned path outside the DMI prefix, a successful RemoveFile removes exactly that path: it is inside the allowed directories and every directory above it is a real one.\<close>

theorem remove_stays_inside:
  assumes "clean q" "q \<noteq> []" "\<not> dmi_path (path_string q)" "RemoveFile cwd (path_string q) fs = (Ok (), t)"
  shows "t = fs(q := None) \<and> inside q \<and> straight fs q \<and> (\<exists>nd. fs q = Some nd \<and> nd \<noteq> Directory \<and> (\<forall>u. nd \<noteq> Link u))"
proof -
  let ?p = "path_string q"
  have comp: "components cwd ?p = [] # q" and abs: "filepath_Abs cwd ?p = q"
    using components_path_string Abs_path_string assms(1,2) by auto
  have chk: "isFilePathAbsolute cwd ?p = Inr ()" "isFilePathSymLink fs cwd ?p = Inr ()"
    and rm: "os_Remove_path cwd ?p fs = (Ok (), t)"
    using assms(4) by (auto simp: RemoveFile_def check_path_def lift_result_def action_simps split: sum.splits)
  have "os_Lstat fs cwd (components cwd ?p) \<noteq> Inl ENOENT"
    using rm by (auto simp: os_Lstat_def os_Remove_path_def split: sum.splits)
  then have ev: "EvalSymlinks fs q = Inr q"
    using chk(2) assms(3) by (auto simp: isFilePathSymLink_def Let_def abs split: sum.splits if_splits)
  note s = EvalSymlinks_self [OF ev assms(2)]
  then have "resolve False False 40 fs [] q = Inr q"
    using resolve_along [of "[]" q fs False False 40] assms(1) by auto
  with rm s absolute_inside [OF chk(1)] assms(2) show ?thesis
    by (auto simp: os_Remove_path_def comp abs split: if_splits)
qed

lemma remove_stays_inside_witness:
  "\<exists>t. RemoveFile [] (path_string [''etc'', ''conf'']) escape_fs = (Ok (), t) \<and> t = escape_fs([''etc'', ''conf''] := None)"
proof -
  obtain r t where g: "RemoveFile [] (path_string [''etc'', ''conf'']) escape_fs = (r, t)" by fastforce
  have "fst (RemoveFile [] (path_string [''etc'', ''conf'']) escape_fs) = Ok ()" by code_simp
  with g have w: "RemoveFile [] (path_string [''etc'', ''conf'']) escape_fs = (Ok (), t)" by simp
  have "clean [''etc'', ''conf'']" "\<not> dmi_path (path_string [''etc'', ''conf''])" by code_simp+
  from remove_stays_inside [OF this(1) _ this(2) w] w show ?thesis by simp
qed

text \<open>A path with the DMI prefix that leaves it by dots passes both checks without a look at links: RemoveFile deletes a file outside the allowed directories through a linked directory.\<close>

theorem dmi_prefix_skips_link_check:
  "\<exists>t. RemoveFile [] ''/sys/class/dmi/id/../../../../etc/l/secret'' escape_fs = (Ok (), t) \<and>
     escape_fs [''root'', ''secret''] = Some (Regular ''key'') \<and> t [''root'', ''secret''] = None \<and> \<not> inside [''root'', ''secret'']"
proof -
  have "(case RemoveFile [] ''/sys/class/dmi/id/../../../../etc/l/secret'' escape_fs of (r, t) \<Rightarrow>
     r = Ok () \<and> escape_fs [''root'', ''secret''] = Some (Regular ''key'') \<and> t [''root'', ''secret''] = None)"
    by code_simp
  moreover have "\<not> inside [''root'', ''secret'']"
    by (simp add: inside_def allowedBaseDirs_def base_path_def)
  ultimately show ?thesis
    by (auto split: prod.splits)
qed

text \<open>The destination of a copy is never checked for links.\<close>

lemma copy_follows_destination_link:
  "case CopyFile [] ''/etc/conf'' ''/tmp/f'' escape_fs of (r, t) \<Rightarrow>
     r = Ok () \<and> t [''root'', ''secret''] = Some (Regular ''c'')"
  by code_simp

section \<open>Temporary files\<close>

lemma walk_follow:
  "walk fo cr fs n done cs q \<Longrightarrow> fs q = None \<Longrightarrow> walk True cr fs n done cs q"
  by (induction rule: walk.induct) (auto intro: walk.intros)

lemma walk_extend:
  "walk fo False fs n done cs r \<Longrightarrow> fs q = None \<Longrightarrow> walk fo False (fs(q := x)) n done cs r"
proof (induction rule: walk.induct)
  case (dir c "done" n cs r)
  then show ?case by (intro walk.dir) auto
next
  case (jump c "done" t cs m r)
  then show ?case by (intro walk.jump) auto
next
  case (the_link c "done" t n)
  then show ?case by (intro walk.the_link) auto
next
  case (leaf c "done" nd n)
  then show ?case by (intro walk.leaf) auto
qed (auto intro: walk.intros)

lemma resolve_extend:
  "resolve fo False n fs [] cs = Inr r \<Longrightarrow> fs q = None \<Longrightarrow> resolve fo False n (fs(q := x)) [] cs = Inr r"
  by (rule walk_resolve [OF walk_extend [OF resolve_walk]])

lemma resolve_created:
  assumes "resolve fo True n fs [] cs = Inr q" "fs q = None" "q \<noteq> []"
  shows "resolve fo False n (fs(q := Some (Regular d))) [] cs = Inr q"
    and "resolve True False n (fs(q := Some (Regular d))) [] cs = Inr q"
proof -
  note w = resolve_walk [OF assms(1)]
  show "resolve fo False n (fs(q := Some (Regular d))) [] cs = Inr q"
    by (rule walk_resolve [OF walk_created [OF w]]) (use assms in auto)
  show "resolve True False n (fs(q := Some (Regular d))) [] cs = Inr q"
    by (rule walk_resolve [OF walk_created [OF walk_follow [OF w]]]) (use assms in auto)
qed

lemma check_parents_content:
  assumes "fs q = Some (Regular a)"
  shows "check_parents (fs(q := Some (Regular b))) cwd p dir = check_parents fs cwd p dir"
proof (induction dir rule: rev_induct)
  case (snoc d dir)
  have l: "os_Lstat (fs(q := Some (Regular b))) cwd = os_Lstat fs cwd"
    "EvalSymlinks (fs(q := Some (Regular b))) = EvalSymlinks fs"
    by (simp_all add: os_Lstat_def EvalSymlinks_def resolve_content [of fs q a, OF assms] fun_eq_iff)
  show ?case
    unfolding check_parents.simps [of "fs(q := Some (Regular b))" cwd p "dir @ [d]"] check_parents.simps [of fs cwd p "dir @ [d]"] l
    by (simp only: butlast_snoc snoc)
qed (simp add: check_parents.simps)

lemma isFilePathSymLink_content:
  "fs q = Some (Regular a) \<Longrightarrow> isFilePathSymLink (fs(q := Some (Regular b))) cwd p = isFilePathSymLink fs cwd p"
  by (simp only: isFilePathSymLink_def os_Lstat_def EvalSymlinks_def resolve_content [of fs q a] check_parents_content [of fs q a])

lemma check_path_apply:
  "check_path cwd p fs = (case isFilePathAbsolute cwd p of Inl e \<Rightarrow> (Err e, fs)
     | Inr _ \<Rightarrow> (case isFilePathSymLink fs cwd p of Inl e \<Rightarrow> (Err e, fs) | Inr _ \<Rightarrow> (Ok (), fs)))"
  by (simp add: check_path_def lift_result_def action_simps split: sum.splits)

lemma CreateTempFile_result:
  assumes "CreateTempFile cwd dir pat rnd fs = (r, t)"
  shows "case r of
      Ok (name, q) \<Rightarrow> fs q = None \<and> t = fs(q := Some (Regular [])) \<and> q \<noteq> [] \<and>
        resolve False True 40 fs [] (components cwd name) = Inr q \<and> check_path cwd name t = (Ok (), t)
    | Err e \<Rightarrow> t = fs | Crash e \<Rightarrow> False"
proof -
  define name where "name = temp_name (if dir = [] then ''/tmp'' else dir) pat rnd"
  show ?thesis
  proof (cases "resolve False True 40 fs [] (components cwd name)")
    case (Inl e)
    with assms show ?thesis
      by (auto simp: CreateTempFile_def Let_def os_CreateTemp_def action_simps name_def [symmetric] split: if_splits)
  next
    case (Inr q)
    show ?thesis
    proof (cases "q = [] \<or> fs q \<noteq> None")
      case True
      with Inr assms show ?thesis
        by (auto simp: CreateTempFile_def Let_def os_CreateTemp_def action_simps name_def [symmetric] split: if_splits)
    next
      case False
      let ?fs = "fs(q := Some (Regular []))"
      have rem: "os_Remove_path cwd name ?fs = (Ok (), fs)"
        using resolve_created(1) [OF Inr] False by (auto simp: os_Remove_path_def fun_upd_idem)
      have c: "os_CreateTemp cwd name fs = (Ok q, ?fs)"
        using Inr False by (simp add: os_CreateTemp_def)
      obtain r' where k: "check_path cwd name ?fs = (r', ?fs)" "\<And>e. r' \<noteq> Crash e"
        by (cases "isFilePathAbsolute cwd name"; cases "isFilePathSymLink ?fs cwd name") (auto simp: check_path_apply)
      show ?thesis
        using assms c k rem False Inr
        by (cases r') (auto simp: CreateTempFile_def Let_def action_simps name_def [symmetric] split: if_splits)
    qed
  qed
qed

lemma RemoveFile_temp:
  assumes "resolve False True 40 fs [] (components cwd name) = Inr q" "fs q = None" "q \<noteq> []"
    and "check_path cwd name (fs(q := Some (Regular a))) = (Ok (), fs(q := Some (Regular a)))"
  shows "RemoveFile cwd name (fs(q := Some (Regular b))) = (Ok (), fs)"
proof -
  have "check_path cwd name (fs(q := Some (Regular b))) = (Ok (), fs(q := Some (Regular b)))"
    using assms(4) isFilePathSymLink_content [of "fs(q := Some (Regular a))" q a b cwd name]
    by (auto simp: check_path_apply split: sum.splits)
  then show ?thesis
    using resolve_created(1) [OF assms(1-3), of b] assms(2,3)
    by (auto simp: RemoveFile_def andthen_apply os_Remove_path_def fun_upd_idem)
qed

section \<open>Reading what was written\<close>

lemma content_of_apply:
  "content_of q fs = (case fs q of Some (Regular d) \<Rightarrow> (Ok d, fs) | _ \<Rightarrow> (Err ''error reading file'', fs))"
  by (auto simp: content_of_def action_simps split: option.splits node.splits)

lemma ReadFile_WriteFile:
  assumes "ReadFile cwd p fs = (Ok d, t)"
  shows "\<exists>q. resolve True False 40 fs [] (components cwd p) = Inr q \<and> fs q = Some (Regular d) \<and> t = fs \<and>
    (\<forall>data. WriteFile cwd p data fs = (Ok (), fs(q := Some (Regular data))))"
proof -
  obtain q where q: "isFilePathAbsolute cwd p = Inr ()" "resolve True False 40 fs [] (components cwd p) = Inr q"
    using assms by (auto simp: ReadFile_def os_Open_def lift_result_def action_simps split: sum.splits)
  obtain r s where v: "validateOpenedFile cwd q p fs = (r, s)" by fastforce
  have r: "r = Ok ()"
    using assms q v by (auto simp: ReadFile_def os_Open_def action_simps split: outcome.splits)
  have val: "s = fs" "\<exists>d. fs q = Some (Regular d)" "isFilePathAbsolute cwd (path_string q) = Inr ()"
    and cond: "\<not> (\<not> (HasPrefix p ''/sys/class/dmi/id/'' \<or> HasPrefix (path_string q) ''/sys/devices/virtual/dmi/id/'') \<and>
      filepath_Abs cwd p \<noteq> filepath_Abs cwd (path_string q))"
    using v r by (auto simp: validateOpenedFile_def Let_def lift_result_def action_simps
        split: if_splits sum.splits option.splits node.splits outcome.splits)
  have d: "fs q = Some (Regular d)" "t = fs"
    using assms q v r val by (auto simp: ReadFile_def os_Open_def content_of_apply action_simps)
  have n: "q \<noteq> []"
  proof
    assume "q = []"
    with val(3) absolute_inside [of cwd "path_string q"] Abs_path_string [of "[]" cwd] have "inside []" by simp
    then show False by (simp add: inside_def allowedBaseDirs_def base_path_def)
  qed
  show ?thesis
    using q d n val cond resolve_create [OF q(2)]
    by (intro exI [of _ q]) (auto simp: WriteFile_def os_OpenTrunc_def validateOpenedFile_def Let_def action_simps)
qed

lemma ReadFile_content:
  assumes "ReadFile cwd p fs = (Ok d, t)" "resolve True False 40 fs [] (components cwd p) = Inr q" "fs q = Some (Regular d)"
  shows "ReadFile cwd p (fs(q := Some (Regular b))) = (Ok b, fs(q := Some (Regular b)))"
proof -
  have r: "resolve True False 40 (fs(q := Some (Regular b))) [] (components cwd p) = Inr q"
    using resolve_content [of fs q d, OF assms(3)] assms(2) by simp
  show ?thesis
    using assms r by (auto simp: ReadFile_def os_Open_def content_of_apply validateOpenedFile_def Let_def lift_result_def
      action_simps split: sum.splits if_splits outcome.splits option.splits node.splits)
qed

lemma WriteFile_result:
  assumes "WriteFile cwd p data fs = (Ok (), t)"
  shows "\<exists>q. t = fs(q := Some (Regular data))"
  using assms by (auto simp: WriteFile_def os_OpenTrunc_def validateOpenedFile_def Let_def lift_result_def action_simps
      split: sum.splits if_splits outcome.splits option.splits node.splits)

lemma walk_existing:
  "walk fo True fs n done cs q \<Longrightarrow> fs q \<noteq> None \<Longrightarrow> walk fo False fs n done cs q"
  by (induction rule: walk.induct) (auto intro: walk.intros)

lemma WriteFile_cases:
  assumes "WriteFile cwd p data fs = (Ok (), t)"
  shows "\<exists>q. resolve True True 40 fs [] (components cwd p) = Inr q \<and> q \<noteq> [] \<and> t = fs(q := Some (Regular data)) \<and>
    (fs q = None \<or> (\<exists>d. fs q = Some (Regular d))) \<and> isFilePathAbsolute cwd p = Inr () \<and> isFilePathAbsolute cwd (path_string q) = Inr () \<and>
    (HasPrefix p ''/sys/class/dmi/id/'' \<or> HasPrefix (path_string q) ''/sys/devices/virtual/dmi/id/'' \<or>
     filepath_Abs cwd p = filepath_Abs cwd (path_string q))"
proof -
  obtain q where q: "resolve True True 40 fs [] (components cwd p) = Inr q"
    using assms by (auto simp: WriteFile_def os_OpenTrunc_def lift_result_def action_simps split: sum.splits)
  have "q = [] \<or> (\<forall>u. fs q \<noteq> Some (Link u))" using walk_end [OF resolve_walk [OF q]] by auto
  with q assms show ?thesis
    by (auto simp: WriteFile_def os_OpenTrunc_def validateOpenedFile_def Let_def lift_result_def action_simps
      split: sum.splits if_splits outcome.splits option.splits node.splits)
qed

lemma write_keeps_resolve:
  assumes "fs q = None \<or> (\<exists>d. fs q = Some (Regular d))" "resolve fo False n fs [] cs = Inr r"
  shows "resolve fo False n (fs(q := Some (Regular b))) [] cs = Inr r"
proof (cases "fs q")
  case None
  then show ?thesis using resolve_extend [OF assms(2)] by blast
next
  case (Some nd)
  with assms(1) obtain d where "fs q = Some (Regular d)" by auto
  from resolve_content [of fs q d, OF this] assms(2) show ?thesis by simp
qed

lemma write_then_read:
  assumes "WriteFile cwd p data fs = (Ok (), t)"
  shows "ReadFile cwd p t = (Ok data, t) \<and> (\<exists>q. resolve True False 40 t [] (components cwd p) = Inr q)"
proof -
  obtain q where q: "resolve True True 40 fs [] (components cwd p) = Inr q" "q \<noteq> []" "t = fs(q := Some (Regular data))"
    "fs q = None \<or> (\<exists>d. fs q = Some (Regular d))" "isFilePathAbsolute cwd p = Inr ()" "isFilePathAbsolute cwd (path_string q) = Inr ()"
    "HasPrefix p ''/sys/class/dmi/id/'' \<or> HasPrefix (path_string q) ''/sys/devices/virtual/dmi/id/'' \<or>
     filepath_Abs cwd p = filepath_Abs cwd (path_string q)"
    using WriteFile_cases [OF assms] by blast
  have r: "resolve True False 40 t [] (components cwd p) = Inr q"
  proof (cases "fs q = None")
    case True
    with resolve_created(2) [OF q(1) True q(2)] q(3) show ?thesis by simp
  next
    case False
    from walk_resolve [OF walk_existing [OF resolve_walk [OF q(1)] False]] write_keeps_resolve [of fs q, OF q(4)] q(3) show ?thesis by simp
  qed
  moreover have "ReadFile cwd p t = (Ok data, t)"
    using r q by (auto simp: ReadFile_def os_Open_def content_of_apply validateOpenedFile_def Let_def action_simps)
  ultimately show ?thesis by blast
qed

lemma ReadFile_state: "ReadFile cwd p fs = (r, t) \<Longrightarrow> t = fs \<and> (\<forall>e. r \<noteq> Crash e)"
  by (auto simp: ReadFile_def os_Open_def content_of_apply validateOpenedFile_def Let_def lift_result_def
      action_simps split: sum.splits if_splits outcome.splits option.splits node.splits)

lemma IsFileExist_apply: "IsFileExist cwd p fs = (Ok (\<exists>q. resolve True False 40 fs [] (components cwd p) = Inr q), fs)"
  by (simp add: IsFileExist_def asks_apply split: sum.splits)

text \<open>What WriteFile wrote without an error is what ReadFile returns for the same path.\<close>

theorem written_is_read:
  assumes "WriteFile cwd p data fs = (Ok (), t)"
  shows "ReadFile cwd p t = (Ok data, t)"
  using write_then_read [OF assms] by simp

lemma written_is_read_witness: "\<exists>t. WriteFile [] ''/tmp/new'' ''x'' escape_fs = (Ok (), t) \<and> ReadFile [] ''/tmp/new'' t = (Ok ''x'', t)"
proof -
  obtain r t where g: "WriteFile [] ''/tmp/new'' ''x'' escape_fs = (r, t)" by fastforce
  have "fst (WriteFile [] ''/tmp/new'' ''x'' escape_fs) = Ok ()" by code_simp
  with g have w: "WriteFile [] ''/tmp/new'' ''x'' escape_fs = (Ok (), t)" by simp
  from written_is_read [OF w] w show ?thesis by blast
qed

lemma os_OpenTrunc_Ok:
  assumes "os_OpenTrunc cwd p fs = (Ok q, t)"
  shows "resolve True True 40 fs [] (components cwd p) = Inr q" "q \<noteq> []"
    "fs q = Some Special \<and> t = fs \<or> (fs q = None \<or> (\<exists>d. fs q = Some (Regular d))) \<and> t = fs(q := Some (Regular []))"
proof -
  show r: "resolve True True 40 fs [] (components cwd p) = Inr q"
    using assms by (auto simp: os_OpenTrunc_def split: sum.splits option.splits node.splits if_splits)
  show n: "q \<noteq> []" using assms r by (auto simp: os_OpenTrunc_def)
  have "fs q \<noteq> Some (Link u)" for u using walk_end [OF resolve_walk [OF r]] n by auto
  then show "fs q = Some Special \<and> t = fs \<or> (fs q = None \<or> (\<exists>d. fs q = Some (Regular d))) \<and> t = fs(q := Some (Regular []))"
    using assms r n by (auto simp: os_OpenTrunc_def split: option.splits node.splits)
qed

lemma os_OpenTrunc_again: "os_OpenTrunc cwd p fs = (Ok q, t) \<Longrightarrow> os_OpenTrunc cwd p t = (Ok q, t)"
proof -
  assume a: "os_OpenTrunc cwd p fs = (Ok q, t)"
  note o = os_OpenTrunc_Ok [OF a]
  consider "t = fs" "fs q = Some Special" | "fs q = None" "t = fs(q := Some (Regular []))"
    | d where "fs q = Some (Regular d)" "t = fs(q := Some (Regular []))" using o(3) by metis
  then have "resolve True True 40 t [] (components cwd p) = Inr q"
  proof cases
    case 2
    from resolve_create [OF resolve_created(2) [OF o(1) 2(1) o(2)]] 2(2) show ?thesis by simp
  next
    case 3
    from resolve_content [of fs q d, OF 3(1)] o(1) 3(2) show ?thesis by simp
  qed (use o in simp)
  with o(2,3) show ?thesis by (auto simp: os_OpenTrunc_def)
qed

lemma CopyFile_result:
  assumes "CopyFile cwd p d fs = (Ok (), s)" "resolve True False 40 fs [] (components cwd p) = Inr q"
  shows "\<exists>b s1 data. os_OpenTrunc cwd d fs = (Ok b, s1) \<and> s1 q = Some (Regular data) \<and>
    s = (if s1 b = Some Special then s1 else s1(b := Some (Regular data)))"
proof -
  obtain r s1 where o: "os_OpenTrunc cwd d fs = (r, s1)" by fastforce
  have c: "isFilePathAbsolute cwd p = Inr () \<and> isFilePathAbsolute cwd d = Inr () \<and> isFilePathSymLink fs cwd p = Inr ()"
    using assms(1) by (cases "isFilePathAbsolute cwd p"; cases "isFilePathAbsolute cwd d"; cases "isFilePathSymLink fs cwd p")
      (simp_all add: CopyFile_def lift_result_def andthen_apply asks_apply fail_apply ret_apply)
  show ?thesis
  proof (cases r)
    case (Ok b)
    with assms c o show ?thesis
      by (cases "s1 q") (auto simp: CopyFile_def lift_result_def andthen_apply asks_apply ret_apply os_Open_def content_of_apply
          modify_def split: node.splits)
  qed (use assms c o in \<open>simp_all add: CopyFile_def lift_result_def andthen_apply asks_apply ret_apply os_Open_def\<close>)
qed

end
