(* ===== verification/Inbd_Signature.thy ===== *)
theory Inbd_Signature
  imports Inbd_Files
begin

text \<open>
  The verification of signed packages
  (\<^verbatim>\<open>in-band-manageability/internal/inbd/utils/verify_signature.go\<close>): the checks of a tar archive,
  the choice of the certificate, and the check of the signature over the checksum.

  The formats and the cryptography are functions of \<open>sig_env\<close>: the entries of a tar archive
  (\<open>Inl\<close> a read error), PEM, X.509, the hash functions and RSA-PSS. The signature is over the hash
  of the hexadecimal checksum. \<open>deadline\<close> tells before which attempts the context had expired.
\<close>

section \<open>The environment\<close>

record tar_entry =
  Typeflag :: char
  hdr_Name :: string
  hdr_Size :: int
  body :: string
  body_error :: "string option"

datatype public_key = RSA nat string | OtherKey

type_synonym HashAlgorithm = int

definition SHA256 :: HashAlgorithm where "SHA256 = 256"
definition SHA384 :: HashAlgorithm where "SHA384 = 384"
definition SHA512 :: HashAlgorithm where "SHA512 = 512"

record sig_env =
  workdir :: path
  tar_entries :: "string \<Rightarrow> (string + tar_entry) list"
  pem_Decode :: "string \<Rightarrow> string option"
  x509_Parse :: "string \<Rightarrow> string + public_key"
  hash_sum :: "HashAlgorithm \<Rightarrow> string \<Rightarrow> string"
  VerifyPSS :: "string \<Rightarrow> HashAlgorithm \<Rightarrow> string \<Rightarrow> string \<Rightarrow> string option"
  deadline :: "nat \<Rightarrow> bool"

definition MaxAllowedFileSize :: int where "MaxAllowedFileSize = 100 * 1024 * 1024"
definition MaxAllowedPEMSize :: int where "MaxAllowedPEMSize = 64 * 1024"
definition MaxAllowedContentSize :: int where "MaxAllowedContentSize = 10 * 1024 * 1024"
definition OTAPackageCertPath :: string where "OTAPackageCertPath = ''/etc/intel-manageability/public/ota_package_cert.pem''"
definition ConfigFileName :: string where "ConfigFileName = ''intel_manageability.conf''"
definition MinKeySizeBits :: nat where "MinKeySizeBits = 3000"

section \<open>The entries of an archive\<close>

definition validateTarFilename :: "string \<Rightarrow> string + unit" where
  "validateTarFilename name =
     (if name = [] then Inl ''empty filename''
      else if CHR 0x00 \<in> set name then Inl ''filename contains null bytes''
      else if length name > 255 then Inl ''filename too long''
      else if CHR 0x0D \<in> set name \<or> CHR 0x0A \<in> set name \<or> CHR 0x09 \<in> set name
      then Inl ''filename contains dangerous character'' else Inr ())"

definition validateTarPath :: "path \<Rightarrow> string \<Rightarrow> string \<Rightarrow> string + unit" where
  "validateTarPath cwd name safeDir =
     (let cleanPath = filepath_Clean name in
      if HasPrefix cleanPath ''/'' then Inl (''absolute paths not allowed in tar entries: '' @ cleanPath)
      else if Contains cleanPath ''..'' then Inl (''path traversal detected: '' @ cleanPath)
      else let absFullPath = path_string (filepath_Abs cwd (filepath_Join safeDir cleanPath));
               absSafeDir = path_string (filepath_Abs cwd safeDir) in
      if \<not> HasPrefix absFullPath (absSafeDir @ ''/'') \<and> absFullPath \<noteq> absSafeDir
      then Inl (''path would escape safe directory: '' @ name) else Inr ())"

definition isPEMFile :: "string \<Rightarrow> bool" where
  "isPEMFile name = (ToLower (TrimPrefix (filepath_Ext name) ''.'') \<in> {''pem'', ''crt'', ''cert''})"

definition isValidPackageFile :: "string \<Rightarrow> bool" where
  "isValidPackageFile name =
     (let basename = filepath_Base name in
      if basename = ConfigFileName then True
      else if Contains basename ConfigFileName then False
      else ToLower (TrimPrefix (filepath_Ext basename) ''.'') \<in>
             {''rpm'', ''deb'', ''fv'', ''cap'', ''bio'', ''bin'', ''conf'', ''mender''})"

definition validateTarFileSize :: "tar_entry \<Rightarrow> string + unit" where
  "validateTarFileSize header =
     (if hdr_Size header < 0 then Inl ''invalid file size''
      else if hdr_Size header > MaxAllowedFileSize then Inl ''file too large''
      else if isPEMFile (filepath_Base (hdr_Name header)) \<and> hdr_Size header > MaxAllowedPEMSize
      then Inl ''PEM file too large'' else Inr ())"

text \<open>Reading at most \<open>n\<close> bytes of an entry.\<close>

definition read_limited :: "tar_entry \<Rightarrow> int \<Rightarrow> string + string" where
  "read_limited e n =
     (if n \<le> int (length (body e)) then Inr (take (nat n) (body e))
      else case body_error e of None \<Rightarrow> Inr (body e) | Some err \<Rightarrow> Inl err)"

definition readTarContentWithLimit :: "tar_entry \<Rightarrow> int \<Rightarrow> int \<Rightarrow> string + string" where
  "readTarContentWithLimit e declaredSize maxSize =
     (if declaredSize < 0 then Inl ''invalid declared size''
      else if maxSize > MaxAllowedContentSize then Inl ''max size limit too large''
      else if declaredSize > maxSize then Inl ''declared size exceeds limit''
      else case read_limited e (maxSize + 1) of
        Inl err \<Rightarrow> Inl (''error reading content: '' @ err)
      | Inr content \<Rightarrow> (let actualSize = int (length content) in
          if actualSize > MaxAllowedContentSize then Inl ''content size exceeds maximum allowed''
          else if actualSize > maxSize then Inl ''content exceeds size limit''
          else if actualSize \<noteq> declaredSize then Inl ''size mismatch'' else Inr content))"

definition validatePEMContent :: "'a sig_env_scheme \<Rightarrow> string \<Rightarrow> string + unit" where
  "validatePEMContent env pemContent =
     (if TrimSpace pemContent = [] then Inl ''empty PEM content''
      else case pem_Decode env pemContent of None \<Rightarrow> Inl ''failed to decode PEM content''
      | Some der \<Rightarrow> (case x509_Parse env der of Inl e \<Rightarrow> Inl (''failed to parse X.509 certificate: '' @ e)
                    | Inr _ \<Rightarrow> Inr ()))"

record TarContents =
  ConfigFile :: string
  PEMCert :: string
  HasConfig :: bool
  HasPEM :: bool
  PackageFiles :: "string list"

definition empty_contents :: TarContents where
  "empty_contents = \<lparr>ConfigFile = [], PEMCert = [], HasConfig = False, HasPEM = False, PackageFiles = []\<rparr>"

text \<open>What an accepted entry adds to the contents and to the list of configuration files.\<close>

definition classify_entry ::
  "'a sig_env_scheme \<Rightarrow> tar_entry \<Rightarrow> TarContents \<times> string list \<Rightarrow> string + TarContents \<times> string list" where
  "classify_entry env e = (\<lambda>(tc, configFiles).
     let name = hdr_Name e; basename = filepath_Base name in
     if isPEMFile basename then
       (if HasPEM tc then Inr (tc, configFiles)
        else case readTarContentWithLimit e (hdr_Size e) (64 * 1024) of
          Inl err \<Rightarrow> Inl (''could not read PEM file from tar: '' @ err)
        | Inr pemContent \<Rightarrow> (case validatePEMContent env pemContent of
            Inl err \<Rightarrow> Inl (''invalid PEM certificate: '' @ err)
          | Inr _ \<Rightarrow> Inr (tc\<lparr>PEMCert := pemContent, HasPEM := True\<rparr>, configFiles)))
     else if basename = ConfigFileName then Inr (tc\<lparr>ConfigFile := name, HasConfig := True\<rparr>, configFiles @ [name])
     else if isValidPackageFile basename then Inr (tc\<lparr>PackageFiles := PackageFiles tc @ [name]\<rparr>, configFiles)
     else Inl (''invalid file in tarball: '' @ basename))"

definition check_entry :: "path \<Rightarrow> string \<Rightarrow> tar_entry \<Rightarrow> string + unit" where
  "check_entry cwd tarPath e =
     (case validateTarFilename (hdr_Name e) of Inl err \<Rightarrow> Inl (''invalid TarFilename: '' @ err) | Inr _ \<Rightarrow>
      case validateTarPath cwd (hdr_Name e) (filepath_Dir tarPath) of Inl err \<Rightarrow> Inl (''path traversal detected: '' @ err) | Inr _ \<Rightarrow>
      case validateTarFileSize e of Inl err \<Rightarrow> Inl (''file too large: '' @ err) | Inr _ \<Rightarrow> Inr ())"

fun scan_tar :: "'a sig_env_scheme \<Rightarrow> string \<Rightarrow> TarContents \<times> string list \<Rightarrow> (string + tar_entry) list \<Rightarrow>
  string + TarContents \<times> string list" where
  "scan_tar env tarPath st [] = Inr st"
| "scan_tar env tarPath st (Inl err # es) = Inl (''error reading tar file: '' @ err)"
| "scan_tar env tarPath st (Inr e # es) =
     (if Typeflag e \<in> {CHR ''2'', CHR ''1''} then Inl (''tar contains symlink/hardlink: '' @ hdr_Name e)
      else if Typeflag e \<in> {CHR ''x'', CHR ''g''} then scan_tar env tarPath st es
      else if Typeflag e \<noteq> CHR ''0'' then Inl (''tar contains unsupported file type: '' @ hdr_Name e)
      else case check_entry (workdir env) tarPath e of Inl err \<Rightarrow> Inl err
      | Inr _ \<Rightarrow> (case classify_entry env e st of Inl err \<Rightarrow> Inl err
                 | Inr st' \<Rightarrow> scan_tar env tarPath st' es))"

definition finish_scan :: "TarContents \<times> string list \<Rightarrow> string + TarContents" where
  "finish_scan = (\<lambda>(tc, configFiles).
     if length configFiles > 1 then Inl ''multiple configuration files found in tarball''
     else if \<not> HasConfig tc \<and> PackageFiles tc = [] then Inl ''no valid package found in tarball''
     else Inr tc)"

definition extractAndValidateTarContents :: "'a sig_env_scheme \<Rightarrow> string \<Rightarrow> (filesystem, TarContents) action" where
  "extractAndValidateTarContents env tarPath =
     andthen (wrap ''tar path validation failed: '' (check_path (workdir env) tarPath)) (\<lambda>_.
     andthen (IsFileExist (workdir env) tarPath) (\<lambda>ex.
     if \<not> ex then fail (''tar file does not exist: '' @ tarPath) else
     andthen (wrap ''could not open tar file: '' (Open (workdir env) tarPath)) (\<lambda>q.
     andthen (wrap ''error reading tar file: '' (content_of q)) (\<lambda>data.
     andthen (lift_result (scan_tar env tarPath (empty_contents, []) (tar_entries env data))) (\<lambda>st.
     lift_result (finish_scan st))))))"

definition validateTarFile :: "'a sig_env_scheme \<Rightarrow> string \<Rightarrow> (filesystem, unit) action" where
  "validateTarFile env tarPath = andthen (extractAndValidateTarContents env tarPath) (\<lambda>_. ret ())"

section \<open>The signature\<close>

definition hex_EncodeToString :: "string \<Rightarrow> string" where
  "hex_EncodeToString s = concat (map (\<lambda>c. let n = (of_char c :: nat) in [hex_digit (n div 16), hex_digit (n mod 16)]) s)"

definition hex_value :: "char \<Rightarrow> nat option" where
  "hex_value c = (let n = (of_char c :: nat) in
     if 48 \<le> n \<and> n \<le> 57 then Some (n - 48)
     else if 97 \<le> n \<and> n \<le> 102 then Some (n - 87)
     else if 65 \<le> n \<and> n \<le> 70 then Some (n - 55) else None)"

fun hex_DecodeString :: "string \<Rightarrow> string option" where
  "hex_DecodeString [] = Some []"
| "hex_DecodeString [c] = None"
| "hex_DecodeString (a # b # s) = (case (hex_value a, hex_value b, hex_DecodeString s) of
     (Some x, Some y, Some t) \<Rightarrow> Some (char_of (16 * x + y) # t) | _ \<Rightarrow> None)"

definition ParseHashAlgorithm :: "string \<Rightarrow> HashAlgorithm option" where
  "ParseHashAlgorithm algo =
     (if ToLower algo = ''sha256'' then Some SHA256
      else if ToLower algo = ''sha512'' then Some SHA512 else Some SHA384)"

definition calculateFileChecksum ::
  "'a sig_env_scheme \<Rightarrow> string \<Rightarrow> HashAlgorithm option \<Rightarrow> (filesystem, string) action" where
  "calculateFileChecksum env filePath hashAlgorithm =
     andthen (wrap ''could not read file content: '' (ReadFile (workdir env) filePath)) (\<lambda>content.
     case hashAlgorithm of None \<Rightarrow> ret (hex_EncodeToString (hash_sum env SHA384 content))
     | Some a \<Rightarrow> if a \<in> {SHA384, SHA256, SHA512} then ret (hex_EncodeToString (hash_sum env a content))
                else fail ''unsupported hash algorithm'')"

fun try_algorithms ::
  "'a sig_env_scheme \<Rightarrow> string \<Rightarrow> string \<Rightarrow> string \<Rightarrow> string \<Rightarrow> nat \<Rightarrow> HashAlgorithm list \<Rightarrow> string + unit" where
  "try_algorithms env key checksum sigBytes lastErr n [] =
     Inl (''checksum of data does not match signature in manifest: '' @ lastErr)"
| "try_algorithms env key checksum sigBytes lastErr n (a # as) =
     (if deadline env n then Inl ''signature verification timeout''
      else case VerifyPSS env key a (hash_sum env a checksum) sigBytes of
        None \<Rightarrow> Inr () | Some err \<Rightarrow> try_algorithms env key checksum sigBytes err (Suc n) as)"

text \<open>The size of a key is in bytes.\<close>

definition verifyChecksumWithKey ::
  "'a sig_env_scheme \<Rightarrow> nat \<Rightarrow> string \<Rightarrow> string \<Rightarrow> string \<Rightarrow> string + unit" where
  "verifyChecksumWithKey env nbytes key signature checksum =
     (if checksum = [] then Inl ''invalid checksum''
      else if signature = [] then Inl ''invalid signature''
      else if nbytes * 8 < MinKeySizeBits then Inl ''invalid key size. update rejected''
      else case hex_DecodeString signature of None \<Rightarrow> Inl ''invalid signature format''
      | Some sigBytes \<Rightarrow> try_algorithms env key checksum sigBytes [] 0 [SHA384, SHA256, SHA512])"

definition verifyChecksumWithCertificateFile ::
  "'a sig_env_scheme \<Rightarrow> string \<Rightarrow> string \<Rightarrow> string \<Rightarrow> (filesystem, unit) action" where
  "verifyChecksumWithCertificateFile env certPath signature checksum =
     andthen (IsFileExist (workdir env) certPath) (\<lambda>ex.
     if \<not> ex then fail (''certificate file does not exist: '' @ certPath) else
     andthen (wrap ''could not load certificate: '' (ReadFile (workdir env) certPath)) (\<lambda>certContent.
     case pem_Decode env certContent of None \<Rightarrow> fail ''failed to parse PEM certificate''
     | Some der \<Rightarrow> (case x509_Parse env der of Inl e \<Rightarrow> fail (''failed to parse certificate: '' @ e)
       | Inr OtherKey \<Rightarrow> fail ''certificate does not contain RSA public key''
       | Inr (RSA nbytes key) \<Rightarrow> lift_result (verifyChecksumWithKey env nbytes key signature checksum))))"

definition shouldRequireSignature :: "'a sig_env_scheme \<Rightarrow> (filesystem, bool) action" where
  "shouldRequireSignature env = IsFileExist (workdir env) OTAPackageCertPath"

text \<open>The end of the verification, once the certificate is chosen.\<close>

definition check_signature ::
  "'a sig_env_scheme \<Rightarrow> string \<Rightarrow> string \<Rightarrow> HashAlgorithm option \<Rightarrow> string \<Rightarrow> (filesystem, unit) action" where
  "check_signature env signature pathToFile hashAlgorithm certPath =
     (if signature = [] then
        andthen (shouldRequireSignature env) (\<lambda>req.
        if req then fail ''signature is required to proceed with the update'' else ret ())
      else
        andthen (wrap ''signature check failed: could not create checksum: ''
                   (calculateFileChecksum env pathToFile hashAlgorithm)) (\<lambda>checksum.
        wrap ''signature check failed: '' (verifyChecksumWithCertificateFile env certPath signature checksum)))"

definition temp_cert_path :: "string \<Rightarrow> string" where
  "temp_cert_path pathToFile = filepath_Join (filepath_Dir pathToFile) ''temp_cert.pem''"

definition VerifySignature ::
  "'a sig_env_scheme \<Rightarrow> string \<Rightarrow> string \<Rightarrow> HashAlgorithm option \<Rightarrow> (filesystem, unit) action" where
  "VerifySignature env signature pathToFile hashAlgorithm =
     andthen (wrap ''signature check failed: '' (check_path (workdir env) pathToFile)) (\<lambda>_.
     if ToLower (TrimPrefix (filepath_Ext pathToFile) ''.'') = ''tar'' then
       andthen (wrap ''signature check failed: '' (extractAndValidateTarContents env pathToFile)) (\<lambda>tarContents.
       if HasPEM tarContents then
         andthen (wrap ''signature check failed: could not write temporary certificate: ''
                    (WriteFile (workdir env) (temp_cert_path pathToFile) (PEMCert tarContents))) (\<lambda>_.
         deferred (check_signature env signature pathToFile hashAlgorithm (temp_cert_path pathToFile))
           (os_Remove_path (workdir env) (temp_cert_path pathToFile)))
       else
         andthen (IsFileExist (workdir env) OTAPackageCertPath) (\<lambda>ex.
         if \<not> ex then fail (''signature check failed: system certificate not found at '' @ OTAPackageCertPath)
         else check_signature env signature pathToFile hashAlgorithm OTAPackageCertPath))
     else if \<not> isValidPackageFile pathToFile then fail ''signature check failed: unsupported file format''
     else check_signature env signature pathToFile hashAlgorithm OTAPackageCertPath)"

section \<open>Archives\<close>

lemma path_string_prefix:
  assumes "clean q" "clean b" "HasPrefix (path_string q) (path_string b @ ''/'')"
  shows "b = [] \<or> (\<exists>r. q = b @ r)"
proof (cases "b = []")
  case False
  from assms(3) obtain t where t: "Join q ''/'' = Join b ''/'' @ CHR ''/'' # t"
    by (auto simp: HasPrefix_iff path_string_def)
  have sj: "Split (Join b ''/'' @ CHR ''/'' # t) (CHR ''/'') = b @ Split t (CHR ''/'')"
    using False assms(2)
  proof (induction b)
    case (Cons a b)
    then show ?case by (cases b) (auto simp: name_ok_def Split_append_sep)
  qed simp
  have "q \<noteq> []" using t by auto
  then have "Split (Join q ''/'') (CHR ''/'') = q"
    using assms(1) by (intro Split_Join) (auto simp: clean_def name_ok_def)
  then have "q = b @ Split t (CHR ''/'')" unfolding t sj by simp
  then show ?thesis by blast
qed simp

lemma tar_path_inside:
  assumes "clean cwd" "validateTarPath cwd name safeDir = Inr ()"
  shows "\<exists>r. filepath_Abs cwd (filepath_Join safeDir (filepath_Clean name)) = filepath_Abs cwd safeDir @ r"
proof -
  let ?a = "filepath_Abs cwd (filepath_Join safeDir (filepath_Clean name))" and ?s = "filepath_Abs cwd safeDir"
  have c: "clean ?a" "clean ?s" by (rule Abs_clean [OF assms(1)])+
  have "HasPrefix (path_string ?a) (path_string ?s @ ''/'') \<or> path_string ?a = path_string ?s"
    using assms(2) by (auto simp: validateTarPath_def Let_def split: if_splits)
  then show ?thesis
  proof
    assume "HasPrefix (path_string ?a) (path_string ?s @ ''/'')"
    from path_string_prefix [OF c this] show ?thesis by auto
  next
    assume "path_string ?a = path_string ?s"
    then have "filepath_Abs cwd (path_string ?a) = filepath_Abs cwd (path_string ?s)" by simp
    with c show ?thesis by (simp add: Abs_path_string)
  qed
qed

definition good_entry :: "path \<Rightarrow> string \<Rightarrow> tar_entry \<Rightarrow> bool" where
  "good_entry cwd tarPath e \<longleftrightarrow> Typeflag e = CHR ''0'' \<and> length (hdr_Name e) \<in> {1..255} \<and> CHR 0x00 \<notin> set (hdr_Name e) \<and>
     \<not> Contains (filepath_Clean (hdr_Name e)) ''..'' \<and> 0 \<le> hdr_Size e \<and> hdr_Size e \<le> MaxAllowedFileSize \<and>
     (\<exists>r. filepath_Abs cwd (filepath_Join (filepath_Dir tarPath) (filepath_Clean (hdr_Name e))) = filepath_Abs cwd (filepath_Dir tarPath) @ r) \<and>
     (isPEMFile (filepath_Base (hdr_Name e)) \<or> filepath_Base (hdr_Name e) = ConfigFileName \<or> isValidPackageFile (filepath_Base (hdr_Name e)))"

lemma check_entry_good:
  assumes "clean (workdir env)" "check_entry (workdir env) tarPath e = Inr ()" "classify_entry env e st = Inr st'" "Typeflag e = CHR ''0''"
  shows "good_entry (workdir env) tarPath e"
proof -
  have v: "validateTarFilename (hdr_Name e) = Inr ()" "validateTarPath (workdir env) (hdr_Name e) (filepath_Dir tarPath) = Inr ()"
    "validateTarFileSize e = Inr ()"
    using assms(2) by (auto simp: check_entry_def split: sum.splits)
  have "isPEMFile (filepath_Base (hdr_Name e)) \<or> filepath_Base (hdr_Name e) = ConfigFileName \<or> isValidPackageFile (filepath_Base (hdr_Name e))"
    using assms(3) by (auto simp: classify_entry_def Let_def split: if_splits prod.splits)
  with v tar_path_inside [OF assms(1) v(2)] assms(4) show ?thesis
    by (cases "hdr_Name e") (auto simp: good_entry_def validateTarFilename_def validateTarFileSize_def validateTarPath_def Let_def split: if_splits)
qed

text \<open>Between the contents and the list of configuration files.\<close>

definition pem_ok :: "'a sig_env_scheme \<Rightarrow> TarContents \<times> string list \<Rightarrow> bool" where
  "pem_ok env = (\<lambda>(tc, cfs). (HasPEM tc \<longrightarrow> validatePEMContent env (PEMCert tc) = Inr ()) \<and> (HasConfig tc \<longleftrightarrow> cfs \<noteq> []))"

lemma classify_pem_ok: "classify_entry env e st = Inr st' \<Longrightarrow> pem_ok env st \<Longrightarrow> pem_ok env st'"
  by (auto simp: classify_entry_def pem_ok_def Let_def split: if_splits sum.splits prod.splits)

lemma scan_tar_good:
  "scan_tar env tarPath st es = Inr st' \<Longrightarrow> clean (workdir env) \<Longrightarrow> pem_ok env st \<Longrightarrow> pem_ok env st' \<and>
    (\<forall>x \<in> set es. \<exists>e. x = Inr e \<and> (Typeflag e \<in> {CHR ''x'', CHR ''g''} \<or> good_entry (workdir env) tarPath e))"
proof (induction env tarPath st es rule: scan_tar.induct)
  case (3 env tarPath st e es)
  show ?case
  proof (cases "Typeflag e \<in> {CHR ''x'', CHR ''g''}")
    case True
    with 3 show ?thesis by auto
  next
    case False
    with 3(3) obtain st2 where st2: "Typeflag e = CHR ''0''" "check_entry (workdir env) tarPath e = Inr ()"
      "classify_entry env e st = Inr st2" "scan_tar env tarPath st2 es = Inr st'"
      by (auto split: if_splits sum.splits)
    have "pem_ok env st2" by (rule classify_pem_ok [OF st2(3) 3(5)])
    with 3(2) [OF _ False _ st2(2,3,4) 3(4)] st2(1) check_entry_good [OF 3(4) st2(2,3,1)] show ?thesis by auto
  qed
qed auto

section \<open>Verification\<close>

lemma extract_result:
  assumes "extractAndValidateTarContents env p fs = (r, t)"
  shows "t = fs \<and> (\<forall>tc. r = Ok tc \<longrightarrow> (\<exists>q data st. fs q = Some (Regular data) \<and>
    scan_tar env p (empty_contents, []) (tar_entries env data) = Inr st \<and> finish_scan st = Inr tc))"
proof -
  obtain rc where c: "check_path (workdir env) p fs = (rc, fs)" "\<And>e. rc \<noteq> Crash e"
    by (cases "isFilePathAbsolute (workdir env) p"; cases "isFilePathSymLink fs (workdir env) p") (auto simp: check_path_apply)
  then show ?thesis
    using assms by (cases rc) (auto simp: extractAndValidateTarContents_def Open_def os_Open_def IsFileExist_apply content_of_apply
        lift_result_def action_simps split: sum.splits if_splits outcome.splits option.splits node.splits)
qed

definition used_algorithm :: "HashAlgorithm option \<Rightarrow> HashAlgorithm" where
  "used_algorithm a = (case a of None \<Rightarrow> SHA384 | Some x \<Rightarrow> x)"

definition key_accepts :: "'a sig_env_scheme \<Rightarrow> string \<Rightarrow> string \<Rightarrow> string \<Rightarrow> bool" where
  "key_accepts env certText signature checksum \<longleftrightarrow> (\<exists>der n key sb a. pem_Decode env certText = Some der \<and>
     x509_Parse env der = Inr (RSA n key) \<and> 3000 \<le> n * 8 \<and> hex_DecodeString signature = Some sb \<and>
     a \<in> {SHA384, SHA256, SHA512} \<and> VerifyPSS env key a (hash_sum env a checksum) sb = None)"

lemma try_algorithms_Inr:
  "try_algorithms env key ck sb e n as = Inr () \<Longrightarrow> \<exists>a \<in> set as. VerifyPSS env key a (hash_sum env a ck) sb = None"
  by (induction env key ck sb e n as rule: try_algorithms.induct) (auto split: if_splits option.splits)

lemma try_algorithms_accepts:
  "a \<in> set as \<Longrightarrow> VerifyPSS env key a (hash_sum env a ck) sb = None \<Longrightarrow> (\<And>k. \<not> deadline env k) \<Longrightarrow> try_algorithms env key ck sb e n as = Inr ()"
  by (induction env key ck sb e n as rule: try_algorithms.induct) (auto split: option.splits)

lemma certificate_Ok:
  assumes "verifyChecksumWithCertificateFile env certPath signature checksum fs = (r, t)"
  shows "t = fs \<and> (\<forall>e. r \<noteq> Crash e) \<and> (r = Ok () \<longrightarrow> (\<exists>certText. ReadFile (workdir env) certPath fs = (Ok certText, fs) \<and> key_accepts env certText signature checksum))"
proof -
  obtain rc where c: "ReadFile (workdir env) certPath fs = (rc, fs)" "\<And>e. rc \<noteq> Crash e"
    using ReadFile_state [of "workdir env" certPath fs] by (cases "ReadFile (workdir env) certPath fs") blast
  show ?thesis
  proof (cases rc)
    case (Ok certText)
    have "\<And>n key. verifyChecksumWithKey env n key signature checksum = Inr () \<Longrightarrow>
        3000 \<le> n * 8 \<and> (\<exists>sb a. hex_DecodeString signature = Some sb \<and> a \<in> {SHA384, SHA256, SHA512} \<and> VerifyPSS env key a (hash_sum env a checksum) sb = None)"
      by (auto simp: verifyChecksumWithKey_def MinKeySizeBits_def split: if_splits option.splits dest!: try_algorithms_Inr)
    with assms c Ok show ?thesis
      by (auto simp: verifyChecksumWithCertificateFile_def IsFileExist_apply key_accepts_def lift_result_def action_simps
          split: if_splits option.splits sum.splits public_key.splits)
  qed (use assms c in \<open>auto simp: verifyChecksumWithCertificateFile_def IsFileExist_apply action_simps split: if_splits\<close>)
qed

lemma check_signature_Ok:
  assumes "check_signature env signature p alg certPath fs = (r, t)"
  shows "t = fs \<and> (\<forall>e. r \<noteq> Crash e) \<and> (r = Ok () \<longrightarrow> signature \<noteq> [] \<longrightarrow> (\<exists>content certText.
    ReadFile (workdir env) p fs = (Ok content, fs) \<and> ReadFile (workdir env) certPath fs = (Ok certText, fs) \<and>
    key_accepts env certText signature (hex_EncodeToString (hash_sum env (used_algorithm alg) content))))"
proof -
  obtain rc where c: "ReadFile (workdir env) p fs = (rc, fs)" "\<And>e. rc \<noteq> Crash e"
    using ReadFile_state [of "workdir env" p fs] by (cases "ReadFile (workdir env) p fs") blast
  show ?thesis
  proof (cases rc)
    case (Ok content)
    let ?ck = "hex_EncodeToString (hash_sum env (used_algorithm alg) content)"
    obtain rv tv where v: "verifyChecksumWithCertificateFile env certPath signature ?ck fs = (rv, tv)" by fastforce
    note certificate_Ok [OF v]
    with assms c Ok v show ?thesis
      by (cases alg; cases rv) (auto simp: check_signature_def shouldRequireSignature_def IsFileExist_apply calculateFileChecksum_def
          used_algorithm_def action_simps split: if_splits)
  qed (use assms c in \<open>auto simp: check_signature_def shouldRequireSignature_def IsFileExist_apply calculateFileChecksum_def action_simps
        split: if_splits\<close>)
qed

lemma check_signature_accepts:
  assumes "ReadFile (workdir env) p fs = (Ok content, fs)" "ReadFile (workdir env) certPath fs = (Ok certText, fs)"
    "\<exists>q. resolve True False 40 fs [] (components (workdir env) certPath) = Inr q"
    "key_accepts env certText signature (hex_EncodeToString (hash_sum env (used_algorithm alg) content))"
    "used_algorithm alg \<in> {SHA384, SHA256, SHA512}" "\<And>k. \<not> deadline env k" "signature \<noteq> []" "hash_sum env (used_algorithm alg) content \<noteq> []"
  shows "check_signature env signature p alg certPath fs = (Ok (), fs)"
proof -
  let ?ck = "hex_EncodeToString (hash_sum env (used_algorithm alg) content)"
  obtain der n key sb a where k: "pem_Decode env certText = Some der" "x509_Parse env der = Inr (RSA n key)" "3000 \<le> n * 8"
    "hex_DecodeString signature = Some sb" "a \<in> set [SHA384, SHA256, SHA512]" "VerifyPSS env key a (hash_sum env a ?ck) sb = None"
    using assms(4) unfolding key_accepts_def by (metis empty_set list.simps(15))
  have "?ck \<noteq> []" using assms(8) by (cases "hash_sum env (used_algorithm alg) content") (auto simp: hex_EncodeToString_def Let_def)
  then have "verifyChecksumWithKey env n key signature ?ck = Inr ()"
    using try_algorithms_accepts [OF k(5,6) assms(6)] k(3,4) assms(7) by (simp add: verifyChecksumWithKey_def MinKeySizeBits_def)
  with k(1,2) assms(1-3,5,7) show ?thesis
    by (cases alg) (auto simp: check_signature_def calculateFileChecksum_def verifyChecksumWithCertificateFile_def IsFileExist_apply
        used_algorithm_def action_simps)
qed

definition is_tar :: "string \<Rightarrow> bool" where
  "is_tar p \<longleftrightarrow> ToLower (TrimPrefix (filepath_Ext p) ''.'') = ''tar''"

text \<open>The state in which the signature is checked, and the certificate that is used.\<close>

lemma VerifySignature_Ok:
  assumes "VerifySignature env signature p alg fs = (Ok (), t)"
  shows "\<exists>fs1 certPath. check_signature env signature p alg certPath fs1 = (Ok (), fs1) \<and>
    (fs1 = fs \<and> t = fs \<and> certPath = OTAPackageCertPath \<and> (is_tar p \<or> isValidPackageFile p) \<or>
     (\<exists>tc. is_tar p \<and> extractAndValidateTarContents env p fs = (Ok tc, fs) \<and> HasPEM tc \<and> certPath = temp_cert_path p \<and>
       WriteFile (workdir env) certPath (PEMCert tc) fs = (Ok (), fs1)))"
proof -
  obtain rc where c: "check_path (workdir env) p fs = (rc, fs)" "\<And>e. rc \<noteq> Crash e"
    by (cases "isFilePathAbsolute (workdir env) p"; cases "isFilePathSymLink fs (workdir env) p") (auto simp: check_path_apply)
  have rc: "rc = Ok ()" using assms c by (cases rc) (auto simp: VerifySignature_def action_simps)
  show ?thesis
  proof (cases "is_tar p")
    case False
    then have k: "check_signature env signature p alg OTAPackageCertPath fs = (Ok (), t)" "isValidPackageFile p"
      using assms c rc by (auto simp: VerifySignature_def is_tar_def andthen_apply wrap_apply fail_apply split: if_splits)
    with check_signature_Ok [OF k(1)] show ?thesis by blast
  next
    case True
    obtain rx tx where x: "extractAndValidateTarContents env p fs = (rx, tx)" by fastforce
    have tx: "tx = fs" using extract_result [OF x] by blast
    obtain tc where tc: "rx = Ok tc"
      using assms c rc True x tx by (cases rx) (auto simp: VerifySignature_def is_tar_def andthen_apply wrap_apply)
    show ?thesis
    proof (cases "HasPEM tc")
      case False
      then have k: "check_signature env signature p alg OTAPackageCertPath fs = (Ok (), t)"
        using assms c rc True x tx tc by (auto simp: VerifySignature_def is_tar_def andthen_apply wrap_apply fail_apply IsFileExist_apply split: if_splits)
      with check_signature_Ok [OF k] True show ?thesis by blast
    next
      case pem: True
      obtain rw fs1 where w: "WriteFile (workdir env) (temp_cert_path p) (PEMCert tc) fs = (rw, fs1)" by fastforce
      have rw: "rw = Ok ()"
        using assms c rc True x tx tc pem w by (cases rw) (auto simp: VerifySignature_def is_tar_def andthen_apply wrap_apply)
      obtain rk tk where k: "check_signature env signature p alg (temp_cert_path p) fs1 = (rk, tk)" by fastforce
      note ck = check_signature_Ok [OF k]
      have "rk = Ok ()"
        using assms c rc True x tx tc pem w rw k ck
        by (cases rk) (auto simp: VerifySignature_def is_tar_def andthen_apply wrap_apply deferred_def split: prod.splits outcome.splits)
      with k ck x tx tc pem True w rw show ?thesis by blast
    qed
  qed
qed

text \<open>An archive with a certificate of its own, on a node with a system certificate.\<close>

definition toy_env :: sig_env where
  "toy_env = \<lparr>workdir = [], tar_entries = (\<lambda>s. if s = ''T'' then
       [Inr \<lparr>Typeflag = CHR ''0'', hdr_Name = ''intel_manageability.conf'', hdr_Size = 1, body = ''c'', body_error = None\<rparr>,
        Inr \<lparr>Typeflag = CHR ''0'', hdr_Name = ''a.pem'', hdr_Size = 3, body = ''own'', body_error = None\<rparr>] else []),
     pem_Decode = Some, x509_Parse = (\<lambda>d. Inr (RSA 512 d)), hash_sum = (\<lambda>a s. s),
     VerifyPSS = (\<lambda>key a h sg. if sg = key then None else Some ''no''), deadline = (\<lambda>k. False)\<rparr>"

definition signed_fs :: filesystem where
  "signed_fs = map_of [([''tmp''], Directory), ([''tmp'', ''p.tar''], Regular ''T''), ([''tmp'', ''p.conf''], Regular ''c''), ([''etc''], Directory),
     ([''etc'', ''intel-manageability''], Directory), ([''etc'', ''intel-manageability'', ''public''], Directory),
     ([''etc'', ''intel-manageability'', ''public'', ''ota_package_cert.pem''], Regular ''sys'')]"





text \<open>Where the node has the certificate of the system, nothing is accepted without a signature.\<close>

theorem signature_required:
  assumes "resolve True False 40 fs [] (components (workdir env) OTAPackageCertPath) = Inr c"
  shows "fst (VerifySignature env [] p alg fs) \<noteq> Ok ()"
proof
  assume a: "fst (VerifySignature env [] p alg fs) = Ok ()"
  then obtain t where "VerifySignature env [] p alg fs = (Ok (), t)" by (metis prod.collapse)
  then obtain fs1 certPath where k: "check_signature env [] p alg certPath fs1 = (Ok (), fs1)"
    "fs1 = fs \<or> (\<exists>cp d. WriteFile (workdir env) cp d fs = (Ok (), fs1))"
    using VerifySignature_Ok by blast
  have "\<exists>q. resolve True False 40 fs1 [] (components (workdir env) OTAPackageCertPath) = Inr q"
    using k(2)
  proof
    assume "\<exists>cp d. WriteFile (workdir env) cp d fs = (Ok (), fs1)"
    then obtain cp d where w: "WriteFile (workdir env) cp d fs = (Ok (), fs1)" by blast
    obtain q where q: "fs1 = fs(q := Some (Regular d))" "fs q = None \<or> (\<exists>d. fs q = Some (Regular d))"
      using WriteFile_cases [OF w] by blast
    from write_keeps_resolve [of fs q, OF q(2) assms] q(1) show ?thesis by simp
  qed (use assms in blast)
  with k(1) show False
    by (auto simp: check_signature_def shouldRequireSignature_def IsFileExist_apply andthen_apply fail_apply)
qed

lemma signature_required_witness: "fst (VerifySignature toy_env [] ''/tmp/p.conf'' None signed_fs) \<noteq> Ok ()"
proof (rule signature_required)
  show "resolve True False 40 signed_fs [] (components (workdir toy_env) OTAPackageCertPath) =
    Inr [''etc'', ''intel-manageability'', ''public'', ''ota_package_cert.pem'']" by code_simp
qed

text \<open>An archive that brings its own certificate is verified against that certificate alone: whoever made the archive can sign it with a key of his own, whatever certificate the system has.\<close>

theorem embedded_certificate_trusted:
  assumes "check_path (workdir env) p fs = (Ok (), fs)" "is_tar p" "extractAndValidateTarContents env p fs = (Ok tc, fs)" "HasPEM tc"
    and "WriteFile (workdir env) (temp_cert_path p) (PEMCert tc) fs = (Ok (), fs1)" "ReadFile (workdir env) p fs1 = (Ok content, fs1)"
    and "key_accepts env (PEMCert tc) signature (hex_EncodeToString (hash_sum env (used_algorithm alg) content))"
    and "used_algorithm alg \<in> {SHA384, SHA256, SHA512}" "\<And>k. \<not> deadline env k" "signature \<noteq> []" "hash_sum env (used_algorithm alg) content \<noteq> []"
  shows "fst (VerifySignature env signature p alg fs) = Ok ()"
proof -
  have "check_signature env signature p alg (temp_cert_path p) fs1 = (Ok (), fs1)"
    using write_then_read [OF assms(5)] by (intro check_signature_accepts [OF assms(6)]) (use assms in auto)
  then show ?thesis
    using assms(1-5) by (auto simp: VerifySignature_def is_tar_def deferred_def ignore_apply andthen_apply wrap_apply os_Remove_path_def split: sum.splits)
qed

lemma embedded_certificate_trusted_witness: "fst (VerifySignature toy_env ''6f776e'' ''/tmp/p.tar'' None signed_fs) = Ok ()"
proof -
  let ?tc = "\<lparr>ConfigFile = ''intel_manageability.conf'', PEMCert = ''own'', HasConfig = True, HasPEM = True, PackageFiles = []\<rparr>"
  obtain r t where g: "extractAndValidateTarContents toy_env ''/tmp/p.tar'' signed_fs = (r, t)" by fastforce
  have "fst (extractAndValidateTarContents toy_env ''/tmp/p.tar'' signed_fs) = Ok ?tc" by code_simp
  with g extract_result have x: "extractAndValidateTarContents toy_env ''/tmp/p.tar'' signed_fs = (Ok ?tc, signed_fs)" by fastforce
  have c: "isFilePathAbsolute [] ''/tmp/p.tar'' = Inr ()" "isFilePathSymLink signed_fs [] ''/tmp/p.tar'' = Inr ()" "is_tar ''/tmp/p.tar''" by code_simp+
  obtain rw fs1 where w: "WriteFile [] (temp_cert_path ''/tmp/p.tar'') ''own'' signed_fs = (rw, fs1)" by fastforce
  have "fst (WriteFile [] (temp_cert_path ''/tmp/p.tar'') ''own'' signed_fs) = Ok ()"
    "fst (ReadFile [] ''/tmp/p.tar'' (snd (WriteFile [] (temp_cert_path ''/tmp/p.tar'') ''own'' signed_fs))) = Ok ''T''" by code_simp+
  with w have w1: "rw = Ok ()" "fst (ReadFile [] ''/tmp/p.tar'' fs1) = Ok ''T''" by simp_all
  then have rd: "ReadFile [] ''/tmp/p.tar'' fs1 = (Ok ''T'', fs1)" using ReadFile_state [of "[]" "''/tmp/p.tar''" fs1] by (metis prod.collapse)
  have h: "hex_DecodeString ''6f776e'' = Some ''own''"
    by (simp add: hex_value_def) (simp add: char_of_def bit_0 bit_simps)
  have k: "key_accepts toy_env ''own'' ''6f776e'' ck" for ck
    by (auto simp: key_accepts_def toy_env_def h simp del: hex_DecodeString.simps)
  show ?thesis
    by (rule embedded_certificate_trusted [where tc = ?tc and fs = signed_fs and ?fs1.0 = fs1 and content = "''T''"])
       (use x c w w1 rd k in \<open>auto simp: check_path_apply used_algorithm_def toy_env_def\<close>)
qed

end
