(* ===== verification/Inbd_Config.thy ===== *)
theory Inbd_Config
  imports Inbd_Signature "HOL-Library.AList"
begin

text \<open>
  The configuration commands of the in-band manageability daemon
  (\<^verbatim>\<open>in-band-manageability/internal/inbd/utils/config_command.go\<close>, \<^verbatim>\<open>json_validator.go\<close>): load,
  get, set, append and remove on \<^verbatim>\<open>/etc/intel_manageability.conf\<close>.

  JSON text is read and written by \<^verbatim>\<open>encoding/json\<close> and validated by a schema library: these are
  the functions \<open>json_Unmarshal\<close>, \<open>json_Marshal\<close> and \<open>schema_error\<close> of \<open>inbd_env\<close>. A decoded
  object is an association list; \<open>None\<close> is the nil map that the text \<^verbatim>\<open>null\<close> gives. A number that
  is an integer is \<open>JInt\<close>, any other keeps its printed form (\<open>JFloat\<close>); the rounding of integers
  beyond 2^53 to a float64 is not modelled.
\<close>

section \<open>JSON values\<close>

datatype json = JNull | JBool bool | JInt int | JFloat string | JStr string | JList "json list"
  | JObj "(string \<times> json) list"

type_synonym obj = "(string \<times> json) list"

record inbd_env = sig_env +
  json_Unmarshal :: "string \<Rightarrow> string + obj option"
  json_Marshal :: "obj \<Rightarrow> string"
  schema_error :: "string \<Rightarrow> string \<Rightarrow> string option"
  temp_random :: string

section \<open>Paths into an object\<close>

fun get_parts :: "string \<Rightarrow> json \<Rightarrow> string list \<Rightarrow> string + json" where
  "get_parts path cur [] = Inr cur"
| "get_parts path cur (p # ps) = (case cur of
     JObj m \<Rightarrow> (case map_of m p of None \<Rightarrow> Inl (''path not found: '' @ path) | Some v \<Rightarrow> get_parts path v ps)
   | _ \<Rightarrow> Inl (''invalid path: '' @ path))"

definition getJSONPath :: "obj option \<Rightarrow> string \<Rightarrow> string + json" where
  "getJSONPath m path = get_parts path (JObj (case m of None \<Rightarrow> [] | Some x \<Rightarrow> x)) (Split path (CHR ''.''))"

fun set_parts :: "string \<Rightarrow> obj \<Rightarrow> string list \<Rightarrow> json \<Rightarrow> string + obj" where
  "set_parts path m [] v = Inr m"
| "set_parts path m [p] v = Inr (AList.update p v m)"
| "set_parts path m (p # q # ps) v = (case map_of m p of
     None \<Rightarrow> map_sum id (\<lambda>x. AList.update p (JObj x) m) (set_parts path [] (q # ps) v)
   | Some (JObj x) \<Rightarrow> map_sum id (\<lambda>y. AList.update p (JObj y) m) (set_parts path x (q # ps) v)
   | Some _ \<Rightarrow> Inl (''invalid path: '' @ path))"

text \<open>An assignment into the nil map panics.\<close>

definition setJSONPath :: "obj option \<Rightarrow> string \<Rightarrow> json \<Rightarrow> ('s, obj option) action" where
  "setJSONPath m path v =
     (if TrimSpace path = [] then fail ''invalid path: path is empty''
      else case m of None \<Rightarrow> crash ''assignment to entry in nil map''
      | Some x \<Rightarrow> andthen (lift_result (set_parts path x (Split path (CHR ''.'')) v)) (\<lambda>y. ret (Some y)))"

definition ConfigurationAppendRemovePathsList :: "string list" where
  "ConfigurationAppendRemovePathsList = [''sotaSW'', ''trustedRepositories'']"

definition isAppendRemovePathAllowed :: "string \<Rightarrow> bool" where
  "isAppendRemovePathAllowed path =
     (TrimSpace (last (Split path (CHR ''.''))) \<in> set ConfigurationAppendRemovePathsList)"

section \<open>Printing a value\<close>

text \<open>\<^verbatim>\<open>%v\<close> of a float64 with an integer value: the shortest form, with an exponent from 1e+06 on.\<close>

definition strip_zeros :: "string \<Rightarrow> string" where
  "strip_zeros ds = rev (dropWhile (\<lambda>c. c = CHR ''0'') (rev ds))"

definition show_float :: "int \<Rightarrow> string" where
  "show_float i =
     (let n = nat \<bar>i\<bar>; sign = (if i < 0 then ''-'' else []) in
      if n < 1000000 then sign @ show_nat n
      else let ds = show_nat n; m = strip_zeros ds; e = length ds - 1 in
           sign @ take 1 m @ (if length m \<le> 1 then [] else ''.'' @ drop 1 m) @ ''e+'' @
           (if e < 10 then ''0'' else []) @ show_nat e)"

fun insert_key :: "string \<times> string \<Rightarrow> (string \<times> string) list \<Rightarrow> (string \<times> string) list" where
  "insert_key x [] = [x]"
| "insert_key x (y # ys) =
     (if lexordp (\<lambda>a b. (of_char a :: nat) < of_char b) (fst x) (fst y) then x # y # ys else y # insert_key x ys)"

text \<open>Maps are printed with their keys in order.\<close>

fun show_json :: "json \<Rightarrow> string" where
  "show_json JNull = ''<nil>''"
| "show_json (JBool b) = (if b then ''true'' else ''false'')"
| "show_json (JInt i) = show_float i"
| "show_json (JFloat s) = s"
| "show_json (JStr s) = s"
| "show_json (JList vs) = ''['' @ Join (map show_json vs) '' '' @ '']''"
| "show_json (JObj m) = ''map['' @ Join (map (\<lambda>(k, s). k @ '':'' @ s)
     (foldr insert_key (map (\<lambda>(k, v). (k, show_json v)) m) [])) '' '' @ '']''"

section \<open>The commands\<close>

definition configFilePath :: string where "configFilePath = ''/etc/intel_manageability.conf''"
definition schemaFilePath :: string where "schemaFilePath = ''/usr/share/inbd_schema.json''"

definition load_object :: "inbd_env \<Rightarrow> (filesystem, obj option) action" where
  "load_object env =
     andthen (wrap ''failed to read config: '' (ReadFile (workdir env) configFilePath)) (\<lambda>data.
     wrap ''invalid config JSON: '' (lift_result (json_Unmarshal env data)))"

fun get_each :: "obj option \<Rightarrow> string list \<Rightarrow> string list \<times> string list" where
  "get_each m [] = ([], [])"
| "get_each m (k0 # ks) = (let k = TrimSpace k0; (rs, es) = get_each m ks in
     if k = [] then ([] # rs, es)
     else case getJSONPath m k of
       Inl e \<Rightarrow> ([] # rs, (k @ '': '' @ e) # es)
     | Inr v \<Rightarrow> (show_json v # rs, es))"

text \<open>The value and the error text.\<close>

definition GetConfigCommand :: "inbd_env \<Rightarrow> string \<Rightarrow> (filesystem, string \<times> string) action" where
  "GetConfigCommand env key0 =
     (let key = TrimSpace key0 in
      if key = [] then fail ''path is required''
      else andthen (load_object env) (\<lambda>m.
           let keys = Split key (CHR '';''); (results, errs) = get_each m keys; errorStr = Join errs ''; '' in
           if length errs = length keys then fail errorStr
           else ret (Join results '';'', errorStr)))"

definition IsValidJSON :: "inbd_env \<Rightarrow> string \<Rightarrow> string \<Rightarrow> (filesystem, unit) action" where
  "IsValidJSON env schemaFile jsonFile =
     andthen (wrap ''failed to read schema file: '' (andthen (os_Open (workdir env) schemaFile) content_of)) (\<lambda>schema.
     andthen (wrap ''failed to read JSON file: '' (andthen (os_Open (workdir env) jsonFile) content_of)) (\<lambda>doc.
     case schema_error env schema doc of None \<Rightarrow> ret () | Some e \<Rightarrow> fail e))"

text \<open>The text is validated in a temporary file, which is removed again.\<close>

definition validate_text :: "inbd_env \<Rightarrow> string \<Rightarrow> string \<Rightarrow> string \<Rightarrow> (filesystem, unit) action" where
  "validate_text env pat pre text =
     andthen (wrap ''failed to create temp file for schema validation: ''
                (CreateTempFile (workdir env) [] pat (temp_random env))) (\<lambda>(name, q).
     deferred
       (andthen (modify (\<lambda>fs. fs(q := Some (Regular text)))) (\<lambda>_. wrap pre (IsValidJSON env schemaFilePath name)))
       (RemoveFile (workdir env) name))"

text \<open>\<^verbatim>\<open>json.MarshalIndent\<close>; the encoder of the validation adds a newline.\<close>

definition object_text :: "inbd_env \<Rightarrow> obj option \<Rightarrow> string" where
  "object_text env m = (case m of None \<Rightarrow> ''null'' | Some x \<Rightarrow> json_Marshal env x)"

definition validateConfigMapWithSchema :: "inbd_env \<Rightarrow> obj option \<Rightarrow> (filesystem, unit) action" where
  "validateConfigMapWithSchema env m = validate_text env ''inbd_config_*.json'' [] (object_text env m @ [nl])"

definition save_object :: "inbd_env \<Rightarrow> obj option \<Rightarrow> (filesystem, unit) action" where
  "save_object env m =
     andthen (wrap ''config validation failed: '' (validateConfigMapWithSchema env m)) (\<lambda>_.
     wrap ''failed to write config: '' (WriteFile (workdir env) configFilePath (object_text env m)))"

definition parse_value :: "string \<Rightarrow> json" where
  "parse_value value = (case ParseInt64 value of Some i \<Rightarrow> JInt i
     | None \<Rightarrow> (case ParseBool value of Some b \<Rightarrow> JBool b | None \<Rightarrow> JStr value))"

text \<open>The loop over the pairs that the three commands share: each pair is applied by \<open>f\<close>.\<close>

fun each_pair :: "(obj option \<Rightarrow> string \<Rightarrow> string \<Rightarrow> ('s, obj option) action) \<Rightarrow> obj option \<Rightarrow> string list \<Rightarrow>
  ('s, obj option) action" where
  "each_pair f m [] = ret m"
| "each_pair f m (kv # kvs) = (let keyValue = TrimSpace kv in
     if keyValue = [] then each_pair f m kvs
     else case SplitN2 keyValue (CHR '':'') of
       [key, value] \<Rightarrow> andthen (f m key value) (\<lambda>m'. each_pair f m' kvs)
     | _ \<Rightarrow> fail ''invalid format, expected key:value'')"

definition change_config ::
  "inbd_env \<Rightarrow> (obj option \<Rightarrow> string \<Rightarrow> string \<Rightarrow> (filesystem, obj option) action) \<Rightarrow> string \<Rightarrow> (filesystem, unit) action" where
  "change_config env f keyValues =
     andthen (load_object env) (\<lambda>m.
     andthen (each_pair f m (Split keyValues (CHR '';''))) (\<lambda>m'.
     save_object env m'))"

definition set_pair :: "obj option \<Rightarrow> string \<Rightarrow> string \<Rightarrow> ('s, obj option) action" where
  "set_pair m key value = setJSONPath m key (parse_value value)"

definition SetConfigCommand :: "inbd_env \<Rightarrow> string \<Rightarrow> (filesystem, unit) action" where
  "SetConfigCommand env keyValues = change_config env set_pair keyValues"

definition append_pair :: "obj option \<Rightarrow> string \<Rightarrow> string \<Rightarrow> ('s, obj option) action" where
  "append_pair m key value =
     (if \<not> isAppendRemovePathAllowed key then fail ''append not supported for this path''
      else andthen (lift_result (getJSONPath m key)) (\<lambda>arr. case arr of
        JList vs \<Rightarrow> setJSONPath m key (JList (vs @ [JStr value]))
      | _ \<Rightarrow> fail ''target is not a list''))"

definition AppendConfigCommand :: "inbd_env \<Rightarrow> string \<Rightarrow> (filesystem, unit) action" where
  "AppendConfigCommand env keyValues = change_config env append_pair keyValues"

definition remove_pair :: "obj option \<Rightarrow> string \<Rightarrow> string \<Rightarrow> ('s, obj option) action" where
  "remove_pair m key value =
     (if \<not> isAppendRemovePathAllowed key then fail ''remove not supported for this path''
      else andthen (lift_result (getJSONPath m key)) (\<lambda>arr. case arr of
        JList vs \<Rightarrow> setJSONPath m key (JList (filter (\<lambda>v. v \<noteq> JStr value) vs))
      | _ \<Rightarrow> fail ''target is not a list''))"

definition RemoveConfigCommand :: "inbd_env \<Rightarrow> string \<Rightarrow> (filesystem, unit) action" where
  "RemoveConfigCommand env keyValues = change_config env remove_pair keyValues"

section \<open>Loading a file\<close>

definition load_algorithm :: "string \<Rightarrow> string + string" where
  "load_algorithm hashAlgorithm =
     (if hashAlgorithm = [] then Inr ''sha384''
      else if ToLower hashAlgorithm \<in> {''sha256'', ''sha384'', ''sha512''} then Inr (ToLower hashAlgorithm)
      else Inl (''invalid hash algorithm: '' @ hashAlgorithm))"

fun config_in_tar :: "(string + tar_entry) list \<Rightarrow> string + string" where
  "config_in_tar [] = Inl ''intel_manageability.conf not found in tar archive''"
| "config_in_tar (Inl e # es) = Inl (''failed to read tar file: '' @ e)"
| "config_in_tar (Inr e # es) =
     (if filepath_Base (hdr_Name e) = ''intel_manageability.conf''
      then (case body_error e of None \<Rightarrow> Inr (body e) | Some err \<Rightarrow> Inl (''failed to read config from tar: '' @ err))
      else config_in_tar es)"

text \<open>A tar file is opened without the checks of the file service.\<close>

definition LoadConfigCommand :: "inbd_env \<Rightarrow> string \<Rightarrow> string \<Rightarrow> string \<Rightarrow> (filesystem, unit) action" where
  "LoadConfigCommand env uri signature hashAlgorithm =
     andthen (lift_result (load_algorithm hashAlgorithm)) (\<lambda>alg.
     andthen (if signature = [] then ret () else
              wrap ''signature verification failed: '' (VerifySignature env signature uri (ParseHashAlgorithm alg))) (\<lambda>_.
     andthen (if HasSuffix (ToLower uri) ''.tar''
              then andthen (wrap ''failed to open tar file: '' (andthen (os_Open (workdir env) uri) content_of)) (\<lambda>t.
                   lift_result (config_in_tar (tar_entries env t)))
              else wrap ''failed to read new config: '' (ReadFile (workdir env) uri)) (\<lambda>input.
     andthen (validate_text env ''inbd_config_load_*.json'' ''schema validation error: '' input) (\<lambda>_.
     wrap ''failed to write config: '' (WriteFile (workdir env) configFilePath input)))))"

section \<open>Validation leaves nothing behind\<close>

lemma IsValidJSON_state: "IsValidJSON env schemaFile jsonFile fs = (r, t) \<Longrightarrow> t = fs \<and> (\<forall>e. r \<noteq> Crash e)"
  by (auto simp: IsValidJSON_def os_Open_def content_of_apply action_simps
      split: sum.splits option.splits node.splits)

definition schema_text :: "path \<Rightarrow> filesystem \<Rightarrow> string option" where
  "schema_text cwd fs = (case resolve True False 40 fs [] (components cwd schemaFilePath) of
     Inr q \<Rightarrow> (case fs q of Some (Regular d) \<Rightarrow> Some d | _ \<Rightarrow> None) | Inl _ \<Rightarrow> None)"

lemma IsValidJSON_created:
  assumes "resolve False True 40 fs [] (components (workdir env) name) = Inr q" "fs q = None" "q \<noteq> []"
    and "schema_text (workdir env) fs = Some schema"
  shows "fst (IsValidJSON env schemaFilePath name (fs(q := Some (Regular text)))) =
    (case schema_error env schema text of None \<Rightarrow> Ok () | Some e \<Rightarrow> Err e)"
proof -
  from assms(4) obtain sq where s: "resolve True False 40 fs [] (components (workdir env) schemaFilePath) = Inr sq" "fs sq = Some (Regular schema)"
    by (auto simp: schema_text_def split: sum.splits option.splits node.splits)
  have "sq \<noteq> q" using s assms(2) by auto
  with s resolve_extend [OF s(1) assms(2)] resolve_created(2) [OF assms(1-3)] show ?thesis
    by (auto simp: IsValidJSON_def os_Open_def content_of_apply action_simps split: option.splits)
qed

lemma validate_text_result:
  assumes "validate_text env pat pre text fs = (r, t)"
  shows "t = fs \<and> (\<forall>e. r \<noteq> Crash e) \<and>
    (r = Ok () \<longrightarrow> schema_text (workdir env) fs = Some schema \<longrightarrow> schema_error env schema text = None)"
proof -
  obtain rc t1 where c: "CreateTempFile (workdir env) [] pat (temp_random env) fs = (rc, t1)" by fastforce
  note res = CreateTempFile_result [OF c]
  show ?thesis
  proof (cases rc)
    case (Ok nq)
    obtain name q where nq: "nq = (name, q)" by fastforce
    from res Ok nq have q: "fs q = None" "t1 = fs(q := Some (Regular []))" "q \<noteq> []"
        "resolve False True 40 fs [] (components (workdir env) name) = Inr q"
        "check_path (workdir env) name (fs(q := Some (Regular []))) = (Ok (), fs(q := Some (Regular [])))" by auto
    have rm: "RemoveFile (workdir env) name (fs(q := Some (Regular text))) = (Ok (), fs)"
      by (rule RemoveFile_temp [OF q(4,1,3,5)])
    obtain rv tv where v: "IsValidJSON env schemaFilePath name (fs(q := Some (Regular text))) = (rv, tv)" by fastforce
    have ok: "rv = Ok () \<Longrightarrow> schema_text (workdir env) fs = Some schema \<Longrightarrow> schema_error env schema text = None"
      using IsValidJSON_created [OF q(4,1,3), of schema "text"] v by (auto split: option.splits)
    from IsValidJSON_state [OF v] have tv: "tv = fs(q := Some (Regular text))" "\<forall>e. rv \<noteq> Crash e" by auto
    show ?thesis
      using assms c Ok nq q(2) v tv rm ok
      by (cases rv) (auto simp: validate_text_def deferred_def action_simps)
  qed (use assms c res in \<open>auto simp: validate_text_def action_simps\<close>)
qed

section \<open>A change is all or nothing\<close>

lemma save_object_result:
  assumes "ReadFile (workdir env) configFilePath fs = (Ok d, t0)" "resolve True False 40 fs [] (components (workdir env) configFilePath) = Inr q"
    and "save_object env m fs = (r, t)"
  shows "(r \<noteq> Ok () \<longrightarrow> t = fs) \<and> (r = Ok () \<longrightarrow> t = fs(q := Some (Regular (object_text env m))) \<and>
    (schema_text (workdir env) fs = Some schema \<longrightarrow> schema_error env schema (object_text env m @ [nl]) = None))"
proof -
  from ReadFile_WriteFile [OF assms(1)] assms(2)
  have w: "WriteFile (workdir env) configFilePath data fs = (Ok (), fs(q := Some (Regular data)))" for data by auto
  obtain rv tv where v: "validate_text env ''inbd_config_*.json'' [] (object_text env m @ [nl]) fs = (rv, tv)" by fastforce
  from validate_text_result [OF v, of schema] v assms(3) w show ?thesis
    by (cases rv) (auto simp: save_object_def validateConfigMapWithSchema_def object_text_def [symmetric] action_simps)
qed

lemma load_object_state: "load_object env fs = (r, t) \<Longrightarrow> t = fs"
  by (auto simp: load_object_def ReadFile_def os_Open_def content_of_apply validateOpenedFile_def Let_def lift_result_def
      action_simps split: sum.splits if_splits outcome.splits option.splits node.splits)

definition pure :: "('s, 'a) action \<Rightarrow> bool" where
  "pure m \<longleftrightarrow> (\<forall>s r t. m s = (r, t) \<longrightarrow> t = s)"

lemma pure_basic: "pure (ret x)" "pure (fail e)" "pure (crash e)" "pure (lift_result v)"
  by (auto simp: pure_def lift_result_def action_simps split: sum.splits)

lemma pure_andthen: "pure m \<Longrightarrow> (\<And>x. pure (f x)) \<Longrightarrow> pure (andthen m f)"
  by (auto simp: pure_def andthen_apply split: prod.splits outcome.splits) (metis)+

lemmas pure_rules = pure_basic pure_andthen

lemma pure_setJSONPath: "pure (setJSONPath m path v)"
  by (cases m) (auto simp: setJSONPath_def intro!: pure_rules)

lemma pure_pairs: "pure (set_pair m k v)" "pure (append_pair m k v)" "pure (remove_pair m k v)"
  unfolding set_pair_def append_pair_def remove_pair_def
  by (auto intro!: pure_rules pure_setJSONPath split: json.split)

lemma pure_each_pair: "(\<And>m k v. pure (f m k v)) \<Longrightarrow> pure (each_pair f m kvs)"
proof (induction f m kvs rule: each_pair.induct)
  case (2 f m kv kvs)
  then show ?case
    by (auto simp: Let_def intro!: pure_rules split: list.splits)
qed (simp add: pure_rules)

lemma change_config_result:
  assumes "\<And>m k v. pure (f m k v)" "change_config env f kvs fs = (r, t)"
  shows "(r \<noteq> Ok () \<longrightarrow> t = fs) \<and> (r = Ok () \<longrightarrow> (\<exists>q d m m'. resolve True False 40 fs [] (components (workdir env) configFilePath) = Inr q \<and>
      fs q = Some (Regular d) \<and> ReadFile (workdir env) configFilePath fs = (Ok d, fs) \<and> json_Unmarshal env d = Inr m \<and> each_pair f m (Split kvs (CHR '';'')) fs = (Ok m', fs) \<and>
      t = fs(q := Some (Regular (object_text env m'))) \<and>
      (schema_text (workdir env) fs = Some schema \<longrightarrow> schema_error env schema (object_text env m' @ [nl]) = None)))"
proof -
  obtain rl tl where l: "load_object env fs = (rl, tl)" by fastforce
  note tl = load_object_state [OF l]
  show ?thesis
  proof (cases rl)
    case (Ok m)
    then obtain d where d: "ReadFile (workdir env) configFilePath fs = (Ok d, fs)" "json_Unmarshal env d = Inr m"
      using l tl by (auto simp: load_object_def lift_result_def action_simps split: sum.splits outcome.splits prod.splits)
    then obtain q where q: "resolve True False 40 fs [] (components (workdir env) configFilePath) = Inr q" "fs q = Some (Regular d)"
      using ReadFile_WriteFile by blast
    obtain rp tp where p: "each_pair f m (Split kvs (CHR '';'')) fs = (rp, tp)" by fastforce
    have tp: "tp = fs" using pure_each_pair [of f m, OF assms(1)] p unfolding pure_def by blast
    show ?thesis
    proof (cases rp)
      case m': (Ok m')
      then have "save_object env m' fs = (r, t)"
        using assms(2) l tl Ok p tp by (simp add: change_config_def andthen_apply)
      from save_object_result [OF d(1) q(1) this, of schema] q d m' p tp show ?thesis by blast
    qed (use assms(2) l tl Ok p tp in \<open>auto simp: change_config_def andthen_apply\<close>)
  qed (use assms(2) l tl in \<open>auto simp: change_config_def andthen_apply\<close>)
qed

section \<open>The object as a store\<close>

locale json_store =
  fixes get :: "'m \<Rightarrow> string \<Rightarrow> string + json" and put :: "'m \<Rightarrow> string \<Rightarrow> json \<Rightarrow> string + 'm"
  assumes get_put: "put m p v = Inr m' \<Longrightarrow> get m' p = Inr v"
    and put_put: "put m p v = Inr m' \<Longrightarrow> put m' p w = put m p w"
    and put_get: "get m p = Inr v \<Longrightarrow> put m p v = Inr m"
    and put_defined: "get m p = Inr v \<Longrightarrow> \<exists>m'. put m p w = Inr m'"
begin

lemma put_back: "get m p = Inr v \<Longrightarrow> put m p w = Inr m' \<Longrightarrow> put m' p v = Inr m"
  using put_put put_get by metis

lemma append_remove:
  assumes "get m p = Inr (JList vs)" "v \<notin> set vs"
  obtains m' where "put m p (JList (vs @ [v])) = Inr m'" "get m' p = Inr (JList (vs @ [v]))"
    "put m' p (JList (filter (\<lambda>x. x \<noteq> v) (vs @ [v]))) = Inr m"
proof -
  obtain m' where m': "put m p (JList (vs @ [v])) = Inr m'" using put_defined [OF assms(1)] by blast
  have "filter (\<lambda>x. x \<noteq> v) (vs @ [v]) = vs" using assms(2) by (auto simp: filter_id_conv)
  with that [OF m' get_put [OF m']] put_back [OF assms(1) m'] show thesis by simp
qed

end

lemma set_parts_cases:
  assumes "set_parts path m (p # q # ps) v = Inr m'"
  obtains x y where "map_of m p = None \<and> x = [] \<or> map_of m p = Some (JObj x)"
    "set_parts path x (q # ps) v = Inr y" "m' = AList.update p (JObj y) m"
  using assms that by (auto simp: map_sum_def split: option.splits json.splits sum.splits)

lemma get_set_parts: "set_parts path m ps v = Inr m' \<Longrightarrow> ps \<noteq> [] \<Longrightarrow> get_parts path (JObj m') ps = Inr v"
proof (induction path m ps v arbitrary: m' rule: set_parts.induct)
  case (3 path m p q ps v)
  from 3(3) show ?case
    by (rule set_parts_cases) (use 3(1,2) in \<open>auto simp: update_conv' simp del: set_parts.simps\<close>)
qed (auto simp: update_conv')

lemma set_set_parts: "set_parts path m ps v = Inr m' \<Longrightarrow> set_parts path m' ps w = set_parts path m ps w"
proof (induction path m ps v arbitrary: m' rule: set_parts.induct)
  case (3 path m p q ps v)
  from 3(3) obtain x y where xy: "map_of m p = None \<and> x = [] \<or> map_of m p = Some (JObj x)"
    "set_parts path x (q # ps) v = Inr y" "m' = AList.update p (JObj y) m"
    by (rule set_parts_cases)
  have "set_parts path y (q # ps) w = set_parts path x (q # ps) w"
    using 3(1,2) xy(1,2) by blast
  with xy(1,3) show ?case
    by (cases "set_parts path x (q # ps) w") (auto simp: update_conv')
qed auto

lemma set_get_parts: "get_parts path (JObj m) ps = Inr v \<Longrightarrow> ps \<noteq> [] \<Longrightarrow> set_parts path m ps v = Inr m"
proof (induction path m ps v rule: set_parts.induct)
  case (3 path m p q ps v)
  then show ?case
    by (cases "map_of m p") (auto simp: update_triv split: json.splits)
qed (auto simp: update_triv split: option.splits)

lemma set_parts_defined: "get_parts path (JObj m) ps = Inr v \<Longrightarrow> ps \<noteq> [] \<Longrightarrow> \<exists>m'. set_parts path m ps w = Inr m'"
proof (induction path m ps v rule: set_parts.induct)
  case (3 path m p q ps v)
  then obtain x where x: "map_of m p = Some (JObj x)" "get_parts path (JObj x) (q # ps) = Inr v"
    by (cases "map_of m p") (auto split: json.splits option.splits)
  from 3(2) [OF x(1) refl x(2)] x show ?case by auto
qed auto

interpretation cfg: json_store "\<lambda>m p. getJSONPath (Some m) p" "\<lambda>m p v. set_parts p m (Split p (CHR ''.'')) v"
proof
qed (auto simp: getJSONPath_def Split_nonempty intro: get_set_parts set_set_parts set_get_parts set_parts_defined)

section \<open>The commands\<close>

text \<open>An environment for the examples: it knows two objects, and the schema wants a letter s.\<close>

definition conf0 :: obj where
  "conf0 = [(''s'', JObj [(''sotaSW'', JList [JStr ''a'']), (''n'', JInt 1)])]"

definition json_env :: inbd_env where
  "json_env = \<lparr>workdir = [], tar_entries = (\<lambda>s. []), pem_Decode = Some, x509_Parse = (\<lambda>d. Inr (RSA 512 d)), hash_sum = (\<lambda>a s. s),
     VerifyPSS = (\<lambda>key a h sg. if sg = key then None else Some ''no''), deadline = (\<lambda>k. False),
     json_Unmarshal = (\<lambda>s. if s = ''{s}'' then Inr (Some conf0) else if s = ''null'' then Inr None
       else if s = ''{s2}'' then Inr (Some [(''s'', JObj [(''sotaSW'', JList [JStr ''a'']), (''n'', JInt 7)])]) else Inl ''bad''),
     json_Marshal = (\<lambda>m. if m = conf0 then ''{s}'' else ''{s2}''),
     schema_error = (\<lambda>sch doc. if CHR ''s'' \<in> set doc then None else Some ''invalid''), temp_random = ''1''\<rparr>"

definition conf_fs :: "string \<Rightarrow> filesystem" where
  "conf_fs d = map_of [([''etc''], Directory), ([''etc'', ''intel_manageability.conf''], Regular d), ([''tmp''], Directory),
     ([''tmp'', ''new.conf''], Regular ''new s''), ([''etc'', ''intel-manageability''], Directory),
     ([''etc'', ''intel-manageability'', ''public''], Directory), ([''etc'', ''intel-manageability'', ''public'', ''ota_package_cert.pem''], Regular ''sys''), ([''usr''], Directory), ([''usr'', ''share''], Directory), ([''usr'', ''share'', ''inbd_schema.json''], Regular ''sch'')]"



lemma single_pair:
  assumes "CHR '';'' \<notin> set (key @ value)" "CHR '':'' \<notin> set key" "TrimSpace (key @ '':'' @ value) = key @ '':'' @ value"
  shows "each_pair f m (Split (key @ '':'' @ value) (CHR '';'')) = f m key value"
proof -
  have "CHR '';'' \<notin> set (key @ '':'' @ value)" using assms(1) by auto
  then have "Split (key @ '':'' @ value) (CHR '';'') = [key @ '':'' @ value]" by (rule Split_no_sep)
  moreover have "SplitN2 (key @ '':'' @ value) (CHR '':'') = [key, value]"
    using SplitN2_append_sep [OF assms(2)] by simp
  ultimately show ?thesis using assms(3) by (simp add: Let_def)
qed

lemma allowed_path_not_empty: "isAppendRemovePathAllowed key \<Longrightarrow> TrimSpace key \<noteq> []"
proof
  assume a: "isAppendRemovePathAllowed key" "TrimSpace key = []"
  have "\<not> is_space (CHR ''.'')" by (simp add: is_space_def)
  with a(2) have "CHR ''.'' \<notin> set key" unfolding TrimSpace_empty by blast
  with a show False by (simp add: isAppendRemovePathAllowed_def Split_no_sep ConfigurationAppendRemovePathsList_def)
qed

text \<open>A value that was set is the value that get prints: for one pair with a trimmed key, when decoding gives back what was encoded at that key.\<close>

theorem get_after_set:
  assumes "SetConfigCommand env (key @ '':'' @ value) fs = (Ok (), t)"
    and "CHR '';'' \<notin> set (key @ value)" "CHR '':'' \<notin> set key" "TrimSpace key = key" "TrimSpace (key @ '':'' @ value) = key @ '':'' @ value"
    and "\<And>m. getJSONPath (Some m) key = Inr (parse_value value) \<Longrightarrow>
      \<exists>x. json_Unmarshal env (json_Marshal env m) = Inr (Some x) \<and> getJSONPath (Some x) key = Inr (parse_value value)"
  shows "GetConfigCommand env key t = (Ok (show_json (parse_value value), []), t)"
proof -
  obtain q d m m' where c: "resolve True False 40 fs [] (components (workdir env) configFilePath) = Inr q" "fs q = Some (Regular d)"
    "each_pair set_pair m (Split (key @ '':'' @ value) (CHR '';'')) fs = (Ok m', fs)" "t = fs(q := Some (Regular (object_text env m')))"
    "ReadFile (workdir env) configFilePath fs = (Ok d, fs)"
    using change_config_result [of set_pair env "key @ '':'' @ value" fs "Ok ()" t] assms(1) pure_pairs(1)
    unfolding SetConfigCommand_def by blast
  then have "set_pair m key value fs = (Ok m', fs)"
    by (simp only: single_pair [OF assms(2,3,5)])
  then obtain x y where y: "m' = Some y" "set_parts key x (Split key (CHR ''.'')) (parse_value value) = Inr y" "key \<noteq> []"
    using assms(4) by (auto simp: set_pair_def setJSONPath_def lift_result_def action_simps split: if_splits option.splits sum.splits)
  then have g: "getJSONPath (Some y) key = Inr (parse_value value)"
    using cfg.get_put by blast
  from assms(6) [OF this] obtain x' where x': "json_Unmarshal env (object_text env m') = Inr (Some x')"
    "getJSONPath (Some x') key = Inr (parse_value value)" using y(1) by (auto simp: object_text_def)
  have rd: "ReadFile (workdir env) configFilePath t = (Ok (object_text env m'), t)"
    using ReadFile_content [OF c(5,1,2)] c(4) by simp
  show ?thesis
    using rd x' assms(2,4) y(3) Split_no_sep [of "CHR '';''" key]
    by (simp add: GetConfigCommand_def load_object_def wrap_apply andthen_apply lift_result_def action_simps)
qed

lemma get_after_set_witness:
  "\<exists>t. SetConfigCommand json_env ''s.n:7'' (conf_fs ''{s}'') = (Ok (), t) \<and> GetConfigCommand json_env ''s.n'' t = (Ok (''7'', []), t)"
proof -
  obtain r t where g: "SetConfigCommand json_env ''s.n:7'' (conf_fs ''{s}'') = (r, t)" by fastforce
  have "fst (SetConfigCommand json_env ''s.n:7'' (conf_fs ''{s}'')) = Ok ()" by code_simp
  with g have set: "SetConfigCommand json_env (''s.n'' @ '':'' @ ''7'') (conf_fs ''{s}'') = (Ok (), t)" by simp
  have n: "show_json (JInt 7) = ''7''"
    by (simp add: show_float_def show_nat.simps [of 7]) (simp add: char_of_def bit_0)
  have v: "parse_value ''7'' = JInt 7" "TrimSpace ''s.n'' = ''s.n''" "TrimSpace ''s.n:7'' = ''s.n:7''" by code_simp+
  have get: "getJSONPath (Some conf0) ''s.n'' = Inr (JInt 1)"
    "getJSONPath (Some [(''s'', JObj [(''sotaSW'', JList [JStr ''a'']), (''n'', JInt 7)])]) ''s.n'' = Inr (JInt 7)" by code_simp+
  have "GetConfigCommand json_env ''s.n'' t = (Ok (show_json (parse_value ''7''), []), t)"
  proof (rule get_after_set [OF set])
    fix m assume "getJSONPath (Some m) ''s.n'' = Inr (parse_value ''7'')"
    with get(1) v(1) have "m \<noteq> conf0" by auto
    then show "\<exists>x. json_Unmarshal json_env (json_Marshal json_env m) = Inr (Some x) \<and> getJSONPath (Some x) ''s.n'' = Inr (parse_value ''7'')"
      using get(2) v(1) by (simp add: json_env_def)
  qed (use v in simp_all)
  with set v n show ?thesis by auto
qed

text \<open>Removing undoes appending: a value that was not in the list is appended and removed again, and the object is the one before.\<close>

theorem remove_undoes_append:
  assumes "isAppendRemovePathAllowed key" "getJSONPath (Some m) key = Inr (JList vs)" "JStr v \<notin> set vs"
  shows "\<exists>m'. append_pair (Some m) key v s = (Ok (Some m'), s) \<and> getJSONPath (Some m') key = Inr (JList (vs @ [JStr v])) \<and>
    remove_pair (Some m') key v s = (Ok (Some m), s)"
proof -
  note n = allowed_path_not_empty [OF assms(1)]
  obtain m' where m': "set_parts key m (Split key (CHR ''.'')) (JList (vs @ [JStr v])) = Inr m'"
    "getJSONPath (Some m') key = Inr (JList (vs @ [JStr v]))"
    "set_parts key m' (Split key (CHR ''.'')) (JList (filter (\<lambda>x. x \<noteq> JStr v) (vs @ [JStr v]))) = Inr m"
    using cfg.append_remove [OF assms(2,3)] by blast
  with assms n show ?thesis
    by (intro exI [of _ m']) (simp add: append_pair_def remove_pair_def setJSONPath_def action_simps)
qed

lemma remove_undoes_append_witness:
  "\<exists>m'. append_pair (Some conf0) ''s.sotaSW'' ''b'' () = (Ok (Some m'), ()) \<and> remove_pair (Some m') ''s.sotaSW'' ''b'' () = (Ok (Some conf0), ())"
proof -
  have "isAppendRemovePathAllowed ''s.sotaSW''" "getJSONPath (Some conf0) ''s.sotaSW'' = Inr (JList [JStr ''a''])" by code_simp+
  from remove_undoes_append [OF this, of "''b''" "()"] show ?thesis by auto
qed

text \<open>A configuration file that holds the text null is decoded to a nil map: setting any key then panics.\<close>

theorem null_config_panics:
  assumes "ReadFile (workdir env) configFilePath fs = (Ok d, fs)" "json_Unmarshal env d = Inr None"
    and "CHR '';'' \<notin> set (key @ value)" "CHR '':'' \<notin> set key" "TrimSpace key \<noteq> []" "TrimSpace (key @ '':'' @ value) = key @ '':'' @ value"
  shows "SetConfigCommand env (key @ '':'' @ value) fs = (Crash ''assignment to entry in nil map'', fs)"
proof -
  have "each_pair set_pair None (Split (key @ '':'' @ value) (CHR '';'')) fs = (Crash ''assignment to entry in nil map'', fs)"
    unfolding single_pair [OF assms(3,4,6)] using assms(5) by (simp add: set_pair_def setJSONPath_def action_simps)
  with assms(1,2) show ?thesis
    by (simp add: SetConfigCommand_def change_config_def load_object_def action_simps)
qed

lemma null_config_panics_witness:
  "SetConfigCommand json_env ''s.n:7'' (conf_fs ''null'') = (Crash ''assignment to entry in nil map'', conf_fs ''null'')"
proof -
  obtain r t where g: "ReadFile (workdir json_env) configFilePath (conf_fs ''null'') = (r, t)" by fastforce
  have "fst (ReadFile (workdir json_env) configFilePath (conf_fs ''null'')) = Ok ''null''" by code_simp
  with g ReadFile_WriteFile have rd: "ReadFile (workdir json_env) configFilePath (conf_fs ''null'') = (Ok ''null'', conf_fs ''null'')" by fastforce
  have "TrimSpace ''s.n'' \<noteq> []" "TrimSpace ''s.n:7'' = ''s.n:7''" by code_simp+
  then show ?thesis
    using null_config_panics [OF rd, of "''s.n''" "''7''"] by (simp add: json_env_def conf0_def)
qed

text \<open>A configuration is loaded only after every check: the hash algorithm is one of the three, a given signature was verified with it, and the text passed the installed schema; then the text is the new configuration and, apart from the verification, the only change.\<close>

theorem load_is_checked:
  assumes "LoadConfigCommand env uri sig alg0 fs = (Ok (), t)"
  shows "\<exists>alg s input q. load_algorithm alg0 = Inr alg \<and> alg \<in> {''sha256'', ''sha384'', ''sha512''} \<and>
    (sig = [] \<and> s = fs \<or> VerifySignature env sig uri (ParseHashAlgorithm alg) fs = (Ok (), s)) \<and>
    (\<forall>schema. schema_text (workdir env) s = Some schema \<longrightarrow> schema_error env schema input = None) \<and>
    t = s(q := Some (Regular input))"
proof -
  obtain alg where alg: "load_algorithm alg0 = Inr alg"
    using assms by (cases "load_algorithm alg0") (auto simp: LoadConfigCommand_def action_simps)
  define inp :: "(filesystem, string) action" where "inp = (if HasSuffix (ToLower uri) ''.tar''
              then andthen (wrap ''failed to open tar file: '' (andthen (os_Open (workdir env) uri) content_of)) (\<lambda>t.
                   lift_result (config_in_tar (tar_entries env t)))
              else wrap ''failed to read new config: '' (ReadFile (workdir env) uri))"
  define load where "load = andthen inp (\<lambda>input. andthen (validate_text env ''inbd_config_load_*.json'' ''schema validation error: '' input) (\<lambda>_.
      wrap ''failed to write config: '' (WriteFile (workdir env) configFilePath input)))"
  have l: "andthen (if sig = [] then ret () else wrap ''signature verification failed: '' (VerifySignature env sig uri (ParseHashAlgorithm alg)))
      (\<lambda>_. load) fs = (Ok (), t)"
    using assms alg unfolding LoadConfigCommand_def inp_def load_def by simp
  obtain s where s: "sig = [] \<and> s = fs \<or> VerifySignature env sig uri (ParseHashAlgorithm alg) fs = (Ok (), s)" "load s = (Ok (), t)"
    using l by (cases "sig = []") (auto simp: andthen_eq_Ok wrap_apply ret_apply split: prod.splits outcome.splits)
  obtain ri ti where ri: "inp s = (ri, ti)" by fastforce
  have ti: "ti = s"
    using ri by (auto simp: inp_def os_Open_def content_of_apply lift_result_def action_simps
      split: sum.splits if_splits outcome.splits option.splits node.splits prod.splits dest: ReadFile_state)
  obtain input where i: "ri = Ok input"
    using s(2) ri by (cases ri) (auto simp: load_def andthen_apply)
  obtain rv tv where v: "validate_text env ''inbd_config_load_*.json'' ''schema validation error: '' input s = (rv, tv)" by fastforce
  note vr = validate_text_result [OF v]
  have ok: "rv = Ok ()" "WriteFile (workdir env) configFilePath input s = (Ok (), t)"
    using s(2) ri i ti v vr by (cases rv; auto simp: load_def andthen_apply wrap_apply split: prod.splits outcome.splits)+
  obtain q where "t = s(q := Some (Regular input))" using WriteFile_result [OF ok(2)] by blast
  moreover have "alg \<in> {''sha256'', ''sha384'', ''sha512''}"
    using alg by (auto simp: load_algorithm_def split: if_splits)
  ultimately show ?thesis using alg s(1) vr ok(1) by blast
qed

lemma load_is_checked_witness:
  "\<exists>s t. LoadConfigCommand json_env ''/tmp/new.conf'' ''737973'' ''SHA256'' (conf_fs ''{s}'') = (Ok (), t) \<and>
     VerifySignature json_env ''737973'' ''/tmp/new.conf'' (Some SHA256) (conf_fs ''{s}'') = (Ok (), s)"
proof -
  obtain r t where g: "LoadConfigCommand json_env ''/tmp/new.conf'' ''737973'' ''SHA256'' (conf_fs ''{s}'') = (r, t)" by fastforce
  have "fst (LoadConfigCommand json_env ''/tmp/new.conf'' ''737973'' ''SHA256'' (conf_fs ''{s}'')) = Ok ()" by code_simp
  with g have l: "LoadConfigCommand json_env ''/tmp/new.conf'' ''737973'' ''SHA256'' (conf_fs ''{s}'') = (Ok (), t)" by simp
  have "load_algorithm ''SHA256'' = Inr ''sha256''" "ParseHashAlgorithm ''sha256'' = Some SHA256" by code_simp+
  with load_is_checked [OF l] l show ?thesis by auto
qed

text \<open>Without a signature the verification is not even called: a configuration loads although the
  node has the certificate with which the verification would insist on a signature.\<close>

lemma unsigned_config_loads:
  "case LoadConfigCommand json_env ''/tmp/new.conf'' [] [] (conf_fs ''{s}'') of (r, t) \<Rightarrow>
     r = Ok () \<and> t [''etc'', ''intel_manageability.conf''] = Some (Regular ''new s'')"
  "fst (VerifySignature json_env [] ''/tmp/new.conf'' None (conf_fs ''{s}'')) = Err ''signature is required to proceed with the update''"
  by code_simp+

end
