(* ===== verification/Inbd_World.thy ===== *)
theory Inbd_World
  imports Inbd_Config
begin

text \<open>
  What the updaters of the in-band manageability daemon share: the commands they may execute
  (\<^verbatim>\<open>internal/common\<close>), the state file (\<^verbatim>\<open>state_file.go\<close>), the configuration of the updater
  (\<^verbatim>\<open>config.go\<close>), the token (\<^verbatim>\<open>token.go\<close>), power control (\<^verbatim>\<open>power_control.go\<close>) and the two update
  logs (\<^verbatim>\<open>os_updater/emt/update_logger.go\<close>).

  The world is the file system, the commands that were run and a tick that counts the answers
  from outside. What a command prints and does to the file system, the answers to HTTP requests,
  the clock, file system statistics and the JSON and JWT codecs are functions of \<open>daemon_env\<close>.
\<close>

section \<open>The world\<close>

record inbd_world =
  files :: filesystem
  ran :: "string list list"
  wtick :: nat

record INBDState =
  RestartReason :: string
  SnapshotNumber :: int
  TiberVersion :: string
  PackageList :: string

definition no_state :: INBDState where
  "no_state = \<lparr>RestartReason = [], SnapshotNumber = 0, TiberVersion = [], PackageList = []\<rparr>"

record Configurations =
  TrustedRepositories :: "string list"
  ProceedWithoutRollback :: bool

record UpdateStatus =
  us_Status :: string
  us_Type :: string
  us_Time :: int
  us_Metadata :: string
  us_Error :: string
  us_Version :: string

text \<open>The TLS settings of a client that the code sets up; None stands for a client with Go's defaults.\<close>

record http_client =
  ServerName :: string
  InsecureSkipVerify :: bool
  RootCAs :: "string option"

record http_request =
  http_Method :: string
  http_URL :: string
  http_Headers :: "(string \<times> string) list"

record http_response =
  StatusCode :: int
  Header :: "string \<Rightarrow> string"
  Body :: string
  Body_error :: "string option"

datatype DownloadMode = DOWNLOAD_MODE_UNSPECIFIED | DOWNLOAD_MODE_FULL | DOWNLOAD_MODE_NO_DOWNLOAD | DOWNLOAD_MODE_DOWNLOAD_ONLY

record UpdateSystemSoftwareRequest =
  Url :: string
  Signature :: string
  Mode :: DownloadMode
  DoNotReboot :: bool
  Packages :: "string list"

text \<open>A command prints on the standard output and error, in this order \<open>combined\<close>, and may fail.
  \<open>statfs\<close> gives Bavail, Bsize and the type; \<open>jwt_exp\<close> the claim exp of a token, None when it is not a
  number; \<open>list_dir\<close> the names in a directory, in order.\<close>

record command_result =
  stdout :: string
  stderr :: string
  combined :: string
  failure :: "string option"

record daemon_env = inbd_env +
  run_command :: "nat \<Rightarrow> string list \<Rightarrow> filesystem \<Rightarrow> command_result \<times> filesystem"
  http_Do :: "nat \<Rightarrow> http_client option \<Rightarrow> http_request \<Rightarrow> string + http_response"
  INBM_CUSTOM_CA_FILE :: string
  AppendCertsFromPEM :: "string \<Rightarrow> bool"
  clock :: "nat \<Rightarrow> int"
  statfs :: "nat \<Rightarrow> string \<Rightarrow> string + (64 word \<times> 64 word \<times> int)"
  list_dir :: "filesystem \<Rightarrow> path \<Rightarrow> string list"
  setenv_error :: "nat \<Rightarrow> string \<Rightarrow> string option"
  lsb_release_a :: "nat \<Rightarrow> string + string"
  goos :: string
  jwt_exp :: "string \<Rightarrow> string + int option"
  state_Marshal :: "INBDState \<Rightarrow> string"
  state_Unmarshal :: "string \<Rightarrow> string + INBDState"
  config_Unmarshal :: "string \<Rightarrow> string + Configurations"
  status_Marshal :: "UpdateStatus \<Rightarrow> string"
  granular_Marshal :: "(string \<times> string) list \<Rightarrow> string"
  request_Marshal :: "UpdateSystemSoftwareRequest \<Rightarrow> string + string"

definition on_files :: "(filesystem, 'a) action \<Rightarrow> (inbd_world, 'a) action" where
  "on_files m = (\<lambda>w. case m (files w) of (r, fs) \<Rightarrow> (r, w\<lparr>files := fs\<rparr>))"

definition tock :: "(nat \<Rightarrow> 'a) \<Rightarrow> (inbd_world, 'a) action" where
  "tock f = (\<lambda>w. (Ok (f (wtick w)), w\<lparr>wtick := Suc (wtick w)\<rparr>))"

text \<open>A response is the status code and the text; a failing step gives the code.\<close>

type_synonym response = "int \<times> string"

definition or_code :: "int \<Rightarrow> ('s, 'b) action \<Rightarrow> ('b \<Rightarrow> ('s, response) action) \<Rightarrow> ('s, response) action" where
  "or_code code m f = andthen (attempt m) (\<lambda>r. case r of Inl e \<Rightarrow> ret (code, e) | Inr x \<Rightarrow> f x)"

definition or_500 :: "('s, response) action \<Rightarrow> ('s, response) action" where
  "or_500 m = or_code 500 m ret"

section \<open>Commands\<close>

definition RebootCmd :: string where "RebootCmd = ''/usr/sbin/reboot''"
definition ShutdownCmd :: string where "ShutdownCmd = ''/usr/sbin/shutdown''"
definition TruncateCmd :: string where "TruncateCmd = ''truncate''"
definition OsUpdateToolCmd :: string where "OsUpdateToolCmd = ''/usr/bin/os-update-tool.sh''"
definition GPGCmd :: string where "GPGCmd = ''/usr/bin/gpg''"
definition IPCmd :: string where "IPCmd = ''ip''"
definition SnapperCmd :: string where "SnapperCmd = ''snapper''"
definition AptGetCmd :: string where "AptGetCmd = ''/usr/bin/apt-get''"
definition DpkgCmd :: string where "DpkgCmd = ''/usr/bin/dpkg''"

definition allowedCommands :: "string list" where
  "allowedCommands = [RebootCmd, ShutdownCmd, TruncateCmd, OsUpdateToolCmd, GPGCmd, IPCmd, SnapperCmd, AptGetCmd, DpkgCmd]"

lemmas command_defs = RebootCmd_def ShutdownCmd_def TruncateCmd_def OsUpdateToolCmd_def GPGCmd_def IPCmd_def
  SnapperCmd_def AptGetCmd_def DpkgCmd_def

text \<open>The output is there even when the command fails.\<close>

definition spawn :: "'a daemon_env_scheme \<Rightarrow> string list \<Rightarrow> (inbd_world, command_result) action" where
  "spawn env args = (\<lambda>w. case run_command env (wtick w) args (files w) of
     (r, fs) \<Rightarrow> (Ok r, w\<lparr>files := fs, ran := ran w @ [args], wtick := Suc (wtick w)\<rparr>))"

definition Execute_allowed :: "'a daemon_env_scheme \<Rightarrow> string list \<Rightarrow> (inbd_world, command_result) action" where
  "Execute_allowed env args = (case args of
     [] \<Rightarrow> ret \<lparr>stdout = [], stderr = [], combined = [], failure = Some ''command is not allowed''\<rparr>
   | c # _ \<Rightarrow> if c \<notin> set allowedCommands
              then ret \<lparr>stdout = [], stderr = [], combined = [], failure = Some (''command '' @ c @ '' is not allowed'')\<rparr>
              else spawn env args)"

text \<open>For callers that only look at the error.\<close>

definition Execute_err :: "'a daemon_env_scheme \<Rightarrow> string list \<Rightarrow> (inbd_world, unit) action" where
  "Execute_err env args = andthen (Execute_allowed env args) (\<lambda>r. case failure r of None \<Rightarrow> ret () | Some e \<Rightarrow> fail e)"

definition RebootSystem :: "'a daemon_env_scheme \<Rightarrow> (inbd_world, unit) action" where
  "RebootSystem env = wrap ''reboot failed: '' (Execute_err env [RebootCmd])"

definition ShutdownSystem :: "'a daemon_env_scheme \<Rightarrow> (inbd_world, unit) action" where
  "ShutdownSystem env = wrap ''shutdown failed: '' (Execute_err env [ShutdownCmd, ''now''])"

section \<open>The operating system\<close>

definition detectLinuxDistribution :: "'a daemon_env_scheme \<Rightarrow> (inbd_world, string) action" where
  "detectLinuxDistribution env = andthen (tock (lsb_release_a env)) (\<lambda>r. case r of
     Inl e \<Rightarrow> fail e
   | Inr out \<Rightarrow> (let output = filter (\<lambda>c. c \<noteq> nl) out in
       if Contains output ''Ubuntu'' then ret ''Ubuntu''
       else if Contains (ToLower output) ''microvisor'' then ret ''EMT'' else ret output))"

definition Detect_OS :: "'a daemon_env_scheme \<Rightarrow> (inbd_world, string) action" where
  "Detect_OS env = (if goos env = ''linux'' then detectLinuxDistribution env else fail ''unsupported OS type detected'')"

section \<open>The configuration of the updater\<close>

definition LoadConfig :: "'a daemon_env_scheme \<Rightarrow> string \<Rightarrow> (inbd_world, Configurations) action" where
  "LoadConfig env filePath =
     andthen (wrap ''failed to read configuration file: '' (on_files (ReadFile (workdir env) filePath))) (\<lambda>content.
     wrap ''failed to parse configuration file: '' (lift_result (config_Unmarshal env content)))"

definition IsTrustedRepository :: "string \<Rightarrow> Configurations \<Rightarrow> bool" where
  "IsTrustedRepository url config = (\<exists>repo \<in> set (TrustedRepositories config). HasPrefix url repo)"

definition ConfigFilePath :: string where "ConfigFilePath = ''/etc/intel_manageability.conf''"
definition CachePathPrefix :: string where "CachePathPrefix = ''/var/cache/manageability''"
definition SOTADownloadDir :: string where "SOTADownloadDir = CachePathPrefix @ ''/repository-tool/sota''"
definition JWTTokenPath :: string where
  "JWTTokenPath = ''/etc/intel_edge_node/tokens/release-service/access_token''"

section \<open>The token\<close>

definition IsTokenExpired :: "'a daemon_env_scheme \<Rightarrow> string \<Rightarrow> (inbd_world, bool) action" where
  "IsTokenExpired env tokenString = (case jwt_exp env tokenString of
     Inl e \<Rightarrow> fail (''error parsing token: '' @ e)
   | Inr None \<Rightarrow> fail ''token does not have a valid exp claim''
   | Inr (Some e) \<Rightarrow> andthen (tock (clock env)) (\<lambda>now. ret (e * 1000000000 < now)))"

text \<open>\<^verbatim>\<open>afero.ReadFile\<close>: a read without the checks of the file service.\<close>

definition raw_ReadFile :: "path \<Rightarrow> string \<Rightarrow> (filesystem, string) action" where
  "raw_ReadFile cwd p = andthen (os_Open cwd p) content_of"

definition ReadJWTToken :: "'a daemon_env_scheme \<Rightarrow> string \<Rightarrow> (inbd_world, string) action" where
  "ReadJWTToken env p =
     andthen (on_files (raw_ReadFile (workdir env) p)) (\<lambda>token.
     let tokenStr = TrimSpace token in
     if token = [] \<or> ToLower tokenStr = ''anonymous'' then ret []
     else andthen (wrap ''error checking token expiration: '' (IsTokenExpired env tokenStr)) (\<lambda>expired.
     if expired then fail ''token is expired'' else ret tokenStr))"

section \<open>The state file\<close>

definition StateFilePath :: string where "StateFilePath = ''/var/intel-manageability/inbd_state''"

definition ClearStateFile :: "'a daemon_env_scheme \<Rightarrow> (inbd_world, unit) action" where
  "ClearStateFile env = wrap ''failed to truncate inbd state file: ''
     (Execute_err env [TruncateCmd, ''-s'', ''0'', StateFilePath])"

text \<open>An open for writing that creates the file but does not truncate it.\<close>

definition os_OpenCreate :: "path \<Rightarrow> string \<Rightarrow> (filesystem, path) action" where
  "os_OpenCreate cwd p = (\<lambda>fs. case resolve True True 40 fs [] (components cwd p) of
     Inl _ \<Rightarrow> (Err ''error opening file'', fs)
   | Inr q \<Rightarrow> (case (if q = [] then Some Directory else fs q) of
        Some Directory \<Rightarrow> (Err ''error opening file'', fs)
      | None \<Rightarrow> (Ok q, fs(q := Some (Regular [])))
      | Some _ \<Rightarrow> (Ok q, fs)))"

text \<open>Writing at the start of an open file leaves what is behind.\<close>

definition overwrite :: "path \<Rightarrow> string \<Rightarrow> (filesystem, unit) action" where
  "overwrite q content = modify (\<lambda>fs. case fs q of
     Some (Regular d) \<Rightarrow> fs(q := Some (Regular (content @ drop (length content) d))) | _ \<Rightarrow> fs)"

definition StateDir :: string where "StateDir = ''/var/intel-manageability''"

definition os_MkdirAll :: "path \<Rightarrow> string \<Rightarrow> (filesystem, unit) action" where
  "os_MkdirAll cwd p = mkdirs [] (components cwd p)"

definition WriteToStateFile :: "'a daemon_env_scheme \<Rightarrow> string \<Rightarrow> (inbd_world, unit) action" where
  "WriteToStateFile env content = on_files (
     andthen (wrap ''error creating directory: '' (os_MkdirAll (workdir env) StateDir)) (\<lambda>_.
     andthen (OpenFile (workdir env) StateFilePath (os_OpenCreate (workdir env) StateFilePath)) (\<lambda>q.
     overwrite q content)))"

definition ReadStateFile :: "'a daemon_env_scheme \<Rightarrow> (inbd_world, INBDState) action" where
  "ReadStateFile env =
     andthen (on_files (Open (workdir env) StateFilePath)) (\<lambda>_.
     andthen (on_files (raw_ReadFile (workdir env) StateFilePath)) (\<lambda>fileContent.
     wrap ''error parsing JSON: '' (lift_result (state_Unmarshal env fileContent))))"

section \<open>The update logs\<close>

definition UpdateStatusLogPath :: string where "UpdateStatusLogPath = ''/var/log/inbm-update-status.log''"
definition GranularLogPath :: string where "GranularLogPath = ''/var/log/inbm-update-log.log''"

text \<open>An open that truncates an existing file only.\<close>

definition os_OpenTruncExisting :: "path \<Rightarrow> string \<Rightarrow> (filesystem, path) action" where
  "os_OpenTruncExisting cwd p = (\<lambda>fs. case resolve True False 40 fs [] (components cwd p) of
     Inl _ \<Rightarrow> (Err ''error opening file'', fs)
   | Inr q \<Rightarrow> (case (if q = [] then Some Directory else fs q) of
        Some (Regular _) \<Rightarrow> (Ok q, fs(q := Some (Regular [])))
      | Some Special \<Rightarrow> (Ok q, fs)
      | _ \<Rightarrow> (Err ''error opening file'', fs)))"

text \<open>The frame of both logs: create the file when it is missing, open it with truncation, write.
  Errors are only printed.\<close>

definition write_log :: "'a daemon_env_scheme \<Rightarrow> string \<Rightarrow> (inbd_world, string) action \<Rightarrow> (inbd_world, unit) action" where
  "write_log env p text =
     ignore (
       andthen (on_files (\<lambda>fs. if resolve True False 40 fs [] (components (workdir env) p) = Inl ENOENT
                               then os_OpenTrunc (workdir env) p fs else (Ok [], fs))) (\<lambda>_.
       andthen (on_files (OpenFile (workdir env) p (os_OpenTruncExisting (workdir env) p))) (\<lambda>q.
       andthen text (\<lambda>d. on_files (overwrite q d)))))"

definition WriteUpdateStatus :: "'a daemon_env_scheme \<Rightarrow> string \<Rightarrow> string \<Rightarrow> string \<Rightarrow> (inbd_world, unit) action" where
  "WriteUpdateStatus env status metadata errorDetails =
     write_log env UpdateStatusLogPath (andthen (tock (clock env)) (\<lambda>now. ret (status_Marshal env
       \<lparr>us_Status = status, us_Type = ''sota'', us_Time = now, us_Metadata = metadata, us_Error = errorDetails, us_Version = ''v1''\<rparr>)))"

fun find_value :: "string list \<Rightarrow> string list \<Rightarrow> string option" where
  "find_value keys [] = None"
| "find_value keys (l # ls) = (case filter (HasPrefix l) keys of
     [] \<Rightarrow> find_value keys ls | _ \<Rightarrow> Some (drop (Suc (length (takeWhile (\<lambda>c. c \<noteq> CHR ''='') l))) l))"

definition imageIDPath :: string where "imageIDPath = ''/etc/image-id''"

definition GetImageBuildDate :: "'a daemon_env_scheme \<Rightarrow> (inbd_world, string) action" where
  "GetImageBuildDate env =
     andthen (on_files (Open (workdir env) imageIDPath)) (\<lambda>q.
     andthen (attempt (on_files (content_of q))) (\<lambda>r. case r of
       Inl _ \<Rightarrow> ret []
     | Inr d \<Rightarrow> ret (case find_value [''IMAGE_BUILD_DATE=''] (scanner_lines d) of None \<Rightarrow> [] | Some v \<Rightarrow> v)))"

text \<open>The quotes are trimmed on both sides.\<close>

definition getVersionForOS :: "'a daemon_env_scheme \<Rightarrow> string \<Rightarrow> (inbd_world, string) action" where
  "getVersionForOS env p =
     andthen (on_files (os_Open (workdir env) p)) (\<lambda>q.
     andthen (attempt (on_files (content_of q))) (\<lambda>r. case r of
       Inl _ \<Rightarrow> ret []
     | Inr d \<Rightarrow> ret (case find_value [''VERSION_ID='', ''VERSION=''] (scanner_lines d) of None \<Rightarrow> []
                | Some v \<Rightarrow> TrimFunc (\<lambda>c. c = CHR 0x22) v)))"

definition WriteGranularLogWithOSType ::
  "'a daemon_env_scheme \<Rightarrow> string \<Rightarrow> string \<Rightarrow> string \<Rightarrow> (inbd_world, unit) action" where
  "WriteGranularLogWithOSType env statusDetail failureReason osType =
     write_log env GranularLogPath (
       if statusDetail = ''SUCCESS'' then
         andthen (attempt (if osType = ''ubuntu'' then getVersionForOS env ''/etc/os-release'' else GetImageBuildDate env)) (\<lambda>r.
         ret (granular_Marshal env [(''StatusDetail.Status'', statusDetail), (''Version'', case r of Inl _ \<Rightarrow> [] | Inr v \<Rightarrow> v)]))
       else ret (granular_Marshal env [(''StatusDetail.Status'', statusDetail), (''FailureReason'', failureReason)]))"

definition WriteGranularLog :: "'a daemon_env_scheme \<Rightarrow> string \<Rightarrow> string \<Rightarrow> (inbd_world, unit) action" where
  "WriteGranularLog env statusDetail failureReason = WriteGranularLogWithOSType env statusDetail failureReason ''emt''"

text \<open>The two logs of a failure.\<close>

definition report :: "'a daemon_env_scheme \<Rightarrow> string \<Rightarrow> string \<Rightarrow> string \<Rightarrow> string \<Rightarrow> string \<Rightarrow> (inbd_world, unit) action" where
  "report env osType status metadata errorDetails reason =
     andthen (WriteUpdateStatus env status metadata errorDetails) (\<lambda>_.
     WriteGranularLogWithOSType env status reason osType)"

definition request_text :: "'a daemon_env_scheme \<Rightarrow> UpdateSystemSoftwareRequest \<Rightarrow> string" where
  "request_text env req = (case request_Marshal env req of Inl _ \<Rightarrow> ''{}'' | Inr s \<Rightarrow> s)"

section \<open>Which commands an operation runs\<close>

text \<open>\<open>emits P m\<close>: whatever \<open>m\<close> adds to the commands satisfies \<open>P\<close>, and nothing is taken away.\<close>

definition commands_ok :: "(string list \<Rightarrow> bool) \<Rightarrow> string list list \<Rightarrow> inbd_world \<Rightarrow> bool" where
  "commands_ok P r w \<longleftrightarrow> (\<exists>cs. ran w = r @ cs \<and> (\<forall>c \<in> set cs. P c))"

definition emits :: "(string list \<Rightarrow> bool) \<Rightarrow> (inbd_world, 'a) action \<Rightarrow> bool" where
  "emits P m \<longleftrightarrow> (\<forall>r. keeps (commands_ok P r) m)"

named_theorems emits_rules \<open>which commands an operation runs\<close>

lemma emitsD: "emits P m \<Longrightarrow> m w = (r, w') \<Longrightarrow> \<exists>cs. ran w' = ran w @ cs \<and> (\<forall>c \<in> set cs. P c)"
  unfolding emits_def using keepsD [of "commands_ok P (ran w)" m w r w'] by (auto simp: commands_ok_def)

lemma emitsI:
  assumes "\<And>w r w'. m w = (r, w') \<Longrightarrow> \<exists>cs. ran w' = ran w @ cs \<and> (\<forall>c \<in> set cs. P c)"
  shows "emits P m"
  unfolding emits_def
proof (intro allI keepsI)
  fix r w assume "commands_ok P r w"
  moreover obtain x w' where "m w = (x, w')" by fastforce
  ultimately show "commands_ok P r (snd (m w))" using assms by (fastforce simp: commands_ok_def)
qed

lemma emits_weaken: "emits P m \<Longrightarrow> (\<And>c. P c \<Longrightarrow> Q c) \<Longrightarrow> emits Q m"
  using emitsD by (intro emitsI) blast

lemma emits_basic [emits_rules]: "emits P (ret x)" "emits P (fail e)" "emits P (crash e)" "emits P (asks f)"
  by (simp_all add: emits_def keeps_rules)

lemma emits_andthen [emits_rules]: "emits P m \<Longrightarrow> (\<And>x. emits P (f x)) \<Longrightarrow> emits P (andthen m f)"
  by (simp add: emits_def keeps_rules)

lemma emits_wrap [emits_rules]: "emits P m \<Longrightarrow> emits P (wrap p m)"
  by (simp add: emits_def keeps_rules)

lemma emits_attempt [emits_rules]: "emits P m \<Longrightarrow> emits P (attempt m)"
  by (simp add: emits_def keeps_rules)

lemma emits_ignore [emits_rules]: "emits P m \<Longrightarrow> emits P (ignore m)"
  by (simp add: emits_def keeps_rules)

lemma emits_deferred [emits_rules]: "emits P m \<Longrightarrow> emits P d \<Longrightarrow> emits P (deferred m d)"
  by (simp add: emits_def keeps_rules)

lemma emits_if [emits_rules]: "(b \<Longrightarrow> emits P m) \<Longrightarrow> (\<not> b \<Longrightarrow> emits P n) \<Longrightarrow> emits P (if b then m else n)"
  by simp

lemma emits_lift_result [emits_rules]: "emits P (lift_result r)"
  by (simp add: emits_def keeps_rules)

lemma emits_foreach [emits_rules]: "(\<And>x. x \<in> set xs \<Longrightarrow> emits P (f x)) \<Longrightarrow> emits P (foreach f xs)"
  by (induction xs) (simp_all add: emits_basic emits_andthen)

lemma emits_case_option [emits_rules]:
  "emits P m \<Longrightarrow> (\<And>x. emits P (f x)) \<Longrightarrow> emits P (case a of None \<Rightarrow> m | Some x \<Rightarrow> f x)"
  by (cases a) simp_all

lemma emits_case_sum [emits_rules]:
  "(\<And>e. emits P (f e)) \<Longrightarrow> (\<And>x. emits P (g x)) \<Longrightarrow> emits P (case a of Inl e \<Rightarrow> f e | Inr x \<Rightarrow> g x)"
  by (cases a) simp_all

lemma emits_case_prod [emits_rules]: "(\<And>x y. emits P (f x y)) \<Longrightarrow> emits P (case a of (x, y) \<Rightarrow> f x y)"
  by (cases a) simp_all

lemma emits_on_files [emits_rules]: "emits P (on_files m)"
  by (auto simp: emits_def keeps_def commands_ok_def on_files_def split: prod.splits)

lemma emits_tock [emits_rules]: "emits P (tock f)"
  by (auto simp: emits_def keeps_def commands_ok_def tock_def)

lemma emits_spawn: "P args \<Longrightarrow> emits P (spawn env args)"
  by (auto simp: emits_def keeps_def commands_ok_def spawn_def split: prod.splits)

lemma emits_Execute: "(args \<noteq> [] \<Longrightarrow> hd args \<in> set allowedCommands \<Longrightarrow> P args) \<Longrightarrow> emits P (Execute_allowed env args)"
  unfolding Execute_allowed_def by (cases args) (auto intro!: emits_rules emits_spawn)

lemma emits_Execute_err: "(args \<noteq> [] \<Longrightarrow> hd args \<in> set allowedCommands \<Longrightarrow> P args) \<Longrightarrow> emits P (Execute_err env args)"
  unfolding Execute_err_def by (intro emits_rules emits_Execute)

lemma emits_or_code [emits_rules]: "emits P m \<Longrightarrow> (\<And>x. emits P (f x)) \<Longrightarrow> emits P (or_code c m f)"
  unfolding or_code_def by (intro emits_rules)

lemma emits_or_500 [emits_rules]: "emits P m \<Longrightarrow> emits P (or_500 m)"
  unfolding or_500_def by (intro emits_rules)

lemma emits_quiet [emits_rules]:
  "emits P (detectLinuxDistribution env)" "emits P (Detect_OS env)" "emits P (LoadConfig env p)"
  "emits P (IsTokenExpired env t)" "emits P (ReadJWTToken env p)" "emits P (WriteToStateFile env s)"
  "emits P (ReadStateFile env)" "emits P (GetImageBuildDate env)" "emits P (getVersionForOS env p)"
  unfolding detectLinuxDistribution_def Detect_OS_def LoadConfig_def IsTokenExpired_def ReadJWTToken_def
    WriteToStateFile_def ReadStateFile_def GetImageBuildDate_def getVersionForOS_def Let_def
  by (intro emits_rules; (simp add: Let_def)?; intro emits_rules)+

lemma emits_write_log [emits_rules]: "emits P m \<Longrightarrow> emits P (write_log env p m)"
  unfolding write_log_def by (intro emits_rules)

lemma emits_report [emits_rules]:
  "emits P (WriteUpdateStatus env s m e)" "emits P (WriteGranularLogWithOSType env s f ty)" "emits P (report env ty s m e r)"
  unfolding report_def WriteUpdateStatus_def WriteGranularLogWithOSType_def by (intro emits_rules)+

section \<open>Operations that only read\<close>

lemma os_Open_pure: "os_Open cwd p fs = (r, t) \<Longrightarrow> t = fs \<and> (\<forall>e. r \<noteq> Crash e)"
  by (auto simp: os_Open_def split: sum.splits)

lemma check_path_pure: "check_path cwd p fs = (r, t) \<Longrightarrow> t = fs \<and> (\<forall>e. r \<noteq> Crash e)"
  by (auto simp: check_path_apply split: sum.splits)

lemma Open_pure: "Open cwd p fs = (r, t) \<Longrightarrow> t = fs \<and> (\<forall>e. r \<noteq> Crash e)"
  using check_path_pure os_Open_pure by (fastforce simp: Open_def andthen_apply split: prod.splits outcome.splits)

definition reads_only :: "(inbd_world, 'a) action \<Rightarrow> bool" where
  "reads_only m \<longleftrightarrow> (\<forall>w. snd (m w) = w \<and> (\<forall>e. fst (m w) \<noteq> Crash e))"

lemma reads_onlyD: "reads_only m \<Longrightarrow> m w = (r, w') \<Longrightarrow> w' = w \<and> (\<forall>e. r \<noteq> Crash e)"
  unfolding reads_only_def by (metis fst_conv snd_conv)

named_theorems reads_rules \<open>operations that only read\<close>

lemma reads_basic [reads_rules]: "reads_only (ret x)" "reads_only (fail e)" "reads_only (asks f)"
  by (simp_all add: reads_only_def action_simps)

lemma reads_andthen [reads_rules]: "reads_only m \<Longrightarrow> (\<And>x. reads_only (f x)) \<Longrightarrow> reads_only (andthen m f)"
  by (auto simp: reads_only_def andthen_apply split: prod.splits outcome.splits) (metis fst_conv snd_conv)+

lemma reads_wrap [reads_rules]: "reads_only m \<Longrightarrow> reads_only (wrap p m)"
  by (auto simp: reads_only_def wrap_apply split: prod.splits outcome.splits) (metis fst_conv snd_conv)+

lemma reads_attempt [reads_rules]: "reads_only m \<Longrightarrow> reads_only (attempt m)"
  by (auto simp: reads_only_def attempt_apply split: prod.splits outcome.splits) (metis fst_conv snd_conv)+

lemma reads_ifs [reads_rules]:
  "reads_only m \<Longrightarrow> reads_only n \<Longrightarrow> reads_only (if b then m else n)"
  "reads_only (lift_result v)"
  "(\<And>e. reads_only (f e)) \<Longrightarrow> (\<And>x. reads_only (g x)) \<Longrightarrow> reads_only (case a of Inl e \<Rightarrow> f e | Inr x \<Rightarrow> g x)"
  by (simp_all add: lift_result_def reads_basic split: sum.splits)

lemma reads_on_files: "(\<And>fs r t. m fs = (r, t) \<Longrightarrow> t = fs \<and> (\<forall>e. r \<noteq> Crash e)) \<Longrightarrow> reads_only (on_files m)"
  by (auto simp: reads_only_def on_files_def split: prod.splits)

lemma content_pure: "content_of q fs = (r, t) \<Longrightarrow> t = fs \<and> (\<forall>e. r \<noteq> Crash e)"
  by (auto simp: content_of_apply split: option.splits node.splits)

lemma raw_ReadFile_pure: "raw_ReadFile cwd p fs = (r, t) \<Longrightarrow> t = fs \<and> (\<forall>e. r \<noteq> Crash e)"
  using os_Open_pure content_pure
  by (fastforce simp: raw_ReadFile_def andthen_apply split: prod.splits outcome.splits)

lemma reads_files [reads_rules]:
  "reads_only (on_files (os_Open cwd p))" "reads_only (on_files (Open cwd p))" "reads_only (on_files (content_of q))"
  "reads_only (on_files (ReadFile cwd p))" "reads_only (on_files (raw_ReadFile cwd p))"
  by (rule reads_on_files, erule os_Open_pure Open_pure content_pure ReadFile_state raw_ReadFile_pure)+

lemma reads_version [reads_rules]:
  "reads_only (GetImageBuildDate env)" "reads_only (getVersionForOS env p)" "reads_only (ReadStateFile env)"
  "reads_only (LoadConfig env p)"
  unfolding GetImageBuildDate_def getVersionForOS_def ReadStateFile_def LoadConfig_def by (intro reads_rules)+

section \<open>No operation panics\<close>

lemma reads_only_safe: "reads_only m \<Longrightarrow> safe m"
  unfolding reads_only_def safe_def by (metis fst_conv)

lemma safe_on_files [safe_rules]: "safe m \<Longrightarrow> safe (on_files m)"
  by (auto simp: safe_def on_files_def split: prod.splits)

lemma safe_pure: "(\<And>fs r t. m fs = (r, t) \<Longrightarrow> t = fs \<and> (\<forall>e. r \<noteq> Crash e)) \<Longrightarrow> safe m"
  unfolding safe_def by blast

lemma safe_open [safe_rules]:
  "safe (os_Open cwd p)" "safe (Open cwd p)" "safe (content_of q)" "safe (ReadFile cwd p)" "safe (raw_ReadFile cwd p)"
  "safe (check_path cwd p)" "safe (IsFileExist cwd p)"
  by (rule safe_pure, erule os_Open_pure Open_pure content_pure ReadFile_state raw_ReadFile_pure check_path_pure)+
    (simp add: IsFileExist_def safe_basic)

lemma safe_files [safe_rules]:
  "safe (os_OpenTrunc cwd p)" "safe (os_OpenTruncExisting cwd p)" "safe (os_OpenCreate cwd p)" "safe (os_Remove_path cwd p)"
  by (auto simp: safe_def os_OpenTrunc_def os_OpenTruncExisting_def os_OpenCreate_def os_Remove_path_def
      split: sum.splits option.splits node.splits if_splits)

lemma safe_mkdirs [safe_rules]: "safe (mkdirs d cs)"
  by (induction d cs rule: mkdirs.induct) (auto simp: safe_def action_simps split: sum.splits if_splits prod.splits outcome.splits)

lemma safe_compound [safe_rules]:
  "safe (RemoveFile cwd p)" "safe op \<Longrightarrow> safe (OpenFile cwd p op)" "safe (overwrite q d)" "safe (os_MkdirAll cwd p)"
  unfolding RemoveFile_def OpenFile_def overwrite_def os_MkdirAll_def by (intro safe_rules; assumption?)+

lemma safe_world [safe_rules]:
  "safe (tock f)" "safe (spawn env c)" 
  by (auto simp: safe_def tock_def spawn_def split: prod.splits)

lemma safe_Execute_allowed [safe_rules]: "safe (Execute_allowed env c)" "safe (Execute_err env c)"
  unfolding Execute_allowed_def Execute_err_def by (intro safe_rules)+

lemma safe_or_code [safe_rules]: "safe m \<Longrightarrow> (\<And>x. safe (f x)) \<Longrightarrow> safe (or_code c m f)"
  unfolding or_code_def by (intro safe_rules)

lemma safe_or_500 [safe_rules]: "safe m \<Longrightarrow> safe (or_500 m)"
  unfolding or_500_def by (intro safe_rules)

lemma safe_state [safe_rules]:
  "safe (LoadConfig env p)" "safe (GetImageBuildDate env)" "safe (getVersionForOS env p)" "safe (ReadStateFile env)"
  "safe (Detect_OS env)" "safe (ReadJWTToken env p)" "safe (WriteToStateFile env d)" "safe (ClearStateFile env)"
  "safe (RebootSystem env)" "safe (ShutdownSystem env)"
  using reads_version [THEN reads_only_safe]
  by (auto simp: Detect_OS_def detectLinuxDistribution_def ReadJWTToken_def IsTokenExpired_def WriteToStateFile_def
      ClearStateFile_def RebootSystem_def ShutdownSystem_def Let_def intro!: safe_rules)

lemma safe_logs [safe_rules]:
  "safe m \<Longrightarrow> safe (write_log env p m)" "safe (WriteUpdateStatus env s m2 e)" "safe (WriteGranularLogWithOSType env s f ty)"
  "safe (report env ty s m2 e r)"
proof -
  have cr: "safe (\<lambda>fs. if resolve True False 40 fs [] (components (workdir env) p) = Inl ENOENT then os_OpenTrunc (workdir env) p fs else (Ok [], fs))" for env :: "'a daemon_env_scheme" and p
    using safe_files(1) by (simp add: safe_def)
  show w: "safe m \<Longrightarrow> safe (write_log env p m)" for m p unfolding write_log_def by (intro safe_rules cr; assumption?)
  show u: "safe (WriteUpdateStatus env s m2 e)" for s m2 e unfolding WriteUpdateStatus_def by (intro w safe_rules)
  show g: "safe (WriteGranularLogWithOSType env s f ty)" for s f ty unfolding WriteGranularLogWithOSType_def by (intro w safe_rules)
  show "safe (report env ty s m2 e r)" unfolding report_def by (intro safe_rules u g)
qed

section \<open>An environment for the examples\<close>

text \<open>A node whose commands do and print nothing. Its two states are written as the texts old and young.\<close>

definition state_of :: "int \<Rightarrow> INBDState" where
  "state_of n = no_state\<lparr>RestartReason := ''sota'', SnapshotNumber := n\<rparr>"

definition toy_daemon :: daemon_env where
  "toy_daemon = inbd_env.extend json_env (daemon_env.fields
     (\<lambda>n c fs. (\<lparr>stdout = [], stderr = [], combined = [], failure = None\<rparr>, fs)) (\<lambda>n c q. Inl ''offline'') [] (\<lambda>ca. False)
     (\<lambda>n. 0) (\<lambda>n p. Inr (1, 1, 0)) (\<lambda>fs q. []) (\<lambda>n v. None) (\<lambda>n. Inr ''Ubuntu'') ''linux'' (\<lambda>t. Inr None)
     (\<lambda>st. if SnapshotNumber st = 0 then ''old'' else ''young'')
     (\<lambda>d. if d = ''old'' then Inr (state_of 0) else if d = ''young'' then Inr (state_of 5) else Inl ''bad'')
     (\<lambda>d. Inl ''bad'') (\<lambda>st. us_Status st) (\<lambda>m. []) (\<lambda>q. Inr ''{}''))"

end
