(* ===== verification/Go_Time.thy ===== *)
theory Go_Time
  imports Go_Strings
begin

text \<open>
  Go's \<^verbatim>\<open>time.Parse\<close> for the layouts the agents use, \<^verbatim>\<open>strings.Fields\<close> and \<^verbatim>\<open>FieldsFunc\<close>.

  A layout is a list of items; a literal is matched by \<^verbatim>\<open>skip\<close>, where a run of spaces stands for any
  run of spaces, the empty one at the end of the text included. The value is the civil date, the
  second of the day and the offset from UTC; fractions of a second are read and dropped.
\<close>

section \<open>Words of a text\<close>

lemma drop_word_shorter: "dropWhile p s \<noteq> [] \<Longrightarrow> length (dropWhile (\<lambda>c. \<not> p c) (dropWhile p s)) < length s"
proof -
  assume ne: "dropWhile p s \<noteq> []"
  then have "\<not> p (hd (dropWhile p s))" by (rule hd_dropWhile)
  with ne obtain c u where cu: "dropWhile p s = c # u" "\<not> p c" by (cases "dropWhile p s") auto
  have "length (dropWhile (\<lambda>c. \<not> p c) u) \<le> length u" by (rule length_dropWhile_le)
  also have "length u < length s" using length_dropWhile_le [of p s] cu(1) by simp
  finally show ?thesis using cu by simp
qed

function FieldsFunc :: "(char \<Rightarrow> bool) \<Rightarrow> string \<Rightarrow> string list" where
  "FieldsFunc p s = (let t = dropWhile p s in
     if t = [] then [] else takeWhile (\<lambda>c. \<not> p c) t # FieldsFunc p (dropWhile (\<lambda>c. \<not> p c) t))"
  by pat_completeness auto
termination
  by (relation "measure (\<lambda>(p, s). length s)") (simp_all add: drop_word_shorter)

declare FieldsFunc.simps [simp del]

definition Fields :: "string \<Rightarrow> string list" where
  "Fields s = FieldsFunc is_space s"

text \<open>\<^verbatim>\<open>strings.Trim\<close> with the characters of \<open>cutset\<close>.\<close>

definition Trim :: "string \<Rightarrow> string \<Rightarrow> string" where
  "Trim s cutset = TrimFunc (\<lambda>c. c \<in> set cutset) s"

lemma FieldsFunc_words: "w \<in> set (FieldsFunc p s) \<Longrightarrow> w \<noteq> [] \<and> (\<forall>c \<in> set w. \<not> p c)"
proof (induction p s rule: FieldsFunc.induct)
  case (1 p s)
  show ?case
  proof (cases "dropWhile p s = []")
    case True
    then have "FieldsFunc p s = []" by (simp add: FieldsFunc.simps [of p s])
    with 1(2) show ?thesis by simp
  next
    case False
    let ?t = "dropWhile p s"
    have eq: "FieldsFunc p s = takeWhile (\<lambda>c. \<not> p c) ?t # FieldsFunc p (dropWhile (\<lambda>c. \<not> p c) ?t)"
      by (simp only: FieldsFunc.simps [of p s] Let_def if_not_P [OF False])
    have "\<not> p (hd ?t)" by (rule hd_dropWhile [OF False])
    with False have first: "takeWhile (\<lambda>c. \<not> p c) ?t \<noteq> []" by (cases ?t) auto
    from 1(2) eq have "w = takeWhile (\<lambda>c. \<not> p c) ?t \<or> w \<in> set (FieldsFunc p (dropWhile (\<lambda>c. \<not> p c) ?t))"
      by (metis set_ConsD)
    then show ?thesis
    proof
      assume "w = takeWhile (\<lambda>c. \<not> p c) ?t"
      with first show ?thesis by (auto dest: set_takeWhileD)
    qed (rule 1(1) [OF refl False])
  qed
qed

section \<open>Dates\<close>

record civil =
  Year :: int
  Month :: nat
  Day :: nat
  Seconds :: int
  Offset :: int

definition leap :: "int \<Rightarrow> bool" where
  "leap y = (4 dvd y \<and> (\<not> 100 dvd y \<or> 400 dvd y))"

definition daysIn :: "nat \<Rightarrow> int \<Rightarrow> nat" where
  "daysIn m y = (if m = 2 then (if leap y then 29 else 28) else if m \<in> {4, 6, 9, 11} then 30 else 31)"

text \<open>The days from the first of January of the year 1 to the first of January of \<open>y\<close>.\<close>

definition days_before_year :: "int \<Rightarrow> int" where
  "days_before_year y = (let n = y - 1 in 365 * n + n div 4 - n div 100 + n div 400)"

definition days_before_month :: "nat \<Rightarrow> int \<Rightarrow> nat" where
  "days_before_month m y = sum_list (map (\<lambda>k. daysIn k y) [1..<m])"

text \<open>Seconds since 1970-01-01 UTC.\<close>

definition unix_time :: "civil \<Rightarrow> int" where
  "unix_time c = (days_before_year (Year c) + int (days_before_month (Month c) (Year c)) + int (Day c) - 1 - 719162) * 86400
     + Seconds c - Offset c"

section \<open>Parsing\<close>

datatype layout_item = LongYear | ShortYear | ZeroMonth | ShortMonth | LongMonth | DayOfMonth | ZeroDay
  | Hour | ZeroMinute | ZeroSecond | ISO8601ColonTZ | Literal string

definition cutspace :: "string \<Rightarrow> string" where
  "cutspace s = dropWhile (\<lambda>c. c = CHR '' '') s"

function skip_prefix :: "string \<Rightarrow> string \<Rightarrow> string option" where
  "skip_prefix v [] = Some v"
| "skip_prefix v (p # ps) =
     (if p = CHR '' '' then
        (case v of c # _ \<Rightarrow> if c = CHR '' '' then skip_prefix (cutspace v) (cutspace ps) else None
         | [] \<Rightarrow> skip_prefix [] (cutspace ps))
      else case v of c # v' \<Rightarrow> if c = p then skip_prefix v' ps else None | [] \<Rightarrow> None)"
  by pat_completeness auto
termination
  by (relation "measure (\<lambda>(v, ps). length ps)") (auto simp: cutspace_def le_imp_less_Suc length_dropWhile_le)

text \<open>One or two digits; \<open>fixed\<close> asks for two.\<close>

definition getnum :: "bool \<Rightarrow> string \<Rightarrow> (nat \<times> string) option" where
  "getnum fixed s = (case s of [] \<Rightarrow> None
     | a # t \<Rightarrow> (case digit_of a of None \<Rightarrow> None
         | Some x \<Rightarrow> (case (case t of [] \<Rightarrow> None | b # _ \<Rightarrow> digit_of b) of
             None \<Rightarrow> if fixed then None else Some (x, t)
           | Some y \<Rightarrow> Some (10 * x + y, tl t))))"

definition month_names :: "string list" where
  "month_names = [''January'', ''February'', ''March'', ''April'', ''May'', ''June'', ''July'', ''August'',
     ''September'', ''October'', ''November'', ''December'']"

fun lookup_name :: "nat \<Rightarrow> string list \<Rightarrow> string \<Rightarrow> (nat \<times> string) option" where
  "lookup_name i [] v = None"
| "lookup_name i (n # ns) v = (if HasPrefix (ToLower v) (ToLower n) then Some (i, drop (length n) v)
     else lookup_name (Suc i) ns v)"

text \<open>The two digits of a year: a sign is allowed, and no digit at all is 0.\<close>

definition atoi2 :: "string \<Rightarrow> int option" where
  "atoi2 s = (case s of c # ds \<Rightarrow>
       if c \<in> {CHR ''-'', CHR ''+''} then map_option (\<lambda>n. if c = CHR ''-'' then - int n else int n) (read_digits 0 ds)
       else map_option int (read_digits 0 s)
     | [] \<Rightarrow> Some 0)"

definition in_range :: "nat \<Rightarrow> nat \<Rightarrow> (nat \<times> string) option \<Rightarrow> (nat \<times> string) option" where
  "in_range lo hi r = (case r of Some (n, s) \<Rightarrow> if lo \<le> n \<and> n \<le> hi then r else None | None \<Rightarrow> None)"

definition drop_fraction :: "string \<Rightarrow> string" where
  "drop_fraction s = (case s of c # d # t \<Rightarrow>
       if c \<in> {CHR ''.'', CHR '',''} \<and> digit_of d \<noteq> None then dropWhile (\<lambda>x. digit_of x \<noteq> None) (d # t) else s
     | _ \<Rightarrow> s)"

definition parse_zone :: "string \<Rightarrow> (int \<times> string) option" where
  "parse_zone s = (case s of
     CHR ''Z'' # t \<Rightarrow> Some (0, t)
   | sign # a # b # CHR '':'' # c # d # t \<Rightarrow>
       (case (in_range 0 24 (getnum True [a, b]), in_range 0 60 (getnum True [c, d])) of
          (Some (h, _), Some (m, _)) \<Rightarrow>
            if sign = CHR ''+'' then Some (int (h * 60 + m) * 60, t)
            else if sign = CHR ''-'' then Some (- (int (h * 60 + m) * 60), t) else None
        | _ \<Rightarrow> None)
   | _ \<Rightarrow> None)"

definition parse_item :: "layout_item \<Rightarrow> string \<Rightarrow> civil \<Rightarrow> (string \<times> civil) option" where
  "parse_item i s c = (case i of
     Literal p \<Rightarrow> map_option (\<lambda>t. (t, c)) (skip_prefix s p)
   | LongYear \<Rightarrow> (if length s < 4 then None
                  else map_option (\<lambda>y. (drop 4 s, c\<lparr>Year := int y\<rparr>)) (read_digits 0 (take 4 s)))
   | ShortYear \<Rightarrow> (if length s < 2 then None
                  else map_option (\<lambda>y. (drop 2 s, c\<lparr>Year := if y \<ge> 69 then y + 1900 else y + 2000\<rparr>)) (atoi2 (take 2 s)))
   | ZeroMonth \<Rightarrow> map_option (\<lambda>(m, t). (t, c\<lparr>Month := m\<rparr>)) (in_range 1 12 (getnum True s))
   | ShortMonth \<Rightarrow> map_option (\<lambda>(m, t). (t, c\<lparr>Month := m\<rparr>)) (lookup_name 1 (map (take 3) month_names) s)
   | LongMonth \<Rightarrow> map_option (\<lambda>(m, t). (t, c\<lparr>Month := m\<rparr>)) (lookup_name 1 month_names s)
   | DayOfMonth \<Rightarrow> map_option (\<lambda>(d, t). (t, c\<lparr>Day := d\<rparr>)) (getnum False s)
   | ZeroDay \<Rightarrow> map_option (\<lambda>(d, t). (t, c\<lparr>Day := d\<rparr>)) (getnum True s)
   | Hour \<Rightarrow> map_option (\<lambda>(h, t). (t, c\<lparr>Seconds := Seconds c + 3600 * int h\<rparr>)) (in_range 0 23 (getnum False s))
   | ZeroMinute \<Rightarrow> map_option (\<lambda>(m, t). (t, c\<lparr>Seconds := Seconds c + 60 * int m\<rparr>)) (in_range 0 59 (getnum True s))
   | ZeroSecond \<Rightarrow> map_option (\<lambda>(n, t). (drop_fraction t, c\<lparr>Seconds := Seconds c + int n\<rparr>)) (in_range 0 59 (getnum True s))
   | ISO8601ColonTZ \<Rightarrow> map_option (\<lambda>(z, t). (t, c\<lparr>Offset := z\<rparr>)) (parse_zone s))"

fun parse_items :: "layout_item list \<Rightarrow> string \<Rightarrow> civil \<Rightarrow> civil option" where
  "parse_items [] s c = (if s = [] then Some c else None)"
| "parse_items (i # is) s c = (case parse_item i s c of None \<Rightarrow> None | Some (t, c') \<Rightarrow> parse_items is t c')"

definition time_Parse :: "layout_item list \<Rightarrow> string \<Rightarrow> civil option" where
  "time_Parse layout s = (case parse_items layout s \<lparr>Year = 0, Month = 1, Day = 1, Seconds = 0, Offset = 0\<rparr> of
     None \<Rightarrow> None | Some c \<Rightarrow> if 1 \<le> Day c \<and> Day c \<le> daysIn (Month c) (Year c) then Some c else None)"

fun first_layout :: "layout_item list list \<Rightarrow> string \<Rightarrow> civil option" where
  "first_layout [] s = None"
| "first_layout (l # ls) s = (case time_Parse l s of None \<Rightarrow> first_layout ls s | r \<Rightarrow> r)"

definition ISO_date :: "layout_item list" where
  "ISO_date = [LongYear, Literal ''-'', ZeroMonth, Literal ''-'', ZeroDay]"

text \<open>A date in the layout 2006-01-02.\<close>

definition pad :: "nat \<Rightarrow> nat \<Rightarrow> string" where
  "pad w n = (let s = show_nat n in replicate (w - length s) (CHR ''0'') @ s)"

definition format_ISO :: "civil \<Rightarrow> string" where
  "format_ISO c = pad 4 (nat (Year c)) @ ''-'' @ pad 2 (Month c) @ ''-'' @ pad 2 (Day c)"

lemma time_Parse_day: "time_Parse l s = Some c \<Longrightarrow> 1 \<le> Day c \<and> Day c \<le> daysIn (Month c) (Year c)"
  by (auto simp: time_Parse_def split: option.splits if_splits)

end
