(* ===== verification/Inbd_Telemetry.thy ===== *)
theory Inbd_Telemetry
  imports Inbd_World Go_Time
begin

text \<open>
  The telemetry of the in-band manageability daemon
  (\<^verbatim>\<open>in-band-manageability/internal/inbd/telemetry\<close>): hardware, firmware, operating system, version,
  power capabilities and software bill of materials, and the dispatch of a query.

  The commands are run directly, without the list of allowed commands. The build-time variables,
  the environment variables, the host name and the local date are functions of \<open>telemetry_env\<close>. The
  summary of the bill of materials and the power capabilities as JSON, which nothing calls, are left out.
\<close>

record telemetry_env = daemon_env +
  goarch :: string
  Hostname_os :: "string + string"
  build_Version :: string
  build_GitCommit :: string
  build_BuildDate :: string
  INBM_VERSION :: string
  GIT_COMMIT :: string
  local_date :: "nat \<Rightarrow> string"

definition read_checked :: "'a telemetry_env_scheme \<Rightarrow> string \<Rightarrow> (inbd_world, string) action" where
  "read_checked env p = on_files (ReadFile (workdir env) p)"

text \<open>The value of a step that may fail, with a default.\<close>

definition or_else :: "'b \<Rightarrow> ('s, 'b) action \<Rightarrow> ('s, 'b) action" where
  "or_else d m = andthen (attempt m) (\<lambda>r. ret (case r of Inl _ \<Rightarrow> d | Inr x \<Rightarrow> x))"

definition output_of :: "'a telemetry_env_scheme \<Rightarrow> string list \<Rightarrow> (inbd_world, string) action" where
  "output_of env cmd = andthen (spawn env cmd) (\<lambda>r. case failure r of Some e \<Rightarrow> fail e | None \<Rightarrow> ret (stdout r))"

definition succeeds :: "'a telemetry_env_scheme \<Rightarrow> string list \<Rightarrow> (inbd_world, bool) action" where
  "succeeds env cmd = andthen (spawn env cmd) (\<lambda>r. ret (failure r = None))"

section \<open>Hardware\<close>

record HardwareInfo =
  SystemManufacturer :: string
  SystemProductName :: string
  CpuId :: string
  TotalPhysicalMemory :: string
  DiskInformation :: string

definition readDMIInfo :: "'a telemetry_env_scheme \<Rightarrow> string \<Rightarrow> (inbd_world, string) action" where
  "readDMIInfo env p = read_checked env p"

fun cpu_model :: "string \<Rightarrow> string list \<Rightarrow> string" where
  "cpu_model arch [] = arch"
| "cpu_model arch (l # ls) = (if HasPrefix l ''model name'' then
       (case SplitN2 l (CHR '':'') of [_, v] \<Rightarrow> TrimSpace v | _ \<Rightarrow> cpu_model arch ls)
     else cpu_model arch ls)"

definition getCPUInfo :: "'a telemetry_env_scheme \<Rightarrow> (inbd_world, string) action" where
  "getCPUInfo env = andthen (read_checked env ''/proc/cpuinfo'') (\<lambda>d. ret (cpu_model (goarch env) (Split d nl)))"

fun mem_total :: "string list \<Rightarrow> string + string" where
  "mem_total [] = Inl ''memory info not found''"
| "mem_total (l # ls) = (if HasPrefix l ''MemTotal:'' then
       (case Fields l of _ # v # _ \<Rightarrow> Inr (v @ '' kB'') | _ \<Rightarrow> mem_total ls)
     else mem_total ls)"

definition getMemoryInfo :: "'a telemetry_env_scheme \<Rightarrow> (inbd_world, string) action" where
  "getMemoryInfo env = andthen (read_checked env ''/proc/meminfo'') (\<lambda>d. lift_result (mem_total (Split d nl)))"

definition getDiskInfo :: "'a telemetry_env_scheme \<Rightarrow> (inbd_world, string) action" where
  "getDiskInfo env = output_of env [''lsblk'', ''-b'', ''-d'', ''-o'', ''name,size,rota'', ''--json'']"

definition GetHardwareInfo :: "'a telemetry_env_scheme \<Rightarrow> (inbd_world, HardwareInfo) action" where
  "GetHardwareInfo env =
     (if goos env \<noteq> ''linux'' then ret \<lparr>SystemManufacturer = [], SystemProductName = [], CpuId = [],
        TotalPhysicalMemory = [], DiskInformation = []\<rparr>
      else
      andthen (or_else [] (readDMIInfo env ''/sys/class/dmi/id/sys_vendor'')) (\<lambda>manufacturer.
      andthen (or_else [] (readDMIInfo env ''/sys/class/dmi/id/product_name'')) (\<lambda>product.
      andthen (or_else [] (getCPUInfo env)) (\<lambda>cpuID.
      andthen (or_else [] (getMemoryInfo env)) (\<lambda>memInfo.
      andthen (or_else [] (getDiskInfo env)) (\<lambda>diskInfo.
      ret \<lparr>SystemManufacturer = TrimSpace manufacturer, SystemProductName = TrimSpace product, CpuId = cpuID,
           TotalPhysicalMemory = memInfo, DiskInformation = diskInfo\<rparr>))))))"

section \<open>Firmware\<close>

record FirmwareInfo =
  BiosVendor :: string
  BiosVersion :: string
  BiosReleaseDate :: "int option"

definition DEVICE_TREE_FW_PATH :: string where "DEVICE_TREE_FW_PATH = ''/proc/device-tree/firmware/bios/''"

definition readFileContent :: "'a telemetry_env_scheme \<Rightarrow> string \<Rightarrow> (inbd_world, string) action" where
  "readFileContent env p = (if p = [] then fail ''file path cannot be empty'' else
     andthen (on_files (raw_ReadFile (workdir env) p)) (\<lambda>d. ret (TrimSpace (filter (\<lambda>c. c \<noteq> CHR 0x00) d))))"

definition isNumeric :: "string \<Rightarrow> bool" where
  "isNumeric s = (\<forall>c \<in> set s. digit_of c \<noteq> None)"

fun year_among :: "string list \<Rightarrow> string" where
  "year_among [] = []"
| "year_among (p # ps) = (if length p = 4 \<and> isNumeric p \<and>
       (case read_digits 0 p of Some n \<Rightarrow> 1980 \<le> n \<and> n \<le> 2050 | None \<Rightarrow> False)
     then p else year_among ps)"

definition extractYear :: "string \<Rightarrow> string" where
  "extractYear dateStr = year_among (FieldsFunc (\<lambda>c. c \<in> set ''/-. '') dateStr)"

definition bios_formats :: "layout_item list list" where
  "bios_formats =
     [[ZeroMonth, Literal ''/'', ZeroDay, Literal ''/'', LongYear],
      [ZeroMonth, Literal ''/'', ZeroDay, Literal ''/'', ShortYear],
      ISO_date,
      [ZeroDay, Literal ''/'', ZeroMonth, Literal ''/'', LongYear],
      [LongYear, Literal ''/'', ZeroMonth, Literal ''/'', ZeroDay],
      [ShortMonth, Literal '' '', DayOfMonth, Literal '', '', LongYear],
      [LongMonth, Literal '' '', DayOfMonth, Literal '', '', LongYear],
      [ZeroDay, Literal '' '', ShortMonth, Literal '' '', LongYear],
      [LongYear, Literal ''.'', ZeroMonth, Literal ''.'', ZeroDay]]"

definition parseBiosDate :: "string \<Rightarrow> string + int" where
  "parseBiosDate dateStr =
     (if dateStr = [] then Inl ''empty date string'' else
      case first_layout bios_formats dateStr of Some c \<Rightarrow> Inr (unix_time c)
      | None \<Rightarrow> (case time_Parse [LongYear] (extractYear dateStr) of
          Some c \<Rightarrow> Inr (unix_time c) | None \<Rightarrow> Inl (''unable to parse date: '' @ dateStr)))"

definition read_firmware :: "'a telemetry_env_scheme \<Rightarrow> string \<Rightarrow> string \<Rightarrow> string \<Rightarrow> (inbd_world, FirmwareInfo) action" where
  "read_firmware env vendor_path version_path date_path =
     andthen (or_else [] (readFileContent env vendor_path)) (\<lambda>vendor.
     andthen (or_else [] (readFileContent env version_path)) (\<lambda>version.
     andthen (attempt (readFileContent env date_path)) (\<lambda>d.
     ret \<lparr>BiosVendor = TrimSpace vendor, BiosVersion = TrimSpace version,
          BiosReleaseDate = (case d of Inl _ \<Rightarrow> None | Inr dateStr \<Rightarrow>
            (case parseBiosDate (TrimSpace dateStr) of Inl _ \<Rightarrow> None | Inr t \<Rightarrow> Some t))\<rparr>)))"

definition GetFirmwareInfo :: "'a telemetry_env_scheme \<Rightarrow> (inbd_world, FirmwareInfo) action" where
  "GetFirmwareInfo env =
     (if goos env \<noteq> ''linux'' then fail ''firmware information only supported on Linux'' else
      andthen (asks (\<lambda>w. case resolve True False 40 (files w) [] (components (workdir env) DEVICE_TREE_FW_PATH) of
         Inl _ \<Rightarrow> False | Inr _ \<Rightarrow> True)) (\<lambda>isDeviceTreeAvailable.
      if isDeviceTreeAvailable
      then read_firmware env (DEVICE_TREE_FW_PATH @ ''bios-vendor'') (DEVICE_TREE_FW_PATH @ ''bios-version'')
             (DEVICE_TREE_FW_PATH @ ''bios-release-date'')
      else read_firmware env ''/sys/class/dmi/id/bios_vendor'' ''/sys/class/dmi/id/bios_version'' ''/sys/class/dmi/id/bios_date''))"

section \<open>The operating system\<close>

definition quote_trim :: "string \<Rightarrow> string" where
  "quote_trim s = Trim s [CHR 0x22]"

text \<open>The first non-empty value of a line with one of the keys.\<close>

fun first_value :: "string list \<Rightarrow> string list \<Rightarrow> string" where
  "first_value keys [] = []"
| "first_value keys (l # ls) =
     (case filter (\<lambda>k. HasPrefix l k \<and> quote_trim (drop (length k) l) \<noteq> []) keys of
        k # _ \<Rightarrow> quote_trim (drop (length k) l) | [] \<Rightarrow> first_value keys ls)"

definition value_in :: "'a telemetry_env_scheme \<Rightarrow> string \<Rightarrow> string list \<Rightarrow> (inbd_world, string) action" where
  "value_in env p keys = or_else [] (andthen (read_checked env p) (\<lambda>d. ret (first_value keys (Split d nl))))"

definition getOSVersion :: "'a telemetry_env_scheme \<Rightarrow> (inbd_world, string) action" where
  "getOSVersion env = (if goos env \<noteq> ''linux'' then ret ''Unknown'' else
     andthen (value_in env ''/etc/os-release'' [''VERSION_ID='', ''VERSION='']) (\<lambda>v1. if v1 \<noteq> [] then ret v1 else
     andthen (value_in env ''/etc/lsb-release'' [''DISTRIB_RELEASE='']) (\<lambda>v2. if v2 \<noteq> [] then ret v2 else
     andthen (or_else [] (read_checked env ''/etc/debian_version'')) (\<lambda>d.
     ret (if TrimSpace d \<noteq> [] then TrimSpace d else ''Unknown'')))))"

definition build_formats :: "layout_item list list" where
  "build_formats = [ISO_date, [LongYear, Literal ''.'', ZeroMonth, Literal ''.'', ZeroDay], [LongYear, ZeroMonth, ZeroDay],
     ISO_date @ [Literal ''T'', Hour, Literal '':'', ZeroMinute, Literal '':'', ZeroSecond, Literal ''Z'']]"

fun build_date :: "string list \<Rightarrow> civil option" where
  "build_date [] = None"
| "build_date (l # ls) = (if HasPrefix l ''BUILD_ID='' then
       (case first_layout build_formats (quote_trim (drop 9 l)) of Some c \<Rightarrow> Some c | None \<Rightarrow> build_date ls)
     else build_date ls)"

definition getOSReleaseDate :: "'a telemetry_env_scheme \<Rightarrow> (inbd_world, civil option) action" where
  "getOSReleaseDate env = (if goos env \<noteq> ''linux'' then ret None else
     or_else None (andthen (read_checked env ''/etc/os-release'') (\<lambda>d. ret (build_date (Split d nl)))))"

definition getOSInformation :: "'a telemetry_env_scheme \<Rightarrow> (inbd_world, string) action" where
  "getOSInformation env =
     (let hostname = (case Hostname_os env of Inl _ \<Rightarrow> ''unknown-host'' | Inr h \<Rightarrow> h) in
      andthen (if goos env = ''linux'' then or_else [] (read_checked env ''/proc/version'') else ret []) (\<lambda>version.
      andthen (or_else ''Unknown'' (Detect_OS env)) (\<lambda>osType.
      andthen (getOSVersion env) (\<lambda>osVersion.
      andthen (getOSReleaseDate env) (\<lambda>releaseDate.
      let kernelVersion = (case Fields version of _ # _ # v # _ \<Rightarrow> v | _ \<Rightarrow> []);
          parts = [goos env, hostname, kernelVersion, goarch env, osType, osVersion] @
            (case releaseDate of None \<Rightarrow> [] | Some c \<Rightarrow> [''released:'' @ format_ISO c]) in
      ret (Join (filter (\<lambda>p. p \<noteq> [] \<and> p \<noteq> ''Unknown'') parts) '' ''))))))"

section \<open>Version\<close>

record VersionInfo =
  Version :: string
  InbmVersionCommit :: string
  BuildDate :: int
  GitCommit :: string

definition git_describe :: "'a telemetry_env_scheme \<Rightarrow> string list \<Rightarrow> (inbd_world, string) action" where
  "git_describe env args = andthen (or_else [] (output_of env ([''git'', ''describe'', ''--tags''] @ args))) (\<lambda>d. ret (TrimSpace d))"

text \<open>The tag without the distance and the commit that \<^verbatim>\<open>git describe\<close> adds.\<close>

definition without_distance :: "string \<Rightarrow> string" where
  "without_distance tag = (let parts = Split tag (CHR ''-'') in
     if Contains tag ''-g'' \<and> length parts \<ge> 3 then Join (take (length parts - 2) parts) ''-'' else tag)"

definition getVersionFromGitTag :: "'a telemetry_env_scheme \<Rightarrow> (inbd_world, string) action" where
  "getVersionFromGitTag env =
     andthen (git_describe env [''--exact-match'', ''HEAD'']) (\<lambda>t1. if t1 \<noteq> [] then ret t1 else
     andthen (git_describe env [''--abbrev=0'']) (\<lambda>t2. if t2 \<noteq> [] then ret t2 else
     andthen (git_describe env [''--always'']) (\<lambda>t3. ret (if t3 \<noteq> [] then without_distance t3 else []))))"

fun first_version :: "'a telemetry_env_scheme \<Rightarrow> string list \<Rightarrow> (inbd_world, string) action" where
  "first_version env [] = ret []"
| "first_version env (p # ps) = andthen (or_else [] (read_checked env p)) (\<lambda>d.
     if TrimSpace d \<noteq> [] then ret (TrimSpace d) else first_version env ps)"

definition getVersionFromFile :: "'a telemetry_env_scheme \<Rightarrow> (inbd_world, string) action" where
  "getVersionFromFile env = first_version env [''VERSION'', ''version.txt'', ''./VERSION'', ''../VERSION'']"

definition getDynamicVersion :: "'a telemetry_env_scheme \<Rightarrow> (inbd_world, string) action" where
  "getDynamicVersion env =
     andthen (getVersionFromGitTag env) (\<lambda>v1. if v1 \<noteq> [] then ret v1 else
     if INBM_VERSION env \<noteq> [] then ret (INBM_VERSION env) else
     andthen (getVersionFromFile env) (\<lambda>v2. if v2 \<noteq> [] then ret v2 else
     andthen (tock (local_date env)) (\<lambda>d. ret (''dev-'' @ d))))"

definition getGitCommit :: "'a telemetry_env_scheme \<Rightarrow> (inbd_world, string) action" where
  "getGitCommit env =
     andthen (attempt (output_of env [''git'', ''rev-parse'', ''HEAD''])) (\<lambda>r. case r of Inr d \<Rightarrow> ret (TrimSpace d) | Inl _ \<Rightarrow>
     andthen (attempt (output_of env [''git'', ''rev-parse'', ''--short'', ''HEAD''])) (\<lambda>r2. case r2 of Inr d \<Rightarrow> ret (TrimSpace d) | Inl _ \<Rightarrow>
     ret (if GIT_COMMIT env \<noteq> [] then GIT_COMMIT env else ''unknown'')))"

definition RFC3339_layout :: "layout_item list" where
  "RFC3339_layout = ISO_date @ [Literal ''T'', Hour, Literal '':'', ZeroMinute, Literal '':'', ZeroSecond, ISO8601ColonTZ]"

definition buildDate_formats :: "layout_item list list" where
  "buildDate_formats = [RFC3339_layout, RFC3339_layout,
     ISO_date @ [Literal '' '', Hour, Literal '':'', ZeroMinute, Literal '':'', ZeroSecond], ISO_date]"

definition parseBuildDate :: "'a telemetry_env_scheme \<Rightarrow> (inbd_world, int) action" where
  "parseBuildDate env =
     (case (if build_BuildDate env \<noteq> ''unknown'' \<and> build_BuildDate env \<noteq> []
            then first_layout buildDate_formats (build_BuildDate env) else None) of
        Some c \<Rightarrow> ret (unix_time c)
      | None \<Rightarrow> andthen (tock (clock env)) (\<lambda>now. ret (now div 1000000000)))"

definition GetVersionInfo :: "'a telemetry_env_scheme \<Rightarrow> (inbd_world, VersionInfo) action" where
  "GetVersionInfo env =
     (let v = build_Version env; g = build_GitCommit env in
      andthen (if v = ''dev'' \<or> v = [] \<or> HasPrefix v ''dev-'' then getDynamicVersion env else ret v) (\<lambda>version.
      andthen (if g = ''unknown'' \<or> g = [] then getGitCommit env else ret g) (\<lambda>gitCommit.
      andthen (parseBuildDate env) (\<lambda>buildDate.
      ret \<lparr>Version = version, InbmVersionCommit = gitCommit, BuildDate = buildDate, GitCommit = gitCommit\<rparr>))))"

section \<open>Power capabilities\<close>

record PowerCapabilities =
  Shutdown :: bool
  Reboot :: bool
  Suspend :: bool
  Hibernate :: bool

definition isSystemdAvailable :: "'a telemetry_env_scheme \<Rightarrow> (inbd_world, bool) action" where
  "isSystemdAvailable env = succeeds env [''systemctl'', ''--version'']"

definition isSystemdTargetAvailable :: "'a telemetry_env_scheme \<Rightarrow> string \<Rightarrow> (inbd_world, bool) action" where
  "isSystemdTargetAvailable env target =
     andthen (isSystemdAvailable env) (\<lambda>systemd. if \<not> systemd then ret False else
     andthen (succeeds env [''systemctl'', ''cat'', target]) (\<lambda>ok. if ok then ret True else
     andthen (attempt (output_of env [''systemctl'', ''list-unit-files'', target])) (\<lambda>r.
     ret (case r of Inl _ \<Rightarrow> False | Inr out \<Rightarrow> Contains out target))))"

definition hasSwapSpace :: "'a telemetry_env_scheme \<Rightarrow> (inbd_world, bool) action" where
  "hasSwapSpace env = andthen (attempt (read_checked env ''/proc/swaps'')) (\<lambda>r. case r of Inl _ \<Rightarrow> ret False
     | Inr d \<Rightarrow> ret (list_ex (\<lambda>l. TrimSpace l \<noteq> []) (tl (Split (TrimSpace d) nl))))"

definition without_systemd_or :: "'a telemetry_env_scheme \<Rightarrow> string \<Rightarrow> (inbd_world, bool) action" where
  "without_systemd_or env target = andthen (isSystemdAvailable env) (\<lambda>systemd.
     if \<not> systemd then ret True else isSystemdTargetAvailable env target)"

definition checkLinuxSuspendSupport :: "'a telemetry_env_scheme \<Rightarrow> (inbd_world, bool) action" where
  "checkLinuxSuspendSupport env = andthen (attempt (read_checked env ''/sys/power/state'')) (\<lambda>r. case r of Inl _ \<Rightarrow> ret False
     | Inr d \<Rightarrow> if Contains (TrimSpace d) ''mem'' \<or> Contains (TrimSpace d) ''standby''
               then without_systemd_or env ''suspend.target'' else ret False)"

definition checkLinuxHibernateSupport :: "'a telemetry_env_scheme \<Rightarrow> (inbd_world, bool) action" where
  "checkLinuxHibernateSupport env = andthen (attempt (read_checked env ''/sys/power/state'')) (\<lambda>r. case r of Inl _ \<Rightarrow> ret False
     | Inr d \<Rightarrow> if Contains (TrimSpace d) ''disk''
               then andthen (hasSwapSpace env) (\<lambda>swap. if swap then without_systemd_or env ''hibernate.target'' else ret False)
               else ret False)"

fun any_file :: "path \<Rightarrow> string list \<Rightarrow> (filesystem, bool) action" where
  "any_file cwd [] = ret False"
| "any_file cwd (p # ps) = andthen (IsFileExist cwd p) (\<lambda>b. if b then ret True else any_file cwd ps)"

definition checkPowerCommandAvailable :: "'a telemetry_env_scheme \<Rightarrow> string \<Rightarrow> (inbd_world, bool) action" where
  "checkPowerCommandAvailable env command =
     andthen (succeeds env [''which'', command]) (\<lambda>ok. if ok then ret True else
     on_files (any_file (workdir env) [''/sbin/'' @ command, ''/usr/sbin/'' @ command, ''/bin/'' @ command, ''/usr/bin/'' @ command]))"

definition either_command :: "'a telemetry_env_scheme \<Rightarrow> string \<Rightarrow> string \<Rightarrow> (inbd_world, bool) action" where
  "either_command env a b = andthen (checkPowerCommandAvailable env a) (\<lambda>ok.
     if ok then ret True else checkPowerCommandAvailable env b)"

definition getLinuxPowerCapabilities :: "'a telemetry_env_scheme \<Rightarrow> (inbd_world, PowerCapabilities) action" where
  "getLinuxPowerCapabilities env =
     andthen (checkLinuxSuspendSupport env) (\<lambda>s.
     andthen (checkLinuxHibernateSupport env) (\<lambda>h.
     andthen (if s then ret True else either_command env ''suspend'' ''pm-suspend'') (\<lambda>suspend.
     andthen (if h then ret True else either_command env ''hibernate'' ''pm-hibernate'') (\<lambda>hibernate.
     ret \<lparr>Shutdown = True, Reboot = True, Suspend = suspend, Hibernate = hibernate\<rparr>))))"

definition GetPowerCapabilities :: "'a telemetry_env_scheme \<Rightarrow> (inbd_world, PowerCapabilities) action" where
  "GetPowerCapabilities env =
     (if goos env \<noteq> ''linux'' then fail (''power capabilities only supported on Linux, got: '' @ goos env)
      else getLinuxPowerCapabilities env)"

section \<open>The software bill of materials\<close>

record SoftwarePackage =
  pkg_Name :: string
  pkg_Version :: string
  pkg_Architecture :: string
  pkg_Type :: string
  pkg_Vendor :: string

definition deb_package :: "string \<Rightarrow> SoftwarePackage option" where
  "deb_package line = (case Fields line of
     name # version # _ \<Rightarrow> Some \<lparr>pkg_Name = name, pkg_Version = version, pkg_Architecture = [], pkg_Type = ''deb'', pkg_Vendor = []\<rparr>
   | _ \<Rightarrow> None)"

definition nonblank_lines :: "string \<Rightarrow> string list" where
  "nonblank_lines output = filter (\<lambda>l. l \<noteq> []) (map TrimSpace (Split (TrimSpace output) nl))"

definition parsePackageOutput :: "string \<Rightarrow> SoftwarePackage list" where
  "parsePackageOutput output = List.map_filter deb_package (nonblank_lines output)"

definition parseRPMPackageName :: "string \<Rightarrow> SoftwarePackage" where
  "parseRPMPackageName packageName =
     (let parts = Split packageName (CHR ''.''); nvr = Join (butlast parts) ''.''; hs = Split nvr (CHR ''-''); n = length hs;
          rpm = \<lparr>pkg_Name = packageName, pkg_Version = [], pkg_Architecture = [], pkg_Type = ''rpm'', pkg_Vendor = []\<rparr> in
      if length parts < 2 then rpm
      else if n \<ge> 3 then rpm\<lparr>pkg_Name := Join (take (n - 2) hs) ''-'', pkg_Version := hs ! (n - 2) @ ''-'' @ hs ! (n - 1),
                             pkg_Architecture := last parts\<rparr>
      else rpm\<lparr>pkg_Name := nvr, pkg_Architecture := last parts\<rparr>)"

definition parseRPMOutput :: "string \<Rightarrow> SoftwarePackage list" where
  "parseRPMOutput output = map parseRPMPackageName (nonblank_lines output)"

definition readMenderFile :: "'a telemetry_env_scheme \<Rightarrow> string \<Rightarrow> string \<Rightarrow> (inbd_world, string) action" where
  "readMenderFile env p notFoundDefault =
     andthen (on_files (IsFileExist (workdir env) p)) (\<lambda>ex. if \<not> ex then ret notFoundDefault else
     andthen (attempt (read_checked env p)) (\<lambda>r. ret (case r of Inl e \<Rightarrow> ''Error reading mender version: '' @ e
       | Inr d \<Rightarrow> TrimSpace (hd (Split d (CHR 0x00))))))"

definition getMenderVersion :: "'a telemetry_env_scheme \<Rightarrow> (inbd_world, SoftwarePackage option) action" where
  "getMenderVersion env = andthen (readMenderFile env ''/etc/mender/artifact_info'' ''Unknown'') (\<lambda>v.
     ret (if v = ''Unknown'' then None else
       Some \<lparr>pkg_Name = ''mender'', pkg_Version = v, pkg_Architecture = [], pkg_Type = ''mender'', pkg_Vendor = ''Mender''\<rparr>))"

definition getDebianPackages :: "'a telemetry_env_scheme \<Rightarrow> (inbd_world, SoftwarePackage list) action" where
  "getDebianPackages env = wrap ''failed to run dpkg-query: ''
     (andthen (output_of env [''dpkg-query'', ''-f'', ''${Package} ${Version}'' @ [nl], ''-W'']) (\<lambda>d. ret (parsePackageOutput d)))"

definition getRPMPackages :: "'a telemetry_env_scheme \<Rightarrow> (inbd_world, SoftwarePackage list) action" where
  "getRPMPackages env = wrap ''failed to run rpm: '' (andthen (output_of env [''rpm'', ''-qa'']) (\<lambda>d. ret (parseRPMOutput d)))"

definition getSoftwareBOMList :: "'a telemetry_env_scheme \<Rightarrow> (inbd_world, SoftwarePackage list) action" where
  "getSoftwareBOMList env =
     andthen (wrap ''failed to detect OS: '' (Detect_OS env)) (\<lambda>osType.
     if osType \<in> {''Ubuntu'', ''Deby''} then getDebianPackages env
     else if osType \<in> {''YoctoX86_64'', ''YoctoARM''} then
       andthen (attempt (getRPMPackages env)) (\<lambda>r.
       andthen (getMenderVersion env) (\<lambda>mender. case r of Inl e \<Rightarrow> fail e
       | Inr packages \<Rightarrow> ret (packages @ (case mender of None \<Rightarrow> [] | Some p \<Rightarrow> [p]))))
     else fail (''unsupported OS type: '' @ osType))"

definition getCollectionMethod :: "'a telemetry_env_scheme \<Rightarrow> (inbd_world, string) action" where
  "getCollectionMethod env = andthen (attempt (Detect_OS env)) (\<lambda>r. ret (case r of Inl _ \<Rightarrow> ''unknown''
     | Inr os \<Rightarrow> if os \<in> {''Ubuntu'', ''Deby''} then ''dpkg-query''
                else if os \<in> {''YoctoX86_64'', ''YoctoARM''} then ''rpm'' else ''unknown''))"

record SWBOMInfo =
  SW_Packages :: "SoftwarePackage list"
  CollectionTimestamp :: int
  CollectionMethod :: string

definition GetSoftwareBOM :: "'a telemetry_env_scheme \<Rightarrow> (inbd_world, SWBOMInfo) action" where
  "GetSoftwareBOM env =
     andthen (tock (clock env)) (\<lambda>now.
     andthen (getCollectionMethod env) (\<lambda>method.
     andthen (wrap ''failed to get software BOM list: '' (getSoftwareBOMList env)) (\<lambda>packages.
     ret \<lparr>SW_Packages = packages, CollectionTimestamp = now, CollectionMethod = method\<rparr>)))"

text \<open>The chunks of a list: the loop over the start of each chunk.\<close>

function chunk_from :: "'a list \<Rightarrow> nat \<Rightarrow> nat \<Rightarrow> 'a list list" where
  "chunk_from packages maxChunkSize i =
     (if maxChunkSize = 0 \<or> length packages \<le> i then []
      else (let stop = min (i + maxChunkSize) (length packages) in
            take (stop - i) (drop i packages) # chunk_from packages maxChunkSize (i + maxChunkSize)))"
  by pat_completeness auto
termination
  by (relation "measure (\<lambda>(packages, _, i). length packages - i)") auto

declare chunk_from.simps [simp del]

definition ChunkSoftwareBOM :: "'a list \<Rightarrow> int \<Rightarrow> 'a list list" where
  "ChunkSoftwareBOM packages maxChunkSize = chunk_from packages (if maxChunkSize \<le> 0 then 100 else nat maxChunkSize) 0"

section \<open>Queries\<close>

record AllInfo =
  ai_Hardware :: HardwareInfo
  ai_Firmware :: FirmwareInfo
  ai_OsInfo :: string
  ai_Version :: VersionInfo
  ai_PowerCapabilities :: PowerCapabilities
  ai_Swbom :: SWBOMInfo

definition GetAllInfo :: "'a telemetry_env_scheme \<Rightarrow> (inbd_world, AllInfo) action" where
  "GetAllInfo env =
     andthen (GetHardwareInfo env) (\<lambda>hardware.
     andthen (GetFirmwareInfo env) (\<lambda>firmware.
     andthen (getOSInformation env) (\<lambda>osInfo.
     andthen (GetVersionInfo env) (\<lambda>version.
     andthen (GetPowerCapabilities env) (\<lambda>powerCapabilities.
     andthen (GetSoftwareBOM env) (\<lambda>swbom.
     ret \<lparr>ai_Hardware = hardware, ai_Firmware = firmware, ai_OsInfo = osInfo, ai_Version = version,
          ai_PowerCapabilities = powerCapabilities, ai_Swbom = swbom\<rparr>))))))"

datatype QueryValues = QHardware HardwareInfo | QFirmware FirmwareInfo | QOsInfo string | QSwbom SWBOMInfo
  | QVersion VersionInfo | QAllInfo AllInfo

record QueryData =
  qd_Type :: string
  qd_Timestamp :: int
  qd_Values :: QueryValues

definition HandleQuery :: "'a telemetry_env_scheme \<Rightarrow> string \<Rightarrow> (inbd_world, QueryData) action" where
  "HandleQuery env option =
     andthen (tock (clock env)) (\<lambda>timestamp.
     let data = (\<lambda>ty v. ret \<lparr>qd_Type = ty, qd_Timestamp = timestamp, qd_Values = v\<rparr>) in
     if option \<in> {''hw'', ''hardware''} then andthen (GetHardwareInfo env) (\<lambda>x. data ''hardware'' (QHardware x))
     else if option \<in> {''fw'', ''firmware''} then andthen (GetFirmwareInfo env) (\<lambda>x. data ''firmware'' (QFirmware x))
     else if option = ''os'' then andthen (getOSInformation env) (\<lambda>x. data ''os'' (QOsInfo x))
     else if option = ''swbom'' then andthen (GetSoftwareBOM env) (\<lambda>x. data ''swbom'' (QSwbom x))
     else if option = ''version'' then andthen (GetVersionInfo env) (\<lambda>x. data ''version'' (QVersion x))
     else if option = ''all'' then andthen (GetAllInfo env) (\<lambda>x. data ''all'' (QAllInfo x))
     else fail (''unsupported query option: '' @ option))"

section \<open>Properties\<close>

lemma chunk_from_spec:
  "0 < n \<Longrightarrow> concat (chunk_from ps n i) = drop i ps \<and> (\<forall>c \<in> set (chunk_from ps n i). c \<noteq> [] \<and> length c \<le> n)"
proof (induction ps n i rule: chunk_from.induct)
  case (1 ps n i)
  show ?case
  proof (cases "length ps \<le> i")
    case True
    then show ?thesis by (simp add: chunk_from.simps [of ps n i])
  next
    case False
    let ?m = "min (i + n) (length ps) - i"
    have e: "chunk_from ps n i = take ?m (drop i ps) # chunk_from ps n (i + n)"
      using False 1(2) by (simp add: chunk_from.simps [of ps n i] Let_def)
    have "take ?m (drop i ps) = take n (drop i ps)" by (simp add: min_def)
    moreover have "take n (drop i ps) @ drop (i + n) ps = drop i ps"
      by (metis append_take_drop_id drop_drop add.commute)
    ultimately show ?thesis using 1 False e by (auto simp: Let_def)
  qed
qed

text \<open>The chunks of a bill of materials are non-empty, no larger than asked for, and together they are
  the whole list in its order; a size of zero or below means chunks of a hundred.\<close>

theorem chunks_are_the_list:
  "concat (ChunkSoftwareBOM packages maxChunkSize) = packages \<and>
   list_all (\<lambda>c. c \<noteq> [] \<and> int (length c) \<le> (if maxChunkSize \<le> 0 then 100 else maxChunkSize)) (ChunkSoftwareBOM packages maxChunkSize)"
  using chunk_from_spec [of "if maxChunkSize \<le> 0 then 100 else nat maxChunkSize" packages 0]
  by (fastforce simp: ChunkSoftwareBOM_def list_all_iff split: if_splits)

lemma power_state_refused: "\<exists>e. isFilePathAbsolute cwd ''/sys/power/state'' = Inl e"
proof -
  have "components cwd ''/sys/power/state'' = Split ''/sys/power/state'' (CHR ''/'')" by (simp add: components_def)
  then show ?thesis
    by (simp only: isFilePathAbsolute_def filepath_Abs_def) (rule exI, code_simp)
qed

lemma read_refused: "isFilePathAbsolute (workdir env) p = Inl e \<Longrightarrow> read_checked env p w = (Err e, w)"
  by (cases w) (simp add: read_checked_def on_files_def ReadFile_def andthen_apply fail_apply)

text \<open>The kernel's list of sleep states is never read: its path is outside of the directories that the
  daemon allows itself. Suspend and hibernate are reported only if a command of that name exists.\<close>

theorem sleep_states_never_read:
  "checkLinuxSuspendSupport env w = (Ok False, w) \<and> checkLinuxHibernateSupport env w = (Ok False, w)"
proof -
  obtain e where e: "isFilePathAbsolute (workdir env) ''/sys/power/state'' = Inl e" using power_state_refused by blast
  show ?thesis
    by (simp add: checkLinuxSuspendSupport_def checkLinuxHibernateSupport_def andthen_apply attempt_apply read_refused [OF e] ret_apply)
qed

section \<open>Installed packages\<close>

text \<open>An installed package as \<^verbatim>\<open>rpm -qa\<close> prints it.\<close>

record rpm =
  rpm_name :: string
  rpm_version :: string
  rpm_release :: string
  rpm_arch :: string

definition show_rpm :: "rpm \<Rightarrow> string" where
  "show_rpm p = rpm_name p @ ''-'' @ rpm_version p @ ''-'' @ rpm_release p @ ''.'' @ rpm_arch p"

definition good_rpm :: "rpm \<Rightarrow> bool" where
  "good_rpm p \<longleftrightarrow> rpm_name p \<noteq> [] \<and> rpm_arch p \<noteq> [] \<and> list_all (\<lambda>c. \<not> is_space c) (show_rpm p) \<and>
     CHR ''-'' \<notin> set (rpm_version p) \<and> CHR ''-'' \<notin> set (rpm_release p) \<and> CHR ''.'' \<notin> set (rpm_arch p)"

definition rpm_entry :: "rpm \<Rightarrow> SoftwarePackage" where
  "rpm_entry p = \<lparr>pkg_Name = rpm_name p, pkg_Version = rpm_version p @ ''-'' @ rpm_release p, pkg_Architecture = rpm_arch p,
     pkg_Type = ''rpm'', pkg_Vendor = []\<rparr>"

lemma parse_show_rpm: "good_rpm p \<Longrightarrow> parseRPMPackageName (show_rpm p) = rpm_entry p"
proof -
  assume g: "good_rpm p"
  let ?nv = "rpm_name p @ CHR ''-'' # rpm_version p @ CHR ''-'' # rpm_release p"
  have "Split (show_rpm p) (CHR ''.'') = Split ?nv (CHR ''.'') @ [rpm_arch p]"
    using g Split_last [of "CHR ''.''" "rpm_arch p" ?nv] by (simp add: show_rpm_def good_rpm_def)
  moreover have "Split ?nv (CHR ''-'') = Split (rpm_name p) (CHR ''-'') @ [rpm_version p, rpm_release p]"
    using g Split_last [of "CHR ''-''" "rpm_release p" "rpm_name p @ CHR ''-'' # rpm_version p"]
      Split_last [of "CHR ''-''" "rpm_version p" "rpm_name p"] by (simp add: good_rpm_def)
  moreover have "Split s c \<noteq> []" "Join (Split s c) [c] = s" for s c by (simp_all add: Join_Split)
  ultimately show ?thesis
    by (simp add: parseRPMPackageName_def rpm_entry_def Let_def nth_append Suc_le_eq less_Suc_eq_0_disj)
qed

text \<open>The list of installed packages that rpm prints is parsed back to these packages, whatever
  hyphens and dots their names hold.\<close>

theorem rpm_listing_is_parsed:
  assumes "\<forall>p \<in> set ps. good_rpm p"
  shows "parseRPMOutput (Join (map show_rpm ps @ [[]]) [nl]) = map rpm_entry ps"
proof (cases "ps = []")
  case False
  have ne: "show_rpm p \<noteq> []" and sp: "c \<in> set (show_rpm p) \<Longrightarrow> \<not> is_space c" if "p \<in> set ps" for p c
    using assms that by (auto simp: good_rpm_def show_rpm_def list_all_iff)
  have g: "nl \<notin> set (show_rpm p)" "TrimSpace (show_rpm p) = show_rpm p" if "p \<in> set ps" for p
    using sp [OF that] ne [OF that] by (auto simp: is_space_def intro!: TrimSpace_id)
  have t: "TrimSpace (Join (map show_rpm ps) [nl]) = Join (map show_rpm ps) [nl]"
  proof (rule TrimSpace_id)
    have j: "hd (Join (map show_rpm ps) [nl]) = hd (show_rpm (hd ps))" "last (Join (map show_rpm ps) [nl]) = last (show_rpm (last ps))"
      using Join_ends [of "map show_rpm ps" "[nl]"] False ne by (auto simp: hd_map last_map)
    show "\<not> is_space (hd (Join (map show_rpm ps) [nl]))" "\<not> is_space (last (Join (map show_rpm ps) [nl]))"
      unfolding j using sp [of "hd ps"] sp [of "last ps"] ne [of "hd ps"] ne [of "last ps"] False by simp_all
  qed
  have "Split (Join (map show_rpm ps) [nl]) nl = map show_rpm ps"
    using False g by (intro Split_Join) auto
  moreover have "filter (\<lambda>l. l \<noteq> []) (map TrimSpace (map show_rpm ps)) = map show_rpm ps"
    using g ne by (induction ps) auto
  ultimately have "nonblank_lines (Join (map show_rpm ps @ [[]]) [nl]) = map show_rpm ps"
    using t False by (simp only: nonblank_lines_def Join_snoc_empty TrimSpace_snoc nl_space) (simp add: Join_snoc_empty TrimSpace_snoc nl_space)
  then show ?thesis
    using assms by (simp add: parseRPMOutput_def parse_show_rpm)
qed (simp add: parseRPMOutput_def nonblank_lines_def TrimSpace_def TrimFunc_def)

lemma rpm_listing_is_parsed_witness:
  "parseRPMOutput (Join (map show_rpm [\<lparr>rpm_name = ''gcc-c++'', rpm_version = ''13.2'', rpm_release = ''1.emt3'', rpm_arch = ''x86_64''\<rparr>] @ [[]]) [nl]) =
   [\<lparr>pkg_Name = ''gcc-c++'', pkg_Version = ''13.2-1.emt3'', pkg_Architecture = ''x86_64'', pkg_Type = ''rpm'', pkg_Vendor = []\<rparr>]"
  using rpm_listing_is_parsed [of "[\<lparr>rpm_name = ''gcc-c++'', rpm_version = ''13.2'', rpm_release = ''1.emt3'', rpm_arch = ''x86_64''\<rparr>]"]
  by (simp add: good_rpm_def show_rpm_def rpm_entry_def is_space_def)

end
