(* ===== verification/Inbd_Download.thy ===== *)
theory Inbd_Download
  imports Inbd_World Go_Url
begin

text \<open>
  Downloads of the in-band manageability daemon: the disk space and the size of a download
  (\<^verbatim>\<open>inbd/utils/disk_space.go\<close>), the TLS client, and the download into a file
  (\<^verbatim>\<open>inbd/utils/downloader.go\<close>).

  A request is the method, the URL and the headers that the code sets; the answer comes from
  \<open>http_Do\<close>, which also gets the TLS settings of the client. The bytes of a body that arrive
  before an error are in \<open>Body\<close>. The size with its margin is computed in float64 as Go does on
  amd64.
\<close>

section \<open>Requests\<close>

definition http_NewRequest :: "string \<Rightarrow> string \<Rightarrow> ('s, http_request) action" where
  "http_NewRequest method url = (case url_Parse url of
     Inl e \<Rightarrow> fail e | Inr _ \<Rightarrow> ret \<lparr>http_Method = method, http_URL = url, http_Headers = []\<rparr>)"

definition http_send :: "'a daemon_env_scheme \<Rightarrow> http_client option \<Rightarrow> http_request \<Rightarrow> (inbd_world, http_response) action" where
  "http_send env client req = andthen (tock (\<lambda>n. http_Do env n client req)) lift_result"

text \<open>The host without its port and without the brackets of an IPv6 address.\<close>

definition Hostname :: "url \<Rightarrow> string" where
  "Hostname u = (let h = Host u;
       noport = (if CHR '':'' \<in> set h \<and> validOptionalPort (CHR '':'' # after_last (CHR '':'') h)
                 then take (length h - Suc (length (after_last (CHR '':'') h))) h else h)
     in if HasPrefix noport ''['' \<and> HasSuffix noport '']'' then butlast (tl noport) else noport)"

definition custom_ca :: "'a daemon_env_scheme \<Rightarrow> (inbd_world, string option) action" where
  "custom_ca env = (if INBM_CUSTOM_CA_FILE env = [] then ret None else
     andthen (attempt (on_files (ReadFile (workdir env) (INBM_CUSTOM_CA_FILE env)))) (\<lambda>r. case r of
       Inl _ \<Rightarrow> ret None
     | Inr caCert \<Rightarrow> ret (if AppendCertsFromPEM env caCert then Some caCert else None)))"

definition CreateSecureHTTPClient :: "'a daemon_env_scheme \<Rightarrow> string \<Rightarrow> string \<Rightarrow> (inbd_world, http_client) action" where
  "CreateSecureHTTPClient env url token = (case url_Parse url of
     Inl e \<Rightarrow> fail (''error parsing URL: '' @ e)
   | Inr parsedURL \<Rightarrow> andthen (custom_ca env) (\<lambda>ca.
       ret \<lparr>ServerName = Hostname parsedURL, InsecureSkipVerify = (token = []), RootCAs = ca\<rparr>))"

definition DoSecureHTTPRequest :: "'a daemon_env_scheme \<Rightarrow> http_client option \<Rightarrow> http_request \<Rightarrow> string \<Rightarrow> (inbd_world, http_response) action" where
  "DoSecureHTTPRequest env client req url = (case url_Parse url of
     Inl e \<Rightarrow> fail (''error parsing URL: '' @ e) | Inr _ \<Rightarrow> http_send env client req)"

section \<open>The size of a download\<close>

definition content_length :: "http_response \<Rightarrow> string \<Rightarrow> string + int" where
  "content_length resp missing = (let contentLength = Header resp ''Content-Length'' in
     if contentLength = [] then Inl missing
     else case ParseInt64 contentLength of None \<Rightarrow> Inl ''error parsing Content-Length: '' | Some n \<Rightarrow> Inr n)"

definition getFileSizeWithHEAD :: "'a daemon_env_scheme \<Rightarrow> string \<Rightarrow> (inbd_world, int) action" where
  "getFileSizeWithHEAD env url =
     andthen (wrap ''error creating HEAD request: '' (http_NewRequest ''HEAD'' url)) (\<lambda>req.
     andthen (wrap ''error creating secure HTTP client: '' (CreateSecureHTTPClient env url [])) (\<lambda>client.
     andthen (wrap ''error performing HEAD request: '' (DoSecureHTTPRequest env (Some client) req url)) (\<lambda>resp.
     if StatusCode resp \<noteq> 200 then fail (''HEAD request failed with status code: '' @ show_int (StatusCode resp))
     else lift_result (content_length resp ''Content-Length header is missing in HEAD response''))))"

definition range_total :: "string \<Rightarrow> int option" where
  "range_total contentRange = (case Split contentRange (CHR ''/'') of [_, size_text] \<Rightarrow> ParseInt64 size_text | _ \<Rightarrow> None)"

definition getFileSizeWithRange :: "'a daemon_env_scheme \<Rightarrow> string \<Rightarrow> (inbd_world, int) action" where
  "getFileSizeWithRange env url =
     andthen (wrap ''error creating Range GET request: '' (http_NewRequest ''GET'' url)) (\<lambda>req.
     andthen (wrap ''error performing Range GET request: ''
                (http_send env None (req\<lparr>http_Headers := [(''Range'', ''bytes=0-0'')]\<rparr>))) (\<lambda>resp.
     if StatusCode resp \<noteq> 206 \<and> StatusCode resp \<noteq> 200
     then fail (''range GET request failed with status code: '' @ show_int (StatusCode resp))
     else case range_total (Header resp ''Content-Range'') of
       Some n \<Rightarrow> ret n
     | None \<Rightarrow> lift_result (content_length resp
         ''neither Content-Range nor Content-Length header available in Range GET response'')))"

definition GetFileSizeInBytes :: "'a daemon_env_scheme \<Rightarrow> string \<Rightarrow> (inbd_world, int) action" where
  "GetFileSizeInBytes env url = andthen (attempt (getFileSizeWithHEAD env url)) (\<lambda>r. case r of
     Inl _ \<Rightarrow> getFileSizeWithRange env url | Inr n \<Rightarrow> ret n)"

section \<open>Disk space\<close>

definition GetFreeDiskSpaceInBytes :: "'a daemon_env_scheme \<Rightarrow> string \<Rightarrow> (inbd_world, 64 word) action" where
  "GetFreeDiskSpaceInBytes env p = andthen (tock (\<lambda>n. statfs env n p)) (\<lambda>r. case r of
     Inl e \<Rightarrow> fail (''failed to get filesystem stats: '' @ e)
   | Inr (bavail, bsize, _) \<Rightarrow> ret (bavail * bsize))"

text \<open>A natural number rounded to 53 significant bits, ties to even.\<close>

fun bit_length :: "nat \<Rightarrow> nat" where
  "bit_length n = (if n = 0 then 0 else Suc (bit_length (n div 2)))"

declare bit_length.simps [simp del]

definition round53 :: "nat \<Rightarrow> nat" where
  "round53 n = (let e = 2 ^ (bit_length n - 53); q = n div e; r = n mod e in
     if 2 * r > e \<or> (2 * r = e \<and> odd q) then Suc q * e else q * e)"

text \<open>The float64 nearest to 1.2 is 5404319552844595 / 2^52. The product of two float64 numbers is
  rounded once; the conversion drops the fraction.\<close>

definition times_1_2 :: "nat \<Rightarrow> nat" where
  "times_1_2 n = round53 (round53 n * 5404319552844595) div 2 ^ 52"

definition minBufferBytes :: "64 word" where "minBufferBytes = 100 * 1024 * 1024"

definition with_buffer :: "int \<Rightarrow> 64 word" where
  "with_buffer requiredSpace =
     (let scaled = (if requiredSpace < 0 then - of_nat (times_1_2 (nat (- requiredSpace)))
                    else of_nat (times_1_2 (nat requiredSpace)) :: 64 word);
          least = word_of_int requiredSpace + minBufferBytes
      in if scaled < least then least else scaled)"

definition IsDiskSpaceAvailable :: "'a daemon_env_scheme \<Rightarrow> string \<Rightarrow> (inbd_world, bool) action" where
  "IsDiskSpaceAvailable env url =
     andthen (GetFreeDiskSpaceInBytes env SOTADownloadDir) (\<lambda>availableSpace.
     andthen (wrap ''error reading JWT token: '' (ReadJWTToken env JWTTokenPath)) (\<lambda>_.
     andthen (wrap ''error getting file size: '' (GetFileSizeInBytes env url)) (\<lambda>requiredSpace.
     ret (\<not> availableSpace < with_buffer requiredSpace))))"

section \<open>The download\<close>

text \<open>The file is created before the body is read: after an error it holds what arrived.\<close>

definition save_body :: "'a daemon_env_scheme \<Rightarrow> string \<Rightarrow> http_response \<Rightarrow> (inbd_world, unit) action" where
  "save_body env p resp =
     andthen (wrap ''error creating file: '' (on_files (os_OpenTrunc (workdir env) p))) (\<lambda>q.
     andthen (on_files (overwrite q (Body resp))) (\<lambda>_.
     case Body_error resp of Some e \<Rightarrow> fail (''error downloading file: '' @ e) | None \<Rightarrow> ret ()))"

text \<open>\<^verbatim>\<open>path.Base\<close> is \<^verbatim>\<open>filepath.Base\<close> on Unix.\<close>

definition DownloadFile :: "'a daemon_env_scheme \<Rightarrow> string \<Rightarrow> string \<Rightarrow> http_client option \<Rightarrow> (inbd_world, unit) action" where
  "DownloadFile env url destinationDir client =
     andthen (wrap ''error creating request: '' (http_NewRequest ''GET'' url)) (\<lambda>req.
     andthen (wrap ''error reading JWT token: '' (ReadJWTToken env JWTTokenPath)) (\<lambda>token.
     andthen (wrap ''error performing request: '' (DoSecureHTTPRequest env client
                (if token = [] then req else req\<lparr>http_Headers := [(''Authorization'', ''Bearer '' @ token)]\<rparr>) url)) (\<lambda>resp.
     if StatusCode resp \<noteq> 200
     then fail (''Status code: '' @ show_int (StatusCode resp) @ ''. Expected 200/Success.'')
     else case url_Parse url of Inl e \<Rightarrow> fail (''invalid URL: '' @ e)
     | Inr parsedURL \<Rightarrow>
         (let fileName = filepath_Base (Path parsedURL) in
          if fileName \<in> {[], ''.'', ''/''} then fail (''could not extract file name from URL: '' @ url)
          else save_body env (destinationDir @ ''/'' @ fileName) resp))))"

section \<open>Properties\<close>

text \<open>A client without a token does not verify the certificate of the server.\<close>

lemma anonymous_skips_verification:
  "CreateSecureHTTPClient env url [] w = (Ok c, w') \<Longrightarrow> InsecureSkipVerify c"
  by (auto simp: CreateSecureHTTPClient_def andthen_eq_Ok ret_apply fail_apply split: sum.splits)

lemma content_length_range: "content_length resp e = Inr n \<Longrightarrow> n < 2 ^ 63"
  by (auto simp: content_length_def Let_def dest!: ParseInt64_range split: if_splits option.splits)

lemma range_total_range: "range_total s = Some n \<Longrightarrow> n < 2 ^ 63"
  by (auto simp: range_total_def dest!: ParseInt64_range split: if_splits option.splits list.splits)

lemma sizes_in_range:
  "getFileSizeWithHEAD env url w = (Ok n, w') \<Longrightarrow> n < 2 ^ 63"
  "getFileSizeWithRange env url w = (Ok n, w') \<Longrightarrow> n < 2 ^ 63"
  "GetFileSizeInBytes env url w = (Ok n, w') \<Longrightarrow> n < 2 ^ 63"
proof -
  show h: "getFileSizeWithHEAD env url w = (Ok n, w') \<Longrightarrow> n < 2 ^ 63" for w
    by (auto simp: getFileSizeWithHEAD_def andthen_eq_Ok lift_result_def ret_apply fail_apply
        dest: content_length_range split: if_splits sum.splits)
  show r: "getFileSizeWithRange env url w = (Ok n, w') \<Longrightarrow> n < 2 ^ 63" for w
    by (auto simp: getFileSizeWithRange_def andthen_eq_Ok lift_result_def ret_apply fail_apply
        dest: content_length_range range_total_range split: if_splits sum.splits option.splits)
  show "GetFileSizeInBytes env url w = (Ok n, w') \<Longrightarrow> n < 2 ^ 63"
    by (auto simp: GetFileSizeInBytes_def andthen_eq_Ok attempt_apply ret_apply dest: h r
        split: prod.splits outcome.splits sum.splits)
qed

lemma with_buffer_least: "0 \<le> n \<Longrightarrow> n < 2 ^ 63 \<Longrightarrow> n + 100 * 1024 * 1024 \<le> uint (with_buffer n)"
proof -
  assume n: "0 \<le> n" "n < 2 ^ 63"
  have "uint (word_of_int n + minBufferBytes) = n + 100 * 1024 * 1024"
    using n by (simp add: minBufferBytes_def uint_word_ariths take_bit_eq_mod uint_word_of_int)
  moreover have "word_of_int n + minBufferBytes \<le> with_buffer n"
    by (auto simp: with_buffer_def Let_def)
  ultimately show ?thesis by (simp add: word_le_def)
qed


definition roomy_node :: daemon_env where
  "roomy_node = \<lparr>workdir = [], tar_entries = (\<lambda>s. []), pem_Decode = Some, x509_Parse = (\<lambda>d. Inr OtherKey), hash_sum = (\<lambda>a s. s),
     VerifyPSS = (\<lambda>key a h sg. None), deadline = (\<lambda>k. False),
     json_Unmarshal = (\<lambda>s. Inr None), json_Marshal = (\<lambda>m. []),
     schema_error = (\<lambda>sch doc. None), temp_random = ''1'',
   run_command = (\<lambda>n c fs. (\<lparr>stdout = [], stderr = [], combined = [], failure = None\<rparr>, fs)),
   http_Do = (\<lambda>n c q. Inr \<lparr>StatusCode = 200, Header = \<lambda>h. ''3'', Body = ''img'', Body_error = None\<rparr>),
   INBM_CUSTOM_CA_FILE = [], AppendCertsFromPEM = (\<lambda>ca. False),
     clock = (\<lambda>n. 0), statfs = (\<lambda>n p. Inr (25601, 4096, 0)), list_dir = (\<lambda>fs q. []), setenv_error = (\<lambda>n v. None),
     lsb_release_a = (\<lambda>n. Inr ''Ubuntu''), goos = ''linux'', jwt_exp = (\<lambda>t. Inr None),
     state_Marshal = (\<lambda>st. ''s''), state_Unmarshal = (\<lambda>d. Inl ''bad''),
     config_Unmarshal = (\<lambda>d. Inr \<lparr>TrustedRepositories = [''https''], ProceedWithoutRollback = True\<rparr>),
     status_Marshal = (\<lambda>st. us_Status st), granular_Marshal = (\<lambda>m. []), request_Marshal = (\<lambda>q. Inr ''{}'')\<rparr>"

definition token_world :: inbd_world where
  "token_world = \<lparr>files = map_of [([''etc''], Directory), ([''etc'', ''intel_edge_node''], Directory), ([''etc'', ''intel_edge_node'', ''tokens''], Directory),
     ([''etc'', ''intel_edge_node'', ''tokens'', ''release-service''], Directory),
     ([''etc'', ''intel_edge_node'', ''tokens'', ''release-service'', ''access_token''], Regular [])], ran = [], wtick = 0\<rparr>"


lemma buffer_3: "with_buffer 3 = 104857603"
proof -
  have "bit_length 3 = 2" by (simp add: bit_length.simps)
  moreover have "bit_length 16212958658533785 = 54" by (simp add: bit_length.simps)
  ultimately have "times_1_2 3 = 3" by (simp add: times_1_2_def round53_def Let_def)
  then show ?thesis by (simp add: with_buffer_def minBufferBytes_def Let_def word_less_def)
qed


end
