(* ===== verification/Inbd_Firmware.thy ===== *)
theory Inbd_Firmware
  imports Inbd_Telemetry Inbd_Download
begin

text \<open>
  The firmware updater of the in-band manageability daemon
  (\<^verbatim>\<open>in-band-manageability/internal/fw_updater\<close>): the table of firmware tools with its checks
  (\<^verbatim>\<open>config_finder.go\<close>, \<^verbatim>\<open>implementations.go\<close>), the download (\<^verbatim>\<open>download.go\<close>) and the update
  (\<^verbatim>\<open>fw_updater.go\<close>).

  The JSON decoder is the functions \<open>json_Value\<close> (any value) and \<open>products_Unmarshal\<close> (the list
  \<^verbatim>\<open>firmware_component.firmware_products\<close>); the schema validator is \<open>schema_error\<close>. Times are
  nanoseconds since 1970; a missing date is 0.
\<close>

section \<open>The table of tools\<close>

record FirmwareToolInfo =
  Name :: string
  ToolOptions :: bool
  GUID :: bool
  FirmwareTool :: string
  FirmwareToolArgs :: string
  FirmwareToolCheckArgs :: string

record firmware_env = telemetry_env +
  json_Value :: "string \<Rightarrow> string + json"
  products_Unmarshal :: "string \<Rightarrow> string + FirmwareToolInfo list"

definition firmwareToolInfoFilePath :: string where
  "firmwareToolInfoFilePath = ''/etc/firmware_tool_info.conf''"
definition firmwareToolInfoSchemaFilePath :: string where
  "firmwareToolInfoSchemaFilePath = ''/usr/share/firmware_tool_config_schema.json''"

definition maxFileSize :: nat where "maxFileSize = 1024 * 1024"
definition maxJSONDepth :: nat where "maxJSONDepth = 100"
definition maxJSONProperties :: nat where "maxJSONProperties = 10000"

definition validateFilePathSecurity :: "string \<Rightarrow> string + unit" where
  "validateFilePathSecurity filePath =
     (if Contains filePath ''..'' then Inl (''file path '' @ filePath @ '' contains suspicious path traversal patterns'')
      else if length filePath > 4096 then Inl (''file path '' @ filePath @ '' is too long'') else Inr ())"

text \<open>The size of a directory or a device is not modelled; reading it fails.\<close>

definition validateFileSize :: "path \<Rightarrow> string \<Rightarrow> (filesystem, unit) action" where
  "validateFileSize cwd filePath = (\<lambda>fs. case resolve True False 40 fs [] (components cwd filePath) of
     Inl _ \<Rightarrow> (Err (''failed to get file info for '' @ filePath), fs)
   | Inr q \<Rightarrow> (case fs q of
       Some (Regular d) \<Rightarrow> if length d > maxFileSize then (Err (''file '' @ filePath @ '' is too large''), fs) else (Ok (), fs)
     | _ \<Rightarrow> (Ok (), fs)))"

definition validateJSONContent :: "string \<Rightarrow> string \<Rightarrow> string + unit" where
  "validateJSONContent data filePath =
     (if \<exists>b \<in> set data. (of_char b :: nat) < 32 \<and> b \<notin> {CHR 0x09, CHR 0x0A, CHR 0x0D, CHR 0x0C}
      then Inl (''file '' @ filePath @ '' contains binary data, not text'') else Inr ())"

text \<open>The nesting depth and the number of properties. An array without elements adds no level.\<close>

fun getJSONComplexity :: "json \<Rightarrow> nat \<Rightarrow> nat \<times> nat" where
  "getJSONComplexity (JObj m) currentDepth =
     (let ch = map (\<lambda>(_, v). getJSONComplexity v (currentDepth + 1)) m in
      (foldl max (currentDepth + 1) (map fst ch), length m + sum_list (map snd ch)))"
| "getJSONComplexity (JList l) currentDepth =
     (let ch = map (\<lambda>v. getJSONComplexity v (currentDepth + 1)) l in
      (foldl max currentDepth (map fst ch), sum_list (map snd ch)))"
| "getJSONComplexity _ currentDepth = (currentDepth, 0)"

definition validateJSONStructure :: "'a firmware_env_scheme \<Rightarrow> string \<Rightarrow> string \<Rightarrow> string + unit" where
  "validateJSONStructure env data filePath =
     (if data = [] then Inr () else case json_Value env data of Inl e \<Rightarrow> Inl e
      | Inr obj \<Rightarrow> (let (depth, propCount) = getJSONComplexity obj 0 in
          if depth > maxJSONDepth then Inl (''file '' @ filePath @ '' has excessive JSON nesting depth'')
          else if propCount > maxJSONProperties then Inl (''file '' @ filePath @ '' has too many JSON properties'')
          else Inr ()))"

definition secureReadFile :: "'a firmware_env_scheme \<Rightarrow> string \<Rightarrow> (filesystem, string) action" where
  "secureReadFile env filePath =
     andthen (lift_result (validateFilePathSecurity filePath)) (\<lambda>_.
     andthen (validateFileSize (workdir env) filePath) (\<lambda>_.
     andthen (wrap (''failed to read file '' @ filePath @ '': '') (ReadFile (workdir env) filePath)) (\<lambda>data.
     andthen (lift_result (validateJSONContent data filePath)) (\<lambda>_.
     andthen (lift_result (validateJSONStructure env data filePath)) (\<lambda>_. ret data)))))"

definition ReadAndValidateConfig :: "'a firmware_env_scheme \<Rightarrow> string \<Rightarrow> string \<Rightarrow> (filesystem, string) action" where
  "ReadAndValidateConfig env configPath schemaPath =
     andthen (wrap ''failed to read schema file: '' (secureReadFile env schemaPath)) (\<lambda>schemaData.
     andthen (wrap ''failed to read config file: '' (secureReadFile env configPath)) (\<lambda>configData.
     case schema_error env schemaData configData of
       Some e \<Rightarrow> fail (''failed to validate config: '' @ e) | None \<Rightarrow> ret configData))"

definition extractPlatformConfig :: "'a firmware_env_scheme \<Rightarrow> string \<Rightarrow> string \<Rightarrow> string + FirmwareToolInfo" where
  "extractPlatformConfig env configData platformName = (case products_Unmarshal env configData of
     Inl e \<Rightarrow> Inl (''failed to unmarshal config: '' @ e)
   | Inr products \<Rightarrow> (case find (\<lambda>info. Name info = platformName) products of
       Some info \<Rightarrow> Inr info
     | None \<Rightarrow> Inl (''platform '' @ platformName @ '' not found in config. Please add firmware update configuration information and try again'')))"

definition GetPlatformConfig :: "'a firmware_env_scheme \<Rightarrow> string \<Rightarrow> string \<Rightarrow> string \<Rightarrow> (filesystem, FirmwareToolInfo) action" where
  "GetPlatformConfig env configPath schemaPath platformName =
     andthen (wrap ''failed to validate firmware tool config: '' (ReadAndValidateConfig env configPath schemaPath)) (\<lambda>configData.
     lift_result (extractPlatformConfig env configData platformName))"

definition GetFirmwareUpdateToolInfo :: "'a firmware_env_scheme \<Rightarrow> string \<Rightarrow> (filesystem, FirmwareToolInfo) action" where
  "GetFirmwareUpdateToolInfo env platformName =
     GetPlatformConfig env firmwareToolInfoFilePath firmwareToolInfoSchemaFilePath platformName"

section \<open>The download\<close>

record UpdateFirmwareRequest =
  fw_Url :: string
  fw_ReleaseDate :: "int option"
  fw_DoNotReboot :: bool
  fw_Signature :: string
  fw_HashAlgorithm :: string

definition fw_download :: "'a daemon_env_scheme \<Rightarrow> string \<Rightarrow> (inbd_world, unit) action" where
  "fw_download env url =
     andthen (attempt (CreateSecureHTTPClient env url [])) (\<lambda>c.
     let client = (case c of Inl _ \<Rightarrow> None | Inr x \<Rightarrow> Some x) in
     andthen (wrap ''error loading config: '' (LoadConfig env ConfigFilePath)) (\<lambda>config.
     if \<not> IsTrustedRepository url config then fail (''URL '' @ url @ '' is not in the list of trusted repositories.'') else
     andthen (wrap ''error checking disk space: '' (IsDiskSpaceAvailable env url)) (\<lambda>isDiskEnough.
     if \<not> isDiskEnough then fail ''insufficient disk space'' else
     wrap ''error downloading the file: '' (DownloadFile env url CachePathPrefix client))))"

section \<open>The tool\<close>

fun parseGuids :: "string list \<Rightarrow> string list \<Rightarrow> string list" where
  "parseGuids [] types = []"
| "parseGuids (line # ls) types =
     (if list_ex (Contains line) types then
        (case Split line (CHR '','') of _ # p # _ \<Rightarrow>
           (case Fields p of w # _ \<Rightarrow>
              (let guidStr = Trim w ''{}'' in
               if length guidStr = 36 \<and> length (filter (\<lambda>c. c = CHR ''-'') guidStr) = 4 then [guidStr] else [])
            | [] \<Rightarrow> [])
         | _ \<Rightarrow> [])
      else []) @ parseGuids ls types"

definition run_tool :: "'a daemon_env_scheme \<Rightarrow> string list \<Rightarrow> (inbd_world, string + string) action" where
  "run_tool env cmd = andthen (spawn env cmd) (\<lambda>r. ret (if failure r = None then Inr (combined r) else Inl (combined r)))"

definition extractGuids :: "'a daemon_env_scheme \<Rightarrow> string \<Rightarrow> string list \<Rightarrow> (inbd_world, string list) action" where
  "extractGuids env firmwareTool types =
     andthen (run_tool env [firmwareTool, ''-l'']) (\<lambda>r. case r of
       Inl out \<Rightarrow> fail (''firmware update aborted: failed to list GUIDs: '' @ out)
     | Inr out \<Rightarrow> (let guids = parseGuids (Split out nl) types in
         if guids = [] then fail ''firmware update aborted: no GUIDs found matching types'' else ret guids))"

definition getGuidFromSystem :: "'a daemon_env_scheme \<Rightarrow> string \<Rightarrow> string \<Rightarrow> (inbd_world, string) action" where
  "getGuidFromSystem env firmwareTool manifestGuid =
     andthen (extractGuids env firmwareTool [''System Firmware type'', ''system-firmware type'']) (\<lambda>extractedGuids.
     if manifestGuid \<noteq> [] then
       (if manifestGuid \<in> set extractedGuids then ret manifestGuid
        else fail ''GUID in manifest does not match any system firmware GUID on the system'')
     else case extractedGuids of g # _ \<Rightarrow> ret g | [] \<Rightarrow> fail ''no GUIDs found'')"

definition applyFirmware :: "'a daemon_env_scheme \<Rightarrow> string \<Rightarrow> FirmwareToolInfo \<Rightarrow> (inbd_world, unit) action" where
  "applyFirmware env firmwareFilePath toolInfo =
     (let tool = FirmwareTool toolInfo in
      andthen (on_files (IsFileExist (workdir env) tool)) (\<lambda>ex.
      if Contains tool ''/'' \<and> \<not> ex then fail (''firmware update aborted: firmware tool does not exist at '' @ tool) else
      andthen (if FirmwareToolCheckArgs toolInfo \<noteq> []
               then run_tool env (tool # Fields (FirmwareToolCheckArgs toolInfo)) else ret (Inr [])) (\<lambda>check. case check of
        Inl out \<Rightarrow> fail (''firmware update aborted: firmware tool check failed: '' @ out)
      | Inr _ \<Rightarrow>
          andthen (if GUID toolInfo then andthen (wrap ''failed to get GUID from system: '' (getGuidFromSystem env tool [])) (\<lambda>g. ret [g])
                   else ret []) (\<lambda>guid.
          andthen (run_tool env (tool # Fields (FirmwareToolArgs toolInfo) @ guid @ [firmwareFilePath])) (\<lambda>r. case r of
            Inl out \<Rightarrow> fail (''firmware update failed: '' @ (if out = [] then ''Firmware command failed'' else out))
          | Inr _ \<Rightarrow> ret ())))))"

section \<open>The package\<close>

definition extractFileExt :: "string \<Rightarrow> string" where
  "extractFileExt filename = (let ext = ToLower (last (Split filename (CHR ''.''))) in
     if ext \<in> {''fv'', ''cap'', ''bio''} then ''package''
     else if ext \<in> {''cert'', ''pem'', ''crt''} then ''cert''
     else if ext = ''bin'' then ''bios'' else [])"

text \<open>Of several firmware or certificate files the last one counts.\<close>

fun files_of_lines :: "string \<times> string \<Rightarrow> string list \<Rightarrow> string \<times> string" where
  "files_of_lines acc [] = acc"
| "files_of_lines acc (l # ls) = files_of_lines
     (if extractFileExt l \<in> {''package'', ''bios''} then (l, snd acc)
      else if extractFileExt l = ''cert'' then (fst acc, l) else acc) ls"

fun unique_lines :: "string list \<Rightarrow> string list \<Rightarrow> string list" where
  "unique_lines seen [] = []"
| "unique_lines seen (l # ls) = (let t = TrimSpace l in
     if t \<noteq> [] \<and> t \<notin> set seen then t # unique_lines (t # seen) ls else unique_lines seen ls)"

definition getFilesFromTarOutput :: "string \<Rightarrow> string \<times> string" where
  "getFilesFromTarOutput output = files_of_lines ([], []) (unique_lines [] (Split output nl))"

definition unpackFile :: "'a daemon_env_scheme \<Rightarrow> string \<Rightarrow> string \<Rightarrow> (inbd_world, string \<times> string) action" where
  "unpackFile env repoPath pkgFilename =
     andthen (run_tool env [''tar'', ''-xvf'', filepath_Join repoPath pkgFilename, ''--no-same-owner'', ''-C'', repoPath]) (\<lambda>r. case r of
       Inl out \<Rightarrow> fail (''firmware update aborted: invalid file sent. error: '' @ out)
     | Inr out \<Rightarrow> ret (getFilesFromTarOutput out))"

definition extractFileInfo :: "'a daemon_env_scheme \<Rightarrow> string \<Rightarrow> string \<Rightarrow> (inbd_world, string \<times> string) action" where
  "extractFileInfo env pkgFilePath repoPath =
     (let pkgFilename = filepath_Base pkgFilePath in
      if extractFileExt pkgFilename \<in> {''package'', ''bios''} then ret (pkgFilename, [])
      else unpackFile env repoPath pkgFilename)"

definition delete_cached :: "path \<Rightarrow> string \<Rightarrow> (filesystem, unit) action" where
  "delete_cached cwd name = (if name = [] then ret () else ignore (os_Remove_path cwd (filepath_Join CachePathPrefix name)))"

definition deleteFiles :: "path \<Rightarrow> string \<Rightarrow> string \<Rightarrow> string \<Rightarrow> (filesystem, unit) action" where
  "deleteFiles cwd pkgFilename fwFilename certFilename =
     andthen (delete_cached cwd pkgFilename) (\<lambda>_.
     andthen (delete_cached cwd fwFilename) (\<lambda>_. delete_cached cwd certFilename))"

section \<open>The update\<close>

text \<open>The hash algorithm of a request: sha384 when none is given.\<close>

definition final_algorithm :: "string \<Rightarrow> string option" where
  "final_algorithm alg = (if alg = [] then Some ''sha384''
     else if ToLower alg \<in> {''sha256'', ''sha384'', ''sha512''} then Some (ToLower alg) else None)"

definition fw_path :: "UpdateFirmwareRequest \<Rightarrow> string" where
  "fw_path req = filepath_Join CachePathPrefix (filepath_Base (fw_Url req))"

definition check_fw_signature :: "'a daemon_env_scheme \<Rightarrow> UpdateFirmwareRequest \<Rightarrow> string \<Rightarrow> (inbd_world, unit) action" where
  "check_fw_signature env req alg = (if fw_Signature req = [] then ret () else
     andthen (attempt (on_files (VerifySignature env (fw_Signature req) (fw_path req) (ParseHashAlgorithm alg)))) (\<lambda>r. case r of
       Inl e \<Rightarrow> andthen (on_files (ignore (os_Remove_path (workdir env) (fw_path req)))) (\<lambda>_.
                fail (''Signature verification failed: '' @ e))
     | Inr _ \<Rightarrow> ret ()))"

definition install_firmware :: "'a daemon_env_scheme \<Rightarrow> UpdateFirmwareRequest \<Rightarrow> FirmwareToolInfo \<Rightarrow> (inbd_world, response) action" where
  "install_firmware env req tool =
     or_code 500 (extractFileInfo env (fw_path req) CachePathPrefix) (\<lambda>(fwFile, certFile).
     andthen (attempt (applyFirmware env (filepath_Join CachePathPrefix fwFile) tool)) (\<lambda>r.
     andthen (on_files (deleteFiles (workdir env) (filepath_Base (fw_Url req)) fwFile certFile)) (\<lambda>_. case r of
       Inl e \<Rightarrow> ret (500, e)
     | Inr _ \<Rightarrow>
         andthen (if fw_DoNotReboot req then ret () else ignore (RebootSystem env)) (\<lambda>_. ret (200, ''Success'')))))"

definition bios_time :: "FirmwareInfo \<Rightarrow> int" where
  "bios_time fw = (case BiosReleaseDate fw of None \<Rightarrow> 0 | Some t \<Rightarrow> t * 1000000000)"

definition requested_time :: "UpdateFirmwareRequest \<Rightarrow> int" where
  "requested_time req = (case fw_ReleaseDate req of None \<Rightarrow> 0 | Some t \<Rightarrow> t)"

definition FWUpdater_UpdateFirmware :: "'a firmware_env_scheme \<Rightarrow> UpdateFirmwareRequest \<Rightarrow> (inbd_world, response) action" where
  "FWUpdater_UpdateFirmware env req = (case final_algorithm (fw_HashAlgorithm req) of
     None \<Rightarrow> ret (400, ''invalid hash algorithm: must be sha256, sha384, or sha512'')
   | Some alg \<Rightarrow>
       or_code 500 (GetHardwareInfo env) (\<lambda>hwInfo.
       or_code 500 (on_files (GetFirmwareUpdateToolInfo env (SystemProductName hwInfo))) (\<lambda>tool.
       or_code 500 (GetFirmwareInfo env) (\<lambda>fwInfo.
       if bios_time fwInfo \<ge> requested_time req then ret (400, ''Firmware update is not required.'') else
       or_code 500 (fw_download env (fw_Url req)) (\<lambda>_.
       or_code 400 (check_fw_signature env req alg) (\<lambda>_.
       install_firmware env req tool))))))"

section \<open>The complexity of a configuration\<close>

text \<open>The reference: the levels of nesting that hold an element, and the number of properties at any depth.\<close>

fun nesting :: "json \<Rightarrow> nat" where
  "nesting (JObj m) = Max (insert 1 ((\<lambda>(_, v). Suc (nesting v)) ` set m))"
| "nesting (JList l) = Max (insert 0 ((\<lambda>v. Suc (nesting v)) ` set l))"
| "nesting _ = 0"

fun properties_in :: "json \<Rightarrow> nat" where
  "properties_in (JObj m) = sum_list (map (\<lambda>(_, v). Suc (properties_in v)) m)"
| "properties_in (JList l) = sum_list (map properties_in l)"
| "properties_in _ = 0"

lemma foldl_max: "foldl max (a :: nat) xs = Max (insert a (set xs))"
proof (induction xs arbitrary: a)
  case (Cons x xs)
  then show ?case by (cases "xs = []") (auto simp: max.assoc max.commute)
qed simp

lemma Max_shift: "finite S \<Longrightarrow> Max (insert (d + a) ((\<lambda>x. d + x) ` S)) = d + Max (insert (a :: nat) S)"
  using mono_Max_commute [of "\<lambda>x. d + x" "insert a S"] by (simp add: mono_def)

text \<open>The check of a configuration's complexity computes the nesting depth and the number of properties of
  the document; an array counts as a level only when it has elements.\<close>

theorem complexity_is_nesting:
  "getJSONComplexity v d = (d + nesting v, properties_in v)"
proof (induction v d rule: getJSONComplexity.induct)
  case (1 m d)
  have ch: "map (\<lambda>x. fst (getJSONComplexity (snd x) (Suc d))) m = map (\<lambda>(_, v). d + 1 + nesting v) m"
    "map (\<lambda>x. snd (getJSONComplexity (snd x) (Suc d))) m = map (\<lambda>(_, v). properties_in v) m"
    using 1 by auto
  have "foldl max (d + 1) (map (\<lambda>(_, v). d + 1 + nesting v) m) = d + nesting (JObj m)"
    using Max_shift [of "(\<lambda>(_, v). Suc (nesting v)) ` set m" d 1] by (simp add: foldl_max image_image case_prod_beta)
  moreover have "length m + sum_list (map (\<lambda>(_, v). properties_in v) m) = properties_in (JObj m)"
    by (induction m) (auto simp: case_prod_beta)
  ultimately show ?case by (simp add: Let_def comp_def case_prod_unfold ch [unfolded case_prod_unfold] del: nesting.simps)
next
  case (2 l d)
  have ch: "map (\<lambda>x. fst (getJSONComplexity x (Suc d))) l = map (\<lambda>v. d + 1 + nesting v) l"
    "map (\<lambda>x. snd (getJSONComplexity x (Suc d))) l = map properties_in l"
    using 2 by auto
  have "foldl max d (map (\<lambda>v. d + 1 + nesting v) l) = d + nesting (JList l)"
    using Max_shift [of "(\<lambda>v. Suc (nesting v)) ` set l" d 0] by (simp add: foldl_max image_image)
  then show ?case by (simp add: ch Let_def comp_def del: nesting.simps)
qed auto

end
