(* ===== verification/Inbd_Os.thy ===== *)
theory Inbd_Os
  imports Inbd_Download
begin

text \<open>
  The OS updater of the in-band manageability daemon
  (\<^verbatim>\<open>in-band-manageability/internal/os_updater\<close>): the frame of an update (\<^verbatim>\<open>os_updater.go\<close>), its
  two providers for Edge Microvisor Toolkit (\<^verbatim>\<open>emt\<close>) and Ubuntu (\<^verbatim>\<open>ubuntu\<close>), and the
  verification after the reboot (\<^verbatim>\<open>post_reboot_verifier.go\<close> and those of the providers).

  A provider is the record \<open>UpdaterFactory\<close> of its operations. Snapper, apt-get, dpkg and the OS
  update tool are commands of the world.
\<close>

section \<open>The frame\<close>

record UpdaterFactory =
  fDownload :: "(inbd_world, unit) action"
  fSnapshot :: "(inbd_world, unit) action"
  fUpdate :: "(inbd_world, bool) action"
  fClean :: "(inbd_world, unit) action"
  fReboot :: "(inbd_world, unit) action"

text \<open>What happens when the snapshot fails: the update goes on only if the configuration allows it.\<close>

definition without_snapshot ::
  "'a daemon_env_scheme \<Rightarrow> UpdaterFactory \<Rightarrow> string \<Rightarrow> (inbd_world, unit) action" where
  "without_snapshot env f err =
     andthen (attempt (LoadConfig env ConfigFilePath)) (\<lambda>r. case r of
       Inl loadErr \<Rightarrow> andthen (ignore (fClean f)) (\<lambda>_. fail loadErr)
     | Inr config \<Rightarrow>
         if \<not> ProceedWithoutRollback config
         then andthen (ignore (fClean f)) (\<lambda>_. fail (''proceedWithoutRollback configuration flag is false; can not proceed as snapshot failed: '' @ err))
         else ret ())"

definition UpdateOS :: "'a daemon_env_scheme \<Rightarrow> UpdateSystemSoftwareRequest \<Rightarrow> UpdaterFactory \<Rightarrow> (inbd_world, response) action" where
  "UpdateOS env req f = or_500 (
     andthen (if Mode req \<noteq> DOWNLOAD_MODE_NO_DOWNLOAD then fDownload f else ret ()) (\<lambda>_.
     andthen (attempt (fSnapshot f)) (\<lambda>r.
     andthen (case r of Inl err \<Rightarrow> without_snapshot env f err | Inr _ \<Rightarrow> ret ()) (\<lambda>_.
     andthen (attempt (fUpdate f)) (\<lambda>u. case u of
       Inl err \<Rightarrow> andthen (ignore (fClean f)) (\<lambda>_. fail err)
     | Inr proceedWithReboot \<Rightarrow>
         andthen (ignore (fClean f)) (\<lambda>_.
         andthen (if proceedWithReboot \<and> Mode req \<noteq> DOWNLOAD_MODE_DOWNLOAD_ONLY then fReboot f else ret ()) (\<lambda>_.
         ret (200, ''Success'')))))))) "

section \<open>Edge Microvisor Toolkit\<close>

definition emt_Snapshot :: "'a daemon_env_scheme \<Rightarrow> (inbd_world, unit) action" where
  "emt_Snapshot env =
     andthen (wrap ''failed to clear dispatcher state file: '' (ClearStateFile env)) (\<lambda>_.
     andthen (wrap ''failed to get image build date: '' (GetImageBuildDate env)) (\<lambda>buildDate.
     if buildDate = [] then fail ''failed to get image build date: '' else
     wrap ''failed to write to state file: '' (WriteToStateFile env
       (state_Marshal env (no_state\<lparr>RestartReason := ''sota'', TiberVersion := buildDate\<rparr>)))))"

text \<open>Run a step; when it fails, report it and fail with a new text.\<close>

definition or_report :: "'a daemon_env_scheme \<Rightarrow> string \<Rightarrow> string \<Rightarrow> string \<Rightarrow> string \<Rightarrow> (inbd_world, 'b) action \<Rightarrow> (inbd_world, 'b) action" where
  "or_report env osType metadata reason pre m =
     andthen (attempt m) (\<lambda>r. case r of
       Inl err \<Rightarrow> andthen (report env osType ''FAIL'' metadata err reason) (\<lambda>_. fail (pre @ err))
     | Inr x \<Rightarrow> ret x)"

definition url_file :: "string \<Rightarrow> string" where
  "url_file url = SOTADownloadDir @ ''/'' @ last (Split url (CHR ''/''))"

definition emt_isDiskSpaceAvailable :: "'a daemon_env_scheme \<Rightarrow> string \<Rightarrow> (inbd_world, bool) action" where
  "emt_isDiskSpaceAvailable env url =
     andthen (GetFreeDiskSpaceInBytes env SOTADownloadDir) (\<lambda>availableSpace.
     andthen (attempt (GetFileSizeInBytes env url)) (\<lambda>r. case r of
       Inl _ \<Rightarrow> ret True
     | Inr requiredSpace \<Rightarrow> ret (\<not> availableSpace < word_of_int requiredSpace)))"

definition handleAuthError :: "http_response \<Rightarrow> string" where
  "handleAuthError resp = (case Body_error resp of
     Some e \<Rightarrow> ''error reading response body: '' @ e
   | None \<Rightarrow> if StatusCode resp = 401 \<or> StatusCode resp = 403
             then ''authentication failed: status '' @ show_int (StatusCode resp)
             else ''HTTP error: status '' @ show_int (StatusCode resp) @ '', response: '' @ take 200 (Body resp))"

definition emt_downloadFile :: "'a daemon_env_scheme \<Rightarrow> string \<Rightarrow> (inbd_world, unit) action" where
  "emt_downloadFile env url =
     andthen (wrap ''error creating request: '' (http_NewRequest ''GET'' url)) (\<lambda>req.
     andthen (wrap ''error performing request: '' (http_send env None req)) (\<lambda>resp.
     if StatusCode resp = 200 then save_body env (url_file url) resp else fail (handleAuthError resp)))"

definition emt_Download :: "'a daemon_env_scheme \<Rightarrow> UpdateSystemSoftwareRequest \<Rightarrow> (inbd_world, unit) action" where
  "emt_Download env req =
     (let meta = request_text env req in
      andthen (wrap ''error loading config: '' (LoadConfig env ConfigFilePath)) (\<lambda>config.
      if \<not> IsTrustedRepository (Url req) config then
        (let errMsg = ''URL '' @ Url req @ '' is not in the list of trusted repositories.'' in
         andthen (report env ''emt'' ''FAIL'' meta errMsg ''rsauthentication'') (\<lambda>_. fail errMsg))
      else
      andthen (wrap ''error checking disk space: '' (emt_isDiskSpaceAvailable env (Url req))) (\<lambda>isDiskEnough.
      if \<not> isDiskEnough then
        andthen (report env ''emt'' ''FAIL'' meta ''Insufficient disk space'' ''insufficientstorage'') (\<lambda>_.
        fail ''insufficient disk space'')
      else
      or_report env ''emt'' meta ''download'' ''error downloading the file: '' (emt_downloadFile env (Url req)))))"

definition VerifyHash :: "'a daemon_env_scheme \<Rightarrow> UpdateSystemSoftwareRequest \<Rightarrow> (inbd_world, unit) action" where
  "VerifyHash env req =
     andthen (wrap ''error opening file: '' (on_files (Open (workdir env) (url_file (Url req))))) (\<lambda>q.
     andthen (wrap ''error reading file: '' (on_files (content_of q))) (\<lambda>d.
     if hex_EncodeToString (hash_sum env SHA256 d) \<noteq> Signature req then fail ''checksum mismatch'' else ret ()))"

definition emt_write :: "'a daemon_env_scheme \<Rightarrow> UpdateSystemSoftwareRequest \<Rightarrow> (inbd_world, unit) action" where
  "emt_write env req =
     (let meta = request_text env req in
      andthen (or_report env ''emt'' meta ''signaturecheck'' ''hash verification failed: '' (VerifyHash env req)) (\<lambda>_.
      andthen (or_report env ''emt'' meta ''utwrite'' ''failed to execute shell command: ''
         (Execute_err env [OsUpdateToolCmd, ''-w'', ''-u'', url_file (Url req), ''-s'', Signature req])) (\<lambda>_.
      WriteUpdateStatus env ''SUCCESS'' meta [])))"

definition emt_apply :: "'a daemon_env_scheme \<Rightarrow> UpdateSystemSoftwareRequest \<Rightarrow> (inbd_world, unit) action" where
  "emt_apply env req =
     (let meta = request_text env req in
      andthen (attempt (emt_Snapshot env)) (\<lambda>r. case r of
        Inl e \<Rightarrow> andthen (report env ''emt'' ''FAIL'' meta (''Error taking snapshot: '' @ e) ''inbm'') (\<lambda>_.
                fail (''failed to take snapshot before applying the update: '' @ e))
      | Inr _ \<Rightarrow>
          andthen (or_report env ''emt'' meta ''utbootconfiguration'' ''failed to execute shell command: ''
             (Execute_err env [OsUpdateToolCmd, ''-a''])) (\<lambda>_.
          report env ''emt'' ''SUCCESS'' meta [] [])))"

definition emt_Update :: "'a daemon_env_scheme \<Rightarrow> UpdateSystemSoftwareRequest \<Rightarrow> (inbd_world, bool) action" where
  "emt_Update env req =
     andthen (if Mode req = DOWNLOAD_MODE_DOWNLOAD_ONLY then emt_write env req else ret ()) (\<lambda>_.
     andthen (if Mode req = DOWNLOAD_MODE_NO_DOWNLOAD then emt_apply env req else ret ()) (\<lambda>_.
     ret True))"

definition empty_request :: UpdateSystemSoftwareRequest where
  "empty_request = \<lparr>Url = [], Signature = [], Mode = DOWNLOAD_MODE_UNSPECIFIED, DoNotReboot = False, Packages = []\<rparr>"

definition commitUpdate :: "'a daemon_env_scheme \<Rightarrow> UpdateSystemSoftwareRequest \<Rightarrow> (inbd_world, unit) action" where
  "commitUpdate env req = or_report env ''emt'' (request_text env req) ''oscommit'' ''failed to execute shell command: ''
     (Execute_err env [OsUpdateToolCmd, ''-c''])"

definition emt_Reboot :: "'a daemon_env_scheme \<Rightarrow> UpdateSystemSoftwareRequest \<Rightarrow> (inbd_world, unit) action" where
  "emt_Reboot env req = or_report env ''emt'' (request_text env req) ''unspecified'' ''failed to execute shell command: ''
     (RebootSystem env)"

text \<open>\<^verbatim>\<open>filepath.Walk\<close> over the download directory. The fuel is the depth of a path: a path of the
  kernel has at most 4096 bytes, so at most 2048 components.\<close>

fun walk_clean :: "'a daemon_env_scheme \<Rightarrow> nat \<Rightarrow> string \<Rightarrow> (filesystem, unit) action" where
  "walk_clean env 0 p = fail ''file name too long''"
| "walk_clean env (Suc n) p = (\<lambda>fs. case resolve False False 40 fs [] (components (workdir env) p) of
     Inl _ \<Rightarrow> (Err ''no such file or directory'', fs)
   | Inr q \<Rightarrow> if q = [] \<or> fs q = Some Directory
              then foreach (\<lambda>name. walk_clean env n (filepath_Join p name)) (list_dir env fs q) fs
              else RemoveFile (workdir env) p fs)"

definition emt_Clean :: "'a daemon_env_scheme \<Rightarrow> (inbd_world, unit) action" where
  "emt_Clean env = on_files (walk_clean env 2048 (SOTADownloadDir @ ''/''))"

definition EMTFactory :: "'a daemon_env_scheme \<Rightarrow> UpdateSystemSoftwareRequest \<Rightarrow> UpdaterFactory" where
  "EMTFactory env req = \<lparr>fDownload = emt_Download env req, fSnapshot = emt_Snapshot env, fUpdate = emt_Update env req,
     fClean = emt_Clean env, fReboot = emt_Reboot env req\<rparr>"

section \<open>Ubuntu: snapshots\<close>

definition IsSnapperInstalled :: "'a daemon_env_scheme \<Rightarrow> (inbd_world, bool) action" where
  "IsSnapperInstalled env =
     andthen (Execute_allowed env [SnapperCmd, ''--version'']) (\<lambda>r. case failure r of
       Some _ \<Rightarrow> fail ''snapper is not installed''
     | None \<Rightarrow> ret (TrimSpace (stdout r) \<noteq> []))"

definition EnsureSnapperConfig :: "'a daemon_env_scheme \<Rightarrow> string \<Rightarrow> (inbd_world, unit) action" where
  "EnsureSnapperConfig env configName =
     andthen (Execute_allowed env [SnapperCmd, ''-c'', configName, ''list-configs'']) (\<lambda>r. case failure r of
       Some e \<Rightarrow> fail (''failed to check snapper config: '' @ e)
     | None \<Rightarrow> if Contains (stdout r) configName then ret ()
               else wrap ''failed to create snapper config: ''
                      (Execute_err env [SnapperCmd, ''-c'', configName, ''create-config'', ''/'']))"

definition UndoChange :: "'a daemon_env_scheme \<Rightarrow> int \<Rightarrow> (inbd_world, unit) action" where
  "UndoChange env snapshotNumber =
     (if snapshotNumber = 0 then ret ()
      else wrap ''error executing command: ''
        (Execute_err env [SnapperCmd, ''-c'', ''rootConfig'', ''undochange'', show_int snapshotNumber @ ''..0'']))"

definition DeleteSnapshot :: "'a daemon_env_scheme \<Rightarrow> int \<Rightarrow> (inbd_world, unit) action" where
  "DeleteSnapshot env snapshotNumber =
     (if snapshotNumber = 0 then ret ()
      else wrap ''error executing command: ''
        (Execute_err env [SnapperCmd, ''-c'', ''rootConfig'', ''delete'', show_int snapshotNumber]))"

text \<open>An open that must create the file.\<close>

definition os_OpenExcl :: "path \<Rightarrow> string \<Rightarrow> (filesystem, path) action" where
  "os_OpenExcl cwd p = (\<lambda>fs. case resolve False True 40 fs [] (components cwd p) of
     Inl _ \<Rightarrow> (Err ''error opening file'', fs)
   | Inr q \<Rightarrow> if q = [] \<or> fs q \<noteq> None then (Err ''error opening file'', fs)
              else (Ok q, fs(q := Some (Regular []))))"

definition writeStateFileWithTruncate :: "'a daemon_env_scheme \<Rightarrow> string \<Rightarrow> (inbd_world, unit) action" where
  "writeStateFileWithTruncate env content = on_files (
     andthen (wrap ''error creating directory: '' (os_MkdirAll (workdir env) StateDir)) (\<lambda>_.
     andthen (ignore (os_Remove_path (workdir env) StateFilePath)) (\<lambda>_.
     andthen (attempt (os_OpenExcl (workdir env) StateFilePath)) (\<lambda>r.
     andthen (case r of Inr q \<Rightarrow> ret q
              | Inl _ \<Rightarrow> andthen (ignore (os_Remove_path (workdir env) StateFilePath)) (\<lambda>_.
                        os_OpenExcl (workdir env) StateFilePath)) (\<lambda>q.
     overwrite q content)))))"

text \<open>The list of packages of an older state is kept.\<close>

definition kept_packages :: "'a daemon_env_scheme \<Rightarrow> (inbd_world, string) action" where
  "kept_packages env = andthen (attempt (ReadStateFile env)) (\<lambda>r.
     ret (case r of Inl _ \<Rightarrow> [] | Inr st \<Rightarrow> PackageList st))"

definition save_snapshot_state :: "'a daemon_env_scheme \<Rightarrow> int \<Rightarrow> (inbd_world, unit) action" where
  "save_snapshot_state env n =
     andthen (kept_packages env) (\<lambda>packageList.
     wrap ''failed to write to state file: '' (writeStateFileWithTruncate env
       (state_Marshal env (no_state\<lparr>RestartReason := ''sota'', SnapshotNumber := n, PackageList := packageList\<rparr>))))"

definition IsBTRFS :: "'a daemon_env_scheme \<Rightarrow> (inbd_world, bool) action" where
  "IsBTRFS env = andthen (tock (\<lambda>n. statfs env n ''/'')) (\<lambda>st.
     lift_result (IsBTRFSFileSystem (map_sum id (\<lambda>(_, _, ty). ty) st)))"

definition ubuntu_Snapshot :: "'a daemon_env_scheme \<Rightarrow> (inbd_world, unit) action" where
  "ubuntu_Snapshot env =
     andthen (wrap ''failed to check if file system is BTRFS: '' (IsBTRFS env)) (\<lambda>isBtrfs.
     if isBtrfs then
       andthen (wrap ''snapper installation check failed: '' (IsSnapperInstalled env)) (\<lambda>isInstalled.
       if \<not> isInstalled then fail ''snapper is not installed'' else
       andthen (wrap ''failed to ensure snapper config exists: '' (EnsureSnapperConfig env ''rootConfig'')) (\<lambda>_.
       andthen (Execute_allowed env [SnapperCmd, ''-c'', ''rootConfig'', ''create'', ''-p'', ''--description'', ''sota_update'']) (\<lambda>r.
       case failure r of Some e \<Rightarrow> fail (''error executing command: '' @ e)
       | None \<Rightarrow>
         (let snapshotID = TrimSpace (stdout r) in
          if snapshotID = [] then fail ''snapshot ID is blank''
          else case ParseInt64 snapshotID of None \<Rightarrow> fail (''snapshot ID is not a valid integer: '' @ snapshotID)
          | Some snapshotNumber \<Rightarrow> save_snapshot_state env snapshotNumber))))
     else save_snapshot_state env 0)"

section \<open>Ubuntu: the size of an update\<close>

definition re_ws :: "char \<Rightarrow> bool" where
  "re_ws c = (c \<in> {CHR 0x09, CHR 0x0A, CHR 0x0C, CHR 0x0D, CHR '' ''})"

text \<open>The groups of a number after its first digits, each a comma and digits.\<close>

function comma_groups :: "string \<Rightarrow> string \<times> string" where
  "comma_groups s = (case s of
     CHR '','' # t \<Rightarrow> (let ds = takeWhile is_digit t in
        if ds = [] then ([], s)
        else let (g, rest) = comma_groups (dropWhile is_digit t) in (CHR '','' # ds @ g, rest))
   | _ \<Rightarrow> ([], s))"
  by pat_completeness auto
termination
  by (relation "measure length") (auto simp: le_imp_less_Suc length_dropWhile_le)

declare comma_groups.simps [simp del]

definition last_word :: "string \<Rightarrow> string option" where
  "last_word line = (let ps = filter (\<lambda>k. HasPrefix (drop k line) ''freed'' \<or> HasPrefix (drop k line) ''used'') [0..<length line] in
     if ps = [] then None else Some (if HasPrefix (drop (last ps) line) ''freed'' then ''freed'' else ''used''))"

text \<open>The expression \<^verbatim>\<open>(\d+(?:,\d+)*(\.\d+)?)(\s*(kB|B|MB|GB)).*(freed|used)\<close> at the start of a text:
  the number, the unit and the last word. A shorter number never matches, since a digit, a comma
  or a point would have to start the unit.\<close>

definition size_at :: "string \<Rightarrow> (string \<times> string \<times> string) option" where
  "size_at s = (let ds = takeWhile is_digit s; (g, rest) = comma_groups (dropWhile is_digit s);
       fr = (case rest of CHR ''.'' # t \<Rightarrow> takeWhile is_digit t | _ \<Rightarrow> []);
       (fraction, rest2) = (if fr = [] then ([], rest) else (CHR ''.'' # fr, drop (Suc (length fr)) rest));
       rest3 = dropWhile re_ws rest2
     in if ds = [] then None
        else case filter (HasPrefix rest3) [''kB'', ''B'', ''MB'', ''GB''] of
          [] \<Rightarrow> None
        | unit # _ \<Rightarrow> map_option (\<lambda>w. (ds @ g @ fraction, unit, w))
                        (last_word (takeWhile (\<lambda>c. c \<noteq> nl) (drop (length unit) rest3))))"

fun find_size :: "string \<Rightarrow> (string \<times> string \<times> string) option" where
  "find_size [] = None"
| "find_size (c # s) = (case size_at (c # s) of None \<Rightarrow> find_size s | m \<Rightarrow> m)"

text \<open>The product is taken exactly: for the few decimals that apt prints, the truncation of the
  float64 product agrees with it.\<close>

definition sizeToBytes :: "string \<Rightarrow> string \<Rightarrow> 64 word" where
  "sizeToBytes s unit =
     (let w = takeWhile is_digit s; f = drop (Suc (length w)) s;
          n = (case read_digits 0 (w @ f) of None \<Rightarrow> 0 | Some n \<Rightarrow> n);
          m = (if unit = ''kB'' then 1024 else if unit = ''MB'' then 1024 * 1024
               else if unit = ''GB'' then 1024 * 1024 * 1024 else 1)
      in of_nat (n * m div 10 ^ length f))"

definition noUpdateAvailable :: string where
  "noUpdateAvailable = ''0 upgraded, 0 newly installed, 0 to remove''"

fun after_operation :: "string list \<Rightarrow> string list option" where
  "after_operation [] = Some []"
| "after_operation (l # ls) =
     (if Contains l ''After this operation,'' then map_option ((#) l) (after_operation ls)
      else if Contains l noUpdateAvailable then None else after_operation ls)"

definition getEstimatedSize :: "string \<Rightarrow> string + bool \<times> 64 word" where
  "getEstimatedSize upgradeOutput = (case after_operation (Split upgradeOutput nl) of
     None \<Rightarrow> Inr (False, 0)
   | Some ls \<Rightarrow> (case find_size (Join ls [nl]) of
       None \<Rightarrow> Inl ''failed to get size of the update''
     | Some (number, unit, word) \<Rightarrow>
         if word = ''used'' then Inr (True, sizeToBytes (filter (\<lambda>c. c \<noteq> CHR '','') number) unit) else Inr (True, 0)))"

abbreviation (input) apt_options :: "string list" where
  "apt_options \<equiv> [''-o'', ''Dpkg::Lock::Timeout=300'']"

abbreviation (input) conf_options :: "string list" where
  "conf_options \<equiv> [''-o'', ''Dpkg::Options::=--force-confdef'', ''-o'', ''Dpkg::Options::=--force-confold'']"

definition GetEstimatedSize :: "'a daemon_env_scheme \<Rightarrow> string list \<Rightarrow> (inbd_world, bool \<times> 64 word) action" where
  "GetEstimatedSize env packageList =
     andthen (Execute_allowed env (AptGetCmd # apt_options @ conf_options @
       (if packageList \<noteq> [] then [''-u'', ''install'', ''--assume-no''] @ packageList
        else [''--with-new-pkgs'', ''-u'', ''upgrade'', ''--assume-no'']))) (\<lambda>r.
     if stderr r \<noteq> [] then
       (if Contains (stderr r) ''Unable to locate package'' \<or> Contains (stderr r) ''E: ''
        then fail (''invalid package name(s): '' @ stderr r)
        else fail (''SOTA Aborted: command execution for update size determination failed: '' @ stderr r))
     else if Contains (stdout r) ''Unable to locate package'' then fail (''invalid package name(s): '' @ stdout r)
     else if Contains (stdout r) ''E: '' \<and> \<not> Contains (stdout r) ''Need to get''
     then fail (''package validation failed: '' @ stdout r)
     else if stdout r = [] then fail ''SOTA Aborted: no output from command to determine update size''
     else lift_result (getEstimatedSize (stdout r)))"

section \<open>Ubuntu: the commands\<close>

definition noDownload :: "string list \<Rightarrow> string list list" where
  "noDownload packages =
     [[DpkgCmd, ''--configure'', ''-a'', ''--force-confdef'', ''--force-confold''],
      AptGetCmd # apt_options @ conf_options @ [''-yq'', ''-f'', ''install'']] @
     (if packages = [] then [AptGetCmd # apt_options @ conf_options @ [''--with-new-pkgs'', ''--fix-missing'', ''-yq'', ''upgrade'']]
      else [AptGetCmd # apt_options @ conf_options @ [''--fix-missing'', ''-yq'', ''install''] @ packages])"

definition downloadOnly :: "string list \<Rightarrow> string list list" where
  "downloadOnly packages =
     [[DpkgCmd, ''--configure'', ''-a'', ''--force-confdef'', ''--force-confold''],
      AptGetCmd # apt_options @ [''update'']] @
     (if packages = [] then [AptGetCmd # apt_options @ conf_options @
        [''--with-new-pkgs'', ''--download-only'', ''--fix-missing'', ''-yq'', ''upgrade'']]
      else [AptGetCmd # apt_options @ conf_options @ [''--download-only'', ''--fix-missing'', ''-yq'', ''install''] @ packages])"

definition fullInstall :: "string list \<Rightarrow> string list list" where
  "fullInstall packages =
     [AptGetCmd # apt_options @ [''update''],
      AptGetCmd # apt_options @ [''-yq'', ''-f'', ''install''],
      [DpkgCmd, ''--configure'', ''-a'', ''--force-confdef'', ''--force-confold'']] @
     (if packages = [] then [AptGetCmd # apt_options @ [''-yq''] @ conf_options @ [''--with-new-pkgs'', ''upgrade'']]
      else [AptGetCmd # apt_options @ [''-yq''] @ conf_options @ [''install''], packages])"

definition writeStateFileForPackageInstallation :: "'a daemon_env_scheme \<Rightarrow> string list \<Rightarrow> (inbd_world, unit) action" where
  "writeStateFileForPackageInstallation env packageList =
     (if packageList = [] then ret () else
      andthen (attempt (ReadStateFile env)) (\<lambda>r.
      let fresh = no_state\<lparr>RestartReason := ''package_installation'', PackageList := Join packageList '',''\<rparr> in
      case r of
        Inr st \<Rightarrow> if SnapshotNumber st > 0
                  then writeStateFileWithTruncate env (state_Marshal env (st\<lparr>PackageList := Join packageList '',''\<rparr>))
                  else wrap ''failed to write state file: '' (writeStateFileWithTruncate env (state_Marshal env fresh))
      | Inl _ \<Rightarrow> wrap ''failed to write state file: '' (writeStateFileWithTruncate env (state_Marshal env fresh))))"

definition run_apt :: "'a daemon_env_scheme \<Rightarrow> string \<Rightarrow> string list \<Rightarrow> (inbd_world, unit) action" where
  "run_apt env meta cmd =
     andthen (Execute_allowed env cmd) (\<lambda>r. case failure r of
       Some e \<Rightarrow> andthen (report env ''ubuntu'' ''FAIL'' meta e ''updatetool'') (\<lambda>_.
                fail (''SOTA Aborted: Command execution error: '' @ e))
     | None \<Rightarrow> if stderr r \<noteq> []
               then (let errMsg = ''SOTA Aborted: Command failed: '' @ stderr r in
                     andthen (report env ''ubuntu'' ''FAIL'' meta errMsg ''updatetool'') (\<lambda>_. fail errMsg))
               else ret ())"

definition set_environment :: "'a daemon_env_scheme \<Rightarrow> string \<Rightarrow> (inbd_world, unit) action" where
  "set_environment env meta =
     (let set = (\<lambda>name. andthen (tock (\<lambda>n. setenv_error env n name)) (\<lambda>r. case r of None \<Rightarrow> ret () | Some e \<Rightarrow> fail e));
          must = or_report env ''ubuntu'' meta ''inbm'' ''SOTA Aborted: Failed to set environment variable: '' in
      andthen (must (set ''DEBIAN_FRONTEND'')) (\<lambda>_.
      andthen (ignore (set ''NEEDRESTART_MODE'')) (\<lambda>_.
      andthen (ignore (set ''NEEDRESTART_SUSPEND'')) (\<lambda>_.
      must (set ''PATH'')))))"

text \<open>The update once its size is known to be available.\<close>

definition ubuntu_install :: "'a daemon_env_scheme \<Rightarrow> UpdateSystemSoftwareRequest \<Rightarrow> (inbd_world, bool) action" where
  "ubuntu_install env req =
     (let meta = request_text env req in
      andthen (if Mode req \<in> {DOWNLOAD_MODE_FULL, DOWNLOAD_MODE_NO_DOWNLOAD} \<and> Packages req = [] then
                 andthen (attempt (ubuntu_Snapshot env)) (\<lambda>r. case r of
                   Inl e \<Rightarrow> andthen (report env ''ubuntu'' ''FAIL'' meta (''Error taking snapshot: '' @ e) ''inbm'') (\<lambda>_.
                           fail (''failed to take snapshot before applying the update: '' @ e))
                 | Inr _ \<Rightarrow> ret ())
               else ret ()) (\<lambda>_.
      andthen (case Mode req of
                 DOWNLOAD_MODE_FULL \<Rightarrow> ret (fullInstall (Packages req))
               | DOWNLOAD_MODE_NO_DOWNLOAD \<Rightarrow> ret (noDownload (Packages req))
               | DOWNLOAD_MODE_DOWNLOAD_ONLY \<Rightarrow> ret (downloadOnly (Packages req))
               | _ \<Rightarrow> fail ''SOTA Aborted: Invalid mode'') (\<lambda>cmds.
      andthen (foreach (run_apt env meta) cmds) (\<lambda>_.
      andthen (if Mode req = DOWNLOAD_MODE_NO_DOWNLOAD \<and> Packages req \<noteq> []
               then ignore (writeStateFileForPackageInstallation env (Packages req)) else ret ()) (\<lambda>_.
      andthen (report env ''ubuntu'' ''SUCCESS'' meta [] []) (\<lambda>_.
      ret True))))))"

definition ubuntu_Update :: "'a daemon_env_scheme \<Rightarrow> UpdateSystemSoftwareRequest \<Rightarrow> (inbd_world, bool) action" where
  "ubuntu_Update env req =
     (let meta = request_text env req in
      andthen (set_environment env meta) (\<lambda>_.
      andthen (or_report env ''ubuntu'' meta ''download'' ''SOTA Aborted: Update Failed: '' (GetEstimatedSize env (Packages req))) (\<lambda>(isUpdateAvail, updateSize).
      if \<not> isUpdateAvail then
        (if Packages req \<noteq> [] then
           andthen (if Mode req = DOWNLOAD_MODE_NO_DOWNLOAD
                    then ignore (writeStateFileForPackageInstallation env (Packages req)) else ret ()) (\<lambda>_.
           andthen (report env ''ubuntu'' ''SUCCESS'' meta [] []) (\<lambda>_. ret False))
         else andthen (report env ''ubuntu'' ''SUCCESS'' meta [] []) (\<lambda>_. ret True))
      else
      andthen (or_report env ''ubuntu'' meta ''insufficientstorage'' ''SOTA Aborted: Failed to get free disk space: ''
                 (GetFreeDiskSpaceInBytes env ''/'')) (\<lambda>freeSpace.
      if freeSpace < updateSize
      then (let err = ''SOTA Aborted: Not enough free disk space.'' in
            andthen (report env ''ubuntu'' ''FAIL'' meta err ''insufficientstorage'') (\<lambda>_. fail err))
      else ubuntu_install env req))))"

definition ubuntu_Reboot :: "'a daemon_env_scheme \<Rightarrow> UpdateSystemSoftwareRequest \<Rightarrow> (inbd_world, unit) action" where
  "ubuntu_Reboot env req = (if DoNotReboot req then ret () else RebootSystem env)"

definition UbuntuFactory :: "'a daemon_env_scheme \<Rightarrow> UpdateSystemSoftwareRequest \<Rightarrow> UpdaterFactory" where
  "UbuntuFactory env req = \<lparr>fDownload = ret (), fSnapshot = ubuntu_Snapshot env, fUpdate = ubuntu_Update env req,
     fClean = ret (), fReboot = ubuntu_Reboot env req\<rparr>"

definition GetOSUpdaterFactory ::
  "'a daemon_env_scheme \<Rightarrow> UpdateSystemSoftwareRequest \<Rightarrow> string \<Rightarrow> string + UpdaterFactory" where
  "GetOSUpdaterFactory env req os = (if os = ''EMT'' then Inr (EMTFactory env req)
     else if os = ''Ubuntu'' then Inr (UbuntuFactory env req) else Inl ''unsupported OS'')"

section \<open>After the reboot\<close>

definition CheckNetworkConnection :: "'a daemon_env_scheme \<Rightarrow> (inbd_world, bool) action" where
  "CheckNetworkConnection env = andthen (Execute_allowed env [IPCmd, ''route'', ''show'', ''default'']) (\<lambda>r.
     ret (failure r = None \<and> stdout r \<noteq> []))"

definition verify_package :: "'a daemon_env_scheme \<Rightarrow> string \<Rightarrow> (inbd_world, unit) action" where
  "verify_package env pkg0 =
     (let pkg = TrimSpace pkg0 in
      if pkg = [] then ret () else
      andthen (Execute_allowed env [DpkgCmd, ''-l'', pkg]) (\<lambda>r.
      if failure r \<noteq> None \<or> stderr r \<noteq> [] then
        (let errMsg = ''Package '' @ pkg @ '' verification failed'' in
         andthen (report env ''ubuntu'' ''FAIL'' [] errMsg ''updatetool'') (\<lambda>_. fail errMsg))
      else if \<not> Contains (stdout r) (''ii  '' @ pkg) then
        (let errMsg = ''Package '' @ pkg @ '' not found in installed packages'' in
         andthen (report env ''ubuntu'' ''FAIL'' [] errMsg ''updatetool'') (\<lambda>_. fail errMsg))
      else ret ()))"

definition verifyPackageInstallation :: "'a daemon_env_scheme \<Rightarrow> INBDState \<Rightarrow> (inbd_world, unit) action" where
  "verifyPackageInstallation env state =
     (if PackageList state = [] then ret () else
      andthen (foreach (verify_package env) (Split (PackageList state) (CHR '',''))) (\<lambda>_.
      report env ''ubuntu'' ''SUCCESS'' [] [] []))"

definition remove_state_file :: "'a daemon_env_scheme \<Rightarrow> (inbd_world, unit) action" where
  "remove_state_file env = ignore (on_files (RemoveFile (workdir env) StateFilePath))"

definition ubuntu_Verify :: "'a daemon_env_scheme \<Rightarrow> INBDState \<Rightarrow> (inbd_world, unit) action" where
  "ubuntu_Verify env state =
     andthen (verifyPackageInstallation env state) (\<lambda>_.
     if PackageList state \<noteq> [] \<and> SnapshotNumber state = 0 then remove_state_file env else
     andthen (CheckNetworkConnection env) (\<lambda>connected.
     if \<not> connected then
       andthen (UndoChange env (SnapshotNumber state)) (\<lambda>_.
       andthen (DeleteSnapshot env (SnapshotNumber state)) (\<lambda>_.
       RebootSystem env))
     else
       andthen (report env ''ubuntu'' ''SUCCESS'' [] [] []) (\<lambda>_.
       remove_state_file env)))"

definition emt_Verify :: "'a daemon_env_scheme \<Rightarrow> INBDState \<Rightarrow> (inbd_world, unit) action" where
  "emt_Verify env state =
     andthen (wrap ''error getting image build date: '' (GetImageBuildDate env)) (\<lambda>currentVersion.
     andthen (remove_state_file env) (\<lambda>_.
     if currentVersion \<noteq> TiberVersion state then
       andthen (wrap ''error committing update: '' (commitUpdate env empty_request)) (\<lambda>_.
       report env ''emt'' ''SUCCESS'' [] [] [])
     else
       andthen (report env ''emt'' ''FAIL'' [] ''Update failed. Versions are the same.'' ''bootloader'') (\<lambda>_.
       wrap ''error rebooting system: '' (emt_Reboot env empty_request))))"

definition VerifyUpdateAfterReboot :: "'a daemon_env_scheme \<Rightarrow> (inbd_world, unit) action" where
  "VerifyUpdateAfterReboot env =
     andthen (asks (\<lambda>w. case resolve True False 40 (files w) [] (components (workdir env) StateFilePath) of
        Inl _ \<Rightarrow> None | Inr q \<Rightarrow> Some (files w q))) (\<lambda>st. case st of
       None \<Rightarrow> ret ()
     | Some nd \<Rightarrow>
         if nd = Some (Regular []) then ret () else
         andthen (wrap ''error detecting OS: '' (Detect_OS env)) (\<lambda>osType.
         andthen (wrap ''error reading state file: '' (ReadStateFile env)) (\<lambda>state.
         if osType = ''EMT'' then emt_Verify env state
         else if osType = ''Ubuntu'' then
           andthen (ubuntu_Verify env state) (\<lambda>_. report env ''ubuntu'' ''SUCCESS'' [] [] [])
         else fail (''unsupported OS type: '' @ osType))))"

end
