(* ===== verification/Inbd_Sources.thy ===== *)
theory Inbd_Sources
  imports Inbd_Download
begin

text \<open>
  The apt sources of an Ubuntu node: \<^verbatim>\<open>os_source/update.go\<close> replaces \<^verbatim>\<open>/etc/apt/sources.list\<close>,
  \<^verbatim>\<open>app_source/add.go\<close> and \<^verbatim>\<open>remove.go\<close> add and remove a file of
  \<^verbatim>\<open>/etc/apt/sources.list.d\<close> with an optional GPG key (all under
  \<^verbatim>\<open>in-band-manageability/internal/os_updater/ubuntu\<close>).

  The environment variable \<^verbatim>\<open>TMPDIR\<close> is taken to be unset. A write to a device file leaves it as it
  is. When the source file cannot be created, \<^verbatim>\<open>defer sourceFile.Close()\<close> of the nil file panics.
\<close>

section \<open>The OS sources\<close>

definition UbuntuAptSourcesList :: string where "UbuntuAptSourcesList = ''/etc/apt/sources.list''"

definition source_lines :: "string list \<Rightarrow> string" where
  "source_lines ls = concat (map (\<lambda>l. l @ [nl]) ls)"

definition os_source_Update :: "path \<Rightarrow> string list \<Rightarrow> string \<Rightarrow> (filesystem, unit) action" where
  "os_source_Update cwd newContents aptSourcesListPath =
     andthen (wrap ''failed to backup sources list: '' (CopyFile cwd aptSourcesListPath (aptSourcesListPath @ ''.bak''))) (\<lambda>_.
     andthen (wrap ''failed to open file: '' (OpenFile cwd aptSourcesListPath (os_OpenTrunc cwd aptSourcesListPath))) (\<lambda>q.
     overwrite q (source_lines newContents)))"

section \<open>The application sources\<close>

definition ubuntuAptSourcesListDir :: string where "ubuntuAptSourcesListDir = ''/etc/apt/sources.list.d''"
definition linuxGPGKeyPath :: string where "linuxGPGKeyPath = ''/usr/share/keyrings''"

record AddApplicationSourceRequest =
  Source :: "string list"
  Filename :: string
  GpgKeyUri :: string
  GpgKeyName :: string

definition addGpgKey :: "'a daemon_env_scheme \<Rightarrow> string \<Rightarrow> string \<Rightarrow> (inbd_world, unit) action" where
  "addGpgKey env gpgKeyURI gpgKeyName =
     andthen (wrap ''error creating request: '' (http_NewRequest ''GET'' gpgKeyURI)) (\<lambda>req.
     andthen (wrap ''error performing request: '' (http_send env None req)) (\<lambda>resp.
     if StatusCode resp \<noteq> 200
     then fail (''error getting GPG key.  Status code: '' @ show_int (StatusCode resp) @ ''. Expected 200/Success'')
     else
       (let name = temp_name ''/tmp'' ''gpgkey-*.asc'' (temp_random env) in
        andthen (wrap ''error creating temporary file for GPG key: '' (on_files (os_CreateTemp (workdir env) name))) (\<lambda>q.
        deferred
          (andthen (on_files (overwrite q (Body resp))) (\<lambda>_.
           case Body_error resp of Some e \<Rightarrow> fail (''error saving GPG key to temporary file: '' @ e)
           | None \<Rightarrow> wrap ''error dearmoring GPG key: '' (Execute_err env
               [GPGCmd, ''--dearmor'', ''--output'', filepath_Join linuxGPGKeyPath gpgKeyName, name])))
          (on_files (os_Remove_path (workdir env) name))))))"

definition app_source_Add :: "'a daemon_env_scheme \<Rightarrow> AddApplicationSourceRequest \<Rightarrow> (inbd_world, unit) action" where
  "app_source_Add env req =
     andthen (if GpgKeyUri req \<noteq> [] \<and> GpgKeyName req \<noteq> [] then
                andthen (wrap ''error loading config: '' (LoadConfig env ConfigFilePath)) (\<lambda>config.
                if \<not> IsTrustedRepository (GpgKeyUri req) config
                then fail ''GPG key URI verification failed.  URI is not in the list of trusted repositories''
                else wrap ''error adding GPG key: '' (addGpgKey env (GpgKeyUri req) (GpgKeyName req)))
              else ret ()) (\<lambda>_.
     let newSourcePath = filepath_Join ubuntuAptSourcesListDir (Filename req) in
     andthen (attempt (on_files (os_OpenTrunc (workdir env) newSourcePath))) (\<lambda>r. case r of
       Inl _ \<Rightarrow> crash ''nil pointer dereference''
     | Inr _ \<Rightarrow> on_files (
         andthen (wrap ''error opening source list file: ''
                    (OpenFile (workdir env) newSourcePath (os_OpenTrunc (workdir env) newSourcePath))) (\<lambda>q.
         overwrite q (source_lines (Source req))))))"

text \<open>A file is removed when it exists; the source file must exist.\<close>

definition app_source_Remove :: "path \<Rightarrow> string \<Rightarrow> string \<Rightarrow> (filesystem, unit) action" where
  "app_source_Remove cwd filename gpgKeyName =
     andthen (if gpgKeyName \<noteq> [] then
                (let gpgKeyPath = filepath_Join linuxGPGKeyPath gpgKeyName in
                 andthen (IsFileExist cwd gpgKeyPath) (\<lambda>isExist.
                 if isExist then wrap ''error removing GPG key: '' (RemoveFile cwd gpgKeyPath) else ret ()))
              else ret ()) (\<lambda>_.
     let sourceFilePath = filepath_Join ubuntuAptSourcesListDir filename in
     andthen (IsFileExist cwd sourceFilePath) (\<lambda>isExist.
     if isExist then wrap ''error removing application source file: '' (RemoveFile cwd sourceFilePath)
     else fail (''source file does not exist: '' @ sourceFilePath)))"

section \<open>Properties\<close>

text \<open>Adding an application source without a key. If the file cannot be created the handler panics. If
  it can, it is empty before the path is checked, wherever it lies: the name of the request may
  climb out of the directory of sources. Then it holds the sources, or nothing if the check fails.\<close>

theorem add_source_effect:
  assumes "GpgKeyUri req = [] \<or> GpgKeyName req = []"
  shows "case os_OpenTrunc (workdir env) (filepath_Join ubuntuAptSourcesListDir (Filename req)) (files w) of
      (Ok q, fs) \<Rightarrow> \<exists>r w'. app_source_Add env req w = (r, w') \<and> (\<forall>q'. q' \<noteq> q \<longrightarrow> files w' q' = files w q') \<and>
        (files w q = Some Special \<or> files w' q = Some (Regular (if r = Ok () then source_lines (Source req) else [])))
    | (_, fs) \<Rightarrow> app_source_Add env req w = (Crash ''nil pointer dereference'', w)"
proof -
  let ?p = "filepath_Join ubuntuAptSourcesListDir (Filename req)"
  obtain r t where o: "os_OpenTrunc (workdir env) ?p (files w) = (r, t)" by fastforce
  show ?thesis
  proof (cases r)
    case (Ok q)
    with o have a: "os_OpenTrunc (workdir env) ?p (files w) = (Ok q, t)" by simp
    note t = os_OpenTrunc_Ok(3) [OF a]
    obtain r1 where c: "check_path (workdir env) ?p t = (r1, t)" "\<forall>e. r1 \<noteq> Crash e"
      using check_path_pure [of "workdir env" ?p t] by (metis prod.collapse)
    show ?thesis
    proof (cases r1)
      case (Ok x)
      with assms a c(1) os_OpenTrunc_again [OF a] t show ?thesis
        by (auto simp: app_source_Add_def andthen_apply attempt_apply wrap_apply ret_apply on_files_def OpenFile_def overwrite_def
            modify_def Let_def source_lines_def)
    next
      case (Err e)
      with assms a c(1) t show ?thesis
        by (auto simp: app_source_Add_def andthen_apply attempt_apply wrap_apply ret_apply on_files_def OpenFile_def Let_def)
    qed (use c(2) in simp)
  next
    case (Err e)
    moreover from this have "t = files w" using o by (auto simp: os_OpenTrunc_def split: sum.splits option.splits node.splits if_splits)
    ultimately show ?thesis using assms o
      by (auto simp: app_source_Add_def andthen_apply attempt_apply ret_apply on_files_def crash_apply Let_def)
  next
    case (Crash e)
    with o show ?thesis by (auto simp: os_OpenTrunc_def split: sum.splits option.splits node.splits if_splits)
  qed
qed

text \<open>A successful update of the OS sources leaves the old list in the backup file and the new lines,
  one after the other, in the list.\<close>

theorem os_sources_replaced:
  assumes "os_source_Update cwd newContents p fs = (Ok (), t)"
    and "resolve True False 40 fs [] (components cwd p) = Inr q" "fs q = Some (Regular old)"
    and "resolve True True 40 fs [] (components cwd (p @ ''.bak'')) = Inr b" "fs b \<noteq> Some Special" "b \<noteq> q"
  shows "t = fs(b := Some (Regular old), q := Some (Regular (source_lines newContents)))"
proof -
  obtain s where c: "CopyFile cwd p (p @ ''.bak'') fs = (Ok (), s)"
    and o: "\<exists>q' s'. os_OpenTrunc cwd p s = (Ok q', s') \<and> overwrite q' (source_lines newContents) s' = (Ok (), t)"
    using assms(1) check_path_pure [of cwd p]
    by (auto simp: os_source_Update_def OpenFile_def andthen_eq_Ok wrap_eq_Ok) (metis (no_types))
  obtain b' s1 d where "os_OpenTrunc cwd (p @ ''.bak'') fs = (Ok b', s1)" "s1 q = Some (Regular d)"
      "s = (if s1 b' = Some Special then s1 else s1(b' := Some (Regular d)))"
    using CopyFile_result [OF c assms(2)] by blast
  moreover from this assms(4) os_OpenTrunc_Ok [of cwd "p @ ''.bak''" fs b' s1]
  have "b' = b" "fs b = None \<or> (\<exists>e. fs b = Some (Regular e))" "s1 = fs(b := Some (Regular []))" using assms(5) by auto
  ultimately have s: "s = fs(b := Some (Regular old))" using assms(3,6) by (auto simp: content_of_apply)
  have "resolve True True 40 s [] (components cwd p) = Inr q"
    unfolding s by (rule resolve_create [OF write_keeps_resolve]) (use assms(2) \<open>fs b = None \<or> _\<close> in auto)
  moreover obtain q' s' where "os_OpenTrunc cwd p s = (Ok q', s')" "overwrite q' (source_lines newContents) s' = (Ok (), t)"
    using o by blast
  ultimately have "overwrite q (source_lines newContents) (s(q := Some (Regular []))) = (Ok (), t)"
    using os_OpenTrunc_Ok [of cwd p s q' s'] s assms(3,6) by auto
  then show ?thesis by (simp add: overwrite_def modify_def s)
qed

definition apt_files :: filesystem where
  "apt_files = map_of [([''etc''], Directory), ([''etc'', ''apt''], Directory), ([''etc'', ''apt'', ''sources.list''], Regular ''old''),
     ([''etc'', ''apt'', ''sources.list.d''], Directory), ([''home''], Directory), ([''home'', ''notes''], Regular ''diary'')]"

definition climbing_request :: AddApplicationSourceRequest where
  "climbing_request = \<lparr>Source = [''deb x''], Filename = ''../../../home/notes'', GpgKeyUri = [], GpgKeyName = []\<rparr>"

lemma add_source_effect_witness:
  "\<exists>r w'. app_source_Add toy_daemon climbing_request \<lparr>files = apt_files, ran = [], wtick = 0\<rparr> = (r, w') \<and>
     files w' [''home'', ''notes''] = Some (Regular (if r = Ok () then source_lines [''deb x''] else []))"
proof -
  let ?w = "\<lparr>files = apt_files, ran = [], wtick = 0\<rparr>"
  have wd: "workdir toy_daemon = []" by (simp add: toy_daemon_def json_env_def inbd_env.defs)
  have "fst (os_OpenTrunc [] (filepath_Join ubuntuAptSourcesListDir ''../../../home/notes'') apt_files) = Ok [''home'', ''notes'']"
    by code_simp
  then obtain t where "os_OpenTrunc (workdir toy_daemon) (filepath_Join ubuntuAptSourcesListDir (Filename climbing_request)) (files ?w) = (Ok [''home'', ''notes''], t)"
    by (simp add: wd climbing_request_def) (metis prod.collapse)
  with add_source_effect [of climbing_request toy_daemon ?w] show ?thesis
    by (auto simp: climbing_request_def apt_files_def)
qed

lemma os_sources_replaced_witness:
  "os_source_Update [] [''deb x''] ''/etc/apt/sources.list'' apt_files =
     (Ok (), apt_files([''etc'', ''apt'', ''sources.list.bak''] := Some (Regular ''old''),
        [''etc'', ''apt'', ''sources.list''] := Some (Regular (source_lines [''deb x'']))))"
proof -
  obtain t where u: "os_source_Update [] [''deb x''] ''/etc/apt/sources.list'' apt_files = (Ok (), t)"
  proof -
    have "fst (os_source_Update [] [''deb x''] ''/etc/apt/sources.list'' apt_files) = Ok ()" by code_simp
    then show thesis using that by (metis prod.collapse)
  qed
  have "resolve True False 40 apt_files [] (components [] ''/etc/apt/sources.list'') = Inr [''etc'', ''apt'', ''sources.list'']"
    "resolve True True 40 apt_files [] (components [] (''/etc/apt/sources.list'' @ ''.bak'')) = Inr [''etc'', ''apt'', ''sources.list.bak'']"
    by code_simp+
  from os_sources_replaced [OF u this(1) _ this(2)] u show ?thesis by (simp add: apt_files_def)
qed

end
