(* ===== verification/Inbd_Server.thy ===== *)
theory Inbd_Server
  imports Inbd_Firmware Inbd_Os Inbd_Sources
begin

text \<open>
  The service of the in-band manageability daemon: the handlers of the gRPC requests
  (\<^verbatim>\<open>in-band-manageability/internal/inbd/inbdserver.go\<close>) and the start of the server
  (\<^verbatim>\<open>inbd/server.go\<close>, with the dependencies of \<^verbatim>\<open>cmd/inbd/main.go\<close>).

  A handler never returns a gRPC error: its answer is a status code and a text. Enumerations are
  open in protobuf; a number outside is \<open>Unknown\<close>. Each request makes its own
  \<^verbatim>\<open>ConfigOperation\<close>, so no mutex is shared between requests. The start of the server works on
  the world and the umask of the process; sockets, groups and permissions answer through
  \<open>server_env\<close>.
\<close>

section \<open>URLs\<close>

definition validateURL :: "string \<Rightarrow> string + unit" where
  "validateURL rawURL =
     (if rawURL = [] then Inl ''URL is empty''
      else case url_ParseRequestURI rawURL of Inl e \<Rightarrow> Inl (''URL is not valid: '' @ e)
      | Inr parsed \<Rightarrow> if Scheme parsed \<noteq> ''https'' then Inl ''URL must use https scheme''
                     else if Host parsed = [] then Inl ''URL must have a host'' else Inr ())"

section \<open>Power\<close>

datatype PowerAction = POWER_ACTION_UNSPECIFIED | POWER_ACTION_CYCLE | POWER_ACTION_OFF | UnknownPowerAction int

definition SetPowerState :: "'a daemon_env_scheme \<Rightarrow> PowerAction \<Rightarrow> (inbd_world, response) action" where
  "SetPowerState env action = (case action of
     POWER_ACTION_UNSPECIFIED \<Rightarrow> ret (400, ''Power action is required'')
   | POWER_ACTION_CYCLE \<Rightarrow> or_code 500 (RebootSystem env) (\<lambda>_. ret (200, ''SUCCESS''))
   | POWER_ACTION_OFF \<Rightarrow> or_code 500 (wrap ''shutdown failed: '' (ShutdownSystem env)) (\<lambda>_. ret (200, ''SUCCESS''))
   | UnknownPowerAction _ \<Rightarrow> ret (200, ''SUCCESS''))"

section \<open>Updates\<close>

definition UpdateFirmware :: "'a firmware_env_scheme \<Rightarrow> UpdateFirmwareRequest \<Rightarrow> (inbd_world, response) action" where
  "UpdateFirmware env req =
     (if fw_Url req = [] then ret (400, ''URL is required'') else
      or_code 400 (lift_result (validateURL (fw_Url req))) (\<lambda>_.
      case final_algorithm (fw_HashAlgorithm req) of
        None \<Rightarrow> ret (400, ''invalid hash algorithm: must be sha256, sha384, or sha512'')
      | Some alg \<Rightarrow> FWUpdater_UpdateFirmware env (req\<lparr>fw_HashAlgorithm := alg\<rparr>)))"

definition UpdateSystemSoftware :: "'a daemon_env_scheme \<Rightarrow> UpdateSystemSoftwareRequest \<Rightarrow> (inbd_world, response) action" where
  "UpdateSystemSoftware env req =
     or_code 415 (Detect_OS env) (\<lambda>os.
     or_code 400 (lift_result (if Url req \<noteq> [] then validateURL (Url req) else Inr ())) (\<lambda>_.
     or_code 415 (lift_result (GetOSUpdaterFactory env req os)) (\<lambda>sotaFactory.
     UpdateOS env req sotaFactory)))"

text \<open>The source requests are for Ubuntu only.\<close>

definition on_Ubuntu :: "'a daemon_env_scheme \<Rightarrow> string \<Rightarrow> (inbd_world, response) action \<Rightarrow> (inbd_world, response) action" where
  "on_Ubuntu env what m = or_code 415 (Detect_OS env) (\<lambda>os.
     if os \<noteq> ''Ubuntu'' then ret (415, ''Unsupported OS.  '' @ what @ '' is only for Ubuntu.'') else m)"

definition UpdateOSSource :: "'a daemon_env_scheme \<Rightarrow> string list \<Rightarrow> (inbd_world, response) action" where
  "UpdateOSSource env sourceList = on_Ubuntu env ''Update OS Source''
     (if sourceList = [] then ret (400, ''Source list is empty'') else
      or_code 500 (on_files (os_source_Update (workdir env) sourceList UbuntuAptSourcesList)) (\<lambda>_. ret (200, ''Success'')))"

definition AddApplicationSource :: "'a daemon_env_scheme \<Rightarrow> AddApplicationSourceRequest \<Rightarrow> (inbd_world, response) action" where
  "AddApplicationSource env req = on_Ubuntu env ''Add Application Source''
     (or_code 400 (lift_result (if GpgKeyUri req \<noteq> [] then validateURL (GpgKeyUri req) else Inr ())) (\<lambda>_.
      if Filename req = [] then ret (400, ''Filename is empty'')
      else if Source req = [] then ret (400, ''Source list is empty'')
      else or_code 500 (app_source_Add env req) (\<lambda>_. ret (200, ''Success''))))"

definition RemoveApplicationSource :: "'a daemon_env_scheme \<Rightarrow> string \<Rightarrow> string \<Rightarrow> (inbd_world, response) action" where
  "RemoveApplicationSource env filename gpgKeyName = on_Ubuntu env ''Remove Application Source''
     (if filename = [] then ret (400, ''Filename is empty'')
      else or_code 500 (on_files (app_source_Remove (workdir env) filename gpgKeyName)) (\<lambda>_. ret (200, ''Success'')))"

section \<open>Configuration\<close>

definition LoadConfig_request :: "inbd_env \<Rightarrow> string \<Rightarrow> string \<Rightarrow> string \<Rightarrow> (filesystem, response) action" where
  "LoadConfig_request env uri signature hashAlgorithm =
     (if uri = [] then ret (400, ''uri is required'')
      else case final_algorithm hashAlgorithm of
        None \<Rightarrow> ret (400, ''invalid hash algorithm: must be sha256, sha384, or sha512'')
      | Some alg \<Rightarrow> or_code 500 (LoadConfigCommand env uri signature alg) (\<lambda>_. ret (200, [])))"

record GetConfigResponse =
  gc_StatusCode :: int
  gc_Error :: string
  gc_Success :: bool
  gc_Value :: string

definition GetConfig :: "inbd_env \<Rightarrow> string \<Rightarrow> (filesystem, GetConfigResponse) action" where
  "GetConfig env p =
     (if TrimSpace p = [] then ret \<lparr>gc_StatusCode = 400, gc_Error = ''path is required'', gc_Success = False, gc_Value = []\<rparr>
      else andthen (attempt (GetConfigCommand env p)) (\<lambda>r. ret (case r of
        Inl e \<Rightarrow> \<lparr>gc_StatusCode = 500, gc_Error = e, gc_Success = False, gc_Value = []\<rparr>
      | Inr (val, errStr) \<Rightarrow> \<lparr>gc_StatusCode = 200, gc_Error = errStr, gc_Success = (errStr = []), gc_Value = val\<rparr>)))"

definition handleConfigOperation :: "string \<Rightarrow> (string \<Rightarrow> (filesystem, unit) action) \<Rightarrow> (filesystem, response) action" where
  "handleConfigOperation p operation =
     (if TrimSpace p = [] then ret (400, ''path is required'')
      else or_code 500 (operation p) (\<lambda>_. ret (200, [])))"

definition SetConfig :: "inbd_env \<Rightarrow> string \<Rightarrow> (filesystem, response) action" where
  "SetConfig env p = handleConfigOperation p (SetConfigCommand env)"

definition AppendConfig :: "inbd_env \<Rightarrow> string \<Rightarrow> (filesystem, response) action" where
  "AppendConfig env p = handleConfigOperation p (AppendConfigCommand env)"

definition RemoveConfig :: "inbd_env \<Rightarrow> string \<Rightarrow> (filesystem, response) action" where
  "RemoveConfig env p = handleConfigOperation p (RemoveConfigCommand env)"

section \<open>Queries\<close>

datatype QueryOption = QUERY_OPTION_UNSPECIFIED | QUERY_OPTION_HARDWARE | QUERY_OPTION_FIRMWARE | QUERY_OPTION_OS
  | QUERY_OPTION_SWBOM | QUERY_OPTION_VERSION | QUERY_OPTION_ALL | UnknownQueryOption int

definition convertQueryOptionToString :: "QueryOption \<Rightarrow> string" where
  "convertQueryOptionToString option = (case option of
     QUERY_OPTION_HARDWARE \<Rightarrow> ''hw'' | QUERY_OPTION_FIRMWARE \<Rightarrow> ''fw'' | QUERY_OPTION_OS \<Rightarrow> ''os''
   | QUERY_OPTION_SWBOM \<Rightarrow> ''swbom'' | QUERY_OPTION_VERSION \<Rightarrow> ''version'' | _ \<Rightarrow> ''all'')"

definition Query :: "'a telemetry_env_scheme \<Rightarrow> QueryOption option \<Rightarrow> (inbd_world, response \<times> QueryData option) action" where
  "Query env req = (case req of
     None \<Rightarrow> ret ((400, ''request is required''), None)
   | Some option \<Rightarrow>
       if option = QUERY_OPTION_UNSPECIFIED then ret ((400, ''invalid query option''), None)
       else andthen (attempt (HandleQuery env (convertQueryOptionToString option))) (\<lambda>r. ret (case r of
         Inl e \<Rightarrow> ((500, e), None) | Inr data \<Rightarrow> ((200, []), Some data))))"

section \<open>The start of the server\<close>

record server_state =
  sworld :: inbd_world
  umask :: nat
  serving :: bool

datatype stat_error = NotExist | OtherError

record server_env = firmware_env +
  socket :: string
  socket_stat :: "stat_error option"
  socket_remove :: "string option"
  socket_listen :: "string option"
  inbc_group :: "string + string"
  socket_chown :: "int \<Rightarrow> string option"
  socket_chmod :: "nat \<Rightarrow> string option"
  serve_result :: "string option"

definition on_world :: "(inbd_world, 'a) action \<Rightarrow> (server_state, 'a) action" where
  "on_world m = (\<lambda>s. case m (sworld s) of (r, w) \<Rightarrow> (r, s\<lparr>sworld := w\<rparr>))"

definition set_umask :: "nat \<Rightarrow> (server_state, nat) action" where
  "set_umask new = (\<lambda>s. (Ok (umask s), s\<lparr>umask := new\<rparr>))"

definition error_of :: "string \<Rightarrow> string option \<Rightarrow> ('s, unit) action" where
  "error_of pre r = (case r of None \<Rightarrow> ret () | Some e \<Rightarrow> fail (pre @ e))"

definition GetInbcGroupID :: "server_env \<Rightarrow> string + int" where
  "GetInbcGroupID env = (case inbc_group env of Inl e \<Rightarrow> Inl (''could not find group inbc: '' @ e)
     | Inr gid \<Rightarrow> (case ParseInt64 gid of None \<Rightarrow> Inl ''could not parse GID: '' | Some n \<Rightarrow> Inr n))"

text \<open>The old socket is removed, and the new one is made under a umask that closes it to all others.\<close>

definition open_socket :: "server_env \<Rightarrow> (server_state, unit) action" where
  "open_socket env =
     andthen (case socket_stat env of
        None \<Rightarrow> error_of ''error removing socket: '' (socket_remove env)
      | Some NotExist \<Rightarrow> ret ()
      | Some OtherError \<Rightarrow> fail ''unexpected stat error: '') (\<lambda>_.
     andthen (set_umask 127) (\<lambda>oldUmask.
     case socket_listen env of
       Some e \<Rightarrow> andthen (set_umask oldUmask) (\<lambda>_. fail (''error listening on socket '' @ socket env @ '': '' @ e))
     | None \<Rightarrow>
         andthen (wrap ''failed to get inbc group GID: '' (lift_result (GetInbcGroupID env))) (\<lambda>gid.
         andthen (error_of ''could not chown socket: '' (socket_chown env gid)) (\<lambda>_.
         andthen (error_of ''could not chmod socket: '' (socket_chmod env 432)) (\<lambda>_.
         andthen (set_umask oldUmask) (\<lambda>_. ret ()))))))"

definition RunServer :: "server_env \<Rightarrow> (server_state, unit) action" where
  "RunServer env =
     andthen (open_socket env) (\<lambda>_.
     andthen (wrap ''[Post verification failed] error verifying update after reboot: '' (on_world (VerifyUpdateAfterReboot env))) (\<lambda>_.
     andthen (wrap ''error validating INBD Configuration file: '' (on_world (on_files
                (IsValidJSON (inbd_env.truncate env) schemaFilePath configFilePath)))) (\<lambda>_.
     andthen (modify (\<lambda>s. s\<lparr>serving := True\<rparr>)) (\<lambda>_.
     error_of [] (serve_result env)))))"

end
