(* ===== verification/Inbd_Os_Laws.thy ===== *)
theory Inbd_Os_Laws
  imports Inbd_Os
begin

text \<open>
  What the OS updater guarantees: which commands it runs and in which order. The contract between
  the frame of an update (\<open>UpdateOS\<close>) and its providers is the locale \<open>os_provider\<close>, interpreted on
  the providers for Edge Microvisor Toolkit and for Ubuntu.
\<close>

section \<open>Commands of the updaters\<close>

lemma andthen_fail: "andthen (fail e) f = fail e"
  by (rule ext) (simp add: action_simps)

text \<open>\<open>covers P\<close>: every allowed command but the bare reboot satisfies \<open>P\<close>.\<close>

definition covers :: "(string list \<Rightarrow> bool) \<Rightarrow> bool" where
  "covers P \<longleftrightarrow> (\<forall>c. c \<noteq> [] \<and> hd c \<in> set allowedCommands \<and> c \<noteq> [RebootCmd] \<longrightarrow> P c)"

lemma emits_allowed [emits_rules]:
  "covers P \<Longrightarrow> args \<noteq> [RebootCmd] \<Longrightarrow> emits P (Execute_allowed env args)"
  "covers P \<Longrightarrow> args \<noteq> [RebootCmd] \<Longrightarrow> emits P (Execute_err env args)"
  by (intro emits_Execute emits_Execute_err; simp add: covers_def)+

lemma not_reboot [simp]:
  "(c # d # cs) \<noteq> [RebootCmd]" "[RebootCmd] \<noteq> (c # d # cs)" by simp_all

lemma emits_or_report [emits_rules]: "emits P m \<Longrightarrow> emits P (or_report env ty meta reason pre m)"
  unfolding or_report_def by (intro emits_rules)

lemma emits_ClearStateFile [emits_rules]: "covers P \<Longrightarrow> emits P (ClearStateFile env)"
  unfolding ClearStateFile_def by (intro emits_rules; simp)

lemma emits_emt [emits_rules]:
  assumes "covers P"
  shows "emits P (emt_Snapshot env)" "emits P (VerifyHash env req)" "emits P (emt_write env req)"
    "emits P (emt_apply env req)" "emits P (emt_Update env req)" "emits P (commitUpdate env req)"
    "emits P (emt_Clean env)"
proof -
  show s: "emits P (emt_Snapshot env)"
    unfolding emt_Snapshot_def by (intro emits_rules assms)
  show v: "emits P (VerifyHash env req)"
    unfolding VerifyHash_def by (intro emits_rules)
  show w: "emits P (emt_write env req)"
    unfolding emt_write_def Let_def by (intro emits_rules v assms not_reboot)
  show a: "emits P (emt_apply env req)"
    unfolding emt_apply_def Let_def by (intro emits_rules s assms not_reboot)
  show "emits P (emt_Update env req)"
    unfolding emt_Update_def by (intro emits_rules w a)
  show "emits P (commitUpdate env req)"
    unfolding commitUpdate_def by (intro emits_rules assms not_reboot)
  show "emits P (emt_Clean env)"
    unfolding emt_Clean_def by (intro emits_rules)
qed


lemma emits_download [emits_rules]:
  "emits P (http_NewRequest m u)" "emits P (http_send env c q)" "emits P (CreateSecureHTTPClient env u t)"
  "emits P (DoSecureHTTPRequest env c q u)" "emits P (GetFileSizeInBytes env u)" "emits P (GetFreeDiskSpaceInBytes env p)"
  "emits P (IsDiskSpaceAvailable env u)" "emits P (save_body env p resp)" "emits P (DownloadFile env u d c)"
proof -
  show n: "emits P (http_NewRequest m u)" for m u :: string unfolding http_NewRequest_def by (intro emits_rules)
  show s: "emits P (http_send env c q)" for c q unfolding http_send_def by (intro emits_rules)
  show c: "emits P (CreateSecureHTTPClient env u t)" for u t
    unfolding CreateSecureHTTPClient_def custom_ca_def by (intro emits_rules)
  show d: "emits P (DoSecureHTTPRequest env c q u)" for c q u
    unfolding DoSecureHTTPRequest_def by (intro emits_rules s)
  have h: "emits P (getFileSizeWithHEAD env u)" for u
    unfolding getFileSizeWithHEAD_def by (intro emits_rules n c d)
  have r: "emits P (getFileSizeWithRange env u)" for u
    unfolding getFileSizeWithRange_def by (intro emits_rules n s)
  show z: "emits P (GetFileSizeInBytes env u)" for u
    unfolding GetFileSizeInBytes_def by (intro emits_rules h r)
  show f: "emits P (GetFreeDiskSpaceInBytes env p)" for p
    unfolding GetFreeDiskSpaceInBytes_def by (intro emits_rules)
  show "emits P (IsDiskSpaceAvailable env u)"
    unfolding IsDiskSpaceAvailable_def by (intro emits_rules f z)
  show b: "emits P (save_body env p resp)" for p resp
    unfolding save_body_def by (intro emits_rules)
  show "emits P (DownloadFile env u d c)"
    unfolding DownloadFile_def Let_def by (intro emits_rules n d b)
qed

lemma emits_emt_Download [emits_rules]: "emits P (emt_Download env req)"
proof -
  have "emits P (emt_downloadFile env u)" "emits P (emt_isDiskSpaceAvailable env u)" for u
    unfolding emt_downloadFile_def emt_isDiskSpaceAvailable_def by (intro emits_rules)+
  then show ?thesis unfolding emt_Download_def Let_def by (intro emits_rules)
qed

lemma emits_ubuntu_Snapshot [emits_rules]:
  assumes "covers P"
  shows "emits P (ubuntu_Snapshot env)"
proof -
  have s: "emits P (save_snapshot_state env n)" for n
    unfolding save_snapshot_state_def kept_packages_def writeStateFileWithTruncate_def by (intro emits_rules)
  have i: "emits P (IsSnapperInstalled env)" "emits P (EnsureSnapperConfig env c)" "emits P (IsBTRFS env)" for c
    unfolding IsSnapperInstalled_def EnsureSnapperConfig_def IsBTRFS_def by (intro emits_rules assms not_reboot)+
  show ?thesis unfolding ubuntu_Snapshot_def Let_def by (intro emits_rules s i assms not_reboot)
qed

lemma fullInstall_commands: "[RebootCmd] \<in> set (fullInstall ps) \<longleftrightarrow> ps = [RebootCmd]"
  by (auto simp: fullInstall_def)

lemma other_commands: "[RebootCmd] \<notin> set (noDownload ps)" "[RebootCmd] \<notin> set (downloadOnly ps)"
  by (simp_all add: noDownload_def downloadOnly_def)

lemma emits_run_apt: "emits P (Execute_allowed env cmd) \<Longrightarrow> emits P (run_apt env meta cmd)"
  unfolding run_apt_def Let_def by (rule emits_andthen, assumption) (intro emits_rules)

definition reboot_package :: "UpdateSystemSoftwareRequest \<Rightarrow> bool" where
  "reboot_package req \<longleftrightarrow> Mode req = DOWNLOAD_MODE_FULL \<and> Packages req = [RebootCmd]"

lemma emits_ubuntu_Update:
  assumes "covers P" "P [RebootCmd] \<or> \<not> reboot_package req"
  shows "emits P (ubuntu_Update env req)"
proof -
  have run: "emits P (run_apt env meta c)" if "c \<noteq> [RebootCmd] \<or> P [RebootCmd]" for meta c
    using that assms(1) by (intro emits_run_apt emits_Execute) (auto simp: covers_def)
  have w: "emits P (writeStateFileForPackageInstallation env ps)" for ps
    unfolding writeStateFileForPackageInstallation_def writeStateFileWithTruncate_def Let_def by (intro emits_rules)
  have all: "emits P (foreach (run_apt env meta) cs)" if "[RebootCmd] \<notin> set cs \<or> P [RebootCmd]" for meta cs
    using that by (intro emits_foreach run) auto
  have fi: "emits P (foreach (run_apt env meta) (fullInstall (Packages req)))" if "Mode req = DOWNLOAD_MODE_FULL" for meta
    using assms(2) that by (intro all) (auto simp: fullInstall_commands reboot_package_def)
  have i: "emits P (ubuntu_install env req)"
    unfolding ubuntu_install_def Let_def
  proof (intro emits_andthen [where m = "if Mode req \<in> _ \<and> _ then _ else _"], goal_cases)
    case 1
    show ?case by (intro emits_rules assms(1))
  next
    case (2 x)
    show ?case
      by (cases "Mode req"; simp only: DownloadMode.case andthen_fail andthen_ret; intro emits_rules w fi all)
        (simp_all add: other_commands)
  qed
  have e: "emits P (GetEstimatedSize env (Packages req))" "emits P (set_environment env meta)" for meta
    unfolding GetEstimatedSize_def set_environment_def Let_def by (intro emits_rules assms(1); simp)+
  show ?thesis unfolding ubuntu_Update_def Let_def by (intro emits_rules i e w)
qed


section \<open>The providers\<close>

text \<open>What the frame of an update relies on: no step but the reboot runs the reboot command, and
  the reboot runs nothing else. \<open>allowed\<close> says that only allowed commands are run.\<close>

definition allowed_command :: "string list \<Rightarrow> bool" where
  "allowed_command c \<longleftrightarrow> c \<noteq> [] \<and> hd c \<in> set allowedCommands"

definition plain_command :: "string list \<Rightarrow> bool" where
  "plain_command c \<longleftrightarrow> allowed_command c \<and> c \<noteq> [RebootCmd]"

lemma covers_simps [simp]: "covers allowed_command" "covers plain_command"
  by (simp_all add: covers_def allowed_command_def plain_command_def)

lemma allowed_RebootCmd [simp]: "allowed_command [RebootCmd]"
  by (simp add: allowed_command_def allowedCommands_def)

lemma emits_then_one:
  assumes "emits P m"
    and "\<And>p v y u. after p v = (y, u) \<Longrightarrow> ran u = ran v \<or> ran u = ran v @ [c] \<and> Q"
    and "or_500 (andthen m (\<lambda>p. andthen (after p) (\<lambda>_. ret k))) w = (r, w')"
  shows "\<exists>cs. (\<forall>c \<in> set cs. P c) \<and> (ran w' = ran w @ cs \<or> ran w' = ran w @ cs @ [c] \<and> Q)"
proof -
  obtain x v where b: "m w = (x, v)" by fastforce
  obtain cs where cs: "ran v = ran w @ cs" "\<forall>c \<in> set cs. P c"
    using emitsD [OF assms(1) b] by blast
  show ?thesis
  proof (cases x)
    case (Ok p)
    obtain y u where a: "after p v = (y, u)" by fastforce
    have "w' = u"
      using assms(3) unfolding or_500_def or_code_def
      by (auto simp: action_simps Ok b a split: outcome.splits prod.splits)
    with assms(2) [OF a] cs show ?thesis by auto
  next
    case (Err e)
    then have "w' = v" using assms(3) b by (auto simp: action_simps or_500_def or_code_def)
    with cs show ?thesis by auto
  next
    case (Crash e)
    then have "w' = v" using assms(3) b by (auto simp: action_simps or_500_def or_code_def)
    with cs show ?thesis by auto
  qed
qed

text \<open>The frame in two phases: everything up to the clean-up, and the reboot.\<close>

definition update_phase :: "'a daemon_env_scheme \<Rightarrow> UpdateSystemSoftwareRequest \<Rightarrow> UpdaterFactory \<Rightarrow> (inbd_world, bool) action" where
  "update_phase env req f =
     andthen (if Mode req \<noteq> DOWNLOAD_MODE_NO_DOWNLOAD then fDownload f else ret ()) (\<lambda>_.
     andthen (attempt (fSnapshot f)) (\<lambda>r.
     andthen (case r of Inl err \<Rightarrow> without_snapshot env f err | Inr _ \<Rightarrow> ret ()) (\<lambda>_.
     andthen (attempt (fUpdate f)) (\<lambda>u. andthen (ignore (fClean f)) (\<lambda>_. lift_result u)))))"

definition reboot_phase :: "UpdateSystemSoftwareRequest \<Rightarrow> UpdaterFactory \<Rightarrow> bool \<Rightarrow> (inbd_world, unit) action" where
  "reboot_phase req f proceed = (if proceed \<and> Mode req \<noteq> DOWNLOAD_MODE_DOWNLOAD_ONLY then fReboot f else ret ())"

lemma UpdateOS_phases:
  "UpdateOS env req f = or_500 (andthen (update_phase env req f) (\<lambda>p. andthen (reboot_phase req f p) (\<lambda>_. ret (200, ''Success''))))"
proof -
  have tail: "andthen (ignore (fClean f)) (\<lambda>_. andthen (lift_result u) (\<lambda>p. andthen (reboot_phase req f p) (\<lambda>_. ret (200, ''Success'')))) =
      (case u of Inl err \<Rightarrow> andthen (ignore (fClean f)) (\<lambda>_. fail err)
      | Inr p \<Rightarrow> andthen (ignore (fClean f)) (\<lambda>_. andthen (reboot_phase req f p) (\<lambda>_. ret (200, ''Success''))))" for u
    by (cases u) (simp_all add: andthen_fail)
  show ?thesis
    unfolding UpdateOS_def update_phase_def andthen_assoc tail unfolding reboot_phase_def ..
qed

lemma UpdateOS_success:
  assumes "UpdateOS env req f w = (Ok (200, s), w')"
  obtains p v where "update_phase env req f w = (Ok p, v)" "reboot_phase req f p v = (Ok (), w')"
proof -
  obtain x v where b: "update_phase env req f w = (x, v)" by fastforce
  from assms obtain p where x: "x = Ok p"
    by (cases x) (auto simp: UpdateOS_phases or_500_def or_code_def action_simps b)
  obtain y u where c: "reboot_phase req f p v = (y, u)" by fastforce
  from assms have "y = Ok ()" "u = w'"
    by (cases y; auto simp: UpdateOS_phases or_500_def or_code_def action_simps b c x)+
  with b c x that show thesis by blast
qed

lemma update_phase_Ok:
  assumes "update_phase env req f w = (Ok p, v)"
  obtains a b where "fUpdate f a = (Ok p, b)"
proof -
  from assms obtain u c d e where "attempt (fUpdate f) c = (Ok u, d)" and u: "lift_result u e = (Ok p, v)"
    unfolding update_phase_def andthen_eq_Ok by blast
  then show thesis
    by (cases u) (auto simp: action_simps intro: that split: outcome.splits prod.splits)
qed

locale os_provider =
  fixes f :: UpdaterFactory
  assumes download: "emits plain_command (fDownload f)"
    and snapshot: "emits plain_command (fSnapshot f)"
    and update: "emits plain_command (fUpdate f)"
    and clean: "emits plain_command (fClean f)"
    and reboot: "fReboot f w = (r, w') \<Longrightarrow> ran w' = ran w \<or> ran w' = ran w @ [[RebootCmd]]"
begin

lemma without_snapshot_phase: "emits plain_command (without_snapshot env f err)"
  unfolding without_snapshot_def by (intro emits_rules clean)

lemma reboot_at_most_once:
  assumes "UpdateOS env req f w = (r, w')"
  shows "\<exists>cs. (\<forall>c \<in> set cs. plain_command c) \<and>
    (ran w' = ran w @ cs \<or> ran w' = ran w @ cs @ [[RebootCmd]] \<and> Mode req \<noteq> DOWNLOAD_MODE_DOWNLOAD_ONLY)"
proof (rule emits_then_one [where m = "update_phase env req f" and after = "reboot_phase req f" and w = w])
  show "emits plain_command (update_phase env req f)"
    unfolding update_phase_def by (intro emits_rules download snapshot without_snapshot_phase update clean)
  show "or_500 (andthen (update_phase env req f) (\<lambda>p. andthen (reboot_phase req f p) (\<lambda>_. ret (200, ''Success'')))) w = (r, w')"
    using assms unfolding UpdateOS_phases .
  fix p v y u
  assume "reboot_phase req f p v = (y, u)"
  then show "ran u = ran v \<or> ran u = ran v @ [[RebootCmd]] \<and> Mode req \<noteq> DOWNLOAD_MODE_DOWNLOAD_ONLY"
    using reboot [of v y u] by (auto simp: reboot_phase_def ret_apply split: if_splits)
qed

end

lemma RebootSystem_runs: "RebootSystem env w = (r, w') \<Longrightarrow> ran w' = ran w @ [[RebootCmd]]"
  by (auto simp: RebootSystem_def Execute_err_def Execute_allowed_def spawn_def action_simps allowedCommands_def
      split: prod.splits outcome.splits option.splits)

lemma quiet_state: "emits (\<lambda>_. False) m \<Longrightarrow> m w = (r, w') \<Longrightarrow> ran w' = ran w"
  by (drule (1) emitsD) auto

lemma emt_Reboot_runs:
  assumes "emt_Reboot env req w = (r, w')"
  shows "ran w' = ran w @ [[RebootCmd]]"
proof -
  obtain x v where b: "RebootSystem env w = (x, v)" by fastforce
  have "ran w' = ran v"
    using assms b quiet_state [OF emits_report(3), of env] unfolding emt_Reboot_def or_report_def
    by (auto simp: action_simps split: outcome.splits prod.splits sum.splits)
  with RebootSystem_runs [OF b] show ?thesis by simp
qed

interpretation emt: os_provider "EMTFactory env req" for env :: "'a daemon_env_scheme" and req
  by unfold_locales (auto simp: EMTFactory_def intro!: emits_rules dest: emt_Reboot_runs)

lemma ubuntu_provider: "\<not> reboot_package req \<Longrightarrow> os_provider (UbuntuFactory env req)"
  by unfold_locales
    (auto simp: UbuntuFactory_def ubuntu_Reboot_def ret_apply intro!: emits_rules emits_ubuntu_Update dest: RebootSystem_runs split: if_splits)

interpretation ubuntu: os_provider "UbuntuFactory env (req\<lparr>Packages := []\<rparr>)" for env :: "'a daemon_env_scheme" and req
  by (rule ubuntu_provider) (simp add: reboot_package_def)

lemma factory_provider: "GetOSUpdaterFactory env req os = Inr f \<Longrightarrow> \<not> reboot_package req \<Longrightarrow> os_provider f"
  using emt.os_provider_axioms ubuntu_provider by (auto simp: GetOSUpdaterFactory_def split: if_splits)


section \<open>Full updates\<close>

text \<open>An update of packages in FULL mode never succeeds once there is something to install: the
  list of packages is run as a command of its own, which is refused unless its first word is one of
  the allowed commands.\<close>

theorem full_package_install_fails:
  assumes "Mode req = DOWNLOAD_MODE_FULL" "Packages req = p # ps" "p \<notin> set allowedCommands"
  shows "fst (ubuntu_install env req w) \<noteq> Ok x"
proof -
  have last: "run_apt env meta (p # ps) v \<noteq> (Ok u, v')" for meta v v' u
    using assms(3) by (auto simp: run_apt_def Execute_allowed_def action_simps split: prod.splits outcome.splits)
  obtain front where front: "fullInstall (Packages req) = front @ [p # ps]"
    using assms(2) by (simp add: fullInstall_def)
  have "foreach (run_apt env meta) (front @ [p # ps]) v \<noteq> (Ok u, v')" for meta v v' u
    using last by (auto simp: foreach_append action_simps split: prod.splits outcome.splits)
  with assms(1,2) front show ?thesis
    unfolding ubuntu_install_def Let_def
    by (auto simp: action_simps split: prod.splits outcome.splits)
qed

text \<open>On Edge Microvisor Toolkit an update in FULL mode never runs the OS update tool: when it answers
  success, it has cleared the state file and downloaded the image, and reboots into the old one.\<close>

theorem emt_full_update_installs_nothing:
  assumes "Mode req = DOWNLOAD_MODE_FULL" "UpdateOS env req (EMTFactory env req) w = (Ok (200, s), w')"
  shows "\<exists>cs. ran w' = ran w @ cs @ [[RebootCmd]] \<and> (\<forall>c \<in> set cs. hd c = TruncateCmd)"
proof -
  let ?P = "\<lambda>c. hd c = TruncateCmd" and ?f = "EMTFactory env req"
  have u: "emt_Update env req = ret True"
    using assms(1) by (simp add: emt_Update_def)
  have sn: "emits ?P (emt_Snapshot env)"
    unfolding emt_Snapshot_def ClearStateFile_def by (intro emits_rules emits_Execute_err) simp
  have cl: "emits ?P (emt_Clean env)"
    unfolding emt_Clean_def by (intro emits_rules)
  have ph: "emits ?P (update_phase env req ?f)"
    unfolding update_phase_def without_snapshot_def EMTFactory_def UpdaterFactory.simps u by (intro emits_rules sn cl)
  from assms(2) obtain p v where v: "update_phase env req ?f w = (Ok p, v)" "reboot_phase req ?f p v = (Ok (), w')"
    by (rule UpdateOS_success)
  from v(1) obtain a b where "fUpdate ?f a = (Ok p, b)" by (rule update_phase_Ok)
  then have "p" by (simp add: EMTFactory_def u ret_apply)
  with v(2) assms(1) have "emt_Reboot env req v = (Ok (), w')"
    by (simp add: reboot_phase_def EMTFactory_def)
  with emt_Reboot_runs emitsD [OF ph v(1)] show ?thesis by fastforce
qed

section \<open>No step of an update panics\<close>

lemma safe_or_report [safe_rules]: "safe m \<Longrightarrow> safe (or_report env ty meta reason pre m)"
  unfolding or_report_def by (intro safe_rules)

lemma safe_download [safe_rules]:
  "safe (http_NewRequest m u)" "safe (http_send env c q)" "safe (CreateSecureHTTPClient env u t)"
  "safe (DoSecureHTTPRequest env c q u)" "safe (GetFileSizeInBytes env u)" "safe (GetFreeDiskSpaceInBytes env p)"
  "safe (IsDiskSpaceAvailable env u)" "safe (save_body env p resp)" "safe (DownloadFile env u d c)"
proof -
  show n: "safe (http_NewRequest m u)" for m u :: string unfolding http_NewRequest_def by (intro safe_rules)
  show s: "safe (http_send env c q)" for c q unfolding http_send_def by (intro safe_rules)
  show c: "safe (CreateSecureHTTPClient env u t)" for u t
    unfolding CreateSecureHTTPClient_def custom_ca_def by (intro safe_rules)
  show d: "safe (DoSecureHTTPRequest env c q u)" for c q u
    unfolding DoSecureHTTPRequest_def by (intro safe_rules s)
  have h: "safe (getFileSizeWithHEAD env u)" for u
    unfolding getFileSizeWithHEAD_def by (intro safe_rules n c d)
  have r: "safe (getFileSizeWithRange env u)" for u
    unfolding getFileSizeWithRange_def by (intro safe_rules n s)
  show z: "safe (GetFileSizeInBytes env u)" for u
    unfolding GetFileSizeInBytes_def by (intro safe_rules h r)
  show f: "safe (GetFreeDiskSpaceInBytes env p)" for p
    unfolding GetFreeDiskSpaceInBytes_def by (intro safe_rules)
  show "safe (IsDiskSpaceAvailable env u)"
    unfolding IsDiskSpaceAvailable_def by (intro safe_rules f z)
  show b: "safe (save_body env p resp)" for p resp
    unfolding save_body_def by (intro safe_rules)
  show "safe (DownloadFile env u d c)"
    unfolding DownloadFile_def Let_def by (intro safe_rules n d b)
qed

lemma safe_walk_clean: "safe (walk_clean env n p)"
proof (induction n arbitrary: p)
  case (Suc n)
  have "safe (foreach (\<lambda>name. walk_clean env n (filepath_Join p name)) xs)" for xs
    by (intro safe_rules Suc)
  moreover have "safe (RemoveFile (workdir env) p)" by (intro safe_rules)
  ultimately show ?case by (auto simp: safe_def split: sum.splits)
qed (simp add: safe_basic)

lemma safe_emt [safe_rules]:
  "safe (emt_Snapshot env)" "safe (emt_Update env req)" "safe (emt_Reboot env req)" "safe (commitUpdate env req)"
  "safe (emt_Clean env)" "safe (emt_Download env req)"
  unfolding emt_Snapshot_def emt_Update_def emt_write_def emt_apply_def VerifyHash_def emt_Reboot_def commitUpdate_def
    emt_Clean_def emt_Download_def emt_downloadFile_def emt_isDiskSpaceAvailable_def Let_def
  by (intro safe_rules safe_walk_clean)+

lemma safe_os_OpenExcl [safe_rules]: "safe (os_OpenExcl cwd p)"
  by (auto simp: safe_def os_OpenExcl_def split: sum.splits)

lemma safe_case_mode [safe_rules]:
  "safe a \<Longrightarrow> safe b \<Longrightarrow> safe c \<Longrightarrow> safe d \<Longrightarrow> safe (case m of DOWNLOAD_MODE_UNSPECIFIED \<Rightarrow> a | DOWNLOAD_MODE_FULL \<Rightarrow> b
     | DOWNLOAD_MODE_NO_DOWNLOAD \<Rightarrow> c | DOWNLOAD_MODE_DOWNLOAD_ONLY \<Rightarrow> d)"
  by (cases m) simp_all

lemma safe_ubuntu_state [safe_rules]:
  "safe (writeStateFileWithTruncate env d)" "safe (writeStateFileForPackageInstallation env ps)" "safe (ubuntu_Snapshot env)"
  unfolding writeStateFileForPackageInstallation_def writeStateFileWithTruncate_def ubuntu_Snapshot_def save_snapshot_state_def
    kept_packages_def IsBTRFS_def IsSnapperInstalled_def EnsureSnapperConfig_def Let_def
  by (intro safe_rules)+

lemma safe_ubuntu [safe_rules]:
  "safe (ubuntu_Update env req)" "safe (ubuntu_Reboot env req)"
  unfolding ubuntu_Update_def ubuntu_install_def run_apt_def GetEstimatedSize_def set_environment_def ubuntu_Reboot_def Let_def
  by (intro safe_rules)+

lemma safe_verify [safe_rules]: "safe (ubuntu_Verify env state)" "safe (emt_Verify env state)" "safe (VerifyUpdateAfterReboot env)"
  unfolding ubuntu_Verify_def emt_Verify_def VerifyUpdateAfterReboot_def verifyPackageInstallation_def verify_package_def
    CheckNetworkConnection_def UndoChange_def DeleteSnapshot_def remove_state_file_def Let_def
  by (intro safe_rules)+

lemma safe_UpdateOS:
  assumes "GetOSUpdaterFactory env req os = Inr f"
  shows "safe (UpdateOS env req f)"
proof -
  have "safe (fDownload f)" "safe (fSnapshot f)" "safe (fUpdate f)" "safe (fClean f)" "safe (fReboot f)"
    using assms by (auto simp: GetOSUpdaterFactory_def EMTFactory_def UbuntuFactory_def split: if_splits intro!: safe_rules)
  then show ?thesis
    unfolding UpdateOS_def without_snapshot_def by (intro safe_rules; assumption?)
qed

section \<open>Examples\<close>

definition toy_request :: "DownloadMode \<Rightarrow> string list \<Rightarrow> UpdateSystemSoftwareRequest" where
  "toy_request m ps = \<lparr>Url = ''https://a/img'', Signature = [], Mode = m, DoNotReboot = False, Packages = ps\<rparr>"


lemma full_package_install_fails_witness:
  "fst (ubuntu_install toy_daemon (toy_request DOWNLOAD_MODE_FULL [''vim'']) \<lparr>files = Map.empty, ran = [], wtick = 0\<rparr>) \<noteq> Ok True"
  by (rule full_package_install_fails [where p = "''vim''" and ps = "[]"])
    (simp_all add: toy_request_def allowedCommands_def command_defs)

text \<open>An EMT node with a repository that serves an image. Its snapshots fail, and its configuration
  lets updates go on.\<close>

definition emt_node :: daemon_env where
  "emt_node = \<lparr>workdir = [], tar_entries = (\<lambda>s. []), pem_Decode = Some, x509_Parse = (\<lambda>d. Inr OtherKey), hash_sum = (\<lambda>a s. s),
     VerifyPSS = (\<lambda>key a h sg. None), deadline = (\<lambda>k. False),
     json_Unmarshal = (\<lambda>s. Inr None),
     json_Marshal = (\<lambda>m. []),
     schema_error = (\<lambda>sch doc. None), temp_random = ''1'',
   run_command = (\<lambda>n c fs. (\<lparr>stdout = [], stderr = [], combined = [], failure = None\<rparr>, fs)),
   http_Do = (\<lambda>n c q. Inr \<lparr>StatusCode = 200, Header = \<lambda>h. ''3'', Body = ''img'', Body_error = None\<rparr>),
   INBM_CUSTOM_CA_FILE = [], AppendCertsFromPEM = (\<lambda>ca. False),
     clock = (\<lambda>n. 0), statfs = (\<lambda>n p. Inr (100, 100, 0)), list_dir = (\<lambda>fs q. []), setenv_error = (\<lambda>n v. None), 
     lsb_release_a = (\<lambda>n. Inr ''Ubuntu''), goos = ''linux'', jwt_exp = (\<lambda>t. Inr None),
     state_Marshal = (\<lambda>st. ''s''), state_Unmarshal = (\<lambda>d. Inl ''bad''),
     config_Unmarshal = (\<lambda>d. Inr \<lparr>TrustedRepositories = [''https''], ProceedWithoutRollback = True\<rparr>),
     status_Marshal = (\<lambda>st. us_Status st), granular_Marshal = (\<lambda>m. []), request_Marshal = (\<lambda>q. Inr ''{}'')\<rparr>"
definition emt_world :: inbd_world where
  "emt_world = \<lparr>files = map_of [([''etc''], Directory), ([''etc'', ''intel_manageability.conf''], Regular ''{s}''),
     ([''var''], Directory), ([''var'', ''log''], Directory),
     ([''var'', ''cache''], Directory), ([''var'', ''cache'', ''manageability''], Directory),
     ([''var'', ''cache'', ''manageability'', ''repository-tool''], Directory),
     ([''var'', ''cache'', ''manageability'', ''repository-tool'', ''sota''], Directory),
     ([''var'', ''intel-manageability''], Directory), ([''var'', ''intel-manageability'', ''inbd_state''], Regular [])],
     ran = [], wtick = 0\<rparr>"

lemma emt_full_update_installs_nothing_witness:
  "\<exists>w' cs. UpdateOS emt_node (toy_request DOWNLOAD_MODE_FULL []) (EMTFactory emt_node (toy_request DOWNLOAD_MODE_FULL [])) emt_world =
     (Ok (200, ''Success''), w') \<and> ran w' = cs @ [[RebootCmd]] \<and> (\<forall>c \<in> set cs. hd c = TruncateCmd)"
proof -
  let ?q = "toy_request DOWNLOAD_MODE_FULL []"
  have m: "Mode ?q = DOWNLOAD_MODE_FULL" by (simp add: toy_request_def)
  have "fst (emt_Download emt_node ?q emt_world) = Ok ()" by code_simp
  then obtain w1 where d: "emt_Download emt_node ?q emt_world = (Ok (), w1)" "w1 = snd (emt_Download emt_node ?q emt_world)"
    by (metis prod.collapse)
  have "case fst (Open [] imageIDPath (files w1)) of Err e \<Rightarrow> True | _ \<Rightarrow> False" unfolding d(2) by code_simp
  then obtain e where o: "Open [] imageIDPath (files w1) = (Err e, files w1)"
    using Open_pure [of "[]" imageIDPath "files w1"] by (auto split: outcome.splits) (metis prod.collapse)
  let ?w2 = "w1\<lparr>ran := ran w1 @ [[TruncateCmd, ''-s'', ''0'', StateFilePath]], wtick := Suc (wtick w1)\<rparr>"
  have wd: "workdir emt_node = []" by (simp add: emt_node_def)
  have "Execute_err emt_node [TruncateCmd, ''-s'', ''0'', StateFilePath] w1 = (Ok (), ?w2)"
    by (simp add: Execute_err_def Execute_allowed_def spawn_def allowedCommands_def emt_node_def action_simps)
  with o have s: "emt_Snapshot emt_node w1 = (Err (''failed to get image build date: '' @ e), ?w2)"
    by (simp add: emt_Snapshot_def ClearStateFile_def GetImageBuildDate_def on_files_def andthen_apply wrap_apply wd)
  have "fst (ReadFile [] ConfigFilePath (files w1)) = Ok ''{s}''" unfolding d(2) by code_simp
  then have "ReadFile [] ConfigFilePath (files w1) = (Ok ''{s}'', files w1)"
    using ReadFile_state [of "[]" ConfigFilePath "files w1"] by (metis prod.collapse)
  moreover have "config_Unmarshal emt_node d = Inr \<lparr>TrustedRepositories = [''https''], ProceedWithoutRollback = True\<rparr>" for d
    by (simp add: emt_node_def)
  ultimately have c: "LoadConfig emt_node ConfigFilePath ?w2 = (Ok \<lparr>TrustedRepositories = [''https''], ProceedWithoutRollback = True\<rparr>, ?w2)"
    by (simp add: LoadConfig_def on_files_def andthen_apply wrap_apply wd ret_apply)
  obtain w3 where k: "ignore (emt_Clean emt_node) ?w2 = (Ok (), w3)"
  proof -
    obtain r t where "ignore (emt_Clean emt_node) ?w2 = (r, t)" by fastforce
    with that show thesis
      using ignore_never_Err [of "emt_Clean emt_node" ?w2] safeD [OF safe_ignore [OF safe_emt(5)], of emt_node ?w2]
      by (cases r) auto
  qed
  have r: "emt_Reboot emt_node ?q w3 = (Ok (), w3\<lparr>ran := ran w3 @ [[RebootCmd]], wtick := Suc (wtick w3)\<rparr>)"
    by (simp add: emt_Reboot_def or_report_def RebootSystem_def Execute_err_def Execute_allowed_def spawn_def allowedCommands_def
        emt_node_def action_simps)
  have u: "UpdateOS emt_node ?q (EMTFactory emt_node ?q) emt_world =
      (Ok (200, ''Success''), w3\<lparr>ran := ran w3 @ [[RebootCmd]], wtick := Suc (wtick w3)\<rparr>)"
    by (simp add: UpdateOS_def EMTFactory_def emt_Update_def m or_500_def or_code_def andthen_apply attempt_apply ret_apply if_app d(1) s without_snapshot_def c k r)
  from emt_full_update_installs_nothing [OF m u] u show ?thesis by (auto simp: emt_world_def)
qed

end
