(* ===== verification/Inbd_Os_Start.thy ===== *)
theory Inbd_Os_Start
  imports Inbd_Os_Laws
begin

text \<open>
  The start of the in-band manageability daemon after an update: the state file, the two update logs
  and the verification after the reboot, on a node with the directories and logs of an installed
  system (\<open>node_layout\<close>). The state file implements a cell with the pending update; an Ubuntu node
  that comes up without a network is followed over any number of starts.
\<close>

section \<open>The layout of a node\<close>

definition is_file :: "filesystem \<Rightarrow> path \<Rightarrow> bool" where
  "is_file fs q \<longleftrightarrow> (case fs q of Some (Regular _) \<Rightarrow> True | _ \<Rightarrow> False)"

definition status_log :: path where "status_log = [''var'', ''log'', ''inbm-update-status.log'']"
definition granular_log :: path where "granular_log = [''var'', ''log'', ''inbm-update-log.log'']"
definition state_path :: path where "state_path = [''var'', ''intel-manageability'', ''inbd_state'']"

definition node_layout :: "filesystem \<Rightarrow> bool" where
  "node_layout fs \<longleftrightarrow> fs [''var''] = Some Directory \<and> fs [''var'', ''log''] = Some Directory \<and>
     fs [''var'', ''intel-manageability''] = Some Directory \<and> is_file fs status_log \<and> is_file fs granular_log"

lemma layout_paths:
  "components cwd UpdateStatusLogPath = [] # status_log" "components cwd GranularLogPath = [] # granular_log"
  "components cwd StateFilePath = [] # state_path" 
  by (simp_all add: components_def UpdateStatusLogPath_def GranularLogPath_def StateFilePath_def status_log_def granular_log_def state_path_def)

lemma layout_allowed:
  "isFilePathAbsolute cwd UpdateStatusLogPath = Inr ()" "isFilePathAbsolute cwd GranularLogPath = Inr ()"
  "isFilePathAbsolute cwd StateFilePath = Inr ()" 
  unfolding isFilePathAbsolute_def filepath_Abs_def layout_paths by code_simp+

lemma is_fileD: "is_file fs q \<Longrightarrow> \<exists>d. fs q = Some (Regular d)"
  by (auto simp: is_file_def split: option.splits node.splits)

lemma layout_resolve:
  assumes "node_layout fs"
  shows "resolve fo cr n fs [] ([] # status_log) = Inr status_log"
    "resolve fo cr n fs [] ([] # granular_log) = Inr granular_log"
    "is_file fs state_path \<Longrightarrow> resolve fo cr n fs [] ([] # state_path) = Inr state_path"
  using assms unfolding node_layout_def
  by (auto dest!: is_fileD simp: status_log_def granular_log_def state_path_def)


lemma layout_symlink:
  assumes "node_layout fs"
  shows "isFilePathSymLink fs cwd UpdateStatusLogPath = Inr ()" "isFilePathSymLink fs cwd GranularLogPath = Inr ()"
    "is_file fs state_path \<Longrightarrow> isFilePathSymLink fs cwd StateFilePath = Inr ()"
proof -
  have a: "filepath_Abs cwd UpdateStatusLogPath = status_log" "filepath_Abs cwd GranularLogPath = granular_log"
    "filepath_Abs cwd StateFilePath = state_path"
    unfolding filepath_Abs_def layout_paths by code_simp+
  have cons: "resolve True False 255 fs [] ([] # q) = resolve True False 255 fs [] q" for q by simp
  note r = layout_resolve [OF assms, where cr = False]
  show "isFilePathSymLink fs cwd UpdateStatusLogPath = Inr ()" "isFilePathSymLink fs cwd GranularLogPath = Inr ()"
    using r(1,2) [of True 255] r(1,2) [of False 40]
    by (simp_all only: isFilePathSymLink_def a Let_def layout_paths os_Lstat_def EvalSymlinks_def cons) simp_all
  assume "is_file fs state_path"
  then show "isFilePathSymLink fs cwd StateFilePath = Inr ()"
    using r(3) [of True 255] r(3) [of False 40]
    by (simp only: isFilePathSymLink_def a Let_def layout_paths os_Lstat_def EvalSymlinks_def cons) simp
qed

lemma layout_check_path:
  assumes "node_layout fs"
  shows "check_path cwd UpdateStatusLogPath fs = (Ok (), fs)" "check_path cwd GranularLogPath fs = (Ok (), fs)"
    "is_file fs state_path \<Longrightarrow> check_path cwd StateFilePath fs = (Ok (), fs)"
  using layout_symlink [OF assms, of cwd] layout_allowed [of cwd] by (simp_all add: check_path_apply)

lemma layout_update:
  "node_layout fs \<Longrightarrow> q \<in> {status_log, granular_log, state_path} \<Longrightarrow> node_layout (fs(q := Some (Regular d)))"
  by (auto simp: node_layout_def is_file_def status_log_def granular_log_def state_path_def)

lemma layout_distinct [simp]:
  "status_log \<noteq> granular_log" "granular_log \<noteq> status_log" "status_log \<noteq> state_path" "state_path \<noteq> status_log"
  "granular_log \<noteq> state_path" "state_path \<noteq> granular_log" "status_log \<noteq> []" "granular_log \<noteq> []" "state_path \<noteq> []"
  by (simp_all add: status_log_def granular_log_def state_path_def)

section \<open>Writing the logs\<close>

definition outcome_text :: "string outcome \<Rightarrow> string" where
  "outcome_text r = (case r of Ok d \<Rightarrow> d | _ \<Rightarrow> [])"

lemma write_log_file:
  assumes "resolve True False 40 (files w) [] (components (workdir env) p) = Inr q"
    and "check_path (workdir env) p (files w) = (Ok (), files w)"
    and "files w q = Some (Regular old)" "q \<noteq> []"
    and "m (w\<lparr>files := (files w)(q := Some (Regular []))\<rparr>) = (r, w2)" "files w2 = (files w)(q := Some (Regular []))"
    and "\<And>e. r \<noteq> Crash e"
  shows "write_log env p m w = (Ok (), w2\<lparr>files := (files w)(q := Some (Regular (outcome_text r)))\<rparr>)"
proof -
  have o: "OpenFile (workdir env) p (os_OpenTruncExisting (workdir env) p) (files w) = (Ok q, (files w)(q := Some (Regular [])))"
    using assms(1-4) by (simp add: OpenFile_def andthen_Ok os_OpenTruncExisting_def)
  have u: "w2\<lparr>files := (files w)(q := Some (Regular []))\<rparr> = w2" using assms(6) by (cases w2) simp
  show ?thesis
    using assms(1,5,6) assms(7) [of undefined] assms(7) o u
    by (cases r) (auto simp: write_log_def on_files_def action_simps overwrite_def outcome_text_def)
qed


definition success_status :: "'a daemon_env_scheme \<Rightarrow> string \<Rightarrow> int \<Rightarrow> string \<Rightarrow> string \<Rightarrow> string" where
  "success_status env s t meta e = status_Marshal env
     \<lparr>us_Status = s, us_Type = ''sota'', us_Time = t, us_Metadata = meta, us_Error = e, us_Version = ''v1''\<rparr>"

lemma report_layout:
  assumes "node_layout (files w)"
  shows "\<exists>t d w'. report env ty s meta e reason w = (Ok (), w') \<and> ran w' = ran w \<and>
     files w' = (files w)(status_log := Some (Regular (success_status env s t meta e)), granular_log := Some (Regular d))"
proof -
  let ?fs = "(files w)(status_log := Some (Regular []))"
  note cr = layout_resolve [OF assms] layout_check_path [OF assms, of "workdir env"]
  from assms obtain old where old: "files w status_log = Some (Regular old)"
    unfolding node_layout_def by (blast dest: is_fileD)
  let ?t = "clock env (wtick w)"
  let ?text = "success_status env s ?t meta e"
  let ?w1 = "w\<lparr>files := (files w)(status_log := Some (Regular ?text)), wtick := Suc (wtick w)\<rparr>"
  have "WriteUpdateStatus env s meta e w = (Ok (), (w\<lparr>files := ?fs, wtick := Suc (wtick w)\<rparr>)\<lparr>files :=
     (files w)(status_log := Some (Regular (outcome_text (Ok ?text))))\<rparr>)"
    unfolding WriteUpdateStatus_def
    by (rule write_log_file [where q = status_log and old = old])
      (use cr old in \<open>simp_all add: layout_paths action_simps tock_def success_status_def\<close>)
  then have one: "WriteUpdateStatus env s meta e w = (Ok (), ?w1)"
    by (simp add: outcome_text_def)
  have lay: "node_layout (files ?w1)" using layout_update [OF assms, of status_log] by simp
  then obtain old2 where old2: "files ?w1 granular_log = Some (Regular old2)"
    unfolding node_layout_def by (blast dest: is_fileD)
  note cr2 = layout_resolve [OF lay] layout_check_path [OF lay, of "workdir env"]
  have "\<exists>m. WriteGranularLogWithOSType env s reason ty = write_log env GranularLogPath m \<and> reads_only m"
    unfolding WriteGranularLogWithOSType_def by (intro exI conjI, rule refl, intro reads_rules)
  then obtain m where m: "WriteGranularLogWithOSType env s reason ty = write_log env GranularLogPath m" "reads_only m"
    by blast
  let ?w2 = "?w1\<lparr>files := (files ?w1)(granular_log := Some (Regular []))\<rparr>"
  obtain r w2 where r: "m ?w2 = (r, w2)" by fastforce
  then have ro: "w2 = ?w2" "\<And>x. r \<noteq> Crash x" using reads_onlyD [OF m(2)] by blast+
  have "write_log env GranularLogPath m ?w1 = (Ok (), w2\<lparr>files := (files ?w1)(granular_log := Some (Regular (outcome_text r)))\<rparr>)"
    by (rule write_log_file [where q = granular_log and old = old2])
      (use cr2 old2 r ro in \<open>simp_all add: layout_paths\<close>)
  then show ?thesis
    unfolding report_def m(1) by (auto simp: andthen_apply one ro(1))
qed


section \<open>The start after an update\<close>

text \<open>An Ubuntu node without a default route, whose commands leave the file system alone: what every
  start of the daemon sees.\<close>

definition route_command :: "string list" where
  "route_command = [IPCmd, ''route'', ''show'', ''default'']"

definition offline_ubuntu :: "'a daemon_env_scheme \<Rightarrow> bool" where
  "offline_ubuntu env \<longleftrightarrow> goos env = ''linux'' \<and> (\<forall>n. lsb_release_a env n = Inr ''Ubuntu'') \<and>
     (\<forall>n c fs. snd (run_command env n c fs) = fs) \<and>
     (\<forall>n fs. stdout (fst (run_command env n route_command fs)) = []) \<and>
     (\<forall>n c fs. c \<noteq> route_command \<longrightarrow> failure (fst (run_command env n c fs)) = None)"

lemma offline_command:
  assumes "offline_ubuntu env" "c \<noteq> route_command" "hd c \<in> set allowedCommands" "c \<noteq> []"
  shows "Execute_err env c w = (Ok (), w\<lparr>ran := ran w @ [c], wtick := Suc (wtick w)\<rparr>)"
proof -
  obtain r where r: "run_command env (wtick w) c (files w) = (r, files w)" "failure r = None"
    using assms(1,2) unfolding offline_ubuntu_def by (metis prod.collapse)
  with assms(3,4) show ?thesis
    by (cases c) (simp_all add: Execute_err_def Execute_allowed_def spawn_def action_simps)
qed

lemma offline_network:
  assumes "offline_ubuntu env"
  shows "CheckNetworkConnection env w = (Ok False, w\<lparr>ran := ran w @ [route_command], wtick := Suc (wtick w)\<rparr>)"
proof -
  obtain r where r: "run_command env (wtick w) route_command (files w) = (r, files w)" "stdout r = []"
    using assms unfolding offline_ubuntu_def by (metis prod.collapse)
  have "Execute_allowed env route_command w = (Ok r, w\<lparr>ran := ran w @ [route_command], wtick := Suc (wtick w)\<rparr>)"
    using r by (simp add: Execute_allowed_def spawn_def allowedCommands_def route_command_def)
  with r(2) show ?thesis
    unfolding CheckNetworkConnection_def route_command_def [symmetric] by (simp add: andthen_apply ret_apply)
qed

text \<open>What \<^verbatim>\<open>VerifyUpdateAfterReboot\<close> does there: with a snapshot it is undone and deleted, the reboot is
  run, and the status log says success. The state file stays.\<close>

definition undo_commands :: "int \<Rightarrow> string list list" where
  "undo_commands n = (if n = 0 then [] else
     [[SnapperCmd, ''-c'', ''rootConfig'', ''undochange'', show_int n @ ''..0''],
      [SnapperCmd, ''-c'', ''rootConfig'', ''delete'', show_int n]])"

definition start_commands :: "int \<Rightarrow> string list list" where
  "start_commands n = [route_command] @ undo_commands n @ [[RebootCmd]]"

lemma verify_offline:
  assumes "offline_ubuntu env" "PackageList state = []"
  shows "\<exists>k. ubuntu_Verify env state w = (Ok (), w\<lparr>ran := ran w @ start_commands (SnapshotNumber state), wtick := k\<rparr>)"
proof -
  note c = offline_command [OF assms(1)]
  have allowed: "SnapperCmd \<in> set allowedCommands" "RebootCmd \<in> set allowedCommands"
    by (simp_all add: allowedCommands_def)
  have ne: "SnapperCmd # cs \<noteq> route_command" "RebootCmd # cs \<noteq> route_command" for cs
    by (simp_all add: command_defs route_command_def)
  show ?thesis
    by (auto simp: ubuntu_Verify_def verifyPackageInstallation_def assms(2) andthen_apply ret_apply offline_network [OF assms(1)]
        UndoChange_def DeleteSnapshot_def RebootSystem_def wrap_apply c allowed ne start_commands_def undo_commands_def)
qed

lemma start_offline:
  assumes "offline_ubuntu env" "node_layout (files w)" "files w state_path = Some (Regular d)" "d \<noteq> []"
    and "state_Unmarshal env d = Inr state" "PackageList state = []"
  shows "\<exists>t x w'. VerifyUpdateAfterReboot env w = (Ok (), w') \<and> ran w' = ran w @ start_commands (SnapshotNumber state) \<and>
    files w' = (files w)(status_log := Some (Regular (success_status env ''SUCCESS'' t [] [])), granular_log := Some (Regular x))"
proof -
  have f: "is_file (files w) state_path" using assms(3) by (simp add: is_file_def)
  have res: "resolve True False 40 (files w) [] state_path = Inr state_path"
    using layout_resolve(3) [OF assms(2) f, of True False 40] by simp
  note chk = layout_check_path(3) [OF assms(2) f, of "workdir env"]
  have os: "Detect_OS env v = (Ok ''Ubuntu'', v\<lparr>wtick := Suc (wtick v)\<rparr>)" for v
  proof -
    have "Contains ''Ubuntu'' ''Ubuntu''" by code_simp
    with assms(1) show ?thesis
      by (auto simp: offline_ubuntu_def Detect_OS_def detectLinuxDistribution_def tock_def action_simps)
  qed
  let ?w1 = "w\<lparr>wtick := Suc (wtick w)\<rparr>"
  have rd: "ReadStateFile env ?w1 = (Ok state, ?w1)"
    using assms(3,5) by (simp add: ReadStateFile_def Open_def on_files_def andthen_apply chk os_Open_def layout_paths res
        raw_ReadFile_def content_of_apply wrap_apply ret_apply)
  obtain k where v: "ubuntu_Verify env state ?w1 = (Ok (), ?w1\<lparr>ran := ran w @ start_commands (SnapshotNumber state), wtick := k\<rparr>)"
    using verify_offline [OF assms(1,6), of ?w1] by auto
  let ?w2 = "?w1\<lparr>ran := ran w @ start_commands (SnapshotNumber state), wtick := k\<rparr>"
  have "VerifyUpdateAfterReboot env w = report env ''ubuntu'' ''SUCCESS'' [] [] [] ?w2"
    using assms(3,4) by (simp add: VerifyUpdateAfterReboot_def andthen_apply asks_apply layout_paths res wrap_apply os rd v if_app)
  with report_layout [of ?w2 env "''ubuntu''" "''SUCCESS''" "[]" "[]" "[]"] assms(2) show ?thesis by auto
qed


section \<open>The state file as a pending update\<close>

definition pending :: "'a daemon_env_scheme \<Rightarrow> filesystem \<Rightarrow> INBDState option" where
  "pending env fs = (case fs state_path of
     Some (Regular d) \<Rightarrow> (case state_Unmarshal env d of Inl _ \<Rightarrow> None | Inr st \<Rightarrow> Some st) | _ \<Rightarrow> None)"

lemma mkdir_layout: "node_layout fs \<Longrightarrow> os_MkdirAll cwd StateDir fs = (Ok (), fs)"
proof -
  assume "node_layout fs"
  then have "fs [''var''] = Some Directory" "fs [''var'', ''intel-manageability''] = Some Directory"
    by (auto simp: node_layout_def)
  moreover have "components cwd StateDir = [[], ''var'', ''intel-manageability'']"
    by (simp add: components_def StateDir_def)
  ultimately show ?thesis by (simp add: os_MkdirAll_def andthen_apply ret_apply)
qed

definition state_free :: "filesystem \<Rightarrow> bool" where
  "state_free fs \<longleftrightarrow> fs state_path = None \<or> is_file fs state_path"

lemma layout_create:
  assumes "node_layout fs" "state_free fs"
  shows "resolve fo True n fs [] state_path = Inr state_path"
  using assms unfolding node_layout_def state_free_def by (auto dest!: is_fileD simp: state_path_def)

lemma remove_then_create:
  assumes "node_layout fs" "state_free fs"
  shows "\<exists>r. os_Remove_path cwd StateFilePath fs = (r, fs(state_path := None)) \<and> (\<forall>e. r \<noteq> Crash e)"
    "os_OpenExcl cwd StateFilePath (fs(state_path := None)) = (Ok state_path, fs(state_path := Some (Regular [])))"
proof -
  have "resolve False True 40 (fs(state_path := None)) [] state_path = Inr state_path"
  proof (rule layout_create)
    show "node_layout (fs(state_path := None))"
      using assms(1) by (auto simp: node_layout_def is_file_def status_log_def granular_log_def state_path_def)
  qed (simp add: state_free_def)
  then show "os_OpenExcl cwd StateFilePath (fs(state_path := None)) = (Ok state_path, fs(state_path := Some (Regular [])))"
    by (simp add: os_OpenExcl_def layout_paths)
  show "\<exists>r. os_Remove_path cwd StateFilePath fs = (r, fs(state_path := None)) \<and> (\<forall>e. r \<noteq> Crash e)"
  proof (cases "is_file fs state_path")
    case True
    then have "resolve False False 40 fs [] state_path = Inr state_path"
      using layout_resolve(3) [OF assms(1), of False False 40] by simp
    with True show ?thesis by (auto simp: os_Remove_path_def layout_paths is_file_def)
  next
    case False
    with assms(2) have n: "fs state_path = None" by (simp add: state_free_def)
    with assms(1) have "resolve False False 40 fs [] state_path = Inl ENOENT"
      unfolding node_layout_def by (simp add: state_path_def)
    with n show ?thesis by (auto simp: os_Remove_path_def layout_paths fun_upd_idem)
  qed
qed

lemma writeStateFileWithTruncate_layout:
  assumes "node_layout (files w)" "state_free (files w)"
  shows "writeStateFileWithTruncate env c w = (Ok (), w\<lparr>files := (files w)(state_path := Some (Regular c))\<rparr>)"
proof -
  note rc = remove_then_create [OF assms, of "workdir env"]
  from rc(1) obtain r where r: "os_Remove_path (workdir env) StateFilePath (files w) = (r, (files w)(state_path := None))"
    "\<forall>e. r \<noteq> Crash e" by blast
  then have ig: "ignore (os_Remove_path (workdir env) StateFilePath) (files w) = (Ok (), (files w)(state_path := None))"
    by (cases r) (simp_all add: ignore_apply)
  show ?thesis
    by (simp add: writeStateFileWithTruncate_def on_files_def andthen_apply wrap_apply mkdir_layout [OF assms(1)] ig attempt_apply
        rc(2) ret_apply overwrite_def modify_apply)
qed

lemma ReadStateFile_pending:
  assumes "node_layout (files w)" "is_file (files w) state_path"
  shows "ReadStateFile env w = (Ok st, w) \<longleftrightarrow> pending env (files w) = Some st"
proof -
  have res: "resolve True False 40 (files w) [] state_path = Inr state_path"
    using layout_resolve(3) [OF assms, of True False 40] by simp
  obtain d where d: "files w state_path = Some (Regular d)" using assms(2) by (blast dest: is_fileD)
  show ?thesis
    by (simp add: ReadStateFile_def Open_def on_files_def andthen_apply layout_check_path(3) [OF assms] os_Open_def layout_paths res
        raw_ReadFile_def content_of_apply wrap_apply d pending_def lift_result_def ret_apply fail_apply split: sum.splits)
qed

lemma remove_state_file_layout:
  assumes "node_layout (files w)" "is_file (files w) state_path"
  shows "remove_state_file env w = (Ok (), w\<lparr>files := (files w)(state_path := None)\<rparr>)"
proof -
  have res: "resolve False False 40 (files w) [] state_path = Inr state_path"
    using layout_resolve(3) [OF assms, of False False 40] by simp
  obtain d where d: "files w state_path = Some (Regular d)" using assms(2) by (blast dest: is_fileD)
  show ?thesis
    by (simp add: remove_state_file_def ignore_apply on_files_def RemoveFile_def andthen_apply layout_check_path(3) [OF assms]
        os_Remove_path_def layout_paths res d)
qed

lemma WriteToStateFile_layout:
  assumes "node_layout (files w)" "files w state_path = Some (Regular old)"
  shows "WriteToStateFile env c w = (Ok (), w\<lparr>files := (files w)(state_path := Some (Regular (c @ drop (length c) old)))\<rparr>)"
proof -
  have f: "is_file (files w) state_path" using assms(2) by (simp add: is_file_def)
  have res: "resolve True True 40 (files w) [] state_path = Inr state_path"
    using layout_resolve(3) [OF assms(1) f, of True True 40] by simp
  show ?thesis
    by (simp add: WriteToStateFile_def on_files_def andthen_apply wrap_apply mkdir_layout [OF assms(1)] OpenFile_def
        layout_check_path(3) [OF assms(1) f] os_OpenCreate_def layout_paths res assms(2) overwrite_def modify_apply)
qed

section \<open>Properties\<close>

fun starts :: "'a daemon_env_scheme \<Rightarrow> nat \<Rightarrow> inbd_world \<Rightarrow> inbd_world" where
  "starts env 0 w = w"
| "starts env (Suc n) w = snd (VerifyUpdateAfterReboot env (starts env n w))"

lemma starts_offline:
  assumes "offline_ubuntu env" "node_layout (files w)" "files w state_path = Some (Regular d)" "d \<noteq> []"
    and "state_Unmarshal env d = Inr state" "PackageList state = []"
  shows "node_layout (files (starts env n w)) \<and> files (starts env n w) state_path = Some (Regular d) \<and>
    ran (starts env n w) = ran w @ concat (replicate n (start_commands (SnapshotNumber state)))"
proof (induction n)
  case (Suc n)
  let ?w = "starts env n w"
  from start_offline [OF assms(1) _ _ assms(4-6), of ?w] Suc obtain t x w' where s:
    "VerifyUpdateAfterReboot env ?w = (Ok (), w')" "ran w' = ran ?w @ start_commands (SnapshotNumber state)"
    "files w' = (files ?w)(status_log := Some (Regular (success_status env ''SUCCESS'' t [] [])), granular_log := Some (Regular x))"
    by blast
  have "node_layout (files w')"
    unfolding s(3) using Suc by (intro layout_update) auto
  moreover have "concat (replicate n cs) @ cs = cs @ concat (replicate n cs)" for cs :: "string list list"
    by (induction n) auto
  moreover have "files w' state_path = Some (Regular d)" using Suc by (simp add: s(3))
  ultimately show ?case using Suc by (simp add: s(1,2))
qed (simp add: assms)

text \<open>C10: On an Ubuntu node without snapshots that stays offline, the daemon reboots at every start, for
  ever: the state file that asks for the verification is only removed when there is a network.\<close>

theorem offline_reboots_forever:
  assumes "offline_ubuntu env" "node_layout (files w)" "files w state_path = Some (Regular d)" "d \<noteq> []"
    and "state_Unmarshal env d = Inr state" "PackageList state = []" "SnapshotNumber state = 0"
  shows "ran (starts env n w) = ran w @ concat (replicate n [route_command, [RebootCmd]])"
  using starts_offline [OF assms(1-6), of n] assms(7) by (simp add: start_commands_def undo_commands_def)

text \<open>An update of an Ubuntu node that comes up offline is rolled back to the snapshot and the node is
  rebooted, but the status log then says SUCCESS and the state file is still there.\<close>

theorem reverted_update_reported_success:
  assumes "offline_ubuntu env" "node_layout (files w)" "files w state_path = Some (Regular d)" "d \<noteq> []"
    and "state_Unmarshal env d = Inr state" "PackageList state = []" "SnapshotNumber state \<noteq> 0"
  shows "\<exists>t w'. VerifyUpdateAfterReboot env w = (Ok (), w') \<and>
    ran w' = ran w @ [route_command] @ undo_commands (SnapshotNumber state) @ [[RebootCmd]] \<and>
    files w' status_log = Some (Regular (success_status env ''SUCCESS'' t [] [])) \<and> files w' state_path = files w state_path"
  using start_offline [OF assms(1-6)] by (fastforce simp: start_commands_def)


text \<open>\<^verbatim>\<open>WriteToStateFile\<close> does not truncate: a longer old state keeps its end behind the new one.\<close>

theorem state_file_keeps_old_tail:
  assumes "node_layout (files w)" "files w state_path = Some (Regular old)" "length c < length old"
  shows "\<exists>v tail. WriteToStateFile env c w = (Ok (), v) \<and> tail \<noteq> [] \<and> files v state_path = Some (Regular (c @ tail))"
  using WriteToStateFile_layout [OF assms(1,2), of env c] assms(3) by (intro exI [of _ "drop (length c) old"] exI) auto


section \<open>Examples\<close>

definition toy_files :: "string \<Rightarrow> filesystem" where
  "toy_files d = map_of [([''var''], Directory), ([''var'', ''log''], Directory), ([''var'', ''intel-manageability''], Directory),
     (status_log, Regular []), (granular_log, Regular []), (state_path, Regular d)]"

definition toy_world :: "string \<Rightarrow> inbd_world" where
  "toy_world d = \<lparr>files = toy_files d, ran = [], wtick = 0\<rparr>"

lemma toy_facts:
  "offline_ubuntu toy_daemon" "node_layout (files (toy_world d))" "files (toy_world d) state_path = Some (Regular d)"
  "state_free (files (toy_world d))" "state_Unmarshal toy_daemon ''old'' = Inr (state_of 0)"
  "state_Unmarshal toy_daemon ''young'' = Inr (state_of 5)" "PackageList (state_of n) = []" "SnapshotNumber (state_of n) = n"
  "state_Marshal toy_daemon (state_of 0) = ''old''"
  by (simp_all add: offline_ubuntu_def toy_daemon_def daemon_env.defs inbd_env.defs json_env_def toy_world_def toy_files_def
      node_layout_def is_file_def state_free_def status_log_def granular_log_def state_path_def state_of_def no_state_def)

lemma offline_reboots_forever_witness:
  "ran (starts toy_daemon 2 (toy_world ''old'')) = [route_command, [RebootCmd], route_command, [RebootCmd]]"
  using offline_reboots_forever [of toy_daemon "toy_world ''old''" "''old''" "state_of 0" 2]
  by (simp add: toy_facts numeral_2_eq_2) (simp add: toy_world_def)

lemma reverted_update_reported_success_witness:
  "\<exists>w'. VerifyUpdateAfterReboot toy_daemon (toy_world ''young'') = (Ok (), w') \<and>
    ran w' = [route_command] @ undo_commands 5 @ [[RebootCmd]] \<and> files w' state_path = Some (Regular ''young'')"
  using reverted_update_reported_success [of toy_daemon "toy_world ''young''" "''young''" "state_of 5"]
  by (auto simp: toy_facts) (auto simp: toy_world_def toy_files_def)


lemma state_file_keeps_old_tail_witness:
  "\<exists>v tail. WriteToStateFile toy_daemon ''old'' (toy_world ''young'') = (Ok (), v) \<and> tail \<noteq> [] \<and>
    files v state_path = Some (Regular (''old'' @ tail))"
  using state_file_keeps_old_tail [of "toy_world ''young''" "''young''" "''old''" toy_daemon] by (auto simp: toy_facts)

end
