(* ===== verification/Inbd_Server_Laws.thy ===== *)
theory Inbd_Server_Laws
  imports Inbd_Server Inbd_Os_Start
begin

text \<open>
  What the handlers of the in-band manageability service guarantee, and where they do not.
\<close>

section \<open>Queries\<close>

text \<open>On a system whose \<^verbatim>\<open>lsb_release\<close> always says that it is Edge Microvisor.\<close>

definition emt_system :: "'a daemon_env_scheme \<Rightarrow> bool" where
  "emt_system env \<longleftrightarrow> goos env = ''linux'' \<and> (\<forall>n. lsb_release_a env n = Inr ''Edge Microvisor Toolkit'')"

lemma emt_Detect_OS: "emt_system env \<Longrightarrow> Detect_OS env w = (Ok ''EMT'', w\<lparr>wtick := Suc (wtick w)\<rparr>)"
proof -
  assume e: "emt_system env"
  have "\<not> Contains ''Edge Microvisor Toolkit'' ''Ubuntu''" "Contains (ToLower ''Edge Microvisor Toolkit'') ''microvisor''"
    by code_simp+
  with e show ?thesis
    by (auto simp: emt_system_def Detect_OS_def detectLinuxDistribution_def tock_def action_simps)
qed

lemma emt_GetSoftwareBOM: "emt_system env \<Longrightarrow> \<exists>w'. GetSoftwareBOM env w = (Err ''failed to get software BOM list: unsupported OS type: EMT'', w')"
  by (simp add: GetSoftwareBOM_def getCollectionMethod_def getSoftwareBOMList_def andthen_apply attempt_apply wrap_apply
      tock_def emt_Detect_OS ret_apply fail_apply)

lemma emt_no_bom: "emt_system env \<Longrightarrow> GetSoftwareBOM env w = (Ok x, w') \<Longrightarrow> False"
  using emt_GetSoftwareBOM [of env w] by auto

lemma emt_GetAllInfo: "emt_system env \<Longrightarrow> GetAllInfo env w = (Ok x, w') \<Longrightarrow> False"
  by (auto simp: GetAllInfo_def andthen_eq_Ok dest: emt_no_bom)

lemma emt_HandleQuery: "emt_system env \<Longrightarrow> opt \<in> {''swbom'', ''all''} \<Longrightarrow> HandleQuery env opt w = (Ok x, w') \<Longrightarrow> False"
  by (auto simp: HandleQuery_def andthen_eq_Ok dest: emt_no_bom emt_GetAllInfo)

text \<open>On Edge Microvisor Toolkit the queries for the bill of materials, for everything and for any unknown
  option never succeed: the bill of materials does not know this system, and it is part of all.\<close>

theorem emt_query_all_fails:
  assumes "emt_system env" "opt \<in> {QUERY_OPTION_SWBOM, QUERY_OPTION_ALL, UnknownQueryOption n}"
    and "Query env (Some opt) w = (Ok ((code, e), data), w')"
  shows "code = 500 \<and> data = None"
proof -
  obtain r v where h: "HandleQuery env (convertQueryOptionToString opt) w = (r, v)" by fastforce
  have "convertQueryOptionToString opt \<in> {''swbom'', ''all''}"
    using assms(2) by (auto simp: convertQueryOptionToString_def)
  then have "r \<noteq> Ok x" for x using h emt_HandleQuery [OF assms(1)] by metis
  with assms(2,3) h show ?thesis
    by (cases r) (auto simp: Query_def action_simps)
qed

definition toy_telemetry :: telemetry_env where
  "toy_telemetry = daemon_env.extend (toy_daemon\<lparr>lsb_release_a := (\<lambda>n. Inr ''Edge Microvisor Toolkit'')\<rparr>)
     (telemetry_env.fields ''amd64'' (Inr ''node'') ''1.0'' ''abc'' ''unknown'' [] [] (\<lambda>n. ''20250101''))"

lemma emt_query_all_fails_witness:
  "\<exists>e w'. Query toy_telemetry (Some QUERY_OPTION_SWBOM) (toy_world []) = (Ok ((500, e), None), w')"
proof -
  have e: "emt_system toy_telemetry"
    by (simp add: emt_system_def toy_telemetry_def toy_daemon_def daemon_env.defs inbd_env.defs)
  obtain t where "GetSoftwareBOM toy_telemetry ((toy_world [])\<lparr>wtick := 1\<rparr>) =
      (Err ''failed to get software BOM list: unsupported OS type: EMT'', t)"
    using emt_GetSoftwareBOM [OF e] by blast
  then have q: "Query toy_telemetry (Some QUERY_OPTION_SWBOM) (toy_world []) =
      (Ok ((500, ''failed to get software BOM list: unsupported OS type: EMT''), None), t)"
    by (simp add: Query_def HandleQuery_def convertQueryOptionToString_def andthen_apply attempt_apply tock_def ret_apply toy_world_def Let_def)
  with emt_query_all_fails [OF e _ q, of 0] show ?thesis by blast
qed

section \<open>Answers\<close>

lemma safe_Ok_or_Err: "safe m \<Longrightarrow> (\<exists>x t. m w = (Ok x, t)) \<or> (\<exists>e t. m w = (Err e, t))"
  using safeD [of m w] by (metis outcome.exhaust prod.collapse)


text \<open>The status codes that an action can return.\<close>

definition codes :: "int set \<Rightarrow> ('s, response) action \<Rightarrow> bool" where
  "codes C m \<longleftrightarrow> (\<forall>w c t v. m w = (Ok (c, t), v) \<longrightarrow> c \<in> C)"

named_theorems codes_rules

lemma codes_basic [codes_rules]: "c \<in> C \<Longrightarrow> codes C (ret (c, t))" "codes C (fail e)"
  by (simp_all add: codes_def ret_apply fail_apply)

lemma codes_andthen [codes_rules]: "(\<And>x. codes C (f x)) \<Longrightarrow> codes C (andthen m f)"
  by (simp only: codes_def andthen_eq_Ok) blast

lemma codes_cases [codes_rules]:
  "(b \<Longrightarrow> codes C m) \<Longrightarrow> (\<not> b \<Longrightarrow> codes C n) \<Longrightarrow> codes C (if b then m else n)"
  "(\<And>x. codes C (g x)) \<Longrightarrow> (\<And>y. codes C (h y)) \<Longrightarrow> codes C (case r of Inl x \<Rightarrow> g x | Inr y \<Rightarrow> h y)"
  by (auto split: sum.split)

text \<open>An action that answers: it neither panics nor fails.\<close>

definition answers :: "int set \<Rightarrow> ('s, response) action \<Rightarrow> bool" where
  "answers C m \<longleftrightarrow> (\<forall>w. \<exists>c t w'. m w = (Ok (c, t), w') \<and> c \<in> C)"

named_theorems answers_rules

lemma answers_or_500: "safe (or_500 m) \<Longrightarrow> codes C m \<Longrightarrow> 500 \<in> C \<Longrightarrow> answers C (or_500 m)"
  unfolding answers_def
proof
  fix w assume m: "safe (or_500 m)" "codes C m" "500 \<in> C"
  obtain r v where r: "m w = (r, v)" by fastforce
  then have "or_500 m w = (case r of Err e \<Rightarrow> Ok (500, e) | _ \<Rightarrow> r, v)"
    by (cases r) (auto simp: or_500_def or_code_def action_simps)
  moreover have "r = Ok (c, t) \<Longrightarrow> c \<in> C" for c t using m(2) r unfolding codes_def by blast
  ultimately show "\<exists>c t w'. or_500 m w = (Ok (c, t), w') \<and> c \<in> C"
    using safeD [OF m(1), of w] m(3) by (cases r) auto
qed

lemma answers_intros [answers_rules]:
  "c \<in> C \<Longrightarrow> answers C (ret (c, t))"
  "(b \<Longrightarrow> answers C m) \<Longrightarrow> (\<not> b \<Longrightarrow> answers C n) \<Longrightarrow> answers C (if b then m else n)"
  by (auto simp: answers_def ret_apply)

lemma answers_or_code [answers_rules]:
  "safe m \<Longrightarrow> (\<And>x w. \<exists>v. m v = (Ok x, w) \<Longrightarrow> answers C (f x)) \<Longrightarrow> code \<in> C \<Longrightarrow> answers C (or_code code m f)"
  unfolding answers_def
proof
  fix w assume a: "safe m" "\<And>x w. \<exists>v. m v = (Ok x, w) \<Longrightarrow> \<forall>w. \<exists>c t w'. f x w = (Ok (c, t), w') \<and> c \<in> C" "code \<in> C"
  consider x v where "m w = (Ok x, v)" | e v where "m w = (Err e, v)" using safe_Ok_or_Err [OF a(1), of w] by blast
  then show "\<exists>c t w'. or_code code m f w = (Ok (c, t), w') \<and> c \<in> C"
  proof cases
    case 1
    then show ?thesis using a(2) [of x v] by (auto simp: or_code_def andthen_apply attempt_apply)
  next
    case 2
    then show ?thesis using a(3) by (simp add: or_code_def andthen_apply attempt_apply ret_apply)
  qed
qed

lemma answers_UpdateOS:
  "GetOSUpdaterFactory env req os = Inr f \<Longrightarrow> answers {200, 500} (UpdateOS env req f)"
  unfolding UpdateOS_def
  by (rule answers_or_500 [OF safe_UpdateOS [unfolded UpdateOS_def]]) (assumption | intro codes_rules insertI1 insertI2)+

text \<open>C12: Every request for a system update is answered: no step panics, and the status is 200, 400 for an
  invalid URL, 415 for an unknown system or 500.\<close>

theorem update_request_answered:
  "\<exists>code txt w'. UpdateSystemSoftware env req w = (Ok (code, txt), w') \<and> code \<in> {200, 400, 415, 500}"
proof -
  have "answers {200, 400, 415, 500} (UpdateSystemSoftware env req)"
    unfolding UpdateSystemSoftware_def
  proof (intro answers_or_code safe_rules)
    fix os x f w assume "\<exists>v. lift_result (GetOSUpdaterFactory env req os) v = (Ok f, w)"
    then have "GetOSUpdaterFactory env req os = Inr f"
      by (auto simp: lift_result_def ret_apply fail_apply split: sum.splits)
    then show "answers {200, 400, 415, 500} (UpdateOS env req f)"
      using answers_UpdateOS [of env req os f] by (fastforce simp: answers_def)
  qed simp_all
  then show ?thesis by (simp add: answers_def)
qed


section \<open>The start\<close>

lemma on_world_Ok: "on_world m s = (Ok x, s') \<longleftrightarrow> (\<exists>w. m (sworld s) = (Ok x, w) \<and> s' = s\<lparr>sworld := w\<rparr>)"
  by (auto simp: on_world_def split: prod.splits)

lemma open_socket_result:
  assumes "open_socket env s = (r, s')"
  shows "sworld s' = sworld s \<and> serving s' = serving s \<and> (\<forall>e. r \<noteq> Crash e) \<and>
    (r = Ok () \<longrightarrow> umask s' = umask s \<and> socket_listen env = None \<and> socket_chmod env 432 = None \<and>
       (\<exists>gid. GetInbcGroupID env = Inr gid \<and> socket_chown env gid = None))"
  using assms
  by (auto simp: open_socket_def andthen_apply wrap_apply error_of_def set_umask_def ret_apply fail_apply lift_result_def
      split: option.splits stat_error.splits sum.splits)

lemma RunServer_after_socket:
  assumes "open_socket env s = (Ok (), s1)" "\<not> serving s1" "RunServer env s = (r, s')" "serving s'"
  shows "umask s' = umask s1 \<and> (\<exists>v. VerifyUpdateAfterReboot env (sworld s1) = (Ok (), v) \<and>
       IsValidJSON (inbd_env.truncate env) schemaFilePath configFilePath (files v) = (Ok (), files (sworld s')))"
proof -
  obtain r1 v where v: "VerifyUpdateAfterReboot env (sworld s1) = (r1, v)" by fastforce
  obtain r2 fs where j: "IsValidJSON (inbd_env.truncate env) schemaFilePath configFilePath (files v) = (r2, fs)" by fastforce
  have r1: "r1 = Ok ()" using assms v
    by (cases r1) (auto simp: RunServer_def andthen_apply wrap_apply on_world_def)
  have r2: "r2 = Ok ()" using assms v r1 j
    by (cases r2) (auto simp: RunServer_def andthen_apply wrap_apply on_world_def on_files_def)
  from assms v j r1 r2 show ?thesis
    by (auto simp: RunServer_def andthen_apply wrap_apply on_world_def on_files_def modify_def error_of_def ret_apply fail_apply
        split: option.splits)
qed

text \<open>C13: The server answers requests only after the socket belongs to the group with mode 0660 and the umask is
  back, the update before the reboot was verified, and the configuration is valid.\<close>

theorem serving_is_guarded:
  assumes "RunServer env s = (r, s')" "\<not> serving s" "serving s'"
  shows "umask s' = umask s \<and> socket_chmod env 432 = None \<and>
    (\<exists>gid. GetInbcGroupID env = Inr gid \<and> socket_chown env gid = None) \<and>
    (\<exists>v. VerifyUpdateAfterReboot env (sworld s) = (Ok (), v) \<and>
       IsValidJSON (inbd_env.truncate env) schemaFilePath configFilePath (files v) = (Ok (), files (sworld s')))"
proof -
  obtain r1 s1 where o: "open_socket env s = (r1, s1)" by fastforce
  note p = open_socket_result [OF o]
  have "r1 = Ok ()" using assms o p by (cases r1) (auto simp: RunServer_def andthen_apply)
  with o p assms RunServer_after_socket [of env s s1 r s'] show ?thesis by auto
qed

text \<open>When the group of the socket is unknown, the server stops and leaves the process with the umask 0177,
  under which the socket was made.\<close>

theorem failed_start_keeps_umask:
  assumes "socket_stat env = Some NotExist" "socket_listen env = None" "GetInbcGroupID env = Inl e"
  shows "RunServer env s = (Err (''failed to get inbc group GID: '' @ e), s\<lparr>umask := 127\<rparr>)"
  using assms by (simp add: RunServer_def open_socket_def andthen_apply wrap_apply set_umask_def ret_apply fail_apply lift_result_def)

definition toy_server :: "string + string \<Rightarrow> server_env" where
  "toy_server g = firmware_env.extend (telemetry_env.extend (daemon_env.extend toy_daemon
       (telemetry_env.fields ''amd64'' (Inr ''node'') ''1.0'' ''abc'' ''unknown'' [] [] (\<lambda>n. ''20250101'')))
     (firmware_env.fields (\<lambda>d. Inl ''bad'') (\<lambda>d. Inl ''bad'')))
     (server_env.fields ''/var/run/inbd.sock'' (Some NotExist) None None g (\<lambda>gid. None) (\<lambda>m. None) None)"

lemma failed_start_keeps_umask_witness:
  "RunServer (toy_server (Inl ''unknown'')) \<lparr>sworld = toy_world [], umask = 18, serving = False\<rparr> =
     (Err ''failed to get inbc group GID: could not find group inbc: unknown'', \<lparr>sworld = toy_world [], umask = 127, serving = False\<rparr>)"
  using failed_start_keeps_umask [of "toy_server (Inl ''unknown'')" "''could not find group inbc: unknown''"
    "\<lparr>sworld = toy_world [], umask = 18, serving = False\<rparr>"]
  by (simp add: toy_server_def server_env.defs firmware_env.defs GetInbcGroupID_def)

definition quiet_state :: server_state where
  "quiet_state = \<lparr>sworld = \<lparr>files = conf_fs ''{s}'', ran = [], wtick = 0\<rparr>, umask = 18, serving = False\<rparr>"

lemma serving_is_guarded_witness:
  "\<exists>s'. RunServer (toy_server (Inr ''999'')) quiet_state = (Ok (), s') \<and> serving s' \<and> umask s' = 18"
proof -
  let ?e = "toy_server (Inr ''999'')" and ?w = "\<lparr>files = conf_fs ''{s}'', ran = [], wtick = 0\<rparr>"
  have f: "workdir ?e = []" "inbd_env.truncate ?e = json_env" "socket_stat ?e = Some NotExist" "socket_listen ?e = None"
    "GetInbcGroupID ?e = Inr 999" "socket_chown ?e gid = None" "socket_chmod ?e m = None" "serve_result ?e = None" for gid m
    by (simp_all add: toy_server_def toy_daemon_def server_env.defs firmware_env.defs telemetry_env.defs daemon_env.defs inbd_env.defs json_env_def
        GetInbcGroupID_def ParseInt64_def read_nat_def digit_of_def)
  have "resolve True False 40 (conf_fs ''{s}'') [] (components [] StateFilePath) = Inl ENOENT" by code_simp
  then have v: "VerifyUpdateAfterReboot ?e ?w = (Ok (), ?w)"
    by (simp add: VerifyUpdateAfterReboot_def andthen_apply asks_apply ret_apply f)
  have "fst (IsValidJSON json_env schemaFilePath configFilePath (conf_fs ''{s}'')) = Ok ()" by code_simp
  then obtain fs where j: "IsValidJSON json_env schemaFilePath configFilePath (conf_fs ''{s}'') = (Ok (), fs)" by (metis prod.collapse)
  have "RunServer ?e quiet_state = (Ok (), \<lparr>sworld = \<lparr>files = fs, ran = [], wtick = 0\<rparr>, umask = 18, serving = True\<rparr>)"
    by (simp add: RunServer_def open_socket_def andthen_apply wrap_apply set_umask_def ret_apply lift_result_def f error_of_def v j
        on_world_def on_files_def modify_def quiet_state_def)
  with serving_is_guarded [OF this] show ?thesis by (auto simp: quiet_state_def)
qed


section \<open>Firmware\<close>

lemma or_code_200: "or_code code m f w = (Ok (200, t), w') \<Longrightarrow> code \<noteq> 200 \<Longrightarrow> \<exists>x v. m w = (Ok x, v) \<and> f x v = (Ok (200, t), w')"
  by (auto simp: or_code_def andthen_apply attempt_apply ret_apply split: prod.splits outcome.splits)

lemma FWUpdater_200:
  assumes "FWUpdater_UpdateFirmware env req w = (Ok (200, txt), w')"
  shows "\<exists>alg fw tool v1 v2 v3 v4 v5. final_algorithm (fw_HashAlgorithm req) = Some alg \<and>
    GetFirmwareInfo env v1 = (Ok fw, v2) \<and> bios_time fw < requested_time req \<and> fw_download env (fw_Url req) v2 = (Ok (), v3) \<and>
    check_fw_signature env req alg v3 = (Ok (), v4) \<and> install_firmware env req tool v4 = (Ok (200, txt), w')"
proof -
  obtain alg where alg: "final_algorithm (fw_HashAlgorithm req) = Some alg"
    using assms by (auto simp: FWUpdater_UpdateFirmware_def ret_apply split: option.splits)
  let ?rest = "\<lambda>tool fwInfo. if bios_time fwInfo \<ge> requested_time req then ret (400, ''Firmware update is not required.'') else
       or_code 500 (fw_download env (fw_Url req)) (\<lambda>_. or_code 400 (check_fw_signature env req alg) (\<lambda>_. install_firmware env req tool))"
  obtain tool v1 fw v2 where fw: "GetFirmwareInfo env v1 = (Ok fw, v2)" "?rest tool fw v2 = (Ok (200, txt), w')"
    using assms alg by (auto simp: FWUpdater_UpdateFirmware_def dest!: or_code_200)
  then have "bios_time fw < requested_time req" by (auto simp: ret_apply split: if_splits)
  moreover from this fw(2) obtain v3 v4 where "fw_download env (fw_Url req) v2 = (Ok (), v3)" "check_fw_signature env req alg v3 = (Ok (), v4)"
      "install_firmware env req tool v4 = (Ok (200, txt), w')"
    by (auto dest!: or_code_200)
  ultimately show ?thesis using alg fw(1) by blast
qed

lemma check_fw_signature_Ok:
  "check_fw_signature env req alg w = (Ok (), w') \<Longrightarrow> fw_Signature req \<noteq> [] \<Longrightarrow>
   \<exists>x. on_files (VerifySignature env (fw_Signature req) (fw_path req) (ParseHashAlgorithm alg)) w = (Ok x, w')"
  by (auto simp: check_fw_signature_def andthen_apply attempt_apply ret_apply fail_apply split: prod.splits outcome.splits)

lemma final_algorithm_idem: "final_algorithm a = Some alg \<Longrightarrow> final_algorithm alg = Some alg"
proof -
  assume "final_algorithm a = Some alg"
  then have "alg = ''sha256'' \<or> alg = ''sha384'' \<or> alg = ''sha512''" unfolding final_algorithm_def by (metis insertE option.distinct(1) option.inject singletonD)
  moreover have "final_algorithm ''sha256'' = Some ''sha256''" "final_algorithm ''sha384'' = Some ''sha384''" "final_algorithm ''sha512'' = Some ''sha512''"
    by code_simp+
  ultimately show ?thesis by metis
qed

text \<open>C14: Firmware is reported as installed only for a valid https URL and a known algorithm, when the firmware of
  the node is older than the one offered, after the package was downloaded and, if a signature was
  given, verified. Without a signature nothing is verified.\<close>

theorem firmware_update_conditions:
  assumes "UpdateFirmware env req w = (Ok (200, txt), w')"
  shows "validateURL (fw_Url req) = Inr () \<and> (\<exists>alg fw v1 v2 v3 v4. final_algorithm (fw_HashAlgorithm req) = Some alg \<and>
    GetFirmwareInfo env v1 = (Ok fw, v2) \<and> bios_time fw < requested_time req \<and> fw_download env (fw_Url req) v2 = (Ok (), v3) \<and>
    (fw_Signature req \<noteq> [] \<longrightarrow> (\<exists>x. on_files (VerifySignature env (fw_Signature req) (fw_path req) (ParseHashAlgorithm alg)) v3 = (Ok x, v4))))"
proof -
  have u: "validateURL (fw_Url req) = Inr ()" "fw_Url req \<noteq> []"
    using assms by (auto simp: UpdateFirmware_def lift_result_def ret_apply fail_apply split: if_splits sum.splits dest!: or_code_200)
  obtain alg where alg: "final_algorithm (fw_HashAlgorithm req) = Some alg"
    "FWUpdater_UpdateFirmware env (req\<lparr>fw_HashAlgorithm := alg\<rparr>) w = (Ok (200, txt), w')"
    using assms u by (auto simp: UpdateFirmware_def lift_result_def ret_apply or_code_def andthen_apply attempt_apply split: option.splits)
  have idem: "final_algorithm alg = Some alg" by (rule final_algorithm_idem [OF alg(1)])
  obtain alg' fw tool v1 v2 v3 v4 where f: "final_algorithm alg = Some alg'" "GetFirmwareInfo env v1 = (Ok fw, v2)" "bios_time fw < requested_time req"
      "fw_download env (fw_Url req) v2 = (Ok (), v3)" "check_fw_signature env (req\<lparr>fw_HashAlgorithm := alg\<rparr>) alg' v3 = (Ok (), v4)"
    using FWUpdater_200 [OF alg(2)] by (auto simp: requested_time_def)
  have "alg' = alg" using f(1) idem by simp
  have "fw_Signature req \<noteq> [] \<longrightarrow> (\<exists>x. on_files (VerifySignature env (fw_Signature req) (fw_path req) (ParseHashAlgorithm alg)) v3 = (Ok x, v4))"
    using check_fw_signature_Ok [OF f(5)] \<open>alg' = alg\<close> by (auto simp: fw_path_def)
  with f(2-4) u(1) alg(1) show ?thesis by blast
qed


definition fw_node :: firmware_env where
  "fw_node = \<lparr>workdir = [], tar_entries = (\<lambda>s. []), pem_Decode = Some, x509_Parse = (\<lambda>d. Inr OtherKey), hash_sum = (\<lambda>a s. s),
     VerifyPSS = (\<lambda>key a h sg. None), deadline = (\<lambda>k. False),
     json_Unmarshal = (\<lambda>s. Inr None), json_Marshal = (\<lambda>m. []),
     schema_error = (\<lambda>sch doc. None), temp_random = ''1'',
   run_command = (\<lambda>n c fs. (\<lparr>stdout = [], stderr = [], combined = [], failure = None\<rparr>, fs)),
   http_Do = (\<lambda>n c q. Inr \<lparr>StatusCode = 200, Header = \<lambda>h. ''3'', Body = ''img'', Body_error = None\<rparr>),
   INBM_CUSTOM_CA_FILE = [], AppendCertsFromPEM = (\<lambda>ca. False),
     clock = (\<lambda>n. 0), statfs = (\<lambda>n p. Inr (25601, 4096, 0)), list_dir = (\<lambda>fs q. []), setenv_error = (\<lambda>n v. None),
     lsb_release_a = (\<lambda>n. Inr ''Ubuntu''), goos = ''linux'', jwt_exp = (\<lambda>t. Inr None),
     state_Marshal = (\<lambda>st. ''s''), state_Unmarshal = (\<lambda>d. Inl ''bad''),
     config_Unmarshal = (\<lambda>d. Inr \<lparr>TrustedRepositories = [''https''], ProceedWithoutRollback = True\<rparr>),
     status_Marshal = (\<lambda>st. us_Status st), granular_Marshal = (\<lambda>m. []), request_Marshal = (\<lambda>q. Inr ''{}''),
     goarch = ''amd64'', Hostname_os = Inr ''node'', build_Version = [], build_GitCommit = [], build_BuildDate = [], INBM_VERSION = [],
     GIT_COMMIT = [], local_date = (\<lambda>n. []),
     json_Value = (\<lambda>d. Inr JNull), products_Unmarshal = (\<lambda>d. Inr [\<lparr>Name = [], ToolOptions = False, GUID = False, FirmwareTool = ''afulnx'',
       FirmwareToolArgs = [], FirmwareToolCheckArgs = []\<rparr>])\<rparr>"

definition fw_world :: inbd_world where
  "fw_world = \<lparr>files = map_of [([''etc''], Directory), ([''etc'', ''intel_edge_node''], Directory), ([''etc'', ''intel_edge_node'', ''tokens''], Directory),
     ([''etc'', ''intel_edge_node'', ''tokens'', ''release-service''], Directory),
     ([''etc'', ''intel_edge_node'', ''tokens'', ''release-service'', ''access_token''], Regular []),
     ([''etc'', ''intel_manageability.conf''], Regular ''{s}''), ([''etc'', ''firmware_tool_info.conf''], Regular ''{}''),
     ([''usr''], Directory), ([''usr'', ''share''], Directory), ([''usr'', ''share'', ''firmware_tool_config_schema.json''], Regular ''{}''),
     ([''var''], Directory), ([''var'', ''cache''], Directory), ([''var'', ''cache'', ''manageability''], Directory)], ran = [], wtick = 0\<rparr>"

definition fw_request :: UpdateFirmwareRequest where
  "fw_request = \<lparr>fw_Url = ''https://h/a.cap'', fw_ReleaseDate = Some 1, fw_DoNotReboot = True, fw_Signature = [], fw_HashAlgorithm = []\<rparr>"

definition fw_tool :: FirmwareToolInfo where
  "fw_tool = \<lparr>Name = [], ToolOptions = False, GUID = False, FirmwareTool = ''afulnx'', FirmwareToolArgs = [], FirmwareToolCheckArgs = []\<rparr>"

lemma secureReadFile_small:
  assumes "resolve True False 40 fs [] (components (workdir env) p) = Inr q" "fs q = Some (Regular ''{}'')"
    and "ReadFile (workdir env) p fs = (Ok ''{}'', fs)" "\<not> Contains p ''..''" "length p < 4097" "json_Value env ''{}'' = Inr JNull"
  shows "secureReadFile env p fs = (Ok ''{}'', fs)"
  using assms by (simp add: secureReadFile_def andthen_apply wrap_apply lift_result_def ret_apply validateFilePathSecurity_def validateFileSize_def
      validateJSONContent_def validateJSONStructure_def maxFileSize_def)

lemma fw_tool_info:
  assumes "files w = files fw_world"
  shows "on_files (GetFirmwareUpdateToolInfo fw_node []) w = (Ok fw_tool, w)"
proof -
  let ?fs = "files fw_world"
  have wd: "workdir fw_node = []" "json_Value fw_node d = Inr JNull" "schema_error fw_node sd d = None" for sd d by (simp_all add: fw_node_def)
  have pr: "products_Unmarshal fw_node d = Inr [fw_tool]" "Name fw_tool = []" for d by (simp_all add: fw_node_def fw_tool_def)
  have r: "resolve True False 40 ?fs [] (components [] firmwareToolInfoFilePath) = Inr [''etc'', ''firmware_tool_info.conf'']"
    "resolve True False 40 ?fs [] (components [] firmwareToolInfoSchemaFilePath) = Inr [''usr'', ''share'', ''firmware_tool_config_schema.json'']"
    "fst (ReadFile [] firmwareToolInfoFilePath ?fs) = Ok ''{}''" "fst (ReadFile [] firmwareToolInfoSchemaFilePath ?fs) = Ok ''{}''"
    "\<not> Contains firmwareToolInfoFilePath ''..''" "\<not> Contains firmwareToolInfoSchemaFilePath ''..''"
    by code_simp+
  have rd: "ReadFile [] p ?fs = (Ok ''{}'', ?fs)" if "fst (ReadFile [] p ?fs) = Ok ''{}''" for p
    using that ReadFile_state [of "[]" p ?fs] by (metis prod.collapse)
  have "secureReadFile fw_node firmwareToolInfoFilePath ?fs = (Ok ''{}'', ?fs)"
    by (rule secureReadFile_small [where q = "[''etc'', ''firmware_tool_info.conf'']"])
       (use r rd [OF r(3)] in \<open>simp_all add: wd fw_world_def firmwareToolInfoFilePath_def\<close>)
  moreover have "secureReadFile fw_node firmwareToolInfoSchemaFilePath ?fs = (Ok ''{}'', ?fs)"
    by (rule secureReadFile_small [where q = "[''usr'', ''share'', ''firmware_tool_config_schema.json'']"])
       (use r rd [OF r(4)] in \<open>simp_all add: wd fw_world_def firmwareToolInfoSchemaFilePath_def\<close>)
  ultimately show ?thesis
    using assms by (simp add: on_files_def GetFirmwareUpdateToolInfo_def GetPlatformConfig_def ReadAndValidateConfig_def andthen_apply wrap_apply
        ret_apply wd(3) lift_result_def extractPlatformConfig_def pr)
qed

lemma fw_disk:
  assumes "fst (ReadJWTToken fw_node JWTTokenPath (w\<lparr>wtick := Suc (wtick w)\<rparr>)) = Ok []"
    and "fst (GetFileSizeInBytes fw_node u (snd (ReadJWTToken fw_node JWTTokenPath (w\<lparr>wtick := Suc (wtick w)\<rparr>)))) = Ok 3"
  shows "\<exists>v. IsDiskSpaceAvailable fw_node u w = (Ok True, v) \<and>
    v = snd (GetFileSizeInBytes fw_node u (snd (ReadJWTToken fw_node JWTTokenPath (w\<lparr>wtick := Suc (wtick w)\<rparr>))))"
proof -
  have t: "statfs fw_node n p = Inr (25601, 4096, 0)" for n p by (simp add: fw_node_def)
  obtain v where r: "ReadJWTToken fw_node JWTTokenPath (w\<lparr>wtick := Suc (wtick w)\<rparr>) = (Ok [], v)" using assms(1) by (metis prod.collapse)
  obtain v' where g: "GetFileSizeInBytes fw_node u v = (Ok 3, v')" using assms(2) r by (metis prod.collapse snd_conv)
  show ?thesis using r g
    by (simp add: IsDiskSpaceAvailable_def GetFreeDiskSpaceInBytes_def tock_def andthen_apply wrap_apply ret_apply t buffer_3)
qed

lemma still_hardware: "keeps (\<lambda>w. files w = fs) (GetHardwareInfo fw_node)"
proof -
  have r: "keeps (\<lambda>w. files w = fs) (read_checked fw_node p)" for p
  proof (rule keepsI)
    fix s :: inbd_world assume "files s = fs"
    then show "files (snd (read_checked fw_node p s)) = fs"
      using ReadFile_state [of "workdir fw_node" p "files s"] by (auto simp: read_checked_def on_files_def split: prod.splits)
  qed
  have "keeps (\<lambda>w. files w = fs) (spawn fw_node c)" for c
    by (auto simp: keeps_def spawn_def fw_node_def split: prod.splits)
  then have "keeps (\<lambda>w. files w = fs) (output_of fw_node c)" for c
    unfolding output_of_def by (intro keeps_rules) (auto intro: keeps_rules split: option.splits)
  with r show ?thesis
    unfolding GetHardwareInfo_def or_else_def readDMIInfo_def getCPUInfo_def getMemoryInfo_def getDiskInfo_def lift_result_def
    by (intro keeps_rules) (auto intro: keeps_rules split: sum.splits)
qed

lemma firmware_update_conditions_witness:
  "\<exists>w'. UpdateFirmware fw_node fw_request fw_world = (Ok (200, ''Success''), w') \<and>
     (\<exists>fw v1 v2. GetFirmwareInfo fw_node v1 = (Ok fw, v2) \<and> bios_time fw < 1)"
proof -
  have "fst (GetHardwareInfo fw_node fw_world) = Ok \<lparr>SystemManufacturer = [], SystemProductName = [], CpuId = [], TotalPhysicalMemory = [], DiskInformation = []\<rparr>"
    by code_simp
  then obtain w1 where w1: "GetHardwareInfo fw_node fw_world = (Ok \<lparr>SystemManufacturer = [], SystemProductName = [], CpuId = [],
      TotalPhysicalMemory = [], DiskInformation = []\<rparr>, w1)" "w1 = snd (GetHardwareInfo fw_node fw_world)" by (metis prod.collapse)
  have "files w1 = files fw_world" using keepsD [OF still_hardware _ w1(1)] by blast
  note t = fw_tool_info [OF this]
  have "fst (GetFirmwareInfo fw_node w1) = Ok \<lparr>BiosVendor = [], BiosVersion = [], BiosReleaseDate = None\<rparr>"
    unfolding w1(2) by code_simp
  then obtain w2 where w2: "GetFirmwareInfo fw_node w1 = (Ok \<lparr>BiosVendor = [], BiosVersion = [], BiosReleaseDate = None\<rparr>, w2)"
    "w2 = snd (GetFirmwareInfo fw_node (snd (GetHardwareInfo fw_node fw_world)))" unfolding w1(2) by (metis prod.collapse)
  have "fst (CreateSecureHTTPClient fw_node ''https://h/a.cap'' [] w2) = Ok \<lparr>ServerName = ''h'', InsecureSkipVerify = True, RootCAs = None\<rparr>"
    unfolding w2(2) by code_simp
  then obtain w3 where w3: "CreateSecureHTTPClient fw_node ''https://h/a.cap'' [] w2 = (Ok \<lparr>ServerName = ''h'', InsecureSkipVerify = True, RootCAs = None\<rparr>, w3)"
    "w3 = snd (CreateSecureHTTPClient fw_node ''https://h/a.cap'' [] (snd (GetFirmwareInfo fw_node (snd (GetHardwareInfo fw_node fw_world)))))"
    unfolding w2(2) by (metis prod.collapse)
  let ?c = "\<lparr>TrustedRepositories = [''https''], ProceedWithoutRollback = True\<rparr>"
  have "fst (LoadConfig fw_node ConfigFilePath w3) = Ok ?c" unfolding w3(2) by code_simp
  then obtain w4 where w4: "LoadConfig fw_node ConfigFilePath w3 = (Ok ?c, w4)" "w4 = (snd (LoadConfig fw_node ConfigFilePath (snd (CreateSecureHTTPClient fw_node ''https://h/a.cap'' [] (snd (GetFirmwareInfo fw_node (snd (GetHardwareInfo fw_node fw_world))))))))"
    unfolding w3(2) by (metis prod.collapse)
  have "fst (ReadJWTToken fw_node JWTTokenPath (w4\<lparr>wtick := Suc (wtick w4)\<rparr>)) = Ok []"
    "fst (GetFileSizeInBytes fw_node ''https://h/a.cap'' (snd (ReadJWTToken fw_node JWTTokenPath (w4\<lparr>wtick := Suc (wtick w4)\<rparr>)))) = Ok 3"
    unfolding w4(2) by code_simp+
  from fw_disk [OF this] obtain w5 where w5: "IsDiskSpaceAvailable fw_node ''https://h/a.cap'' w4 = (Ok True, w5)"
    "w5 = (snd (GetFileSizeInBytes fw_node ''https://h/a.cap'' (snd (ReadJWTToken fw_node JWTTokenPath ((snd (LoadConfig fw_node ConfigFilePath (snd (CreateSecureHTTPClient fw_node ''https://h/a.cap'' [] (snd (GetFirmwareInfo fw_node (snd (GetHardwareInfo fw_node fw_world))))))))\<lparr>wtick := Suc (wtick (snd (LoadConfig fw_node ConfigFilePath (snd (CreateSecureHTTPClient fw_node ''https://h/a.cap'' [] (snd (GetFirmwareInfo fw_node (snd (GetHardwareInfo fw_node fw_world)))))))))\<rparr>)))))" unfolding w4(2) by blast
  have "fst (DownloadFile fw_node ''https://h/a.cap'' CachePathPrefix (Some \<lparr>ServerName = ''h'', InsecureSkipVerify = True, RootCAs = None\<rparr>) w5) = Ok ()"
    unfolding w5(2) by code_simp
  then obtain w6 where w6: "DownloadFile fw_node ''https://h/a.cap'' CachePathPrefix (Some \<lparr>ServerName = ''h'', InsecureSkipVerify = True, RootCAs = None\<rparr>) w5 = (Ok (), w6)"
    "w6 = (snd (DownloadFile fw_node ''https://h/a.cap'' CachePathPrefix (Some \<lparr>ServerName = ''h'', InsecureSkipVerify = True, RootCAs = None\<rparr>) (snd (GetFileSizeInBytes fw_node ''https://h/a.cap'' (snd (ReadJWTToken fw_node JWTTokenPath ((snd (LoadConfig fw_node ConfigFilePath (snd (CreateSecureHTTPClient fw_node ''https://h/a.cap'' [] (snd (GetFirmwareInfo fw_node (snd (GetHardwareInfo fw_node fw_world))))))))\<lparr>wtick := Suc (wtick (snd (LoadConfig fw_node ConfigFilePath (snd (CreateSecureHTTPClient fw_node ''https://h/a.cap'' [] (snd (GetFirmwareInfo fw_node (snd (GetHardwareInfo fw_node fw_world)))))))))\<rparr>)))))))" unfolding w5(2) by (metis prod.collapse)
  have "fst (install_firmware fw_node (fw_request\<lparr>fw_HashAlgorithm := ''sha384''\<rparr>) fw_tool w6) = Ok (200, ''Success'')"
    unfolding w6(2) by code_simp
  then obtain w7 where w7: "install_firmware fw_node (fw_request\<lparr>fw_HashAlgorithm := ''sha384''\<rparr>) fw_tool w6 = (Ok (200, ''Success''), w7)"
    by (metis prod.collapse)
  have k: "IsTrustedRepository ''https://h/a.cap'' ?c" "validateURL ''https://h/a.cap'' = Inr ()" by code_simp+
  have "fw_download fw_node ''https://h/a.cap'' w2 = (Ok (), w6)"
    by (simp add: fw_download_def andthen_apply attempt_apply wrap_apply w3(1) w4(1) w5(1) w6(1) k)
  moreover have "final_algorithm [] = Some ''sha384''" "final_algorithm ''sha384'' = Some ''sha384''" by code_simp+
  ultimately have "UpdateFirmware fw_node fw_request fw_world = (Ok (200, ''Success''), w7)"
    using w1(1) t w2(1) w7 k
    by (simp add: UpdateFirmware_def FWUpdater_UpdateFirmware_def or_code_def andthen_apply attempt_apply ret_apply lift_result_def
        check_fw_signature_def bios_time_def requested_time_def fw_request_def)
  with firmware_update_conditions [OF this] show ?thesis by (auto simp: requested_time_def fw_request_def)
qed

end
