(* ===== verification/Agent_Common.thy ===== *)
theory Agent_Common
  imports Inbd_Files
begin

text \<open>
  The packages that the agents share (\<^verbatim>\<open>common/pkg/utils\<close>, \<^verbatim>\<open>common/pkg/status\<close>) and the host
  they run on.

  The host is a state: the disk (the tree of files and the number of hard links of each), the
  clock in nanoseconds, the number of interactions so far, the processes that were started with
  their environment, and the requests to the status service. What a process or a service answers
  is a function of the number of the interaction (\<open>host_env\<close>), so that two equal calls may be
  answered differently. Every interaction takes some time, at least what a sleep asks for. Two
  hard links of a file are two entries of the tree; what a write through one of them does to the
  other is not modelled.
\<close>

section \<open>The host\<close>

record disk =
  tree :: filesystem
  nlink :: "path \<Rightarrow> nat"

record process_result =
  Stdout :: string
  Stderr :: string
  Combined :: string
  exit_error :: "string option"

datatype Status_pb = STATUS_UNSPECIFIED | STATUS_READY | STATUS_NOT_READY

datatype status_request = ReportStatusRequest string Status_pb | GetStatusIntervalRequest string

record host =
  disk :: disk
  clock_ns :: int
  interactions :: nat
  processes :: "(string list \<times> string list) list"
  status_sent :: "status_request list"

record host_env =
  host_cwd :: path
  os_Environ :: "string list"
  process :: "nat \<Rightarrow> string list \<Rightarrow> string list \<Rightarrow> disk \<Rightarrow> process_result \<times> disk"
  delay :: "nat \<Rightarrow> nat"
  status_call :: "nat \<Rightarrow> status_request \<Rightarrow> string + int"
  dial_error :: "nat \<Rightarrow> string \<Rightarrow> string option"
  attempts_left :: "nat \<Rightarrow> nat"
  SystemCertPool :: "nat \<Rightarrow> string + string list"

definition time_Second :: int where "time_Second = 1000000000"

definition time_Unix :: "int \<Rightarrow> int" where "time_Unix t = t div time_Second"

definition tick :: "'e host_env_scheme \<Rightarrow> int \<Rightarrow> (nat \<Rightarrow> 'a) \<Rightarrow> ('h host_scheme, 'a) action" where
  "tick env d f = (\<lambda>w. (Ok (f (interactions w)), w\<lparr>interactions := Suc (interactions w),
     clock_ns := clock_ns w + max 0 d + int (delay env (interactions w))\<rparr>))"

definition time_Now :: "'e host_env_scheme \<Rightarrow> ('h host_scheme, int) action" where
  "time_Now env = andthen (tick env 0 (\<lambda>_. ())) (\<lambda>_. asks clock_ns)"

definition time_Sleep :: "'e host_env_scheme \<Rightarrow> int \<Rightarrow> ('h host_scheme, unit) action" where
  "time_Sleep env d = tick env d (\<lambda>_. ())"

definition on_disk :: "(disk, 'a) action \<Rightarrow> ('h host_scheme, 'a) action" where
  "on_disk m = (\<lambda>w. case m (disk w) of (r, d) \<Rightarrow> (r, w\<lparr>disk := d\<rparr>))"

text \<open>\<open>exec.Cmd\<close>: the arguments and the environment, and what the process leaves.\<close>

definition run_process :: "'e host_env_scheme \<Rightarrow> string list \<Rightarrow> string list \<Rightarrow> ('h host_scheme, process_result) action" where
  "run_process env argv environ = andthen (tick env 0 (\<lambda>n. n)) (\<lambda>n w.
     case process env n argv environ (disk w) of (res, d) \<Rightarrow>
       (Ok res, w\<lparr>disk := d, processes := processes w @ [(argv, environ)]\<rparr>))"

text \<open>\<^verbatim>\<open>backoff.Retry\<close> gives the operation a finite number of attempts.\<close>

definition backoff_Retry :: "'e host_env_scheme \<Rightarrow> ('h host_scheme, 'a) action \<Rightarrow> ('h host_scheme, 'a) action" where
  "backoff_Retry env m = andthen (asks interactions) (\<lambda>n. retry (attempts_left env n) m)"

section \<open>Files that are no links\<close>

definition open_at :: "bool \<Rightarrow> path \<Rightarrow> string \<Rightarrow> disk \<Rightarrow> walk_error + path" where
  "open_at create dir p d = resolve False create 40 (tree d) [] (components dir p)"

definition node_at :: "disk \<Rightarrow> path \<Rightarrow> node option" where
  "node_at d q = (if q = [] then Some Directory else tree d q)"

definition new_file :: "path \<Rightarrow> disk \<Rightarrow> disk" where
  "new_file q d = d\<lparr>tree := (tree d)(q := Some (Regular [])), nlink := (nlink d)(q := 1)\<rparr>"

definition open_read :: "path \<Rightarrow> string \<Rightarrow> (disk, path) action" where
  "open_read dir p = (\<lambda>d. case open_at False dir p d of
     Inl _ \<Rightarrow> (Err (''open '' @ p), d)
   | Inr q \<Rightarrow> (case node_at d q of
       Some (Link _) \<Rightarrow> (Err (''open '' @ p @ '': too many levels of symbolic links''), d)
     | _ \<Rightarrow> (Ok q, d)))"

definition open_trunc :: "path \<Rightarrow> string \<Rightarrow> (disk, path) action" where
  "open_trunc dir p = (\<lambda>d. case open_at True dir p d of
     Inl _ \<Rightarrow> (Err (''open '' @ p), d)
   | Inr q \<Rightarrow> (case node_at d q of
       Some (Link _) \<Rightarrow> (Err (''open '' @ p @ '': too many levels of symbolic links''), d)
     | Some Directory \<Rightarrow> (Err (''open '' @ p @ '': is a directory''), d)
     | Some Special \<Rightarrow> (Ok q, d)
     | Some (Regular _) \<Rightarrow> (Ok q, d\<lparr>tree := (tree d)(q := Some (Regular []))\<rparr>)
     | None \<Rightarrow> (Ok q, new_file q d)))"

definition open_excl :: "path \<Rightarrow> string \<Rightarrow> (disk, path) action" where
  "open_excl dir p = (\<lambda>d. case open_at True dir p d of
     Inl _ \<Rightarrow> (Err (''open '' @ p), d)
   | Inr q \<Rightarrow> (case node_at d q of
       None \<Rightarrow> (Ok q, new_file q d)
     | Some _ \<Rightarrow> (Err (''open '' @ p @ '': file exists''), d)))"

definition isHardLink :: "path \<Rightarrow> string \<Rightarrow> (disk, bool) action" where
  "isHardLink dir p = (\<lambda>d. case resolve True False 40 (tree d) [] (components dir p) of
     Inl _ \<Rightarrow> (Err (''stat '' @ p), d)
   | Inr q \<Rightarrow> (Ok (nlink d q > 1), d))"

definition openFileNoLinks :: "path \<Rightarrow> string \<Rightarrow> (disk, path) action \<Rightarrow> (disk, path) action" where
  "openFileNoLinks dir p open_op = andthen open_op (\<lambda>q.
     andthen (isHardLink dir p) (\<lambda>hardLink. if hardLink then fail (p @ '' is a hardlink'') else ret q))"

definition OpenNoLinks :: "path \<Rightarrow> string \<Rightarrow> (disk, path) action" where
  "OpenNoLinks dir p = openFileNoLinks dir p (open_read dir p)"

definition CreateNoLinks :: "path \<Rightarrow> string \<Rightarrow> (disk, path) action" where
  "CreateNoLinks dir p = openFileNoLinks dir p (open_trunc dir p)"

definition CreateExcl :: "path \<Rightarrow> string \<Rightarrow> (disk, path) action" where
  "CreateExcl dir p = openFileNoLinks dir p (open_excl dir p)"

definition ReadFileNoLinks :: "path \<Rightarrow> string \<Rightarrow> (disk, string) action" where
  "ReadFileNoLinks dir p = andthen (OpenNoLinks dir p) (\<lambda>q.
     andthen (asks (\<lambda>d. node_at d q)) (\<lambda>nd. case nd of
       Some (Regular c) \<Rightarrow> ret c | _ \<Rightarrow> fail (''read '' @ p)))"

definition ReadFileTrimmed :: "path \<Rightarrow> string \<Rightarrow> (disk, string) action" where
  "ReadFileTrimmed dir p = andthen (ReadFileNoLinks dir p) (\<lambda>c. ret (TrimSpace c))"

text \<open>\<^verbatim>\<open>os.IsNotExist\<close> of the error of \<^verbatim>\<open>os.Stat\<close>.\<close>

definition not_exist :: "path \<Rightarrow> string \<Rightarrow> disk \<Rightarrow> bool" where
  "not_exist dir p d = (case resolve True False 40 (tree d) [] (components dir p) of
     Inl e \<Rightarrow> e = ENOENT | Inr q \<Rightarrow> node_at d q = None)"

text \<open>\<^verbatim>\<open>os.ReadFile\<close>, \<^verbatim>\<open>os.WriteFile\<close> and \<^verbatim>\<open>os.Create\<close> follow links.\<close>

definition disk_ReadFile :: "path \<Rightarrow> string \<Rightarrow> (disk, string) action" where
  "disk_ReadFile dir p = (\<lambda>d. case resolve True False 40 (tree d) [] (components dir p) of
     Inl _ \<Rightarrow> (Err (''open '' @ p), d)
   | Inr q \<Rightarrow> (case node_at d q of Some (Regular c) \<Rightarrow> (Ok c, d) | _ \<Rightarrow> (Err (''read '' @ p), d)))"

definition disk_WriteFile :: "path \<Rightarrow> string \<Rightarrow> string \<Rightarrow> (disk, unit) action" where
  "disk_WriteFile dir p data = (\<lambda>d. case resolve True True 40 (tree d) [] (components dir p) of
     Inl _ \<Rightarrow> (Err (''open '' @ p), d)
   | Inr q \<Rightarrow> (case node_at d q of
       Some Directory \<Rightarrow> (Err (''open '' @ p @ '': is a directory''), d)
     | Some Special \<Rightarrow> (Ok (), d)
     | Some _ \<Rightarrow> (Ok (), d\<lparr>tree := (tree d)(q \<mapsto> Regular data)\<rparr>)
     | None \<Rightarrow> (Ok (), (new_file q d)\<lparr>tree := (tree d)(q \<mapsto> Regular data)\<rparr>)))"

definition os_Create :: "path \<Rightarrow> string \<Rightarrow> (disk, path) action" where
  "os_Create dir p = (\<lambda>d. case resolve True True 40 (tree d) [] (components dir p) of
     Inl _ \<Rightarrow> (Err (''open '' @ p), d)
   | Inr q \<Rightarrow> (case node_at d q of
       Some Directory \<Rightarrow> (Err (''open '' @ p @ '': is a directory''), d)
     | Some (Regular _) \<Rightarrow> (Ok q, d\<lparr>tree := (tree d)(q \<mapsto> Regular [])\<rparr>)
     | Some _ \<Rightarrow> (Ok q, d)
     | None \<Rightarrow> (Ok q, new_file q d)))"

definition WriteString :: "path \<Rightarrow> string \<Rightarrow> (disk, unit) action" where
  "WriteString q t = (\<lambda>d. case node_at d q of
     Some (Regular c) \<Rightarrow> (Ok (), d\<lparr>tree := (tree d)(q \<mapsto> Regular t)\<rparr>) | _ \<Rightarrow> (Ok (), d))"

definition on_tree :: "(filesystem, 'a) action \<Rightarrow> (disk, 'a) action" where
  "on_tree m = (\<lambda>d. case m (tree d) of (r, t) \<Rightarrow> (r, d\<lparr>tree := t\<rparr>))"

definition host_MkdirAll :: "path \<Rightarrow> string \<Rightarrow> (disk, unit) action" where
  "host_MkdirAll dir p = on_tree (mkdirs [] (components dir p))"

section \<open>Sizes\<close>

definition sizeRegexp :: "string \<Rightarrow> (string \<times> string) option" where
  "sizeRegexp s = (let ds = takeWhile is_digit s; unit = dropWhile re_space (dropWhile is_digit s) in
     if ds \<noteq> [] \<and> unit \<in> {''MB'', ''GB'', ''TB''} then Some (ds, unit) else None)"

definition ParseUint64 :: "string \<Rightarrow> 64 word option" where
  "ParseUint64 s = (case read_nat s of None \<Rightarrow> None | Some n \<Rightarrow> if n < 2 ^ 64 then Some (of_nat n) else None)"

definition ParseSizeToMB :: "string \<Rightarrow> string + 64 word" where
  "ParseSizeToMB sizeStr0 = (let sizeStr = TrimSpace sizeStr0 in
     case sizeRegexp sizeStr of None \<Rightarrow> Inl (''invalid size format: '' @ sizeStr)
   | Some (ds, unit) \<Rightarrow> (case ParseUint64 ds of None \<Rightarrow> Inl ''value out of range''
     | Some n \<Rightarrow> if unit = ''MB'' then Inr n
                    else if unit = ''GB'' then Inr (n * 1024)
                    else if unit = ''TB'' then Inr (n * 1024 * 1024)
                    else Inl (''unknown size unit: '' @ unit)))"

section \<open>Tokens and connections\<close>

definition GetAuthContext :: "'e host_env_scheme \<Rightarrow> string \<Rightarrow> ('h host_scheme, string) action" where
  "GetAuthContext env tokenPath = andthen (attempt (on_disk (ReadFileNoLinks (host_cwd env) tokenPath))) (\<lambda>r.
     ret (TrimSpace (''Bearer '' @ (case r of Inl _ \<Rightarrow> [] | Inr t \<Rightarrow> t))))"

record oauth2_Token =
  AccessToken :: string
  TokenType :: string

definition fetchToken :: "'e host_env_scheme \<Rightarrow> string \<Rightarrow> ('h host_scheme, oauth2_Token option) action" where
  "fetchToken env tokenPath = andthen (attempt (on_disk (ReadFileNoLinks (host_cwd env) tokenPath))) (\<lambda>r.
     ret (case r of Inl _ \<Rightarrow> None | Inr t \<Rightarrow> Some \<lparr>AccessToken = t, TokenType = ''Bearer''\<rparr>))"

datatype tls_version = VersionTLS12 | VersionTLS13

record tls_Config =
  tls_RootCAs :: "string list"
  tls_RequireAndVerifyClientCert :: bool
  tls_MinVersion :: tls_version
  tls_CipherSuites :: "string list"

definition GetAuthConfig :: "'e host_env_scheme \<Rightarrow> string option \<Rightarrow> ('h host_scheme, tls_Config) action" where
  "GetAuthConfig env optionalCert =
     andthen (wrap ''failed to get system CA certs: '' (andthen (tick env 0 (SystemCertPool env)) lift_result)) (\<lambda>pool.
     ret \<lparr>tls_RootCAs = (case optionalCert of None \<Rightarrow> pool | Some c \<Rightarrow> pool @ [c]),
          tls_RequireAndVerifyClientCert = True, tls_MinVersion = VersionTLS13,
          tls_CipherSuites = [''TLS_AES_256_GCM_SHA384'']\<rparr>)"

section \<open>Commands\<close>

definition ReadFromCommand :: "'e host_env_scheme \<Rightarrow> string list \<Rightarrow> ('h host_scheme, string) action" where
  "ReadFromCommand env argv = andthen (run_process env argv (os_Environ env)) (\<lambda>res.
     case exit_error res of None \<Rightarrow> ret (Stdout res) | Some e \<Rightarrow> fail (Stderr res @ '': '' @ e))"

section \<open>The client of the status service\<close>

definition status_rpc :: "'e host_env_scheme \<Rightarrow> status_request \<Rightarrow> ('h host_scheme, int) action" where
  "status_rpc env req = andthen (modify (\<lambda>w. w\<lparr>status_sent := status_sent w @ [req]\<rparr>)) (\<lambda>_.
     andthen (tick env 0 (\<lambda>n. status_call env n req)) lift_result)"

definition InitClient :: "'e host_env_scheme \<Rightarrow> string \<Rightarrow> ('h host_scheme, string) action" where
  "InitClient env serverAddr = andthen (tick env 0 (\<lambda>n. dial_error env n serverAddr)) (\<lambda>e.
     case e of None \<Rightarrow> ret serverAddr | Some m \<Rightarrow> fail (''failed to connect to '' @ serverAddr @ '': '' @ m))"

definition sendStatusRequest :: "'e host_env_scheme \<Rightarrow> string \<Rightarrow> Status_pb \<Rightarrow> ('h host_scheme, unit) action" where
  "sendStatusRequest env agentName agentStatus =
     andthen (wrap ''failed to send status: '' (status_rpc env (ReportStatusRequest agentName agentStatus))) (\<lambda>_. ret ())"

definition SendStatusReady :: "'e host_env_scheme \<Rightarrow> string \<Rightarrow> ('h host_scheme, unit) action" where
  "SendStatusReady env agentName = sendStatusRequest env agentName STATUS_READY"

definition SendStatusNotReady :: "'e host_env_scheme \<Rightarrow> string \<Rightarrow> ('h host_scheme, unit) action" where
  "SendStatusNotReady env agentName = sendStatusRequest env agentName STATUS_NOT_READY"

definition GetStatusInterval_client :: "'e host_env_scheme \<Rightarrow> string \<Rightarrow> ('h host_scheme, int) action" where
  "GetStatusInterval_client env agentName =
     andthen (wrap ''failed to retrieve status interval: '' (status_rpc env (GetStatusIntervalRequest agentName))) (\<lambda>s.
     ret (s * time_Second))"

text \<open>How the agents start reporting: without a client the next call panics; the interval defaults to
  ten seconds after thirty retries.\<close>

definition status_client_and_interval :: "'e host_env_scheme \<Rightarrow> string \<Rightarrow> string \<Rightarrow> ('h host_scheme, int) action" where
  "status_client_and_interval env agentName statusServer = andthen (attempt (InitClient env statusServer)) (\<lambda>cl. case cl of
     Inl _ \<Rightarrow> crash ''invalid memory address or nil pointer dereference''
   | Inr _ \<Rightarrow> andthen (asks interactions) (\<lambda>n.
       andthen (attempt (retry (min 30 (attempts_left env n)) (GetStatusInterval_client env agentName))) (\<lambda>r.
       ret (case r of Inl _ \<Rightarrow> 10 * time_Second | Inr interval \<Rightarrow> interval))))"

text \<open>\<^verbatim>\<open>ticker.Reset\<close> panics for an interval that is not positive.\<close>

definition ticker_Reset :: "int \<Rightarrow> ('s, unit) action" where
  "ticker_Reset d = (if d \<le> 0 then crash ''non-positive interval for Ticker.Reset'' else ret ())"

section \<open>Laws of the host\<close>

lemma time_Unix_mono: "a \<le> b \<Longrightarrow> time_Unix a \<le> time_Unix b"
  by (simp add: time_Unix_def zdiv_mono1 time_Second_def)

lemma tick_apply: "tick env d f w = (Ok (f (interactions w)), w\<lparr>interactions := Suc (interactions w),
     clock_ns := clock_ns w + max 0 d + int (delay env (interactions w))\<rparr>)"
  by (simp add: tick_def)

lemma time_Sleep_apply: "time_Sleep env d w = (Ok (), w\<lparr>interactions := Suc (interactions w),
     clock_ns := clock_ns w + max 0 d + int (delay env (interactions w))\<rparr>)"
  by (simp add: time_Sleep_def tick_apply)

lemma time_Now_apply: "time_Now env w = (Ok (clock_ns w + int (delay env (interactions w))),
     w\<lparr>interactions := Suc (interactions w), clock_ns := clock_ns w + int (delay env (interactions w))\<rparr>)"
  by (simp add: time_Now_def tick_def action_simps)

lemma run_process_apply: "run_process env argv environ w = (case process env (interactions w) argv environ (disk w) of
     (res, d) \<Rightarrow> (Ok res, w\<lparr>interactions := Suc (interactions w), clock_ns := clock_ns w + int (delay env (interactions w)),
        disk := d, processes := processes w @ [(argv, environ)]\<rparr>))"
  by (simp add: run_process_def tick_def action_simps split: prod.split)

lemma safe_tick [safe_rules]: "safe (tick env d f)"
  by (simp add: safe_def tick_apply)

lemma safe_time [safe_rules]: "safe (time_Now env)" "safe (time_Sleep env d)"
  by (simp_all add: safe_def time_Now_apply time_Sleep_apply)

lemma safe_run_process [safe_rules]: "safe (run_process env argv environ)"
  by (simp add: safe_def run_process_apply split: prod.split)

lemma safe_on_disk [safe_rules]: "safe m \<Longrightarrow> safe (on_disk m)"
  by (auto simp: safe_def on_disk_def split: prod.splits)

lemma keeps_host [keeps_rules]:
  "(\<And>w t n. I w \<Longrightarrow> I (w\<lparr>interactions := n, clock_ns := t\<rparr>)) \<Longrightarrow> keeps I (tick env d f)"
  "(\<And>w t n. I w \<Longrightarrow> I (w\<lparr>interactions := n, clock_ns := t\<rparr>)) \<Longrightarrow> keeps I (time_Now env)"
  "(\<And>w t n. I w \<Longrightarrow> I (w\<lparr>interactions := n, clock_ns := t\<rparr>)) \<Longrightarrow> keeps I (time_Sleep env d)"
  "(\<And>w t n k p. I w \<Longrightarrow> I (w\<lparr>interactions := n, clock_ns := t, disk := k, processes := p\<rparr>)) \<Longrightarrow> keeps I (run_process env argv v)"
  "(\<And>w k. I w \<Longrightarrow> I (w\<lparr>disk := k\<rparr>)) \<Longrightarrow> keeps I (on_disk m)"
  by (auto simp: keeps_def tick_apply time_Now_apply time_Sleep_apply run_process_apply on_disk_def split: prod.splits)

section \<open>Laws of the file helpers\<close>

lemma walk_nofollow:
  "walk False create fs n done cs q \<Longrightarrow> (\<And>t. fs q \<noteq> Some (Link t)) \<Longrightarrow> walk True create fs n done cs q"
  by (induction rule: walk.induct) (auto intro: walk.intros)

lemma resolve_nofollow:
  "resolve False create n fs done cs = Inr q \<Longrightarrow> (\<And>t. fs q \<noteq> Some (Link t)) \<Longrightarrow> resolve True create n fs done cs = Inr q"
  by (rule walk_resolve [OF walk_nofollow [OF resolve_walk]])

lemma open_at_follow:
  assumes "open_at create dir p d = Inr q" "\<And>t. tree d q \<noteq> Some (Link t)"
  shows "resolve True create 40 (tree d) [] (components dir p) = Inr q"
  using resolve_nofollow assms unfolding open_at_def by blast

lemma ReadFileNoLinks_content:
  assumes "ReadFileNoLinks dir p d = (Ok c, d')"
  shows "d' = d \<and> (\<exists>q. open_at False dir p d = Inr q \<and> tree d q = Some (Regular c) \<and> nlink d q \<le> 1)"
proof -
  obtain q d2 where q: "openFileNoLinks dir p (open_read dir p) d = (Ok q, d2)"
    and n: "node_at d2 q = Some (Regular c)" "d' = d2"
    using assms unfolding ReadFileNoLinks_def OpenNoLinks_def andthen_eq_Ok
    by (force simp: asks_apply ret_apply fail_apply split: option.splits node.splits)
  obtain q1 d1 where o: "open_read dir p d = (Ok q1, d1)" and h: "isHardLink dir p d1 = (Ok False, d2)" and q1: "q1 = q"
    using q unfolding openFileNoLinks_def andthen_eq_Ok by (auto simp: ret_apply fail_apply split: if_splits)
  have d: "d1 = d" "open_at False dir p d = Inr q"
    using o q1 by (auto simp: open_read_def split: sum.splits option.splits node.splits)
  have d2: "d2 = d" using h d(1) by (simp add: isHardLink_def split: sum.splits)
  note n = n [unfolded d2]
  have q: "tree d q = Some (Regular c)" using n(1) by (simp add: node_at_def split: if_splits)
  then have "resolve True False 40 (tree d) [] (components dir p) = Inr q"
    using open_at_follow [OF d(2)] by simp
  with h d(1) d2 have "nlink d q \<le> 1" by (auto simp: isHardLink_def)
  with d(2) q n(2) show ?thesis by blast
qed

text \<open>A file is read without following a last link: what is returned is the content of a regular
  file with at most one hard link, found at the path itself, and the disk is unchanged.\<close>

theorem ReadFileNoLinks_regular:
  assumes "ReadFileNoLinks dir p d = (Ok c, d')"
  shows "d' = d \<and> (\<exists>q. open_at False dir p d = Inr q \<and> tree d q = Some (Regular c) \<and> nlink d q \<le> 1)"
  using ReadFileNoLinks_content [OF assms] by simp

lemma ReadFileNoLinks_regular_witness:
  "\<exists>q. open_at False [] ''/t'' \<lparr>tree = [[''t''] \<mapsto> Regular ''x''], nlink = \<lambda>_. 1\<rparr> = Inr q \<and> q = [''t'']"
proof -
  let ?d = "\<lparr>tree = [[''t''] \<mapsto> Regular ''x''], nlink = \<lambda>_. 1\<rparr> :: disk"
  have "fst (ReadFileNoLinks [] ''/t'' ?d) = Ok ''x''" by code_simp
  then obtain d' where "ReadFileNoLinks [] ''/t'' ?d = (Ok ''x'', d')" by (metis prod.collapse)
  from ReadFileNoLinks_regular [OF this] show ?thesis by (auto split: if_splits)
qed

lemma CreateNoLinks_refused:
  assumes "open_at True dir p d = Inr q" "q \<noteq> []" "tree d q = Some (Regular c)"
    and "open_at False dir p d = Inr q" "nlink d q > 1"
  shows "CreateNoLinks dir p d = (Err (p @ '' is a hardlink''), d\<lparr>tree := (tree d)(q \<mapsto> Regular [])\<rparr>)"
proof -
  have "resolve True False 40 ((tree d)(q \<mapsto> Regular [])) [] (components dir p) = Inr q"
    using open_at_follow [OF assms(4)] assms(3) by (simp add: resolve_content [of "tree d" q c])
  with assms show ?thesis
    by (simp add: CreateNoLinks_def openFileNoLinks_def andthen_apply open_trunc_def node_at_def isHardLink_def fail_apply)
qed

lemma ReadFileNoLinks_pure: "ReadFileNoLinks dir p d = (r, d') \<Longrightarrow> d' = d \<and> (\<forall>e. r \<noteq> Crash e)"
  by (auto simp: ReadFileNoLinks_def OpenNoLinks_def openFileNoLinks_def open_read_def isHardLink_def action_simps
      split: sum.splits option.splits node.splits if_splits)

lemma safe_ReadFileNoLinks [safe_rules]: "safe (ReadFileNoLinks dir p)"
  using ReadFileNoLinks_pure unfolding safe_def by blast

lemma safe_status_rpc [safe_rules]: "safe (status_rpc env req)"
  unfolding status_rpc_def by (intro safe_rules)

lemma safe_status_client [safe_rules]: "safe (SendStatusReady env a)" "safe (SendStatusNotReady env a)"
  "safe (GetStatusInterval_client env a)"
  unfolding SendStatusReady_def SendStatusNotReady_def sendStatusRequest_def GetStatusInterval_client_def
  by (rule safe_rules | intro safe_rules)+

lemma safe_GetAuthContext [safe_rules]: "safe (GetAuthContext env p)"
  unfolding GetAuthContext_def by (intro safe_rules)

lemma GetAuthContext_world: "GetAuthContext env p w = (r, w') \<Longrightarrow> w' = w"
  using ReadFileNoLinks_pure [of "host_cwd env" p "disk w"]
  by (auto simp: GetAuthContext_def action_simps on_disk_def split: prod.splits outcome.splits)

lemma GetAuthContext_Ok: "\<exists>tok. GetAuthContext env p w = (Ok tok, w)"
proof -
  obtain r0 w0 where g: "GetAuthContext env p w = (r0, w0)" by fastforce
  then have "\<exists>tok. r0 = Ok tok"
    using ReadFileNoLinks_pure [of "host_cwd env" p "disk w"]
    by (auto simp: GetAuthContext_def andthen_apply attempt_apply on_disk_def ret_apply split: prod.splits outcome.splits)
  with g GetAuthContext_world [OF g] show ?thesis by simp
qed

section \<open>Laws of the sizes\<close>

lemma ParseSizeToMB_unit:
  assumes "TrimSpace s = ds @ u" "ds \<noteq> []" "\<forall>c \<in> set ds. is_digit c" "read_nat ds = Some n" "n < 2 ^ 64"
    and "u \<in> {''MB'', ''GB'', ''TB''}"
  shows "ParseSizeToMB s = Inr (of_nat n * (if u = ''MB'' then 1 else if u = ''GB'' then 1024 else 1024 * 1024))"
proof -
  have d: "\<not> is_digit (CHR ''M'')" "\<not> is_digit (CHR ''G'')" "\<not> is_digit (CHR ''T'')"
    and r: "\<not> re_space (CHR ''M'')" "\<not> re_space (CHR ''G'')" "\<not> re_space (CHR ''T'')"
    by (simp_all add: is_digit_def digit_of_def re_space_def)
  have "takeWhile is_digit (ds @ u) = ds" "dropWhile is_digit (ds @ u) = u" "dropWhile re_space u = u"
    using assms(3,6) d r by auto
  then have "sizeRegexp (TrimSpace s) = Some (ds, u)"
    using assms(1,2,6) by (simp add: sizeRegexp_def)
  then show ?thesis
    using assms(4-6) by (auto simp: ParseSizeToMB_def ParseUint64_def mult.assoc)
qed

section \<open>Actions that change only the host\<close>

lemma safe_ReadFromCommand [safe_rules]: "safe (ReadFromCommand env argv)"
  unfolding ReadFromCommand_def by (intro safe_rules)

text \<open>A predicate on the rest of the state: it is kept by what changes only the host.\<close>

locale host_frame =
  fixes I :: "'h host_scheme \<Rightarrow> bool"
  assumes closed: "I w \<Longrightarrow> I (w\<lparr>interactions := n, clock_ns := t, disk := k, processes := p\<rparr>)"
begin

lemma host_rules [keeps_rules]:
  "keeps I (tick env d f)" "keeps I (time_Now env)" "keeps I (run_process env argv v)" "keeps I (on_disk m)"
proof -
  have "I (w\<lparr>interactions := n, clock_ns := t\<rparr>)" "I (w\<lparr>disk := k\<rparr>)" if "I w" for w n t k
    using closed [OF that, where n = n and t = t and k = "disk w" and p = "processes w"]
      closed [OF that, where n = "interactions w" and t = "clock_ns w" and k = k and p = "processes w"] by simp_all
  then show "keeps I (tick env d f)" "keeps I (time_Now env)" "keeps I (run_process env argv v)" "keeps I (on_disk m)"
    using closed by (auto intro!: keeps_host)
qed

lemma ReadFromCommand_rule [keeps_rules]: "keeps I (ReadFromCommand env argv)"
  unfolding ReadFromCommand_def by (intro keeps_rules)

end

section \<open>What an action appends to a log\<close>

text \<open>\<open>appends f P m\<close>: the log \<open>f\<close> of the world only grows by \<open>m\<close>, by entries that satisfy \<open>P\<close>.\<close>

named_theorems appends_rules \<open>what actions append to a log\<close>

definition grown :: "('s \<Rightarrow> 'b list) \<Rightarrow> ('b \<Rightarrow> bool) \<Rightarrow> 's \<Rightarrow> 's \<Rightarrow> bool" where
  "grown f P w w' \<longleftrightarrow> (\<exists>xs. f w' = f w @ xs \<and> list_all P xs)"

definition appends :: "('s \<Rightarrow> 'b list) \<Rightarrow> ('b \<Rightarrow> bool) \<Rightarrow> ('s, 'a) action \<Rightarrow> bool" where
  "appends f P m \<longleftrightarrow> (\<forall>w r w'. m w = (r, w') \<longrightarrow> grown f P w w')"

lemma appendsD: "appends f P m \<Longrightarrow> m w = (r, w') \<Longrightarrow> grown f P w w'"
  unfolding appends_def by blast

lemma appendsI: "(\<And>w r w'. m w = (r, w') \<Longrightarrow> grown f P w w') \<Longrightarrow> appends f P m"
  unfolding appends_def by blast

lemma appends_same: "(\<And>w r w'. m w = (r, w') \<Longrightarrow> f w' = f w) \<Longrightarrow> appends f P m"
  by (rule appendsI) (force simp: grown_def)

lemma grown_trans: "grown f P w w1 \<Longrightarrow> grown f P w1 w2 \<Longrightarrow> grown f P w w2"
  unfolding grown_def by (metis append.assoc list_all_append)

lemma appends_weaken: "appends f P m \<Longrightarrow> (\<And>x. P x \<Longrightarrow> Q x) \<Longrightarrow> appends f Q m"
  unfolding appends_def grown_def by (metis list.pred_mono_strong)

lemma appends_basic [appends_rules]: "appends f P (ret x)" "appends f P (fail e)" "appends f P (crash e)" "appends f P (asks g)"
  by (auto intro!: appends_same simp: action_simps)

lemma appends_andthen [appends_rules]:
  assumes "appends f P m" "\<And>x. appends f P (g x)"
  shows "appends f P (andthen m g)"
proof (rule appendsI)
  fix w r w' assume a: "andthen m g w = (r, w')"
  obtain r1 w1 where m: "m w = (r1, w1)" by fastforce
  note 1 = appendsD [OF assms(1) m]
  show "grown f P w w'"
  proof (cases r1)
    case (Ok x)
    with a m have "g x w1 = (r, w')" by (simp add: andthen_apply)
    from grown_trans [OF 1 appendsD [OF assms(2) this]] show ?thesis .
  qed (use a m 1 in \<open>simp_all add: andthen_apply\<close>)
qed

lemma appends_wrap [appends_rules]: "appends f P m \<Longrightarrow> appends f P (wrap p m)"
  by (auto simp: appends_def wrap_apply split: prod.splits outcome.splits)

lemma appends_attempt [appends_rules]: "appends f P m \<Longrightarrow> appends f P (attempt m)"
  by (auto simp: appends_def attempt_apply split: prod.splits outcome.splits)

lemma appends_ignore [appends_rules]: "appends f P m \<Longrightarrow> appends f P (ignore m)"
  unfolding ignore_def by (intro appends_rules)

lemma appends_deferred [appends_rules]:
  assumes "appends f P m" "appends f P d"
  shows "appends f P (deferred m d)"
proof (rule appendsI)
  fix w r w' assume a: "deferred m d w = (r, w')"
  obtain r1 w1 where m: "m w = (r1, w1)" by fastforce
  obtain r2 w2 where d: "ignore d w1 = (r2, w2)" by fastforce
  note 1 = appendsD [OF assms(1) m] and 2 = appendsD [OF appends_ignore [OF assms(2)] d]
  have "w' = w1 \<or> w' = w2"
    using a m d by (auto simp: deferred_def split: outcome.splits)
  then show "grown f P w w'"
    using 1 grown_trans [OF 1 2] by blast
qed

lemma appends_if [appends_rules]: "(b \<Longrightarrow> appends f P m) \<Longrightarrow> (\<not> b \<Longrightarrow> appends f P n) \<Longrightarrow> appends f P (if b then m else n)"
  by simp

lemma appends_lift_result [appends_rules]: "appends f P (lift_result r)"
  by (cases r) (simp_all add: appends_basic)

lemma appends_foreach [appends_rules]: "(\<And>x. x \<in> set xs \<Longrightarrow> appends f P (g x)) \<Longrightarrow> appends f P (foreach g xs)"
  by (induction xs) (auto intro!: appends_rules)

lemma appends_case_option [appends_rules]:
  "(a = None \<Longrightarrow> appends f P m) \<Longrightarrow> (\<And>x. a = Some x \<Longrightarrow> appends f P (g x)) \<Longrightarrow>
   appends f P (case a of None \<Rightarrow> m | Some x \<Rightarrow> g x)"
  by (cases a) simp_all

lemma appends_case_sum [appends_rules]:
  "(\<And>e. a = Inl e \<Longrightarrow> appends f P (g e)) \<Longrightarrow> (\<And>x. a = Inr x \<Longrightarrow> appends f P (h x)) \<Longrightarrow>
   appends f P (case a of Inl e \<Rightarrow> g e | Inr x \<Rightarrow> h x)"
  by (cases a) simp_all

lemma appends_case_prod [appends_rules]:
  "(\<And>x y. appends f P (g x y)) \<Longrightarrow> appends f P (case a of (x, y) \<Rightarrow> g x y)"
  by (cases a) simp

lemma appends_case_list [appends_rules]:
  "appends f P m \<Longrightarrow> (\<And>x xs. appends f P (g x xs)) \<Longrightarrow> appends f P (case a of [] \<Rightarrow> m | x # xs \<Rightarrow> g x xs)"
  by (cases a) simp_all

lemma appends_retry [appends_rules]: "appends f P m \<Longrightarrow> appends f P (retry n m)"
  by (induction n) (auto intro!: appends_rules)

lemma appends_backoff [appends_rules]: "appends f P m \<Longrightarrow> appends f P (backoff_Retry env m)"
  unfolding backoff_Retry_def by (intro appends_rules)

text \<open>The actions of this theory and the log of the processes.\<close>

lemma processes_quiet [appends_rules]:
  "appends processes P (tick env d g)" "appends processes P (time_Now env)" "appends processes P (time_Sleep env d)"
  "appends processes P (on_disk m)"
  by (auto intro!: appends_same simp: tick_apply time_Now_apply time_Sleep_apply on_disk_def split: prod.splits)

lemma processes_run: "P (argv, environ) \<Longrightarrow> appends processes P (run_process env argv environ)"
  by (rule appendsI) (auto simp: grown_def run_process_apply split: prod.splits)

section \<open>The clock does not go back\<close>

named_theorems ages_rules \<open>actions during which the clock only advances\<close>

definition ages :: "('h host_scheme, 'a) action \<Rightarrow> bool" where
  "ages m \<longleftrightarrow> (\<forall>w r w'. m w = (r, w') \<longrightarrow> clock_ns w \<le> clock_ns w')"

lemma agesD: "ages m \<Longrightarrow> m w = (r, w') \<Longrightarrow> clock_ns w \<le> clock_ns w'"
  unfolding ages_def by blast

lemma agesI: "(\<And>w r w'. m w = (r, w') \<Longrightarrow> clock_ns w \<le> clock_ns w') \<Longrightarrow> ages m"
  unfolding ages_def by blast

lemma ages_basic [ages_rules]: "ages (ret x)" "ages (fail e)" "ages (crash e)" "ages (asks g)" "ages (lift_result s)"
  by (auto simp: ages_def action_simps split: sum.split) (cases s, auto simp: action_simps)

lemma ages_andthen [ages_rules]: "ages m \<Longrightarrow> (\<And>x. ages (f x)) \<Longrightarrow> ages (andthen m f)"
  unfolding ages_def by (intro allI impI) (fastforce simp: andthen_apply split: prod.splits outcome.splits)

lemma ages_attempt [ages_rules]: "ages m \<Longrightarrow> ages (attempt m)"
  by (auto simp: ages_def attempt_apply split: prod.splits outcome.splits)

lemma ages_wrap [ages_rules]: "ages m \<Longrightarrow> ages (wrap p m)"
  by (auto simp: ages_def wrap_apply split: prod.splits outcome.splits)

lemma ages_ignore [ages_rules]: "ages m \<Longrightarrow> ages (ignore m)"
  unfolding ignore_def by (intro ages_rules)

lemma ages_deferred [ages_rules]: "ages m \<Longrightarrow> ages d \<Longrightarrow> ages (deferred m d)"
  unfolding ages_def deferred_def
  by (intro allI impI) (fastforce simp: ignore_apply split: prod.splits outcome.splits)

lemma ages_cases [ages_rules]:
  "ages m \<Longrightarrow> (\<And>x. ages (f x)) \<Longrightarrow> ages (case a of None \<Rightarrow> m | Some x \<Rightarrow> f x)"
  "(\<And>x y. ages (g x y)) \<Longrightarrow> ages (case q of (x, y) \<Rightarrow> g x y)"
  "(\<And>x. ages (h x)) \<Longrightarrow> (\<And>x. ages (k x)) \<Longrightarrow> ages (case s of Inl x \<Rightarrow> h x | Inr x \<Rightarrow> k x)"
  "ages m \<Longrightarrow> ages n \<Longrightarrow> ages (if b then m else n)"
  by (simp_all split: option.split prod.split sum.split)

lemma ages_retry [ages_rules]: "ages m \<Longrightarrow> ages (retry n m)"
  by (induction n) (auto intro!: ages_rules)

lemma ages_backoff [ages_rules]: "ages m \<Longrightarrow> ages (backoff_Retry env m)"
  unfolding backoff_Retry_def by (intro ages_rules)

lemma ages_host [ages_rules]: "ages (tick env d f)" "ages (time_Now env)" "ages (time_Sleep env d)"
  "ages (run_process env a v)" "ages (on_disk dm)"
  by (auto simp: ages_def tick_apply time_Now_apply time_Sleep_apply run_process_apply on_disk_def split: prod.splits)

end
