(* ===== verification/Pma_Agent.thy ===== *)
theory Pma_Agent
  imports Agent_Common
begin

text \<open>
  The Platform Manageability Agent: the commands (\<^verbatim>\<open>internal/utils/utils.go\<close>), the client of
  the device management service (\<^verbatim>\<open>internal/comms/comms.go\<close>), the configuration and the main
  program.

  The fields that the client's mutex protects are the record \<open>Client\<close>; every locked section of
  the code is one function on it (\<open>lock_*\<close>), and the operations are composed of these. The
  deactivations that were launched in the background are kept in \<open>launched\<close>; \<open>Pma_Laws\<close> interleaves
  them with the main goroutine.
\<close>

section \<open>The messages of the device management service\<close>

datatype AMTStatus = AMT_DISABLED | AMT_ENABLED | AMT_OTHER

datatype ActivationStatus = ACTIVATION_UNSPECIFIED | ACTIVATING | ACTIVATED | ACTIVATION_FAILED

datatype OperationType = ACTIVATE | OTHER_OPERATION

record ActivationDetails =
  Operation :: OperationType
  ActivationProfile :: string
  ActionPassword :: string

text \<open>An error of a call: \<open>FailedPrecondition\<close> and its message, or any other error.\<close>

datatype grpc_error = FailedPrecondition string | OtherError string

primrec grpc_text :: "grpc_error \<Rightarrow> string" where
  "grpc_text (FailedPrecondition m) = ''rpc error: code = FailedPrecondition desc = '' @ m"
| "grpc_text (OtherError m) = m"

datatype dm_request =
    AMTStatusRequest string AMTStatus string
  | ActivationRequest string
  | ActivationResultRequest string ActivationStatus

section \<open>The state\<close>

record Client =
  connectingStateStartTime :: "int option"
  previousState :: string
  deactivationInProgress :: bool
  isActivationInProgress :: bool

record pma = host +
  cli :: Client
  launched :: "(string \<times> string \<times> string) list"
  dm_sent :: "dm_request list"
  isAMTEnabled :: int
  isModuleAndServiceInitialized :: int
  lastCheckTimestamp :: int
  lastActivationCheckTimestamp :: int

record pma_env = host_env +
  PMA_BINARY_PATH :: bool
  report_status_rpc :: "nat \<Rightarrow> dm_request \<Rightarrow> grpc_error option"
  activation_rpc :: "nat \<Rightarrow> dm_request \<Rightarrow> grpc_error + ActivationDetails"
  report_result_rpc :: "nat \<Rightarrow> dm_request \<Rightarrow> grpc_error option"
  ctx_done :: "nat \<Rightarrow> bool"

section \<open>Commands\<close>

text \<open>\<^verbatim>\<open>Cmd.Environ\<close>: the environment without entries that a later one of the same name replaces.\<close>

definition env_key :: "string \<Rightarrow> string option" where
  "env_key kv = (case Index kv ''='' of
     None \<Rightarrow> None
   | Some 0 \<Rightarrow> (case Index (tl kv) ''='' of None \<Rightarrow> Some [] | Some i \<Rightarrow> Some (take (Suc i) kv))
   | Some i \<Rightarrow> Some (take i kv))"

fun dedup_from_end :: "string list \<Rightarrow> string list \<Rightarrow> string list" where
  "dedup_from_end saw [] = []"
| "dedup_from_end saw (kv # rest) =
     (if CHR 0x00 \<in> set kv then dedup_from_end saw rest
      else case env_key kv of
        None \<Rightarrow> if kv \<noteq> [] then kv # dedup_from_end saw rest else dedup_from_end saw rest
      | Some k \<Rightarrow> if k \<in> set saw then dedup_from_end saw rest else kv # dedup_from_end (k # saw) rest)"

definition dedupEnv :: "string list \<Rightarrow> string list" where
  "dedupEnv env = rev (dedup_from_end [] (rev env))"

definition cmd_Environ :: "'e host_env_scheme \<Rightarrow> string list option \<Rightarrow> string list" where
  "cmd_Environ env cmdEnv = dedupEnv (case cmdEnv of None \<Rightarrow> os_Environ env | Some e \<Rightarrow> e)"

definition ExecuteCommand :: "'e pma_env_scheme \<Rightarrow> string \<Rightarrow> string list \<Rightarrow> (pma, string) action" where
  "ExecuteCommand env command args =
     (if \<not> PMA_BINARY_PATH env
      then andthen (run_process env (command # args) (cmd_Environ env None)) (\<lambda>res.
           case exit_error res of None \<Rightarrow> ret (Stdout res)
           | Some e \<Rightarrow> fail (''failed to execute command '' @ command @ '' with args: '' @ e))
      else if ''is-active'' \<in> set args then ret ''active'' else ret ''success'')"

definition AMTInfo_argv :: "string list" where
  "AMTInfo_argv = [''sudo'', ''/usr/bin/rpc'', ''amtinfo'']"

text \<open>The output is returned with the error.\<close>

fun amtinfo_tries :: "'e pma_env_scheme \<Rightarrow> nat \<Rightarrow> string \<Rightarrow> string \<Rightarrow> (pma, string \<times> string option) action" where
  "amtinfo_tries env 0 output e = ret (output, Some (''amtInfo command failed after 3 retries: '' @ e))"
| "amtinfo_tries env (Suc left) output e =
     (if PMA_BINARY_PATH env then ret (''Version: 0.1.0'' @ [nl] @ ''RAS Remote Status: connecting'', None)
      else andthen (run_process env AMTInfo_argv (cmd_Environ env None)) (\<lambda>res.
           case exit_error res of
             None \<Rightarrow> ret (Combined res, None)
           | Some e' \<Rightarrow> andthen (if left > 0 then time_Sleep env (5 * time_Second) else ret ()) (\<lambda>_.
               amtinfo_tries env left (Combined res) e')))"

definition ExecuteAMTInfo :: "'e pma_env_scheme \<Rightarrow> (pma, string \<times> string option) action" where
  "ExecuteAMTInfo env = amtinfo_tries env 3 [] []"

definition ExecuteAMTActivate ::
  "'e pma_env_scheme \<Rightarrow> string \<Rightarrow> string \<Rightarrow> string \<Rightarrow> (pma, string \<times> string option) action" where
  "ExecuteAMTActivate env rpsAddress profileName password =
     (let env1 = cmd_Environ env None @ [''AMT_PASSWORD='' @ password];
          env2 = cmd_Environ env (Some env1) @ [''PROFILE='' @ profileName]
      in andthen (run_process env [''sudo'', ''-E'', ''/usr/bin/rpc'', ''activate'', ''-u'', rpsAddress, ''-n'']
                    (cmd_Environ env (Some env2))) (\<lambda>res.
         ret (Combined res, exit_error res)))"

fun ras_line :: "string list \<Rightarrow> string" where
  "ras_line [] = []"
| "ras_line (l # ls) =
     (if Contains l ''RAS Remote Status'' then
        (case Split l (CHR '':'') of _ # v # _ \<Rightarrow> TrimSpace v | _ \<Rightarrow> ras_line ls)
      else ras_line ls)"

definition verifyDeactivationStatus :: "'e pma_env_scheme \<Rightarrow> string \<Rightarrow> (pma, string \<times> string option) action" where
  "verifyDeactivationStatus env originalOutput =
     andthen (run_process env AMTInfo_argv (cmd_Environ env None)) (\<lambda>res.
     case exit_error res of
       Some _ \<Rightarrow> ret (originalOutput, None)
     | None \<Rightarrow> (let rasStatus = ras_line (Split (Combined res) nl) in
         if rasStatus = [] then ret (originalOutput, None)
         else if ToLower (TrimSpace rasStatus) = ''not connected'' then ret (originalOutput, None)
         else ret (originalOutput, Some (''deactivation failed - RAS status is '' @ rasStatus @ '', expected not connected''))))"

definition ExecuteAMTDeactivate :: "'e pma_env_scheme \<Rightarrow> string \<Rightarrow> string \<Rightarrow> (pma, string \<times> string option) action" where
  "ExecuteAMTDeactivate env rpsAddress password =
     (if PMA_BINARY_PATH env then ret (''msg=\"Status: Device deactivated\"'', None)
      else andthen (run_process env [''sudo'', ''-E'', ''/usr/bin/rpc'', ''deactivate'', ''-u'', rpsAddress, ''-n'']
                      (cmd_Environ env (Some (cmd_Environ env None @ [''AMT_PASSWORD='' @ password])))) (\<lambda>res.
           case exit_error res of
             Some e \<Rightarrow> ret (Combined res, Some (''failed to execute AMT deactivate command: '' @ e))
           | None \<Rightarrow> verifyDeactivationStatus env (Combined res)))"

section \<open>Calls of the device management service\<close>

definition dm_call :: "'e pma_env_scheme \<Rightarrow> dm_request \<Rightarrow> (nat \<Rightarrow> 'a) \<Rightarrow> (pma, 'a) action" where
  "dm_call env req f = andthen (modify (\<lambda>w. w\<lparr>dm_sent := dm_sent w @ [req]\<rparr>)) (\<lambda>_. tick env 0 f)"

text \<open>No client when the context is cancelled first; the loop need not end.\<close>

definition Connect :: "'e pma_env_scheme \<Rightarrow> string \<Rightarrow> (pma, unit) action" where
  "Connect env addr = andthen (tick env 0 (\<lambda>n. dial_error env n addr)) (\<lambda>e.
     case e of None \<Rightarrow> ret () | Some m \<Rightarrow> fail (''connection to '' @ addr @ '' failed: '' @ m))"

definition retryInterval :: int where "retryInterval = 10 * time_Second"
definition tickerInterval :: int where "tickerInterval = 500000000"

text \<open>One round: the next tick or the end of the context, then an attempt; None to go on.\<close>

definition connect_round :: "'e pma_env_scheme \<Rightarrow> string \<Rightarrow> (pma, bool option) action" where
  "connect_round env addr = andthen (tick env tickerInterval (ctx_done env)) (\<lambda>cancelled.
     if cancelled then ret (Some False)
     else andthen (attempt (Connect env addr)) (\<lambda>r. case r of
            Inr _ \<Rightarrow> ret (Some True)
          | Inl _ \<Rightarrow> andthen (time_Sleep env retryInterval) (\<lambda>_. ret None)))"

partial_function (option) ConnectToDMManager :: "'e pma_env_scheme \<Rightarrow> string \<Rightarrow> pma \<Rightarrow> (bool \<times> pma) option" where
  "ConnectToDMManager env addr w = (case connect_round env addr w of
     (Ok None, w') \<Rightarrow> ConnectToDMManager env addr w'
   | (Ok (Some connected), w') \<Rightarrow> Some (connected, w')
   | (_, w') \<Rightarrow> Some (False, w'))"

fun amt_field :: "string \<Rightarrow> string list \<Rightarrow> string option" where
  "amt_field parseKey [] = None"
| "amt_field parseKey (line # ls) =
     (if HasPrefix line parseKey then
        (case Split line (CHR '':'') of _ # v # _ \<Rightarrow> Some (TrimSpace v) | _ \<Rightarrow> amt_field parseKey ls)
      else amt_field parseKey ls)"

definition parseAMTInfoField :: "string \<Rightarrow> string \<Rightarrow> string option" where
  "parseAMTInfoField output parseKey = amt_field parseKey (scanner_lines output)"

definition amt_feature :: "string \<Rightarrow> string" where
  "amt_feature output = (case parseAMTInfoField output ''Features'' of
     None \<Rightarrow> []
   | Some value \<Rightarrow> if Contains (ToUpper value) ''AMT'' then ''AMT''
                   else if Contains value ''Intel Standard Manageability Corporate'' then ''ISM'' else [])"

definition ReportAMTStatus :: "'e pma_env_scheme \<Rightarrow> string \<Rightarrow> (pma, AMTStatus) action" where
  "ReportAMTStatus env hostID = andthen (ExecuteAMTInfo env) (\<lambda>(output, err). case err of
     Some e \<Rightarrow> (let req = AMTStatusRequest hostID AMT_DISABLED [] in
       andthen (dm_call env req (\<lambda>n. report_status_rpc env n req)) (\<lambda>reportErr. case reportErr of
         Some re \<Rightarrow> if Contains output ''HECIDriverNotDetected'' then ret AMT_DISABLED
                    else fail (''failed to report AMTStatus to DM Manager: '' @ grpc_text re)
       | None \<Rightarrow> fail (''failed to execute `rpc amtinfo` command: '' @ e)))
   | None \<Rightarrow> (let req = AMTStatusRequest hostID AMT_ENABLED (amt_feature output) in
       andthen (dm_call env req (\<lambda>n. report_status_rpc env n req)) (\<lambda>reportErr. case reportErr of
         Some (FailedPrecondition m) \<Rightarrow> ret AMT_ENABLED
       | Some (OtherError m) \<Rightarrow> fail (''failed to report AMT status: '' @ m)
       | None \<Rightarrow> ret AMT_ENABLED)))"

definition reportActivationResult :: "'e pma_env_scheme \<Rightarrow> string \<Rightarrow> ActivationStatus \<Rightarrow> (pma, unit) action" where
  "reportActivationResult env hostID status = (let req = ActivationResultRequest hostID status in
     andthen (dm_call env req (\<lambda>n. report_result_rpc env n req)) (\<lambda>e. case e of
       None \<Rightarrow> ret ()
     | Some e \<Rightarrow> fail (''failed to report activation results for host '' @ hostID @ '': '' @ grpc_text e)))"

section \<open>The locked sections\<close>

definition lock_reset :: "string \<Rightarrow> Client \<Rightarrow> Client" where
  "lock_reset st c = c\<lparr>previousState := st, connectingStateStartTime := None\<rparr>"

definition lock_previous :: "string \<Rightarrow> Client \<Rightarrow> Client" where
  "lock_previous st c = c\<lparr>previousState := st\<rparr>"

text \<open>The previous state when the connecting state was entered now.\<close>

definition lock_enter :: "int \<Rightarrow> Client \<Rightarrow> string option \<times> Client" where
  "lock_enter now c = (case connectingStateStartTime c of
     None \<Rightarrow> (Some (previousState c), c\<lparr>connectingStateStartTime := Some now\<rparr>)
   | Some _ \<Rightarrow> (None, c))"

definition lock_update :: "string \<Rightarrow> Client \<Rightarrow> int option \<times> Client" where
  "lock_update st c = (connectingStateStartTime c, c\<lparr>previousState := st\<rparr>)"

definition lock_trigger :: "Client \<Rightarrow> bool \<times> Client" where
  "lock_trigger c = (if deactivationInProgress c then (False, c)
     else (True, c\<lparr>deactivationInProgress := True, connectingStateStartTime := None\<rparr>))"

definition lock_release :: "Client \<Rightarrow> Client" where
  "lock_release c = c\<lparr>deactivationInProgress := False\<rparr>"

definition locked :: "(Client \<Rightarrow> 'a \<times> Client) \<Rightarrow> (pma, 'a) action" where
  "locked f = (\<lambda>w. case f (cli w) of (r, c) \<Rightarrow> (Ok r, w\<lparr>cli := c\<rparr>))"

definition locked_set :: "(Client \<Rightarrow> Client) \<Rightarrow> (pma, unit) action" where
  "locked_set f = modify (\<lambda>w. w\<lparr>cli := f (cli w)\<rparr>)"

text \<open>The accessors for tests.\<close>

definition SetConnectingStateStartTime :: "int \<Rightarrow> Client \<Rightarrow> Client" where
  "SetConnectingStateStartTime t c = c\<lparr>connectingStateStartTime := Some t\<rparr>"

definition SetDeactivationInProgress :: "bool \<Rightarrow> Client \<Rightarrow> Client" where
  "SetDeactivationInProgress b c = c\<lparr>deactivationInProgress := b\<rparr>"

section \<open>Deactivation\<close>

definition connectingStateTimeout :: int where "connectingStateTimeout = 180 * time_Second"

definition triggerDeactivationAsync :: "string \<Rightarrow> string \<Rightarrow> string \<Rightarrow> (pma, ActivationStatus) action" where
  "triggerDeactivationAsync hostID rpsAddress password = andthen (locked lock_trigger) (\<lambda>go.
     if \<not> go then ret ACTIVATING
     else andthen (modify (\<lambda>w. w\<lparr>launched := launched w @ [(hostID, rpsAddress, password)]\<rparr>)) (\<lambda>_.
          ret ACTIVATION_FAILED))"

text \<open>\<open>Crash\<close> where the code dereferences the start time.\<close>

definition handleConnectingState ::
  "'e pma_env_scheme \<Rightarrow> string \<Rightarrow> string \<Rightarrow> string \<Rightarrow> string \<Rightarrow> (pma, ActivationStatus) action" where
  "handleConnectingState env hostID currentState rpsAddress password =
     andthen (time_Now env) (\<lambda>now.
     andthen (locked (lock_enter now)) (\<lambda>entered.
     if (case entered of Some prev \<Rightarrow> prev = [] \<or> prev \<noteq> ''not connected'' | None \<Rightarrow> False)
     then triggerDeactivationAsync hostID rpsAddress password
     else andthen (locked (lock_update currentState)) (\<lambda>start. case start of
            None \<Rightarrow> crash ''invalid memory address or nil pointer dereference''
          | Some t \<Rightarrow> if now - t > connectingStateTimeout then triggerDeactivationAsync hostID rpsAddress password
                      else ret ACTIVATING)))"

definition pollTimeout :: int where "pollTimeout = 60 * time_Second"
definition pollInterval :: int where "pollInterval = 10 * time_Second"

text \<open>One round of the polling: whether it goes on.\<close>

definition poll_round :: "'e pma_env_scheme \<Rightarrow> int \<Rightarrow> (pma, bool) action" where
  "poll_round env startTime = andthen (time_Now env) (\<lambda>now.
     if now - startTime > pollTimeout then ret False
     else andthen (ExecuteAMTInfo env) (\<lambda>(output, err).
       if err \<noteq> None then andthen (time_Sleep env pollInterval) (\<lambda>_. ret True)
       else case parseAMTInfoField output ''RAS Remote Status'' of
         None \<Rightarrow> andthen (time_Sleep env pollInterval) (\<lambda>_. ret True)
       | Some rasStatus \<Rightarrow>
           if ToLower (TrimSpace rasStatus) = ''not connected''
           then andthen (locked_set (lock_previous ''not connected'')) (\<lambda>_. ret False)
           else andthen (time_Sleep env pollInterval) (\<lambda>_. ret True)))"

partial_function (option) poll_ras :: "'e pma_env_scheme \<Rightarrow> int \<Rightarrow> pma \<Rightarrow> pma option" where
  "poll_ras env startTime w = (case poll_round env startTime w of
     (r, w') \<Rightarrow> if r = Ok True then poll_ras env startTime w' else Some w')"

text \<open>The flag is released however the body ends.\<close>

definition performDeactivationAsync :: "'e pma_env_scheme \<Rightarrow> string \<Rightarrow> string \<Rightarrow> string \<Rightarrow> pma \<Rightarrow> pma option" where
  "performDeactivationAsync env hostID rpsAddress password w =
     map_option (\<lambda>w'. w'\<lparr>cli := lock_release (cli w')\<rparr>)
      (case ExecuteAMTDeactivate env rpsAddress password w of
         (Ok (out, None), w1) \<Rightarrow> (case time_Now env w1 of
             (Ok startTime, w2) \<Rightarrow> poll_ras env startTime w2
           | (_, w2) \<Rightarrow> Some w2)
       | (_, w1) \<Rightarrow> Some w1)"

section \<open>Activation\<close>

definition ras_up :: "'e pma_env_scheme \<Rightarrow> string \<Rightarrow> (pma, unit) action" where
  "ras_up env hostID = andthen (ExecuteAMTInfo env) (\<lambda>(output_info, err). case err of
     Some e \<Rightarrow> fail e
   | None \<Rightarrow> (let st = (case parseAMTInfoField output_info ''RAS Remote Status'' of None \<Rightarrow> [] | Some s \<Rightarrow> ToLower (TrimSpace s)) in
       if st \<noteq> ''connecting'' \<and> st \<noteq> ''connected''
       then fail (''RAS Remote Status not found retry AMTInfo: '' @ hostID) else ret ()))"

definition isProvisioned :: "'e pma_env_scheme \<Rightarrow> string \<Rightarrow> string \<Rightarrow> (pma, bool) action" where
  "isProvisioned env output hostID =
     (if \<exists>line \<in> set (scanner_lines output). Contains line ''msg=\"CIRA: Configured\"''
      then andthen (attempt (backoff_Retry env (ras_up env hostID))) (\<lambda>r. ret (case r of Inl _ \<Rightarrow> False | Inr _ \<Rightarrow> True))
      else ret False)"

definition set_activating :: "bool \<Rightarrow> (pma, unit) action" where
  "set_activating b = modify (\<lambda>w. w\<lparr>cli := (cli w)\<lparr>isActivationInProgress := b\<rparr>\<rparr>)"

text \<open>The branch of the state "not connected"; its activation flag is cleared when the whole call returns.\<close>

definition start_activation :: "'e pma_env_scheme \<Rightarrow> string \<Rightarrow> string \<Rightarrow> ActivationDetails \<Rightarrow> (pma, ActivationStatus) action" where
  "start_activation env hostID rpsAddress resp =
     andthen (locked_set (lock_reset ''not connected'')) (\<lambda>_.
     andthen (set_activating True) (\<lambda>_.
     andthen (ExecuteAMTActivate env rpsAddress (ActivationProfile resp) (ActionPassword resp)) (\<lambda>(outputStr, activationErr).
     andthen (if Contains outputStr ''msg=\"Unable to authenticate with AMT\"''
              then andthen (triggerDeactivationAsync hostID rpsAddress (ActionPassword resp)) (\<lambda>_. ret ()) else ret ()) (\<lambda>_.
     andthen (isProvisioned env outputStr hostID) (\<lambda>ok.
     ret (if ok then ACTIVATING else ACTIVATION_FAILED))))))"

definition ErrActivationSkipped :: string where "ErrActivationSkipped = ''activation skipped''"

text \<open>The switch on the state of the remote access.\<close>

definition act_on_ras :: "'e pma_env_scheme \<Rightarrow> string \<Rightarrow> string \<Rightarrow> ActivationDetails \<Rightarrow> string \<Rightarrow> (pma, unit) action" where
  "act_on_ras env hostID RPSAddress resp rasStatus =
     (let normalizedStatus = ToLower (TrimSpace rasStatus);
          rpsAddress = ''wss://'' @ RPSAddress @ ''/activate'' in
      if normalizedStatus = ''not connected'' then
        deferred (andthen (start_activation env hostID rpsAddress resp) (reportActivationResult env hostID))
                 (set_activating False)
      else if normalizedStatus = ''connecting'' then
        andthen (handleConnectingState env hostID normalizedStatus rpsAddress (ActionPassword resp))
                (reportActivationResult env hostID)
      else if normalizedStatus = ''connected'' then
        andthen (locked_set (lock_reset normalizedStatus)) (\<lambda>_. reportActivationResult env hostID ACTIVATED)
      else andthen (locked_set (lock_previous normalizedStatus)) (\<lambda>_.
             reportActivationResult env hostID ACTIVATION_UNSPECIFIED))"

definition RetrieveActivationDetails :: "'e pma_env_scheme \<Rightarrow> string \<Rightarrow> string \<Rightarrow> (pma, unit) action" where
  "RetrieveActivationDetails env hostID RPSAddress = (let req = ActivationRequest hostID in
     andthen (dm_call env req (\<lambda>n. activation_rpc env n req)) (\<lambda>r. case r of
       Inl (FailedPrecondition m) \<Rightarrow> fail (ErrActivationSkipped @ '': host '' @ hostID @ '' precondition failed - '' @ m)
     | Inl (OtherError m) \<Rightarrow> fail (''failed to retrieve activation details for host '' @ hostID @ '': '' @ m)
     | Inr resp \<Rightarrow>
         if Operation resp \<noteq> ACTIVATE then fail (''activation not requested for host '' @ hostID @ '': %!w(<nil>)'')
         else andthen (ExecuteAMTInfo env) (\<lambda>(output, err).
           if err \<noteq> None then reportActivationResult env hostID ACTIVATION_FAILED
           else case parseAMTInfoField output ''RAS Remote Status'' of
             None \<Rightarrow> reportActivationResult env hostID ACTIVATION_FAILED
           | Some rasStatus \<Rightarrow> act_on_ras env hostID RPSAddress resp rasStatus)))"

section \<open>The configuration\<close>

record PmaConfig =
  LogLevel :: string
  GUID :: string
  ServiceURL :: string
  HeartbeatInterval :: int
  StatusEndpoint :: string
  MetricsEnabled :: bool
  MetricsEndpoint :: string
  MetricsInterval :: int
  RPSAddress :: string
  AccessTokenPath :: string

definition pma_defaults :: "PmaConfig \<Rightarrow> PmaConfig" where
  "pma_defaults config = (let c1 = (if HeartbeatInterval config \<le> 0 then config\<lparr>HeartbeatInterval := 10 * time_Second\<rparr> else config)
     in if MetricsEnabled c1 \<and> MetricsInterval c1 \<le> 0 then c1\<lparr>MetricsInterval := 10 * time_Second\<rparr> else c1)"

definition pma_config_error :: "PmaConfig \<Rightarrow> string option" where
  "pma_config_error c =
     (if MetricsEnabled c \<and> (MetricsEndpoint c = [] \<or> \<not> HasPrefix (MetricsEndpoint c) ''unix://'')
        then Some ''agent metrics reporting address not provided by config file''
      else if ServiceURL c = [] then Some ''URL for Device Manageability Resource Manager not provided by config file''
      else if AccessTokenPath c = [] then Some ''JWT not provided by config file''
      else if StatusEndpoint c = [] \<or> \<not> HasPrefix (StatusEndpoint c) ''unix://''
        then Some ''agent status reporting address not provided by config file''
      else if GUID c = [] then Some ''edge Node GUID not provided by config file''
      else if RPSAddress c = [] then Some ''RPS Address not provided by config file''
      else None)"

definition pma_config_New :: "'e host_env_scheme \<Rightarrow> (string \<Rightarrow> string + PmaConfig) \<Rightarrow> string \<Rightarrow> ('h host_scheme, PmaConfig) action" where
  "pma_config_New env yaml_Unmarshal configPath =
     andthen (wrap ''failed to read config file: '' (on_disk (ReadFileNoLinks (host_cwd env) configPath))) (\<lambda>configBytes.
     andthen (wrap ''failed to parse config file: '' (lift_result (yaml_Unmarshal configBytes))) (\<lambda>config.
     case pma_config_error (pma_defaults config) of Some e \<Rightarrow> fail e | None \<Rightarrow> ret (pma_defaults config)))"

section \<open>The main program\<close>

definition AGENT_NAME :: string where "AGENT_NAME = ''platform-manageability-agent''"

definition loadModule :: "'e pma_env_scheme \<Rightarrow> (pma, unit) action" where
  "loadModule env = andthen (attempt (ExecuteCommand env ''sh'' [''-c'', ''lsmod | grep mei_me''])) (\<lambda>r.
     if (case r of Inr output \<Rightarrow> length (TrimSpace output) > 0 | Inl _ \<Rightarrow> False) then ret ()
     else andthen (wrap ''failed to load module mei_me: '' (ExecuteCommand env ''sudo'' [''modprobe'', ''mei_me''])) (\<lambda>_. ret ()))"

definition enableService :: "'e pma_env_scheme \<Rightarrow> string \<Rightarrow> (pma, unit) action" where
  "enableService env verb =
     (if verb \<notin> {''unmask'', ''enable'', ''start''} then fail ''invalid service details''
      else andthen (attempt (ExecuteCommand env ''systemctl'' [''is-active'', ''lms.service''])) (\<lambda>r.
        if (case r of Inr output \<Rightarrow> TrimSpace output = ''active'' | Inl _ \<Rightarrow> False) then ret ()
        else andthen (wrap (''failed to '' @ verb @ '' lms.service: '')
               (ExecuteCommand env ''sudo'' [''systemctl'', verb, ''lms.service''])) (\<lambda>_. ret ())))"

definition set_enabled :: "int \<Rightarrow> (pma, unit) action" where
  "set_enabled v = modify (\<lambda>w. w\<lparr>isAMTEnabled := v\<rparr>)"

text \<open>The atomic compare-and-swap: whether it changed 0 to 1.\<close>

definition claim_initialization :: "(pma, bool) action" where
  "claim_initialization = (\<lambda>w. if isModuleAndServiceInitialized w = 0
     then (Ok True, w\<lparr>isModuleAndServiceInitialized := 1\<rparr>) else (Ok False, w))"

definition initialize_once :: "'e pma_env_scheme \<Rightarrow> (pma, unit) action" where
  "initialize_once env = andthen claim_initialization (\<lambda>first.
     if first then andthen (ignore (loadModule env)) (\<lambda>_.
       foreach (\<lambda>verb. ignore (enableService env verb)) [''unmask'', ''enable'', ''start''])
     else ret ())"

text \<open>\<open>have_client\<close> is False when \<^verbatim>\<open>ConnectToDMManager\<close> returned nil.\<close>

definition report_op :: "'e pma_env_scheme \<Rightarrow> bool \<Rightarrow> PmaConfig \<Rightarrow> (pma, unit) action" where
  "report_op env have_client confs = andthen (GetAuthContext env (AccessTokenPath confs)) (\<lambda>_.
     if \<not> have_client then crash ''invalid memory address or nil pointer dereference''
     else andthen (wrap ''failed to report AMT status: '' (ReportAMTStatus env (GUID confs))) (\<lambda>status. case status of
        AMT_DISABLED \<Rightarrow> set_enabled 0
      | AMT_ENABLED \<Rightarrow> andthen (set_enabled 1) (\<lambda>_. initialize_once env)
      | AMT_OTHER \<Rightarrow> set_enabled 0))"

definition mark_check :: "'e pma_env_scheme \<Rightarrow> (pma, unit) action" where
  "mark_check env = andthen (time_Now env) (\<lambda>now. modify (\<lambda>w. w\<lparr>lastCheckTimestamp := time_Unix now\<rparr>))"

definition activation_op :: "'e pma_env_scheme \<Rightarrow> PmaConfig \<Rightarrow> (pma, unit) action" where
  "activation_op env confs = andthen (asks isAMTEnabled) (\<lambda>enabled.
     if enabled \<noteq> 1 then mark_check env
     else andthen (GetAuthContext env (AccessTokenPath confs)) (\<lambda>_.
          andthen (attempt (RetrieveActivationDetails env (GUID confs) (RPSAddress confs))) (\<lambda>r.
          andthen (mark_check env) (\<lambda>_. case r of
            Inr _ \<Rightarrow> ret ()
          | Inl e \<Rightarrow> if HasPrefix e ErrActivationSkipped then ret ()
                     else fail (''failed to retrieve activation details: '' @ e)))))"

definition MAX_RETRIES :: nat where "MAX_RETRIES = 3"

definition updateWithRetry :: "'e pma_env_scheme \<Rightarrow> (pma, unit) action \<Rightarrow> (pma, unit) action" where
  "updateWithRetry env m = andthen (asks interactions) (\<lambda>n.
     andthen (attempt (retry (min MAX_RETRIES (attempts_left env n)) m)) (\<lambda>r. case r of
       Inl _ \<Rightarrow> ret ()
     | Inr _ \<Rightarrow> andthen (time_Now env) (\<lambda>now. modify (\<lambda>w. w\<lparr>lastActivationCheckTimestamp := time_Unix now\<rparr>))))"

text \<open>One turn of the activation loop and of the status loop.\<close>

definition activation_cycle :: "'e pma_env_scheme \<Rightarrow> PmaConfig \<Rightarrow> (pma, unit) action" where
  "activation_cycle env confs = updateWithRetry env (activation_op env confs)"

text \<open>When the client could not be made, the program is told to end, but goes on to use the nil client.\<close>

definition initStatusClientAndTicker :: "'e pma_env_scheme \<Rightarrow> string \<Rightarrow> (pma, int) action" where
  "initStatusClientAndTicker env statusServer = status_client_and_interval env AGENT_NAME statusServer"

definition compareInterval :: "int \<Rightarrow> PmaConfig \<Rightarrow> int" where
  "compareInterval statusInterval confs = max (statusInterval div time_Second) (HeartbeatInterval confs div time_Second)"

definition status_cycle :: "'e pma_env_scheme \<Rightarrow> int \<Rightarrow> (pma, unit) action" where
  "status_cycle env compare = andthen (asks (\<lambda>w. isActivationInProgress (cli w))) (\<lambda>activationInProgress.
     andthen (asks lastCheckTimestamp) (\<lambda>lastCheck.
     andthen (time_Now env) (\<lambda>now.
     if activationInProgress \<or> time_Unix now - lastCheck \<le> 2 * compare
     then ignore (SendStatusReady env AGENT_NAME) else ignore (SendStatusNotReady env AGENT_NAME))))"

text \<open>The start of the program up to its loops; None when connecting does not end.\<close>

definition pma_start :: "'e pma_env_scheme \<Rightarrow> PmaConfig \<Rightarrow> pma \<Rightarrow> (unit outcome \<times> pma) option" where
  "pma_start env confs w = (case GetAuthConfig env None w of
     (Ok _, w1) \<Rightarrow> map_option (\<lambda>(have_client, w2). backoff_Retry env (report_op env have_client confs) w2)
                    (ConnectToDMManager env (ServiceURL confs) w1)
   | (_, w1) \<Rightarrow> Some (Crash ''TLS configuration creation failed!'', w1))"

end
