(* ===== verification/Pma_Laws.thy ===== *)
theory Pma_Laws
  imports Pma_Agent
begin

text \<open>
  The laws of the Platform Manageability Agent's client: the main goroutine and the deactivation in
  the background as an interleaving of their locked sections, with its invariant; that the
  operations of \<open>Pma_Agent\<close> are runs of it; the end of the polling; the environment of the
  activation command; and what is reported for each state of the remote access.
\<close>

section \<open>The interleaving\<close>

text \<open>Where the main goroutine is inside \<^verbatim>\<open>RetrieveActivationDetails\<close>, and a deactivation in
  \<^verbatim>\<open>performDeactivationAsync\<close>.\<close>

datatype main_pc = Idle | Activation | Between int "string option" | Checked int "int option" | Triggering | NilPointer

datatype bg_pc = Polling | Releasing

type_synonym agent = "Client \<times> main_pc \<times> bg_pc list"

definition newClient :: Client where
  "newClient = \<lparr>connectingStateStartTime = None, previousState = [], deactivationInProgress = False,
     isActivationInProgress = False\<rparr>"

inductive agent_step :: "agent \<Rightarrow> agent \<Rightarrow> bool" where
  flag: "agent_step (c, Idle, gs) (c\<lparr>isActivationInProgress := b\<rparr>, Idle, gs)"
| begin_activation: "agent_step (c, Idle, gs) (lock_reset ''not connected'' c, Activation, gs)"
| flag_activation: "agent_step (c, Activation, gs) (c\<lparr>isActivationInProgress := b\<rparr>, Activation, gs)"
| activation_rejected: "agent_step (c, Activation, gs) (c, Triggering, gs)"
| activation_done: "agent_step (c, Activation, gs) (c, Idle, gs)"
| connected: "agent_step (c, Idle, gs) (lock_reset ''connected'' c, Idle, gs)"
| other_state: "agent_step (c, Idle, gs) (lock_previous st c, Idle, gs)"
| enter: "lock_enter now c = (e, c') \<Longrightarrow> agent_step (c, Idle, gs) (c', Between now e, gs)"
| direct: "prev \<noteq> ''not connected'' \<Longrightarrow> agent_step (c, Between now (Some prev), gs) (c, Triggering, gs)"
| update: "e = None \<or> e = Some ''not connected'' \<Longrightarrow> lock_update st c = (start, c') \<Longrightarrow>
    agent_step (c, Between now e, gs) (c', Checked now start, gs)"
| nil: "agent_step (c, Checked now None, gs) (c, NilPointer, gs)"
| late: "now - t > connectingStateTimeout \<Longrightarrow> agent_step (c, Checked now (Some t), gs) (c, Triggering, gs)"
| in_time: "\<not> now - t > connectingStateTimeout \<Longrightarrow> agent_step (c, Checked now (Some t), gs) (c, Idle, gs)"
| launch: "lock_trigger c = (True, c') \<Longrightarrow> agent_step (c, Triggering, gs) (c', Idle, gs @ [Polling])"
| skip: "lock_trigger c = (False, c') \<Longrightarrow> agent_step (c, Triggering, gs) (c', Idle, gs)"
| bg_confirmed: "agent_step (c, m, gs @ Polling # hs) (lock_previous ''not connected'' c, m, gs @ Releasing # hs)"
| bg_gave_up: "agent_step (c, m, gs @ Polling # hs) (c, m, gs @ Releasing # hs)"
| bg_release: "agent_step (c, m, gs @ Releasing # hs) (lock_release c, m, gs @ hs)"

fun agent_ok :: "agent \<Rightarrow> bool" where
  "agent_ok (c, m, gs) = (length gs = (if deactivationInProgress c then 1 else 0) \<and>
     (case m of Between _ _ \<Rightarrow> connectingStateStartTime c \<noteq> None | Checked _ s \<Rightarrow> s \<noteq> None | NilPointer \<Rightarrow> False | _ \<Rightarrow> True))"

lemmas lock_defs = lock_reset_def lock_previous_def lock_enter_def lock_update_def lock_trigger_def lock_release_def

lemma agent_step_ok: "agent_step a b \<Longrightarrow> agent_ok a \<Longrightarrow> agent_ok b"
  by (induction rule: agent_step.induct)
     (auto simp: lock_defs split: main_pc.splits if_splits option.splits)

lemma agent_steps_ok: "agent_step\<^sup>*\<^sup>* a b \<Longrightarrow> agent_ok a \<Longrightarrow> agent_ok b"
  by (induction rule: rtranclp_induct) (auto intro: agent_step_ok)

text \<open>C21: However the main goroutine and the deactivations in the background interleave, at most one
  deactivation is under way, exactly when the flag says so, and the start time that
  \<^verbatim>\<open>handleConnectingState\<close> dereferences outside the lock is never nil.\<close>

theorem one_deactivation:
  assumes "agent_step\<^sup>*\<^sup>* (newClient, Idle, []) (c, m, gs)"
  shows "length gs \<le> 1 \<and> (gs \<noteq> [] \<longleftrightarrow> deactivationInProgress c) \<and> m \<noteq> NilPointer"
proof -
  have "agent_ok (c, m, gs)"
    using agent_steps_ok [OF assms] by (simp add: newClient_def)
  then show ?thesis by (auto split: if_splits)
qed

section \<open>The operations are runs of the interleaving\<close>

lemma locked_apply: "locked f w = (case f (cli w) of (r, c) \<Rightarrow> (Ok r, w\<lparr>cli := c\<rparr>))"
  by (simp add: locked_def)

lemma trigger_apply:
  "triggerDeactivationAsync h r p w =
     (if deactivationInProgress (cli w) then (Ok ACTIVATING, w)
      else (Ok ACTIVATION_FAILED, w\<lparr>cli := snd (lock_trigger (cli w)), launched := launched w @ [(h, r, p)]\<rparr>))"
  by (simp add: triggerDeactivationAsync_def andthen_apply locked_apply lock_trigger_def modify_apply ret_apply)

definition quiet :: "(pma, 'a) action \<Rightarrow> bool" where
  "quiet m \<longleftrightarrow> (\<forall>w r w'. m w = (r, w') \<longrightarrow> cli w' = cli w \<and> launched w' = launched w \<and> (\<forall>e. r \<noteq> Crash e))"

named_theorems quiet_rules \<open>actions that leave the client alone\<close>

lemma quietD: "quiet m \<Longrightarrow> m w = (r, w') \<Longrightarrow> cli w' = cli w \<and> launched w' = launched w \<and> (\<forall>e. r \<noteq> Crash e)"
  unfolding quiet_def by blast

lemma quiet_basic [quiet_rules]: "quiet (ret x)" "quiet (fail e)" "quiet (asks g)"
  by (simp_all add: quiet_def action_simps)

lemma quiet_andthen [quiet_rules]: "quiet m \<Longrightarrow> (\<And>x. quiet (f x)) \<Longrightarrow> quiet (andthen m f)"
  by (fastforce simp: quiet_def andthen_apply split: prod.splits outcome.splits)

lemma quiet_attempt [quiet_rules]: "quiet m \<Longrightarrow> quiet (attempt m)"
  by (fastforce simp: quiet_def attempt_apply split: prod.splits outcome.splits)

lemma quiet_if [quiet_rules]: "quiet m \<Longrightarrow> quiet n \<Longrightarrow> quiet (if b then m else n)"
  by simp

lemma quiet_cases [quiet_rules]:
  "quiet m \<Longrightarrow> (\<And>x. quiet (f x)) \<Longrightarrow> quiet (case a of None \<Rightarrow> m | Some x \<Rightarrow> f x)"
  "(\<And>x y. quiet (g x y)) \<Longrightarrow> quiet (case q of (x, y) \<Rightarrow> g x y)"
  "(\<And>x. quiet (h x)) \<Longrightarrow> (\<And>x. quiet (k x)) \<Longrightarrow> quiet (case s of Inl x \<Rightarrow> h x | Inr x \<Rightarrow> k x)"
  by (simp_all split: option.split prod.split sum.split)

lemma quiet_retry [quiet_rules]: "quiet m \<Longrightarrow> quiet (retry n m)"
  by (induction n) (auto intro!: quiet_rules)

lemma quiet_host [quiet_rules]:
  "quiet (tick env d f)" "quiet (time_Now env)" "quiet (time_Sleep env d)" "quiet (run_process env a v)" "quiet (dm_call env req g)"
  by (auto simp: quiet_def tick_apply time_Now_apply time_Sleep_apply run_process_apply dm_call_def andthen_apply modify_apply
      split: prod.splits)

lemma quiet_amtinfo_tries [quiet_rules]: "quiet (amtinfo_tries env n out e)"
  by (induction n arbitrary: out e) (auto intro!: quiet_rules)

lemma quiet_commands [quiet_rules]: "quiet (ExecuteAMTInfo env)" "quiet (ExecuteAMTActivate env r n p)"
  "quiet (verifyDeactivationStatus env o')" "quiet (ExecuteAMTDeactivate env r p)"
  unfolding ExecuteAMTInfo_def ExecuteAMTActivate_def verifyDeactivationStatus_def ExecuteAMTDeactivate_def Let_def
  by (intro quiet_rules)+

lemma quiet_result [quiet_rules]: "quiet (reportActivationResult env h st)"
  unfolding reportActivationResult_def Let_def by (intro quiet_rules)

lemma quiet_isProvisioned [quiet_rules]: "quiet (isProvisioned env out h)"
  unfolding isProvisioned_def ras_up_def Let_def backoff_Retry_def by (intro quiet_rules)

text \<open>A run of the main goroutine alone: what it does is a sequence of steps from and to \<open>Idle\<close> that
  launches \<open>new\<close> deactivations.\<close>

definition runs_to :: "main_pc \<Rightarrow> main_pc \<Rightarrow> pma \<Rightarrow> pma \<Rightarrow> bool" where
  "runs_to m m' w w' \<longleftrightarrow> (\<exists>new. launched w' = launched w @ new \<and>
     (\<forall>gs. agent_step\<^sup>*\<^sup>* (cli w, m, gs) (cli w', m', gs @ map (\<lambda>_. Polling) new)))"

lemma runs_to_refl: "cli w' = cli w \<Longrightarrow> launched w' = launched w \<Longrightarrow> runs_to m m w w'"
  by (auto simp: runs_to_def)

lemma runs_to_trans: "runs_to m m' w w' \<Longrightarrow> runs_to m' m'' w' w'' \<Longrightarrow> runs_to m m'' w w''"
  unfolding runs_to_def
proof (elim exE conjE)
  fix new new'
  assume a: "launched w' = launched w @ new" "launched w'' = launched w' @ new'"
    and s: "\<forall>gs. agent_step\<^sup>*\<^sup>* (cli w, m, gs) (cli w', m', gs @ map (\<lambda>_. Polling) new)"
    and s': "\<forall>gs. agent_step\<^sup>*\<^sup>* (cli w', m', gs) (cli w'', m'', gs @ map (\<lambda>_. Polling) new')"
  have "agent_step\<^sup>*\<^sup>* (cli w, m, gs) (cli w'', m'', gs @ map (\<lambda>_. Polling) (new @ new'))" for gs
    using rtranclp_trans [OF s [rule_format] s' [rule_format]] by simp
  with a show "\<exists>new. launched w'' = launched w @ new \<and>
     (\<forall>gs. agent_step\<^sup>*\<^sup>* (cli w, m, gs) (cli w'', m'', gs @ map (\<lambda>_. Polling) new))"
    by (intro exI [of _ "new @ new'"]) simp
qed

lemma runs_to_step: "(\<And>gs. agent_step (cli w, m, gs) (cli w', m', gs)) \<Longrightarrow> launched w' = launched w \<Longrightarrow> runs_to m m' w w'"
  unfolding runs_to_def by (intro exI [of _ "[]"]) auto

lemma trigger_runs:
  assumes "triggerDeactivationAsync h r p w = (res, w')"
  shows "runs_to Triggering Idle w w' \<and> (\<forall>e. res \<noteq> Crash e)"
proof (cases "deactivationInProgress (cli w)")
  case True
  then have "agent_step (cli w, Triggering, gs) (cli w, Idle, gs)" for gs
    by (intro skip) (simp add: lock_trigger_def)
  with True assms show ?thesis by (auto simp: trigger_apply intro!: runs_to_step)
next
  case False
  then have "agent_step (cli w, Triggering, gs) (snd (lock_trigger (cli w)), Idle, gs @ [Polling])" for gs
    by (intro launch) (simp add: lock_trigger_def)
  with False assms show ?thesis
    by (auto simp: trigger_apply runs_to_def intro!: exI [of _ "[(h, r, p)]"])
qed

lemma handle_runs:
  assumes "handleConnectingState env h st r p w = (res, w')"
  shows "runs_to Idle Idle w w' \<and> (\<forall>e. res \<noteq> Crash e)"
proof -
  obtain now w1 where n: "time_Now env w = (Ok now, w1)"
    by (simp add: time_Now_apply)
  have q1: "cli w1 = cli w" "launched w1 = launched w"
    using n by (auto simp: time_Now_apply)
  obtain e c2 where en: "lock_enter now (cli w1) = (e, c2)" by fastforce
  define w2 where "w2 = w1\<lparr>cli := c2\<rparr>"
  have r2: "runs_to Idle (Between now e) w w2"
    using en q1 by (intro runs_to_step) (auto simp: w2_def intro: enter)
  have start: "connectingStateStartTime c2 \<noteq> None"
    using en by (auto simp: lock_enter_def split: option.splits)
  show ?thesis
  proof (cases "\<exists>prev. e = Some prev \<and> prev \<noteq> ''not connected''")
    case True
    then obtain prev where e: "e = Some prev" "prev \<noteq> ''not connected''" by blast
    then have "triggerDeactivationAsync h r p w2 = (res, w')"
      using assms n en by (simp add: handleConnectingState_def andthen_apply locked_apply w2_def)
    moreover have "runs_to (Between now e) Triggering w2 w2"
      using e by (intro runs_to_step) (auto intro: direct)
    ultimately show ?thesis
      using trigger_runs runs_to_trans [OF r2] runs_to_trans by blast
  next
    case False
    then have e: "e = None \<or> e = Some ''not connected''" by (cases e) auto
    obtain t where t: "connectingStateStartTime c2 = Some t" using start by blast
    define w3 where "w3 = w2\<lparr>cli := snd (lock_update st c2)\<rparr>"
    have "runs_to (Between now e) (Checked now (Some t)) w2 w3"
      using e t by (intro runs_to_step) (auto simp: w2_def w3_def intro!: update [where st = st] simp: lock_update_def)
    note r3 = runs_to_trans [OF r2 this]
    have res: "(if now - t > connectingStateTimeout then triggerDeactivationAsync h r p w3 else (Ok ACTIVATING, w3)) = (res, w')"
      using assms n en e t by (auto simp: handleConnectingState_def andthen_apply locked_apply w2_def w3_def
          lock_update_def if_app ret_apply)
    show ?thesis
    proof (cases "now - t > connectingStateTimeout")
      case True
      then have "runs_to (Checked now (Some t)) Triggering w3 w3"
        by (intro runs_to_step) (auto intro: late)
      from runs_to_trans [OF r3 this] show ?thesis
        using res True trigger_runs runs_to_trans by fastforce
    next
      case False
      then have "runs_to (Checked now (Some t)) Idle w3 w3"
        by (intro runs_to_step) (auto intro: in_time)
      from runs_to_trans [OF r3 this] show ?thesis using res False by auto
    qed
  qed
qed

lemma runs_to_quiet: "quiet m \<Longrightarrow> m w = (r, w') \<Longrightarrow> runs_to pc pc w w'"
  by (auto dest: quietD intro: runs_to_refl)

text \<open>\<open>behaves m\<close>: whatever \<open>m\<close> does is a run from and to \<open>Idle\<close>, and it does not panic.\<close>

definition behaves :: "main_pc \<Rightarrow> main_pc \<Rightarrow> (pma, 'a) action \<Rightarrow> bool" where
  "behaves a b m \<longleftrightarrow> (\<forall>w r w'. m w = (r, w') \<longrightarrow> runs_to a b w w' \<and> (\<forall>e. r \<noteq> Crash e))"

lemma behavesD: "behaves a b m \<Longrightarrow> m w = (r, w') \<Longrightarrow> runs_to a b w w' \<and> (\<forall>e. r \<noteq> Crash e)"
  unfolding behaves_def by blast

lemma behaves_quiet: "quiet m \<Longrightarrow> behaves a a m"
  unfolding behaves_def using runs_to_quiet quietD by meson

lemma behaves_andthen_Ok:
  assumes "behaves a b m" "\<And>w r w'. m w = (r, w') \<Longrightarrow> \<exists>x. r = Ok x" "\<And>x. behaves b c (f x)"
  shows "behaves a c (andthen m f)"
  unfolding behaves_def
proof (intro allI impI)
  fix w r w' assume a: "andthen m f w = (r, w')"
  obtain x w1 where m: "m w = (Ok x, w1)" using assms(2) by (metis prod.collapse)
  then have "f x w1 = (r, w')" using a by (simp add: andthen_apply)
  then show "runs_to a c w w' \<and> (\<forall>e. r \<noteq> Crash e)"
    using behavesD [OF assms(1) m] behavesD [OF assms(3)] runs_to_trans by blast
qed

lemma behaves_andthen: "behaves a a m \<Longrightarrow> (\<And>x. behaves a a (f x)) \<Longrightarrow> behaves a a (andthen m f)"
  unfolding behaves_def
proof (intro allI impI)
  fix w r w' assume m: "\<forall>w r w'. m w = (r, w') \<longrightarrow> runs_to a a w w' \<and> (\<forall>e. r \<noteq> Crash e)"
    and f: "\<And>x. \<forall>w r w'. f x w = (r, w') \<longrightarrow> runs_to a a w w' \<and> (\<forall>e. r \<noteq> Crash e)"
    and a: "andthen m f w = (r, w')"
  obtain r1 w1 where r1: "m w = (r1, w1)" by fastforce
  show "runs_to a a w w' \<and> (\<forall>e. r \<noteq> Crash e)"
  proof (cases r1)
    case (Ok x)
    then have "f x w1 = (r, w')" using a r1 by (simp add: andthen_apply)
    then show ?thesis using m [rule_format, OF r1] f [rule_format] runs_to_trans by blast
  qed (use m [rule_format, OF r1] a r1 in \<open>auto simp: andthen_apply\<close>)
qed

lemma behaves_deferred:
  assumes "behaves a a m" "behaves a a d"
  shows "behaves a a (deferred m d)"
  unfolding behaves_def
proof (intro allI impI)
  fix w r w' assume a: "deferred m d w = (r, w')"
  obtain r1 w1 where m: "m w = (r1, w1)" by fastforce
  obtain r2 w2 where d: "d w1 = (r2, w2)" by fastforce
  have "w' = w2 \<and> r = r1"
    using a m d behavesD [OF assms(1) m] behavesD [OF assms(2) d]
    by (auto simp: deferred_def ignore_apply split: outcome.splits)
  then show "runs_to a a w w' \<and> (\<forall>e. r \<noteq> Crash e)"
    using behavesD [OF assms(1) m] behavesD [OF assms(2) d] runs_to_trans by blast
qed

lemma behaves_set:
  "behaves Idle Activation (locked_set (lock_reset ''not connected''))"
  "behaves Idle Idle (locked_set (lock_reset ''connected''))" "behaves Idle Idle (locked_set (lock_previous st))"
  "behaves Idle Idle (set_activating b)" "behaves Activation Activation (set_activating b)"
  unfolding behaves_def locked_set_def set_activating_def
  by (auto simp: modify_apply intro!: runs_to_step agent_step.intros)

lemma behaves_handle: "behaves Idle Idle (handleConnectingState env h st r p)"
  unfolding behaves_def using handle_runs by blast

lemma behaves_rejection:
  "behaves Activation Idle (if b then andthen (triggerDeactivationAsync h r p) (\<lambda>_. ret ()) else ret ())"
  unfolding behaves_def
proof (intro allI impI)
  fix w res w' assume a: "(if b then andthen (triggerDeactivationAsync h r p) (\<lambda>_. ret ()) else ret ()) w = (res, w')"
  have t: "runs_to Activation Triggering w w"
    by (intro runs_to_step) (auto intro: activation_rejected)
  have d: "runs_to Activation Idle w w"
    by (intro runs_to_step) (auto intro: activation_done)
  show "runs_to Activation Idle w w' \<and> (\<forall>e. res \<noteq> Crash e)"
  proof (cases b)
    case True
    obtain r1 w1 where r1: "triggerDeactivationAsync h r p w = (r1, w1)" by fastforce
    have "w' = w1" "\<forall>e. res \<noteq> Crash e"
      using a True r1 trigger_runs [OF r1] by (auto simp: andthen_apply ret_apply split: outcome.splits)
    with runs_to_trans [OF t] trigger_runs [OF r1] show ?thesis by blast
  qed (use a d in \<open>auto simp: ret_apply\<close>)
qed

lemma activate_Ok: "\<exists>x. fst (ExecuteAMTActivate env r n p w) = Ok x"
  by (simp add: ExecuteAMTActivate_def Let_def andthen_apply run_process_apply ret_apply split: prod.splits)

lemma behaves_start: "behaves Idle Idle (start_activation env h r resp)"
  unfolding start_activation_def
proof (rule behaves_andthen_Ok [OF behaves_set(1)], goal_cases)
  case (2 u)
  show ?case
  proof (rule behaves_andthen_Ok [OF behaves_set(5)], goal_cases)
    case (2 u)
    show ?case
    proof (rule behaves_andthen_Ok [OF behaves_quiet [OF quiet_commands(2)]], goal_cases)
      case (1 w r w')
      then show ?case using activate_Ok by (metis fst_conv)
    next
      case (2 x)
      obtain out e where x: "x = (out, e)" by (cases x)
      have q: "quiet (andthen (isProvisioned env out h) (\<lambda>ok. ret (if ok then ACTIVATING else ACTIVATION_FAILED)))"
        by (intro quiet_rules)
      show ?case unfolding x prod.case
        by (rule behaves_andthen_Ok [OF behaves_rejection _ behaves_quiet [OF q]])
           (auto simp: andthen_apply trigger_apply ret_apply split: if_splits)
    qed
  qed (simp add: set_activating_def modify_apply)
qed (simp add: locked_set_def modify_apply)

lemma behaves_cases:
  "behaves a a m \<Longrightarrow> (\<And>x. behaves a a (f x)) \<Longrightarrow> behaves a a (case q of None \<Rightarrow> m | Some x \<Rightarrow> f x)"
  "(\<And>x y. behaves a a (g x y)) \<Longrightarrow> behaves a a (case pr of (x, y) \<Rightarrow> g x y)"
  "(\<And>x. behaves a a (j x)) \<Longrightarrow> (\<And>x. behaves a a (k x)) \<Longrightarrow> behaves a a (case s of Inl x \<Rightarrow> j x | Inr x \<Rightarrow> k x)"
  "(\<And>x. behaves a a (i x)) \<Longrightarrow> (\<And>x. behaves a a (l x)) \<Longrightarrow>
   behaves a a (case ge of FailedPrecondition x \<Rightarrow> i x | OtherError x \<Rightarrow> l x)"
  "(b \<Longrightarrow> behaves a a m) \<Longrightarrow> (\<not> b \<Longrightarrow> behaves a a n) \<Longrightarrow> behaves a a (if b then m else n)"
  by (simp_all split: option.split prod.split sum.split grpc_error.split)

lemma behaves_Retrieve: "behaves Idle Idle (RetrieveActivationDetails env h rps)"
proof -
  note q = behaves_quiet [OF quiet_basic(2)] behaves_quiet [OF quiet_result] behaves_quiet [OF quiet_commands(1)]
    behaves_quiet [OF quiet_host(5)]
  show ?thesis
    unfolding RetrieveActivationDetails_def act_on_ras_def Let_def
    by (intro behaves_cases behaves_andthen behaves_deferred behaves_start behaves_handle behaves_set q)
       (auto intro: behaves_set)
qed

text \<open>\<^verbatim>\<open>RetrieveActivationDetails\<close> refines the interleaving: it never panics, and what it does to
  the client, including the deactivations it launches, is a run of the main goroutine's steps from
  and to \<open>Idle\<close>, whatever deactivations are under way.\<close>

theorem RetrieveActivationDetails_refines:
  assumes "RetrieveActivationDetails env hostID rps w = (r, w')"
  shows "(\<forall>e. r \<noteq> Crash e) \<and> (\<exists>new. launched w' = launched w @ new \<and>
    (\<forall>gs. agent_step\<^sup>*\<^sup>* (cli w, Idle, gs) (cli w', Idle, gs @ map (\<lambda>_. Polling) new)))"
  using behavesD [OF behaves_Retrieve assms] unfolding runs_to_def by blast

section \<open>The polling ends\<close>

text \<open>\<open>within k m\<close>: \<open>m\<close> starts at most \<open>k\<close> processes, and the clock does not go back.\<close>

definition within :: "nat \<Rightarrow> (pma, 'a) action \<Rightarrow> bool" where
  "within k m \<longleftrightarrow> (\<forall>w r w'. m w = (r, w') \<longrightarrow> clock_ns w \<le> clock_ns w' \<and> length (processes w') \<le> length (processes w) + k)"

lemma withinD: "within k m \<Longrightarrow> m w = (r, w') \<Longrightarrow> clock_ns w \<le> clock_ns w' \<and> length (processes w') \<le> length (processes w) + k"
  unfolding within_def by blast

lemma within_andthen: "within j m \<Longrightarrow> (\<And>x. within k (f x)) \<Longrightarrow> within (j + k) (andthen m f)"
  unfolding within_def
  by (intro allI impI) (force simp: andthen_apply split: prod.splits outcome.splits)

lemma within_seq: "within j m \<Longrightarrow> (\<And>x. within k (f x)) \<Longrightarrow> n = j + k \<Longrightarrow> within n (andthen m f)"
  using within_andthen by blast

lemma within_ret: "within k (ret x)"
  by (simp add: within_def ret_apply)

lemma within_run: "within 1 (run_process env a v)"
  by (auto simp: within_def run_process_apply split: prod.splits)

lemma within_sleep: "within 0 (time_Sleep env d)"
  by (auto simp: within_def time_Sleep_apply)

lemma within_option: "within k m \<Longrightarrow> (\<And>x. within k (f x)) \<Longrightarrow> within k (case a of None \<Rightarrow> m | Some x \<Rightarrow> f x)"
  by (simp split: option.split)

lemma within_if: "within k m \<Longrightarrow> within k n \<Longrightarrow> within k (if b then m else n)"
  by simp

lemma within_amtinfo_tries: "within n (amtinfo_tries env n out e)"
proof (induction n arbitrary: out e)
  case (Suc n)
  show ?case unfolding amtinfo_tries.simps
    by (rule within_if, rule within_ret, rule within_seq [OF within_run], rule within_option, rule within_ret,
        rule within_seq, rule within_if, rule within_sleep, rule within_ret, rule Suc) simp_all
qed (simp add: within_ret)

lemma within_verify: "within 1 (verifyDeactivationStatus env out)"
  unfolding verifyDeactivationStatus_def Let_def
  by (rule within_seq [OF within_run]) (rule within_option within_if within_ret | simp)+

lemma within_deactivate: "within 2 (ExecuteAMTDeactivate env r p)"
  unfolding ExecuteAMTDeactivate_def
  by (rule within_if, rule within_ret, rule within_seq [OF within_run], rule within_option, rule within_verify,
      rule within_ret) simp

text \<open>What one round leaves.\<close>

definition polled :: "Client \<Rightarrow> Client \<Rightarrow> bool" where
  "polled c c' \<longleftrightarrow> c' = c \<or> c' = lock_previous ''not connected'' c"

lemma poll_round_course:
  assumes "poll_round env s w = (r, w')"
  shows "(r = Ok False \<or> r = Ok True) \<and> launched w' = launched w \<and> clock_ns w \<le> clock_ns w' \<and>
    length (processes w') \<le> length (processes w) + 3 \<and>
    (if r = Ok True then cli w' = cli w \<and> clock_ns w \<le> s + pollTimeout \<and> clock_ns w + pollInterval \<le> clock_ns w'
     else polled (cli w) (cli w'))"
proof -
  define w1 where "w1 = snd (time_Now env w)"
  have n: "time_Now env w = (Ok (clock_ns w1), w1)" and w1: "cli w1 = cli w" "launched w1 = launched w"
    "clock_ns w \<le> clock_ns w1" "processes w1 = processes w"
    by (simp_all add: w1_def time_Now_apply)
  show ?thesis
  proof (cases "clock_ns w1 - s > pollTimeout")
    case True
    with assms w1 show ?thesis by (auto simp: poll_round_def andthen_apply n ret_apply polled_def)
  next
    case False
    obtain r2 w2 where e: "ExecuteAMTInfo env w1 = (r2, w2)" by fastforce
    have w2: "cli w2 = cli w" "launched w2 = launched w" "clock_ns w \<le> clock_ns w2" "length (processes w2) \<le> length (processes w) + 3"
      using quietD [OF quiet_commands(1) e] withinD [OF within_amtinfo_tries e [unfolded ExecuteAMTInfo_def]] w1 by auto
    have ok: "\<exists>out er. r2 = Ok (out, er)"
    proof -
      have "\<exists>x. fst (amtinfo_tries env k o' e' w) = Ok x" for k o' e' w
        by (induction k arbitrary: o' e' w)
           (auto simp: andthen_apply ret_apply run_process_apply time_Sleep_apply if_app case_option_app
             split: prod.splits option.splits)
      then show ?thesis using e unfolding ExecuteAMTInfo_def by (metis fst_conv surj_pair)
    qed
    then obtain out er where r2: "r2 = Ok (out, er)" by blast
    have slept: "r = Ok True \<and> w' = snd (time_Sleep env pollInterval w2) \<or> r = Ok False \<and> w' = snd (locked_set (lock_previous ''not connected'') w2)"
      using assms False e r2
      by (auto simp: poll_round_def andthen_apply n ret_apply time_Sleep_apply locked_set_def modify_apply
          split: option.splits if_splits)
    have "0 \<le> pollInterval" by (simp add: pollInterval_def time_Second_def)
    with slept w2 False w1 show ?thesis
      by (auto simp: time_Sleep_apply locked_set_def modify_apply polled_def)
  qed
qed

lemma poll_round_late: "s + pollTimeout < clock_ns w \<Longrightarrow> poll_round env s w = (Ok False, snd (time_Now env w))"
  by (simp add: poll_round_def andthen_apply time_Now_apply ret_apply)

lemma poll_ras_ends:
  assumes "s + pollTimeout < clock_ns w + int k * pollInterval"
  shows "\<exists>w'. poll_ras env s w = Some w' \<and> polled (cli w) (cli w') \<and> launched w' = launched w \<and>
    length (processes w') \<le> length (processes w) + 3 * k"
  using assms
proof (induction k arbitrary: w)
  case 0
  then show ?case by (subst poll_ras.simps) (simp add: poll_round_late time_Now_apply polled_def)
next
  case (Suc k)
  obtain r w1 where p: "poll_round env s w = (r, w1)" by fastforce
  note c = poll_round_course [OF p]
  show ?case
  proof (cases "r = Ok True")
    case True
    with c have "s + pollTimeout < clock_ns w1 + int k * pollInterval"
      using Suc.prems by (auto simp: algebra_simps)
    from Suc.IH [OF this] obtain w' where "poll_ras env s w1 = Some w'" "polled (cli w1) (cli w')"
      "launched w' = launched w1" "length (processes w') \<le> length (processes w1) + 3 * k" by blast
    with c p True show ?thesis by (subst poll_ras.simps) auto
  next
    case False
    with c p show ?thesis by (subst poll_ras.simps) auto
  qed
qed

text \<open>C22: A deactivation in the background always ends, after at most 23 processes (the deactivation,
  its check and seven rounds of at most three), and leaves the flag cleared, the previous state
  either as it was or "not connected", and launches nothing.\<close>

theorem performDeactivationAsync_ends:
  "\<exists>w'. performDeactivationAsync env hostID rpsAddress password w = Some w' \<and>
     (cli w' = lock_release (cli w) \<or> cli w' = lock_release (lock_previous ''not connected'' (cli w))) \<and>
     launched w' = launched w \<and> length (processes w') \<le> length (processes w) + 23"
proof -
  obtain r w1 where d: "ExecuteAMTDeactivate env rpsAddress password w = (r, w1)" by fastforce
  note q1 = quietD [OF quiet_commands(4) d] withinD [OF within_deactivate d]
  show ?thesis
  proof (cases "\<exists>out. r = Ok (out, None)")
    case True
    then obtain out where r: "r = Ok (out, None)" by blast
    define w2 where "w2 = snd (time_Now env w1)"
    have n: "time_Now env w1 = (Ok (clock_ns w2), w2)" "cli w2 = cli w" "launched w2 = launched w"
      "length (processes w2) \<le> length (processes w) + 2"
      using q1 by (simp_all add: w2_def time_Now_apply)
    have "clock_ns w2 + pollTimeout < clock_ns w2 + int 7 * pollInterval"
      by (simp add: pollTimeout_def pollInterval_def time_Second_def)
    from poll_ras_ends [OF this, of env] obtain w' where p: "poll_ras env (clock_ns w2) w2 = Some w'"
      "polled (cli w2) (cli w')" "launched w' = launched w2" "length (processes w') \<le> length (processes w2) + 3 * 7" by blast
    with d r n show ?thesis
      by (auto simp: performDeactivationAsync_def polled_def lock_release_def)
  next
    case False
    then have "performDeactivationAsync env hostID rpsAddress password w = Some (w1\<lparr>cli := lock_release (cli w1)\<rparr>)"
      using d by (auto simp: performDeactivationAsync_def split: outcome.splits prod.splits option.splits)
    with q1 show ?thesis by simp
  qed
qed

section \<open>The verdict on the connecting state\<close>

text \<open>What \<^verbatim>\<open>handleConnectingState\<close> decides, without its locked sections: a deactivation is due when the
  state was entered now and did not come from "not connected", or entered more than three minutes
  ago; one that is already under way is not started again.\<close>

definition deactivation_due :: "int \<Rightarrow> Client \<Rightarrow> bool" where
  "deactivation_due now c = (case connectingStateStartTime c of
     None \<Rightarrow> previousState c \<noteq> ''not connected''
   | Some t \<Rightarrow> now - t > connectingStateTimeout)"

lemma handle_verdict:
  assumes "time_Now env w = (Ok now, w1)"
  shows "\<exists>w'. handleConnectingState env hostID st rpsAddress password w =
      (Ok (if deactivation_due now (cli w) \<and> \<not> deactivationInProgress (cli w) then ACTIVATION_FAILED else ACTIVATING), w') \<and>
    launched w' = launched w @ (if deactivation_due now (cli w) \<and> \<not> deactivationInProgress (cli w)
      then [(hostID, rpsAddress, password)] else []) \<and>
    deactivationInProgress (cli w') = (deactivationInProgress (cli w) \<or> deactivation_due now (cli w))"
proof -
  have w1: "cli w1 = cli w" "launched w1 = launched w"
    using assms by (auto simp: time_Now_apply)
  have z: "\<not> connectingStateTimeout < 0" by (simp add: connectingStateTimeout_def time_Second_def)
  show ?thesis
  proof (cases "connectingStateStartTime (cli w)")
    case None
    with w1 z show ?thesis
      by (auto simp: handleConnectingState_def andthen_apply assms locked_apply lock_enter_def lock_update_def
          trigger_apply lock_trigger_def deactivation_due_def if_app ret_apply)
  next
    case (Some t)
    with w1 show ?thesis
      by (auto simp: handleConnectingState_def andthen_apply assms locked_apply lock_enter_def lock_update_def
          trigger_apply lock_trigger_def deactivation_due_def if_app ret_apply)
  qed
qed

text \<open>In the connecting state a deactivation is launched, and \<^verbatim>\<open>ACTIVATION_FAILED\<close> reported, exactly
  when one is due and none is in progress; otherwise the host is reported as activating.\<close>

theorem handleConnectingState_verdict:
  assumes "time_Now env w = (Ok now, w1)"
  shows "\<exists>w'. handleConnectingState env hostID st rpsAddress password w =
      (Ok (if deactivation_due now (cli w) \<and> \<not> deactivationInProgress (cli w) then ACTIVATION_FAILED else ACTIVATING), w') \<and>
    launched w' = launched w @ (if deactivation_due now (cli w) \<and> \<not> deactivationInProgress (cli w)
      then [(hostID, rpsAddress, password)] else []) \<and>
    deactivationInProgress (cli w') = (deactivationInProgress (cli w) \<or> deactivation_due now (cli w))"
  using assms by (rule handle_verdict)

section \<open>What is reported\<close>

lemma dm_call_apply: "dm_call env req f w = (Ok (f (interactions w)), snd (tick env 0 f (w\<lparr>dm_sent := dm_sent w @ [req]\<rparr>)))"
  by (simp add: dm_call_def andthen_apply modify_apply tick_apply)

lemma dm_sent_quiet [appends_rules]:
  "appends dm_sent P (tick env d g)" "appends dm_sent P (time_Now env)" "appends dm_sent P (time_Sleep env d)"
  "appends dm_sent P (run_process env a v)" "appends dm_sent P (locked lf)" "appends dm_sent P (locked_set ls)"
  "appends dm_sent P (set_activating b)"
  by (auto intro!: appends_same simp: tick_apply time_Now_apply time_Sleep_apply run_process_apply locked_apply
      locked_set_def set_activating_def modify_apply split: prod.splits)

lemma dm_sent_call: "P req \<Longrightarrow> appends dm_sent P (dm_call env req f)"
  by (rule appendsI) (auto simp: grown_def dm_call_apply tick_apply)

lemma dm_sent_amtinfo_tries [appends_rules]: "appends dm_sent P (amtinfo_tries env n out e)"
  by (induction n arbitrary: out e) (auto intro!: appends_rules)

lemma dm_sent_commands [appends_rules]: "appends dm_sent P (ExecuteAMTInfo env)" "appends dm_sent P (ExecuteAMTActivate env r n p)"
  "appends dm_sent P (triggerDeactivationAsync h r p)" "appends dm_sent P (handleConnectingState env h st r p)"
  "appends dm_sent P (isProvisioned env out h)"
proof -
  show t: "appends dm_sent P (triggerDeactivationAsync h r p)" for h r p
    by (rule appends_same) (auto simp: trigger_apply split: if_splits)
  show "appends dm_sent P (handleConnectingState env h st r p)"
    unfolding handleConnectingState_def by (intro appends_rules t)
qed (unfold ExecuteAMTInfo_def ExecuteAMTActivate_def isProvisioned_def ras_up_def Let_def, (intro appends_rules)+)

lemma dm_sent_report: "P (ActivationResultRequest h st) \<Longrightarrow> appends dm_sent P (reportActivationResult env h st)"
  unfolding reportActivationResult_def Let_def by (intro appends_rules dm_sent_call)

lemma handle_reports:
  "handleConnectingState env h st r p w = (Ok s, w') \<Longrightarrow> s = ACTIVATING \<or> s = ACTIVATION_FAILED"
  using handle_verdict [of env w _ _ h st r p] by (auto simp: time_Now_apply split: if_splits)

lemma start_reports: "start_activation env h r resp w = (Ok s, w') \<Longrightarrow> s = ACTIVATING \<or> s = ACTIVATION_FAILED"
  unfolding start_activation_def andthen_eq_Ok by (auto simp: andthen_eq_Ok ret_apply split: if_splits)

lemma dm_sent_then_report:
  assumes "appends dm_sent P m" "\<And>w s w'. m w = (Ok s, w') \<Longrightarrow> P (ActivationResultRequest h s)"
  shows "appends dm_sent P (andthen m (reportActivationResult env h))"
proof (rule appendsI)
  fix w r w' assume a: "andthen m (reportActivationResult env h) w = (r, w')"
  obtain r1 w1 where m: "m w = (r1, w1)" by fastforce
  show "grown dm_sent P w w'"
  proof (cases r1)
    case (Ok s)
    with a m have "reportActivationResult env h s w1 = (r, w')" by (simp add: andthen_apply)
    from appendsD [OF dm_sent_report this] show ?thesis
      using grown_trans [OF appendsD [OF assms(1) m]] assms(2) m Ok by blast
  qed (use a m appendsD [OF assms(1) m] in \<open>simp_all add: andthen_apply\<close>)
qed

lemma dm_sent_start: "appends dm_sent P (start_activation env h r resp)"
  unfolding start_activation_def by (intro appends_rules)

definition not_completed :: "string \<Rightarrow> dm_request \<Rightarrow> bool" where
  "not_completed h q \<longleftrightarrow> q \<noteq> ActivationResultRequest h ACTIVATED"

lemma act_on_ras_reports:
  assumes "ToLower (TrimSpace s) \<noteq> ''connected''"
  shows "appends dm_sent (not_completed h) (act_on_ras env h rps resp s)"
proof -
  have a: "appends dm_sent (not_completed h) (andthen (start_activation env h r resp) (reportActivationResult env h))" for r
    by (rule dm_sent_then_report [OF dm_sent_start]) (auto simp: not_completed_def dest: start_reports)
  have c: "appends dm_sent (not_completed h) (andthen (handleConnectingState env h st r p) (reportActivationResult env h))" for st r p
    by (rule dm_sent_then_report [OF dm_sent_commands(4)]) (auto simp: not_completed_def dest: handle_reports)
  have u: "appends dm_sent (not_completed h) (reportActivationResult env h ACTIVATION_UNSPECIFIED)"
    by (rule dm_sent_report) (simp add: not_completed_def)
  show ?thesis
    unfolding act_on_ras_def Let_def using assms a c u
    by (auto intro!: appends_deferred appends_andthen [OF dm_sent_quiet(6)] dm_sent_quiet)
qed

lemma amtinfo_Ok: "\<exists>out er w'. ExecuteAMTInfo env w = (Ok (out, er), w')"
proof -
  have "\<exists>x. fst (amtinfo_tries env k o' e' w) = Ok x" for k o' e' w
    by (induction k arbitrary: o' e' w)
       (auto simp: andthen_apply ret_apply run_process_apply time_Sleep_apply if_app case_option_app
         split: prod.splits option.splits)
  then show ?thesis unfolding ExecuteAMTInfo_def by (metis prod.collapse)
qed

text \<open>The activation of a host is reported as completed only when the service asked for it and the
  output of \<^verbatim>\<open>rpc amtinfo\<close> says that the remote access is connected.\<close>

theorem ACTIVATED_only_when_connected:
  assumes "RetrieveActivationDetails env hostID rps w = (r, w')" "dm_sent w' = dm_sent w @ reqs"
    and "ActivationResultRequest hostID ACTIVATED \<in> set reqs"
  shows "\<exists>resp w1 output w2 rasStatus. activation_rpc env (interactions w) (ActivationRequest hostID) = Inr resp \<and>
    Operation resp = ACTIVATE \<and>
    dm_call env (ActivationRequest hostID) (\<lambda>_. ()) w = (Ok (), w1) \<and> ExecuteAMTInfo env w1 = (Ok (output, None), w2) \<and>
    parseAMTInfoField output ''RAS Remote Status'' = Some rasStatus \<and> ToLower (TrimSpace rasStatus) = ''connected''"
proof (rule ccontr)
  assume no: "\<not> ?thesis"
  define w1 where "w1 = snd (dm_call env (ActivationRequest hostID) (\<lambda>_. ()) w)"
  have w1: "dm_call env (ActivationRequest hostID) g w = (Ok (g (interactions w)), w1)" for g :: "nat \<Rightarrow> 'x"
    by (simp add: w1_def dm_call_apply tick_apply)
  have g1: "grown dm_sent (not_completed hostID) w w1"
    by (rule appendsD [OF dm_sent_call w1 [of "\<lambda>_. ()"]]) (simp add: not_completed_def)
  obtain out er w2 where e: "ExecuteAMTInfo env w1 = (Ok (out, er), w2)" using amtinfo_Ok by blast
  note g2 = grown_trans [OF g1 appendsD [OF dm_sent_commands(1) e]]
  have failed: "grown dm_sent (not_completed hostID) w2 w'"
    if "reportActivationResult env hostID ACTIVATION_FAILED w2 = (r, w')"
    by (rule appendsD [OF dm_sent_report that]) (simp add: not_completed_def)
  note eqs = assms(1) [unfolded RetrieveActivationDetails_def Let_def andthen_apply w1, simplified]
  have "grown dm_sent (not_completed hostID) w w'"
  proof (cases "activation_rpc env (interactions w) (ActivationRequest hostID)")
    case (Inl err)
    with eqs g1 show ?thesis by (auto simp: fail_apply split: grpc_error.splits)
  next
    case (Inr resp)
    show ?thesis
    proof (cases "Operation resp = ACTIVATE")
      case True
      have c: "ToLower (TrimSpace s) \<noteq> ''connected''" if "er = None" "parseAMTInfoField out ''RAS Remote Status'' = Some s" for s
        using no Inr True w1 [of "\<lambda>_. ()"] e that by blast
      have "grown dm_sent (not_completed hostID) w2 w'"
      proof (cases "er = None \<and> parseAMTInfoField out ''RAS Remote Status'' \<noteq> None")
        case up: True
        then obtain s where s: "er = None" "parseAMTInfoField out ''RAS Remote Status'' = Some s" by blast
        with eqs Inr True e have "act_on_ras env hostID rps resp s w2 = (r, w')" by (simp add: andthen_apply)
        from appendsD [OF act_on_ras_reports [OF c [OF s]] this] show ?thesis .
      next
        case False
        with eqs Inr True e have "reportActivationResult env hostID ACTIVATION_FAILED w2 = (r, w')"
          by (cases er) (simp_all add: andthen_apply)
        then show ?thesis by (rule failed)
      qed
      then show ?thesis by (rule grown_trans [OF g2])
    next
      case False
      then have "\<exists>e. RetrieveActivationDetails env hostID rps w = (Err e, w1)"
        unfolding RetrieveActivationDetails_def Let_def by (simp add: andthen_apply w1 Inr fail_apply)
      with assms(1) g1 show ?thesis by auto
    qed
  qed
  with assms(2,3) show False by (auto simp: grown_def not_completed_def list_all_iff)
qed

end
