(* ===== verification/Pma_Main.thy ===== *)
theory Pma_Main
  imports Pma_Laws
begin

text \<open>
  The Platform Manageability Agent as a whole: the processes it starts and their environment, its
  main program, and concrete runs of the theorems of \<open>Pma_Laws\<close>.
\<close>

section \<open>The environment of a command\<close>

lemma dedup_keeps:
  assumes "CHR 0x00 \<notin> set kv" "env_key kv = Some k" "k \<notin> set saw" "\<forall>x \<in> set us. env_key x \<noteq> Some k"
  shows "kv \<in> set (dedup_from_end saw (us @ kv # vs))"
  using assms(3,4)
proof (induction us arbitrary: saw)
  case Nil
  with assms show ?case by simp
next
  case (Cons u us)
  then show ?case by (auto split: option.split)
qed

lemma dedupEnv_keeps:
  assumes "CHR 0x00 \<notin> set kv" "env_key kv = Some k" "\<forall>x \<in> set us. env_key x \<noteq> Some k"
  shows "kv \<in> set (dedupEnv (vs @ kv # us))"
  using dedup_keeps [OF assms(1,2), of "[]" "rev us" "rev vs"] assms(3) by (simp add: dedupEnv_def)

lemma dedupEnv_last: "CHR 0x00 \<notin> set kv \<Longrightarrow> env_key kv = Some k \<Longrightarrow> \<exists>vs'. dedupEnv (vs @ [kv]) = vs' @ [kv]"
  by (simp add: dedupEnv_def)

lemma Index_literal: "c \<notin> set p \<Longrightarrow> Index (p @ c # s) [c] = Some (length p)"
  by (induction p) auto

lemma env_key_assign: "p \<noteq> [] \<Longrightarrow> CHR ''='' \<notin> set p \<Longrightarrow> env_key (p @ ''='' @ v) = Some p"
  by (cases p) (simp_all add: env_key_def Index_literal split: nat.split)

lemmas env_keys = env_key_assign [of "''AMT_PASSWORD''"] env_key_assign [of "''PROFILE''"]

lemma activation_env:
  assumes "CHR 0x00 \<notin> set pw" "CHR 0x00 \<notin> set prof"
  shows "''AMT_PASSWORD='' @ pw \<in> set (dedupEnv (dedupEnv (e @ [''AMT_PASSWORD='' @ pw]) @ [''PROFILE='' @ prof])) \<and>
    ''PROFILE='' @ prof \<in> set (dedupEnv (dedupEnv (e @ [''AMT_PASSWORD='' @ pw]) @ [''PROFILE='' @ prof]))"
proof
  have k: "env_key (''AMT_PASSWORD='' @ pw) = Some ''AMT_PASSWORD''" "env_key (''PROFILE='' @ prof) = Some ''PROFILE''"
    using env_keys [of pw] env_keys [of prof] by simp_all
  have z: "CHR 0x00 \<notin> set (''AMT_PASSWORD='' @ pw)" "CHR 0x00 \<notin> set (''PROFILE='' @ prof)"
    using assms by simp_all
  obtain vs where vs: "dedupEnv (e @ [''AMT_PASSWORD='' @ pw]) = vs @ [''AMT_PASSWORD='' @ pw]"
    using dedupEnv_last [OF z(1) k(1)] by blast
  show "''AMT_PASSWORD='' @ pw \<in> set (dedupEnv (dedupEnv (e @ [''AMT_PASSWORD='' @ pw]) @ [''PROFILE='' @ prof]))"
    unfolding vs using dedupEnv_keeps [OF z(1) k(1), of "[''PROFILE='' @ prof]" vs] k(2) by simp
  show "''PROFILE='' @ prof \<in> set (dedupEnv (dedupEnv (e @ [''AMT_PASSWORD='' @ pw]) @ [''PROFILE='' @ prof]))"
    using dedupEnv_keeps [OF z(2) k(2), of "[]"] by simp
qed

section \<open>The processes of an activation\<close>

text \<open>A process of \<^verbatim>\<open>RetrieveActivationDetails\<close>: the query, or the activation with the password and the
  profile that the service sent.\<close>

definition activation_process :: "'e pma_env_scheme \<Rightarrow> string \<Rightarrow> ActivationDetails \<Rightarrow> string list \<times> string list \<Rightarrow> bool" where
  "activation_process env rps resp = (\<lambda>(argv, environ). argv = AMTInfo_argv \<or>
     (argv = [''sudo'', ''-E'', ''/usr/bin/rpc'', ''activate'', ''-u'', ''wss://'' @ rps @ ''/activate'', ''-n''] \<and>
      (CHR 0x00 \<notin> set (ActionPassword resp) \<and> CHR 0x00 \<notin> set (ActivationProfile resp) \<longrightarrow>
       ''AMT_PASSWORD='' @ ActionPassword resp \<in> set environ \<and> ''PROFILE='' @ ActivationProfile resp \<in> set environ)))"

lemma processes_client [appends_rules]:
  "appends processes P (dm_call env req f)" "appends processes P (locked lf)" "appends processes P (locked_set ls)"
  "appends processes P (set_activating b)" "appends processes P (triggerDeactivationAsync h r p)"
  "appends processes P (reportActivationResult env h sta)" "appends processes P (handleConnectingState env h st r p)"
proof -
  show t: "appends processes P (triggerDeactivationAsync h r p)" for h r p
    by (rule appends_same) (auto simp: trigger_apply split: if_splits)
  show c: "appends processes P (dm_call env req f)" for req and f :: "nat \<Rightarrow> 'x"
    by (rule appends_same) (auto simp: dm_call_apply tick_apply)
  show l: "appends processes P (locked lf)" for lf :: "Client \<Rightarrow> 'y \<times> Client"
    by (rule appends_same) (auto simp: locked_apply split: prod.splits)
  show "appends processes P (reportActivationResult env h sta)"
    unfolding reportActivationResult_def Let_def by (intro appends_rules c)
  show "appends processes P (handleConnectingState env h st r p)"
    unfolding handleConnectingState_def by (intro appends_rules t l)
qed (auto intro!: appends_same simp: locked_set_def set_activating_def modify_apply)

lemma processes_amtinfo: "(\<And>v. P (AMTInfo_argv, v)) \<Longrightarrow> appends processes P (ExecuteAMTInfo env)"
  unfolding ExecuteAMTInfo_def
proof -
  assume p: "\<And>v. P (AMTInfo_argv, v)"
  have "appends processes P (amtinfo_tries env n out e)" for n out e
    by (induction n arbitrary: out e) (auto intro!: appends_rules processes_run p)
  then show "appends processes P (amtinfo_tries env 3 [] [])" .
qed

lemma processes_activate:
  "appends processes (activation_process env rps resp)
     (ExecuteAMTActivate env (''wss://'' @ rps @ ''/activate'') (ActivationProfile resp) (ActionPassword resp))"
  unfolding ExecuteAMTActivate_def Let_def
proof (intro appends_rules processes_run)
  let ?e = "dedupEnv (os_Environ env) @ [''AMT_PASSWORD='' @ ActionPassword resp]"
  show "activation_process env rps resp
     ([''sudo'', ''-E'', ''/usr/bin/rpc'', ''activate'', ''-u'', ''wss://'' @ rps @ ''/activate'', ''-n''],
      cmd_Environ env (Some (cmd_Environ env (Some (cmd_Environ env None @ [''AMT_PASSWORD='' @ ActionPassword resp])) @
        [''PROFILE='' @ ActivationProfile resp])))"
    using activation_env [of "ActionPassword resp" "ActivationProfile resp" "dedupEnv (os_Environ env)"]
    unfolding activation_process_def cmd_Environ_def option.case prod.case by blast
qed

lemma processes_act_on_ras:
  "appends processes (activation_process env rps resp) (act_on_ras env h rps resp s)"
proof -
  have i: "appends processes (activation_process env rps resp) (ExecuteAMTInfo env)"
    by (rule processes_amtinfo) (simp add: activation_process_def)
  have p: "appends processes (activation_process env rps resp) (isProvisioned env out h)" for out
    unfolding isProvisioned_def ras_up_def Let_def by (intro appends_rules i)
  have s: "appends processes (activation_process env rps resp) (start_activation env h (''wss://'' @ rps @ ''/activate'') resp)"
    unfolding start_activation_def by (intro appends_rules processes_activate p)
  show ?thesis unfolding act_on_ras_def Let_def by (intro appends_rules s)
qed

text \<open>C25: \<^verbatim>\<open>RetrieveActivationDetails\<close> starts only \<^verbatim>\<open>rpc amtinfo\<close> and, when the service asked to
  activate, \<^verbatim>\<open>rpc activate\<close> against the configured address, with the password and the profile of
  the service's answer in its environment; it never starts a deactivation itself.\<close>

theorem activation_processes:
  assumes "RetrieveActivationDetails env hostID rps w = (r, w')"
  shows "\<exists>ps. processes w' = processes w @ ps \<and> (\<forall>p \<in> set ps. fst p = AMTInfo_argv \<or>
    (\<exists>resp. activation_rpc env (interactions w) (ActivationRequest hostID) = Inr resp \<and> Operation resp = ACTIVATE \<and>
       activation_process env rps resp p))"
proof -
  define P where "P p \<longleftrightarrow> fst p = AMTInfo_argv \<or>
    (\<exists>resp. activation_rpc env (interactions w) (ActivationRequest hostID) = Inr resp \<and> Operation resp = ACTIVATE \<and>
       activation_process env rps resp p)" for p
  define w1 where "w1 = snd (dm_call env (ActivationRequest hostID) (\<lambda>_. ()) w)"
  have w1: "dm_call env (ActivationRequest hostID) g w = (Ok (g (interactions w)), w1)" for g :: "nat \<Rightarrow> 'x"
    by (simp add: w1_def dm_call_apply tick_apply)
  have p1: "processes w1 = processes w" by (simp add: w1_def dm_call_apply tick_apply)
  have i: "appends processes P (ExecuteAMTInfo env)" by (rule processes_amtinfo) (simp add: P_def)
  define rest where "rest ans = (case ans of
       Inl (FailedPrecondition m) \<Rightarrow> fail (ErrActivationSkipped @ '': host '' @ hostID @ '' precondition failed - '' @ m)
     | Inl (OtherError m) \<Rightarrow> fail (''failed to retrieve activation details for host '' @ hostID @ '': '' @ m)
     | Inr resp \<Rightarrow>
         if Operation resp \<noteq> ACTIVATE then fail (''activation not requested for host '' @ hostID @ '': %!w(<nil>)'')
         else andthen (ExecuteAMTInfo env) (\<lambda>(output, err).
           if err \<noteq> None then reportActivationResult env hostID ACTIVATION_FAILED
           else case parseAMTInfoField output ''RAS Remote Status'' of
             None \<Rightarrow> reportActivationResult env hostID ACTIVATION_FAILED
           | Some rasStatus \<Rightarrow> act_on_ras env hostID rps resp rasStatus))" for ans
  have "RetrieveActivationDetails env hostID rps w = rest (activation_rpc env (interactions w) (ActivationRequest hostID)) w1"
    unfolding RetrieveActivationDetails_def rest_def Let_def andthen_apply w1 by simp
  then have run: "rest (activation_rpc env (interactions w) (ActivationRequest hostID)) w1 = (r, w')" using assms by simp
  have "appends processes P (rest (activation_rpc env (interactions w) (ActivationRequest hostID)))"
  proof (cases "activation_rpc env (interactions w) (ActivationRequest hostID)")
    case (Inr resp)
    have act: "appends processes P (act_on_ras env hostID rps resp s)" if "Operation resp = ACTIVATE" for s
      by (rule appends_weaken [OF processes_act_on_ras]) (use Inr that P_def in blast)
    show ?thesis
      unfolding Inr rest_def sum.case
      by (rule appends_if) (auto intro!: appends_rules i act)
  qed (auto simp: rest_def intro!: appends_rules split: grpc_error.split)
  from appendsD [OF this run] p1 show ?thesis
    unfolding grown_def list_all_iff P_def by auto
qed

section \<open>The health of the agent\<close>

lemma ages_client [ages_rules]:
  "ages (locked lf)" "ages (locked_set ls)" "ages (set_activating b)" "ages (dm_call env req f)"
  by (auto simp: ages_def locked_apply locked_set_def set_activating_def modify_apply dm_call_apply tick_apply split: prod.splits)

lemma ages_amtinfo [ages_rules]: "ages (ExecuteAMTInfo env)"
  using withinD [OF within_amtinfo_tries] unfolding ExecuteAMTInfo_def ages_def by blast

lemma ages_trigger [ages_rules]: "ages (triggerDeactivationAsync h r p)"
  by (auto simp: ages_def trigger_apply split: if_splits)

lemma ages_Retrieve [ages_rules]: "ages (RetrieveActivationDetails env h rps)"
proof -
  have ge: "(\<And>x. ages (i x)) \<Longrightarrow> (\<And>x. ages (l x)) \<Longrightarrow> ages (case e of FailedPrecondition x \<Rightarrow> i x | OtherError x \<Rightarrow> l x)"
    for i l :: "string \<Rightarrow> (pma, unit) action" and e
    by (simp split: grpc_error.split)
  have rep: "ages (reportActivationResult env h st)" for st
    unfolding reportActivationResult_def Let_def by (intro ages_rules)
  have han: "ages (handleConnectingState env h st r p)" for st r p
    unfolding handleConnectingState_def by (intro ages_rules)
  have sta: "ages (start_activation env h r resp)" for r resp
    unfolding start_activation_def ExecuteAMTActivate_def isProvisioned_def ras_up_def Let_def by (intro ages_rules)
  show ?thesis
    unfolding RetrieveActivationDetails_def act_on_ras_def Let_def by (intro ages_rules ge rep han sta)
qed

lemma mark_check_apply: "\<exists>w' now. mark_check env w = (Ok (), w') \<and> clock_ns w \<le> now \<and> lastCheckTimestamp w' = time_Unix now \<and> clock_ns w' = now"
  by (simp add: mark_check_def andthen_apply time_Now_apply modify_apply)

lemma Retrieve_no_crash: "RetrieveActivationDetails env h rps w \<noteq> (Crash e, w')"
  using behavesD [OF behaves_Retrieve] by blast

definition checked_since :: "int \<Rightarrow> pma \<Rightarrow> bool" where
  "checked_since t w \<longleftrightarrow> t \<le> clock_ns w \<and> time_Unix t \<le> lastCheckTimestamp w"

lemma activation_op_checks:
  assumes "activation_op env confs w = (r, w')" "t \<le> clock_ns w"
  shows "(\<forall>e. r \<noteq> Crash e) \<and> checked_since t w'"
proof (cases "isAMTEnabled w = 1")
  case False
  with assms mark_check_apply [of env w] show ?thesis
    by (auto simp: activation_op_def andthen_apply asks_apply checked_since_def intro: time_Unix_mono)
next
  case True
  obtain tok where g: "GetAuthContext env (AccessTokenPath confs) w = (Ok tok, w)" using GetAuthContext_Ok by blast
  obtain r1 w1 where a: "attempt (RetrieveActivationDetails env (GUID confs) (RPSAddress confs)) w = (r1, w1)" by fastforce
  have r1: "\<exists>x. r1 = Ok x" using a by (auto simp: attempt_apply Retrieve_no_crash split: prod.splits outcome.splits)
  have "t \<le> clock_ns w1" using agesD [OF ages_attempt [OF ages_Retrieve] a] assms(2) by simp
  moreover obtain x where x: "r1 = Ok x" using r1 by blast
  obtain w2 now where m: "mark_check env w1 = (Ok (), w2)" "clock_ns w1 \<le> now" "lastCheckTimestamp w2 = time_Unix now"
    "clock_ns w2 = now" using mark_check_apply by blast
  have "w' = w2 \<and> (\<forall>e. r \<noteq> Crash e)"
    using assms(1) True g a x m(1)
    by (auto simp: activation_op_def andthen_apply asks_apply ret_apply fail_apply split: sum.splits if_splits)
  ultimately show ?thesis using m unfolding checked_since_def by (auto intro: time_Unix_mono)
qed

lemma retry_establishes:
  assumes "\<And>w r w'. I w \<Longrightarrow> m w = (r, w') \<Longrightarrow> (\<forall>e. r \<noteq> Crash e) \<and> I w' \<and> Q w'"
  shows "I w \<Longrightarrow> retry n m w = (r, w') \<Longrightarrow> (\<forall>e. r \<noteq> Crash e) \<and> I w' \<and> Q w'"
proof (induction n arbitrary: w)
  case 0
  then show ?case using assms by simp
next
  case (Suc n)
  obtain r1 w1 where m: "m w = (r1, w1)" by fastforce
  note p = assms [OF Suc.prems(1) m]
  show ?case
  proof (cases r1)
    case (Err e)
    then have "retry n m w1 = (r, w')" using Suc.prems(2) m by (simp add: andthen_apply attempt_apply)
    then show ?thesis using Suc.IH p by blast
  qed (use Suc.prems(2) m p in \<open>auto simp: andthen_apply attempt_apply ret_apply\<close>)
qed

text \<open>A turn of the activation loop ends normally, whatever the service and the commands answer, and
  leaves a check time that is not before its start: the failure of an activation does not make the
  agent unhealthy.\<close>

theorem activation_cycle_keeps_healthy:
  "\<exists>w'. activation_cycle env confs w = (Ok (), w') \<and> time_Unix (clock_ns w) \<le> lastCheckTimestamp w'"
proof -
  let ?n = "min MAX_RETRIES (attempts_left env (interactions w))"
  obtain r w1 where a: "retry ?n (activation_op env confs) w = (r, w1)" by fastforce
  have "(\<forall>e. r \<noteq> Crash e) \<and> clock_ns w \<le> clock_ns w1 \<and> checked_since (clock_ns w) w1"
    by (rule retry_establishes [OF _ _ a])
       (use activation_op_checks checked_since_def in \<open>blast, simp\<close>)
  then show ?thesis
    using a by (cases r) (simp_all add: activation_cycle_def updateWithRetry_def andthen_apply asks_apply attempt_apply
        ret_apply time_Now_apply modify_apply checked_since_def)
qed

text \<open>The status loop reports ready exactly while an activation is in progress or the last check is
  at most two intervals old, and then goes on, also when the status service does not answer.\<close>

theorem status_cycle_reports:
  "\<exists>w'. status_cycle env compare w = (Ok (), w') \<and> (\<exists>now \<ge> clock_ns w. status_sent w' = status_sent w @
     [ReportStatusRequest AGENT_NAME (if isActivationInProgress (cli w) \<or> time_Unix now - lastCheckTimestamp w \<le> 2 * compare
        then STATUS_READY else STATUS_NOT_READY)])"
proof -
  have s: "\<exists>r w'. sendStatusRequest env a st v = (r, w') \<and> (\<forall>e. r \<noteq> Crash e) \<and> status_sent w' = status_sent v @ [ReportStatusRequest a st]"
    for a st and v :: pma
    by (cases "status_call env (interactions v) (ReportStatusRequest a st)")
       (simp_all add: sendStatusRequest_def status_rpc_def andthen_apply wrap_apply modify_apply tick_apply ret_apply fail_apply)
  have i: "\<exists>w'. ignore (sendStatusRequest env a st) v = (Ok (), w') \<and> status_sent w' = status_sent v @ [ReportStatusRequest a st]"
    for a st and v :: pma
    using s [of a st v] by (auto simp: ignore_apply split: outcome.splits)
  define w1 where "w1 = snd (time_Now env w)"
  have w1: "time_Now env w = (Ok (clock_ns w1), w1)" "clock_ns w \<le> clock_ns w1" "status_sent w1 = status_sent w"
    by (simp_all add: w1_def time_Now_apply)
  show ?thesis
    using i [of AGENT_NAME STATUS_READY w1] i [of AGENT_NAME STATUS_NOT_READY w1] w1
    unfolding status_cycle_def andthen_apply asks_apply SendStatusReady_def SendStatusNotReady_def
    by (auto simp: if_app intro!: exI [of _ "clock_ns w1"])
qed

text \<open>When the program is told to end before it is connected, it does not end normally: the client is
  nil and reporting the status dereferences it.\<close>

theorem pma_start_cancelled:
  assumes "GetAuthConfig env None w = (Ok tls, w1)" "ctx_done env (interactions w1)"
  shows "\<exists>w'. pma_start env confs w = Some (Crash ''invalid memory address or nil pointer dereference'', w')"
proof -
  have c: "connect_round env (ServiceURL confs) w1 = (Ok (Some False), snd (tick env tickerInterval (ctx_done env) w1))"
    using assms(2) by (simp add: connect_round_def andthen_apply tick_apply ret_apply)
  then have "ConnectToDMManager env (ServiceURL confs) w1 = Some (False, snd (tick env tickerInterval (ctx_done env) w1))"
    by (subst ConnectToDMManager.simps) simp
  moreover have op: "\<exists>w'. report_op env False confs v = (Crash ''invalid memory address or nil pointer dereference'', w')" for v
  proof -
    obtain tok where "GetAuthContext env (AccessTokenPath confs) v = (Ok tok, v)" using GetAuthContext_Ok by blast
    then show ?thesis by (auto simp: report_op_def andthen_apply crash_apply)
  qed
  have "\<exists>w'. retry n (report_op env False confs) v = (Crash ''invalid memory address or nil pointer dereference'', w')" for n v
    using op [of v] by (cases n) (auto simp: andthen_apply attempt_apply)
  ultimately show ?thesis
    using assms(1) by (simp add: pma_start_def backoff_Retry_def andthen_apply asks_apply)
qed

text \<open>A host without the driver is reported as disabled, and the report then counts as failed: the case that
  means to end the reporting is only reached when the report itself fails.\<close>

lemma missing_driver_is_an_error:
  assumes "ExecuteAMTInfo env w = (Ok (output, Some e), w1)" "\<And>n q. report_status_rpc env n q = None"
  shows "\<exists>w'. ReportAMTStatus env hostID w = (Err (''failed to execute `rpc amtinfo` command: '' @ e), w') \<and>
    dm_sent w' = dm_sent w @ [AMTStatusRequest hostID AMT_DISABLED []]"
proof -
  have "dm_sent w1 = dm_sent w"
    using appendsD [OF dm_sent_commands(1) assms(1), of "\<lambda>_. False"] by (auto simp: grown_def list_all_iff)
  with assms show ?thesis by (simp add: ReportAMTStatus_def andthen_apply Let_def dm_call_apply tick_apply fail_apply)
qed

section \<open>Concrete runs\<close>

definition amt_up :: process_result where
  "amt_up = \<lparr>Stdout = [], Stderr = [], Combined = ''RAS Remote Status : connected'', exit_error = None\<rparr>"

definition demo_pma_env :: pma_env where
  "demo_pma_env = \<lparr>host_cwd = [], os_Environ = [''PATH=/bin''], process = (\<lambda>n argv e d. (amt_up, d)), delay = (\<lambda>_. 0),
     status_call = (\<lambda>_ _. Inr 10), dial_error = (\<lambda>_ _. None), attempts_left = (\<lambda>_. 0), SystemCertPool = (\<lambda>_. Inr []),
     PMA_BINARY_PATH = False, report_status_rpc = (\<lambda>_ _. None),
     activation_rpc = (\<lambda>_ _. Inr \<lparr>Operation = ACTIVATE, ActivationProfile = ''p'', ActionPassword = ''pw''\<rparr>),
     report_result_rpc = (\<lambda>_ _. None), ctx_done = (\<lambda>_. True)\<rparr>"

definition demo_pma :: pma where
  "demo_pma = \<lparr>disk = \<lparr>tree = (\<lambda>_. None), nlink = (\<lambda>_. 1)\<rparr>, clock_ns = 0, interactions = 0, processes = [], status_sent = [],
     cli = newClient, launched = [], dm_sent = [], isAMTEnabled = 1, isModuleAndServiceInitialized = 1,
     lastCheckTimestamp = 0, lastActivationCheckTimestamp = 0\<rparr>"

lemma demo_ras: "parseAMTInfoField ''RAS Remote Status : connected'' ''RAS Remote Status'' = Some ''connected''"
  by (simp add: parseAMTInfoField_def scanner_lines_def TrimSuffix_def HasSuffix_def TrimSpace_def TrimFunc_def is_space_def)

lemma demo_connected: "ToLower (TrimSpace ''connected'') = ''connected''"
  by code_simp

lemma demo_amtinfo: "ExecuteAMTInfo demo_pma_env w = (Ok (''RAS Remote Status : connected'', None),
    w\<lparr>interactions := Suc (interactions w), processes := processes w @ [(AMTInfo_argv, [''PATH=/bin''])]\<rparr>)"
  by (simp add: ExecuteAMTInfo_def numeral_3_eq_3 demo_pma_env_def pma_env.defs andthen_apply run_process_apply amt_up_def
      ret_apply cmd_Environ_def dedupEnv_def env_key_def)

definition demo_pma_end :: pma where
  "demo_pma_end = demo_pma\<lparr>interactions := 3, processes := [(AMTInfo_argv, [''PATH=/bin''])],
     cli := lock_reset ''connected'' newClient,
     dm_sent := [ActivationRequest ''h'', ActivationResultRequest ''h'' ACTIVATED]\<rparr>"

lemma demo_retrieve: "RetrieveActivationDetails demo_pma_env ''h'' ''rps'' demo_pma = (Ok (), demo_pma_end)"
proof -
  have a: "activation_rpc demo_pma_env n q = Inr \<lparr>Operation = ACTIVATE, ActivationProfile = ''p'', ActionPassword = ''pw''\<rparr>"
    and d: "delay demo_pma_env n = 0" and r: "report_result_rpc demo_pma_env n q = None" for n q
    by (simp_all add: demo_pma_env_def pma_env.defs)
  show ?thesis
    unfolding RetrieveActivationDetails_def act_on_ras_def Let_def
    by (simp add: andthen_apply dm_call_apply tick_apply a d r demo_amtinfo demo_ras demo_connected locked_set_def modify_apply
        reportActivationResult_def Let_def ret_apply demo_pma_end_def demo_pma_def)
qed

lemma RetrieveActivationDetails_refines_witness:
  "\<exists>new. launched demo_pma_end = launched demo_pma @ new \<and>
    (\<forall>gs. agent_step\<^sup>*\<^sup>* (cli demo_pma, Idle, gs) (cli demo_pma_end, Idle, gs @ map (\<lambda>_. Polling) new))"
  using RetrieveActivationDetails_refines [OF demo_retrieve] by blast

lemma ACTIVATED_only_when_connected_witness:
  "\<exists>resp. activation_rpc demo_pma_env 0 (ActivationRequest ''h'') = Inr resp \<and> Operation resp = ACTIVATE"
proof -
  have "interactions demo_pma = 0" by (simp add: demo_pma_def)
  then show ?thesis
    using ACTIVATED_only_when_connected [OF demo_retrieve,
        of "[ActivationRequest ''h'', ActivationResultRequest ''h'' ACTIVATED]"]
    by (auto simp: demo_pma_end_def demo_pma_def)
qed

lemma activation_processes_witness: "\<exists>ps. processes demo_pma_end = processes demo_pma @ ps"
  using activation_processes [OF demo_retrieve] by blast

lemma handleConnectingState_verdict_witness:
  "\<exists>w'. handleConnectingState demo_pma_env ''h'' ''connecting'' ''r'' ''p'' demo_pma = (Ok ACTIVATION_FAILED, w') \<and>
     launched w' = [(''h'', ''r'', ''p'')]"
proof -
  have "time_Now demo_pma_env demo_pma = (Ok 0, demo_pma\<lparr>interactions := 1, clock_ns := 0\<rparr>)"
    by (simp add: time_Now_apply demo_pma_def demo_pma_env_def pma_env.defs)
  from handleConnectingState_verdict [OF this, of "''h''" "''connecting''" "''r''" "''p''"] show ?thesis
    by (auto simp: demo_pma_def newClient_def deactivation_due_def)
qed

lemma one_deactivation_witness:
  "deactivationInProgress (snd (lock_trigger (snd (lock_enter 5 newClient)))) \<and> length [Polling] \<le> 1"
proof -
  let ?c = "snd (lock_enter 5 newClient)" and ?d = "snd (lock_trigger (snd (lock_enter 5 newClient)))"
  have 1: "agent_step (newClient, Idle, []) (?c, Between 5 (Some []), [])"
    by (rule enter) (simp add: lock_enter_def newClient_def)
  have 2: "agent_step (?c, Between 5 (Some []), []) (?c, Triggering, [])"
    by (rule direct) simp
  have 3: "agent_step (?c, Triggering, []) (?d, Idle, [] @ [Polling])"
    by (rule launch) (simp add: lock_trigger_def lock_enter_def newClient_def)
  have "agent_step\<^sup>*\<^sup>* (newClient, Idle, []) (?d, Idle, [Polling])"
    using 1 2 3 by (metis append_Nil converse_rtranclp_into_rtranclp rtranclp.rtrancl_refl)
  from one_deactivation [OF this] show ?thesis by simp
qed

lemma pma_start_cancelled_witness:
  "\<exists>w'. pma_start demo_pma_env \<lparr>LogLevel = ''info'', GUID = ''h'', ServiceURL = ''u'', HeartbeatInterval = 10,
     StatusEndpoint = ''unix://s'', MetricsEnabled = False, MetricsEndpoint = [], MetricsInterval = 0, RPSAddress = ''rps'',
     AccessTokenPath = ''/t''\<rparr> demo_pma = Some (Crash ''invalid memory address or nil pointer dereference'', w')"
proof -
  obtain tls w1 where g: "GetAuthConfig demo_pma_env None demo_pma = (Ok tls, w1)"
    by (simp add: GetAuthConfig_def andthen_apply wrap_apply tick_apply ret_apply demo_pma_env_def pma_env.defs)
  have "ctx_done demo_pma_env (interactions w1)" by (simp add: demo_pma_env_def pma_env.defs)
  from pma_start_cancelled [OF g this] show ?thesis .
qed

end
