(* ===== verification/Node_Agent.thy ===== *)
theory Node_Agent
  imports Complex_Main "HOL-Library.AList" Agent_Common Go_Url
begin

text \<open>
  The Node Agent: the status service with its tables of agents and network endpoints
  (\<^verbatim>\<open>cmd/status-service\<close>), the tokens of the agents of the node (\<^verbatim>\<open>internal/auth\<close>,
  \<^verbatim>\<open>internal/comms\<close>), the detection of a cluster and its kubeconfig (\<^verbatim>\<open>internal/cluster\<close>), the
  client of the host manager (\<^verbatim>\<open>internal/hostmgr_client\<close>), the configuration and the turns of the
  main program's loops.

  The tables are association lists: the order in which \<^verbatim>\<open>sync.Map.Range\<close> visits them is not fixed,
  and nothing here depends on it. Hashing, base64, JSON, JWT and floating-point parsing are functions
  of \<open>node_env\<close>.
\<close>

section \<open>The configuration\<close>

record NodeAgentConfig =
  nc_GUID :: string
  nc_LogLevel :: string
  OnboardingEnabled :: bool
  OnboardingURL :: string
  nc_Heartbeat :: int
  AccessTokenURL :: string
  RsTokenURL :: string
  TokenPath :: string
  ClientCredsPath :: string
  TokenClientNames :: "string list"
  StatusSocket :: string
  ServiceClients :: "string list"
  OutboundClients :: "string list"
  NetworkStatusInterval :: int
  NetworkEndpoints :: "(string \<times> string) list"
  DetectionEnabled :: bool
  DetectionInterval :: int
  ClusterKind :: string
  ClusterBinary :: string

definition K3S_DEFAULT_BINARY_PATH :: string where
  "K3S_DEFAULT_BINARY_PATH = ''/var/lib/rancher/k3s/bin/k3s''"

definition setDefaults :: "NodeAgentConfig \<Rightarrow> NodeAgentConfig" where
  "setDefaults cfg =
     (let c1 = (if nc_Heartbeat cfg \<le> 0 then cfg\<lparr>nc_Heartbeat := 10 * time_Second\<rparr> else cfg);
          interval = nc_Heartbeat c1 * 6;
          c2 = c1\<lparr>NetworkStatusInterval := (if interval > 60 * time_Second then 60 * time_Second else interval)\<rparr>;
          c3 = (if DetectionInterval c2 \<le> 0 then c2\<lparr>DetectionInterval := 30 * time_Second\<rparr> else c2)
      in if ClusterKind c3 \<noteq> [] then c3
         else c3\<lparr>ClusterKind := ''k3s'', ClusterBinary := K3S_DEFAULT_BINARY_PATH\<rparr>)"

definition validate_config :: "NodeAgentConfig \<Rightarrow> string option" where
  "validate_config cfg =
     (if OnboardingEnabled cfg \<and> OnboardingURL cfg = [] then Some ''config validation err: onboarding.serviceURL is required''
      else if AccessTokenURL cfg = [] then Some ''config validation err: auth.AccessTokenURL is required''
      else if RsTokenURL cfg = [] then Some ''config validation err: auth.RsTokenURL is required''
      else if TokenPath cfg = [] then Some ''config validation err: auth.AccessTokenPath is required''
      else if nc_GUID cfg = [] then Some ''config validation err: GUID is required''
      else None)"

definition readConfigFile :: "'e host_env_scheme \<Rightarrow> (string \<Rightarrow> string + NodeAgentConfig) \<Rightarrow> string \<Rightarrow> ('h host_scheme, NodeAgentConfig) action" where
  "readConfigFile env yaml_Unmarshal path =
     andthen (on_disk (ReadFileNoLinks (host_cwd env) path)) (\<lambda>yamlFile. lift_result (yaml_Unmarshal yamlFile))"

definition node_config_New :: "'e host_env_scheme \<Rightarrow> (string \<Rightarrow> string + NodeAgentConfig) \<Rightarrow> string \<Rightarrow> ('h host_scheme, NodeAgentConfig) action" where
  "node_config_New env yaml_Unmarshal cfgPath =
     (if cfgPath = [] then fail ''config validation error: config file required''
      else andthen (readConfigFile env yaml_Unmarshal cfgPath) (\<lambda>cfg0. let cfg = setDefaults cfg0 in
           case validate_config cfg of Some e \<Rightarrow> fail e | None \<Rightarrow> ret cfg))"

section \<open>The state\<close>

record StatusValue =
  sv_Status :: Status_pb
  Timestamp :: int

record ClientAuthToken =
  ClientName :: string
  cat_Token :: string
  Expiry :: int

datatype InstanceStatus = INSTANCE_STATUS_ERROR | INSTANCE_STATUS_RUNNING | INSTANCE_STATUS_INITIALIZING

datatype hm_request = InstanceUpdate string InstanceStatus string | HostSystemInfo string string

record node_request =
  nr_Method :: string
  nr_Base :: string
  nr_Path :: string
  nr_Header :: "(string \<times> string) list"
  nr_Form :: "(string \<times> string) list"

record node_response =
  nr_StatusCode :: int
  nr_Status :: string
  nr_Body :: "string + string"

record agent_node = host +
  statusMap :: "(string \<times> StatusValue) list"
  nwStatusMap :: "(string \<times> StatusValue) list"
  known_agents :: "string list"
  statusInterval :: int
  TokenClients :: "ClientAuthToken list"
  lastKubeconfig :: "string option"
  lastKubeconfigHash :: string
  hm_sent :: "hm_request list"
  initTimestamp :: int

record node_env = host_env +
  validate_message :: "status_request \<Rightarrow> string option"
  http_Get :: "nat \<Rightarrow> url \<Rightarrow> string + int"
  oci_repository :: "string \<Rightarrow> string option"
  oras_Fetch :: "nat \<Rightarrow> string \<Rightarrow> string \<Rightarrow> string option"
  node_Do :: "nat \<Rightarrow> node_request \<Rightarrow> string + node_response"
  jwt_claim_exp :: "string \<Rightarrow> string + int option"
  json_token :: "string \<Rightarrow> string + string option"
  sha256_hex :: "string \<Rightarrow> string"
  base64 :: "string \<Rightarrow> string"
  hm_call :: "nat \<Rightarrow> hm_request \<Rightarrow> string option"
  hm_close :: "nat \<Rightarrow> string option"
  AddDate_10y :: "int \<Rightarrow> int"
  ParseFloat :: "string \<Rightarrow> string + rat"
  node_done :: "nat \<Rightarrow> bool"
  remove_socket :: "nat \<Rightarrow> string option"
  listen_socket :: "nat \<Rightarrow> string option"

section \<open>The status service\<close>

definition now_seconds :: "'e host_env_scheme \<Rightarrow> ('h host_scheme, int) action" where
  "now_seconds env = andthen (time_Now env) (\<lambda>t. ret (time_Unix t))"

definition ReportStatus :: "'e node_env_scheme \<Rightarrow> string \<Rightarrow> Status_pb \<Rightarrow> (agent_node, unit) action" where
  "ReportStatus env AgentName status =
     (case validate_message env (ReportStatusRequest AgentName status) of Some e \<Rightarrow> fail e
      | None \<Rightarrow> andthen (asks known_agents) (\<lambda>agents.
          if AgentName \<notin> set agents then fail (''agent '' @ AgentName @ '' not known'')
          else andthen (now_seconds env) (\<lambda>now.
               modify (\<lambda>w. w\<lparr>statusMap := AList.update AgentName \<lparr>sv_Status = status, Timestamp = now\<rparr> (statusMap w)\<rparr>))))"

definition GetStatusInterval :: "'e node_env_scheme \<Rightarrow> string \<Rightarrow> (agent_node, int) action" where
  "GetStatusInterval env AgentName =
     (case validate_message env (GetStatusIntervalRequest AgentName) of Some e \<Rightarrow> fail e
      | None \<Rightarrow> asks (\<lambda>w. statusInterval w div time_Second))"

definition init_table :: "'e node_env_scheme \<Rightarrow> (string \<Rightarrow> StatusValue \<Rightarrow> agent_node \<Rightarrow> agent_node) \<Rightarrow> string list \<Rightarrow> (agent_node, unit) action" where
  "init_table env store names = foreach (\<lambda>name. andthen (now_seconds env) (\<lambda>now.
     modify (store name \<lparr>sv_Status = STATUS_UNSPECIFIED, Timestamp = now\<rparr>))) names"

definition store_status :: "string \<Rightarrow> StatusValue \<Rightarrow> agent_node \<Rightarrow> agent_node" where
  "store_status k v w = w\<lparr>statusMap := AList.update k v (statusMap w)\<rparr>"

definition store_nw :: "string \<Rightarrow> StatusValue \<Rightarrow> agent_node \<Rightarrow> agent_node" where
  "store_nw k v w = w\<lparr>nwStatusMap := AList.update k v (nwStatusMap w)\<rparr>"

definition InitStatusService :: "'e node_env_scheme \<Rightarrow> NodeAgentConfig \<Rightarrow> (agent_node, unit) action" where
  "InitStatusService env confs =
     andthen (modify (\<lambda>w. w\<lparr>known_agents := ServiceClients confs, statusInterval := nc_Heartbeat confs,
                            statusMap := [], nwStatusMap := []\<rparr>)) (\<lambda>_.
     andthen (init_table env store_status (ServiceClients confs)) (\<lambda>_.
     init_table env store_nw (map fst (NetworkEndpoints confs))))"

definition service_active :: "'e node_env_scheme \<Rightarrow> string \<Rightarrow> (agent_node, bool) action" where
  "service_active env service = andthen (run_process env [''systemctl'', ''is-active'', service] (os_Environ env)) (\<lambda>res.
     ret (exit_error res = None \<and> Stdout res = ''active'' @ [nl]))"

text \<open>The number of active services, the number of services, and the names of the others.\<close>

fun CheckServicesStatus :: "'e node_env_scheme \<Rightarrow> string list \<Rightarrow> (agent_node, nat \<times> nat \<times> string list) action" where
  "CheckServicesStatus env [] = ret (0, 0, [])"
| "CheckServicesStatus env (s # ss) = andthen (service_active env s) (\<lambda>up.
     andthen (CheckServicesStatus env ss) (\<lambda>(active, n, unhealthy).
     ret (if up then (Suc active, Suc n, unhealthy) else (active, Suc n, s # unhealthy))))"

definition fresh :: "int \<Rightarrow> int \<Rightarrow> StatusValue \<Rightarrow> bool" where
  "fresh now limit v = (now - Timestamp v \<le> limit \<and> sv_Status v = STATUS_READY)"

definition count_fresh :: "int \<Rightarrow> int \<Rightarrow> (string \<times> StatusValue) list \<Rightarrow> nat" where
  "count_fresh now limit al = length (filter (\<lambda>(k, v). fresh now limit v) al)"

definition GatherStatus :: "'e node_env_scheme \<Rightarrow> NodeAgentConfig \<Rightarrow> (agent_node, string \<times> bool) action" where
  "GatherStatus env confs = andthen (now_seconds env) (\<lambda>currentTime.
     andthen (CheckServicesStatus env (OutboundClients confs)) (\<lambda>(active, totalServices, unhealthy).
     andthen (asks nwStatusMap) (\<lambda>nw. andthen (asks statusMap) (\<lambda>sm.
     let nwInterval = NetworkStatusInterval confs div time_Second;
         hbInterval = nc_Heartbeat confs div time_Second;
         counter = 1 + active + count_fresh currentTime (nwInterval + 2 * hbInterval) nw
                     + count_fresh currentTime (2 * hbInterval) sm;
         total_count = 1 + totalServices + length nw + length sm
     in ret (show_nat counter @ '' of '' @ show_nat total_count @ '' components running'', counter = total_count)))))"

definition oci_tag :: "string \<Rightarrow> string" where
  "oci_tag endpoint = (let parts = Split endpoint (CHR '':'') in if length parts > 1 then last parts else ''main'')"

definition ProbeEndpoint :: "'e node_env_scheme \<Rightarrow> string \<Rightarrow> (agent_node, unit) action" where
  "ProbeEndpoint env endpoint =
     (if HasPrefix endpoint ''oci://'' then
        (let ref = TrimPrefix endpoint ''oci://'' in
         case oci_repository env ref of Some e \<Rightarrow> fail e
         | None \<Rightarrow> andthen (tick env 0 (\<lambda>n. oras_Fetch env n ref (oci_tag endpoint))) (\<lambda>e.
             case e of None \<Rightarrow> ret () | Some e \<Rightarrow> fail e))
      else if HasPrefix endpoint ''https://'' \<or> HasPrefix endpoint ''http://'' then
        andthen (lift_result (url_Parse endpoint)) (\<lambda>u.
        andthen (andthen (tick env 0 (\<lambda>n. http_Get env n u)) lift_result) (\<lambda>code.
        if code = 200 then ret () else fail (''endpoint '' @ endpoint @ '' returned status '' @ show_int code)))
      else fail (''unsupported endpoint format: '' @ endpoint))"

fun PollNetworkEndpoints :: "'e node_env_scheme \<Rightarrow> (string \<times> string) list \<Rightarrow> (agent_node, unit) action" where
  "PollNetworkEndpoints env [] = ret ()"
| "PollNetworkEndpoints env ((name, u) # es) = andthen (tick env 0 (node_done env)) (\<lambda>cancelled.
     if cancelled then ret ()
     else andthen (attempt (ProbeEndpoint env u)) (\<lambda>r.
          andthen (now_seconds env) (\<lambda>now.
          andthen (modify (store_nw name \<lparr>sv_Status = (case r of Inl _ \<Rightarrow> STATUS_NOT_READY | Inr _ \<Rightarrow> STATUS_READY), Timestamp = now\<rparr>))
            (\<lambda>_. PollNetworkEndpoints env es))))"

section \<open>Tokens\<close>

definition token_file :: "NodeAgentConfig \<Rightarrow> string \<Rightarrow> string" where
  "token_file confs client = filepath_Join (filepath_Join (TokenPath confs) client) ''access_token''"

text \<open>\<^verbatim>\<open>os.WriteFile\<close> follows a link in the last component.\<close>

definition PersistToken :: "'e node_env_scheme \<Rightarrow> string \<Rightarrow> string \<Rightarrow> (agent_node, unit) action" where
  "PersistToken env token tokenFile = on_disk (disk_WriteFile (host_cwd env) tokenFile token)"

definition REFRESH_INTERVAL :: int where "REFRESH_INTERVAL = 600 * time_Second"

definition IsTokenRefreshRequired :: "'e host_env_scheme \<Rightarrow> int \<Rightarrow> ('h host_scheme, bool) action" where
  "IsTokenRefreshRequired env tokenExpiry = andthen (time_Now env) (\<lambda>now. ret (now > tokenExpiry - REFRESH_INTERVAL))"

text \<open>The zero time of Go.\<close>

definition zero_Time :: int where "zero_Time = - 62135596800 * time_Second"

definition NewTokenManager :: "NodeAgentConfig \<Rightarrow> ClientAuthToken list" where
  "NewTokenManager confs = map (\<lambda>n. \<lparr>ClientName = n, cat_Token = [], Expiry = zero_Time\<rparr>) (TokenClientNames confs)"

text \<open>The claim must be a number.\<close>

definition GetExpiryFromJWT :: "'e node_env_scheme \<Rightarrow> string \<Rightarrow> ('s, int) action" where
  "GetExpiryFromJWT env jwtTokenStr = (case jwt_claim_exp env jwtTokenStr of
     Inl e \<Rightarrow> fail e
   | Inr None \<Rightarrow> crash ''interface conversion: interface {} is not float64''
   | Inr (Some s) \<Rightarrow> ret (s * time_Second))"

definition set_client :: "nat \<Rightarrow> (ClientAuthToken \<Rightarrow> ClientAuthToken) \<Rightarrow> (agent_node, unit) action" where
  "set_client i f = modify (\<lambda>w. w\<lparr>TokenClients := (TokenClients w)[i := f (TokenClients w ! i)]\<rparr>)"

definition populate_client :: "'e node_env_scheme \<Rightarrow> NodeAgentConfig \<Rightarrow> nat \<Rightarrow> (agent_node, unit) action" where
  "populate_client env confs i = andthen (asks (\<lambda>w. TokenClients w ! i)) (\<lambda>client.
     andthen (attempt (on_disk (ReadFileNoLinks (host_cwd env) (token_file confs (ClientName client))))) (\<lambda>r. case r of
       Inl _ \<Rightarrow> ret ()
     | Inr tokenData \<Rightarrow>
         andthen (set_client i (\<lambda>c. c\<lparr>cat_Token := tokenData\<rparr>)) (\<lambda>_.
         andthen (attempt (GetExpiryFromJWT env tokenData)) (\<lambda>e. case e of
           Inl _ \<Rightarrow> crash ''exit status 1''
         | Inr expiry \<Rightarrow> set_client i (\<lambda>c. c\<lparr>Expiry := expiry\<rparr>)))))"

definition PopulateTokenClients :: "'e node_env_scheme \<Rightarrow> NodeAgentConfig \<Rightarrow> (agent_node, unit) action" where
  "PopulateTokenClients env confs = andthen (asks (\<lambda>w. length (TokenClients w))) (\<lambda>n.
     foreach (populate_client env confs) [0..<n])"

definition GetNodeAgentToken :: "'e node_env_scheme \<Rightarrow> NodeAgentConfig \<Rightarrow> (agent_node, string) action" where
  "GetNodeAgentToken env confs =
     andthen (attempt (on_disk (ReadFileNoLinks (host_cwd env) (token_file confs ''node-agent'')))) (\<lambda>r.
     ret (case r of Inl _ \<Rightarrow> [] | Inr t \<Rightarrow> TrimSpace t))"

section \<open>The identity provider\<close>

text \<open>A client is its base URL; None is the nil client of a URL that does not parse.\<close>

definition GetAuthCli :: "string \<Rightarrow> string option" where
  "GetAuthCli idpURL = (case url_Parse (''https://'' @ idpURL) of Inl _ \<Rightarrow> None | Inr _ \<Rightarrow> Some (''https://'' @ idpURL))"

definition base_url :: "string option \<Rightarrow> (agent_node, string) action" where
  "base_url c = (case c of Some u \<Rightarrow> ret u | None \<Rightarrow> crash ''invalid memory address or nil pointer dereference'')"

definition idp_Do :: "'e node_env_scheme \<Rightarrow> node_request \<Rightarrow> (agent_node, node_response) action" where
  "idp_Do env req = andthen (tick env 0 (\<lambda>n. node_Do env n req)) lift_result"

definition ProvisionAccessToken :: "'e node_env_scheme \<Rightarrow> string option \<Rightarrow> NodeAgentConfig \<Rightarrow> (agent_node, string \<times> int) action" where
  "ProvisionAccessToken env c confs =
     andthen (wrap ''failed to read client id file: ''
       (on_disk (ReadFileNoLinks (host_cwd env) (filepath_Join (ClientCredsPath confs) ''client_id'')))) (\<lambda>clientId.
     andthen (wrap ''failed to read client secret file: ''
       (on_disk (ReadFileNoLinks (host_cwd env) (filepath_Join (ClientCredsPath confs) ''client_secret'')))) (\<lambda>secret.
     andthen (base_url c) (\<lambda>base.
     andthen (idp_Do env \<lparr>nr_Method = ''POST'', nr_Base = base, nr_Path = ''/realms/master/protocol/openid-connect/token'',
        nr_Header = [(''Content-Type'', ''application/x-www-form-urlencoded'')],
        nr_Form = [(''grant_type'', ''client_credentials''), (''client_id'', TrimSpace clientId),
                   (''client_secret'', TrimSpace secret)]\<rparr>) (\<lambda>response.
     andthen (wrap ''failed to read resp.Body:'' (lift_result (nr_Body response))) (\<lambda>bodyBytes.
     andthen (wrap ''failed to unmarshal response:'' (lift_result (json_token env bodyBytes))) (\<lambda>tok. case tok of
       None \<Rightarrow> crash ''interface conversion: interface {} is nil, not string''
     | Some tk \<Rightarrow> andthen (wrap ''failed to get expiry from token:'' (GetExpiryFromJWT env tk)) (\<lambda>expiry. ret (tk, expiry))))))))"

definition ProvisionReleaseServiceToken ::
  "'e node_env_scheme \<Rightarrow> string option \<Rightarrow> string \<Rightarrow> (agent_node, string \<times> int) action" where
  "ProvisionReleaseServiceToken env c accessToken =
     andthen (base_url c) (\<lambda>base.
     andthen (idp_Do env \<lparr>nr_Method = ''GET'', nr_Base = base, nr_Path = ''/token'',
        nr_Header = [(''Authorization'', ''Bearer '' @ accessToken)], nr_Form = []\<rparr>) (\<lambda>response.
     andthen (wrap ''failed to read resp.Body:'' (lift_result (nr_Body response))) (\<lambda>relToken.
     if nr_StatusCode response \<noteq> 200 then fail (''response code: '' @ nr_Status response)
     else andthen (if relToken = ''anonymous'' then andthen (time_Now env) (\<lambda>now. ret (AddDate_10y env now))
                   else wrap ''failed to parse jwt release token to get expiry :'' (GetExpiryFromJWT env relToken)) (\<lambda>expiry.
          ret (relToken, expiry)))))"

definition ProvisionToken :: "'e node_env_scheme \<Rightarrow> string option \<Rightarrow> NodeAgentConfig \<Rightarrow> string \<Rightarrow> (agent_node, string \<times> int) action" where
  "ProvisionToken env c confs name =
     andthen (if name = ''release-service''
              then andthen (GetNodeAgentToken env confs) (ProvisionReleaseServiceToken env c)
              else ProvisionAccessToken env c confs) (\<lambda>(token, expiry).
     andthen (PersistToken env token (token_file confs name)) (\<lambda>_. ret (token, expiry)))"

definition provision_client :: "'e node_env_scheme \<Rightarrow> string option \<Rightarrow> string option \<Rightarrow> NodeAgentConfig \<Rightarrow> nat \<Rightarrow> string \<Rightarrow> (agent_node, unit) action" where
  "provision_client env releaseCli authCli confs i name =
     andthen (attempt (ProvisionToken env (if name = ''release-service'' then releaseCli else authCli) confs name)) (\<lambda>r. case r of
       Inl _ \<Rightarrow> ret ()
     | Inr (token, expiry) \<Rightarrow> set_client i (\<lambda>c. c\<lparr>cat_Token := token, Expiry := expiry\<rparr>))"

definition refresh_client :: "'e node_env_scheme \<Rightarrow> string option \<Rightarrow> string option \<Rightarrow> NodeAgentConfig \<Rightarrow> nat \<Rightarrow> (agent_node, unit) action" where
  "refresh_client env releaseCli authCli confs i = andthen (asks (\<lambda>w. TokenClients w ! i)) (\<lambda>tokenClient.
     if cat_Token tokenClient \<noteq> [] then
       andthen (IsTokenRefreshRequired env (Expiry tokenClient)) (\<lambda>required.
       if required then provision_client env releaseCli authCli confs i (ClientName tokenClient) else ret ())
     else provision_client env releaseCli authCli confs i (ClientName tokenClient))"

definition createRefreshTokens :: "'e node_env_scheme \<Rightarrow> string option \<Rightarrow> string option \<Rightarrow> NodeAgentConfig \<Rightarrow> (agent_node, unit) action" where
  "createRefreshTokens env releaseCli authCli confs = andthen (asks (\<lambda>w. length (TokenClients w))) (\<lambda>n.
     foreach (refresh_client env releaseCli authCli confs) [0..<n])"

text \<open>The start of the token loop: the clients, their tokens from an earlier run, the release service.\<close>

definition start_tokens :: "'e node_env_scheme \<Rightarrow> NodeAgentConfig \<Rightarrow> (agent_node, unit) action" where
  "start_tokens env confs =
     andthen (modify (\<lambda>w. w\<lparr>TokenClients := NewTokenManager confs\<rparr>)) (\<lambda>_.
     andthen (PopulateTokenClients env confs) (\<lambda>_.
     andthen (modify (\<lambda>w. w\<lparr>TokenClients := TokenClients w @ [\<lparr>ClientName = ''release-service'', cat_Token = [], Expiry = zero_Time\<rparr>]\<rparr>)) (\<lambda>_.
     createRefreshTokens env (GetAuthCli (RsTokenURL confs)) (GetAuthCli (AccessTokenURL confs)) confs)))"

end
