(* ===== verification/Node_Cluster.thy ===== *)
theory Node_Cluster
  imports Node_Agent Go_Time
begin

text \<open>
  The Node Agent's reports to the host manager: the detection of a cluster and the life of its
  kubeconfig (\<^verbatim>\<open>internal/cluster\<close>), the client (\<^verbatim>\<open>internal/hostmgr_client\<close>), and the turns of the loops
  of \<^verbatim>\<open>cmd/node-agent/node-agent.go\<close>.
\<close>

section \<open>The client of the host manager\<close>

definition hm_Connect :: "'e node_env_scheme \<Rightarrow> string \<Rightarrow> (agent_node, unit) action" where
  "hm_Connect env addr = andthen (tick env 0 (\<lambda>n. dial_error env n addr)) (\<lambda>e.
     case e of None \<Rightarrow> ret () | Some m \<Rightarrow> fail (''connection to '' @ addr @ '' failed: '' @ m))"

text \<open>None for the nil client that is returned with an error.\<close>

definition ConnectToHostMgr :: "'e node_env_scheme \<Rightarrow> string \<Rightarrow> (agent_node, string option) action" where
  "ConnectToHostMgr env addr = andthen (attempt (backoff_Retry env (hm_Connect env addr))) (\<lambda>r.
     ret (case r of Inl _ \<Rightarrow> None | Inr _ \<Rightarrow> Some addr))"

definition hm_rpc :: "'e node_env_scheme \<Rightarrow> hm_request \<Rightarrow> (agent_node, unit) action" where
  "hm_rpc env req = andthen (modify (\<lambda>w. w\<lparr>hm_sent := hm_sent w @ [req]\<rparr>)) (\<lambda>_.
     andthen (tick env 0 (\<lambda>n. hm_call env n req)) (\<lambda>e. case e of None \<Rightarrow> ret () | Some e \<Rightarrow> fail e))"

definition NUM_RETRIES :: nat where "NUM_RETRIES = 3"

text \<open>The frame of both updates: the call with its retries, and a new connection after the last failure.\<close>

definition hm_update :: "'e node_env_scheme \<Rightarrow> string option \<Rightarrow> hm_request \<Rightarrow> (agent_node, unit) action" where
  "hm_update env client req = (case client of
     None \<Rightarrow> crash ''invalid memory address or nil pointer dereference''
   | Some addr \<Rightarrow> andthen (asks interactions) (\<lambda>n.
       andthen (attempt (retry (min NUM_RETRIES (attempts_left env n)) (hm_rpc env req))) (\<lambda>r. case r of
         Inr _ \<Rightarrow> ret ()
       | Inl e \<Rightarrow> andthen (tick env 0 (hm_close env)) (\<lambda>ce. case ce of
            Some ce \<Rightarrow> fail ce
          | None \<Rightarrow> andthen (hm_Connect env addr) (\<lambda>_. fail e)))))"

definition UpdateInstanceStatus :: "'e node_env_scheme \<Rightarrow> string option \<Rightarrow> string \<Rightarrow> InstanceStatus \<Rightarrow> string \<Rightarrow> (agent_node, unit) action" where
  "UpdateInstanceStatus env client guid insStatus insDetails = hm_update env client (InstanceUpdate guid insStatus insDetails)"

definition hm_UpdateClusterStatus :: "'e node_env_scheme \<Rightarrow> string option \<Rightarrow> string \<Rightarrow> string \<Rightarrow> (agent_node, unit) action" where
  "hm_UpdateClusterStatus env client guid kubeconfig = hm_update env client (HostSystemInfo guid kubeconfig)"

section \<open>The cluster of the node\<close>

record ClusterInfo =
  ci_Type :: string
  ci_Status :: string
  ci_Version :: string
  KubeconfigPath :: string

text \<open>Whether \<^verbatim>\<open>os.Stat\<close> fails because a component does not exist.\<close>

definition os_IsNotExist :: "'e host_env_scheme \<Rightarrow> string \<Rightarrow> ('h host_scheme, bool) action" where
  "os_IsNotExist env p = asks (\<lambda>w. resolve True False 40 (tree (disk w)) [] (components (host_cwd env) p) = Inl ENOENT)"

definition isServiceActive :: "'e node_env_scheme \<Rightarrow> string \<Rightarrow> (agent_node, bool) action" where
  "isServiceActive env serviceName =
     andthen (run_process env [''systemctl'', ''is-active'', serviceName] (os_Environ env)) (\<lambda>res.
     ret (exit_error res = None \<and> TrimSpace (Stdout res) = ''active''))"

fun any_active :: "'e node_env_scheme \<Rightarrow> string list \<Rightarrow> (agent_node, bool) action" where
  "any_active env [] = ret False"
| "any_active env (s # ss) = andthen (isServiceActive env s) (\<lambda>b. if b then ret True else any_active env ss)"

definition cluster_version :: "string \<Rightarrow> string" where
  "cluster_version output = (case Fields output of _ # _ # v # _ \<Rightarrow> TrimSpace v | _ \<Rightarrow> ''unknown'')"

definition detect_kind :: "'e node_env_scheme \<Rightarrow> string \<Rightarrow> string \<Rightarrow> string list \<Rightarrow> string \<Rightarrow> string \<Rightarrow> (agent_node, ClusterInfo) action" where
  "detect_kind env kind label services kubeconfig binaryPath =
     andthen (os_IsNotExist env binaryPath) (\<lambda>missing.
     if missing then fail (label @ '' binary not found at '' @ binaryPath)
     else andthen (run_process env [binaryPath, ''--version''] (os_Environ env)) (\<lambda>res.
       case exit_error res of Some e \<Rightarrow> fail (''failed to get '' @ label @ '' version: '' @ e)
       | None \<Rightarrow> andthen (any_active env services) (\<lambda>up.
           andthen (os_IsNotExist env kubeconfig) (\<lambda>noconf.
           andthen (time_Now env) (\<lambda>_.
           ret \<lparr>ci_Type = kind, ci_Status = (if up then ''running'' else ''stopped''),
                ci_Version = cluster_version (Stdout res), KubeconfigPath = (if noconf then [] else kubeconfig)\<rparr>)))))"

definition detectK3s :: "'e node_env_scheme \<Rightarrow> string \<Rightarrow> (agent_node, ClusterInfo) action" where
  "detectK3s env = detect_kind env ''k3s'' ''K3s'' [''k3s''] ''/etc/rancher/k3s/k3s.yaml''"

definition detectRKE2 :: "'e node_env_scheme \<Rightarrow> string \<Rightarrow> (agent_node, ClusterInfo) action" where
  "detectRKE2 env = detect_kind env ''rke2'' ''RKE2'' [''rke2-server'', ''rke2-agent''] ''/etc/rancher/rke2/rke2.yaml''"

definition DetectCluster :: "'e node_env_scheme \<Rightarrow> NodeAgentConfig \<Rightarrow> (agent_node, ClusterInfo) action" where
  "DetectCluster env confs =
     (if ClusterKind confs = ''k3s'' then wrap ''K3s detection failed: '' (detectK3s env (ClusterBinary confs))
      else if ClusterKind confs = ''rke2'' then wrap ''RKE2 detection failed: '' (detectRKE2 env (ClusterBinary confs))
      else fail ''no cluster detected on node'')"

text \<open>\<^verbatim>\<open>os.ReadFile\<close> follows links.\<close>

definition GetKubeconfig :: "'e node_env_scheme \<Rightarrow> ClusterInfo \<Rightarrow> (agent_node, string) action" where
  "GetKubeconfig env clusterInfo =
     (if KubeconfigPath clusterInfo = [] then fail ''no kubeconfig available for cluster''
      else wrap (''failed to read kubeconfig from '' @ KubeconfigPath clusterInfo @ '': '')
             (on_disk (disk_ReadFile (host_cwd env) (KubeconfigPath clusterInfo))))"

definition requiredFields :: "string list" where
  "requiredFields = [''apiVersion'', ''kind: Config'', ''clusters:'', ''users:'', ''contexts:'']"

definition ValidateKubeconfig :: "string \<Rightarrow> string + unit" where
  "ValidateKubeconfig kubeconfigData =
     (if kubeconfigData = [] then Inl ''kubeconfig is empty''
      else case filter (\<lambda>f. \<not> Contains kubeconfigData f) requiredFields of
        [] \<Rightarrow> Inr () | f # _ \<Rightarrow> Inl (''kubeconfig missing required field: '' @ f))"

section \<open>The life of the kubeconfig\<close>

definition node_token_context :: "'e node_env_scheme \<Rightarrow> NodeAgentConfig \<Rightarrow> (agent_node, string) action" where
  "node_token_context env confs = GetAuthContext env (token_file confs ''node-agent'')"

definition NotifyKubeconfig :: "'e node_env_scheme \<Rightarrow> string option \<Rightarrow> NodeAgentConfig \<Rightarrow> string \<Rightarrow> (agent_node, unit) action" where
  "NotifyKubeconfig env client confs kubeconfigData =
     (let currentHash = sha256_hex env kubeconfigData in
      andthen (asks lastKubeconfigHash) (\<lambda>lastHash.
      if lastHash = currentHash then ret ()
      else andthen (if client \<noteq> None
                    then andthen (node_token_context env confs) (\<lambda>_.
                         wrap ''failed to update cluster status: ''
                           (hm_UpdateClusterStatus env client (nc_GUID confs) (base64 env kubeconfigData)))
                    else ret ()) (\<lambda>_.
           modify (\<lambda>w. w\<lparr>lastKubeconfig := Some kubeconfigData, lastKubeconfigHash := currentHash\<rparr>))))"

definition ClearKubeconfig :: "'e node_env_scheme \<Rightarrow> string option \<Rightarrow> NodeAgentConfig \<Rightarrow> (agent_node, unit) action" where
  "ClearKubeconfig env client confs =
     andthen (if client \<noteq> None
              then andthen (node_token_context env confs) (\<lambda>_.
                   wrap ''failed to clear kubeconfig in host manager: '' (hm_UpdateClusterStatus env client (nc_GUID confs) []))
              else ret ()) (\<lambda>_.
     modify (\<lambda>w. w\<lparr>lastKubeconfig := None, lastKubeconfigHash := []\<rparr>))"

definition KubeconfigSize :: "agent_node \<Rightarrow> nat" where
  "KubeconfigSize w = (case lastKubeconfig w of None \<Rightarrow> 0 | Some c \<Rightarrow> length c)"

definition GetLastKubeconfig :: "agent_node \<Rightarrow> string option" where
  "GetLastKubeconfig w = lastKubeconfig w"

definition HasKubeconfig :: "agent_node \<Rightarrow> bool" where
  "HasKubeconfig w = (KubeconfigSize w > 0)"

definition GetClusterStatus :: "ClusterInfo option \<Rightarrow> agent_node \<Rightarrow> string" where
  "GetClusterStatus clusterInfo w = (case clusterInfo of
     None \<Rightarrow> if KubeconfigSize w > 0 then ''cluster: unknown (kubeconfig cached)'' else ''cluster: none detected''
   | Some c \<Rightarrow> ''cluster: '' @ ci_Type c @ '' '' @ ci_Version c @ '' ('' @ ci_Status c @ '')'' @
       (if KubeconfigSize w > 0 then '', kubeconfig: '' @ show_nat (KubeconfigSize w) @ '' bytes'' else []))"

definition detectAndManageCluster :: "'e node_env_scheme \<Rightarrow> string option \<Rightarrow> NodeAgentConfig \<Rightarrow> (agent_node, unit) action" where
  "detectAndManageCluster env client confs =
     andthen (attempt (DetectCluster env confs)) (\<lambda>r. case r of
       Inl _ \<Rightarrow> andthen (asks HasKubeconfig) (\<lambda>has. if has then ignore (ClearKubeconfig env client confs) else ret ())
     | Inr clusterInfo \<Rightarrow>
         if ci_Status clusterInfo \<noteq> ''running'' then ret ()
         else if KubeconfigPath clusterInfo = [] then ret ()
         else andthen (attempt (GetKubeconfig env clusterInfo)) (\<lambda>k. case k of
           Inl _ \<Rightarrow> ret ()
         | Inr kubeconfigData \<Rightarrow> (case ValidateKubeconfig kubeconfigData of
             Inl _ \<Rightarrow> ret ()
           | Inr _ \<Rightarrow> ignore (NotifyKubeconfig env client confs kubeconfigData))))"

section \<open>Boot statistics\<close>

text \<open>The code keeps the newline at the end of each line and trims every line before it is logged.\<close>

definition readCommand :: "'e node_env_scheme \<Rightarrow> string list \<Rightarrow> (agent_node, string list) action" where
  "readCommand env argv = andthen (run_process env argv (os_Environ env)) (\<lambda>res. case exit_error res of
     Some e \<Rightarrow> fail (Stderr res @ ''; '' @ e) | None \<Rightarrow> ret (Split (Stdout res) nl))"

definition executeCloudInitAnalyzeBoot :: "'e node_env_scheme \<Rightarrow> (agent_node, string list) action" where
  "executeCloudInitAnalyzeBoot env =
     andthen (run_process env [''cloud-init'', ''analyze'', ''boot''] (os_Environ env)) (\<lambda>res. case exit_error res of
       Some e \<Rightarrow> if Contains (Stderr res) ''successful'' then ret (Split (Stdout res) nl) else fail (Stderr res @ ''; '' @ e)
     | None \<Rightarrow> ret (Split (Stdout res) nl))"

definition getCloudInitTotalTimeLine :: "'e node_env_scheme \<Rightarrow> (agent_node, string) action" where
  "getCloudInitTotalTimeLine env = andthen (attempt (readCommand env [''cloud-init'', ''analyze'', ''show''])) (\<lambda>r. case r of
     Inl _ \<Rightarrow> ret []
   | Inr ls \<Rightarrow> ret (case filter (\<lambda>l. Contains l ''Total Time:'') ls of [] \<Rightarrow> [] | l # _ \<Rightarrow> TrimSpace l))"

text \<open>The lines that are logged.\<close>

definition reportKernelBootStats :: "'e node_env_scheme \<Rightarrow> (agent_node, string list) action" where
  "reportKernelBootStats env = andthen (attempt (readCommand env [''systemd-analyze'', ''--version''])) (\<lambda>ex. case ex of
     Inl _ \<Rightarrow> ret []
   | Inr _ \<Rightarrow> andthen (attempt (readCommand env [''systemd-analyze''])) (\<lambda>r. case r of
       Inl _ \<Rightarrow> ret [] | Inr ls \<Rightarrow> ret (filter (\<lambda>l. l \<noteq> []) (map TrimSpace ls))))"

definition reportCloudInitStats :: "'e node_env_scheme \<Rightarrow> string \<Rightarrow> (agent_node, string list) action" where
  "reportCloudInitStats env skipLine = andthen (attempt (readCommand env [''cloud-init'', ''--version''])) (\<lambda>ex. case ex of
     Inl _ \<Rightarrow> ret []
   | Inr _ \<Rightarrow> andthen (attempt (executeCloudInitAnalyzeBoot env)) (\<lambda>r. case r of
       Inl _ \<Rightarrow> ret []
     | Inr ls \<Rightarrow> andthen (getCloudInitTotalTimeLine env) (\<lambda>t.
         ret (filter (\<lambda>l. l \<noteq> []) (map TrimSpace (filter (\<lambda>l. \<not> Contains l skipLine) ls)) @ (if t \<noteq> [] then [t] else [])))))"

section \<open>The turns of the loops\<close>

definition COMPONENTS_INIT_WAIT_INTERVAL :: int where "COMPONENTS_INIT_WAIT_INTERVAL = 300 * time_Second"

definition getSystemUptime :: "'e node_env_scheme \<Rightarrow> (agent_node, rat) action" where
  "getSystemUptime env = andthen (on_disk (ReadFileNoLinks (host_cwd env) ''/proc/uptime'')) (\<lambda>data.
     case Fields (TrimSpace data) of [] \<Rightarrow> fail ''unable to parse uptime from /proc/uptime''
     | f # _ \<Rightarrow> lift_result (ParseFloat env f))"

text \<open>The start of the agent is in seconds, the interval that is added to it in nanoseconds.\<close>

definition unhealthy_status :: "int \<Rightarrow> int \<Rightarrow> bool \<Rightarrow> InstanceStatus" where
  "unhealthy_status now start booting =
     (if now < start + COMPONENTS_INIT_WAIT_INTERVAL \<and> booting then INSTANCE_STATUS_INITIALIZING
      else INSTANCE_STATUS_ERROR)"

definition updateInstanceStatus :: "'e node_env_scheme \<Rightarrow> string option \<Rightarrow> NodeAgentConfig \<Rightarrow> (agent_node, unit) action" where
  "updateInstanceStatus env client confs =
     andthen (GatherStatus env confs) (\<lambda>(humanReadableStatus, healthy).
     andthen (attempt (getSystemUptime env)) (\<lambda>r.
     andthen (if healthy then ret INSTANCE_STATUS_RUNNING
              else andthen (now_seconds env) (\<lambda>now. andthen (asks initTimestamp) (\<lambda>start.
                ret (unhealthy_status now start (case r of Inl _ \<Rightarrow> False | Inr systemUptime \<Rightarrow> systemUptime < 3 * 300))))) (\<lambda>status.
     andthen (node_token_context env confs) (\<lambda>_.
     ignore (UpdateInstanceStatus env client (nc_GUID confs) status humanReadableStatus)))))"

definition createListener :: "'e node_env_scheme \<Rightarrow> (agent_node, unit) action" where
  "createListener env = andthen (tick env 0 (remove_socket env)) (\<lambda>e. case e of
     Some _ \<Rightarrow> fail ''error removing socket file. Will terminate''
   | None \<Rightarrow> andthen (tick env 0 (listen_socket env)) (\<lambda>e. case e of
       Some _ \<Rightarrow> fail ''failed to create listener for status server. Will terminate'' | None \<Rightarrow> ret ()))"

end
