(* ===== verification/Node_Laws.thy ===== *)
theory Node_Laws
  imports Node_Cluster
begin

text \<open>
  The laws of the Node Agent: the tables of the status service and what the gathered status means,
  the refresh of the tokens, the life of the kubeconfig, and the number of calls of the host manager.
\<close>

section \<open>The tables\<close>

text \<open>Every known agent has one entry, and there are no others; the same for the endpoints \<open>names\<close>.\<close>

definition tables_ok :: "string list \<Rightarrow> agent_node \<Rightarrow> bool" where
  "tables_ok names w \<longleftrightarrow> distinct (map fst (statusMap w)) \<and> fst ` set (statusMap w) = set (known_agents w) \<and>
     distinct (map fst (nwStatusMap w)) \<and> fst ` set (nwStatusMap w) = set names"

lemma keys_update: "fst ` set (AList.update k v al) = insert k (fst ` set al)"
  by (simp add: AList.dom_update)

lemma now_seconds_apply: "\<exists>t. now_seconds env w = (Ok (time_Unix t), w\<lparr>interactions := Suc (interactions w), clock_ns := t\<rparr>) \<and>
    clock_ns w \<le> t"
  by (rule exI [of _ "clock_ns w + int (delay env (interactions w))"])
     (simp add: now_seconds_def andthen_apply time_Now_apply ret_apply)

lemma ReportStatus_known:
  assumes "validate_message env (ReportStatusRequest a st) = None" "a \<in> set (known_agents w)"
  shows "\<exists>t w'. ReportStatus env a st w = (Ok (), w') \<and> clock_ns w \<le> t \<and> known_agents w' = known_agents w \<and>
    statusMap w' = AList.update a \<lparr>sv_Status = st, Timestamp = time_Unix t\<rparr> (statusMap w) \<and> nwStatusMap w' = nwStatusMap w"
proof -
  obtain t where "now_seconds env w = (Ok (time_Unix t), w\<lparr>interactions := Suc (interactions w), clock_ns := t\<rparr>)"
    "clock_ns w \<le> t" using now_seconds_apply by blast
  then show ?thesis
    using assms by (intro exI [of _ t]) (simp add: ReportStatus_def andthen_apply asks_apply modify_apply)
qed

lemma ReportStatus_refused:
  assumes "a \<notin> set (known_agents w)"
  shows "\<exists>e. ReportStatus env a st w = (Err e, w)"
  using assms by (cases "validate_message env (ReportStatusRequest a st)")
    (simp_all add: ReportStatus_def andthen_apply asks_apply fail_apply)

lemma keeps_ReportStatus: "keeps (tables_ok names) (ReportStatus env a st)"
proof (rule keepsI)
  fix w assume I: "tables_ok names w"
  show "tables_ok names (snd (ReportStatus env a st w))"
  proof (cases "validate_message env (ReportStatusRequest a st)")
    case None
    show ?thesis
    proof (cases "a \<in> set (known_agents w)")
      case True
      from ReportStatus_known [OF None this] obtain t w' where r: "ReportStatus env a st w = (Ok (), w')"
        "known_agents w' = known_agents w" "nwStatusMap w' = nwStatusMap w"
        "statusMap w' = AList.update a \<lparr>sv_Status = st, Timestamp = time_Unix t\<rparr> (statusMap w)" by blast
      with I True show ?thesis
        by (simp add: tables_ok_def keys_update AList.distinct_update insert_absorb)
    next
      case False
      from ReportStatus_refused [OF this] I show ?thesis by (metis snd_conv)
    qed
  qed (use I in \<open>simp add: ReportStatus_def fail_apply\<close>)
qed

lemma PollNetworkEndpoints_keys:
  "set (map fst es) \<subseteq> set names \<Longrightarrow> keeps (tables_ok names) (PollNetworkEndpoints env es)"
proof (induction es rule: PollNetworkEndpoints.induct [of _ env])
  case 1
  then show ?case by (simp add: keeps_ret)
next
  case (2 env name u es)
  have p: "keeps (tables_ok names) (ProbeEndpoint env u)"
  proof -
    have t: "keeps (tables_ok names) (tick env 0 f)" for f
      by (auto simp: keeps_def tick_apply tables_ok_def)
    show ?thesis unfolding ProbeEndpoint_def Let_def by (intro keeps_rules t)
  qed
  have n: "keeps (tables_ok names) (now_seconds env)" "keeps (tables_ok names) (tick env 0 f)" for f
    by (auto simp: keeps_def tick_apply tables_ok_def now_seconds_def andthen_apply time_Now_apply ret_apply)
  have s: "keeps (tables_ok names) (modify (store_nw name v))" for v
    using 2 by (auto simp: keeps_def modify_apply tables_ok_def store_nw_def keys_update AList.distinct_update)
  from 2 show ?case
    unfolding PollNetworkEndpoints.simps by (intro keeps_rules n p s) auto
qed

lemma init_table_result:
  assumes "\<And>k v w. proj (store k v w) = AList.update k v (proj w)" "\<And>k v w. other (store k v w) = other w"
    and "\<And>w i t. proj (w\<lparr>interactions := i, clock_ns := t\<rparr>) = proj w" "\<And>w i t. other (w\<lparr>interactions := i, clock_ns := t\<rparr>) = other w"
  shows "\<exists>w'. init_table env store ns w = (Ok (), w') \<and> fst ` set (proj w') = set ns \<union> fst ` set (proj w) \<and>
    (distinct (map fst (proj w)) \<longrightarrow> distinct (map fst (proj w'))) \<and> other w' = other w"
proof (induction ns arbitrary: w)
  case Nil
  then show ?case by (simp add: init_table_def ret_apply)
next
  case (Cons n ns)
  obtain t where t: "now_seconds env w = (Ok (time_Unix t), w\<lparr>interactions := Suc (interactions w), clock_ns := t\<rparr>)"
    using now_seconds_apply by blast
  let ?w = "store n \<lparr>sv_Status = STATUS_UNSPECIFIED, Timestamp = time_Unix t\<rparr> (w\<lparr>interactions := Suc (interactions w), clock_ns := t\<rparr>)"
  obtain w' where w': "init_table env store ns ?w = (Ok (), w')" "fst ` set (proj w') = set ns \<union> fst ` set (proj ?w)"
    "distinct (map fst (proj ?w)) \<longrightarrow> distinct (map fst (proj w'))" "other w' = other ?w"
    using Cons by blast
  have "init_table env store (n # ns) w = (Ok (), w')"
    using w'(1) t by (simp add: init_table_def andthen_apply modify_apply)
  moreover have "fst ` set (proj ?w) = insert n (fst ` set (proj w))" "other ?w = other w"
    "distinct (map fst (proj w)) \<longrightarrow> distinct (map fst (proj ?w))"
    by (simp_all add: assms keys_update AList.distinct_update)
  ultimately show ?case using w' by auto
qed

lemma InitStatusService_tables:
  "\<exists>w'. InitStatusService env confs w = (Ok (), w') \<and> known_agents w' = ServiceClients confs \<and>
     tables_ok (map fst (NetworkEndpoints confs)) w'"
proof -
  let ?w = "w\<lparr>known_agents := ServiceClients confs, statusInterval := nc_Heartbeat confs, statusMap := [], nwStatusMap := []\<rparr>"
  obtain w1 where 1: "init_table env store_status (ServiceClients confs) ?w = (Ok (), w1)"
    "fst ` set (statusMap w1) = set (ServiceClients confs)" "distinct (map fst (statusMap w1))"
    "nwStatusMap w1 = []" "known_agents w1 = ServiceClients confs"
    using init_table_result [of statusMap store_status "\<lambda>w. (nwStatusMap w, known_agents w)" env "ServiceClients confs" ?w]
    by (auto simp: store_status_def)
  obtain w2 where 2: "init_table env store_nw (map fst (NetworkEndpoints confs)) w1 = (Ok (), w2)"
    "fst ` set (nwStatusMap w2) = set (map fst (NetworkEndpoints confs))" "distinct (map fst (nwStatusMap w2))"
    "statusMap w2 = statusMap w1" "known_agents w2 = known_agents w1"
    using init_table_result [of nwStatusMap store_nw "\<lambda>w. (statusMap w, known_agents w)" env "map fst (NetworkEndpoints confs)" w1] 1
    by (auto simp: store_nw_def)
  show ?thesis
    using 1 2 by (simp add: InitStatusService_def andthen_apply modify_apply tables_ok_def)
qed

section \<open>The gathered status\<close>

lemma CheckServicesStatus_counts:
  "\<exists>active unhealthy w'. CheckServicesStatus env ss w = (Ok (active, length ss, unhealthy), w') \<and>
     active + length unhealthy = length ss \<and> set unhealthy \<subseteq> set ss \<and> clock_ns w \<le> clock_ns w' \<and>
     statusMap w' = statusMap w \<and> nwStatusMap w' = nwStatusMap w \<and> known_agents w' = known_agents w"
proof (induction ss arbitrary: w)
  case Nil
  then show ?case by (simp add: ret_apply)
next
  case (Cons s ss)
  obtain res d where p: "process env (interactions w) [''systemctl'', ''is-active'', s] (os_Environ env) (disk w) = (res, d)" by fastforce
  obtain up w1 where 1: "service_active env s w = (Ok up, w1)" "statusMap w1 = statusMap w" "nwStatusMap w1 = nwStatusMap w"
    "known_agents w1 = known_agents w" "clock_ns w \<le> clock_ns w1"
    using p by (simp add: service_active_def andthen_apply run_process_apply ret_apply)
  from Cons [of w1] 1 show ?case
    by (auto simp: andthen_apply ret_apply)
qed

lemma count_fresh_le: "count_fresh now l al \<le> length al"
  by (simp add: count_fresh_def)

lemma count_fresh_all: "count_fresh now l al = length al \<longleftrightarrow> (\<forall>(k, v) \<in> set al. fresh now l v)"
  unfolding count_fresh_def by (metis (mono_tags, lifting) filter_True length_filter_less less_irrefl)


section \<open>The probe of a registry\<close>

text \<open>The default tag is never used: the scheme alone gives two parts.\<close>

lemma oci_tag_no_default: "CHR '':'' \<notin> set r \<Longrightarrow> oci_tag (''oci://'' @ r) = ''//'' @ r"
  by (simp add: oci_tag_def Split_no_sep Let_def)

section \<open>The refresh of the tokens\<close>

text \<open>\<open>client_kept i w w'\<close>: the token \<open>i\<close> is the same; \<open>others_kept\<close>: all but \<open>i\<close> are, and all names.\<close>

definition names_of :: "agent_node \<Rightarrow> string list" where
  "names_of w = map ClientName (TokenClients w)"

definition touches_only :: "nat \<Rightarrow> (agent_node, 'a) action \<Rightarrow> bool" where
  "touches_only i m \<longleftrightarrow> (\<forall>w r w'. m w = (r, w') \<longrightarrow> length (TokenClients w') = length (TokenClients w) \<and>
     names_of w' = names_of w \<and> clock_ns w \<le> clock_ns w' \<and> (\<forall>j. j \<noteq> i \<longrightarrow> TokenClients w' ! j = TokenClients w ! j))"

named_theorems touches_rules \<open>which token an action may change\<close>

lemma touchesD: "touches_only i m \<Longrightarrow> m w = (r, w') \<Longrightarrow> length (TokenClients w') = length (TokenClients w) \<and>
     names_of w' = names_of w \<and> clock_ns w \<le> clock_ns w' \<and> (\<forall>j. j \<noteq> i \<longrightarrow> TokenClients w' ! j = TokenClients w ! j)"
  unfolding touches_only_def by blast

lemma touchesI: "(\<And>w r w'. m w = (r, w') \<Longrightarrow> TokenClients w' = TokenClients w \<and> clock_ns w \<le> clock_ns w') \<Longrightarrow> touches_only i m"
  unfolding touches_only_def names_of_def by metis

lemma touches_basic [touches_rules]: "touches_only i (ret x)" "touches_only i (fail e)" "touches_only i (crash e)"
  "touches_only i (asks g)" "touches_only i (lift_result s)"
  by (rule touchesI; simp add: action_simps lift_result_def split: sum.splits)+

lemma touches_andthen [touches_rules]:
  assumes "touches_only i m" "\<And>x. touches_only i (f x)"
  shows "touches_only i (andthen m f)"
  unfolding touches_only_def
proof (intro allI impI)
  fix w r w' assume a: "andthen m f w = (r, w')"
  obtain r1 w1 where m: "m w = (r1, w1)" by fastforce
  note 1 = touchesD [OF assms(1) m]
  show "length (TokenClients w') = length (TokenClients w) \<and> names_of w' = names_of w \<and> clock_ns w \<le> clock_ns w' \<and>
    (\<forall>j. j \<noteq> i \<longrightarrow> TokenClients w' ! j = TokenClients w ! j)"
  proof (cases r1)
    case (Ok x)
    with a m have "f x w1 = (r, w')" by (simp add: andthen_apply)
    from touchesD [OF assms(2) this] 1 show ?thesis by simp
  qed (use a m 1 in \<open>simp_all add: andthen_apply\<close>)
qed

lemma touches_attempt [touches_rules]: "touches_only i m \<Longrightarrow> touches_only i (attempt m)"
  by (auto simp: touches_only_def attempt_apply split: prod.splits outcome.splits)

lemma touches_wrap [touches_rules]: "touches_only i m \<Longrightarrow> touches_only i (wrap p m)"
  by (auto simp: touches_only_def wrap_apply split: prod.splits outcome.splits)

lemma touches_cases [touches_rules]:
  "touches_only i m \<Longrightarrow> (\<And>x. touches_only i (f x)) \<Longrightarrow> touches_only i (case a of None \<Rightarrow> m | Some x \<Rightarrow> f x)"
  "(\<And>x y. touches_only i (g x y)) \<Longrightarrow> touches_only i (case q of (x, y) \<Rightarrow> g x y)"
  "(\<And>x. touches_only i (h x)) \<Longrightarrow> (\<And>x. touches_only i (k x)) \<Longrightarrow> touches_only i (case s of Inl x \<Rightarrow> h x | Inr x \<Rightarrow> k x)"
  "touches_only i m \<Longrightarrow> touches_only i n \<Longrightarrow> touches_only i (if b then m else n)"
  by (simp_all split: option.split prod.split sum.split)

lemma touches_host [touches_rules]: "touches_only i (tick env d g)" "touches_only i (time_Now env)" "touches_only i (on_disk dm)"
  by (rule touchesI; auto simp: tick_apply time_Now_apply on_disk_def split: prod.splits)+

lemma names_update:
  assumes "\<And>c. ClientName (f c) = ClientName c"
  shows "map ClientName (l[i := f (l ! i)]) = map ClientName l"
proof (rule nth_equalityI)
  fix j assume "j < length (map ClientName (l[i := f (l ! i)]))"
  then show "map ClientName (l[i := f (l ! i)]) ! j = map ClientName l ! j"
    by (cases "i = j") (simp_all add: assms)
qed simp

lemma touches_set [touches_rules]: "(\<And>c. ClientName (f c) = ClientName c) \<Longrightarrow> touches_only i (set_client i f)"
  by (auto simp: touches_only_def set_client_def modify_apply names_of_def names_update)

lemma touches_provision [touches_rules]: "touches_only i (provision_client env rel auth confs i name)"
  unfolding provision_client_def ProvisionToken_def ProvisionReleaseServiceToken_def ProvisionAccessToken_def PersistToken_def
    GetNodeAgentToken_def base_url_def idp_Do_def GetExpiryFromJWT_def
  by (intro touches_rules) auto

lemma touches_refresh: "touches_only i (refresh_client env rel auth confs i)"
  unfolding refresh_client_def IsTokenRefreshRequired_def by (intro touches_rules)

text \<open>A token that is there and more than ten minutes from its expiry stays.\<close>

lemma refresh_client_kept:
  assumes "refresh_client env rel auth confs i w = (r, w')"
    and "cat_Token (TokenClients w ! i) \<noteq> []" "clock_ns w' + REFRESH_INTERVAL \<le> Expiry (TokenClients w ! i)"
  shows "TokenClients w' = TokenClients w"
proof -
  define w1 where "w1 = snd (time_Now env w)"
  define now where "now = clock_ns w1"
  have n: "time_Now env w = (Ok now, w1)" "now = clock_ns w1" "TokenClients w1 = TokenClients w"
    by (simp_all add: time_Now_apply w1_def now_def)
  show ?thesis
  proof (cases "now > Expiry (TokenClients w ! i) - REFRESH_INTERVAL")
    case True
    then have "provision_client env rel auth confs i (ClientName (TokenClients w ! i)) w1 = (r, w')"
      using assms(1,2) n by (simp add: refresh_client_def andthen_apply asks_apply IsTokenRefreshRequired_def ret_apply)
    from touchesD [OF touches_provision this] have "clock_ns w1 \<le> clock_ns w'" by simp
    with True n assms(3) show ?thesis by simp
  next
    case False
    then show ?thesis
      using assms(1,2) n by (simp add: refresh_client_def andthen_apply asks_apply IsTokenRefreshRequired_def ret_apply)
  qed
qed

lemma refresh_all:
  "foreach (refresh_client env rel auth confs) is w = (r, w') \<Longrightarrow>
   length (TokenClients w') = length (TokenClients w) \<and> names_of w' = names_of w \<and> clock_ns w \<le> clock_ns w' \<and>
   (\<forall>i. cat_Token (TokenClients w ! i) \<noteq> [] \<and> clock_ns w' + REFRESH_INTERVAL \<le> Expiry (TokenClients w ! i) \<longrightarrow>
        TokenClients w' ! i = TokenClients w ! i)"
proof (induction "is" arbitrary: w)
  case Nil
  then show ?case by (simp add: ret_apply)
next
  case (Cons x xs)
  obtain r1 w1 where 1: "refresh_client env rel auth confs x w = (r1, w1)" by fastforce
  note t = touchesD [OF touches_refresh 1]
  note k = refresh_client_kept [OF 1]
  show ?case
  proof (cases "\<exists>u. r1 = Ok u")
    case True
    with Cons.prems 1 have "foreach (refresh_client env rel auth confs) xs w1 = (r, w')"
      by (auto simp: andthen_apply)
    note ih = Cons.IH [OF this]
    have "TokenClients w' ! i = TokenClients w ! i"
      if "cat_Token (TokenClients w ! i) \<noteq> []" "clock_ns w' + REFRESH_INTERVAL \<le> Expiry (TokenClients w ! i)" for i
    proof -
      have "TokenClients w1 ! i = TokenClients w ! i"
        using t k that ih by (cases "i = x") auto
      with that ih show ?thesis by metis
    qed
    with ih t show ?thesis by simp
  next
    case False
    with Cons.prems 1 have "w' = w1" by (auto simp: andthen_apply split: outcome.splits)
    then show ?thesis using t k by (metis (no_types, lifting))
  qed
qed

text \<open>A round over the tokens keeps the list of clients and their names, and replaces no token that is
  still more than ten minutes from its expiry when the round ends.\<close>

theorem createRefreshTokens_keeps_valid:
  assumes "createRefreshTokens env rel auth confs w = (r, w')"
  shows "map ClientName (TokenClients w') = map ClientName (TokenClients w) \<and>
    (\<forall>i < length (TokenClients w). cat_Token (TokenClients w ! i) \<noteq> [] \<and>
       clock_ns w' + REFRESH_INTERVAL \<le> Expiry (TokenClients w ! i) \<longrightarrow> TokenClients w' ! i = TokenClients w ! i)"
proof -
  have "foreach (refresh_client env rel auth confs) [0..<length (TokenClients w)] w = (r, w')"
    using assms by (simp add: createRefreshTokens_def andthen_apply asks_apply)
  from refresh_all [OF this] show ?thesis by (simp add: names_of_def)
qed

text \<open>An answer without the token ends the agent.\<close>

lemma ProvisionAccessToken_panics:
  assumes "ReadFileNoLinks (host_cwd env) (filepath_Join (ClientCredsPath confs) ''client_id'') (disk w) = (Ok a, disk w)"
    and "ReadFileNoLinks (host_cwd env) (filepath_Join (ClientCredsPath confs) ''client_secret'') (disk w) = (Ok b, disk w)"
    and "\<And>n q. node_Do env n q = Inr resp" "nr_Body resp = Inr bytes" "json_token env bytes = Inr None"
  shows "\<exists>e w'. ProvisionAccessToken env (Some base) confs w = (Crash e, w')"
  using assms by (simp add: ProvisionAccessToken_def andthen_apply wrap_apply on_disk_def base_url_def ret_apply idp_Do_def
      tick_apply crash_apply)

section \<open>The kubeconfig\<close>

definition km_ok :: "'e node_env_scheme \<Rightarrow> agent_node \<Rightarrow> bool" where
  "km_ok env w \<longleftrightarrow> lastKubeconfigHash w = (case lastKubeconfig w of None \<Rightarrow> [] | Some c \<Rightarrow> sha256_hex env c)"

text \<open>Actions that leave the tracked kubeconfig alone.\<close>

definition km_same :: "(agent_node, 'a) action \<Rightarrow> bool" where
  "km_same m \<longleftrightarrow> (\<forall>w r w'. m w = (r, w') \<longrightarrow> lastKubeconfig w' = lastKubeconfig w \<and> lastKubeconfigHash w' = lastKubeconfigHash w)"

named_theorems km_rules \<open>actions that leave the tracked kubeconfig alone\<close>

lemma km_sameD: "km_same m \<Longrightarrow> m w = (r, w') \<Longrightarrow> lastKubeconfig w' = lastKubeconfig w \<and> lastKubeconfigHash w' = lastKubeconfigHash w"
  unfolding km_same_def by blast

lemma km_basic [km_rules]: "km_same (ret x)" "km_same (fail e)" "km_same (crash e)" "km_same (asks g)" "km_same (lift_result s)"
  by (auto simp: km_same_def action_simps lift_result_def split: sum.splits)

lemma km_andthen [km_rules]: "km_same m \<Longrightarrow> (\<And>x. km_same (f x)) \<Longrightarrow> km_same (andthen m f)"
  unfolding km_same_def by (intro allI impI) (fastforce simp: andthen_apply split: prod.splits outcome.splits)

lemma km_attempt [km_rules]: "km_same m \<Longrightarrow> km_same (attempt m)"
  by (auto simp: km_same_def attempt_apply split: prod.splits outcome.splits)

lemma km_wrap [km_rules]: "km_same m \<Longrightarrow> km_same (wrap p m)"
  by (auto simp: km_same_def wrap_apply split: prod.splits outcome.splits)

lemma km_cases [km_rules]:
  "km_same m \<Longrightarrow> (\<And>x. km_same (f x)) \<Longrightarrow> km_same (case a of None \<Rightarrow> m | Some x \<Rightarrow> f x)"
  "(\<And>x y. km_same (g x y)) \<Longrightarrow> km_same (case q of (x, y) \<Rightarrow> g x y)"
  "(\<And>x. km_same (h x)) \<Longrightarrow> (\<And>x. km_same (k x)) \<Longrightarrow> km_same (case s of Inl x \<Rightarrow> h x | Inr x \<Rightarrow> k x)"
  "km_same m \<Longrightarrow> km_same n \<Longrightarrow> km_same (if b then m else n)"
  by (simp_all split: option.split prod.split sum.split)

lemma km_retry [km_rules]: "km_same m \<Longrightarrow> km_same (retry n m)"
  by (induction n) (auto intro!: km_rules)

lemma km_host [km_rules]: "km_same (tick env d g)" "km_same (time_Now env)" "km_same (on_disk dm)" "km_same (run_process env a v)"
  by (auto simp: km_same_def tick_apply time_Now_apply on_disk_def run_process_apply split: prod.splits)

lemma km_hm_update [km_rules]: "km_same (hm_update env c req)"
proof -
  have "km_same (modify (\<lambda>w. w\<lparr>hm_sent := hm_sent w @ [req]\<rparr>))" by (simp add: km_same_def modify_apply)
  then show ?thesis unfolding hm_update_def hm_rpc_def hm_Connect_def by (intro km_rules)
qed

lemma km_any_active [km_rules]: "km_same (any_active env ss)"
  by (induction ss) (auto simp: isServiceActive_def intro!: km_rules)

lemma km_DetectCluster [km_rules]: "km_same (DetectCluster env confs)" "km_same (GetKubeconfig env ci)" "km_same (node_token_context env confs)"
  unfolding DetectCluster_def detectK3s_def detectRKE2_def detect_kind_def os_IsNotExist_def GetKubeconfig_def
    node_token_context_def GetAuthContext_def
  by (intro km_rules)+

lemma keeps_km_same: "km_same m \<Longrightarrow> keeps (km_ok env) m"
  unfolding keeps_def km_ok_def by (metis km_sameD prod.collapse)

text \<open>The hash that the Node Agent keeps is always the hash of the kubeconfig it tracks, empty when it
  tracks none: no turn of the cluster loop separates them, also when the host manager refuses the
  update.\<close>

theorem detectAndManageCluster_hash:
  assumes "km_ok env w" "detectAndManageCluster env client confs w = (r, w')"
  shows "km_ok env w'"
proof -
  have u: "keeps (km_ok env) (if client \<noteq> None then andthen (node_token_context env confs) (\<lambda>_. wrap p (hm_update env client req)) else ret ())"
    for p req by (intro keeps_km_same km_rules)
  have s: "keeps (km_ok env) (modify (\<lambda>w. w\<lparr>lastKubeconfig := Some d, lastKubeconfigHash := sha256_hex env d\<rparr>))"
    "keeps (km_ok env) (modify (\<lambda>w. w\<lparr>lastKubeconfig := None, lastKubeconfigHash := []\<rparr>))" for d
    by (simp_all add: keeps_def modify_apply km_ok_def)
  have n: "keeps (km_ok env) (NotifyKubeconfig env client confs d)" for d
    unfolding NotifyKubeconfig_def Let_def hm_UpdateClusterStatus_def
    by (rule keeps_andthen [OF keeps_asks], rule keeps_if, rule keeps_ret, rule keeps_andthen [OF u s(1)])
  have c: "keeps (km_ok env) (ClearKubeconfig env client confs)"
    unfolding ClearKubeconfig_def hm_UpdateClusterStatus_def by (rule keeps_andthen [OF u s(2)])
  have "keeps (km_ok env) (detectAndManageCluster env client confs)"
    unfolding detectAndManageCluster_def
    by (intro keeps_rules n c keeps_km_same [OF km_DetectCluster(1)] keeps_km_same [OF km_DetectCluster(2)])
  from keepsD [OF this assms] show ?thesis .
qed

lemma NotifyKubeconfig_unchanged:
  "lastKubeconfigHash w = sha256_hex env d \<Longrightarrow> NotifyKubeconfig env client confs d w = (Ok (), w)"
  by (simp add: NotifyKubeconfig_def Let_def andthen_apply asks_apply ret_apply)

text \<open>A cluster that has stopped keeps its kubeconfig at the host manager.\<close>

lemma stopped_cluster_not_cleared:
  assumes "DetectCluster env confs w = (Ok ci, w1)" "ci_Status ci \<noteq> ''running''"
  shows "detectAndManageCluster env client confs w = (Ok (), w1)"
  using assms by (simp add: detectAndManageCluster_def andthen_apply attempt_apply ret_apply)

section \<open>Calls of the host manager\<close>

lemma hm_rpc_counts: "hm_rpc env req w = (r, w') \<Longrightarrow> hm_sent w' = hm_sent w @ [req]"
  by (cases "hm_call env (interactions w) req")
     (auto simp: hm_rpc_def andthen_apply modify_apply tick_apply ret_apply fail_apply)

lemma retry_counts:
  "retry n (hm_rpc env req) w = (r, w') \<Longrightarrow> \<exists>k \<le> Suc n. 1 \<le> k \<and> hm_sent w' = hm_sent w @ replicate k req"
proof (induction n arbitrary: w)
  case 0
  from hm_rpc_counts [of env req w] 0 show ?case by (intro exI [of _ 1]) simp
next
  case (Suc n)
  obtain r1 w1 where 1: "hm_rpc env req w = (r1, w1)" by fastforce
  note h = hm_rpc_counts [OF 1]
  show ?case
  proof (cases r1)
    case (Err e)
    then have "retry n (hm_rpc env req) w1 = (r, w')" using Suc.prems 1 by (simp add: andthen_apply attempt_apply)
    from Suc.IH [OF this] obtain k where "k \<le> Suc n" "hm_sent w' = hm_sent w1 @ replicate k req" by blast
    with h show ?thesis by (intro exI [of _ "Suc k"]) simp
  qed (use Suc.prems 1 h in \<open>auto simp: andthen_apply attempt_apply ret_apply intro!: exI [of _ 1]\<close>)
qed

text \<open>An update of the host manager is sent at least once and at most four times, always with the same
  content, however the calls and the reconnection end.\<close>

theorem hm_update_bounded:
  "\<exists>k. 1 \<le> k \<and> k \<le> 4 \<and> hm_sent (snd (hm_update env (Some addr) req w)) = hm_sent w @ replicate k req"
proof -
  obtain r w' where assms: "hm_update env (Some addr) req w = (r, w')" by fastforce
  let ?n = "min NUM_RETRIES (attempts_left env (interactions w))"
  obtain r1 w1 where 1: "retry ?n (hm_rpc env req) w = (r1, w1)" by fastforce
  obtain k where k: "k \<le> Suc ?n" "1 \<le> k" "hm_sent w1 = hm_sent w @ replicate k req"
    using retry_counts [OF 1] by blast
  have "hm_sent w' = hm_sent w1"
    using assms 1
    by (auto simp: hm_update_def andthen_apply asks_apply attempt_apply ret_apply fail_apply tick_apply hm_Connect_def
        split: outcome.splits option.splits)
  with k assms show ?thesis by (intro exI [of _ k]) (simp add: NUM_RETRIES_def)
qed

section \<open>The status of the instance\<close>

text \<open>Seconds are compared with nanoseconds: for nine thousand years the age of the agent plays no part.\<close>

lemma initializing_never_times_out:
  "now \<le> start + 9000 * 365 * 86400 \<Longrightarrow> unhealthy_status now start True = INSTANCE_STATUS_INITIALIZING"
  by (simp add: unhealthy_status_def COMPONENTS_INIT_WAIT_INTERVAL_def time_Second_def)

section \<open>A run of the status service\<close>

text \<open>What reaches the tables: a report of an agent, a round over the endpoints, a gathering. The failure
  of one does not stop the service.\<close>

datatype status_event = Report string Status_pb | Poll | Gather

primrec run_event :: "'e node_env_scheme \<Rightarrow> NodeAgentConfig \<Rightarrow> status_event \<Rightarrow> (agent_node, unit) action" where
  "run_event env confs (Report a st) = ReportStatus env a st"
| "run_event env confs Poll = PollNetworkEndpoints env (NetworkEndpoints confs)"
| "run_event env confs Gather = andthen (GatherStatus env confs) (\<lambda>_. ret ())"

lemma keeps_GatherStatus: "keeps (tables_ok names) (GatherStatus env confs)"
proof -
  have c: "keeps (tables_ok names) (CheckServicesStatus env ss)" for ss
    unfolding keeps_def tables_ok_def
  proof (intro allI impI)
    fix w :: agent_node
    assume "distinct (map fst (statusMap w)) \<and> fst ` set (statusMap w) = set (known_agents w) \<and>
      distinct (map fst (nwStatusMap w)) \<and> fst ` set (nwStatusMap w) = set names"
    moreover obtain active unhealthy w' where "CheckServicesStatus env ss w = (Ok (active, length ss, unhealthy), w')"
      "statusMap w' = statusMap w" "nwStatusMap w' = nwStatusMap w" "known_agents w' = known_agents w"
      using CheckServicesStatus_counts by blast
    ultimately show "distinct (map fst (statusMap (snd (CheckServicesStatus env ss w)))) \<and>
      fst ` set (statusMap (snd (CheckServicesStatus env ss w))) = set (known_agents (snd (CheckServicesStatus env ss w))) \<and>
      distinct (map fst (nwStatusMap (snd (CheckServicesStatus env ss w)))) \<and>
      fst ` set (nwStatusMap (snd (CheckServicesStatus env ss w))) = set names" by simp
  qed
  have n: "keeps (tables_ok names) (now_seconds env)"
    by (auto simp: keeps_def tables_ok_def now_seconds_def andthen_apply time_Now_apply ret_apply)
  show ?thesis unfolding GatherStatus_def Let_def by (intro keeps_rules c n)
qed


section \<open>Concrete runs\<close>

definition demo_confs :: NodeAgentConfig where
  "demo_confs = \<lparr>nc_GUID = ''g'', nc_LogLevel = ''info'', OnboardingEnabled = True, OnboardingURL = ''o'', nc_Heartbeat = 10 * time_Second,
     AccessTokenURL = ''idp'', RsTokenURL = ''rs'', TokenPath = ''/t'', ClientCredsPath = ''/c'', TokenClientNames = [''node-agent''],
     StatusSocket = ''/s'', ServiceClients = [''a''], OutboundClients = [], NetworkStatusInterval = 60 * time_Second,
     NetworkEndpoints = [], DetectionEnabled = True, DetectionInterval = 30 * time_Second, ClusterKind = ''none'', ClusterBinary = []\<rparr>"

definition demo_node_env :: node_env where
  "demo_node_env = \<lparr>host_cwd = [], os_Environ = [],
     process = (\<lambda>n argv e d. (\<lparr>Stdout = [], Stderr = [], Combined = [], exit_error = None\<rparr>, d)), delay = (\<lambda>_. 0),
     status_call = (\<lambda>_ _. Inr 10), dial_error = (\<lambda>_ _. None), attempts_left = (\<lambda>_. 0), SystemCertPool = (\<lambda>_. Inr []),
     validate_message = (\<lambda>_. None), http_Get = (\<lambda>_ _. Inr 200), oci_repository = (\<lambda>_. None), oras_Fetch = (\<lambda>_ _ _. None),
     node_Do = (\<lambda>_ _. Inl ''down''), jwt_claim_exp = (\<lambda>_. Inl ''no token''), json_token = (\<lambda>_. Inl ''no json''),
     sha256_hex = (\<lambda>s. s), base64 = (\<lambda>s. s), hm_call = (\<lambda>_ _. None), hm_close = (\<lambda>_. None), AddDate_10y = (\<lambda>t. t),
     ParseFloat = (\<lambda>_. Inr 0), node_done = (\<lambda>_. False), remove_socket = (\<lambda>_. None), listen_socket = (\<lambda>_. None)\<rparr>"

definition demo_node :: agent_node where
  "demo_node = \<lparr>disk = \<lparr>tree = (\<lambda>_. None), nlink = (\<lambda>_. 1)\<rparr>, clock_ns = 100 * time_Second, interactions = 0, processes = [],
     status_sent = [], statusMap = [(''a'', \<lparr>sv_Status = STATUS_READY, Timestamp = 90\<rparr>)], nwStatusMap = [],
     known_agents = [''a''], statusInterval = 10 * time_Second,
     TokenClients = [\<lparr>ClientName = ''node-agent'', cat_Token = ''tok'', Expiry = 1000 * time_Second\<rparr>],
     lastKubeconfig = None, lastKubeconfigHash = [], hm_sent = [], initTimestamp = 0\<rparr>"

lemma demo_node_tick: "delay demo_node_env n = 0"
  by (simp add: demo_node_env_def node_env.defs)


lemma createRefreshTokens_keeps_valid_witness:
  "\<exists>w'. createRefreshTokens demo_node_env None None demo_confs demo_node = (Ok (), w') \<and>
     TokenClients w' ! 0 = \<lparr>ClientName = ''node-agent'', cat_Token = ''tok'', Expiry = 1000 * time_Second\<rparr>"
proof -
  have "createRefreshTokens demo_node_env None None demo_confs demo_node = (Ok (), demo_node\<lparr>interactions := 1\<rparr>)"
    by (simp add: createRefreshTokens_def andthen_apply asks_apply refresh_client_def IsTokenRefreshRequired_def time_Now_apply
        ret_apply demo_node_tick demo_node_def time_Second_def REFRESH_INTERVAL_def)
  from createRefreshTokens_keeps_valid [OF this] this show ?thesis
    by (simp add: demo_node_def time_Second_def REFRESH_INTERVAL_def)
qed

lemma detectAndManageCluster_hash_witness:
  "km_ok demo_node_env demo_node \<and> detectAndManageCluster demo_node_env (Some ''hm'') demo_confs demo_node = (Ok (), demo_node)"
proof -
  have k: "km_ok demo_node_env demo_node" by (simp add: km_ok_def demo_node_def)
  have d: "detectAndManageCluster demo_node_env (Some ''hm'') demo_confs demo_node = (Ok (), demo_node)"
    by (simp add: detectAndManageCluster_def DetectCluster_def demo_confs_def andthen_apply attempt_apply fail_apply asks_apply
        HasKubeconfig_def KubeconfigSize_def demo_node_def ret_apply)
  show ?thesis using detectAndManageCluster_hash [OF k d] d by simp
qed

end
