(* ===== verification/Pta_Config.thy ===== *)
theory Pta_Config
  imports Agent_Common Go_Time
begin

text \<open>
  The texts that the Platform Telemetry Agent writes: the configurations of telegraf
  (\<^verbatim>\<open>internal/metriccfg/metriccfg.go\<close>) and of fluent-bit (\<^verbatim>\<open>internal/logcfg/logcfg.go\<close>), and the string
  helpers of \<^verbatim>\<open>internal/helper/helper.go\<close>.

  A template is a list of records that the YAML decoder delivers. Its map of default values is a list
  of pairs; Go visits a map in any order, which the argument \<open>order\<close> fixes for the line that is
  replaced (its template and its number). Both packages have functions of the same names; those of
  the metrics are called \<open>metric_\<close>, those of the logs \<open>log_\<close>.
\<close>

section \<open>What the telemetry manager asks for\<close>

datatype CollectorKind = COLLECTOR_KIND_HOST | COLLECTOR_KIND_CLUSTER | OTHER_COLLECTOR int

datatype TelemetryResourceKind = TELEMETRY_RESOURCE_KIND_METRICS | TELEMETRY_RESOURCE_KIND_LOGS | OTHER_RESOURCE int

datatype SeverityLevel = SEVERITY_LEVEL_UNSPECIFIED | SEVERITY_LEVEL_CRITICAL | SEVERITY_LEVEL_ERROR | SEVERITY_LEVEL_WARN
  | SEVERITY_LEVEL_INFO | SEVERITY_LEVEL_DEBUG | OTHER_LEVEL int

record TelemetryCfg =
  tc_Input :: string
  tc_Type :: TelemetryResourceKind
  tc_Kind :: CollectorKind
  tc_Interval :: int
  tc_Level :: SeverityLevel

section \<open>Sections of a text\<close>

definition add_section :: "string \<Rightarrow> string \<Rightarrow> string list \<times> string \<Rightarrow> string list \<times> string" where
  "add_section sectionsKey line = (\<lambda>(results, sections).
     if HasPrefix line sectionsKey then ((if sections \<noteq> [] then results @ [sections] else results), line @ [nl])
     else (results, sections @ line @ [nl]))"

definition SplitStringAsSections :: "string \<Rightarrow> string \<Rightarrow> string list" where
  "SplitStringAsSections sectionsKey bigString =
     (case fold (add_section sectionsKey) (Split bigString nl) ([], []) of
       (results, sections) \<Rightarrow> if sections \<noteq> [] then results @ [sections] else results)"

definition GetSectionBasedonKey :: "string list \<Rightarrow> string \<Rightarrow> string" where
  "GetSectionBasedonKey strSet key =
     (let result = fold (\<lambda>st result. if list_ex (\<lambda>line. Contains line key) (Split st nl) then st else result) strSet [] in
      if result = [] then Join strSet [nl] else result)"

section \<open>Holes of a template line\<close>

text \<open>
  \<^verbatim>\<open>regexp.ReplaceAllString\<close> expands the replacement: \<^verbatim>\<open>$$\<close> is a dollar, \<^verbatim>\<open>$0\<close> and \<^verbatim>\<open>${0}\<close> are the match, the
  other names are empty, as the expression has no groups, and a dollar without a name stays.
\<close>

definition word_char :: "char \<Rightarrow> bool" where
  "word_char c = (is_digit c \<or> c = CHR ''_'' \<or> 65 \<le> (of_char c :: nat) \<and> (of_char c :: nat) \<le> 90 \<or>
     97 \<le> (of_char c :: nat) \<and> (of_char c :: nat) \<le> 122)"

definition extract_name :: "string \<Rightarrow> (string \<times> string) option" where
  "extract_name s = (let brace = HasPrefix s ''{''; t = (if brace then tl s else s); name = takeWhile word_char t;
       rest = dropWhile word_char t in
     if name = [] \<or> brace \<and> \<not> HasPrefix rest ''}'' then None
     else Some (name, if brace then tl rest else rest))"

lemma length_extract_name: "extract_name s = Some (n, r) \<Longrightarrow> length r \<le> length s"
proof -
  assume e: "extract_name s = Some (n, r)"
  have *: "length (dropWhile word_char t) \<le> length t" for t by (rule length_dropWhile_le)
  show ?thesis
    using e *[of s] *[of "tl s"] by (auto simp: extract_name_def Let_def split: if_splits)
qed

function regexp_Expand :: "string \<Rightarrow> string \<Rightarrow> string" where
  "regexp_Expand [] matched = []"
| "regexp_Expand (c # s) matched =
     (if c \<noteq> CHR ''$'' then c # regexp_Expand s matched
      else if HasPrefix s ''$'' then CHR ''$'' # regexp_Expand (tl s) matched
      else case extract_name s of None \<Rightarrow> CHR ''$'' # regexp_Expand s matched
        | Some (name, rest) \<Rightarrow> (if name = ''0'' then matched else []) @ regexp_Expand rest matched)"
  by pat_completeness auto
termination
  by (relation "measure (\<lambda>(s, m). length s)") (auto dest: length_extract_name)

text \<open>\<open>regexp.MustCompile(`{{.*?}}`).ReplaceAllString(line, value)\<close> for a line without a line break.\<close>

lemma Index_bound: "Index s sub = Some i \<Longrightarrow> length (drop i s) \<ge> length sub \<and> i \<le> length s"
  by (metis Index_Some le_add1 length_append)

function replace_holes :: "string \<Rightarrow> string \<Rightarrow> string" where
  "replace_holes line val = (case Index line ''{{'' of None \<Rightarrow> line
   | Some i \<Rightarrow> (case Index (drop (i + 2) line) ''}}'' of None \<Rightarrow> line
     | Some j \<Rightarrow> take i line @ regexp_Expand val (take (j + 4) (drop i line)) @ replace_holes (drop (i + j + 4) line) val))"
  by pat_completeness auto
termination
  by (relation "measure (\<lambda>(s, m). length s)") (auto dest!: Index_bound)

declare replace_holes.simps [simp del]

text \<open>The first key, in the order of the iteration, that the line contains.\<close>

definition getDefaultValue :: "string \<Rightarrow> (string \<times> string) list \<Rightarrow> string" where
  "getDefaultValue fullLine keys = (case find (\<lambda>(key, _). Contains fullLine key) keys of
     Some (_, val) \<Rightarrow> val | None \<Rightarrow> ''error'')"

type_synonym map_order = "nat \<Rightarrow> nat \<Rightarrow> (string \<times> string) list \<Rightarrow> (string \<times> string) list"

text \<open>The lines of a template that hold a hole are edited, the others stay.\<close>

definition edit_lines :: "(nat \<Rightarrow> string \<Rightarrow> string) \<Rightarrow> string \<Rightarrow> string" where
  "edit_lines edit txt = Join (map (\<lambda>(i, line). if Contains line ''{{'' then edit i line else line)
     (enumerate 0 (Split txt nl))) [nl]"

section \<open>The configuration of telegraf\<close>

record TelegrafTemplate =
  tl_Key :: string
  tl_Type :: string
  tl_IsInit :: bool
  tl_DefaultValues :: "(string \<times> string) list"
  tl_MultilineData :: string

text \<open>The loop over the lines of the section: None when no line decides.\<close>

fun metric_match :: "string \<Rightarrow> string \<Rightarrow> string list \<Rightarrow> string option" where
  "metric_match deflt ident [] = None"
| "metric_match deflt ident (confLine # rest) =
     (if \<not> Contains confLine ident then metric_match deflt ident rest
      else (let configMatching = TrimSpace (hd (Split confLine (CHR ''='')))
        in if configMatching = TrimSpace confLine then Some deflt
           else if configMatching = ident then Some confLine
           else metric_match deflt ident rest))"

definition metric_replaceValue :: "string \<Rightarrow> string \<Rightarrow> (string \<times> string) list \<Rightarrow> string" where
  "metric_replaceValue line configmap keys =
     (let deflt = replace_holes line (getDefaultValue line keys);
          ident = TrimSpace (hd (Split line (CHR ''='')))
      in case metric_match deflt ident (Split configmap nl) of Some l \<Rightarrow> l | None \<Rightarrow> deflt)"

definition metric_updateTemplate :: "map_order \<Rightarrow> TelegrafTemplate list \<Rightarrow> string \<Rightarrow> TelegrafTemplate list" where
  "metric_updateTemplate order dataset configmap =
     (let configmapArray = SplitStringAsSections ''['' configmap in
      map (\<lambda>(k, data). data\<lparr>tl_MultilineData := edit_lines (\<lambda>i line.
             metric_replaceValue line (GetSectionBasedonKey configmapArray (tl_Key data)) (order k i (tl_DefaultValues data)))
           (tl_MultilineData data)\<rparr>) (enumerate 0 dataset))"

text \<open>What both look-ups share: the texts of the matching entries.\<close>

definition metric_texts :: "(TelegrafTemplate \<Rightarrow> bool) \<Rightarrow> TelegrafTemplate list \<Rightarrow> string" where
  "metric_texts p dataset = concat (map (\<lambda>e. tl_MultilineData e @ [nl]) (filter p dataset))"

definition metric_getInputTemplateFromKey :: "string \<Rightarrow> string \<Rightarrow> TelegrafTemplate list \<Rightarrow> string + string" where
  "metric_getInputTemplateFromKey key typ dataset =
     (let result = metric_texts (\<lambda>e. tl_Key e = key \<and> tl_Type e = typ) dataset in
      if result = [] then Inl (''key='' @ key @ '' not found in template'') else Inr result)"

definition metric_getDefaultInputTemplate :: "string \<Rightarrow> TelegrafTemplate list \<Rightarrow> bool \<Rightarrow> string + string" where
  "metric_getDefaultInputTemplate typ dataset isInit =
     (let result = metric_texts (\<lambda>e. \<not> isInit \<and> tl_Type e = typ \<or> isInit \<and> tl_IsInit e) dataset in
      if result = [] then Inl (''type='' @ typ @ '' not found in template'') else Inr result)"

definition addInterval :: "string \<Rightarrow> string \<Rightarrow> string" where
  "addInterval cfgCurrentRaw interval = TrimSpace cfgCurrentRaw @ [nl] @ ''  interval = '' @ [CHR 0x22] @ interval @ ''m'' @ [CHR 0x22, nl]"

definition metric_input :: "TelegrafTemplate list \<Rightarrow> CollectorKind \<Rightarrow> TelemetryCfg \<Rightarrow> string" where
  "metric_input tlTemplate kind itx =
     (if tc_Type itx = TELEMETRY_RESOURCE_KIND_METRICS \<and> tc_Kind itx = kind
      then (case metric_getInputTemplateFromKey (tc_Input itx) ''input'' tlTemplate of
         Inl _ \<Rightarrow> [] | Inr t \<Rightarrow> addInterval t (show_int (tc_Interval itx)) @ [nl])
      else [])"

definition optional_text :: "string + string \<Rightarrow> string" where
  "optional_text r = (case r of Inl _ \<Rightarrow> [] | Inr t \<Rightarrow> t @ [nl])"

definition metric_updateCfg :: "TelemetryCfg list \<Rightarrow> TelegrafTemplate list \<Rightarrow> CollectorKind \<Rightarrow> bool \<Rightarrow> string + string" where
  "metric_updateCfg cfg tlTemplate kind isInit = (case metric_getInputTemplateFromKey ''agent'' ''global'' tlTemplate of
     Inl err \<Rightarrow> Inl err
   | Inr t \<Rightarrow> (let header = t @ [nl];
         inputCfg = concat (map (metric_input tlTemplate kind) cfg) @ optional_text (metric_getDefaultInputTemplate ''default'' tlTemplate isInit);
         output = optional_text (metric_getInputTemplateFromKey ''output'' ''output'' tlTemplate);
         finalContent = header @ inputCfg @ output
       in if finalContent = [] then Inl ''invalid update, empty content'' else Inr finalContent))"

section \<open>The configuration of fluent-bit\<close>

record FluentBitTemplate =
  fb_Key :: string
  fb_Type :: string
  fb_Tag :: string
  fb_IsInit :: bool
  fb_DefaultValues :: "(string \<times> string) list"
  fb_MultilineData :: string

text \<open>The words up to the hole, each with a space behind it, and how many pieces precede the hole.\<close>

fun identifier_at :: "string \<Rightarrow> nat \<Rightarrow> string list \<Rightarrow> (string \<times> nat) option" where
  "identifier_at ident index [] = None"
| "identifier_at ident index (w # ws) =
     (if w = ''{{'' then Some (ident, index)
      else identifier_at (if w \<noteq> [] then ident @ w @ '' '' else ident) (Suc index) ws)"

definition extractIdentifier :: "string \<Rightarrow> string + string \<times> nat" where
  "extractIdentifier fullLine = (case identifier_at [] 0 (Split fullLine (CHR '' '')) of
     Some r \<Rightarrow> Inr r | None \<Rightarrow> Inl (''identifier not found in line: '' @ fullLine))"

fun words_to :: "nat \<Rightarrow> string \<Rightarrow> string list \<Rightarrow> string option" where
  "words_to n ident [] = None"
| "words_to 0 ident (w # ws) = Some ident"
| "words_to (Suc n) ident (w # ws) = words_to n (if w \<noteq> [] then ident @ w @ '' '' else ident) ws"

definition extractIdentifierByNumber :: "string \<Rightarrow> nat \<Rightarrow> string" where
  "extractIdentifierByNumber fullLine idLocation = (case words_to idLocation [] (Split fullLine (CHR '' '')) of
     Some ident \<Rightarrow> ident | None \<Rightarrow> fullLine)"

fun log_match :: "string \<Rightarrow> string \<Rightarrow> nat \<Rightarrow> string list \<Rightarrow> string option" where
  "log_match deflt ident index [] = None"
| "log_match deflt ident index (confLine # rest) =
     (if \<not> Contains confLine ident then log_match deflt ident index rest
      else (let configMatching = extractIdentifierByNumber confLine index
        in if configMatching = confLine then Some deflt
           else if configMatching = ident then Some confLine
           else log_match deflt ident index rest))"

definition log_replaceValue :: "string \<Rightarrow> string \<Rightarrow> (string \<times> string) list \<Rightarrow> string" where
  "log_replaceValue line configmap keys =
     (let deflt = replace_holes line (getDefaultValue line keys) in
      case extractIdentifier line of Inl _ \<Rightarrow> deflt
      | Inr (ident, index) \<Rightarrow> (case log_match deflt ident index (Split configmap nl) of Some l \<Rightarrow> l | None \<Rightarrow> deflt))"

definition log_updateTemplate :: "map_order \<Rightarrow> FluentBitTemplate list \<Rightarrow> string \<Rightarrow> FluentBitTemplate list" where
  "log_updateTemplate order dataset configmap =
     map (\<lambda>(k, data). data\<lparr>fb_MultilineData := edit_lines (\<lambda>i line.
             log_replaceValue line configmap (order k i (fb_DefaultValues data))) (fb_MultilineData data)\<rparr>) (enumerate 0 dataset)"

definition log_texts :: "(FluentBitTemplate \<Rightarrow> bool) \<Rightarrow> FluentBitTemplate list \<Rightarrow> string" where
  "log_texts p dataset = concat (map (\<lambda>e. fb_MultilineData e @ [nl]) (filter p dataset))"

text \<open>For every entry, once for every occurrence of its tag.\<close>

definition tag_filters :: "string list \<Rightarrow> FluentBitTemplate list \<Rightarrow> string" where
  "tag_filters tag dataset = concat (map (\<lambda>e. concat (map (\<lambda>val.
     if fb_Tag e = val \<and> fb_Type e = ''filter'' then fb_MultilineData e @ [nl] else []) tag)) dataset)"

definition log_getInputTemplateFromKey :: "string \<Rightarrow> string \<Rightarrow> FluentBitTemplate list \<Rightarrow> string + string \<times> string" where
  "log_getInputTemplateFromKey key typ dataset =
     (let p = (\<lambda>e. fb_Key e = key \<and> fb_Type e = typ); result = log_texts p dataset;
          tag = map fb_Tag (filter p dataset)
      in if result = [] \<and> typ \<noteq> ''filter'' then Inl (''key='' @ key @ '' not found in template'')
         else Inr (result, tag_filters tag dataset))"

definition log_getDefaultInputTemplate :: "string \<Rightarrow> FluentBitTemplate list \<Rightarrow> bool \<Rightarrow> string + string \<times> string" where
  "log_getDefaultInputTemplate typ dataset isInit =
     (let p = (\<lambda>e. \<not> isInit \<and> fb_Type e = typ \<or> isInit \<and> fb_IsInit e); result = log_texts p dataset;
          tag = map fb_Tag (filter p dataset)
      in if result = [] \<and> typ \<noteq> ''filter'' then Inl (''key='' @ typ @ '' not found in template'')
         else Inr (result, tag_filters tag dataset))"

definition level_text :: "SeverityLevel \<Rightarrow> string" where
  "level_text loglevel = (case loglevel of
     SEVERITY_LEVEL_ERROR \<Rightarrow> ''error'' | SEVERITY_LEVEL_WARN \<Rightarrow> ''warn'' | SEVERITY_LEVEL_DEBUG \<Rightarrow> ''debug''
   | _ \<Rightarrow> ''info'')"

definition addLogLevel :: "string \<Rightarrow> SeverityLevel \<Rightarrow> string" where
  "addLogLevel cfgCurrentRaw loglevel = TrimSpace cfgCurrentRaw @ [nl] @ ''    Log_Level '' @ level_text loglevel @ [nl]"

definition log_input :: "FluentBitTemplate list \<Rightarrow> CollectorKind \<Rightarrow> TelemetryCfg \<Rightarrow> string \<times> string" where
  "log_input fbTemplate kind itx =
     (if tc_Type itx = TELEMETRY_RESOURCE_KIND_LOGS \<and> tc_Kind itx = kind
      then (case log_getInputTemplateFromKey (tc_Input itx) ''input'' fbTemplate of
         Inl _ \<Rightarrow> ([], []) | Inr (t, f) \<Rightarrow> (addLogLevel t (tc_Level itx) @ [nl], f @ [nl]))
      else ([], []))"

definition log_updateCfg :: "TelemetryCfg list \<Rightarrow> FluentBitTemplate list \<Rightarrow> CollectorKind \<Rightarrow> bool \<Rightarrow> string + string" where
  "log_updateCfg cfg fbTemplate kind isInit = (case log_getInputTemplateFromKey ''header'' ''service'' fbTemplate of
     Inl err \<Rightarrow> Inl err
   | Inr (t, _) \<Rightarrow> (let header = t @ [nl];
         deflt = (case log_getDefaultInputTemplate ''default'' fbTemplate isInit of Inl _ \<Rightarrow> ([], []) | Inr (t, f) \<Rightarrow> (t @ [nl], f @ [nl]));
         inputCfg = concat (map (fst \<circ> log_input fbTemplate kind) cfg) @ fst deflt;
         filterCfg = concat (map (snd \<circ> log_input fbTemplate kind) cfg) @ snd deflt;
         filterAll = (case log_getInputTemplateFromKey ''filter_all'' ''filter'' fbTemplate of
            Inl _ \<Rightarrow> [] | Inr (t, _) \<Rightarrow> if t \<noteq> [] then t @ [nl] else []);
         output = optional_text (map_sum id fst (log_getInputTemplateFromKey ''output'' ''output'' fbTemplate));
         finalContent = header @ inputCfg @ filterCfg @ filterAll @ output
       in if finalContent = [] then Inl ''invalid update, empty content'' else Inr finalContent))"

end
