(* ===== verification/Pta_Agent.thy ===== *)
theory Pta_Agent
  imports Pta_Config
begin

text \<open>
  The Platform Telemetry Agent: the client of the telemetry manager and the detection of changes
  (\<^verbatim>\<open>internal/clientapi/clientapi.go\<close>), the commands (\<^verbatim>\<open>internal/helper/helper.go\<close>), the updates of the four
  configurations (\<^verbatim>\<open>internal/metriccfg/metriccfg.go\<close>, \<^verbatim>\<open>internal/logcfg/logcfg.go\<close>) and the loops of
  \<^verbatim>\<open>cmd/telemetryagent/main.go\<close>.

  The state adds to the host the globals \<open>LastResp\<close> and \<open>LastProfile\<close> and the time of the last
  answer. The manager, the YAML decoder and the values of the configuration file (viper) are
  parameters. The four updates of a round run in goroutines of their own; they share no file and no
  variable, and the model runs them one after another in an order that the environment chooses.
\<close>

section \<open>State and environment\<close>

record ProfileGroup =
  collectorKind :: CollectorKind
  resourceKind :: TelemetryResourceKind

record pta = host +
  LastResp :: "TelemetryCfg list option"
  LastProfile :: "ProfileGroup list"
  lastUpdateTimestamp :: int

record pta_env = host_env +
  GetTelemetryConfigByGUID :: "nat \<Rightarrow> string \<Rightarrow> string \<Rightarrow> string + TelemetryCfg list"
  yaml_telegraf :: "string \<Rightarrow> string + TelegrafTemplate list"
  yaml_fluentbit :: "string \<Rightarrow> string + FluentBitTemplate list"
  map_order :: "nat \<Rightarrow> map_order"
  job_order :: "nat \<Rightarrow> nat list"

section \<open>Detection of changes\<close>

definition MetricHost :: nat where "MetricHost = 0"
definition MetricCluster :: nat where "MetricCluster = 1"
definition LogHost :: nat where "LogHost = 2"
definition LogCluster :: nat where "LogCluster = 3"

definition getMaskIdx :: "TelemetryCfg \<Rightarrow> nat" where
  "getMaskIdx itx =
     (if tc_Kind itx = COLLECTOR_KIND_HOST \<and> tc_Type itx = TELEMETRY_RESOURCE_KIND_METRICS then MetricHost
      else if tc_Kind itx = COLLECTOR_KIND_CLUSTER \<and> tc_Type itx = TELEMETRY_RESOURCE_KIND_METRICS then MetricCluster
      else if tc_Kind itx = COLLECTOR_KIND_HOST \<and> tc_Type itx = TELEMETRY_RESOURCE_KIND_LOGS then LogHost
      else LogCluster)"

definition convertConfig :: "TelemetryCfg \<Rightarrow> ProfileGroup" where
  "convertConfig source = \<lparr>collectorKind = tc_Kind source, resourceKind = tc_Type source\<rparr>"

definition isEqual :: "ProfileGroup \<Rightarrow> ProfileGroup \<Rightarrow> bool" where
  "isEqual s t = (collectorKind s = collectorKind t \<and> resourceKind s = resourceKind t)"

definition removeDuplicates :: "ProfileGroup list \<Rightarrow> ProfileGroup list" where
  "removeDuplicates arr = fold (\<lambda>a result. if list_ex (isEqual a) result then result else result @ [a]) arr []"

definition unchanged_in :: "TelemetryCfg list \<Rightarrow> TelemetryCfg \<Rightarrow> bool" where
  "unchanged_in cfgPrev itxNew = list_ex (\<lambda>itxPrev. tc_Input itxNew = tc_Input itxPrev \<and>
     tc_Interval itxNew = tc_Interval itxPrev \<and> tc_Level itxNew = tc_Level itxPrev) cfgPrev"

definition mark_changed :: "TelemetryCfg list \<Rightarrow> TelemetryCfg list \<Rightarrow> bool list \<Rightarrow> bool list" where
  "mark_changed cfgPrev cfgNew = fold (\<lambda>n mask. if unchanged_in cfgPrev n then mask else mask[getMaskIdx n := True]) cfgNew"

definition mark_removed :: "TelemetryCfg list \<Rightarrow> TelemetryCfg list \<Rightarrow> bool list \<Rightarrow> bool list" where
  "mark_removed cfgPrev cfgNew = fold (\<lambda>p mask. if list_ex (\<lambda>n. tc_Input n = tc_Input p) cfgNew then mask
     else mask[getMaskIdx p := True]) cfgPrev"

definition missing_profile :: "ProfileGroup \<Rightarrow> TelemetryCfg" where
  "missing_profile p = \<lparr>tc_Input = [], tc_Type = resourceKind p, tc_Kind = collectorKind p, tc_Interval = 0,
     tc_Level = SEVERITY_LEVEL_UNSPECIFIED\<rparr>"

definition mark_lost :: "ProfileGroup list \<Rightarrow> ProfileGroup list \<Rightarrow> bool list \<times> bool list \<Rightarrow> bool list \<times> bool list" where
  "mark_lost lastProfile newProfile = fold (\<lambda>p (maskDirty, maskInit). if list_ex (\<lambda>n. isEqual n p) newProfile then (maskDirty, maskInit)
     else (maskDirty[getMaskIdx (missing_profile p) := True], maskInit[getMaskIdx (missing_profile p) := True])) lastProfile"

definition CheckIfChanged :: "TelemetryCfg list option \<Rightarrow> (pta, bool list \<times> bool list) action" where
  "CheckIfChanged latestCfg = (case latestCfg of
     None \<Rightarrow> ret (replicate 4 False, replicate 4 False)
   | Some cfgNew \<Rightarrow> andthen (asks (\<lambda>w. (LastResp w, LastProfile w))) (\<lambda>(lastResp, lastProfile).
       let cfgPrev = (case lastResp of None \<Rightarrow> [] | Some c \<Rightarrow> c);
           newProfile = removeDuplicates (map convertConfig cfgNew);
           masks = mark_lost lastProfile newProfile
             (mark_removed cfgPrev cfgNew (mark_changed cfgPrev cfgNew (replicate 4 False)), replicate 4 False)
       in andthen (modify (\<lambda>w. w\<lparr>LastProfile := newProfile, LastResp := latestCfg\<rparr>)) (\<lambda>_. ret masks)))"

section \<open>The client\<close>

definition NUM_RETRIES_pta :: nat where "NUM_RETRIES_pta = 3"

definition pta_GetConfig :: "'e pta_env_scheme \<Rightarrow> string \<Rightarrow> string \<Rightarrow> (pta, TelemetryCfg list option) action" where
  "pta_GetConfig env nodeId jwtTokenPath = andthen (asks (\<lambda>w. not_exist (host_cwd env) jwtTokenPath (disk w))) (\<lambda>missing.
     if missing then fail (''stat '' @ jwtTokenPath @ '': no such file or directory'')
     else andthen (GetAuthContext env jwtTokenPath) (\<lambda>ctxAuth.
       andthen (asks interactions) (\<lambda>n.
       andthen (retry (min NUM_RETRIES_pta (attempts_left env n))
         (andthen (tick env 0 (\<lambda>n. GetTelemetryConfigByGUID env n ctxAuth nodeId)) lift_result)) (\<lambda>resp.
       ret (Some resp)))))"

section \<open>Commands and files\<close>

text \<open>The lines of the output, each ended by a line feed. No call asks for an asynchronous run.\<close>

definition scanned :: "string \<Rightarrow> string" where
  "scanned out = (let ls = Split out nl; ls = (if last ls = [] then butlast ls else ls)
     in concat (map (\<lambda>l. TrimSuffix l [CHR 0x0D] @ [nl]) (takeWhile (\<lambda>l. length l < 65536) ls)))"

definition RunExec :: "'e pta_env_scheme \<Rightarrow> string list \<Rightarrow> (pta, string) action" where
  "RunExec env args = andthen (run_process env args (os_Environ env)) (\<lambda>res.
     case exit_error res of None \<Rightarrow> ret (scanned (Stdout res)) | Some e \<Rightarrow> fail e)"

definition RunStringCommand :: "'e pta_env_scheme \<Rightarrow> string \<Rightarrow> (pta, string) action" where
  "RunStringCommand env command =
     (if command = [] then fail ''command is empty''
      else case Fields command of [] \<Rightarrow> crash ''index out of range'' | parts \<Rightarrow> RunExec env parts)"

definition Kubectl :: string where "Kubectl = ''kubectl''"

definition saveTmpFile :: "'e pta_env_scheme \<Rightarrow> string \<Rightarrow> string \<Rightarrow> (pta, unit) action" where
  "saveTmpFile env cfgUpdatedStr tempFilePath = on_disk (andthen (os_Create (host_cwd env) tempFilePath) (\<lambda>file.
     WriteString file (TrimSpace cfgUpdatedStr)))"

text \<open>\<open>json.Marshal\<close> of a string, in ASCII; the other bytes are taken for valid UTF-8.\<close>

definition json_char :: "char \<Rightarrow> string" where
  "json_char c = (let n = (of_char c :: nat) in
     if n = 0x22 \<or> n = 0x5C then [CHR 0x5C, c]
     else if c = CHR 0x08 then [CHR 0x5C, CHR ''b''] else if c = CHR 0x09 then [CHR 0x5C, CHR ''t'']
     else if c = CHR 0x0A then [CHR 0x5C, CHR ''n''] else if c = CHR 0x0C then [CHR 0x5C, CHR ''f'']
     else if c = CHR 0x0D then [CHR 0x5C, CHR ''r'']
     else if n < 0x20 \<or> c \<in> {CHR ''<'', CHR ''>'', CHR ''&''}
     then [CHR 0x5C] @ ''u00'' @ [hex_digit (n div 16), hex_digit (n mod 16)]
     else [c])"

definition json_string :: "string \<Rightarrow> string" where
  "json_string s = [CHR 0x22] @ concat (map json_char s) @ [CHR 0x22]"

text \<open>The patch of a config map with one file.\<close>

definition patch_json :: "string \<Rightarrow> string \<Rightarrow> string" where
  "patch_json name content = ''{'' @ json_string ''data'' @ '':{'' @ json_string name @ '':'' @ json_string content @ ''}}''"

section \<open>The four updates\<close>

text \<open>The values that \<^verbatim>\<open>main\<close> reads from the configuration file.\<close>

record PtaConfig =
  nodeid :: string
  server_token :: string
  updateinterval :: string
  telegrafFilePath :: string
  fluentbitFilePath :: string
  telegrafHostGoldPath :: string
  telegrafClusterGoldPath :: string
  fluentbitHostGoldPath :: string
  fluentbitClusterGoldPath :: string
  TmpFileDir :: string
  telegrafConfigMap :: string
  fluentbitConfigMap :: string
  FileOwner :: string
  statusEndpoint :: string
  server_address :: string
  server_port :: int

definition TmpHostFile :: string where "TmpHostFile = ''telegraf-tmp.conf''"
definition TmpClusterFile :: string where "TmpClusterFile = ''telegraf-tmp-cluster.conf''"

definition ConfigMapCommand :: "string \<Rightarrow> string" where
  "ConfigMapCommand arguments = ''sudo '' @ Kubectl @ '' '' @ arguments"

definition read_template :: "'e pta_env_scheme \<Rightarrow> (string \<Rightarrow> string + 'a) \<Rightarrow> string \<Rightarrow> (pta, 'a) action" where
  "read_template env decode path = andthen (on_disk (ReadFileNoLinks (host_cwd env) path)) (\<lambda>content. lift_result (decode content))"

definition UpdateHostMetricConfig :: "'e pta_env_scheme \<Rightarrow> PtaConfig \<Rightarrow> TelemetryCfg list \<Rightarrow> string \<Rightarrow> string \<Rightarrow> bool \<Rightarrow> (pta, bool) action" where
  "UpdateHostMetricConfig env confs cfg cfgFilePath cfgTemplatePath isInit =
     andthen (read_template env (yaml_telegraf env) cfgTemplatePath) (\<lambda>tlTemplate.
     andthen (lift_result (metric_updateCfg cfg tlTemplate COLLECTOR_KIND_HOST isInit)) (\<lambda>cfgUpdatedStr.
     let tempFilePath = TmpFileDir confs @ TmpHostFile in
     andthen (saveTmpFile env cfgUpdatedStr tempFilePath) (\<lambda>_.
     andthen (RunExec env [''sudo'', ''mv'', tempFilePath, cfgFilePath]) (\<lambda>_.
     andthen (RunExec env [''sudo'', ''systemctl'', ''restart'', ''platform-observability-metrics'']) (\<lambda>_.
     ret True)))))"

definition kubectl_patch :: "string \<Rightarrow> string \<Rightarrow> string list" where
  "kubectl_patch configmap patch = [''sudo'', Kubectl, ''patch'', ''configmap'', configmap, ''-p'', patch, ''-n'', ''observability'']"

definition kubectl_delete :: "string \<Rightarrow> string list" where
  "kubectl_delete name = [''sudo'', Kubectl, ''delete'', ''pods'', ''-l'', ''app.kubernetes.io/name='' @ name, ''-n'', ''observability'']"

definition UpdateClusterMetricConfig :: "'e pta_env_scheme \<Rightarrow> PtaConfig \<Rightarrow> TelemetryCfg list \<Rightarrow> string \<Rightarrow> bool \<Rightarrow> (pta, bool) action" where
  "UpdateClusterMetricConfig env confs cfg cfgTemplatePath isInit =
     andthen (read_template env (yaml_telegraf env) cfgTemplatePath) (\<lambda>tlTemplate.
     andthen (RunStringCommand env (ConfigMapCommand (telegrafConfigMap confs))) (\<lambda>currConfigMap.
     andthen (asks (\<lambda>w. map_order env (interactions w))) (\<lambda>order.
     let updatedTLTemplate = metric_updateTemplate order tlTemplate currConfigMap in
     andthen (lift_result (metric_updateCfg cfg updatedTLTemplate COLLECTOR_KIND_CLUSTER isInit)) (\<lambda>cfgUpdatedStr.
     let tempFilePath = TmpFileDir confs @ TmpClusterFile in
     andthen (saveTmpFile env cfgUpdatedStr tempFilePath) (\<lambda>_.
     andthen (on_disk (ReadFileNoLinks (host_cwd env) tempFilePath)) (\<lambda>tempFileContent.
     andthen (RunExec env (kubectl_patch ''telegraf-config'' (patch_json ''base-ext-telegraf.conf'' tempFileContent))) (\<lambda>_.
     andthen (RunExec env (kubectl_delete ''telegraf'')) (\<lambda>_.
     ret True))))))))"

definition UpdateHostLogConfig :: "'e pta_env_scheme \<Rightarrow> PtaConfig \<Rightarrow> TelemetryCfg list \<Rightarrow> string \<Rightarrow> string \<Rightarrow> bool \<Rightarrow> (pta, bool) action" where
  "UpdateHostLogConfig env confs cfg cfgFilePath cfgTemplatePath isInit =
     andthen (read_template env (yaml_fluentbit env) cfgTemplatePath) (\<lambda>fbTemplate.
     andthen (lift_result (log_updateCfg cfg fbTemplate COLLECTOR_KIND_HOST isInit)) (\<lambda>cfgUpdatedStr.
     let tempFilePath = TmpFileDir confs @ ''fluentbit-tmp.conf'' in
     andthen (saveTmpFile env cfgUpdatedStr tempFilePath) (\<lambda>_.
     andthen (RunExec env [''sudo'', ''mv'', tempFilePath, cfgFilePath]) (\<lambda>_.
     andthen (RunExec env [''sudo'', ''chown'', FileOwner confs, cfgFilePath]) (\<lambda>_.
     andthen (RunExec env [''sudo'', ''systemctl'', ''restart'', ''platform-observability-logging'']) (\<lambda>_.
     ret True))))))"

definition UpdateClusterLogConfig :: "'e pta_env_scheme \<Rightarrow> PtaConfig \<Rightarrow> TelemetryCfg list \<Rightarrow> string \<Rightarrow> bool \<Rightarrow> (pta, bool) action" where
  "UpdateClusterLogConfig env confs cfg cfgTemplatePath isInit =
     andthen (read_template env (yaml_fluentbit env) cfgTemplatePath) (\<lambda>fbTemplate.
     andthen (RunStringCommand env (ConfigMapCommand (fluentbitConfigMap confs))) (\<lambda>currConfigMap.
     andthen (asks (\<lambda>w. map_order env (interactions w))) (\<lambda>order.
     let updatedFBTemplate = log_updateTemplate order fbTemplate currConfigMap in
     andthen (lift_result (log_updateCfg cfg updatedFBTemplate COLLECTOR_KIND_CLUSTER isInit)) (\<lambda>cfgUpdatedStr.
     let tempFilePath = TmpFileDir confs @ ''fluentbit-cluster-tmp.conf'' in
     andthen (saveTmpFile env cfgUpdatedStr tempFilePath) (\<lambda>_.
     andthen (on_disk (ReadFileNoLinks (host_cwd env) tempFilePath)) (\<lambda>tempFileContent.
     andthen (RunExec env (kubectl_patch ''fluent-bit-config'' (patch_json ''fluent-bit.conf'' tempFileContent))) (\<lambda>_.
     andthen (RunExec env (kubectl_delete ''fluent-bit'')) (\<lambda>_.
     ret True))))))))"

section \<open>The program\<close>

definition AGENT_NAME_pta :: string where "AGENT_NAME_pta = ''platform-telemetry-agent''"

definition getConString :: "PtaConfig \<Rightarrow> string" where
  "getConString confs = server_address confs @ '':'' @ show_int (server_port confs)"

text \<open>Durations and numbers of type \<^verbatim>\<open>int64\<close> wrap around.\<close>

definition int64 :: "int \<Rightarrow> int" where
  "int64 n = sint (word_of_int n :: 64 word)"

definition refreshInterval :: "PtaConfig \<Rightarrow> int" where
  "refreshInterval confs = (case ParseInt64 (updateinterval confs) of None \<Rightarrow> 60 | Some n \<Rightarrow> n)"

definition ConnectToTelemetryManager :: "'e pta_env_scheme \<Rightarrow> string \<Rightarrow> (pta, string) action" where
  "ConnectToTelemetryManager env serverAddr = andthen (attempt (GetAuthConfig env None)) (\<lambda>r. case r of
     Inl e \<Rightarrow> crash (''TLS configuration creation failed! Error: '' @ e)
   | Inr _ \<Rightarrow> andthen (tick env 0 (\<lambda>n. dial_error env n serverAddr)) (\<lambda>e.
       case e of None \<Rightarrow> ret serverAddr | Some m \<Rightarrow> fail m))"

definition pta_job :: "'e pta_env_scheme \<Rightarrow> PtaConfig \<Rightarrow> TelemetryCfg list \<Rightarrow> bool list \<Rightarrow> bool list \<Rightarrow> nat \<Rightarrow> (pta, unit) action" where
  "pta_job env confs resp isDirtyMask isInitMask k =
     (if \<not> isDirtyMask ! k then ret ()
      else if k = MetricHost then ignore (UpdateHostMetricConfig env confs resp (telegrafFilePath confs) (telegrafHostGoldPath confs) (isInitMask ! MetricHost))
      else if k = MetricCluster then ignore (UpdateClusterMetricConfig env confs resp (telegrafClusterGoldPath confs) (isInitMask ! MetricCluster))
      else if k = LogHost then ignore (UpdateHostLogConfig env confs resp (fluentbitFilePath confs) (fluentbitHostGoldPath confs) (isInitMask ! LogHost))
      else ignore (UpdateClusterLogConfig env confs resp (fluentbitClusterGoldPath confs) (isInitMask ! LogCluster)))"

text \<open>The goroutines of the round, in the order of the environment restricted to the four.\<close>

definition pta_jobs :: "'e pta_env_scheme \<Rightarrow> nat \<Rightarrow> nat list" where
  "pta_jobs env n = (let given = remdups (filter (\<lambda>k. k < 4) (job_order env n)) in
     given @ filter (\<lambda>k. k \<notin> set given) [MetricHost, MetricCluster, LogHost, LogCluster])"

definition refresh_cycle :: "'e pta_env_scheme \<Rightarrow> PtaConfig \<Rightarrow> (pta, unit) action" where
  "refresh_cycle env confs = andthen (time_Sleep env (int64 (refreshInterval confs * time_Second))) (\<lambda>_.
     andthen (attempt (pta_GetConfig env (nodeid confs) (server_token confs))) (\<lambda>r. case r of
       Inl _ \<Rightarrow> ret ()
     | Inr resp \<Rightarrow> andthen (time_Now env) (\<lambda>now.
         andthen (modify (\<lambda>w. w\<lparr>lastUpdateTimestamp := time_Unix now\<rparr>)) (\<lambda>_.
         andthen (CheckIfChanged resp) (\<lambda>(isDirtyMask, isInitMask).
         if \<not> isDirtyMask ! MetricHost \<and> \<not> isDirtyMask ! MetricCluster \<and> \<not> isDirtyMask ! LogHost \<and> \<not> isDirtyMask ! LogCluster
         then ret ()
         else andthen (asks (\<lambda>w. pta_jobs env (interactions w)))
           (foreach (pta_job env confs (case resp of None \<Rightarrow> [] | Some c \<Rightarrow> c) isDirtyMask isInitMask)))))))"

definition pta_initStatusClientAndTicker :: "'e pta_env_scheme \<Rightarrow> string \<Rightarrow> (pta, int) action" where
  "pta_initStatusClientAndTicker env statusServer = status_client_and_interval env AGENT_NAME_pta statusServer"

definition pta_status_cycle :: "'e pta_env_scheme \<Rightarrow> PtaConfig \<Rightarrow> int \<Rightarrow> (pta, unit) action" where
  "pta_status_cycle env confs statusInterval =
     (let compareInterval = max (statusInterval div time_Second) (refreshInterval confs) in
      andthen (asks lastUpdateTimestamp) (\<lambda>lastCheck.
      andthen (time_Now env) (\<lambda>now.
      if time_Unix now - lastCheck \<le> int64 (2 * compareInterval)
      then ignore (SendStatusReady env AGENT_NAME_pta) else ignore (SendStatusNotReady env AGENT_NAME_pta))))"

text \<open>The start up to the loops. \<open>log.Fatalf\<close> ends the program.\<close>

definition pta_start :: "'e pta_env_scheme \<Rightarrow> PtaConfig \<Rightarrow> (pta, string) action" where
  "pta_start env confs = andthen (attempt (ConnectToTelemetryManager env (getConString confs))) (\<lambda>r. case r of
     Inl e \<Rightarrow> crash (''service client creation failed : '' @ e) | Inr addr \<Rightarrow> ret addr)"

end
