(* ===== verification/Pta_Laws.thy ===== *)
theory Pta_Laws
  imports Pta_Agent
begin

text \<open>
  Laws of the Platform Telemetry Agent: what the masks say, that an answer is acted on once, that the
  sections of a config map are its text, which setting of the config map a template line takes, and
  what reaches the cluster.
\<close>

section \<open>Masks\<close>

lemma fold_marks:
  assumes "\<And>x. x \<in> set xs \<Longrightarrow> f x < length mk"
  shows "length (fold (\<lambda>x m. if P x then m else m[f x := True]) xs mk) = length mk \<and>
    (\<forall>k < length mk. fold (\<lambda>x m. if P x then m else m[f x := True]) xs mk ! k \<longleftrightarrow> mk ! k \<or> (\<exists>x \<in> set xs. \<not> P x \<and> f x = k))"
  using assms
proof (induction xs arbitrary: mk)
  case (Cons x xs)
  let ?m = "if P x then mk else mk[f x := True]"
  have l: "length ?m = length mk" by simp
  from Cons.IH [of ?m] Cons.prems l show ?case
    by (auto simp: nth_list_update)
qed simp

lemma mask_index: "getMaskIdx c < 4"
  by (simp add: getMaskIdx_def MetricHost_def MetricCluster_def LogHost_def LogCluster_def)

lemma mark_changed_nth: "length mk = 4 \<Longrightarrow> length (mark_changed prev new mk) = 4 \<and>
    (\<forall>k < 4. mark_changed prev new mk ! k \<longleftrightarrow> mk ! k \<or> (\<exists>n \<in> set new. \<not> unchanged_in prev n \<and> getMaskIdx n = k))"
  unfolding mark_changed_def using fold_marks [of new getMaskIdx mk "unchanged_in prev"] mask_index by simp

lemma mark_removed_nth: "length mk = 4 \<Longrightarrow> length (mark_removed prev new mk) = 4 \<and>
    (\<forall>k < 4. mark_removed prev new mk ! k \<longleftrightarrow>
       mk ! k \<or> (\<exists>p \<in> set prev. (\<forall>n \<in> set new. tc_Input n \<noteq> tc_Input p) \<and> getMaskIdx p = k))"
  unfolding mark_removed_def using fold_marks [of prev getMaskIdx mk "\<lambda>p. list_ex (\<lambda>n. tc_Input n = tc_Input p) new"] mask_index
  by (simp add: list_ex_iff)

lemma mark_lost_split: "mark_lost ps news (a, b) =
    (fold (\<lambda>p m. if list_ex (\<lambda>n. isEqual n p) news then m else m[getMaskIdx (missing_profile p) := True]) ps a,
     fold (\<lambda>p m. if list_ex (\<lambda>n. isEqual n p) news then m else m[getMaskIdx (missing_profile p) := True]) ps b)"
  unfolding mark_lost_def by (induction ps arbitrary: a b) auto

lemma isEqual_eq: "isEqual s t \<longleftrightarrow> s = t"
  by (cases s; cases t) (simp add: isEqual_def)

lemma mark_lost_nth:
  assumes "length a = 4" "length b = 4"
  shows "k < 4 \<Longrightarrow> fst (mark_lost ps news (a, b)) ! k \<longleftrightarrow> a ! k \<or> (\<exists>p \<in> set ps. p \<notin> set news \<and> getMaskIdx (missing_profile p) = k)"
    and "k < 4 \<Longrightarrow> snd (mark_lost ps news (a, b)) ! k \<longleftrightarrow> b ! k \<or> (\<exists>p \<in> set ps. p \<notin> set news \<and> getMaskIdx (missing_profile p) = k)"
  unfolding mark_lost_split
  using fold_marks [of ps "\<lambda>p. getMaskIdx (missing_profile p)" a "\<lambda>p. list_ex (\<lambda>n. isEqual n p) news"]
    fold_marks [of ps "\<lambda>p. getMaskIdx (missing_profile p)" b "\<lambda>p. list_ex (\<lambda>n. isEqual n p) news"] assms mask_index
  by (auto simp: list_ex_iff isEqual_eq)

lemma removeDuplicates_step: "fold (\<lambda>a result. if list_ex (isEqual a) result then result else result @ [a]) xs acc =
    acc @ rev (remdups (filter (\<lambda>x. x \<notin> set acc) (rev xs)))"
proof (induction xs rule: rev_induct)
  case (snoc x xs)
  let ?r = "rev (remdups (filter (\<lambda>x. x \<notin> set acc) (rev xs)))"
  have "list_ex (isEqual x) (acc @ ?r) \<longleftrightarrow> x \<in> set acc \<or> x \<in> set xs"
    by (auto simp: list_ex_iff isEqual_eq)
  with snoc show ?case by auto
qed simp

lemma removeDuplicates_remdups: "removeDuplicates xs = rev (remdups (rev xs))"
  unfolding removeDuplicates_def removeDuplicates_step by simp

text \<open>The masks as the conditions that set them.\<close>

definition lost :: "ProfileGroup list \<Rightarrow> TelemetryCfg list \<Rightarrow> nat \<Rightarrow> bool" where
  "lost lastProfile new k \<longleftrightarrow> (\<exists>p \<in> set lastProfile. p \<notin> convertConfig ` set new \<and> getMaskIdx (missing_profile p) = k)"

definition dirty_group :: "TelemetryCfg list \<Rightarrow> ProfileGroup list \<Rightarrow> TelemetryCfg list \<Rightarrow> nat \<Rightarrow> bool" where
  "dirty_group prev lastProfile new k \<longleftrightarrow>
     (\<exists>n \<in> set new. \<not> unchanged_in prev n \<and> getMaskIdx n = k) \<or>
     (\<exists>p \<in> set prev. (\<forall>n \<in> set new. tc_Input n \<noteq> tc_Input p) \<and> getMaskIdx p = k) \<or> lost lastProfile new k"

abbreviation previous :: "'a pta_scheme \<Rightarrow> TelemetryCfg list" where
  "previous w \<equiv> (case LastResp w of None \<Rightarrow> [] | Some c \<Rightarrow> c)"

lemma CheckIfChanged_apply:
  "\<exists>dirty init. CheckIfChanged (Some new) w = (Ok (dirty, init), w\<lparr>LastProfile := removeDuplicates (map convertConfig new), LastResp := Some new\<rparr>) \<and>
     (\<forall>k < 4. (dirty ! k \<longleftrightarrow> dirty_group (previous w) (LastProfile w) new k) \<and> (init ! k \<longleftrightarrow> lost (LastProfile w) new k))"
proof -
  let ?p = "removeDuplicates (map convertConfig new)" and ?prev = "previous w"
  let ?d = "mark_removed ?prev new (mark_changed ?prev new (replicate 4 False))"
  let ?m = "mark_lost (LastProfile w) ?p (?d, replicate 4 False)"
  have s: "set ?p = convertConfig ` set new" by (simp add: removeDuplicates_remdups)
  have d: "length ?d = 4" "\<forall>k < 4. ?d ! k \<longleftrightarrow> (\<exists>n \<in> set new. \<not> unchanged_in ?prev n \<and> getMaskIdx n = k) \<or>
      (\<exists>p \<in> set ?prev. (\<forall>n \<in> set new. tc_Input n \<noteq> tc_Input p) \<and> getMaskIdx p = k)"
    using mark_changed_nth [of "replicate 4 False" ?prev new] mark_removed_nth [of "mark_changed ?prev new (replicate 4 False)" ?prev new]
    by auto
  have "CheckIfChanged (Some new) w = (Ok (fst ?m, snd ?m), w\<lparr>LastProfile := ?p, LastResp := Some new\<rparr>)"
    by (simp add: CheckIfChanged_def Let_def action_simps)
  moreover have "\<forall>k < 4. (fst ?m ! k \<longleftrightarrow> dirty_group ?prev (LastProfile w) new k) \<and> (snd ?m ! k \<longleftrightarrow> lost (LastProfile w) new k)"
    using d mark_lost_nth [OF d(1), of "replicate 4 False" _ "LastProfile w" ?p] s
    unfolding dirty_group_def lost_def by auto
  ultimately show ?thesis by blast
qed

text \<open>C26: A configuration group whose bit stays unset asks for the same inputs with the same interval and
  level as before, provided that every input belongs to one group and is listed once.\<close>

theorem clean_group_unchanged:
  assumes "CheckIfChanged (Some new) w = (Ok (dirty, init), w')" "LastResp w = Some prev"
    and "\<forall>a \<in> set (prev @ new). \<forall>b \<in> set (prev @ new). tc_Input a = tc_Input b \<longrightarrow> getMaskIdx a = getMaskIdx b"
    and "distinct (map tc_Input prev)" "k < 4" "\<not> dirty ! k"
  shows "(\<lambda>c. (tc_Input c, tc_Interval c, tc_Level c)) ` {c \<in> set prev. getMaskIdx c = k} =
         (\<lambda>c. (tc_Input c, tc_Interval c, tc_Level c)) ` {c \<in> set new. getMaskIdx c = k} \<and> \<not> init ! k"
proof -
  let ?f = "\<lambda>c. (tc_Input c, tc_Interval c, tc_Level c)"
  have nd: "\<not> dirty_group prev (LastProfile w) new k" "\<not> init ! k"
    using CheckIfChanged_apply [of new w] assms(1,2,5,6) by (auto simp: dirty_group_def)
  have n: "\<exists>p \<in> set prev. ?f n = ?f p" if "n \<in> set new" "getMaskIdx n = k" for n
    using nd(1) that by (auto simp: dirty_group_def unchanged_in_def list_ex_iff)
  have "?f n \<in> ?f ` {c \<in> set prev. getMaskIdx c = k}" if "n \<in> set new" "getMaskIdx n = k" for n
  proof -
    from n [OF that] obtain p where p: "p \<in> set prev" "?f n = ?f p" by blast
    with assms(3) that have "getMaskIdx p = k" by auto
    with p show ?thesis by auto
  qed
  moreover have "?f p \<in> ?f ` {c \<in> set new. getMaskIdx c = k}" if p: "p \<in> set prev" "getMaskIdx p = k" for p
  proof -
    from nd(1) p obtain n where nn: "n \<in> set new" "tc_Input n = tc_Input p" by (auto simp: dirty_group_def)
    with assms(3) p have g: "getMaskIdx n = k" by auto
    from n [OF nn(1) g] obtain p' where p': "p' \<in> set prev" "?f n = ?f p'" by blast
    with nn have "tc_Input p' = tc_Input p" by simp
    with assms(4) p(1) p'(1) have "p' = p" by (auto simp: distinct_map dest: inj_onD)
    with p' nn g show ?thesis by (metis (mono_tags, lifting) imageI mem_Collect_eq)
  qed
  ultimately show ?thesis using nd(2) by auto
qed

text \<open>The comparison ignores the kind and the type: inputs that move between groups which both stay in
  use are not noticed.\<close>

lemma moved_input_unnoticed:
  assumes "\<And>n. n \<in> set new \<Longrightarrow> unchanged_in (previous w) n"
    and "\<And>p. p \<in> set (previous w) \<Longrightarrow> tc_Input p \<in> tc_Input ` set new"
    and "set (LastProfile w) \<subseteq> convertConfig ` set new"
    and "CheckIfChanged (Some new) w = (Ok (dirty, init), w')" "k < 4"
  shows "\<not> dirty ! k"
  using CheckIfChanged_apply [of new w] assms by (fastforce simp: dirty_group_def lost_def)

section \<open>An answer is acted on once\<close>

definition answered :: "TelemetryCfg list \<Rightarrow> pta \<Rightarrow> bool" where
  "answered cfg w \<longleftrightarrow> LastResp w = Some cfg \<and> LastProfile w = removeDuplicates (map convertConfig cfg)"

lemma answered_clean:
  assumes "answered cfg w"
  shows "\<exists>init. \<exists>dirty. CheckIfChanged (Some cfg) w = (Ok (dirty, init), w) \<and> (\<forall>k < 4. \<not> dirty ! k)"
proof -
  have w: "w\<lparr>LastProfile := removeDuplicates (map convertConfig cfg), LastResp := Some cfg\<rparr> = w"
    using assms by (simp add: answered_def)
  have "\<not> dirty_group cfg (LastProfile w) cfg k" for k
    using assms by (auto simp: dirty_group_def lost_def answered_def unchanged_in_def list_ex_iff removeDuplicates_remdups)
  with CheckIfChanged_apply [of cfg w] assms show ?thesis unfolding w by (auto simp: answered_def)
qed

lemma answered_host [simp]: "answered cfg (w\<lparr>interactions := n\<rparr>) = answered cfg w" "answered cfg (w\<lparr>clock_ns := t\<rparr>) = answered cfg w"
  "answered cfg (w\<lparr>disk := k\<rparr>) = answered cfg w" "answered cfg (w\<lparr>processes := p\<rparr>) = answered cfg w"
  "answered cfg (w\<lparr>lastUpdateTimestamp := u\<rparr>) = answered cfg w"
  by (simp_all add: answered_def)

lemma answered_jobs: "keeps (answered cfg) (pta_job env confs resp dirty init k)"
proof -
  have r: "keeps (answered cfg) (RunExec env args)" for args
    unfolding RunExec_def by (intro keeps_rules) simp_all
  have s: "keeps (answered cfg) (RunStringCommand env c)" for c
    unfolding RunStringCommand_def by (intro keeps_rules r)
  have t: "keeps (answered cfg) (read_template env decode p)" for p and decode :: "string \<Rightarrow> string + 'x"
    unfolding read_template_def by (intro keeps_rules) simp_all
  have u: "keeps (answered cfg) (saveTmpFile env c p)" for c p
    unfolding saveTmpFile_def by (intro keeps_rules) simp_all
  have d: "keeps (answered cfg) (on_disk m)" for m :: "(disk, 'x) action"
    by (intro keeps_rules) simp_all
  show ?thesis
    unfolding pta_job_def UpdateHostMetricConfig_def UpdateClusterMetricConfig_def UpdateHostLogConfig_def UpdateClusterLogConfig_def Let_def
    by (intro keeps_rules r s t u d)
qed

text \<open>The parts of the state that a query of the manager leaves alone.\<close>

definition same_but_time :: "pta \<Rightarrow> pta \<Rightarrow> bool" where
  "same_but_time w w' \<longleftrightarrow> disk w' = disk w \<and> processes w' = processes w \<and> LastResp w' = LastResp w \<and> LastProfile w' = LastProfile w"

lemma pta_GetConfig_answer:
  assumes "\<And>n a g. GetTelemetryConfigByGUID env n a g = Inr cfg"
  shows "\<exists>w'. pta_GetConfig env i p w = ((if not_exist (host_cwd env) p (disk w) then Err (''stat '' @ p @ '': no such file or directory'')
      else Ok (Some cfg)), w') \<and> same_but_time w w'"
proof (cases "not_exist (host_cwd env) p (disk w)")
  case True
  then show ?thesis by (simp add: pta_GetConfig_def action_simps same_but_time_def)
next
  case False
  obtain tok where "GetAuthContext env p w = (Ok tok, w)" using GetAuthContext_Ok by blast
  moreover obtain w' where "retry (min NUM_RETRIES_pta (attempts_left env (interactions w)))
      (andthen (tick env 0 (\<lambda>n. GetTelemetryConfigByGUID env n tok i)) lift_result) w = (Ok cfg, w')" "same_but_time w w'"
    by (cases "min NUM_RETRIES_pta (attempts_left env (interactions w))")
       (simp_all add: assms andthen_apply tick_apply attempt_apply ret_apply same_but_time_def)
  ultimately show ?thesis using False
    by (simp add: pta_GetConfig_def andthen_apply asks_apply ret_apply)
qed

lemma refresh_idle:
  assumes "\<And>n a g. GetTelemetryConfigByGUID env n a g = Inr cfg" "answered cfg w"
  shows "\<exists>w'. refresh_cycle env confs w = (Ok (), w') \<and> processes w' = processes w \<and> disk w' = disk w"
proof -
  let ?w = "w\<lparr>interactions := Suc (interactions w), clock_ns := clock_ns w + max 0 (int64 (refreshInterval confs * time_Second)) + int (delay env (interactions w))\<rparr>"
  have s: "time_Sleep env (int64 (refreshInterval confs * time_Second)) w = (Ok (), ?w)" by (simp add: time_Sleep_apply)
  obtain w1 where g: "pta_GetConfig env (nodeid confs) (server_token confs) ?w = ((if not_exist (host_cwd env) (server_token confs) (disk ?w)
      then Err (''stat '' @ server_token confs @ '': no such file or directory'') else Ok (Some cfg)), w1)" "same_but_time ?w w1"
    using pta_GetConfig_answer [of env cfg "nodeid confs" "server_token confs" ?w, OF assms(1)] by blast
  have same: "disk w1 = disk w" "processes w1 = processes w" "answered cfg w1"
    using g(2) assms(2) by (simp_all add: same_but_time_def answered_def)
  show ?thesis
  proof (cases "not_exist (host_cwd env) (server_token confs) (disk ?w)")
    case True
    with g(1) same show ?thesis by (simp add: refresh_cycle_def andthen_apply s attempt_apply ret_apply)
  next
    case False
    let ?w2 = "w1\<lparr>interactions := Suc (interactions w1), clock_ns := clock_ns w1 + int (delay env (interactions w1)),
      lastUpdateTimestamp := time_Unix (clock_ns w1 + int (delay env (interactions w1)))\<rparr>"
    have "answered cfg ?w2" using same(3) by simp
    then obtain dirty init where "CheckIfChanged (Some cfg) ?w2 = (Ok (dirty, init), ?w2)" "\<forall>k < 4. \<not> dirty ! k"
      using answered_clean by blast
    with False g(1) same show ?thesis
      by (simp add: refresh_cycle_def andthen_apply s attempt_apply time_Now_apply modify_apply ret_apply MetricHost_def MetricCluster_def
          LogHost_def LogCluster_def)
  qed
qed

lemma refresh_answers:
  assumes "\<And>n a g. GetTelemetryConfigByGUID env n a g = Inr cfg" "\<not> not_exist (host_cwd env) (server_token confs) (disk w)"
    and "refresh_cycle env confs w = (Ok (), w')"
  shows "answered cfg w'"
proof -
  let ?w = "w\<lparr>interactions := Suc (interactions w), clock_ns := clock_ns w + max 0 (int64 (refreshInterval confs * time_Second)) + int (delay env (interactions w))\<rparr>"
  have s: "time_Sleep env (int64 (refreshInterval confs * time_Second)) w = (Ok (), ?w)" by (simp add: time_Sleep_apply)
  obtain w1 where g: "pta_GetConfig env (nodeid confs) (server_token confs) ?w = (Ok (Some cfg), w1)"
    using pta_GetConfig_answer [of env cfg "nodeid confs" "server_token confs" ?w, OF assms(1)] assms(2) by auto
  let ?w2 = "w1\<lparr>interactions := Suc (interactions w1), clock_ns := clock_ns w1 + int (delay env (interactions w1)),
      lastUpdateTimestamp := time_Unix (clock_ns w1 + int (delay env (interactions w1)))\<rparr>"
  obtain dirty init w3 where c: "CheckIfChanged (Some cfg) ?w2 = (Ok (dirty, init), w3)"
    and w3: "w3 = ?w2\<lparr>LastProfile := removeDuplicates (map convertConfig cfg), LastResp := Some cfg\<rparr>"
    using CheckIfChanged_apply [of cfg ?w2] by blast
  have a: "answered cfg w3" by (simp add: w3 answered_def)
  have k: "keeps (answered cfg) (foreach (pta_job env confs cfg dirty init) ks)" for ks
    by (rule keeps_foreach [OF answered_jobs])
  define act where "act = (if \<not> dirty ! MetricHost \<and> \<not> dirty ! MetricCluster \<and> \<not> dirty ! LogHost \<and> \<not> dirty ! LogCluster then ret ()
      else andthen (asks (\<lambda>w. pta_jobs env (interactions w))) (foreach (pta_job env confs cfg dirty init)))"
  have "refresh_cycle env confs w = act w3"
    by (simp add: refresh_cycle_def andthen_apply s attempt_apply g time_Now_apply modify_apply c act_def)
  with assms(3) have "act w3 = (Ok (), w')" by simp
  moreover have "keeps (answered cfg) act" unfolding act_def by (intro keeps_rules k)
  ultimately show ?thesis using keepsD [of "answered cfg" act w3] a by blast
qed

text \<open>C27: As long as the manager gives the same answer, the next rounds do nothing, even when updates of
  the round that received it failed: a failed update is not repeated.\<close>

theorem failed_update_not_repeated:
  assumes "\<And>n a g. GetTelemetryConfigByGUID env n a g = Inr cfg" "\<not> not_exist (host_cwd env) (server_token confs) (disk w)"
    and "refresh_cycle env confs w = (Ok (), w1)"
  shows "\<exists>w2. refresh_cycle env confs w1 = (Ok (), w2) \<and> processes w2 = processes w1 \<and> disk w2 = disk w1"
  using refresh_idle [OF assms(1) refresh_answers [OF assms]] .

text \<open>Every round of the loop returns: no failure of a command, a file or the manager stops it.\<close>

lemma Fields_nonempty: "dropWhile is_space s \<noteq> [] \<Longrightarrow> Fields s \<noteq> []"
  unfolding Fields_def by (subst FieldsFunc.simps) (simp add: Let_def)

lemma ConfigMapCommand_fields: "Fields (ConfigMapCommand a) \<noteq> []" "ConfigMapCommand a \<noteq> []"
  by (rule Fields_nonempty) (simp_all add: ConfigMapCommand_def is_space_def)

lemma safe_RunExec [safe_rules]: "safe (RunExec env args)"
  unfolding RunExec_def by (intro safe_rules)

lemma safe_RunString [safe_rules]: "safe (RunStringCommand env (ConfigMapCommand a))"
  using ConfigMapCommand_fields [of a] safe_RunExec
  by (auto simp: RunStringCommand_def split: list.split)

lemma safe_saveTmpFile [safe_rules]: "safe (saveTmpFile env t p)"
  unfolding saveTmpFile_def
  by (rule safe_on_disk) (auto simp: safe_def andthen_apply os_Create_def WriteString_def split: sum.splits option.splits node.splits)

lemma safe_read_template [safe_rules]: "safe (read_template env dec p)"
  unfolding read_template_def by (intro safe_rules)

lemma safe_job: "safe (pta_job env confs resp dirty ini k)"
  unfolding pta_job_def UpdateHostMetricConfig_def UpdateClusterMetricConfig_def UpdateHostLogConfig_def UpdateClusterLogConfig_def Let_def
  by (intro safe_rules)

lemma job_returns: "\<exists>w'. pta_job env confs resp dirty ini k w = (Ok (), w')"
proof -
  obtain r w' where j: "pta_job env confs resp dirty ini k w = (r, w')" by fastforce
  have i: "ignore m v \<noteq> (Err e, v')" for m :: "(pta, bool) action" and v e v'
    by (auto simp: ignore_apply split: prod.splits outcome.splits)
  have "\<forall>e. r \<noteq> Err e"
    using j by (auto simp: ret_apply i pta_job_def split: if_splits)
  moreover have "\<forall>e. r \<noteq> Crash e" using safeD [OF safe_job] j by metis
  ultimately show ?thesis using j by (cases r) auto
qed

lemma jobs_return: "\<exists>w'. foreach (pta_job env confs resp dirty ini) ks w = (Ok (), w')"
proof (induction ks arbitrary: w)
  case (Cons k ks)
  obtain w1 where "pta_job env confs resp dirty ini k w = (Ok (), w1)" using job_returns by blast
  with Cons [of w1] show ?case by (simp add: andthen_apply)
qed (simp add: ret_apply)

lemma safe_GetConfig: "safe (pta_GetConfig env i p)"
  unfolding pta_GetConfig_def GetAuthContext_def by (intro safe_rules safe_tick safe_on_disk)

lemma refresh_cycle_returns: "\<exists>w'. refresh_cycle env confs w = (Ok (), w')"
proof -
  obtain w1 where s: "time_Sleep env (int64 (refreshInterval confs * time_Second)) w = (Ok (), w1)" by (simp add: time_Sleep_apply)
  obtain r w2 where g: "attempt (pta_GetConfig env (nodeid confs) (server_token confs)) w1 = (r, w2)" by fastforce
  then obtain a where r: "r = Ok a"
    using safeD [OF safe_GetConfig [of env "nodeid confs" "server_token confs"], of w1]
    by (auto simp: attempt_apply split: prod.splits outcome.splits)
  show ?thesis
  proof (cases a)
    case (Inr resp)
    obtain w3 where n: "andthen (time_Now env) (\<lambda>now. modify (\<lambda>w. w\<lparr>lastUpdateTimestamp := time_Unix now\<rparr>)) w2 = (Ok (), w3)"
      by (simp add: andthen_apply time_Now_apply modify_apply)
    obtain dirty ini w4 where c: "CheckIfChanged resp w3 = (Ok (dirty, ini), w4)"
    proof (cases resp)
      case (Some new)
      then show ?thesis using CheckIfChanged_apply [of new w3] that by blast
    qed (simp add: CheckIfChanged_def ret_apply)
    obtain w5 where "foreach (pta_job env confs (case resp of None \<Rightarrow> [] | Some c \<Rightarrow> c) dirty ini) (pta_jobs env (interactions w4)) w4 = (Ok (), w5)"
      using jobs_return by blast
    with n c Inr show ?thesis
      by (auto simp: refresh_cycle_def andthen_apply s g r time_Now_apply modify_apply ret_apply asks_apply if_app)
  qed (simp add: refresh_cycle_def andthen_apply s g r ret_apply)
qed

section \<open>Sections and settings\<close>

lemma fold_sections: "fold (add_section k) ls (rs, sec) = (rs', sec') \<Longrightarrow>
    concat rs' @ sec' = concat rs @ sec @ concat (map (\<lambda>l. l @ [nl]) ls)"
  by (induction ls arbitrary: rs sec) (fastforce simp: add_section_def split: if_splits)+

text \<open>The sections are a partition of the text.\<close>

lemma SplitStringAsSections_concat: "concat (SplitStringAsSections k s) = s @ [nl]"
proof -
  obtain rs sec where f: "fold (add_section k) (Split s nl) ([], []) = (rs, sec)" by fastforce
  have "concat rs @ sec = s @ [nl]"
    using fold_sections [OF f] by (simp add: concat_lines Join_Split)
  then show ?thesis by (cases sec) (simp_all add: SplitStringAsSections_def f)
qed

lemma metric_match_result:
  "metric_match d i ls = Some l \<Longrightarrow> l = d \<or> (l \<in> set ls \<and> TrimSpace (hd (Split l (CHR ''=''))) = i)"
  by (induction ls) (auto simp: Let_def split: if_splits)

lemma metric_match_skip: "\<forall>p \<in> set pre. \<not> Contains p i \<Longrightarrow> metric_match d i (pre @ ls) = metric_match d i ls"
  by (induction pre) auto

lemma Contains_TrimSpace: "Contains s (TrimSpace s)"
proof -
  have "s = takeWhile is_space s @ dropWhile is_space s" by simp
  moreover have "dropWhile is_space s = TrimSpace s @ rev (takeWhile is_space (rev (dropWhile is_space s)))"
    unfolding TrimSpace_def TrimFunc_def by (metis rev_append rev_rev_ident takeWhile_dropWhile_id)
  ultimately show ?thesis unfolding Contains_iff by metis
qed

lemma Contains_hd_Split: "Contains s (TrimSpace (hd (Split s c)))"
proof -
  obtain w ws where sp: "Split s c = w # ws" by (cases "Split s c") auto
  have "\<exists>t. s = w @ t" using Join_Split [of s c] sp by (cases ws) (auto simp: Join_Cons)
  moreover from Contains_TrimSpace [of w] obtain u v where "w = u @ TrimSpace w @ v" unfolding Contains_iff by blast
  ultimately show ?thesis unfolding Contains_iff sp by (metis append.assoc list.sel(1))
qed

text \<open>A setting that the config map already has is taken over as it stands.\<close>

lemma metric_setting_kept:
  assumes "Split configmap nl = pre @ l # post" "ident = TrimSpace (hd (Split line (CHR ''='')))"
    and "\<forall>p \<in> set pre. \<not> Contains p ident" "TrimSpace (hd (Split l (CHR ''=''))) = ident" "TrimSpace l \<noteq> ident"
  shows "metric_replaceValue line configmap keys = l"
proof -
  have "Contains l ident" using Contains_hd_Split [of l "CHR ''=''"] assms(4) by simp
  with assms show ?thesis
    by (simp add: metric_replaceValue_def metric_match_skip)
qed

section \<open>What reaches the cluster\<close>

lemma saved_is_read:
  assumes "saveTmpFile env tx p w = (Ok u, w1)" "ReadFileNoLinks (host_cwd env) p (disk w1) = (Ok c, d2)"
  shows "c = TrimSpace tx"
proof -
  let ?cs = "components (host_cwd env) p" and ?d = "disk w"
  obtain q d1 where o: "os_Create (host_cwd env) p ?d = (Ok q, d1)" and d: "disk w1 = snd (WriteString q (TrimSpace tx) d1)"
    using assms(1) by (auto simp: saveTmpFile_def on_disk_def andthen_eq_Ok split: prod.splits)
  have r: "resolve True True 40 (tree ?d) [] ?cs = Inr q" and ne: "q \<noteq> []"
    using o by (auto simp: os_Create_def node_at_def split: sum.splits option.splits node.splits if_splits)
  obtain q' where q': "open_at False (host_cwd env) p (disk w1) = Inr q'" "tree (disk w1) q' = Some (Regular c)"
    using ReadFileNoLinks_content [OF assms(2)] by blast
  then have r': "resolve True False 40 (tree (disk w1)) [] ?cs = Inr q'" using open_at_follow [OF q'(1)] by simp
  have link: "tree ?d q \<noteq> Some (Link t)" for t using walk_end [OF resolve_walk [OF r]] ne by auto
  consider (old) e where "tree ?d q = Some (Regular e)" | (new) "tree ?d q = None" | (dev) "tree ?d q = Some Special"
    using o ne r link by (auto simp: os_Create_def node_at_def split: option.splits node.splits)
  then show ?thesis
  proof cases
    case old
    with o d r ne have t: "tree (disk w1) = (tree ?d)(q \<mapsto> Regular (TrimSpace tx))"
      by (auto simp: os_Create_def node_at_def WriteString_def)
    have "resolve True True 40 (tree (disk w1)) [] ?cs = Inr q"
      using resolve_content [of "tree ?d" q e, OF old] r t by simp
    with resolve_create [OF r'] q'(2) t show ?thesis by simp
  next
    case new
    with o d r ne have t: "tree (disk w1) = (tree ?d)(q \<mapsto> Regular (TrimSpace tx))"
      by (auto simp: os_Create_def node_at_def WriteString_def new_file_def)
    with resolve_created(2) [OF r new ne] r' q'(2) show ?thesis by simp
  next
    case dev
    with o d r ne have t: "tree (disk w1) = tree ?d"
      by (auto simp: os_Create_def node_at_def WriteString_def)
    with resolve_create [OF r'] r dev q'(2) show ?thesis by simp
  qed
qed

lemma lift_result_eq_Ok: "lift_result r w = (Ok x, w') \<longleftrightarrow> r = Inr x \<and> w' = w"
  by (cases r) (auto simp: ret_apply fail_apply)

lemma RunExec_processes: "RunExec env args w = (r, w') \<Longrightarrow> processes w' = processes w @ [(args, os_Environ env)]"
  unfolding RunExec_def
  by (auto simp: andthen_apply run_process_apply ret_apply fail_apply split: prod.splits option.splits)

text \<open>When the update of the cluster's metrics succeeds, the patch that it sends carries exactly the
  generated configuration, and the last two commands are the patch and the restart of the pods.\<close>

theorem cluster_patch_carries_config:
  assumes "UpdateClusterMetricConfig env confs cfg path isInit w = (Ok b, w')"
  shows "\<exists>tmpl tx ps. metric_updateCfg cfg tmpl COLLECTOR_KIND_CLUSTER isInit = Inr tx \<and>
     processes w' = ps @ [(kubectl_patch ''telegraf-config'' (patch_json ''base-ext-telegraf.conf'' (TrimSpace tx)), os_Environ env),
       (kubectl_delete ''telegraf'', os_Environ env)]"
proof -
  obtain tmpl tx u w1 w2 w3 w4 w5 c o1 o2 where m: "metric_updateCfg cfg tmpl COLLECTOR_KIND_CLUSTER isInit = Inr tx"
    and s: "saveTmpFile env tx (TmpFileDir confs @ TmpClusterFile) w1 = (Ok u, w2)"
    and r: "on_disk (ReadFileNoLinks (host_cwd env) (TmpFileDir confs @ TmpClusterFile)) w2 = (Ok c, w3)"
    and p: "RunExec env (kubectl_patch ''telegraf-config'' (patch_json ''base-ext-telegraf.conf'' c)) w3 = (Ok o1, w4)"
    and d: "RunExec env (kubectl_delete ''telegraf'') w4 = (Ok o2, w5)" and e: "ret True w5 = (Ok b, w')"
    using assms unfolding UpdateClusterMetricConfig_def Let_def andthen_eq_Ok lift_result_eq_Ok
    by (elim exE conjE) (rule that; assumption)
  obtain d2 where "ReadFileNoLinks (host_cwd env) (TmpFileDir confs @ TmpClusterFile) (disk w2) = (Ok c, d2)"
    using r by (auto simp: on_disk_def split: prod.splits)
  from saved_is_read [OF s this] have "c = TrimSpace tx" .
  with m e RunExec_processes [OF p] RunExec_processes [OF d] show ?thesis by (auto simp: ret_apply)
qed

section \<open>Examples\<close>

definition demo_pta_env :: pta_env where
  "demo_pta_env = \<lparr>host_cwd = [], os_Environ = [], process = \<lambda>n argv e d. (\<lparr>Stdout = [], Stderr = [], Combined = [], exit_error = None\<rparr>, d),
     delay = \<lambda>_. 0, status_call = \<lambda>_ _. Inr 0, dial_error = \<lambda>_ _. None, attempts_left = \<lambda>_. 0, SystemCertPool = \<lambda>_. Inr [],
     GetTelemetryConfigByGUID = \<lambda>_ _ _. Inr [],
     yaml_telegraf = \<lambda>_. Inr [\<lparr>tl_Key = ''agent'', tl_Type = ''global'', tl_IsInit = False, tl_DefaultValues = [], tl_MultilineData = ''[agent]''\<rparr>],
     yaml_fluentbit = \<lambda>_. Inr [], map_order = \<lambda>_ _ _ keys. keys, job_order = \<lambda>_. []\<rparr>"

definition demo_pta_confs :: PtaConfig where
  "demo_pta_confs = \<lparr>nodeid = ''id'', server_token = ''/t'', updateinterval = ''10'', telegrafFilePath = ''/a'', fluentbitFilePath = ''/b'',
     telegrafHostGoldPath = ''/t'', telegrafClusterGoldPath = ''/t'', fluentbitHostGoldPath = ''/t'', fluentbitClusterGoldPath = ''/t'',
     TmpFileDir = ''/'', telegrafConfigMap = ''get'', fluentbitConfigMap = ''get'', FileOwner = ''o'', statusEndpoint = [],
     server_address = ''h'', server_port = 1\<rparr>"

definition demo_cpu :: "CollectorKind \<Rightarrow> TelemetryCfg" where
  "demo_cpu k = \<lparr>tc_Input = ''cpu'', tc_Type = TELEMETRY_RESOURCE_KIND_METRICS, tc_Kind = k, tc_Interval = 10, tc_Level = SEVERITY_LEVEL_UNSPECIFIED\<rparr>"

definition demo_pta :: pta where
  "demo_pta = \<lparr>disk = \<lparr>tree = [[''t''] \<mapsto> Regular ''x''], nlink = \<lambda>_. 1\<rparr>, clock_ns = 0, interactions = 0, processes = [], status_sent = [],
     LastResp = Some [demo_cpu COLLECTOR_KIND_HOST], LastProfile = [convertConfig (demo_cpu COLLECTOR_KIND_HOST)], lastUpdateTimestamp = 0\<rparr>"

lemma clean_group_unchanged_witness:
  "(\<lambda>c. (tc_Input c, tc_Interval c, tc_Level c)) ` {c \<in> set [demo_cpu COLLECTOR_KIND_HOST]. getMaskIdx c = 0} =
   (\<lambda>c. (tc_Input c, tc_Interval c, tc_Level c)) ` {c \<in> set [demo_cpu COLLECTOR_KIND_HOST]. getMaskIdx c = 0}"
proof -
  let ?c = "[demo_cpu COLLECTOR_KIND_HOST]"
  have a: "answered ?c demo_pta" by (simp add: answered_def demo_pta_def removeDuplicates_def)
  obtain dirty ini where c: "CheckIfChanged (Some ?c) demo_pta = (Ok (dirty, ini), demo_pta)" "\<not> dirty ! 0"
    using answered_clean [OF a] by force
  from clean_group_unchanged [OF c(1), of ?c 0] c(2) show ?thesis by (simp add: demo_pta_def)
qed

text \<open>The kind of an input changes while both groups stay in use: no bit is set.\<close>

lemma moved_input_example:
  assumes "prev = [demo_cpu COLLECTOR_KIND_HOST, (demo_cpu COLLECTOR_KIND_HOST)\<lparr>tc_Input := ''mem''\<rparr>,
      (demo_cpu COLLECTOR_KIND_CLUSTER)\<lparr>tc_Input := ''net''\<rparr>]"
    and "new = (demo_cpu COLLECTOR_KIND_CLUSTER) # tl prev"
    and "w = demo_pta\<lparr>LastResp := Some prev, LastProfile := removeDuplicates (map convertConfig prev)\<rparr>"
  shows "\<exists>dirty ini w'. CheckIfChanged (Some new) w = (Ok (dirty, ini), w') \<and> (\<forall>k < 4. \<not> dirty ! k)"
proof -
  obtain dirty ini w' where c: "CheckIfChanged (Some new) w = (Ok (dirty, ini), w')"
    using CheckIfChanged_apply [of new w] by blast
  have "\<not> dirty ! k" if "k < 4" for k
    by (rule moved_input_unnoticed [OF _ _ _ c that])
       (auto simp: assms unchanged_in_def demo_cpu_def removeDuplicates_remdups convertConfig_def)
  with c show ?thesis by blast
qed

lemma failed_update_not_repeated_witness:
  "\<exists>w1 w2. refresh_cycle demo_pta_env demo_pta_confs demo_pta = (Ok (), w1) \<and>
     refresh_cycle demo_pta_env demo_pta_confs w1 = (Ok (), w2) \<and> processes w2 = processes w1"
proof -
  have g: "GetTelemetryConfigByGUID demo_pta_env n a g = Inr []" for n a g by (simp add: demo_pta_env_def)
  have e: "\<not> not_exist (host_cwd demo_pta_env) (server_token demo_pta_confs) (disk demo_pta)" by code_simp
  obtain w1 where r: "refresh_cycle demo_pta_env demo_pta_confs demo_pta = (Ok (), w1)"
    using refresh_cycle_returns by blast
  from failed_update_not_repeated [OF g e r] r show ?thesis by blast
qed

lemma demo_run: "RunExec demo_pta_env a v = (Ok [], v\<lparr>interactions := Suc (interactions v), processes := processes v @ [(a, [])]\<rparr>)"
  by (simp add: RunExec_def andthen_apply run_process_apply ret_apply demo_pta_env_def scanned_def)

definition demo_tmp :: string where "demo_tmp = TmpFileDir demo_pta_confs @ TmpClusterFile"

definition demo_saved :: disk where
  "demo_saved = \<lparr>tree = [[''t''] \<mapsto> Regular ''x'', [''telegraf-tmp-cluster.conf''] \<mapsto> Regular ''[agent]''], nlink = \<lambda>_. 1\<rparr>"

lemma demo_reads: "ReadFileNoLinks [] ''/t'' (disk demo_pta) = (Ok ''x'', disk demo_pta)"
  "ReadFileNoLinks [] demo_tmp demo_saved = (Ok ''[agent]'', demo_saved)"
proof -
  have "fst (ReadFileNoLinks [] ''/t'' (disk demo_pta)) = Ok ''x''" "fst (ReadFileNoLinks [] demo_tmp demo_saved) = Ok ''[agent]''"
    by code_simp+
  then show "ReadFileNoLinks [] ''/t'' (disk demo_pta) = (Ok ''x'', disk demo_pta)"
    "ReadFileNoLinks [] demo_tmp demo_saved = (Ok ''[agent]'', demo_saved)"
    using ReadFileNoLinks_pure by (metis prod.collapse)+
qed

lemma demo_saves: "disk w = disk demo_pta \<Longrightarrow> saveTmpFile demo_pta_env (''[agent]'' @ [nl, nl]) demo_tmp w = (Ok (), w\<lparr>disk := demo_saved\<rparr>)"
proof -
  assume d: "disk w = disk demo_pta"
  have r: "resolve True True 40 (tree (disk demo_pta)) [] (components [] demo_tmp) = Inr [''telegraf-tmp-cluster.conf'']"
    "TrimSpace (''[agent]'' @ [nl, nl]) = ''[agent]''"
    by code_simp+
  have t: "tree (disk demo_pta) [''telegraf-tmp-cluster.conf''] = None" by code_simp
  have c: "host_cwd demo_pta_env = []" by (simp add: demo_pta_env_def)
  show ?thesis
    using r t by (simp add: saveTmpFile_def on_disk_def andthen_apply os_Create_def d c node_at_def new_file_def WriteString_def)
      (simp add: demo_saved_def demo_pta_def fun_upd_def)
qed

lemma cluster_patch_carries_config_witness:
  "\<exists>w' ps p. UpdateClusterMetricConfig demo_pta_env demo_pta_confs [] ''/t'' False demo_pta = (Ok True, w') \<and>
     processes w' = ps @ [p, (kubectl_delete ''telegraf'', [])]"
proof -
  have c: "host_cwd demo_pta_env = []" "os_Environ demo_pta_env = []" "map_order demo_pta_env n = (\<lambda>_ _ keys. keys)" for n
    by (simp_all add: demo_pta_env_def)
  let ?l = "[\<lparr>tl_Key = ''agent'', tl_Type = ''global'', tl_IsInit = False, tl_DefaultValues = [], tl_MultilineData = ''[agent]''\<rparr>]"
  have y: "yaml_telegraf demo_pta_env t = Inr ?l" for t by (simp add: demo_pta_env_def)
  have f: "Fields (ConfigMapCommand (telegrafConfigMap demo_pta_confs)) = [''sudo'', ''kubectl'', ''get'']" by code_simp
  have u: "metric_updateCfg [] (metric_updateTemplate (\<lambda>_ _ keys. keys) ?l []) COLLECTOR_KIND_CLUSTER False = Inr (''[agent]'' @ [nl, nl])"
    by code_simp
  have "\<exists>w'. UpdateClusterMetricConfig demo_pta_env demo_pta_confs [] ''/t'' False demo_pta = (Ok True, w')"
    unfolding UpdateClusterMetricConfig_def Let_def demo_tmp_def [symmetric] read_template_def
    by (simp add: andthen_apply on_disk_def c demo_reads y ret_apply RunStringCommand_def ConfigMapCommand_fields f demo_run asks_apply u demo_saves [simplified])
  then obtain w' where r: "UpdateClusterMetricConfig demo_pta_env demo_pta_confs [] ''/t'' False demo_pta = (Ok True, w')" by blast
  from cluster_patch_carries_config [OF r] r c(2) show ?thesis by fastforce
qed

end
