(* ===== verification/Dda_Config.thy ===== *)
theory Dda_Config
  imports Agent_Common Go_Time
begin

text \<open>
  The configuration of the Device Discovery Agent (\<^verbatim>\<open>internal/config/config.go\<close>) and its command line
  (\<^verbatim>\<open>cmd/device-discovery/main.go\<close>), with the part of Go's \<^verbatim>\<open>flag\<close> package that it uses.

  \<^verbatim>\<open>time.ParseDuration\<close> computes with floating point numbers, and integers of flags are read in any base:
  both parsers are arguments, collected in the record \<open>parsers\<close>.
\<close>

section \<open>The configuration\<close>

record dda_Config =
  dc_ConfigFile :: string
  dc_UseKernelArgs :: bool
  dc_ObmSvc :: string
  dc_ObsSvc :: string
  dc_ObmPort :: int
  dc_KeycloakURL :: string
  dc_MacAddr :: string
  dc_SerialNumber :: string
  dc_UUID :: string
  dc_IPAddress :: string
  dc_ExtraHosts :: string
  dc_CaCertPath :: string
  dc_Debug :: bool
  dc_Timeout :: int
  dc_DisableInteractiveMode :: bool
  dc_AutoDetect :: bool

definition empty_Config :: dda_Config where
  "empty_Config = \<lparr>dc_ConfigFile = [], dc_UseKernelArgs = False, dc_ObmSvc = [], dc_ObsSvc = [], dc_ObmPort = 0, dc_KeycloakURL = [],
     dc_MacAddr = [], dc_SerialNumber = [], dc_UUID = [], dc_IPAddress = [], dc_ExtraHosts = [], dc_CaCertPath = [], dc_Debug = False,
     dc_Timeout = 0, dc_DisableInteractiveMode = False, dc_AutoDetect = False\<rparr>"

record parsers =
  ParseDuration :: "string \<Rightarrow> int option"
  ParseInt_any_base :: "string \<Rightarrow> int option"

definition parsed :: "string \<Rightarrow> string \<Rightarrow> 'a option \<Rightarrow> ('a \<Rightarrow> 'b) \<Rightarrow> string + 'b" where
  "parsed what val r f = (case r of None \<Rightarrow> Inl (''invalid '' @ what @ '' value '' @ [CHR 0x27] @ val @ [CHR 0x27]) | Some x \<Rightarrow> Inr (f x))"

definition ApplyValue :: "parsers \<Rightarrow> dda_Config \<Rightarrow> string \<Rightarrow> string \<Rightarrow> string + dda_Config" where
  "ApplyValue ps cfg key val =
     (if key = ''OBM_SVC'' then Inr (cfg\<lparr>dc_ObmSvc := val\<rparr>)
      else if key = ''OBS_SVC'' then Inr (cfg\<lparr>dc_ObsSvc := val\<rparr>)
      else if key = ''OBM_PORT'' then parsed ''port'' val (ParseInt64 val) (\<lambda>port. cfg\<lparr>dc_ObmPort := port\<rparr>)
      else if key = ''KEYCLOAK_URL'' then Inr (cfg\<lparr>dc_KeycloakURL := val\<rparr>)
      else if key = ''MAC'' then Inr (cfg\<lparr>dc_MacAddr := val\<rparr>)
      else if key = ''SERIAL'' then Inr (cfg\<lparr>dc_SerialNumber := val\<rparr>)
      else if key = ''UUID'' then Inr (cfg\<lparr>dc_UUID := val\<rparr>)
      else if key = ''IP'' then Inr (cfg\<lparr>dc_IPAddress := val\<rparr>)
      else if key = ''EXTRA_HOSTS'' then Inr (cfg\<lparr>dc_ExtraHosts := val\<rparr>)
      else if key = ''CA_CERT'' then Inr (cfg\<lparr>dc_CaCertPath := val\<rparr>)
      else if key = ''DEBUG'' then parsed ''debug'' val (ParseBool val) (\<lambda>b. cfg\<lparr>dc_Debug := b\<rparr>)
      else if key = ''TIMEOUT'' then parsed ''timeout'' val (ParseDuration ps val) (\<lambda>t. cfg\<lparr>dc_Timeout := t\<rparr>)
      else if key = ''AUTO_DETECT'' then parsed ''auto-detect'' val (ParseBool val) (\<lambda>b. cfg\<lparr>dc_AutoDetect := b\<rparr>)
      else if key = ''DISABLE_INTERACTIVE'' then parsed ''disable-interactive'' val (ParseBool val) (\<lambda>b. cfg\<lparr>dc_DisableInteractiveMode := b\<rparr>)
      else if key = ''USE_KERNEL_ARGS'' then parsed ''use-kernel-args'' val (ParseBool val) (\<lambda>b. cfg\<lparr>dc_UseKernelArgs := b\<rparr>)
      else Inr cfg)"

section \<open>The configuration file\<close>

definition load_line :: "parsers \<Rightarrow> dda_Config \<Rightarrow> nat \<Rightarrow> string \<Rightarrow> string + dda_Config" where
  "load_line ps cfg lineNum txt = (let line = TrimSpace txt in
     if line = [] \<or> HasPrefix line ''#'' then Inr cfg
     else case SplitN2 line (CHR ''='') of
       [key, val] \<Rightarrow> (case ApplyValue ps cfg (TrimSpace key) (Trim (TrimSpace val) [CHR 0x22, CHR 0x27]) of
          Inl err \<Rightarrow> Inl (''error at line '' @ show_nat lineNum @ '': '' @ err) | Inr c \<Rightarrow> Inr c)
     | _ \<Rightarrow> Inl (''invalid format at line '' @ show_nat lineNum @ '': '' @ line @ '' (expected KEY=VALUE)''))"

text \<open>The scanner gives the lines without their ends, and fails at one that does not fit its buffer.\<close>

fun load_lines :: "parsers \<Rightarrow> nat \<Rightarrow> string list \<Rightarrow> dda_Config \<Rightarrow> string + dda_Config" where
  "load_lines ps n [] cfg = Inr cfg"
| "load_lines ps n (l # ls) cfg =
     (if length l \<ge> 65536 then Inl ''error reading config file: bufio.Scanner: token too long''
      else case load_line ps cfg (Suc n) (TrimSuffix l [CHR 0x0D]) of Inl e \<Rightarrow> Inl e | Inr c \<Rightarrow> load_lines ps (Suc n) ls c)"

definition config_scan_lines :: "string \<Rightarrow> string list" where
  "config_scan_lines s = (let ls = Split s nl in if last ls = [] then butlast ls else ls)"

definition load_text :: "parsers \<Rightarrow> string \<Rightarrow> dda_Config \<Rightarrow> string + dda_Config" where
  "load_text ps content cfg = load_lines ps 0 (config_scan_lines content) cfg"

definition LoadFromFile :: "'e host_env_scheme \<Rightarrow> parsers \<Rightarrow> dda_Config \<Rightarrow> string \<Rightarrow> ('h host_scheme, dda_Config) action" where
  "LoadFromFile env ps cfg configFile =
     andthen (wrap ''failed to open config file: '' (on_disk (disk_ReadFile (host_cwd env) configFile))) (\<lambda>content.
     lift_result (load_text ps content cfg))"

definition EnvConfigPath :: string where "EnvConfigPath = ''/etc/edge-node/node/confs/validated-config.env''"

text \<open>\<^verbatim>\<open>time.Duration.String\<close>. The unit of microseconds is written with the two bytes of its sign.\<close>

definition drop_zeros :: "string \<Rightarrow> string" where
  "drop_zeros s = rev (dropWhile (\<lambda>c. c = CHR ''0'') (rev s))"

definition frac_text :: "nat \<Rightarrow> nat \<Rightarrow> string" where
  "frac_text v prec = (let ds = show_nat (v mod 10 ^ prec); f = drop_zeros (replicate (prec - length ds) (CHR ''0'') @ ds)
     in if f = [] then [] else CHR ''.'' # f)"

definition Duration_String :: "int \<Rightarrow> string" where
  "Duration_String d = (let u = nat \<bar>d\<bar>; secs = u div 10 ^ 9; mins = secs div 60; hours = mins div 60 in
     (if d < 0 then ''-'' else []) @
     (if u = 0 then ''0s''
      else if u < 10 ^ 3 then show_nat u @ ''ns''
      else if u < 10 ^ 6 then show_nat (u div 10 ^ 3) @ frac_text u 3 @ [CHR 0xC2, CHR 0xB5, CHR ''s'']
      else if u < 10 ^ 9 then show_nat (u div 10 ^ 6) @ frac_text u 6 @ ''ms''
      else (if hours > 0 then show_nat hours @ ''h'' else []) @ (if mins > 0 then show_nat (mins mod 60) @ ''m'' else []) @
           show_nat (secs mod 60) @ frac_text u 9 @ ''s''))"

definition show_bool :: "bool \<Rightarrow> string" where "show_bool b = (if b then ''true'' else ''false'')"

definition config_lines :: "string \<Rightarrow> dda_Config \<Rightarrow> string list" where
  "config_lines stamp cfg =
     [''# Device Discovery Validated Configuration'', ''# Generated at: '' @ stamp, [],
      ''OBM_SVC='' @ dc_ObmSvc cfg, ''OBS_SVC='' @ dc_ObsSvc cfg, ''OBM_PORT='' @ show_int (dc_ObmPort cfg),
      ''KEYCLOAK_URL='' @ dc_KeycloakURL cfg, ''MAC='' @ dc_MacAddr cfg, ''SERIAL='' @ dc_SerialNumber cfg,
      ''UUID='' @ dc_UUID cfg, ''IP='' @ dc_IPAddress cfg, ''CA_CERT='' @ dc_CaCertPath cfg] @
     (if dc_ExtraHosts cfg \<noteq> [] then [''EXTRA_HOSTS='' @ dc_ExtraHosts cfg] else []) @
     [''DEBUG='' @ show_bool (dc_Debug cfg), ''DISABLE_INTERACTIVE='' @ show_bool (dc_DisableInteractiveMode cfg)] @
     (if dc_Debug cfg then [''TIMEOUT='' @ Duration_String (dc_Timeout cfg)] else [])"

definition config_text :: "string \<Rightarrow> dda_Config \<Rightarrow> string" where
  "config_text stamp cfg = concat (map (\<lambda>l. l @ [nl]) (config_lines stamp cfg))"

definition WriteToFile :: "'e host_env_scheme \<Rightarrow> (int \<Rightarrow> string) \<Rightarrow> dda_Config \<Rightarrow> ('h host_scheme, unit) action" where
  "WriteToFile env rfc3339 cfg =
     (let configDir = TrimSuffix EnvConfigPath (CHR ''/'' # last (Split EnvConfigPath (CHR ''/''))) in
      andthen (wrap ''failed to create config directory: '' (on_disk (host_MkdirAll (host_cwd env) configDir))) (\<lambda>_.
      andthen (wrap ''failed to create config file: '' (on_disk (os_Create (host_cwd env) EnvConfigPath))) (\<lambda>file.
      andthen (time_Now env) (\<lambda>now.
      on_disk (WriteString file (config_text (rfc3339 now) cfg))))))"

section \<open>Required values\<close>

definition missing_fields :: "dda_Config \<Rightarrow> string list" where
  "missing_fields cfg =
     (if dc_ObmSvc cfg = [] then [''OBM_SVC''] else []) @ (if dc_ObsSvc cfg = [] then [''OBS_SVC''] else []) @
     (if dc_ObmPort cfg = 0 then [''OBM_PORT''] else []) @ (if dc_KeycloakURL cfg = [] then [''KEYCLOAK_URL''] else []) @
     (if dc_MacAddr cfg = [] then [''MAC''] else []) @ (if dc_SerialNumber cfg = [] then [''SERIAL''] else []) @
     (if dc_UUID cfg = [] then [''UUID''] else []) @ (if dc_IPAddress cfg = [] then [''IP''] else [])"

definition dda_Validate :: "dda_Config \<Rightarrow> string option" where
  "dda_Validate cfg =
     (let criticalMissing = filter (\<lambda>field. field \<noteq> ''SERIAL'' \<and> field \<noteq> ''UUID'' \<and> field \<noteq> ''IP'' \<and> field \<noteq> ''MAC'') (missing_fields cfg) in
      if criticalMissing \<noteq> [] then Some (''missing required configuration: '' @ Join criticalMissing '', '') else None)"

section \<open>Kernel arguments and hosts\<close>

record kernelConfig =
  kc_WorkerID :: string
  kc_Debug :: string
  kc_Timeout :: string

definition parse_arg :: "string \<Rightarrow> kernelConfig \<Rightarrow> kernelConfig" where
  "parse_arg arg cfg = (case Split arg (CHR ''='') of
     cmd # val # _ \<Rightarrow> if cmd = ''worker_id'' then cfg\<lparr>kc_WorkerID := val\<rparr>
       else if cmd = ''DEBUG'' then cfg\<lparr>kc_Debug := val\<rparr>
       else if cmd = ''TIMEOUT'' then cfg\<lparr>kc_Timeout := val\<rparr> else cfg
   | _ \<Rightarrow> cfg)"

definition parseCmdLine :: "string list \<Rightarrow> kernelConfig" where
  "parseCmdLine cmdLines = fold parse_arg cmdLines \<lparr>kc_WorkerID = [], kc_Debug = [], kc_Timeout = []\<rparr>"

definition KernelArgsFilePath :: string where "KernelArgsFilePath = ''/proc/cmdline''"

definition parseKernelArguments :: "'e host_env_scheme \<Rightarrow> string \<Rightarrow> ('h host_scheme, kernelConfig) action" where
  "parseKernelArguments env p = andthen (on_disk (disk_ReadFile (host_cwd env) p)) (\<lambda>content.
     ret (parseCmdLine (Split content (CHR '' ''))))"

definition apply_kernel :: "parsers \<Rightarrow> kernelConfig \<Rightarrow> dda_Config \<Rightarrow> dda_Config" where
  "apply_kernel ps kernelCfg cfg0 =
     (let cfg1 = (if kc_WorkerID kernelCfg \<noteq> [] then cfg0\<lparr>dc_MacAddr := kc_WorkerID kernelCfg\<rparr> else cfg0);
          cfg2 = (if kc_Debug kernelCfg \<noteq> [] then (case ParseBool (kc_Debug kernelCfg) of Some b \<Rightarrow> cfg1\<lparr>dc_Debug := b\<rparr> | None \<Rightarrow> cfg1) else cfg1)
      in if kc_Timeout kernelCfg \<noteq> [] then (case ParseDuration ps (kc_Timeout kernelCfg) of Some t \<Rightarrow> cfg2\<lparr>dc_Timeout := t\<rparr> | None \<Rightarrow> cfg2) else cfg2)"

definition LoadFromKernelArgs :: "'e host_env_scheme \<Rightarrow> parsers \<Rightarrow> dda_Config \<Rightarrow> ('h host_scheme, dda_Config) action" where
  "LoadFromKernelArgs env ps cfg =
     andthen (wrap (''failed to parse kernel arguments from '' @ KernelArgsFilePath @ '': '') (parseKernelArguments env KernelArgsFilePath)) (\<lambda>k.
     ret (apply_kernel ps k cfg))"

definition hosts_text :: "string \<Rightarrow> string" where
  "hosts_text extraHosts = ReplaceAll (ReplaceAll extraHosts '','' [nl]) [CHR 0x22] []"

text \<open>\<^verbatim>\<open>os.ModeAppend\<close> is a bit of the mode of a new file, not a flag of the opening.\<close>

definition UpdateHosts :: "'e host_env_scheme \<Rightarrow> string \<Rightarrow> ('h host_scheme, unit) action" where
  "UpdateHosts env extraHosts =
     (if extraHosts \<noteq> [] then wrap ''error updating /etc/hosts: '' (on_disk (disk_WriteFile (host_cwd env) ''/etc/hosts'' (hosts_text extraHosts)))
      else ret ())"

definition SaveToFile :: "'e host_env_scheme \<Rightarrow> string \<Rightarrow> string \<Rightarrow> ('h host_scheme, unit) action" where
  "SaveToFile env p data = (let dir = filepath_Dir p in
     andthen (wrap (''failed to create directory '' @ dir @ '': '') (on_disk (host_MkdirAll (host_cwd env) dir))) (\<lambda>_.
     on_disk (andthen (os_Create (host_cwd env) p) (\<lambda>file. WriteString file data))))"

section \<open>Flags\<close>

text \<open>A flag: whether it is Boolean, and how its value is set.\<close>

type_synonym flag_set = "(string \<times> bool \<times> (string \<Rightarrow> dda_Config \<Rightarrow> dda_Config option)) list"

datatype flag_error = FlagHelp | FlagError string

text \<open>\<^verbatim>\<open>FlagSet.Parse\<close>: at the first argument that is no flag it stops.\<close>

fun flag_Parse :: "flag_set \<Rightarrow> string list \<Rightarrow> dda_Config \<Rightarrow> flag_error + dda_Config" where
  "flag_Parse fs [] cfg = Inr cfg"
| "flag_Parse fs (s # args) cfg =
     (if length s < 2 \<or> hd s \<noteq> CHR ''-'' \<or> s = ''--'' then Inr cfg
      else let text_of = (if HasPrefix s ''--'' then drop 2 s else drop 1 s) in
        if text_of = [] \<or> hd text_of = CHR ''-'' \<or> hd text_of = CHR ''='' then Inl (FlagError (''bad flag syntax: '' @ s))
        else let parts = SplitN2 text_of (CHR ''=''); name = hd parts in
          case map_of fs name of
            None \<Rightarrow> if name = ''help'' \<or> name = ''h'' then Inl FlagHelp else Inl (FlagError (''flag provided but not defined: -'' @ name))
          | Some (isBool, setter) \<Rightarrow>
              (case (if length parts = 2 then Some (parts ! 1, args) else if isBool then Some (''true'', args)
                     else case args of [] \<Rightarrow> None | a # rest \<Rightarrow> Some (a, rest)) of
                 None \<Rightarrow> Inl (FlagError (''flag needs an argument: -'' @ name))
               | Some (val, rest) \<Rightarrow> (case setter val cfg of
                    None \<Rightarrow> Inl (FlagError (''invalid value for flag -'' @ name))
                  | Some cfg' \<Rightarrow> if length parts = 2 \<or> isBool then flag_Parse fs args cfg' else flag_Parse fs (tl args) cfg')))"

definition string_flag :: "string \<Rightarrow> (string \<Rightarrow> dda_Config \<Rightarrow> dda_Config) \<Rightarrow> string \<times> bool \<times> (string \<Rightarrow> dda_Config \<Rightarrow> dda_Config option)" where
  "string_flag name put = (name, False, \<lambda>v c. Some (put v c))"

definition bool_flag :: "string \<Rightarrow> (bool \<Rightarrow> dda_Config \<Rightarrow> dda_Config) \<Rightarrow> string \<times> bool \<times> (string \<Rightarrow> dda_Config \<Rightarrow> dda_Config option)" where
  "bool_flag name put = (name, True, \<lambda>v c. map_option (\<lambda>b. put b c) (ParseBool v))"

definition initial_flags :: flag_set where
  "initial_flags = [string_flag ''config'' (\<lambda>v c. c\<lparr>dc_ConfigFile := v\<rparr>), bool_flag ''use-kernel-args'' (\<lambda>v c. c\<lparr>dc_UseKernelArgs := v\<rparr>)]"

definition parseInitialFlags :: "string list \<Rightarrow> dda_Config \<Rightarrow> flag_error + dda_Config" where
  "parseInitialFlags args cfg = flag_Parse initial_flags args (cfg\<lparr>dc_ConfigFile := [], dc_UseKernelArgs := False\<rparr>)"

definition final_flags :: "parsers \<Rightarrow> flag_set" where
  "final_flags ps = initial_flags @
     [string_flag ''obm-svc'' (\<lambda>v c. c\<lparr>dc_ObmSvc := v\<rparr>), string_flag ''obs-svc'' (\<lambda>v c. c\<lparr>dc_ObsSvc := v\<rparr>),
      (''obm-port'', False, \<lambda>v c. map_option (\<lambda>n. c\<lparr>dc_ObmPort := n\<rparr>) (ParseInt_any_base ps v)),
      string_flag ''keycloak-url'' (\<lambda>v c. c\<lparr>dc_KeycloakURL := v\<rparr>), string_flag ''mac'' (\<lambda>v c. c\<lparr>dc_MacAddr := v\<rparr>),
      string_flag ''serial'' (\<lambda>v c. c\<lparr>dc_SerialNumber := v\<rparr>), string_flag ''uuid'' (\<lambda>v c. c\<lparr>dc_UUID := v\<rparr>),
      string_flag ''ip'' (\<lambda>v c. c\<lparr>dc_IPAddress := v\<rparr>), string_flag ''extra-hosts'' (\<lambda>v c. c\<lparr>dc_ExtraHosts := v\<rparr>),
      string_flag ''ca-cert'' (\<lambda>v c. c\<lparr>dc_CaCertPath := v\<rparr>), bool_flag ''debug'' (\<lambda>v c. c\<lparr>dc_Debug := v\<rparr>),
      (''timeout'', False, \<lambda>v c. map_option (\<lambda>t. c\<lparr>dc_Timeout := t\<rparr>) (ParseDuration ps v)),
      bool_flag ''disable-interactive'' (\<lambda>v c. c\<lparr>dc_DisableInteractiveMode := v\<rparr>), bool_flag ''auto-detect'' (\<lambda>v c. c\<lparr>dc_AutoDetect := v\<rparr>)]"

text \<open>The values so far are the defaults of the flags.\<close>

definition parseFinalFlags :: "parsers \<Rightarrow> string list \<Rightarrow> dda_Config \<Rightarrow> flag_error + dda_Config" where
  "parseFinalFlags ps args cfg = flag_Parse (final_flags ps) args cfg"

end
