(* ===== verification/Dda_Agent.thy ===== *)
theory Dda_Agent
  imports Dda_Config Go_Url
begin

text \<open>
  The Device Discovery Agent: detection of the system (\<^verbatim>\<open>internal/sysinfo/sysinfo.go\<close>), tokens
  (\<^verbatim>\<open>internal/auth\<close>), the two modes of onboarding (\<^verbatim>\<open>internal/mode\<close>) and \<^verbatim>\<open>cmd/device-discovery/main.go\<close>.

  The services, the network interfaces, the terminals and the JSON decoder answer through the
  environment. A context that has ended shows in these answers. What is written to the terminals and the
  modes of files are not modelled. A program that ends with a status other than 0 fails.
\<close>

section \<open>State and environment\<close>

record net_addr =
  na_text :: string
  na_IsLoopback :: bool
  na_To4 :: bool

record net_iface =
  ni_Name :: string
  ni_HardwareAddr :: string
  ni_FlagLoopback :: bool
  ni_Addrs :: "string + net_addr list"

datatype NodeState = NODE_STATE_REGISTERED | NODE_STATE_ONBOARDED | NODE_STATE_UNSPECIFIED | OTHER_NODE_STATE int

record OnboardNodeStreamResponse =
  os_Status :: "(int \<times> string) option"
  os_NodeState :: NodeState
  os_ClientId :: string
  os_ClientSecret :: string
  os_ProjectId :: string

datatype stream_answer = StreamEOF | StreamError string | StreamNil | StreamResponse OnboardNodeStreamResponse

record node_identity =
  id_MacId :: string
  id_Uuid :: string
  id_Serialnum :: string
  id_HostIp :: string

record dda_http =
  dh_Method :: string
  dh_URL :: string
  dh_Header :: "(string \<times> string) list"
  dh_Form :: "(string \<times> string) list"

record dda_http_answer =
  da_StatusCode :: int
  da_Status :: string
  da_Body :: "string + string"

datatype tty_answer = TtyFails string | TtyInput string string

record dda = host +
  stream_sent :: "node_identity list"
  nodes_created :: "(string \<times> node_identity) list"
  http_sent :: "dda_http list"
  tty_asked :: nat

record dda_env = host_env +
  go_parsers :: parsers
  time_RFC3339 :: "int \<Rightarrow> string"
  net_Interfaces :: "nat \<Rightarrow> string + net_iface list"
  ctx_ended :: "nat \<Rightarrow> bool"
  pem_ok :: "string \<Rightarrow> bool"
  system_pool :: "nat \<Rightarrow> string list option"
  OnboardNodeStream :: "nat \<Rightarrow> string option"
  stream_Send :: "nat \<Rightarrow> string option"
  stream_Recv :: "nat \<Rightarrow> stream_answer"
  CreateNodes :: "nat \<Rightarrow> string + string"
  http_Do :: "nat \<Rightarrow> dda_http \<Rightarrow> string + dda_http_answer"
  json_access_token :: "string \<Rightarrow> string + string option"
  rand_Intn :: "nat \<Rightarrow> nat"
  tty_answers :: "nat \<Rightarrow> (string \<times> tty_answer) list"

section \<open>The system\<close>

definition dmidecode :: "'e dda_env_scheme \<Rightarrow> string \<Rightarrow> string \<Rightarrow> (dda, string) action" where
  "dmidecode env keyword what = andthen (run_process env [''sudo'', ''/usr/sbin/dmidecode'', ''-s'', keyword] (os_Environ env)) (\<lambda>res.
     case exit_error res of None \<Rightarrow> ret (TrimSpace (Stdout res))
     | Some e \<Rightarrow> fail (''failed to get '' @ what @ '': '' @ e @ '', stderr: '' @ TrimSpace (Stderr res)))"

definition GetSerialNumber :: "'e dda_env_scheme \<Rightarrow> (dda, string) action" where
  "GetSerialNumber env = dmidecode env ''system-serial-number'' ''serial number''"

definition GetUUID :: "'e dda_env_scheme \<Rightarrow> (dda, string) action" where
  "GetUUID env = dmidecode env ''system-uuid'' ''UUID''"

definition usable_ip :: "net_addr \<Rightarrow> bool" where
  "usable_ip ip = (\<not> na_IsLoopback ip \<and> na_To4 ip)"

fun ip_for_mac :: "string \<Rightarrow> net_iface list \<Rightarrow> string + string" where
  "ip_for_mac mac [] = Inl (''no IP address found for MAC address '' @ mac)"
| "ip_for_mac mac (i # is) =
     (if ni_HardwareAddr i = mac
      then (case ni_Addrs i of Inl e \<Rightarrow> Inl (''failed to get addresses for interface '' @ ni_Name i @ '': '' @ e)
        | Inr addrs \<Rightarrow> (case find usable_ip addrs of Some a \<Rightarrow> Inr (na_text a) | None \<Rightarrow> ip_for_mac mac is))
      else ip_for_mac mac is)"

definition interfaces :: "'e dda_env_scheme \<Rightarrow> (dda, net_iface list) action" where
  "interfaces env = wrap ''failed to get network interfaces: '' (andthen (tick env 0 (net_Interfaces env)) lift_result)"

definition GetIPAddress :: "'e dda_env_scheme \<Rightarrow> string \<Rightarrow> (dda, string) action" where
  "GetIPAddress env macAddr = andthen (interfaces env) (\<lambda>is. lift_result (ip_for_mac macAddr is))"

definition attempt_ip :: "'e dda_env_scheme \<Rightarrow> string \<Rightarrow> (dda, string option) action" where
  "attempt_ip env mac = andthen (attempt (GetIPAddress env mac)) (\<lambda>r.
     ret (case r of Inr ip \<Rightarrow> if ip \<noteq> [] then Some ip else None | Inl _ \<Rightarrow> None))"

text \<open>The ticks of the ticker, \<open>n\<close> of them left; at each the context may have ended first.\<close>

fun ip_ticks :: "'e dda_env_scheme \<Rightarrow> string \<Rightarrow> int \<Rightarrow> nat \<Rightarrow> nat \<Rightarrow> (dda, string) action" where
  "ip_ticks env mac d k 0 = fail (''no IP address assigned to MAC '' @ mac @ '' after '' @ show_nat (k - 1) @ '' attempts'')"
| "ip_ticks env mac d k (Suc n) = andthen (tick env 0 (ctx_ended env)) (\<lambda>ended.
     if ended then fail (''operation canceled after '' @ show_nat (k - 1) @ '' attempts: context deadline exceeded'')
     else andthen (time_Sleep env d) (\<lambda>_. andthen (attempt_ip env mac) (\<lambda>r. case r of
        Some ip \<Rightarrow> ret ip | None \<Rightarrow> ip_ticks env mac d (Suc k) n)))"

definition GetIPAddressWithContext :: "'e dda_env_scheme \<Rightarrow> string \<Rightarrow> int \<Rightarrow> int \<Rightarrow> (dda, string) action" where
  "GetIPAddressWithContext env macAddr retries0 sleepDuration0 =
     (let retries = (if retries0 \<le> 0 then 10 else retries0);
          sleepDuration = (if sleepDuration0 \<le> 0 then 3 * time_Second else sleepDuration0) in
      andthen (attempt_ip env macAddr) (\<lambda>r. case r of
        Some ip \<Rightarrow> ret ip
      | None \<Rightarrow> if retries = 1 then fail (''no IP address assigned to MAC '' @ macAddr @ '' after '' @ show_int retries @ '' attempt'')
                else ip_ticks env macAddr sleepDuration 2 (nat (retries - 1))))"

definition GetIPAddressWithRetry :: "'e dda_env_scheme \<Rightarrow> string \<Rightarrow> int \<Rightarrow> int \<Rightarrow> (dda, string) action" where
  "GetIPAddressWithRetry env macAddr retries sleepDuration =
     GetIPAddressWithContext env macAddr (if retries \<le> 0 then 10 else retries) (if sleepDuration \<le> 0 then 3 * time_Second else sleepDuration)"

fun primary_mac :: "net_iface list \<Rightarrow> string option" where
  "primary_mac [] = None"
| "primary_mac (i # is) =
     (if ni_FlagLoopback i \<or> ni_HardwareAddr i = [] then primary_mac is
      else case ni_Addrs i of Inl _ \<Rightarrow> primary_mac is
        | Inr addrs \<Rightarrow> if list_ex usable_ip addrs then Some (ni_HardwareAddr i) else primary_mac is)"

definition GetPrimaryMAC :: "'e dda_env_scheme \<Rightarrow> (dda, string) action" where
  "GetPrimaryMAC env = andthen (interfaces env) (\<lambda>is. case primary_mac is of
     Some m \<Rightarrow> ret m | None \<Rightarrow> fail ''no suitable network interface found'')"

definition detect :: "bool \<Rightarrow> string \<Rightarrow> (dda, string) action \<Rightarrow> (string \<Rightarrow> dda_Config) \<Rightarrow> dda_Config \<Rightarrow> (dda, dda_Config) action" where
  "detect needed what m put cfg = (if needed then andthen (wrap (''failed to auto-detect '' @ what @ '': '') m) (\<lambda>v. ret (put v)) else ret cfg)"

definition AutoDetectSystemInfo :: "'e dda_env_scheme \<Rightarrow> dda_Config \<Rightarrow> (dda, dda_Config) action" where
  "AutoDetectSystemInfo env c0 =
     andthen (detect (dc_SerialNumber c0 = []) ''serial number'' (GetSerialNumber env) (\<lambda>v. c0\<lparr>dc_SerialNumber := v\<rparr>) c0) (\<lambda>c1.
     andthen (detect (dc_UUID c1 = []) ''UUID'' (GetUUID env) (\<lambda>v. c1\<lparr>dc_UUID := v\<rparr>) c1) (\<lambda>c2.
     andthen (detect (dc_AutoDetect c2 \<and> dc_MacAddr c2 = []) ''MAC address'' (GetPrimaryMAC env) (\<lambda>v. c2\<lparr>dc_MacAddr := v\<rparr>) c2) (\<lambda>c3.
     detect (dc_IPAddress c3 = [] \<and> dc_MacAddr c3 \<noteq> []) (''IP address for MAC '' @ dc_MacAddr c3)
       (GetIPAddressWithRetry env (dc_MacAddr c3) 10 (3 * time_Second)) (\<lambda>v. c3\<lparr>dc_IPAddress := v\<rparr>) c3)))"

section \<open>Certificates and tokens\<close>

definition LoadCACertPool :: "'e dda_env_scheme \<Rightarrow> string \<Rightarrow> (dda, string list) action" where
  "LoadCACertPool env caCertPath =
     (if caCertPath = [] then andthen (tick env 0 (system_pool env)) (\<lambda>pool. ret (case pool of None \<Rightarrow> [] | Some p \<Rightarrow> p))
      else andthen (wrap (''failed to read CA certificate from '' @ caCertPath @ '': '') (on_disk (disk_ReadFile (host_cwd env) caCertPath))) (\<lambda>caCert.
        if pem_ok env caCert then ret [caCert] else fail (''failed to parse CA certificate from '' @ caCertPath)))"

text \<open>None: the certificates of the system.\<close>

definition NewGRPCTransportCredentials :: "'e dda_env_scheme \<Rightarrow> string \<Rightarrow> (dda, string list option) action" where
  "NewGRPCTransportCredentials env caCertPath =
     (if caCertPath = [] then ret None else andthen (LoadCACertPool env caCertPath) (\<lambda>p. ret (Some p)))"

definition send_request :: "'e dda_env_scheme \<Rightarrow> string \<Rightarrow> dda_http \<Rightarrow> (dda, dda_http_answer) action" where
  "send_request env caCertPath req =
     (case url_Parse (dh_URL req) of Inl e \<Rightarrow> fail (''failed to create request: '' @ e)
      | Inr _ \<Rightarrow> andthen (wrap ''failed to create HTTP client: '' (LoadCACertPool env caCertPath)) (\<lambda>_.
          andthen (modify (\<lambda>w. w\<lparr>http_sent := http_sent w @ [req]\<rparr>)) (\<lambda>_.
          wrap ''failed to perform request: '' (andthen (tick env 0 (\<lambda>n. http_Do env n req)) lift_result))))"

text \<open>What both grants do with the answer.\<close>

definition access_token_of :: "'e dda_env_scheme \<Rightarrow> dda_http_answer \<Rightarrow> string + string" where
  "access_token_of env resp =
     (if da_StatusCode resp \<noteq> 200 then Inl (''failed to get access token, status: '' @ da_Status resp @ '', body: '' @ (case da_Body resp of Inr b \<Rightarrow> b | Inl _ \<Rightarrow> []))
      else case da_Body resp of Inl e \<Rightarrow> Inl (''failed to decode response: '' @ e)
        | Inr body \<Rightarrow> (case json_access_token env body of Inl e \<Rightarrow> Inl (''failed to decode response: '' @ e)
            | Inr (Some token) \<Rightarrow> if token = [] then Inl ''access token not found in response'' else Inr token
            | Inr None \<Rightarrow> Inl ''access token not found in response''))"

definition token_form :: "string \<Rightarrow> string \<Rightarrow> (string \<times> string) list \<Rightarrow> dda_http" where
  "token_form keycloakURL tokenPath form = \<lparr>dh_Method = ''POST'', dh_URL = ''https://'' @ keycloakURL @ tokenPath,
     dh_Header = [(''Content-Type'', ''application/x-www-form-urlencoded'')], dh_Form = form\<rparr>"

definition FetchPasswordGrantToken :: "'e dda_env_scheme \<Rightarrow> string \<Rightarrow> string \<Rightarrow> string \<Rightarrow> string \<Rightarrow> string \<Rightarrow> string \<Rightarrow> string \<Rightarrow> (dda, string) action" where
  "FetchPasswordGrantToken env keycloakURL tokenPath username password clientID scope caCertPath =
     andthen (send_request env caCertPath (token_form keycloakURL tokenPath
        ([(''grant_type'', ''password''), (''client_id'', clientID), (''username'', username), (''password'', password)] @
         (if scope \<noteq> [] then [(''scope'', scope)] else [])))) (\<lambda>resp. lift_result (access_token_of env resp))"

definition FetchClientCredentialsToken :: "'e dda_env_scheme \<Rightarrow> string \<Rightarrow> string \<Rightarrow> string \<Rightarrow> string \<Rightarrow> string \<Rightarrow> (dda, string) action" where
  "FetchClientCredentialsToken env keycloakURL tokenPath clientID clientSecret caCertPath =
     andthen (send_request env caCertPath (token_form keycloakURL tokenPath
        [(''grant_type'', ''client_credentials''), (''client_id'', clientID), (''client_secret'', clientSecret)])) (\<lambda>resp.
     lift_result (access_token_of env resp))"

definition FetchReleaseToken :: "'e dda_env_scheme \<Rightarrow> string \<Rightarrow> string \<Rightarrow> string \<Rightarrow> (dda, string) action" where
  "FetchReleaseToken env releaseURL accessToken caCertPath =
     (if accessToken = [] then fail ''access token is required''
      else andthen (send_request env caCertPath \<lparr>dh_Method = ''GET'', dh_URL = ''https://'' @ releaseURL,
          dh_Header = [(''Authorization'', ''Bearer '' @ accessToken)], dh_Form = []\<rparr>) (\<lambda>resp.
        if da_StatusCode resp \<noteq> 200 then fail (''failed to get release token, status: '' @ da_Status resp @ '', body: '' @ (case da_Body resp of Inr b \<Rightarrow> b | Inl _ \<Rightarrow> []))
        else case da_Body resp of Inl e \<Rightarrow> fail (''failed to read response body: '' @ e)
          | Inr token \<Rightarrow> if token = ''null'' \<or> token = [] then fail ''invalid token received'' else ret token))"

definition ClientAuth :: "'e dda_env_scheme \<Rightarrow> string \<Rightarrow> string \<Rightarrow> string \<Rightarrow> string \<Rightarrow> string \<Rightarrow> (dda, string \<times> string) action" where
  "ClientAuth env clientID clientSecret keycloakURL accessTokenURL caCertPath =
     andthen (wrap ''failed to get JWT access token from Keycloak: ''
        (FetchClientCredentialsToken env keycloakURL accessTokenURL clientID clientSecret caCertPath)) (\<lambda>idpAccessToken.
     ret (idpAccessToken, ''anonymous''))"

section \<open>Non-interactive mode\<close>

definition KeycloakTokenURL :: string where "KeycloakTokenURL = ''/realms/master/protocol/openid-connect/token''"
definition ReleaseTokenURL :: string where "ReleaseTokenURL = ''/token''"
definition ClientCredentialsFolder :: string where "ClientCredentialsFolder = ''/etc/intel_edge_node/client-credentials/''"
definition ClientIDPath :: string where "ClientIDPath = ClientCredentialsFolder @ ''client_id''"
definition ClientSecretPath :: string where "ClientSecretPath = ClientCredentialsFolder @ ''client_secret''"
definition ProjectIDPath :: string where "ProjectIDPath = ClientCredentialsFolder @ ''project_id''"
definition AccessTokenFile :: string where "AccessTokenFile = ClientCredentialsFolder @ ''idp_access_token''"
definition ReleaseTokenFile :: string where "ReleaseTokenFile = ClientCredentialsFolder @ ''release_token''"

record StreamResult =
  sr_ClientID :: string
  sr_ClientSecret :: string
  sr_ProjectID :: string
  sr_ShouldFallback :: bool
  sr_Error :: "string option"

definition stream_failed :: "string \<Rightarrow> StreamResult" where
  "stream_failed e = \<lparr>sr_ClientID = [], sr_ClientSecret = [], sr_ProjectID = [], sr_ShouldFallback = False, sr_Error = Some e\<rparr>"

definition os_Chmod :: "path \<Rightarrow> string \<Rightarrow> (disk, unit) action" where
  "os_Chmod dir p = (\<lambda>d. case resolve True False 40 (tree d) [] (components dir p) of
     Inl _ \<Rightarrow> (Err (''chmod '' @ p), d) | Inr _ \<Rightarrow> (Ok (), d))"

definition save_project :: "'e dda_env_scheme \<Rightarrow> string \<Rightarrow> (dda, unit) action" where
  "save_project env projectID =
     andthen (wrap ''failed to save Project ID to file: '' (SaveToFile env ProjectIDPath projectID)) (\<lambda>_.
     wrap ''failed to set Project ID file permissions: '' (on_disk (os_Chmod (host_cwd env) ProjectIDPath)))"

text \<open>An answer either ends the exchange, or the node is registered and waits.\<close>

definition handle_response :: "'e dda_env_scheme \<Rightarrow> OnboardNodeStreamResponse \<Rightarrow> (dda, StreamResult option) action" where
  "handle_response env resp = (case os_Status resp of
     None \<Rightarrow> crash ''invalid memory address or nil pointer dereference''
   | Some (Code, Message) \<Rightarrow>
       if Code = 0 then (case os_NodeState resp of
           NODE_STATE_REGISTERED \<Rightarrow> ret None
         | NODE_STATE_ONBOARDED \<Rightarrow>
             if os_ProjectId resp = [] then ret (Some (stream_failed ''received empty Project ID''))
             else andthen (attempt (save_project env (os_ProjectId resp))) (\<lambda>r. case r of
               Inl e \<Rightarrow> ret (Some (stream_failed e))
             | Inr _ \<Rightarrow> if os_ClientId resp = [] \<or> os_ClientSecret resp = [] then ret (Some (stream_failed ''received empty clientID or clientSecret''))
                 else ret (Some \<lparr>sr_ClientID = os_ClientId resp, sr_ClientSecret = os_ClientSecret resp, sr_ProjectID = os_ProjectId resp,
                        sr_ShouldFallback = False, sr_Error = None\<rparr>))
         | NODE_STATE_UNSPECIFIED \<Rightarrow> ret (Some (stream_failed ''edge node state is unspecified or unknown''))
         | OTHER_NODE_STATE n \<Rightarrow> ret (Some (stream_failed (''unknown node state: '' @ show_int n))))
       else if Code = 5 then ret (Some ((stream_failed Message)\<lparr>sr_ShouldFallback := True\<rparr>))
       else ret (Some (stream_failed Message)))"

definition time_Millisecond :: int where "time_Millisecond = 1000000"

definition onboard_round :: "'e dda_env_scheme \<Rightarrow> node_identity \<Rightarrow> int \<Rightarrow> (dda, StreamResult option) action" where
  "onboard_round env request backoff = andthen (tick env 0 (stream_Send env)) (\<lambda>e. case e of
     Some err \<Rightarrow> ret (Some (stream_failed (''could not send data to server: '' @ err)))
   | None \<Rightarrow> andthen (modify (\<lambda>w. w\<lparr>stream_sent := stream_sent w @ [request]\<rparr>)) (\<lambda>_.
       andthen (tick env 0 (stream_Recv env)) (\<lambda>a. case a of
         StreamEOF \<Rightarrow> ret (Some (stream_failed ''stream closed by server''))
       | StreamError err \<Rightarrow> ret (Some (stream_failed (''error receiving response from server: '' @ err)))
       | StreamNil \<Rightarrow> ret (Some (stream_failed ''received nil response from server''))
       | StreamResponse resp \<Rightarrow> andthen (handle_response env resp) (\<lambda>r. case r of
           Some res \<Rightarrow> ret (Some res)
         | None \<Rightarrow> andthen (asks interactions) (\<lambda>n.
             andthen (time_Sleep env (backoff + int (rand_Intn env n mod 1000) * time_Millisecond)) (\<lambda>_. ret None))))))"

definition next_backoff :: "int \<Rightarrow> int" where
  "next_backoff backoff = (if backoff * 2 > 32 * time_Second then 2 * time_Second else backoff * 2)"

text \<open>None: the server keeps the node waiting for ever.\<close>

partial_function (option) onboard_loop :: "'e dda_env_scheme \<Rightarrow> node_identity \<Rightarrow> int \<Rightarrow> dda \<Rightarrow> (StreamResult outcome \<times> dda) option" where
  "onboard_loop env request backoff w = (case onboard_round env request backoff w of
     (Ok (Some r), w') \<Rightarrow> Some (Ok r, w')
   | (Ok None, w') \<Rightarrow> onboard_loop env request (next_backoff backoff) w'
   | (Err e, w') \<Rightarrow> Some (Err e, w')
   | (Crash e, w') \<Rightarrow> Some (Crash e, w'))"

record OnboardingController =
  oc_obmSvc :: string
  oc_obsSvc :: string
  oc_obmPort :: int
  oc_keycloakURL :: string
  oc_identity :: node_identity
  oc_caCertPath :: string
  oc_disableInteractiveMode :: bool

definition open_stream :: "'e dda_env_scheme \<Rightarrow> OnboardingController \<Rightarrow> (dda, unit) action" where
  "open_stream env c = (let target = oc_obsSvc c @ '':'' @ show_int (oc_obmPort c) in
     andthen (wrap ''failed to connect: '' (andthen (wrap ''failed to create transport credentials: '' (NewGRPCTransportCredentials env (oc_caCertPath c))) (\<lambda>_.
       andthen (tick env 0 (\<lambda>n. dial_error env n target)) (\<lambda>e. case e of None \<Rightarrow> ret () | Some m \<Rightarrow> fail m)))) (\<lambda>_.
     andthen (tick env 0 (OnboardNodeStream env)) (\<lambda>e. case e of None \<Rightarrow> ret () | Some m \<Rightarrow> fail (''could not create stream: '' @ m))))"

definition Onboard :: "'e dda_env_scheme \<Rightarrow> OnboardingController \<Rightarrow> dda \<Rightarrow> (StreamResult outcome \<times> dda) option" where
  "Onboard env c w = (case open_stream env c w of
     (Ok _, w') \<Rightarrow> onboard_loop env (oc_identity c) (2 * time_Second) w'
   | (Err e, w') \<Rightarrow> Some (Ok (stream_failed e), w')
   | (Crash e, w') \<Rightarrow> Some (Crash e, w'))"

definition completeNonInteractiveAuth :: "'e dda_env_scheme \<Rightarrow> OnboardingController \<Rightarrow> string \<Rightarrow> string \<Rightarrow> (dda, unit) action" where
  "completeNonInteractiveAuth env c clientID clientSecret =
     andthen (wrap ''failed to save client ID: '' (SaveToFile env ClientIDPath clientID)) (\<lambda>_.
     andthen (wrap ''failed to save client secret: '' (SaveToFile env ClientSecretPath clientSecret)) (\<lambda>_.
     andthen (wrap ''authentication failed: '' (ClientAuth env clientID clientSecret (oc_keycloakURL c) KeycloakTokenURL (oc_caCertPath c))) (\<lambda>(idpAccessToken, releaseToken).
     andthen (wrap ''failed to save access token: '' (SaveToFile env AccessTokenFile idpAccessToken)) (\<lambda>_.
     wrap ''failed to save release token: '' (SaveToFile env ReleaseTokenFile releaseToken)))))"

section \<open>Interactive mode\<close>

record TTYAuthenticator =
  ta_keycloakURL :: string
  ta_caCertPath :: string
  ta_extraHosts :: string

definition NewTTYAuthenticator :: "'e dda_env_scheme \<Rightarrow> string \<Rightarrow> (dda, TTYAuthenticator) action" where
  "NewTTYAuthenticator env configPath =
     andthen (wrap (''failed to load config from '' @ configPath @ '': '') (LoadFromFile env (go_parsers env) empty_Config configPath)) (\<lambda>cfg.
     ret \<lparr>ta_keycloakURL = dc_KeycloakURL cfg, ta_caCertPath = dc_CaCertPath cfg, ta_extraHosts = dc_ExtraHosts cfg\<rparr>)"

definition maxAttempts :: nat where "maxAttempts = 3"

definition defaultLogDir :: string where "defaultLogDir = ''/var/log/client-auth''"
definition defaultLogFile :: string where "defaultLogFile = defaultLogDir @ ''/client-auth.log''"

definition os_Append :: "path \<Rightarrow> string \<Rightarrow> string \<Rightarrow> (disk, unit) action" where
  "os_Append dir p t = (\<lambda>d. case resolve True True 40 (tree d) [] (components dir p) of
     Inl _ \<Rightarrow> (Err (''open '' @ p), d)
   | Inr q \<Rightarrow> (case node_at d q of
       Some Directory \<Rightarrow> (Err (''open '' @ p @ '': is a directory''), d)
     | Some (Regular c) \<Rightarrow> (Ok (), d\<lparr>tree := (tree d)(q \<mapsto> Regular (c @ t))\<rparr>)
     | Some _ \<Rightarrow> (Ok (), d)
     | None \<Rightarrow> (Ok (), (new_file q d)\<lparr>tree := (tree d)(q \<mapsto> Regular t)\<rparr>)))"

definition logToFile :: "'e dda_env_scheme \<Rightarrow> string \<Rightarrow> (dda, unit) action" where
  "logToFile env message = andthen (time_Now env) (\<lambda>now.
     ignore (on_disk (os_Append (host_cwd env) defaultLogFile (''['' @ time_RFC3339 env now @ ''] '' @ message @ [nl]))))"

definition sanitize :: "string \<Rightarrow> string" where
  "sanitize = filter (\<lambda>r. r \<noteq> CHR '' '' \<and> r \<noteq> nl \<and> r \<noteq> CHR '';'')"

text \<open>The name is read up to the end of the line and trimmed, the password is taken as it is.\<close>

definition collectFromDevice :: "'e dda_env_scheme \<Rightarrow> string \<times> tty_answer \<Rightarrow> (dda, (string \<times> string) option) action" where
  "collectFromDevice env = (\<lambda>(device, a). case a of TtyFails e \<Rightarrow> ret None
   | TtyInput line typed \<Rightarrow> (let username = sanitize (TrimSpace line); password = sanitize typed in
       if length username < 3 \<or> length password < 3 then ret None
       else andthen (logToFile env (device @ '': Username and password received'')) (\<lambda>_. ret (Some (username, password)))))"

text \<open>The devices that answer within 50 seconds, in the order of their answers; the errors of the devices are not
  looked at.\<close>

fun first_credentials :: "'e dda_env_scheme \<Rightarrow> (string \<times> tty_answer) list \<Rightarrow> (dda, string \<times> string) action" where
  "first_credentials env [] = andthen (time_Sleep env (50 * time_Second)) (\<lambda>_. fail ''timeout waiting for user input'')"
| "first_credentials env (a # as) = andthen (collectFromDevice env a) (\<lambda>r. case r of
     Some creds \<Rightarrow> ret creds | None \<Rightarrow> first_credentials env as)"

definition collectCredentials :: "'e dda_env_scheme \<Rightarrow> (dda, string \<times> string) action" where
  "collectCredentials env = andthen (modify (\<lambda>w. w\<lparr>tty_asked := Suc (tty_asked w)\<rparr>)) (\<lambda>_.
     andthen (tick env 0 (tty_answers env)) (first_credentials env))"

definition writeTokens :: "'e dda_env_scheme \<Rightarrow> string \<Rightarrow> string \<Rightarrow> (dda, unit) action" where
  "writeTokens env accessToken releaseToken =
     andthen (wrap ''failed to save access token: '' (SaveToFile env AccessTokenFile accessToken)) (\<lambda>_.
     wrap ''failed to save release token: '' (SaveToFile env ReleaseTokenFile releaseToken))"

text \<open>\<^verbatim>\<open>strings.Replace\<close> of the first occurrence.\<close>

definition Replace1 :: "string \<Rightarrow> string \<Rightarrow> string \<Rightarrow> string" where
  "Replace1 s old new = (case Index s old of None \<Rightarrow> s | Some i \<Rightarrow> take i s @ new @ drop (i + length old) s)"

definition validateAndFetchTokens :: "'e dda_env_scheme \<Rightarrow> TTYAuthenticator \<Rightarrow> string \<times> string \<Rightarrow> (dda, unit) action" where
  "validateAndFetchTokens env t creds =
     andthen (asks (\<lambda>w. ta_caCertPath t \<noteq> [] \<and> isl (resolve True False 40 (tree (disk w)) [] (components (host_cwd env) (ta_caCertPath t))))) (\<lambda>missing.
     if missing then andthen (logToFile env (''IDP ca cert not found at the expected location: '' @ ta_caCertPath t)) (\<lambda>_. fail ''CA certificate not found'')
     else andthen (wrap ''failed to fetch IDP access token: '' (FetchPasswordGrantToken env (ta_keycloakURL t) KeycloakTokenURL
            (fst creds) (snd creds) ''system-client'' ''openid'' (ta_caCertPath t))) (\<lambda>accessToken.
       andthen (wrap ''failed to fetch release token: '' (FetchReleaseToken env
            (Replace1 (ta_keycloakURL t) ''keycloak'' ''release'' @ ReleaseTokenURL) accessToken (ta_caCertPath t))) (\<lambda>releaseToken.
       wrap ''failed to write tokens: '' (writeTokens env accessToken releaseToken))))"

text \<open>The attempts, \<open>n\<close> of them left.\<close>

fun auth_attempts :: "'e dda_env_scheme \<Rightarrow> TTYAuthenticator \<Rightarrow> nat \<Rightarrow> (dda, unit) action" where
  "auth_attempts env t 0 = fail (''authentication failed after '' @ show_nat maxAttempts @ '' attempts'')"
| "auth_attempts env t (Suc n) =
     andthen (logToFile env (''Attempt '' @ show_nat (maxAttempts - n) @ '' to read username and password'')) (\<lambda>_.
     andthen (attempt (collectCredentials env)) (\<lambda>r. case r of
       Inl e \<Rightarrow> andthen (logToFile env (''Failed to collect credentials: '' @ e)) (\<lambda>_. auth_attempts env t n)
     | Inr creds \<Rightarrow> andthen (attempt (validateAndFetchTokens env t creds)) (\<lambda>v. case v of
         Inl e \<Rightarrow> andthen (logToFile env (''Authentication failed: '' @ e)) (\<lambda>_.
           andthen (if n > 0 then time_Sleep env (2 * time_Second) else ret ()) (\<lambda>_. auth_attempts env t n))
       | Inr _ \<Rightarrow> logToFile env ''Authentication successful, IDP Access token saved'')))"

definition Authenticate :: "'e dda_env_scheme \<Rightarrow> TTYAuthenticator \<Rightarrow> (dda, unit) action" where
  "Authenticate env t =
     andthen (ignore (on_disk (host_MkdirAll (host_cwd env) defaultLogDir))) (\<lambda>_.
     andthen (if ta_extraHosts t \<noteq> [] then ignore (UpdateHosts env (ta_extraHosts t)) else ret ()) (\<lambda>_.
     auth_attempts env t maxAttempts))"

definition interactive_Onboard :: "'e dda_env_scheme \<Rightarrow> OnboardingController \<Rightarrow> (dda, unit) action" where
  "interactive_Onboard env c =
     andthen (wrap ''failed to create transport credentials: '' (NewGRPCTransportCredentials env (oc_caCertPath c))) (\<lambda>_.
     andthen (wrap ''failed to read JWT token from file: '' (on_disk (disk_ReadFile (host_cwd env) AccessTokenFile))) (\<lambda>jwtToken.
     let tokenString = TrimSpace jwtToken; target = oc_obmSvc c @ '':'' @ show_int (oc_obmPort c) in
     andthen (tick env 0 (\<lambda>n. dial_error env n target)) (\<lambda>e. case e of
       Some m \<Rightarrow> fail (''could not dial server '' @ target @ '': '' @ m)
     | None \<Rightarrow> andthen (modify (\<lambda>w. w\<lparr>nodes_created := nodes_created w @ [(tokenString, oc_identity c)]\<rparr>)) (\<lambda>_.
         andthen (wrap (''could not call gRPC endpoint for server '' @ target @ '': '') (andthen (tick env 0 (CreateNodes env)) lift_result)) (\<lambda>projectId.
         if projectId = [] then fail ''received empty Project ID'' else save_project env projectId)))))"

fun onboard_retries :: "'e dda_env_scheme \<Rightarrow> OnboardingController \<Rightarrow> nat \<Rightarrow> (dda, unit) action" where
  "onboard_retries env c 0 = fail ''max retries reached''"
| "onboard_retries env c (Suc n) = andthen (attempt (interactive_Onboard env c)) (\<lambda>r. case r of
     Inr _ \<Rightarrow> ret ()
   | Inl _ \<Rightarrow> andthen (if n > 0 then andthen (asks interactions) (\<lambda>k.
         time_Sleep env (2 * time_Second + int (rand_Intn env k mod 1000) * time_Millisecond)) else ret ()) (\<lambda>_.
       onboard_retries env c n))"

definition OnboardWithRetry :: "'e dda_env_scheme \<Rightarrow> OnboardingController \<Rightarrow> (dda, unit) action" where
  "OnboardWithRetry env c = onboard_retries env c 3"

definition executeInteractiveMode :: "'e dda_env_scheme \<Rightarrow> OnboardingController \<Rightarrow> (dda, unit) action" where
  "executeInteractiveMode env c =
     andthen (wrap ''failed to create authenticator: '' (NewTTYAuthenticator env EnvConfigPath)) (\<lambda>t.
     andthen (wrap ''failed to authenticate: '' (Authenticate env t)) (\<lambda>_.
     wrap ''interactive onboarding failed after retries: '' (OnboardWithRetry env c)))"

section \<open>The controller and the program\<close>

definition after_stream :: "'e dda_env_scheme \<Rightarrow> OnboardingController \<Rightarrow> StreamResult \<Rightarrow> (dda, unit) action" where
  "after_stream env c result =
     (let err = (case sr_Error result of None \<Rightarrow> [] | Some e \<Rightarrow> e) in
      if sr_ShouldFallback result then
        (if oc_disableInteractiveMode c
         then fail (''non-interactive onboarding failed (device not found) and interactive mode is disabled: '' @ err)
         else executeInteractiveMode env c)
      else if sr_Error result \<noteq> None then fail (''non-interactive onboarding failed: '' @ err)
      else completeNonInteractiveAuth env c (sr_ClientID result) (sr_ClientSecret result))"

definition dda_Execute :: "'e dda_env_scheme \<Rightarrow> OnboardingController \<Rightarrow> dda \<Rightarrow> (unit outcome \<times> dda) option" where
  "dda_Execute env c w = (case Onboard env c w of
     None \<Rightarrow> None
   | Some (Ok result, w') \<Rightarrow> Some (after_stream env c result w')
   | Some (Err e, w') \<Rightarrow> Some (Err e, w') | Some (Crash e, w') \<Rightarrow> Some (Crash e, w'))"

definition controller_of :: "dda_Config \<Rightarrow> OnboardingController" where
  "controller_of cfg = \<lparr>oc_obmSvc = dc_ObmSvc cfg, oc_obsSvc = dc_ObsSvc cfg, oc_obmPort = dc_ObmPort cfg, oc_keycloakURL = dc_KeycloakURL cfg,
     oc_identity = \<lparr>id_MacId = dc_MacAddr cfg, id_Uuid = dc_UUID cfg, id_Serialnum = dc_SerialNumber cfg, id_HostIp = dc_IPAddress cfg\<rparr>,
     oc_caCertPath = dc_CaCertPath cfg, oc_disableInteractiveMode = dc_DisableInteractiveMode cfg\<rparr>"

definition lift_flags :: "flag_error + dda_Config \<Rightarrow> (dda, dda_Config) action" where
  "lift_flags r = (case r of Inr c \<Rightarrow> ret c | Inl FlagHelp \<Rightarrow> fail ''exit status 0: help'' | Inl (FlagError e) \<Rightarrow> fail (''exit status 2: '' @ e))"

definition require_valid :: "dda_Config \<Rightarrow> (dda, unit) action" where
  "require_valid cfg = (case dda_Validate cfg of None \<Rightarrow> ret () | Some e \<Rightarrow> fail (''exit status 1: '' @ e))"

text \<open>The configuration before the system is detected.\<close>

definition load_config :: "'e dda_env_scheme \<Rightarrow> string list \<Rightarrow> (dda, dda_Config) action" where
  "load_config env args =
     andthen (lift_flags (parseInitialFlags args empty_Config)) (\<lambda>c0.
     let kernelArgsFromCLI = dc_UseKernelArgs c0 in
     andthen (if dc_ConfigFile c0 \<noteq> [] then wrap ''exit status 1: Failed to load config file: '' (LoadFromFile env (go_parsers env) c0 (dc_ConfigFile c0)) else ret c0) (\<lambda>c1.
     andthen (if dc_UseKernelArgs c1 then
         andthen (wrap ''exit status 1: Failed to parse kernel arguments: '' (LoadFromKernelArgs env (go_parsers env) c1)) (\<lambda>c2.
         if \<not> kernelArgsFromCLI \<and> dc_ConfigFile c2 \<noteq> []
         then wrap ''exit status 1: Failed to reload config file: '' (LoadFromFile env (go_parsers env) c2 (dc_ConfigFile c2)) else ret c2)
       else ret c1) (\<lambda>c3.
     lift_flags (parseFinalFlags (go_parsers env) args c3))))"

definition prepare :: "'e dda_env_scheme \<Rightarrow> dda_Config \<Rightarrow> (dda, dda_Config) action" where
  "prepare env c4 =
     andthen (if \<not> dc_AutoDetect c4 then require_valid c4 else ret ()) (\<lambda>_.
     andthen (if dc_AutoDetect c4 \<or> dc_MacAddr c4 \<noteq> []
        then wrap ''exit status 1: Failed to auto-detect system information: '' (AutoDetectSystemInfo env c4) else ret c4) (\<lambda>cfg.
     andthen (require_valid cfg) (\<lambda>_.
     andthen (wrap ''exit status 1: Failed to write configuration to file: '' (WriteToFile env (time_RFC3339 env) cfg)) (\<lambda>_.
     andthen (if dc_ExtraHosts cfg \<noteq> [] then wrap ''exit status 1: Failed to add extra hosts: '' (UpdateHosts env (dc_ExtraHosts cfg)) else ret ()) (\<lambda>_.
     ret cfg)))))"

definition dda_main :: "'e dda_env_scheme \<Rightarrow> string list \<Rightarrow> dda \<Rightarrow> (unit outcome \<times> dda) option" where
  "dda_main env args w = (case andthen (load_config env args) (prepare env) w of
     (Ok cfg, w') \<Rightarrow> map_option (\<lambda>(r, v). wrap ''exit status 1: Device discovery failed: '' (\<lambda>_. (r, v)) v) (dda_Execute env (controller_of cfg) w')
   | (Err e, w') \<Rightarrow> Some (Err e, w') | (Crash e, w') \<Rightarrow> Some (Crash e, w'))"

end
