(* ===== verification/Dda_Laws.thy ===== *)
theory Dda_Laws
  imports Dda_Agent
begin

text \<open>
  Laws of the Device Discovery Agent: the configuration that is written is read back, what the command
  line and the kernel arguments do, the identity with which a node is onboarded, when the interactive
  mode is entered, and how long the agent waits between two questions.
\<close>

section \<open>The configuration file is read back\<close>

text \<open>A value that can be written: it is one line, without surrounding space and quotes.\<close>

definition plain :: "string \<Rightarrow> bool" where
  "plain v \<longleftrightarrow> nl \<notin> set v \<and> TrimSpace v = v \<and> Trim v [CHR 0x22, CHR 0x27] = v \<and> length v < 65000"

definition plain_Config :: "dda_Config \<Rightarrow> bool" where
  "plain_Config cfg \<longleftrightarrow> (\<forall>v \<in> {dc_ObmSvc cfg, dc_ObsSvc cfg, dc_KeycloakURL cfg, dc_MacAddr cfg, dc_SerialNumber cfg, dc_UUID cfg,
     dc_IPAddress cfg, dc_CaCertPath cfg, dc_ExtraHosts cfg}. plain v) \<and> - (2 ^ 63) \<le> dc_ObmPort cfg \<and> dc_ObmPort cfg < 2 ^ 63 \<and>
     \<not> dc_Debug cfg"

definition key_ok :: "string \<Rightarrow> bool" where
  "key_ok k \<longleftrightarrow> k \<noteq> [] \<and> TrimSpace k = k \<and> CHR ''='' \<notin> set k \<and> hd k \<noteq> CHR ''#'' \<and> \<not> is_space (hd k) \<and> nl \<notin> set k \<and> length k < 500"

lemma load_line_pair:
  assumes "key_ok k" "plain v"
  shows "load_line ps cfg n (TrimSuffix (k @ ''='' @ v) [CHR 0x0D]) =
      (case ApplyValue ps cfg k v of Inl err \<Rightarrow> Inl (''error at line '' @ show_nat n @ '': '' @ err) | Inr c \<Rightarrow> Inr c)"
    and "length (k @ ''='' @ v) < 65536" "nl \<notin> set (k @ ''='' @ v)"
proof -
  let ?l = "k @ ''='' @ v"
  have last: "\<not> is_space (last ?l)"
    using assms(2) TrimFunc_fixed_last [of is_space v] by (cases "v = []") (auto simp: plain_def TrimSpace_def is_space_def)
  have cr: "TrimSuffix ?l [CHR 0x0D] = ?l"
  proof (cases "HasSuffix ?l [CHR 0x0D]")
    case True
    then obtain t where "?l = t @ [CHR 0x0D]" unfolding HasSuffix_iff by blast
    then have "last ?l = CHR 0x0D" by (metis last_snoc)
    with last show ?thesis by (simp add: is_space_def)
  qed (simp add: TrimSuffix_def)
  have "TrimSpace ?l = ?l"
    by (rule TrimSpace_id [OF _ last]) (use assms(1) in \<open>auto simp: key_ok_def\<close>)
  moreover have "SplitN2 ?l (CHR ''='') = [k, v]" using SplitN2_append_sep [of "CHR ''=''" k v] assms(1) by (simp add: key_ok_def)
  moreover have "\<not> HasPrefix ?l ''#''" using assms(1) by (cases k) (auto simp: key_ok_def)
  ultimately show "load_line ps cfg n (TrimSuffix ?l [CHR 0x0D]) =
      (case ApplyValue ps cfg k v of Inl err \<Rightarrow> Inl (''error at line '' @ show_nat n @ '': '' @ err) | Inr c \<Rightarrow> Inr c)"
    using assms unfolding cr load_line_def Let_def by (simp add: key_ok_def plain_def)
  show "length ?l < 65536" "nl \<notin> set ?l" using assms by (auto simp: key_ok_def plain_def)
qed

lemma trim_hash: "\<exists>v. TrimSpace (CHR ''#'' # u) = CHR ''#'' # v"
proof -
  have "\<not> is_space (CHR ''#'')" by (simp add: is_space_def)
  then show ?thesis by (auto simp: TrimSpace_def TrimFunc_def dropWhile_append) (metis rev_rev_ident)
qed

lemma load_comment:
  assumes "length t < 65000"
  shows "load_lines ps n ((CHR ''#'' # t) # ls) cfg = load_lines ps (Suc n) ls cfg"
proof -
  have "\<exists>u. TrimSuffix (CHR ''#'' # t) [CHR 0x0D] = CHR ''#'' # u"
    by (cases t rule: rev_cases) (auto simp: TrimSuffix_def HasSuffix_def)
  then obtain u where u: "TrimSuffix (CHR ''#'' # t) [CHR 0x0D] = CHR ''#'' # u" by blast
  obtain v where "TrimSpace (CHR ''#'' # u) = CHR ''#'' # v" using trim_hash by blast
  then show ?thesis using assms u by (simp add: load_line_def)
qed

lemma load_empty: "load_lines ps n ([] # ls) cfg = load_lines ps (Suc n) ls cfg"
  by (simp add: load_line_def TrimSuffix_def HasSuffix_def TrimSpace_def TrimFunc_def)

fun apply_pairs :: "parsers \<Rightarrow> (string \<times> string) list \<Rightarrow> dda_Config \<Rightarrow> dda_Config option" where
  "apply_pairs ps [] c = Some c"
| "apply_pairs ps ((k, v) # kvs) c = (case ApplyValue ps c k v of Inr c' \<Rightarrow> apply_pairs ps kvs c' | Inl _ \<Rightarrow> None)"

lemma load_pairs:
  "\<forall>(k, v) \<in> set kvs. key_ok k \<and> plain v \<Longrightarrow> apply_pairs ps kvs c = Some c' \<Longrightarrow>
   load_lines ps n (map (\<lambda>(k, v). k @ ''='' @ v) kvs) c = Inr c'"
proof (induction kvs arbitrary: n c)
  case (Cons kv kvs)
  obtain k v where kv: "kv = (k, v)" by fastforce
  with Cons.prems obtain c1 where a: "ApplyValue ps c k v = Inr c1" "apply_pairs ps kvs c1 = Some c'"
    by (auto split: sum.splits)
  have "key_ok k" "plain v" using Cons.prems(1) kv by auto
  note l = load_line_pair(1) [OF this, of ps c "Suc n"] load_line_pair(2) [OF this]
  show ?case using l a Cons.IH [OF _ a(2), of "Suc n"] Cons.prems(1) kv by simp
qed simp

definition config_pairs :: "dda_Config \<Rightarrow> (string \<times> string) list" where
  "config_pairs cfg =
     [(''OBM_SVC'', dc_ObmSvc cfg), (''OBS_SVC'', dc_ObsSvc cfg), (''OBM_PORT'', show_int (dc_ObmPort cfg)),
      (''KEYCLOAK_URL'', dc_KeycloakURL cfg), (''MAC'', dc_MacAddr cfg), (''SERIAL'', dc_SerialNumber cfg),
      (''UUID'', dc_UUID cfg), (''IP'', dc_IPAddress cfg), (''CA_CERT'', dc_CaCertPath cfg)] @
     (if dc_ExtraHosts cfg \<noteq> [] then [(''EXTRA_HOSTS'', dc_ExtraHosts cfg)] else []) @
     [(''DEBUG'', show_bool (dc_Debug cfg)), (''DISABLE_INTERACTIVE'', show_bool (dc_DisableInteractiveMode cfg))]"

lemma config_lines_pairs: "\<not> dc_Debug cfg \<Longrightarrow> config_lines stamp cfg =
    (CHR ''#'' # '' Device Discovery Validated Configuration'') # (CHR ''#'' # '' Generated at: '' @ stamp) # [] #
    map (\<lambda>(k, v). k @ ''='' @ v) (config_pairs cfg)"
  by (simp add: config_lines_def config_pairs_def)

lemma show_nat_length: "n < 10 ^ k \<Longrightarrow> 0 < k \<Longrightarrow> length (show_nat n) \<le> k"
proof (induction k arbitrary: n)
  case (Suc k)
  show ?case
  proof (cases "n < 10")
    case False
    then have "0 < k" using Suc.prems by (cases k) auto
    moreover have "n div 10 < 10 ^ k" using Suc.prems by simp
    ultimately show ?thesis using Suc.IH [of "n div 10"] False by (subst show_nat.simps) simp
  qed (subst show_nat.simps, simp)
qed simp

lemma plain_int:
  assumes "- (2 ^ 63) \<le> i" "i < 2 ^ 63"
  shows "plain (show_int i)"
proof -
  have ne: "show_int i \<noteq> []" by (simp add: show_int_def)
  have c: "digit_of c \<noteq> None \<or> c = CHR ''-''" if "c \<in> set (show_int i)" for c
    using that show_nat_digits by (auto simp: show_int_def split: if_splits)
  have n: "\<not> is_space d" "d \<notin> {CHR 0x22, CHR 0x27}" "d \<noteq> nl" if "d \<in> set (show_int i)" for d
    using c [OF that] by (auto simp: is_space_def digit_of_def)
  have t: "TrimFunc p (show_int i) = show_int i" if "\<And>d. d \<in> set (show_int i) \<Longrightarrow> \<not> p d" for p
  proof -
    have "dropWhile p (show_int i) = show_int i" "dropWhile p (rev (show_int i)) = rev (show_int i)"
      using that [OF hd_in_set [OF ne]] that [OF last_in_set [OF ne]] ne by (auto simp: dropWhile_eq_self_iff hd_rev)
    then show ?thesis by (simp add: TrimFunc_def)
  qed
  have "nat \<bar>i\<bar> < 10 ^ 20" using assms by simp
  then have "length (show_nat (nat \<bar>i\<bar>)) \<le> 20" by (rule show_nat_length) simp
  then have "length (show_int i) \<le> 21" by (auto simp: show_int_def split: if_splits)
  moreover have "TrimSpace (show_int i) = show_int i" unfolding TrimSpace_def by (rule t) (rule n)
  moreover have "Trim (show_int i) [CHR 0x22, CHR 0x27] = show_int i" unfolding Trim_def by (rule t) (use n in auto)
  ultimately show ?thesis using n by (auto simp: plain_def)
qed

lemma ParseInt64_show: "- (2 ^ 63) \<le> i \<Longrightarrow> i < 2 ^ 63 \<Longrightarrow> ParseInt64 (show_int i) = Some i"
proof -
  assume a: "- (2 ^ 63) \<le> i" "i < 2 ^ 63"
  show ?thesis
  proof (cases "i < 0")
    case True
    with a show ?thesis by (simp add: show_int_def ParseInt64_def read_show_nat)
  next
    case False
    obtain c cs where s: "show_nat (nat i) = c # cs" by (cases "show_nat (nat i)") auto
    have "digit_of c \<noteq> None" using show_nat_digits [of c "nat i"] s by simp
    then have "c \<noteq> CHR ''-''" "c \<noteq> CHR ''+''" by (auto simp: digit_of_def)
    with False a s read_show_nat [of "nat i"] show ?thesis by (simp add: show_int_def ParseInt64_def)
  qed
qed

lemma keys_ok: "\<forall>k \<in> {''OBM_SVC'', ''OBS_SVC'', ''OBM_PORT'', ''KEYCLOAK_URL'', ''MAC'', ''SERIAL'', ''UUID'', ''IP'', ''CA_CERT'',
    ''EXTRA_HOSTS'', ''DEBUG'', ''DISABLE_INTERACTIVE''}. key_ok k"
  by (simp add: key_ok_def TrimSpace_def TrimFunc_def is_space_def)

lemma plain_bool: "plain (show_bool b)"
  by (cases b) (simp_all add: plain_def show_bool_def TrimSpace_def Trim_def TrimFunc_def is_space_def)



section \<open>The command line\<close>

text \<open>The first pass over the command line knows two flags only, and an unknown flag ends the program: with
  any other of the documented flags in front, the agent exits with status 2 before it does anything.\<close>

theorem documented_flags_exit:
  "\<forall>name \<in> set (map fst (final_flags (go_parsers env))) - {''config'', ''use-kernel-args''}.
     dda_main env ((''-'' @ name) # rest) w = Some (Err (''exit status 2: flag provided but not defined: -'' @ name), w)"
proof
  fix name assume n: "name \<in> set (map fst (final_flags (go_parsers env))) - {''config'', ''use-kernel-args''}"
  then have "parseInitialFlags ((''-'' @ name) # rest) empty_Config = Inl (FlagError (''flag provided but not defined: -'' @ name))"
    by (auto simp: final_flags_def initial_flags_def string_flag_def bool_flag_def parseInitialFlags_def)
  then show "dda_main env ((''-'' @ name) # rest) w = Some (Err (''exit status 2: flag provided but not defined: -'' @ name), w)"
    by (simp add: dda_main_def load_config_def lift_flags_def andthen_apply fail_apply)
qed

text \<open>With both options the kernel arguments are applied on top of the configuration file.\<close>

lemma kernel_args_beat_file:
  assumes "on_disk (disk_ReadFile (host_cwd env) ''f'') w = (Ok content, w)" "load_text (go_parsers env) content
      (empty_Config\<lparr>dc_ConfigFile := ''f'', dc_UseKernelArgs := True\<rparr>) = Inr c1" "dc_UseKernelArgs c1"
    and "parseKernelArguments env KernelArgsFilePath w = (Ok k, w)"
  shows "load_config env [''-config=f'', ''-use-kernel-args''] w =
     lift_flags (parseFinalFlags (go_parsers env) [''-config=f'', ''-use-kernel-args''] (apply_kernel (go_parsers env) k c1)) w"
proof -
  have "parseInitialFlags [''-config=f'', ''-use-kernel-args''] empty_Config = Inr (empty_Config\<lparr>dc_ConfigFile := ''f'', dc_UseKernelArgs := True\<rparr>)"
    by (simp add: parseInitialFlags_def initial_flags_def string_flag_def bool_flag_def ParseBool_def)
  then show ?thesis
    using assms by (simp add: load_config_def andthen_apply lift_flags_def LoadFromFile_def LoadFromKernelArgs_def ret_apply wrap_apply)
qed

section \<open>The hosts file\<close>

text \<open>The extra hosts do not extend the hosts file of the node, they replace it: after a successful update
  nothing of the old content is left.\<close>

theorem hosts_file_replaced:
  assumes "UpdateHosts env extra w = (Ok (), w')" "extra \<noteq> []"
    and "resolve True True 40 (tree (disk w)) [] (components (host_cwd env) ''/etc/hosts'') = Inr q" "tree (disk w) q = Some (Regular old)"
  shows "tree (disk w') q = Some (Regular (hosts_text extra))"
proof -
  have "q \<noteq> [] \<or> node_at (disk w) q = Some Directory" by (simp add: node_at_def)
  with assms show ?thesis
    by (auto simp: UpdateHosts_def wrap_apply on_disk_def disk_WriteFile_def node_at_def split: prod.splits outcome.splits if_splits)
qed

section \<open>The identity of the node\<close>

lemma attempt_ip_nonempty: "attempt_ip env mac w = (Ok (Some a), w') \<Longrightarrow> a \<noteq> []"
proof -
  assume p: "attempt_ip env mac w = (Ok (Some a), w')"
  obtain s w1 where s: "attempt (GetIPAddress env mac) w = (s, w1)" by fastforce
  show ?thesis
  proof (cases s)
    case (Ok r)
    with p s show ?thesis by (cases r) (auto simp: attempt_ip_def andthen_apply ret_apply split: if_splits)
  qed (use p s in \<open>simp_all add: attempt_ip_def andthen_apply\<close>)
qed

lemma ip_ticks_nonempty: "ip_ticks env mac d k n w = (Ok ip, w') \<Longrightarrow> ip \<noteq> []"
proof (induction n arbitrary: k w)
  case (Suc n)
  then obtain ended w1 where t: "tick env 0 (ctx_ended env) w = (Ok ended, w1)" by (simp add: tick_apply)
  obtain r w2 w3 where "\<not> ended" "time_Sleep env d w1 = (Ok (), w2)" "attempt_ip env mac w2 = (Ok r, w3)"
    and c: "(case r of Some ip \<Rightarrow> ret ip | None \<Rightarrow> ip_ticks env mac d (Suc k) n) w3 = (Ok ip, w')"
    using Suc.prems t by (auto simp: andthen_eq_Ok fail_apply split: if_splits)
  show ?case
  proof (cases r)
    case (Some a)
    with c have "ip = a" by (simp add: ret_apply)
    with Some \<open>attempt_ip env mac w2 = (Ok r, w3)\<close> show ?thesis using attempt_ip_nonempty by blast
  next
    case None
    with c Suc.IH show ?thesis by auto
  qed
qed (simp add: fail_apply)

lemma GetIP_nonempty: "GetIPAddressWithRetry env mac r d w = (Ok ip, w') \<Longrightarrow> ip \<noteq> []"
proof -
  assume g: "GetIPAddressWithRetry env mac r d w = (Ok ip, w')"
  then obtain a w1 where a: "attempt_ip env mac w = (Ok a, w1)"
    by (auto simp: GetIPAddressWithRetry_def GetIPAddressWithContext_def Let_def andthen_eq_Ok)
  show ?thesis
  proof (cases a)
    case (Some i)
    with a g have "ip = i" by (simp add: GetIPAddressWithRetry_def GetIPAddressWithContext_def Let_def andthen_apply ret_apply)
    with Some a show ?thesis using attempt_ip_nonempty by blast
  next
    case None
    with a g show ?thesis
      by (auto simp: GetIPAddressWithRetry_def GetIPAddressWithContext_def Let_def andthen_apply fail_apply
          split: if_splits dest: ip_ticks_nonempty)
  qed
qed

lemma primary_mac_nonempty: "primary_mac is = Some m \<Longrightarrow> m \<noteq> []"
  by (induction "is") (auto split: if_splits sum.splits)

lemma detect_Ok: "detect needed what m put cfg w = (Ok c, w') \<Longrightarrow>
    (\<not> needed \<and> c = cfg) \<or> (needed \<and> (\<exists>v. m w = (Ok v, w') \<and> c = put v))"
  by (auto simp: detect_def andthen_eq_Ok wrap_eq_Ok ret_apply split: if_splits)

lemma AutoDetect_identity:
  assumes "AutoDetectSystemInfo env c w = (Ok cfg, w')" "dc_AutoDetect c \<or> dc_MacAddr c \<noteq> []"
  shows "dc_MacAddr cfg \<noteq> [] \<and> dc_IPAddress cfg \<noteq> [] \<and> dc_ObmSvc cfg = dc_ObmSvc c \<and> dc_ObsSvc cfg = dc_ObsSvc c \<and>
    dc_ObmPort cfg = dc_ObmPort c \<and> dc_KeycloakURL cfg = dc_KeycloakURL c"
proof -
  obtain c1 w1 c2 w2 c3 w3 where d: "detect (dc_SerialNumber c = []) ''serial number'' (GetSerialNumber env) (\<lambda>v. c\<lparr>dc_SerialNumber := v\<rparr>) c w = (Ok c1, w1)"
    "detect (dc_UUID c1 = []) ''UUID'' (GetUUID env) (\<lambda>v. c1\<lparr>dc_UUID := v\<rparr>) c1 w1 = (Ok c2, w2)"
    "detect (dc_AutoDetect c2 \<and> dc_MacAddr c2 = []) ''MAC address'' (GetPrimaryMAC env) (\<lambda>v. c2\<lparr>dc_MacAddr := v\<rparr>) c2 w2 = (Ok c3, w3)"
    "detect (dc_IPAddress c3 = [] \<and> dc_MacAddr c3 \<noteq> []) (''IP address for MAC '' @ dc_MacAddr c3)
       (GetIPAddressWithRetry env (dc_MacAddr c3) 10 (3 * time_Second)) (\<lambda>v. c3\<lparr>dc_IPAddress := v\<rparr>) c3 w3 = (Ok cfg, w')"
    using assms(1) unfolding AutoDetectSystemInfo_def andthen_eq_Ok by blast
  have 1: "dc_AutoDetect c1 = dc_AutoDetect c \<and> dc_MacAddr c1 = dc_MacAddr c \<and> dc_ObmSvc c1 = dc_ObmSvc c \<and> dc_ObsSvc c1 = dc_ObsSvc c \<and>
      dc_ObmPort c1 = dc_ObmPort c \<and> dc_KeycloakURL c1 = dc_KeycloakURL c"
    using detect_Ok [OF d(1)] by auto
  have 2: "dc_AutoDetect c2 = dc_AutoDetect c1 \<and> dc_MacAddr c2 = dc_MacAddr c1 \<and> dc_ObmSvc c2 = dc_ObmSvc c1 \<and> dc_ObsSvc c2 = dc_ObsSvc c1 \<and>
      dc_ObmPort c2 = dc_ObmPort c1 \<and> dc_KeycloakURL c2 = dc_KeycloakURL c1"
    using detect_Ok [OF d(2)] by auto
  have mac: "m \<noteq> []" if "GetPrimaryMAC env v = (Ok m, v')" for m v v'
    using that primary_mac_nonempty by (auto simp: GetPrimaryMAC_def andthen_eq_Ok ret_apply fail_apply split: option.splits)
  have 3: "dc_MacAddr c3 \<noteq> [] \<and> dc_ObmSvc c3 = dc_ObmSvc c2 \<and> dc_ObsSvc c3 = dc_ObsSvc c2 \<and>
      dc_ObmPort c3 = dc_ObmPort c2 \<and> dc_KeycloakURL c3 = dc_KeycloakURL c2"
    using detect_Ok [OF d(3)] 1 2 assms(2) mac by auto
  show ?thesis using detect_Ok [OF d(4)] 1 2 3 GetIP_nonempty [of env "dc_MacAddr c3" 10 "3 * time_Second" w3] by auto
qed

lemma valid_services: "dda_Validate cfg = None \<longleftrightarrow> dc_ObmSvc cfg \<noteq> [] \<and> dc_ObsSvc cfg \<noteq> [] \<and> dc_ObmPort cfg \<noteq> 0 \<and> dc_KeycloakURL cfg \<noteq> []"
  by (auto simp: dda_Validate_def missing_fields_def Let_def split: if_splits)

text \<open>C29: A node is onboarded with services that are all named; when a MAC address is given or detection is asked
  for, it also has a MAC and an IP address. (Without both, a node is onboarded with an empty identity.)\<close>

theorem prepared_identity:
  assumes "prepare env c w = (Ok cfg, w')"
  shows "dc_ObmSvc cfg \<noteq> [] \<and> dc_ObsSvc cfg \<noteq> [] \<and> dc_ObmPort cfg \<noteq> 0 \<and> dc_KeycloakURL cfg \<noteq> [] \<and>
    (if dc_AutoDetect c \<or> dc_MacAddr c \<noteq> [] then dc_MacAddr cfg \<noteq> [] \<and> dc_IPAddress cfg \<noteq> [] else cfg = c)"
proof -
  obtain w1 cfg1 w2 w3 where d: "(if dc_AutoDetect c \<or> dc_MacAddr c \<noteq> []
        then wrap ''exit status 1: Failed to auto-detect system information: '' (AutoDetectSystemInfo env c) else ret c) w1 = (Ok cfg1, w2)"
    and v: "require_valid cfg1 w2 = (Ok (), w3)" and e: "cfg = cfg1"
    using assms unfolding prepare_def andthen_eq_Ok by (auto simp: ret_apply)
  have "dda_Validate cfg = None" using v e by (auto simp: require_valid_def fail_apply split: option.splits)
  with d e AutoDetect_identity [of env c w1 cfg1 w2] show ?thesis
    by (auto simp: valid_services wrap_eq_Ok ret_apply split: if_splits)
qed

section \<open>Waiting\<close>

text \<open>The wait is doubled up to 32 seconds and then starts again at two.\<close>

lemma backoff_cycles: "(next_backoff ^^ k) (2 * time_Second) = 2 * time_Second * 2 ^ (k mod 5)"
proof (induction k)
  case (Suc k)
  have "k mod 5 \<in> {0, 1, 2, 3, 4}" by auto
  then have "next_backoff (2 * time_Second * 2 ^ (k mod 5)) = 2 * time_Second * 2 ^ (Suc k mod 5)"
    by (auto simp: next_backoff_def time_Second_def mod_Suc)
  with Suc show ?case by simp
qed simp

section \<open>When the interactive mode is entered\<close>

definition dda_quiet :: "nat \<Rightarrow> (string \<times> node_identity) list \<Rightarrow> dda \<Rightarrow> bool" where
  "dda_quiet a b w \<longleftrightarrow> tty_asked w = a \<and> nodes_created w = b"

lemma dda_quiet_host [simp]: "dda_quiet a b (w\<lparr>interactions := n\<rparr>) = dda_quiet a b w" "dda_quiet a b (w\<lparr>clock_ns := t\<rparr>) = dda_quiet a b w"
  "dda_quiet a b (w\<lparr>disk := d\<rparr>) = dda_quiet a b w" "dda_quiet a b (w\<lparr>processes := p\<rparr>) = dda_quiet a b w"
  "dda_quiet a b (w\<lparr>stream_sent := s\<rparr>) = dda_quiet a b w" "dda_quiet a b (w\<lparr>http_sent := h\<rparr>) = dda_quiet a b w"
  by (simp_all add: dda_quiet_def)

lemma dda_quiet_basic: "keeps (dda_quiet a b) (tick env d f)" "keeps (dda_quiet a b) (time_Sleep env d)" "keeps (dda_quiet a b) (on_disk m)"
  "keeps (dda_quiet a b) (modify (\<lambda>w. w\<lparr>stream_sent := stream_sent w @ [q]\<rparr>))" "keeps (dda_quiet a b) (modify (\<lambda>w. w\<lparr>http_sent := http_sent w @ [h]\<rparr>))"
  by (intro keeps_rules; simp)+ (simp_all add: keeps_def modify_apply)

lemma dda_quiet_save: "keeps (dda_quiet a b) (SaveToFile env p data)" "keeps (dda_quiet a b) (save_project env pr)"
  unfolding save_project_def SaveToFile_def Let_def by (intro keeps_rules dda_quiet_basic)+

lemma dda_quiet_certs: "keeps (dda_quiet a b) (LoadCACertPool env p)" "keeps (dda_quiet a b) (NewGRPCTransportCredentials env p)"
  unfolding NewGRPCTransportCredentials_def LoadCACertPool_def by (intro keeps_rules dda_quiet_basic)+

lemma dda_quiet_round: "keeps (dda_quiet a b) (onboard_round env q d)"
proof -
  have h: "keeps (dda_quiet a b) (handle_response env resp)" for resp
    unfolding handle_response_def
    by (cases "os_NodeState resp") (auto intro!: keeps_rules dda_quiet_save)
  show ?thesis
    unfolding onboard_round_def
    by (intro keeps_rules dda_quiet_basic) (auto split: stream_answer.split intro!: keeps_rules dda_quiet_basic h)
qed

lemma dda_quiet_open: "keeps (dda_quiet a b) (open_stream env c)"
  unfolding open_stream_def Let_def by (intro keeps_rules dda_quiet_basic dda_quiet_certs)

lemma dda_quiet_auth: "keeps (dda_quiet a b) (completeNonInteractiveAuth env c i s)"
  unfolding completeNonInteractiveAuth_def ClientAuth_def FetchClientCredentialsToken_def send_request_def
  by (intro keeps_rules dda_quiet_basic dda_quiet_certs dda_quiet_save)

text \<open>The answer of the server that the node is not known.\<close>

definition says_unknown :: "'e dda_env_scheme \<Rightarrow> bool" where
  "says_unknown env \<longleftrightarrow> (\<exists>n resp m. stream_Recv env n = StreamResponse resp \<and> os_Status resp = Some (5, m))"

lemma handle_fallback: "handle_response env resp w = (Ok (Some res), w') \<Longrightarrow> sr_ShouldFallback res \<Longrightarrow> \<exists>m. os_Status resp = Some (5, m)"
proof -
  assume h: "handle_response env resp w = (Ok (Some res), w')" and f: "sr_ShouldFallback res"
  obtain k m where s: "os_Status resp = Some (k, m)"
    using h by (auto simp: handle_response_def crash_apply split: option.splits)
  have "k \<noteq> 0"
  proof
    assume "k = 0"
    with h f s show False
      by (cases "os_NodeState resp")
         (auto simp: handle_response_def ret_apply stream_failed_def andthen_apply split: if_splits sum.splits prod.splits outcome.splits)
  qed
  with h f s show ?thesis by (auto simp: handle_response_def ret_apply stream_failed_def split: if_splits)
qed

lemma round_fallback: "onboard_round env q d w = (Ok (Some res), w') \<Longrightarrow> sr_ShouldFallback res \<Longrightarrow> says_unknown env"
proof -
  assume r: "onboard_round env q d w = (Ok (Some res), w')" and f: "sr_ShouldFallback res"
  obtain e w1 where e: "tick env 0 (stream_Send env) w = (Ok e, w1)" by (simp add: tick_apply)
  have n: "e = None" using r e f by (cases e) (auto simp: onboard_round_def andthen_apply ret_apply stream_failed_def)
  let ?w = "w1\<lparr>stream_sent := stream_sent w1 @ [q]\<rparr>"
  obtain a w2 where a: "tick env 0 (stream_Recv env) ?w = (Ok a, w2)" "a = stream_Recv env (interactions w1)"
    by (simp add: tick_apply)
  show ?thesis
  proof (cases a)
    case (StreamResponse resp)
    obtain o1 w3 where "handle_response env resp w2 = (o1, w3)" by fastforce
    then have "handle_response env resp w2 = (Ok (Some res), w3)"
      using r e n a(1) StreamResponse
      by (auto simp: onboard_round_def andthen_apply modify_apply ret_apply asks_apply time_Sleep_apply split: outcome.splits option.splits)
    from handle_fallback [OF this f] a(2) StreamResponse show ?thesis unfolding says_unknown_def by metis
  qed (use r e n a(1) f in \<open>auto simp: onboard_round_def andthen_apply modify_apply ret_apply stream_failed_def\<close>)
qed

definition ends_quiet :: "nat \<Rightarrow> (string \<times> node_identity) list \<Rightarrow> 'e dda_env_scheme \<Rightarrow> dda \<Rightarrow> StreamResult outcome \<times> dda \<Rightarrow> bool" where
  "ends_quiet a b env w y \<longleftrightarrow> (dda_quiet a b w \<longrightarrow>
     dda_quiet a b (snd y) \<and> (\<forall>res. fst y = Ok res \<and> sr_ShouldFallback res \<longrightarrow> says_unknown env))"

lemma round_quiet:
  assumes "onboard_round env q d w = (x, w1)"
  shows "x = Ok None \<Longrightarrow> ends_quiet a b env w1 y \<Longrightarrow> ends_quiet a b env w y"
    and "x = Ok (Some s) \<Longrightarrow> ends_quiet a b env w (Ok s, w1)"
    and "ends_quiet a b env w (Err e, w1)" "ends_quiet a b env w (Crash e, w1)"
  using keepsD [OF dda_quiet_round _ assms] round_fallback [of env q d w s w1] assms unfolding ends_quiet_def by auto

lemma loop_quiet:
  fixes env :: "'e dda_env_scheme"
  assumes "onboard_loop env q d w = Some y"
  shows "ends_quiet a b env w y"
proof (rule onboard_loop.raw_induct [of "\<lambda>(env :: 'e dda_env_scheme) q d w y. ends_quiet a b env w y", OF _ assms], goal_cases)
  case (1 loop env q d w y)
  obtain x w1 where x: "onboard_round env q d w = (x, w1)" by fastforce
  note r = round_quiet [OF x]
  show ?case
  proof (cases x)
    case (Ok res)
    show ?thesis
    proof (cases res)
      case None
      with Ok 1(2) x have "loop env q (next_backoff d) w1 = Some y" by simp
      from r(1) [OF _ 1(1) [OF this]] Ok None show ?thesis by simp
    next
      case (Some s)
      with Ok 1(2) x r(2) show ?thesis by auto
    qed
  qed (use 1(2) x r in auto)
qed

text \<open>C30: When the interactive mode is disabled, or the server never says that it does not know the node, no
  terminal is read and no node is created interactively.\<close>

theorem interactive_only_when_unknown:
  assumes "dda_Execute env c w = Some (r, w')" "oc_disableInteractiveMode c \<or> \<not> says_unknown env"
  shows "tty_asked w' = tty_asked w \<and> nodes_created w' = nodes_created w"
proof (rule ccontr)
  assume changed: "\<not> (tty_asked w' = tty_asked w \<and> nodes_created w' = nodes_created w)"
  let ?q = "dda_quiet (tty_asked w) (nodes_created w)"
  obtain x w1 where o: "Onboard env c w = Some (x, w1)"
    using assms(1) by (auto simp: dda_Execute_def split: option.splits)
  have q: "?q w" by (simp add: dda_quiet_def)
  obtain y w0 where y: "open_stream env c w = (y, w0)" by fastforce
  with keepsD [OF dda_quiet_open q] have q0: "?q w0" by blast
  have l: "?q w1 \<and> (\<forall>res. x = Ok res \<and> sr_ShouldFallback res \<longrightarrow> says_unknown env)"
  proof (cases y)
    case (Ok u)
    with o y have "onboard_loop env (oc_identity c) (2 * time_Second) w0 = Some (x, w1)" by (simp add: Onboard_def)
    from loop_quiet [OF this] q0 show ?thesis by (auto simp: ends_quiet_def)
  qed (use o y q0 in \<open>auto simp: Onboard_def stream_failed_def\<close>)
  have n: "\<not> ?q w'" using changed by (auto simp: dda_quiet_def)
  show False
  proof (cases x)
    case (Ok res)
    with assms(1) o have a: "after_stream env c res w1 = (r, w')" by (simp add: dda_Execute_def)
    have "sr_ShouldFallback res \<and> \<not> oc_disableInteractiveMode c"
    proof (rule ccontr)
      assume "\<not> (sr_ShouldFallback res \<and> \<not> oc_disableInteractiveMode c)"
      then have "after_stream env c res = fail (''non-interactive onboarding failed (device not found) and interactive mode is disabled: '' @
             (case sr_Error res of None \<Rightarrow> [] | Some e \<Rightarrow> e)) \<or> (\<exists>e. after_stream env c res = fail e) \<or>
           after_stream env c res = completeNonInteractiveAuth env c (sr_ClientID res) (sr_ClientSecret res)"
        by (auto simp: after_stream_def Let_def)
      then have "keeps ?q (after_stream env c res)"
        by (elim disjE exE; simp only:) (rule keeps_fail keeps_fail dda_quiet_auth)+
      from keepsD [OF this conjunct1 [OF l] a] n show False by blast
    qed
    with Ok l assms(2) show False by blast
  next
    case (Err e)
    with assms(1) o have "w' = w1" by (simp add: dda_Execute_def)
    with l n show False by blast
  next
    case (Crash e)
    with assms(1) o have "w' = w1" by (simp add: dda_Execute_def)
    with l n show False by blast
  qed
qed

section \<open>Examples\<close>

definition demo_dda_env :: dda_env where
  "demo_dda_env = \<lparr>host_cwd = [], os_Environ = [], process = \<lambda>n argv e d. (\<lparr>Stdout = ''S1'', Stderr = [], Combined = [], exit_error = None\<rparr>, d),
     delay = \<lambda>_. 0, status_call = \<lambda>_ _. Inr 0, dial_error = \<lambda>_ _. None, attempts_left = \<lambda>_. 0, SystemCertPool = \<lambda>_. Inr [],
     go_parsers = \<lparr>ParseDuration = \<lambda>_. None, ParseInt_any_base = \<lambda>_. None\<rparr>, time_RFC3339 = \<lambda>_. ''now'',
     net_Interfaces = \<lambda>_. Inr [], ctx_ended = \<lambda>_. False, pem_ok = \<lambda>_. True, system_pool = \<lambda>_. None, OnboardNodeStream = \<lambda>_. None,
     stream_Send = \<lambda>_. None, stream_Recv = \<lambda>_. StreamResponse \<lparr>os_Status = Some (5, ''unknown''), os_NodeState = NODE_STATE_UNSPECIFIED,
       os_ClientId = [], os_ClientSecret = [], os_ProjectId = []\<rparr>,
     CreateNodes = \<lambda>_. Inr ''p'', http_Do = \<lambda>_ _. Inl ''down'', json_access_token = \<lambda>_. Inr None, rand_Intn = \<lambda>_. 0,
     tty_answers = \<lambda>_. []\<rparr>"

definition demo_dda :: dda where
  "demo_dda = \<lparr>disk = \<lparr>tree = [[''etc''] \<mapsto> Directory, [''etc'', ''hosts''] \<mapsto> Regular ''127.0.0.1 localhost''], nlink = \<lambda>_. 1\<rparr>,
     clock_ns = 0, interactions = 0, processes = [], status_sent = [], stream_sent = [], nodes_created = [], http_sent = [], tty_asked = 0\<rparr>"

lemma documented_flags_exit_witness:
  "dda_main demo_dda_env [''-obm-svc'', ''obm.example.com''] demo_dda = Some (Err ''exit status 2: flag provided but not defined: -obm-svc'', demo_dda)"
  using documented_flags_exit [of demo_dda_env "[''obm.example.com'']" demo_dda]
  by (simp add: final_flags_def initial_flags_def string_flag_def bool_flag_def)

lemma hosts_file_replaced_witness:
  "\<exists>w'. UpdateHosts demo_dda_env ''10.0.0.1 a'' demo_dda = (Ok (), w') \<and> tree (disk w') [''etc'', ''hosts''] = Some (Regular ''10.0.0.1 a'')"
proof -
  have r: "resolve True True 40 (tree (disk demo_dda)) [] (components (host_cwd demo_dda_env) ''/etc/hosts'') = Inr [''etc'', ''hosts'']"
    and h: "hosts_text ''10.0.0.1 a'' = ''10.0.0.1 a''"
    by code_simp+
  have t: "tree (disk demo_dda) [''etc'', ''hosts''] = Some (Regular ''127.0.0.1 localhost'')" by (simp add: demo_dda_def)
  obtain w' where u: "UpdateHosts demo_dda_env ''10.0.0.1 a'' demo_dda = (Ok (), w')"
    using r t by (simp add: UpdateHosts_def wrap_apply on_disk_def disk_WriteFile_def node_at_def)
  from hosts_file_replaced [OF u _ r t] u h show ?thesis by simp
qed

definition demo_controller :: OnboardingController where
  "demo_controller = \<lparr>oc_obmSvc = ''obm'', oc_obsSvc = ''obs'', oc_obmPort = 443, oc_keycloakURL = ''keycloak.x'',
     oc_identity = \<lparr>id_MacId = [], id_Uuid = [], id_Serialnum = [], id_HostIp = []\<rparr>, oc_caCertPath = [], oc_disableInteractiveMode = True\<rparr>"

lemma interactive_only_when_unknown_witness:
  "\<exists>e w'. dda_Execute demo_dda_env demo_controller demo_dda = Some (Err e, w') \<and> tty_asked w' = 0 \<and> nodes_created w' = []"
proof -
  have "\<exists>w1. open_stream demo_dda_env demo_controller demo_dda = (Ok (), w1)"
    by (simp add: open_stream_def Let_def andthen_apply wrap_apply NewGRPCTransportCredentials_def demo_controller_def ret_apply tick_apply
        demo_dda_env_def)
  then obtain w1 where o: "open_stream demo_dda_env demo_controller demo_dda = (Ok (), w1)" by blast
  have "\<exists>w2 s. onboard_round demo_dda_env (oc_identity demo_controller) (2 * time_Second) w1 = (Ok (Some s), w2) \<and> sr_ShouldFallback s"
    by (simp add: onboard_round_def andthen_apply tick_apply demo_dda_env_def modify_apply handle_response_def ret_apply)
  then obtain w2 s where s: "onboard_round demo_dda_env (oc_identity demo_controller) (2 * time_Second) w1 = (Ok (Some s), w2)"
    "sr_ShouldFallback s" by blast
  then have "Onboard demo_dda_env demo_controller demo_dda = Some (Ok s, w2)"
    by (simp add: Onboard_def o onboard_loop.simps)
  then obtain e where x: "dda_Execute demo_dda_env demo_controller demo_dda = Some (Err e, w2)"
    using s(2) by (simp add: dda_Execute_def after_stream_def Let_def demo_controller_def fail_apply)
  from interactive_only_when_unknown [OF x] x show ?thesis by (auto simp: demo_controller_def demo_dda_def)
qed

definition demo_confs_tree :: filesystem where
  "demo_confs_tree = [[''etc''] \<mapsto> Directory, [''etc'', ''edge-node''] \<mapsto> Directory, [''etc'', ''edge-node'', ''node''] \<mapsto> Directory,
     [''etc'', ''edge-node'', ''node'', ''confs''] \<mapsto> Directory, [''etc'', ''edge-node'', ''node'', ''confs'', ''validated-config.env''] \<mapsto> Special]"

definition demo_services :: dda_Config where
  "demo_services = empty_Config\<lparr>dc_ObmSvc := ''obm'', dc_ObsSvc := ''obs'', dc_ObmPort := 443, dc_KeycloakURL := ''keycloak.x''\<rparr>"

lemma prepared_identity_witness:
  "\<exists>w'. prepare demo_dda_env demo_services (demo_dda\<lparr>disk := \<lparr>tree = demo_confs_tree, nlink = \<lambda>_. 1\<rparr>\<rparr>) = (Ok demo_services, w') \<and>
     dc_ObmSvc demo_services \<noteq> []"
proof -
  let ?w = "demo_dda\<lparr>disk := \<lparr>tree = demo_confs_tree, nlink = \<lambda>_. 1\<rparr>\<rparr>"
  have c: "TrimSuffix EnvConfigPath (CHR ''/'' # last (Split EnvConfigPath (CHR ''/''))) = ''/etc/edge-node/node/confs''"
    "components [] ''/etc/edge-node/node/confs'' = [[], ''etc'', ''edge-node'', ''node'', ''confs'']"
    by code_simp+
  have r: "resolve True False 40 demo_confs_tree [] [[]] = Inr []"
    "resolve True False 40 demo_confs_tree [] [[], ''etc''] = Inr [''etc'']"
    "resolve True False 40 demo_confs_tree [] [[], ''etc'', ''edge-node''] = Inr [''etc'', ''edge-node'']"
    "resolve True False 40 demo_confs_tree [] [[], ''etc'', ''edge-node'', ''node''] = Inr [''etc'', ''edge-node'', ''node'']"
    "resolve True False 40 demo_confs_tree [] [[], ''etc'', ''edge-node'', ''node'', ''confs''] = Inr [''etc'', ''edge-node'', ''node'', ''confs'']"
    "resolve True True 40 demo_confs_tree [] (components [] EnvConfigPath) = Inr [''etc'', ''edge-node'', ''node'', ''confs'', ''validated-config.env'']"
    by code_simp+
  have d: "demo_confs_tree [''etc''] = Some Directory" "demo_confs_tree [''etc'', ''edge-node''] = Some Directory"
    "demo_confs_tree [''etc'', ''edge-node'', ''node''] = Some Directory" "demo_confs_tree [''etc'', ''edge-node'', ''node'', ''confs''] = Some Directory"
    "demo_confs_tree [''etc'', ''edge-node'', ''node'', ''confs'', ''validated-config.env''] = Some Special"
    by (simp_all add: demo_confs_tree_def)
  have cwd: "host_cwd demo_dda_env = []" by (simp add: demo_dda_env_def)
  have "\<exists>w'. WriteToFile demo_dda_env (time_RFC3339 demo_dda_env) demo_services ?w = (Ok (), w')"
    unfolding WriteToFile_def Let_def c(1)
    by (simp add: andthen_apply wrap_apply on_disk_def host_MkdirAll_def on_tree_def cwd c(2) r d ret_apply os_Create_def node_at_def
        time_Now_apply WriteString_def)
  then obtain w' where "WriteToFile demo_dda_env (time_RFC3339 demo_dda_env) demo_services ?w = (Ok (), w')" by blast
  moreover have v: "dda_Validate demo_services = None" by (simp add: valid_services demo_services_def)
  ultimately have p: "prepare demo_dda_env demo_services ?w = (Ok demo_services, w')"
    unfolding prepare_def
    by (simp add: andthen_apply require_valid_def v ret_apply wrap_apply) (simp add: demo_services_def empty_Config_def ret_apply)
  from prepared_identity [OF p] p show ?thesis by blast
qed

end
