(* ===== verification/Go_Split.thy ===== *)
theory Go_Split
  imports Agent_Common Go_Time
begin

text \<open>
  \<^verbatim>\<open>strings.Split\<close> and \<^verbatim>\<open>strings.SplitAfter\<close> for separators of several bytes,
  \<^verbatim>\<open>strconv.ParseUint\<close> for 32 bits, and Go's indexing of slices, which panics out of range.
  (No call passes an empty separator.)
\<close>

section \<open>Splitting\<close>

function SplitSep :: "string \<Rightarrow> string \<Rightarrow> string list" where
  "SplitSep s sep = (case Index s sep of
     Some i \<Rightarrow> if sep = [] then [s] else take i s # SplitSep (drop (i + length sep) s) sep
   | None \<Rightarrow> [s])"
  by pat_completeness auto
termination
proof (relation "measure (\<lambda>(s, sep). length s)", goal_cases)
  case (2 s sep i)
  then have "length sep + i \<le> length s"
    using Index_Some [of s sep i] by (metis append_eq_conv_conj append_take_drop_id drop_drop length_append
        nat_add_left_cancel_le add.commute le_add1 length_drop le_add_diff_inverse2)
  with 2 show ?case by (cases sep) auto
qed simp

function SplitAfter :: "string \<Rightarrow> string \<Rightarrow> string list" where
  "SplitAfter s sep = (case Index s sep of
     Some i \<Rightarrow> if sep = [] then [s] else take (i + length sep) s # SplitAfter (drop (i + length sep) s) sep
   | None \<Rightarrow> [s])"
  by pat_completeness auto
termination
proof (relation "measure (\<lambda>(s, sep). length s)", goal_cases)
  case (2 s sep i)
  then have "length sep + i \<le> length s"
    using Index_Some [of s sep i] by (metis append_eq_conv_conj append_take_drop_id drop_drop length_append
        nat_add_left_cancel_le add.commute le_add1 length_drop le_add_diff_inverse2)
  with 2 show ?case by (cases sep) auto
qed simp

declare SplitSep.simps [simp del] SplitAfter.simps [simp del]

section \<open>Numbers and indices\<close>

definition ParseUint32 :: "string \<Rightarrow> 32 word option" where
  "ParseUint32 s = (case read_nat s of None \<Rightarrow> None | Some n \<Rightarrow> if n < 2 ^ 32 then Some (of_nat n) else None)"

definition nth_of :: "'a list \<Rightarrow> nat \<Rightarrow> 'a option" where
  "nth_of xs i = (if i < length xs then Some (xs ! i) else None)"

definition index_panic :: "'a option \<Rightarrow> ('s, 'a) action" where
  "index_panic x = (case x of None \<Rightarrow> crash ''runtime error: index out of range'' | Some y \<Rightarrow> ret y)"

section \<open>Laws\<close>

lemma index_panic_simps [simp]: "index_panic (Some x) = ret x" "index_panic None = crash ''runtime error: index out of range''"
  by (simp_all add: index_panic_def)

lemma SplitSep_nonempty [simp]: "SplitSep s sep \<noteq> []"
  by (subst SplitSep.simps) (auto split: option.split)

lemma SplitAfter_nonempty [simp]: "SplitAfter s sep \<noteq> []"
  by (subst SplitAfter.simps) (auto split: option.split)

lemma SplitSep_char: "SplitSep s [c] = Split s c"
proof (induction s "[c]" rule: SplitSep.induct)
  case (1 s)
  show ?case
  proof (cases "Index s [c]")
    case None
    then have "c \<notin> set s" by (metis Contains_def Contains_iff append_Cons append_Nil split_list)
    with None show ?thesis by (subst SplitSep.simps) (simp add: Split_no_sep)
  next
    case (Some i)
    have e: "s = take i s @ c # drop (Suc i) s" "takeWhile (\<lambda>x. x \<noteq> c) s = take i s"
      using Index_char [OF Some] by auto
    have "c \<notin> set (take i s)" by (metis e(2) set_takeWhileD)
    then have "Split s c = take i s # Split (drop (Suc i) s) c"
      by (subst e(1)) (simp add: Split_append_sep)
    with 1 [OF Some] Some show ?thesis by (subst SplitSep.simps) simp
  qed
qed

lemma concat_SplitAfter: "concat (SplitAfter s sep) = s"
proof (induction s sep rule: SplitAfter.induct)
  case (1 s sep)
  then show ?case by (subst SplitAfter.simps) (auto split: option.split)
qed

lemma Index_absent: "\<not> Contains s sub \<Longrightarrow> Index s sub = None"
  by (simp add: Contains_def)

lemma SplitSep_absent: "\<not> Contains s sep \<Longrightarrow> SplitSep s sep = [s]"
  by (subst SplitSep.simps) (simp add: Index_absent)

lemma SplitAfter_absent: "\<not> Contains s sep \<Longrightarrow> SplitAfter s sep = [s]"
  by (subst SplitAfter.simps) (simp add: Index_absent)

lemma SplitAfter_char_line:
  assumes "c \<notin> set w"
  shows "SplitAfter (w @ c # s) [c] = (w @ [c]) # SplitAfter s [c]"
proof -
  have "Index (w @ c # s) [c] = Some (length w)"
    using assms by (intro Index_first_char) simp_all
  then show ?thesis by (subst SplitAfter.simps) simp
qed

lemma SplitAfter_Nil: "SplitAfter [] [c] = [[]]"
  by (subst SplitAfter.simps) simp

lemma SplitAfter_lines:
  "\<forall>l \<in> set ls. c \<notin> set l \<Longrightarrow> SplitAfter (concat (map (\<lambda>l. l @ [c]) ls)) [c] = map (\<lambda>l. l @ [c]) ls @ [[]]"
  by (induction ls) (simp_all add: SplitAfter_Nil SplitAfter_char_line)

lemma SplitSep_found:
  assumes "Index s sep = Some i" "sep \<noteq> []"
  shows "SplitSep s sep = take i s # SplitSep (drop (i + length sep) s) sep"
  using assms by (subst SplitSep.simps) simp

lemma SplitAfter_found:
  assumes "Index s sep = Some i" "sep \<noteq> []"
  shows "SplitAfter s sep = take (i + length sep) s # SplitAfter (drop (i + length sep) s) sep"
  using assms by (subst SplitAfter.simps) simp

lemma ParseUint32_show: "n < 2 ^ 32 \<Longrightarrow> ParseUint32 (show_nat n) = Some (of_nat n)"
  by (simp add: ParseUint32_def read_show_nat)

lemma safe_index_panic: "x \<noteq> None \<Longrightarrow> safe (index_panic x)"
  by (auto simp: safe_basic)

lemma keeps_index_panic [keeps_rules]: "keeps I (index_panic x)"
  by (cases x) (simp_all add: keeps_ret keeps_crash)

text \<open>A separator whose first character does not occur again in it cannot straddle a boundary.\<close>

lemma Index_boundary:
  assumes "\<not> Contains a (c # cs)" "c \<notin> set cs"
  shows "Index (a @ (c # cs) @ b) (c # cs) = Some (length a)"
  unfolding Index_iff
proof (intro conjI allI impI notI)
  fix j assume j: "j < length a" and h: "HasPrefix (drop j (a @ (c # cs) @ b)) (c # cs)"
  obtain t where t: "drop j a @ (c # cs) @ b = (c # cs) @ t" using h j by (auto simp: HasPrefix_iff)
  show False
  proof (cases "length (drop j a) \<ge> length (c # cs)")
    case True
    from t obtain u where "drop j a = (c # cs) @ u"
      using True by (metis append_eq_append_conv_if append_take_drop_id)
    then have "a = take j a @ (c # cs) @ u" by (metis append_take_drop_id)
    with assms(1) show False unfolding Contains_iff by blast
  next
    case False
    let ?k = "length (drop j a)"
    have k: "0 < ?k" "?k \<le> length cs" using j False by auto
    have "(drop j a @ (c # cs) @ b) ! ?k = c" by (simp add: nth_append)
    then have "((c # cs) @ t) ! ?k = c" using t by simp
    then have "cs ! (?k - 1) = c" using k by (auto simp: nth_append nth_Cons' split: if_splits)
    moreover have "?k - 1 < length cs" using k by linarith
    ultimately show False using assms(2) nth_mem by blast
  qed
qed simp_all

lemma SplitSep_boundary:
  assumes "\<not> Contains a (c # cs)" "c \<notin> set cs"
  shows "SplitSep (a @ (c # cs) @ b) (c # cs) = a # SplitSep b (c # cs)"
  using SplitSep_found [OF Index_boundary [OF assms, of b]] by simp

lemma SplitSep_pieces:
  assumes "c \<notin> set cs" "\<not> Contains a (c # cs)" "\<forall>p \<in> set ps. \<not> Contains p (c # cs)"
  shows "SplitSep (a @ concat (map (\<lambda>p. (c # cs) @ p) ps)) (c # cs) = a # ps"
  using assms(2,3)
proof (induction ps arbitrary: a)
  case Nil
  then show ?case by (simp add: SplitSep_absent)
next
  case (Cons p ps)
  have "SplitSep (a @ (c # cs) @ (p @ concat (map (\<lambda>p. (c # cs) @ p) ps))) (c # cs)
      = a # SplitSep (p @ concat (map (\<lambda>p. (c # cs) @ p) ps)) (c # cs)"
    by (rule SplitSep_boundary [OF Cons.prems(1) assms(1)])
  with Cons show ?case by simp
qed

lemma SplitAfter_boundary:
  assumes "\<not> Contains a (c # cs)" "c \<notin> set cs"
  shows "SplitAfter (a @ (c # cs) @ b) (c # cs) = (a @ c # cs) # SplitAfter b (c # cs)"
  using SplitAfter_found [OF Index_boundary [OF assms, of b]] by simp

lemma SplitAfter_pieces:
  assumes "c \<notin> set cs" "\<not> Contains a (c # cs)" "\<forall>p \<in> set ps. \<not> Contains p (c # cs)" "ps \<noteq> []"
  shows "SplitAfter (a @ concat (map (\<lambda>p. (c # cs) @ p) ps)) (c # cs) = map (\<lambda>p. p @ c # cs) (a # butlast ps) @ [last ps]"
  using assms(2-)
proof (induction ps arbitrary: a)
  case (Cons p ps)
  have "SplitAfter (a @ (c # cs) @ (p @ concat (map (\<lambda>p. (c # cs) @ p) ps))) (c # cs)
      = (a @ c # cs) # SplitAfter (p @ concat (map (\<lambda>p. (c # cs) @ p) ps)) (c # cs)"
    by (rule SplitAfter_boundary [OF Cons.prems(1) assms(1)])
  with Cons show ?case by (cases "ps = []") (simp_all add: SplitAfter_absent)
qed simp

lemma hd_Split_append: "c \<notin> set a \<Longrightarrow> hd (Split (a @ c # b) c) = a"
  by (simp add: Split_append_sep)

section \<open>Words between blanks\<close>

lemma Fields_blank: "\<forall>c \<in> set s. is_space c \<Longrightarrow> Fields s = []"
  unfolding Fields_def by (subst FieldsFunc.simps) (simp add: Let_def dropWhile_eq_Nil_conv)

lemma Fields_word:
  assumes "\<forall>c \<in> set sp. is_space c" "w \<noteq> []" "\<forall>c \<in> set w. \<not> is_space c" "t = [] \<or> is_space (hd t)"
  shows "Fields (sp @ w @ t) = w # Fields t"
proof -
  have d: "dropWhile is_space (sp @ w @ t) = w @ t"
    using assms(1-3) by (cases w) (simp_all add: dropWhile_append)
  have "takeWhile (\<lambda>c. \<not> is_space c) (w @ t) = w" "dropWhile (\<lambda>c. \<not> is_space c) (w @ t) = t"
    using assms(3,4) by (cases t; simp add: takeWhile_append dropWhile_append)+
  with d assms(2) show ?thesis
    unfolding Fields_def by (subst FieldsFunc.simps) (simp add: Let_def)
qed

lemma show_nat_no_space: "c \<in> set (show_nat n) \<Longrightarrow> \<not> is_space c"
  using show_nat_digits [of c n] by (auto simp: is_space_def digit_of_def)

lemma show_nat_not_in: "digit_of c = None \<Longrightarrow> c \<notin> set (show_nat n)"
  using show_nat_digits by blast

lemma TrimSuffix_append [simp]: "TrimSuffix (s @ p) p = s"
  by (simp add: TrimSuffix_def HasSuffix_iff)

lemma ParseUint64_show: "n < 2 ^ 64 \<Longrightarrow> ParseUint64 (show_nat n) = Some (of_nat n)"
  by (simp add: ParseUint64_def read_show_nat)

end
