(* ===== verification/Hda_Parsers.thy ===== *)
theory Hda_Parsers
  imports Agent_Common Go_Split
begin

text \<open>
  The Hardware Discovery Agent, first part: what it reads from the tools of the node
  (\<^verbatim>\<open>hardware-discovery-agent/internal/cpu\<close>, \<open>usb\<close>, \<open>gpu\<close>, \<open>disk\<close>, \<open>memory\<close> and \<open>system\<close>).

  The tools are processes of the host, what they print is a parameter. The parsers index slices
  without a test; an index out of range is a panic of the agent. A parser that may do so gives an
  option, \<open>None\<close> being the panic. The JSON decoder is a parameter that gives the decoded records.
\<close>

section \<open>Processors\<close>

record cores =
  co_CPU :: string
  co_Socket :: string
  co_MaxMhz :: string

record CoreGroup =
  cg_Type :: string
  cg_List :: "32 word list"

record Socket =
  so_SocketID :: "32 word"
  so_CoreGroups :: "CoreGroup list"

record CPU =
  cpu_Arch :: string
  cpu_Vendor :: string
  cpu_Model :: string
  cpu_Sockets :: "32 word"
  cpu_Cores :: "32 word"
  cpu_Threads :: "32 word"
  cpu_Features :: "string list"
  cpu_Topology :: "Socket list option"

definition empty_CPU :: CPU where
  "empty_CPU = \<lparr>cpu_Arch = [], cpu_Vendor = [], cpu_Model = [], cpu_Sockets = 0, cpu_Cores = 0,
     cpu_Threads = 0, cpu_Features = [], cpu_Topology = None\<rparr>"

text \<open>The value of a line with a label, and a line with a number: one that does not parse is skipped.
  No label is a prefix of another one, so at most one of the tests holds.\<close>

definition attr_value :: "string \<Rightarrow> string \<Rightarrow> string" where
  "attr_value label attr = TrimSpace (TrimPrefix attr (label @ '':''))"

definition attr_number :: "string \<Rightarrow> string \<Rightarrow> (32 word \<Rightarrow> CPU \<Rightarrow> CPU) \<Rightarrow> CPU \<Rightarrow> CPU" where
  "attr_number label attr store cpu = (case ParseUint32 (attr_value label attr) of None \<Rightarrow> cpu | Some n \<Rightarrow> store n cpu)"

definition lscpu_line :: "string \<Rightarrow> CPU \<times> string \<Rightarrow> CPU \<times> string" where
  "lscpu_line attribute st = (let attr = TrimSpace attribute; cpu = fst st; maxMhz = snd st in
     if HasPrefix attr ''Architecture'' then (cpu\<lparr>cpu_Arch := attr_value ''Architecture'' attr\<rparr>, maxMhz)
     else if HasPrefix attr ''Vendor ID'' then (cpu\<lparr>cpu_Vendor := attr_value ''Vendor ID'' attr\<rparr>, maxMhz)
     else if HasPrefix attr ''Model name'' then (cpu\<lparr>cpu_Model := attr_value ''Model name'' attr\<rparr>, maxMhz)
     else if HasPrefix attr ''Socket(s)'' then (attr_number ''Socket(s)'' attr (\<lambda>n c. c\<lparr>cpu_Sockets := n\<rparr>) cpu, maxMhz)
     else if HasPrefix attr ''CPU(s)'' then (attr_number ''CPU(s)'' attr (\<lambda>n c. c\<lparr>cpu_Threads := n\<rparr>) cpu, maxMhz)
     else if HasPrefix attr ''Core(s) per socket'' then (attr_number ''Core(s) per socket'' attr (\<lambda>n c. c\<lparr>cpu_Cores := n\<rparr>) cpu, maxMhz)
     else if HasPrefix attr ''Flags'' then (cpu\<lparr>cpu_Features := Split (attr_value ''Flags'' attr) (CHR '' '')\<rparr>, maxMhz)
     else if HasPrefix attr ''CPU max MHz:'' then (cpu, attr_value ''CPU max MHz'' attr)
     else (cpu, maxMhz))"

definition parse_lscpu :: "string \<Rightarrow> CPU \<times> string" where
  "parse_lscpu out = (let (cpu, maxMhz) = fold lscpu_line (Split out nl) (empty_CPU, []) in
     (cpu\<lparr>cpu_Cores := cpu_Cores cpu * cpu_Sockets cpu\<rparr>, maxMhz))"

fun core_infos :: "string list \<Rightarrow> cores list option" where
  "core_infos [] = Some []"
| "core_infos (coreData # ls) =
     (if Contains coreData ''CPU'' \<or> coreData = [] then core_infos ls
      else case Fields coreData of
        cpu # socket # mhz # _ \<Rightarrow> map_option (\<lambda>cs. \<lparr>co_CPU = cpu, co_Socket = socket, co_MaxMhz = hd (Split mhz nl)\<rparr> # cs) (core_infos ls)
      | _ \<Rightarrow> None)"

text \<open>The group of a core of a socket: \<open>Inl\<close> a performance core, \<open>Inr\<close> an efficiency core, \<open>None\<close>
  when the core is left out.\<close>

definition core_kind :: "64 word \<Rightarrow> cores \<Rightarrow> (32 word + 32 word) option" where
  "core_kind coreMaxFreq core = (case ParseUint32 (co_CPU core) of None \<Rightarrow> None
   | Some cpu \<Rightarrow> if co_MaxMhz core = ''-'' then Some (Inl cpu)
       else (case ParseUint64 (TrimSuffix (co_MaxMhz core) ''.0000'') of None \<Rightarrow> None
         | Some coreFreq \<Rightarrow> if coreFreq \<le> coreMaxFreq then Some (Inr cpu) else Some (Inl cpu)))"

definition on_socket :: "32 word \<Rightarrow> cores \<Rightarrow> bool" where
  "on_socket socketID core = ((case ParseUint32 (co_Socket core) of None \<Rightarrow> 0 | Some s \<Rightarrow> s) = socketID)"

definition place_core :: "32 word \<Rightarrow> 64 word \<Rightarrow> cores \<Rightarrow> 32 word list \<times> 32 word list \<Rightarrow> 32 word list \<times> 32 word list" where
  "place_core socketID coreMaxFreq core pe =
     (if on_socket socketID core then (case core_kind coreMaxFreq core of None \<Rightarrow> pe
        | Some (Inl cpu) \<Rightarrow> (fst pe @ [cpu], snd pe)
        | Some (Inr cpu) \<Rightarrow> (fst pe, snd pe @ [cpu]))
      else pe)"

definition getCoreGroupsPerSocket :: "32 word \<Rightarrow> cores list \<Rightarrow> 64 word \<Rightarrow> Socket" where
  "getCoreGroupsPerSocket socketID coreInfo coreMaxFreq =
     (let (pCoreList, eCoreList) = fold (place_core socketID coreMaxFreq) coreInfo ([], []) in
      \<lparr>so_SocketID = socketID,
       so_CoreGroups = \<lparr>cg_Type = ''P-Core'', cg_List = pCoreList\<rparr> #
         (if length eCoreList > 0 then [\<lparr>cg_Type = ''E-Core'', cg_List = eCoreList\<rparr>] else [])\<rparr>)"

definition eCoreTargetFreq :: "string \<Rightarrow> 64 word" where
  "eCoreTargetFreq coreMaxFreq =
     (let maxCoreFreq = (case ParseUint64 (TrimSuffix coreMaxFreq ''.0000'') of None \<Rightarrow> 0 | Some f \<Rightarrow> f)
      in (3 * maxCoreFreq) div 4)"

definition inferEPCores :: "32 word \<Rightarrow> cores list \<Rightarrow> string \<Rightarrow> Socket list" where
  "inferEPCores sockets coreInfo coreMaxFreq =
     map (\<lambda>socketID. getCoreGroupsPerSocket (of_nat socketID) coreInfo (eCoreTargetFreq coreMaxFreq)) [0..<unat sockets]"

text \<open>The value that comes with an error is a processor too: an empty one, or the one without its
  topology. The first component tells whether there was an error.\<close>

definition GetCPUList :: "'e host_env_scheme \<Rightarrow> ('h host_scheme, string option \<times> CPU) action" where
  "GetCPUList env = andthen (attempt (ReadFromCommand env [''lscpu''])) (\<lambda>r. case r of
     Inl e \<Rightarrow> ret (Some (''failed to read data from command; error: '' @ e), empty_CPU)
   | Inr dataBytes \<Rightarrow> (let (cpu, maxMhz) = parse_lscpu dataBytes in
       if cpu_Sockets cpu \<noteq> 0 then andthen (attempt (ReadFromCommand env [''lscpu'', ''--extended=CPU,SOCKET,MAXMHZ''])) (\<lambda>r. case r of
           Inl e \<Rightarrow> ret (Some (''failed to read data from command; error: '' @ e), cpu)
         | Inr coreDetails \<Rightarrow> andthen (index_panic (core_infos (SplitAfter coreDetails [nl]))) (\<lambda>coreInfo.
             ret (None, cpu\<lparr>cpu_Topology := Some (inferEPCores (cpu_Sockets cpu) coreInfo maxMhz)\<rparr>)))
       else ret (None, cpu)))"

section \<open>USB devices\<close>

record Usb =
  usb_Class :: string
  usb_VendorID :: string
  usb_ProductID :: string
  usb_Bus :: "32 word"
  usb_Address :: "32 word"
  usb_Description :: string
  usb_Serial :: string
  usb_Interfaces :: "string list"

definition getDeviceClass :: "string \<Rightarrow> string option" where
  "getDeviceClass usbDeviceInfo =
     map_option (\<lambda>d. last (SplitAfter (hd (Split d nl)) '' '')) (nth_of (SplitAfter usbDeviceInfo ''bDeviceClass'') 1)"

definition getID :: "string \<Rightarrow> string \<Rightarrow> string option" where
  "getID usbDeviceInfo idType = Option.bind (nth_of (SplitAfter usbDeviceInfo idType) 1) (\<lambda>d.
     map_option (\<lambda>x. hd (Split x (CHR '' ''))) (nth_of (SplitAfter (hd (Split d nl)) ''0x'') 1))"

definition getDeviceDescription :: "string \<Rightarrow> string option" where
  "getDeviceDescription usbDeviceInfo =
     map_option (\<lambda>d. concat (drop 1 (SplitAfter d '' ''))) (nth_of (SplitAfter (hd (Split usbDeviceInfo nl)) '':'') 2)"

definition getSerial :: "string \<Rightarrow> string option" where
  "getSerial usbDeviceInfo = Option.bind (nth_of (SplitAfter usbDeviceInfo ''iSerial'') 1) (\<lambda>d.
     let serial = SplitAfter (hd (Split d nl)) '':''; serialInfo = Split (hd serial) (CHR '':'') in
     if length serialInfo > 1 then
       (case (nth_of serial 1, nth_of serial 2) of
          (Some b, Some c) \<Rightarrow> Some (last (SplitAfter (hd serialInfo) '' '') @ '':'' @ b @ c)
        | _ \<Rightarrow> None)
     else Some ''Not available'')"

text \<open>The list holds pointers to one variable \<open>iface\<close>, which the loop overwrites: the cell is threaded
  through the loop with the number of pointers, and every entry reads its last value.\<close>

definition interface_class :: "string \<Rightarrow> string" where
  "interface_class interfaceData = concat (drop 1 (SplitAfter (hd (Split interfaceData nl)) '' ''))"

definition getInterfaces :: "string \<Rightarrow> string list" where
  "getInterfaces usbDeviceInfo =
     (let (iface, n) = fold (\<lambda>interfaceData (iface, n). (interface_class interfaceData, Suc n))
            (drop 1 (SplitAfter usbDeviceInfo ''bInterfaceClass         '')) ([], 0)
      in replicate n iface)"

definition getAddr :: "string \<Rightarrow> string + 32 word" where
  "getAddr usbAddrInfo = (case ParseUint32 usbAddrInfo of None \<Rightarrow> Inl ''invalid syntax'' | Some n \<Rightarrow> Inr n)"

definition usb_device :: "'e host_env_scheme \<Rightarrow> string \<Rightarrow> ('h host_scheme, Usb) action" where
  "usb_device env usbDevData =
     (let usbDeviceDetails = SplitAfter usbDevData '' '' in
      andthen (index_panic (nth_of usbDeviceDetails 3)) (\<lambda>d3.
      andthen (index_panic (nth_of usbDeviceDetails 1)) (\<lambda>d1.
      let usbDeviceID = hd (Split d3 (CHR '':'')); usbBusInfo = hd (Split d1 (CHR '' '')) in
      andthen (wrap ''failed to read data from command; error: ''
        (ReadFromCommand env [''lsusb'', ''-v'', ''-s'', usbBusInfo @ '':'' @ usbDeviceID])) (\<lambda>info.
      andthen (index_panic (getDeviceClass info)) (\<lambda>cls.
      andthen (index_panic (getID info ''idVendor'')) (\<lambda>vendor.
      andthen (index_panic (getID info ''idProduct'')) (\<lambda>product.
      andthen (wrap ''failed to read data from command; error: '' (lift_result (getAddr usbBusInfo))) (\<lambda>bus.
      andthen (wrap ''failed to read data from command; error: '' (lift_result (getAddr usbDeviceID))) (\<lambda>addr.
      andthen (index_panic (getDeviceDescription usbDevData)) (\<lambda>descr.
      andthen (index_panic (getSerial info)) (\<lambda>serial.
      ret \<lparr>usb_Class = cls, usb_VendorID = vendor, usb_ProductID = product, usb_Bus = bus, usb_Address = addr,
           usb_Description = descr, usb_Serial = serial, usb_Interfaces = getInterfaces info\<rparr>)))))))))))"

fun usb_devices :: "'e host_env_scheme \<Rightarrow> string list \<Rightarrow> ('h host_scheme, Usb list) action" where
  "usb_devices env [] = ret []"
| "usb_devices env (l # ls) = (if \<not> Contains l ''Bus'' then usb_devices env ls
     else andthen (usb_device env l) (\<lambda>u. andthen (usb_devices env ls) (\<lambda>us. ret (u # us))))"

definition GetUsbList :: "'e host_env_scheme \<Rightarrow> ('h host_scheme, Usb list) action" where
  "GetUsbList env = andthen (wrap ''failed to read data from command; error: '' (ReadFromCommand env [''lsusb'']))
     (\<lambda>out. usb_devices env (SplitAfter out [nl]))"

section \<open>Graphics, disks and memory\<close>

record Gpu =
  gpu_PciID :: string
  gpu_Product :: string
  gpu_Vendor :: string
  gpu_Name :: string
  gpu_Description :: string
  gpu_Features :: "string list"

definition infoNotFound :: string where "infoNotFound = ''Not Available''"

definition parseGpuDetails :: "string \<Rightarrow> string \<Rightarrow> string list" where
  "parseGpuDetails gpuDevice infoType = (case SplitSep gpuDevice infoType of
     _ # info # _ \<Rightarrow> Split info nl | _ \<Rightarrow> [infoNotFound])"

definition gpu_name :: "string \<Rightarrow> string" where
  "gpu_name deviceInfo = (case SplitSep (hd (SplitSep deviceInfo '' ('')) '': '' of _ # d # _ \<Rightarrow> d | _ \<Rightarrow> ''Info Not Available'')"

definition gpu_device :: "'e host_env_scheme \<Rightarrow> string \<Rightarrow> ('h host_scheme, Gpu) action" where
  "gpu_device env gpu =
     (let pciAddress = TrimPrefix (hd (parseGpuDetails gpu ''bus info: '')) ''pci@0000:'';
          deviceFeatures = parseGpuDetails gpu ''capabilities: '' in
      andthen (if pciAddress \<noteq> infoNotFound
               then andthen (wrap ''failed to read data from command; error: '' (ReadFromCommand env [''lspci'', ''-v'', ''-s'', pciAddress]))
                      (\<lambda>deviceInfo. ret (gpu_name deviceInfo))
               else ret ''Info Not Available'') (\<lambda>device.
      ret \<lparr>gpu_PciID = pciAddress, gpu_Product = hd (parseGpuDetails gpu ''product: ''),
           gpu_Vendor = hd (parseGpuDetails gpu ''vendor: ''), gpu_Name = device,
           gpu_Description = hd (parseGpuDetails gpu ''description: ''),
           gpu_Features = (if hd deviceFeatures \<noteq> infoNotFound then Split (hd deviceFeatures) (CHR '' '') else deviceFeatures)\<rparr>))"

fun gpu_devices :: "'e host_env_scheme \<Rightarrow> string list \<Rightarrow> ('h host_scheme, Gpu list) action" where
  "gpu_devices env [] = ret []"
| "gpu_devices env (g # gs) = (if TrimSpace g = [] then gpu_devices env gs
     else andthen (gpu_device env g) (\<lambda>d. andthen (gpu_devices env gs) (\<lambda>ds. ret (d # ds))))"

definition GetGpuList :: "'e host_env_scheme \<Rightarrow> ('h host_scheme, Gpu list) action" where
  "GetGpuList env = andthen (wrap ''failed to read data from command; error: '' (ReadFromCommand env [''sudo'', ''lshw'', ''-C'', ''display'']))
     (\<lambda>gpuInfo. gpu_devices env (SplitSep gpuInfo ''*-display''))"

record lsblk_disk =
  lb_Serial :: string
  lb_Name :: string
  lb_Vendor :: string
  lb_Model :: string
  lb_Size :: "64 word"
  lb_Type :: string
  lb_Wwn :: string

record Disk =
  dk_SerialNum :: string
  dk_Name :: string
  dk_Vendor :: string
  dk_Model :: string
  dk_Size :: "64 word"
  dk_Wwid :: string

definition or_unknown :: "string \<Rightarrow> string" where
  "or_unknown s = (if s = [] then ''unknown'' else s)"

definition disk_data :: "lsblk_disk \<Rightarrow> Disk" where
  "disk_data d = \<lparr>dk_SerialNum = or_unknown (lb_Serial d), dk_Name = lb_Name d, dk_Vendor = or_unknown (lb_Vendor d),
     dk_Model = or_unknown (lb_Model d), dk_Size = lb_Size d, dk_Wwid = or_unknown (lb_Wwn d)\<rparr>"

definition GetDiskList :: "'e host_env_scheme \<Rightarrow> (string \<Rightarrow> string + lsblk_disk list) \<Rightarrow> ('h host_scheme, Disk list) action" where
  "GetDiskList env json =
     andthen (wrap ''failed to read data from command; error: ''
       (ReadFromCommand env [''lsblk'', ''-o'', ''SERIAL,KNAME,VENDOR,MODEL,SIZE,WWN,TYPE'', ''-J'', ''-b''])) (\<lambda>dataBytes.
     andthen (wrap ''failed to unmarshal data; error: '' (lift_result (json dataBytes))) (\<lambda>ds.
     ret (map disk_data (filter (\<lambda>d. \<not> (lb_Type d \<noteq> ''disk'' \<or> lb_Size d = 0)) ds))))"

definition GetMemory :: "'e host_env_scheme \<Rightarrow> (string \<Rightarrow> string + (int \<times> string) list) \<Rightarrow> ('h host_scheme, 64 word) action" where
  "GetMemory env json =
     andthen (wrap ''failed to read data from command; error: '' (ReadFromCommand env [''lsmem'', ''-J'', ''-b''])) (\<lambda>dataBytes.
     andthen (wrap ''failed to unmarshal data; error: '' (lift_result (json dataBytes))) (\<lambda>mems.
     ret (fold (\<lambda>(sz, state) sum. if state = ''online'' then sum + of_int sz else sum) mems 0)))"

section \<open>BIOS and operating system\<close>

record Bios =
  bi_Version :: string
  bi_RelDate :: string
  bi_Vendor :: string

record OsMetadata =
  om_Key :: string
  om_Value :: string

record OsKern =
  ok_Version :: string
  ok_Config :: "OsMetadata list"

record OsRel =
  or_ID :: string
  or_Version :: string
  or_Metadata :: "OsMetadata list"

record Os =
  os_Kernel :: "OsKern option"
  os_Release :: "OsRel option"

text \<open>The regular expression \<^verbatim>\<open>^0[1-9]|[12][0-9]|3[012]$\<close> matches at the start, anywhere, or at the end.\<close>

fun two_chars :: "string \<Rightarrow> string \<Rightarrow> string \<Rightarrow> bool" where
  "two_chars as bs (a # b # s) = ((a \<in> set as \<and> b \<in> set bs) \<or> two_chars as bs (b # s))"
| "two_chars as bs s = False"

definition date_regex :: "string \<Rightarrow> bool" where
  "date_regex s =
     ((case s of a # b # _ \<Rightarrow> a = CHR ''0'' \<and> b \<in> set ''123456789'' | _ \<Rightarrow> False) \<or>
      two_chars ''12'' ''0123456789'' s \<or>
      (case rev s of b # a # _ \<Rightarrow> a = CHR ''3'' \<and> b \<in> set ''012'' | _ \<Rightarrow> False))"

definition pad_part :: "string \<Rightarrow> string" where
  "pad_part s = (if length s < 4 \<and> \<not> date_regex s then CHR ''0'' # s else s)"

definition formatReleaseDate :: "string \<Rightarrow> string" where
  "formatReleaseDate releaseDate =
     (let format = (\<lambda>strSeparator. let dateContents = Split releaseDate strSeparator in
            if length dateContents < 3 then [] else Join (map pad_part dateContents) [strSeparator])
      in if Contains releaseDate ''/'' then format (CHR ''/'')
         else if Contains releaseDate ''-'' then format (CHR ''-'') else [])"

definition hda_dmidecode :: "'e host_env_scheme \<Rightarrow> string \<Rightarrow> string \<Rightarrow> ('h host_scheme, string) action" where
  "hda_dmidecode env msg keyword = andthen (wrap msg (ReadFromCommand env [''sudo'', ''dmidecode'', ''-s'', keyword])) (\<lambda>out. ret (TrimSpace out))"

definition GetBiosInfo :: "'e host_env_scheme \<Rightarrow> ('h host_scheme, Bios) action" where
  "GetBiosInfo env =
     andthen (hda_dmidecode env ''failed to get BIOS version: '' ''bios-version'') (\<lambda>version.
     andthen (hda_dmidecode env ''failed to get Bios release date: '' ''bios-release-date'') (\<lambda>releaseDate.
     andthen (hda_dmidecode env ''failed to get Bios vendor: '' ''bios-vendor'') (\<lambda>vendor.
     ret \<lparr>bi_Version = version, bi_RelDate = formatReleaseDate releaseDate, bi_Vendor = vendor\<rparr>)))"

definition after_colon :: "string \<Rightarrow> string option" where
  "after_colon out = map_option TrimSpace (nth_of (Split out (CHR '':'')) 1)"

definition os_command :: "'e host_env_scheme \<Rightarrow> string list \<Rightarrow> ('h host_scheme, string) action" where
  "os_command env argv = wrap ''failed to get OS information: '' (ReadFromCommand env argv)"

definition GetOsInfo :: "'e host_env_scheme \<Rightarrow> ('h host_scheme, Os) action" where
  "GetOsInfo env =
     andthen (os_command env [''uname'', ''-r'']) (\<lambda>kernelVersion.
     andthen (os_command env [''uname'', ''-i'']) (\<lambda>hwPlatform.
     andthen (os_command env [''uname'', ''-o'']) (\<lambda>operatingSystem.
     andthen (os_command env [''lsb_release'', ''-i'']) (\<lambda>osID.
     andthen (index_panic (after_colon osID)) (\<lambda>ident.
     andthen (os_command env [''lsb_release'', ''-d'']) (\<lambda>osVersion.
     andthen (index_panic (after_colon osVersion)) (\<lambda>version.
     andthen (os_command env [''lsb_release'', ''-c'']) (\<lambda>osCodeName.
     andthen (index_panic (after_colon osCodeName)) (\<lambda>codeName.
     ret \<lparr>os_Kernel = Some \<lparr>ok_Version = kernelVersion, ok_Config =
            [\<lparr>om_Key = ''Platform'', om_Value = hwPlatform\<rparr>, \<lparr>om_Key = ''Operating System'', om_Value = operatingSystem\<rparr>]\<rparr>,
          os_Release = Some \<lparr>or_ID = ident, or_Version = version, or_Metadata =
            [\<lparr>om_Key = TrimSpace (hd (Split osCodeName (CHR '':''))), om_Value = codeName\<rparr>]\<rparr>\<rparr>)))))))))"

definition GetProductName :: "'e host_env_scheme \<Rightarrow> ('h host_scheme, string) action" where
  "GetProductName env = hda_dmidecode env ''failed to get product name: '' ''system-product-name''"

definition hda_GetSerialNumber :: "'e host_env_scheme \<Rightarrow> ('h host_scheme, string) action" where
  "hda_GetSerialNumber env = hda_dmidecode env ''failed to get serial number: '' ''system-serial-number''"

definition GetSystemUUID :: "'e host_env_scheme \<Rightarrow> ('h host_scheme, string) action" where
  "GetSystemUUID env = hda_dmidecode env ''failed to get uuid: '' ''system-uuid''"

end
