(* ===== verification/Hda_Network.thy ===== *)
theory Hda_Network
  imports Hda_Parsers "HOL-Library.List_Lexorder" "HOL-Library.Char_ord"
begin

text \<open>
  The Hardware Discovery Agent, second part: the network interfaces
  (\<^verbatim>\<open>internal/network/network.go\<close>) and their link modes (\<^verbatim>\<open>internal/tool/ethtool.go\<close>).

  \<^verbatim>\<open>/sys\<close> is part of the disk; the names in a directory and the ethtool library are parameters.
\<close>

section \<open>Link modes\<close>

definition EthToolLinkModeMap :: "(64 word \<times> string) list" where
  "EthToolLinkModeMap =
    [(0x001, ''10baseT Half''), (0x002, ''10baseT Full''), (0x004, ''100baseT Half''), (0x008, ''100baseT Full''),
     (0x010, ''1000baseT Half (not supported by IEEE standards)''), (0x020, ''1000baseT Full''),
     (0x20000, ''1000baseKX Full''), (0x20000000000, ''1000baseX Full''), (0x800000000000, ''2500baseT Full''),
     (0x8000, ''2500baseX Full (not supported by IEEE standards)''), (0x1000000000000, ''5000baseT Full''),
     (0x1000, ''10000baseT Full''), (0x40000, ''10000baseKX4 Full''), (0x80000, ''10000baseKR Full''),
     (0x100000, ''10000baseR_FEC''), (0x40000000000, ''10000baseCR  Full''), (0x80000000000, ''10000baseSR  Full''),
     (0x100000000000, ''10000baseLR  Full''), (0x200000000000, ''10000baseLRM Full''), (0x400000000000, ''10000baseER  Full''),
     (0x200000, ''20000baseMLD2 Full (not supported by IEEE standards)''),
     (0x400000, ''20000baseKR2 Full (not supported by IEEE standards)''),
     (0x80000000, ''25000baseCR Full''), (0x100000000, ''25000baseKR Full''), (0x200000000, ''25000baseSR Full''),
     (0x800000, ''40000baseKR4 Full''), (0x1000000, ''40000baseCR4 Full''), (0x2000000, ''40000baseSR4 Full''),
     (0x4000000, ''40000baseLR4 Full''), (0x400000000, ''50000baseCR2 Full''), (0x800000000, ''50000baseKR2 Full''),
     (0x10000000000, ''50000baseSR2 Full''), (0x10000000000000, ''50000baseKR Full''), (0x20000000000000, ''50000baseSR Full''),
     (0x40000000000000, ''50000baseCR Full''), (0x80000000000000, ''50000baseLR_ER_FR Full''),
     (0x100000000000000, ''50000baseDR Full''), (0x8000000, ''56000baseKR4 Full''), (0x10000000, ''56000baseCR4 Full''),
     (0x20000000, ''56000baseSR4 Full''), (0x40000000, ''56000baseLR4 Full''), (0x1000000000, ''100000baseKR4 Full''),
     (0x2000000000, ''100000baseSR4 Full''), (0x4000000000, ''100000baseCR4 Full''), (0x8000000000, ''100000baseLR4_ER4 Full''),
     (0x200000000000000, ''100000baseKR2 Full''), (0x400000000000000, ''100000baseSR2 Full''),
     (0x800000000000000, ''100000baseCR2 Full''), (0x1000000000000000, ''100000baseLR2_ER2_FR2 Full''),
     (0x2000000000000000, ''100000baseDR2 Full''), (0x4000000000000000, ''200000baseKR4 Full'')]"

definition ParseLinkModeCode :: "64 word \<Rightarrow> string list" where
  "ParseLinkModeCode linkMode = sort (map snd (filter (\<lambda>(k, v). and linkMode k \<noteq> 0) EthToolLinkModeMap))"

definition ParseDuplexMode :: "64 word \<Rightarrow> string" where
  "ParseDuplexMode duplex = (if duplex = 0 then ''Half'' else if duplex = 1 then ''Full'' else ''Unknown'')"

definition ParseLinkState :: "32 word \<Rightarrow> bool" where
  "ParseLinkState linkstate = (if linkstate = 0 then False else if linkstate = 1 then True else False)"

definition ParseFeatureList :: "(string \<times> bool) list \<Rightarrow> string list" where
  "ParseFeatureList features = sort (map fst (filter snd features))"

section \<open>State and environment\<close>

datatype ConfigMode = CONFIG_MODE_STATIC | CONFIG_MODE_DYNAMIC

datatype BmInfo_BmType = BmInfo_NONE | BmInfo_IPMI

record IPAddress =
  ip_IPAddress :: string
  ip_NetPrefBits :: int
  ip_ConfigMode :: ConfigMode

record EthtoolValues =
  et_LinkState :: bool
  et_SupportedLinkMode :: "string list"
  et_AdvertisingLinkMode :: "string list"
  et_CurrentSpeed :: "64 word"
  et_CurrentDuplex :: string
  et_Features :: "string list"

record Network =
  nw_Name :: string
  nw_PciID :: string
  nw_Mac :: string
  nw_LinkState :: bool
  nw_CurrentSpeed :: "64 word"
  nw_CurrentDuplex :: string
  nw_SupportedLinkMode :: "string list"
  nw_AdvertisingLinkMode :: "string list"
  nw_Features :: "string list"
  nw_SriovEnabled :: bool
  nw_SriovNumVfs :: "32 word"
  nw_SriovVfsTotal :: "32 word"
  nw_PeerName :: string
  nw_PeerDescription :: string
  nw_PeerMac :: string
  nw_PeerManagementIP :: string
  nw_PeerPort :: string
  nw_IPAddresses :: "IPAddress list"
  nw_Mtu :: "32 word"
  nw_BmcNet :: bool

record net_env = host_env +
  os_ReadDir_names :: "nat \<Rightarrow> string \<Rightarrow> string + string list"
  NewEthtool :: "nat \<Rightarrow> string option"
  eth_LinkState :: "nat \<Rightarrow> string \<Rightarrow> string + 32 word"
  eth_Features :: "nat \<Rightarrow> string \<Rightarrow> string + (string \<times> bool) list"
  eth_CmdGetMapped :: "nat \<Rightarrow> string \<Rightarrow> string + (string \<Rightarrow> 64 word)"

definition CollectEthtoolData :: "'e net_env_scheme \<Rightarrow> string \<Rightarrow> ('h host_scheme, EthtoolValues) action" where
  "CollectEthtoolData env nicName =
     andthen (tick env 0 (NewEthtool env)) (\<lambda>ethHandleErr. case ethHandleErr of Some e \<Rightarrow> fail e | None \<Rightarrow>
     andthen (andthen (tick env 0 (\<lambda>n. eth_LinkState env n nicName)) lift_result) (\<lambda>linkstate.
     andthen (andthen (tick env 0 (\<lambda>n. eth_Features env n nicName)) lift_result) (\<lambda>features.
     andthen (andthen (tick env 0 (\<lambda>n. eth_CmdGetMapped env n nicName)) lift_result) (\<lambda>cmd.
     ret \<lparr>et_LinkState = ParseLinkState linkstate,
          et_SupportedLinkMode = ParseLinkModeCode (cmd ''Supported''),
          et_AdvertisingLinkMode = ParseLinkModeCode (cmd ''Advertising''),
          et_CurrentSpeed = (if ParseLinkState linkstate then cmd ''Speed'' else 0),
          et_CurrentDuplex = (if ParseLinkState linkstate then ParseDuplexMode (cmd ''Duplex'') else ''not applicable''),
          et_Features = ParseFeatureList features\<rparr>))))"

section \<open>Parsers\<close>

definition parseIpmiInfo :: "string \<Rightarrow> string option" where
  "parseIpmiInfo ipmiData = Option.bind (nth_of (SplitAfter ipmiData ''IP Address'') 2) (\<lambda>d.
     map_option (\<lambda>a. hd (Split a nl)) (nth_of (SplitAfter d '': '') 1))"

definition ParseInt32 :: "string \<Rightarrow> int option" where
  "ParseInt32 s = (case ParseInt64 s of None \<Rightarrow> None | Some v \<Rightarrow> if - (2 ^ 31) \<le> v \<and> v < 2 ^ 31 then Some v else None)"

text \<open>One address; \<open>None\<close> is the panic, \<open>Inl\<close> the error of a prefix that is no number.\<close>

definition ip_address :: "string \<Rightarrow> (string + IPAddress) option" where
  "ip_address netDetails = (let ipAddress = Split netDetails (CHR ''/'') in
     map_option (\<lambda>p. case ParseInt32 (hd (Split p (CHR '' ''))) of
         None \<Rightarrow> Inl ''parsing network prefix error''
       | Some bits \<Rightarrow> Inr \<lparr>ip_IPAddress = hd ipAddress, ip_NetPrefBits = bits,
           ip_ConfigMode = (if Contains netDetails ''dynamic'' then CONFIG_MODE_DYNAMIC else CONFIG_MODE_STATIC)\<rparr>)
       (nth_of ipAddress 1))"

fun ip_addresses :: "string list \<Rightarrow> (string + IPAddress list) option" where
  "ip_addresses [] = Some (Inr [])"
| "ip_addresses (d # ds) = (case ip_address d of None \<Rightarrow> None | Some (Inl e) \<Rightarrow> Some (Inl e)
     | Some (Inr a) \<Rightarrow> map_option (map_sum id (Cons a)) (ip_addresses ds))"

definition parseIPInfo :: "string \<Rightarrow> string \<Rightarrow> (string + IPAddress list \<times> bool \<times> 32 word) option" where
  "parseIPInfo ipInfo bmcAddr = Option.bind (nth_of (SplitSep ipInfo ''mtu '') 1) (\<lambda>m.
     case ParseUint32 (hd (Split m (CHR '' ''))) of None \<Rightarrow> Some (Inl ''parsing mtu error'')
     | Some mtu \<Rightarrow> map_option (map_sum id (\<lambda>as. (as, list_ex (\<lambda>a. bmcAddr = ip_IPAddress a) as, mtu)))
         (ip_addresses (drop 1 (SplitSep ipInfo ''inet ''))))"

section \<open>The files of an interface\<close>

definition NETROOT :: string where "NETROOT = filepath_Join (filepath_Join ''/sys'' ''class'') ''net''"

definition os_Readlink :: "path \<Rightarrow> string \<Rightarrow> (disk, string) action" where
  "os_Readlink dir p = (\<lambda>d. case resolve False False 40 (tree d) [] (components dir p) of
     Inl _ \<Rightarrow> (Err (''readlink '' @ p), d)
   | Inr q \<Rightarrow> (case node_at d q of Some (Link t) \<Rightarrow> (Ok t, d) | _ \<Rightarrow> (Err (''readlink '' @ p @ '': invalid argument''), d)))"

definition sys_path :: "string list \<Rightarrow> string" where
  "sys_path ps = fold (\<lambda>p acc. filepath_Join acc p) ps NETROOT"

definition checkIfSriovEnabled :: "'e host_env_scheme \<Rightarrow> string \<Rightarrow> ('h host_scheme, bool) action" where
  "checkIfSriovEnabled env nicName =
     asks (\<lambda>w. \<not> not_exist (host_cwd env) (sys_path [nicName, ''device'', ''sriov_numvfs'']) (disk w))"

definition read_count :: "'e host_env_scheme \<Rightarrow> string \<Rightarrow> ('h host_scheme, 32 word option) action" where
  "read_count env p = andthen (attempt (on_disk (ReadFileNoLinks (host_cwd env) p))) (\<lambda>r.
     ret (case r of Inl _ \<Rightarrow> None | Inr c \<Rightarrow> ParseUint32 (TrimSpace c)))"

definition getSriovVfCount :: "'e host_env_scheme \<Rightarrow> string \<Rightarrow> ('h host_scheme, 32 word \<times> 32 word) action" where
  "getSriovVfCount env nicName =
     andthen (read_count env (sys_path [nicName, ''device'', ''sriov_numvfs''])) (\<lambda>numVfs. case numVfs of None \<Rightarrow> ret (0, 0)
     | Some n \<Rightarrow> andthen (read_count env (sys_path [nicName, ''device'', ''sriov_totalvfs''])) (\<lambda>totalVfs.
         ret (n, case totalVfs of None \<Rightarrow> 0 | Some t \<Rightarrow> t)))"

definition getNICPhysicalAddress :: "'e host_env_scheme \<Rightarrow> string \<Rightarrow> ('h host_scheme, string) action" where
  "getNICPhysicalAddress env nicName = andthen (attempt (on_disk (ReadFileNoLinks (host_cwd env) (sys_path [nicName, ''address''])))) (\<lambda>r.
     ret (case r of Inl _ \<Rightarrow> [] | Inr contents \<Rightarrow> TrimSpace contents))"

definition getNICPCIAddress :: "'e host_env_scheme \<Rightarrow> string \<Rightarrow> ('h host_scheme, string) action" where
  "getNICPCIAddress env nicName = andthen (attempt (
     andthen (on_disk (os_Readlink (host_cwd env) (sys_path [nicName]))) (\<lambda>dest.
     let netDev = filepath_Clean (filepath_Join NETROOT dest) in
     andthen (on_disk (os_Readlink (host_cwd env) (filepath_Join netDev ''device''))) (\<lambda>dest.
     let devPath = filepath_Clean (filepath_Join netDev dest) in
     andthen (on_disk (os_Readlink (host_cwd env) (filepath_Join devPath ''subsystem''))) (\<lambda>dest.
     ret (if \<not> HasSuffix dest ''/bus/pci'' then [] else filepath_Base devPath))))))
     (\<lambda>r. ret (case r of Inl _ \<Rightarrow> [] | Inr a \<Rightarrow> a))"

section \<open>The list of interfaces\<close>

definition read_nic :: "'e net_env_scheme \<Rightarrow> string \<Rightarrow> string \<Rightarrow> ('h host_scheme, Network option) action" where
  "read_nic env bmcAddr filename =
     andthen (getNICPCIAddress env filename) (\<lambda>pci.
     andthen (getNICPhysicalAddress env filename) (\<lambda>mac.
     andthen (attempt (ReadFromCommand env [''ip'', ''addr'', ''show'', filename])) (\<lambda>r. case r of Inl _ \<Rightarrow> ret None
     | Inr info \<Rightarrow> andthen (index_panic (parseIPInfo info bmcAddr)) (\<lambda>p. case p of Inl _ \<Rightarrow> ret None
     | Inr (ipAddresses, bmcNet, mtu) \<Rightarrow>
         andthen (checkIfSriovEnabled env filename) (\<lambda>sriov.
         andthen (if sriov then getSriovVfCount env filename else ret (0, 0)) (\<lambda>(numVfs, vfsTotal).
         andthen (attempt (CollectEthtoolData env filename)) (\<lambda>e. case e of Inl _ \<Rightarrow> ret None
         | Inr ethValues \<Rightarrow> ret (Some \<lparr>nw_Name = filename, nw_PciID = pci, nw_Mac = mac,
             nw_LinkState = et_LinkState ethValues, nw_CurrentSpeed = et_CurrentSpeed ethValues,
             nw_CurrentDuplex = et_CurrentDuplex ethValues, nw_SupportedLinkMode = et_SupportedLinkMode ethValues,
             nw_AdvertisingLinkMode = et_AdvertisingLinkMode ethValues, nw_Features = et_Features ethValues,
             nw_SriovEnabled = sriov, nw_SriovNumVfs = numVfs, nw_SriovVfsTotal = vfsTotal, nw_PeerName = [],
             nw_PeerDescription = [], nw_PeerMac = [], nw_PeerManagementIP = [], nw_PeerPort = [],
             nw_IPAddresses = ipAddresses, nw_Mtu = mtu, nw_BmcNet = bmcNet\<rparr>))))))))"

definition nic_of :: "'e net_env_scheme \<Rightarrow> string \<Rightarrow> string \<Rightarrow> ('h host_scheme, Network option) action" where
  "nic_of env bmcAddr filename =
     (if filename = ''lo'' \<or> filename = ''bonding_masters'' then ret None
      else andthen (attempt (on_disk (os_Readlink (host_cwd env) (sys_path [filename])))) (\<lambda>r. case r of Inl _ \<Rightarrow> ret None
      | Inr dest \<Rightarrow> if Contains dest ''devices/virtual/net'' then ret None else read_nic env bmcAddr filename))"

fun nic_list :: "'e net_env_scheme \<Rightarrow> string \<Rightarrow> string list \<Rightarrow> ('h host_scheme, Network list) action" where
  "nic_list env bmcAddr [] = ret []"
| "nic_list env bmcAddr (f # fs) = andthen (nic_of env bmcAddr f) (\<lambda>n.
     andthen (nic_list env bmcAddr fs) (\<lambda>ns. ret (case n of None \<Rightarrow> ns | Some nic \<Rightarrow> nic # ns)))"

definition bmc_info :: "'e net_env_scheme \<Rightarrow> ('h host_scheme, string \<times> BmInfo_BmType) action" where
  "bmc_info env = andthen (asks (\<lambda>w. not_exist (host_cwd env) ''/dev/ipmi0'' (disk w))) (\<lambda>absent.
     if absent then ret ([], BmInfo_NONE)
     else andthen (attempt (ReadFromCommand env [''sudo'', ''ipmitool'', ''lan'', ''print'', ''1''])) (\<lambda>r. case r of
       Inl _ \<Rightarrow> ret ([], BmInfo_NONE)
     | Inr bmcData \<Rightarrow> andthen (index_panic (parseIpmiInfo bmcData)) (\<lambda>addr. ret (addr, BmInfo_IPMI))))"

definition GetNICList :: "'e net_env_scheme \<Rightarrow> ('h host_scheme, Network list \<times> BmInfo_BmType \<times> string) action" where
  "GetNICList env = andthen (tick env 0 (\<lambda>n. os_ReadDir_names env n ''/sys/class/net'')) (\<lambda>r. case r of
     Inl e \<Rightarrow> fail e
   | Inr files \<Rightarrow> andthen (bmc_info env) (\<lambda>(bmcAddr, bmType).
       andthen (nic_list env bmcAddr files) (\<lambda>nicList. ret (nicList, bmType, bmcAddr))))"

end
