(* ===== verification/Hda_Agent.thy ===== *)
theory Hda_Agent
  imports Hda_Network
begin

text \<open>
  The Hardware Discovery Agent, third part: the description of the node that is sent
  (\<^verbatim>\<open>internal/comms/comms.go\<close>), the configuration (\<^verbatim>\<open>internal/config/config.go\<close>) and the loops of
  \<^verbatim>\<open>cmd/hdagent/hdagent.go\<close>.

  The state adds to the host the connections to the host manager, the requests that were sent and
  the time of the last successful update. A connection is the number of connections made before
  it; the library refuses calls on a connection that was closed. The host manager and the decoders
  of JSON and YAML are parameters. Pointers that are never nil are the values they point to.
\<close>

section \<open>The message\<close>

record SystemGPU =
  pg_PciId :: string
  pg_Product :: string
  pg_Vendor :: string
  pg_Name :: string
  pg_Description :: string
  pg_Features :: "string list"

record SystemDisk =
  pd_SerialNumber :: string
  pd_Name :: string
  pd_Vendor :: string
  pd_Model :: string
  pd_Size :: "64 word"
  pd_Wwid :: string

record pb_IPAddress =
  pi_IpAddress :: string
  pi_NetworkPrefixBits :: int
  pi_ConfigMode :: ConfigMode

record SystemNetwork =
  pn_Name :: string
  pn_PciId :: string
  pn_Mac :: string
  pn_LinkState :: bool
  pn_CurrentSpeed :: "64 word"
  pn_CurrentDuplex :: string
  pn_SupportedLinkMode :: "string list"
  pn_AdvertisingLinkMode :: "string list"
  pn_Features :: "string list"
  pn_Sriovenabled :: bool
  pn_Sriovnumvfs :: "32 word"
  pn_SriovVfsTotal :: "32 word"
  pn_PeerName :: string
  pn_PeerDescription :: string
  pn_PeerMac :: string
  pn_PeerMgmtIp :: string
  pn_PeerPort :: string
  pn_IpAddresses :: "pb_IPAddress list"
  pn_Mtu :: "32 word"
  pn_BmcNet :: bool

record SystemUSB =
  pu_Class :: string
  pu_Idvendor :: string
  pu_Idproduct :: string
  pu_Bus :: "32 word"
  pu_Addr :: "32 word"
  pu_Description :: string
  pu_Serial :: string
  pu_Interfaces :: "string list"

record pb_CoreGroup =
  pc_CoreType :: string
  pc_CoreList :: "32 word list"

record pb_Socket =
  ps_SocketId :: "32 word"
  ps_CoreGroups :: "pb_CoreGroup list"

record SystemCPU =
  sc_Arch :: string
  sc_Vendor :: string
  sc_Model :: string
  sc_Sockets :: "32 word"
  sc_Cores :: "32 word"
  sc_Threads :: "32 word"
  sc_Features :: "string list"
  sc_CpuTopology :: "pb_Socket list option"

record pb_OsKernel =
  pk_Version :: string
  pk_Config :: "(string \<times> string) list"

record pb_OsRelease =
  pr_Id :: string
  pr_Version :: string
  pr_Metadata :: "(string \<times> string) list"

record pb_BiosInfo =
  pb_Version :: string
  pb_ReleaseDate :: string
  pb_Vendor :: string

record SystemInfo =
  si_SerialNum :: string
  si_ProductName :: string
  si_Cpu :: SystemCPU
  si_Memory :: "64 word"
  si_Storage :: "SystemDisk list"
  si_Gpu :: "SystemGPU list"
  si_Network :: "SystemNetwork list"
  si_Usb :: "SystemUSB list"
  si_Kernel :: pb_OsKernel
  si_Release :: pb_OsRelease
  si_BmType :: BmInfo_BmType
  si_BmIp :: string
  si_BiosInfo :: pb_BiosInfo

definition pb_gpu :: "Gpu \<Rightarrow> SystemGPU" where
  "pb_gpu g = \<lparr>pg_PciId = gpu_PciID g, pg_Product = gpu_Product g, pg_Vendor = gpu_Vendor g, pg_Name = gpu_Name g,
     pg_Description = gpu_Description g, pg_Features = gpu_Features g\<rparr>"

definition pb_disk :: "Disk \<Rightarrow> SystemDisk" where
  "pb_disk d = \<lparr>pd_SerialNumber = dk_SerialNum d, pd_Name = dk_Name d, pd_Vendor = dk_Vendor d, pd_Model = dk_Model d,
     pd_Size = dk_Size d, pd_Wwid = dk_Wwid d\<rparr>"

definition pb_address :: "IPAddress \<Rightarrow> pb_IPAddress" where
  "pb_address a = \<lparr>pi_IpAddress = ip_IPAddress a, pi_NetworkPrefixBits = ip_NetPrefBits a, pi_ConfigMode = ip_ConfigMode a\<rparr>"

definition pb_network :: "Network \<Rightarrow> SystemNetwork" where
  "pb_network n = \<lparr>pn_Name = nw_Name n, pn_PciId = nw_PciID n, pn_Mac = nw_Mac n, pn_LinkState = nw_LinkState n,
     pn_CurrentSpeed = nw_CurrentSpeed n, pn_CurrentDuplex = nw_CurrentDuplex n,
     pn_SupportedLinkMode = nw_SupportedLinkMode n, pn_AdvertisingLinkMode = nw_AdvertisingLinkMode n,
     pn_Features = nw_Features n, pn_Sriovenabled = nw_SriovEnabled n, pn_Sriovnumvfs = nw_SriovNumVfs n,
     pn_SriovVfsTotal = nw_SriovVfsTotal n, pn_PeerName = nw_PeerName n, pn_PeerDescription = nw_PeerDescription n,
     pn_PeerMac = nw_PeerMac n, pn_PeerMgmtIp = nw_PeerManagementIP n, pn_PeerPort = nw_PeerPort n,
     pn_IpAddresses = map pb_address (nw_IPAddresses n), pn_Mtu = nw_Mtu n, pn_BmcNet = nw_BmcNet n\<rparr>"

definition pb_metadata :: "OsMetadata \<Rightarrow> string \<times> string" where
  "pb_metadata m = (om_Key m, om_Value m)"

definition pb_kernel :: "OsKern option \<Rightarrow> pb_OsKernel" where
  "pb_kernel k = (case k of None \<Rightarrow> \<lparr>pk_Version = [], pk_Config = []\<rparr>
     | Some k \<Rightarrow> \<lparr>pk_Version = ok_Version k, pk_Config = map pb_metadata (ok_Config k)\<rparr>)"

definition pb_release :: "OsRel option \<Rightarrow> pb_OsRelease" where
  "pb_release r = (case r of None \<Rightarrow> \<lparr>pr_Id = [], pr_Version = [], pr_Metadata = []\<rparr>
     | Some r \<Rightarrow> \<lparr>pr_Id = or_ID r, pr_Version = or_Version r, pr_Metadata = map pb_metadata (or_Metadata r)\<rparr>)"

definition pb_usb :: "Usb \<Rightarrow> SystemUSB" where
  "pb_usb u = \<lparr>pu_Class = usb_Class u, pu_Idvendor = usb_VendorID u, pu_Idproduct = usb_ProductID u, pu_Bus = usb_Bus u,
     pu_Addr = usb_Address u, pu_Description = usb_Description u, pu_Serial = usb_Serial u, pu_Interfaces = usb_Interfaces u\<rparr>"

definition pb_socket :: "Socket \<Rightarrow> pb_Socket" where
  "pb_socket s = \<lparr>ps_SocketId = so_SocketID s,
     ps_CoreGroups = map (\<lambda>g. \<lparr>pc_CoreType = cg_Type g, pc_CoreList = cg_List g\<rparr>) (so_CoreGroups s)\<rparr>"

definition pb_cpu :: "CPU \<Rightarrow> SystemCPU" where
  "pb_cpu c = \<lparr>sc_Arch = cpu_Arch c, sc_Vendor = cpu_Vendor c, sc_Model = cpu_Model c, sc_Sockets = cpu_Sockets c,
     sc_Cores = cpu_Cores c, sc_Threads = cpu_Threads c, sc_Features = cpu_Features c,
     sc_CpuTopology = map_option (map pb_socket) (cpu_Topology c)\<rparr>"

definition parseSystemInfo :: "string \<Rightarrow> string \<Rightarrow> string \<Rightarrow> Os \<Rightarrow> Bios \<Rightarrow> CPU \<Rightarrow> Disk list \<Rightarrow> Gpu list \<Rightarrow> 64 word \<Rightarrow>
    Network list \<Rightarrow> BmInfo_BmType \<Rightarrow> Usb list \<Rightarrow> SystemInfo" where
  "parseSystemInfo serialNumber productName bmcAddr osInfo biosInfo cpu storage gpu mem networks bmType usbInfo =
     \<lparr>si_SerialNum = serialNumber, si_ProductName = productName, si_Cpu = pb_cpu cpu, si_Memory = mem,
      si_Storage = map pb_disk storage, si_Gpu = map pb_gpu gpu, si_Network = map pb_network networks,
      si_Usb = map pb_usb usbInfo, si_Kernel = pb_kernel (os_Kernel osInfo), si_Release = pb_release (os_Release osInfo),
      si_BmType = bmType, si_BmIp = bmcAddr,
      si_BiosInfo = \<lparr>pb_Version = bi_Version biosInfo, pb_ReleaseDate = bi_RelDate biosInfo, pb_Vendor = bi_Vendor biosInfo\<rparr>\<rparr>"

section \<open>State, environment and configuration\<close>

record hda = host +
  GrpcConn :: "nat option"
  SouthboundClient :: "nat option"
  closed_conns :: "nat list"
  dialed :: nat
  hostmgr_sent :: "(string \<times> SystemInfo) list"
  hda_lastUpdate :: int

record HdaConfig =
  hc_Version :: string
  hc_LogLevel :: string
  hc_ServiceURL :: string
  hc_StatusEndpoint :: string
  hc_UpdateInterval :: int
  hc_AccessTokenPath :: string

record hda_env = net_env +
  json_lsblk :: "string \<Rightarrow> string + lsblk_disk list"
  json_lsmem :: "string \<Rightarrow> string + (int \<times> string) list"
  yaml_hda :: "string \<Rightarrow> string + HdaConfig"
  hostmgr_update :: "nat \<Rightarrow> string \<Rightarrow> string \<Rightarrow> SystemInfo \<Rightarrow> string option"
  conn_Close :: "nat \<Rightarrow> string option"

definition hda_defaults :: "HdaConfig \<Rightarrow> HdaConfig" where
  "hda_defaults config0 =
     (let config1 = (if hc_Version config0 = [] then config0\<lparr>hc_Version := ''v0.2.0''\<rparr> else config0);
          config2 = (if hc_LogLevel config1 = [] then config1\<lparr>hc_LogLevel := ''info''\<rparr> else config1)
      in if hc_UpdateInterval config2 \<le> 0 then config2\<lparr>hc_UpdateInterval := 30 * time_Second\<rparr> else config2)"

definition hda_New :: "'e hda_env_scheme \<Rightarrow> string \<Rightarrow> ('h host_scheme, HdaConfig) action" where
  "hda_New env configFile =
     andthen (on_disk (ReadFileNoLinks (host_cwd env) configFile)) (\<lambda>content.
     if \<not> Contains content ''onboarding'' then fail ''incorrect config file format provided''
     else andthen (lift_result (yaml_hda env content)) (\<lambda>decoded.
     let config = hda_defaults decoded in
     if hc_LogLevel config \<noteq> ''info'' \<and> hc_LogLevel config \<noteq> ''debug'' \<and> hc_LogLevel config \<noteq> ''warning'' \<and> hc_LogLevel config \<noteq> ''error''
     then fail ''unsupported logLevel value provided by config file''
     else if hc_ServiceURL config = [] then fail ''URL for Edge Infrastructure Manager not provided by config file''
     else if hc_AccessTokenPath config = [] then fail ''JWT not provided by config file''
     else ret config))"

section \<open>Gathering\<close>

text \<open>An error is logged; the value that comes with it is used.\<close>

definition or_default :: "'a \<Rightarrow> ('s, 'a) action \<Rightarrow> ('s, 'a) action" where
  "or_default d m = andthen (attempt m) (\<lambda>r. ret (case r of Inl _ \<Rightarrow> d | Inr x \<Rightarrow> x))"

definition GenerateSystemInfoRequest :: "'e hda_env_scheme \<Rightarrow> ('h host_scheme, SystemInfo) action" where
  "GenerateSystemInfoRequest env =
     andthen (or_default [] (GetDiskList env (json_lsblk env))) (\<lambda>storage.
     andthen (or_default [] (hda_GetSerialNumber env)) (\<lambda>sn.
     andthen (or_default [] (GetProductName env)) (\<lambda>productName.
     andthen (or_default \<lparr>os_Kernel = None, os_Release = None\<rparr> (GetOsInfo env)) (\<lambda>osInfo.
     andthen (or_default \<lparr>bi_Version = [], bi_RelDate = [], bi_Vendor = []\<rparr> (GetBiosInfo env)) (\<lambda>biosInfo.
     andthen (GetCPUList env) (\<lambda>(_, cpu).
     andthen (or_default [] (GetGpuList env)) (\<lambda>gpu.
     andthen (or_default 0 (GetMemory env (json_lsmem env))) (\<lambda>mem.
     andthen (or_default ([], BmInfo_NONE, []) (GetNICList env)) (\<lambda>(networkList, bmType, bmcAddr).
     andthen (or_default [] (GetUsbList env)) (\<lambda>usbList.
     ret (parseSystemInfo sn productName bmcAddr osInfo biosInfo cpu storage gpu mem networkList bmType usbList)))))))))))"

section \<open>The client of the host manager\<close>

definition hda_Connect :: "'e hda_env_scheme \<Rightarrow> string \<Rightarrow> (hda, unit) action" where
  "hda_Connect env serverAddr = andthen (tick env 0 (\<lambda>n. dial_error env n serverAddr)) (\<lambda>e. case e of
     Some m \<Rightarrow> andthen (modify (\<lambda>w. w\<lparr>GrpcConn := None\<rparr>)) (\<lambda>_. fail m)
   | None \<Rightarrow> modify (\<lambda>w. w\<lparr>GrpcConn := Some (dialed w), SouthboundClient := Some (dialed w), dialed := Suc (dialed w)\<rparr>))"

definition ConnectToEdgeInfrastructureManager :: "'e hda_env_scheme \<Rightarrow> string \<Rightarrow> (hda, unit) action" where
  "ConnectToEdgeInfrastructureManager env serverAddr = hda_Connect env serverAddr"

definition hostmgr_rpc :: "'e hda_env_scheme \<Rightarrow> string \<Rightarrow> string \<Rightarrow> SystemInfo \<Rightarrow> (hda, unit) action" where
  "hostmgr_rpc env ctx guid systemInfo = andthen (asks (\<lambda>w. (SouthboundClient w, closed_conns w))) (\<lambda>(client, closed). case client of
     None \<Rightarrow> crash ''invalid memory address or nil pointer dereference''
   | Some c \<Rightarrow> if c \<in> set closed then fail ''grpc: the client connection is closing''
       else andthen (modify (\<lambda>w. w\<lparr>hostmgr_sent := hostmgr_sent w @ [(guid, systemInfo)]\<rparr>)) (\<lambda>_.
         andthen (tick env 0 (\<lambda>n. hostmgr_update env n ctx guid systemInfo)) (\<lambda>e. case e of None \<Rightarrow> ret () | Some m \<Rightarrow> fail m)))"

definition close_conn :: "'e hda_env_scheme \<Rightarrow> (hda, unit) action" where
  "close_conn env = andthen (asks GrpcConn) (\<lambda>conn. case conn of
     None \<Rightarrow> crash ''invalid memory address or nil pointer dereference''
   | Some c \<Rightarrow> andthen (modify (\<lambda>w. w\<lparr>closed_conns := c # closed_conns w\<rparr>)) (\<lambda>_.
       andthen (tick env 0 (conn_Close env)) (\<lambda>e. case e of None \<Rightarrow> ret () | Some m \<Rightarrow> fail m)))"

definition NUM_RETRIES_hda :: nat where "NUM_RETRIES_hda = 3"

definition UpdateHostSystemInfoByGUID :: "'e hda_env_scheme \<Rightarrow> string \<Rightarrow> string \<Rightarrow> string \<Rightarrow> SystemInfo \<Rightarrow> (hda, unit) action" where
  "UpdateHostSystemInfoByGUID env serverAddr ctx guid systemInfo =
     andthen (asks interactions) (\<lambda>n.
     andthen (attempt (retry (min NUM_RETRIES_hda (attempts_left env n)) (hostmgr_rpc env ctx guid systemInfo))) (\<lambda>r. case r of
       Inr _ \<Rightarrow> ret ()
     | Inl err \<Rightarrow> andthen (close_conn env) (\<lambda>_. andthen (hda_Connect env serverAddr) (\<lambda>_. fail err))))"

section \<open>The loops\<close>

definition AGENT_NAME_hda :: string where "AGENT_NAME_hda = ''hardware-discovery-agent''"

definition MAX_RETRIES_hda :: nat where "MAX_RETRIES_hda = 3"

definition sendStatusUpdate :: "'e hda_env_scheme \<Rightarrow> HdaConfig \<Rightarrow> string \<Rightarrow> (hda, unit) action" where
  "sendStatusUpdate env cfg guid =
     andthen (GenerateSystemInfoRequest env) (\<lambda>updateDeviceRequest.
     andthen (GetAuthContext env (hc_AccessTokenPath cfg)) (\<lambda>ctx.
     UpdateHostSystemInfoByGUID env (hc_ServiceURL cfg) ctx guid updateDeviceRequest))"

definition hda_updateWithRetry :: "'e hda_env_scheme \<Rightarrow> (hda, unit) action \<Rightarrow> (hda, unit) action" where
  "hda_updateWithRetry env op =
     andthen (asks interactions) (\<lambda>n.
     andthen (attempt (retry (min MAX_RETRIES_hda (attempts_left env n)) op)) (\<lambda>r. case r of
       Inl _ \<Rightarrow> ret ()
     | Inr _ \<Rightarrow> andthen (time_Now env) (\<lambda>now. modify (\<lambda>w. w\<lparr>hda_lastUpdate := time_Unix now\<rparr>))))"

definition update_cycle :: "'e hda_env_scheme \<Rightarrow> HdaConfig \<Rightarrow> string \<Rightarrow> (hda, unit) action" where
  "update_cycle env cfg guid = hda_updateWithRetry env (sendStatusUpdate env cfg guid)"

text \<open>The message for a line of \<^verbatim>\<open>udevadm monitor\<close>: \<open>Some None\<close> when the line is of no interest.\<close>

definition udev_message :: "string \<Rightarrow> string option option" where
  "udev_message line = (if Contains line ''devices'' then
       (case Fields line of _ # _ # event # name # _ \<Rightarrow> Some (Some (''hardware '' @ event @ '' detected, name='' @ name)) | _ \<Rightarrow> None)
     else Some None)"

definition udev_line :: "'e hda_env_scheme \<Rightarrow> HdaConfig \<Rightarrow> string \<Rightarrow> string \<Rightarrow> (hda, unit) action" where
  "udev_line env cfg guid line = andthen (index_panic (udev_message line)) (\<lambda>m. case m of
     None \<Rightarrow> ret () | Some _ \<Rightarrow> update_cycle env cfg guid)"

definition startmonitoringUdev :: "'e hda_env_scheme \<Rightarrow> HdaConfig \<Rightarrow> string \<Rightarrow> (hda, unit) action" where
  "startmonitoringUdev env cfg guid =
     andthen (run_process env [''udevadm'', ''monitor'', ''--udev'', ''--subsystem-match=block'', ''--subsystem-match=net''] (os_Environ env)) (\<lambda>res.
     andthen (foreach (udev_line env cfg guid) (scanner_lines (Stdout res))) (\<lambda>_.
     case exit_error res of None \<Rightarrow> ret () | Some e \<Rightarrow> fail (''finished waiting for command: '' @ e)))"

definition hda_initStatusClientAndTicker :: "'e hda_env_scheme \<Rightarrow> string \<Rightarrow> (hda, int) action" where
  "hda_initStatusClientAndTicker env statusServer = status_client_and_interval env AGENT_NAME_hda statusServer"

definition hda_status_cycle :: "'e hda_env_scheme \<Rightarrow> HdaConfig \<Rightarrow> int \<Rightarrow> (hda, unit) action" where
  "hda_status_cycle env cfg statusInterval =
     (let compare = max (statusInterval div time_Second) (hc_UpdateInterval cfg div time_Second) in
      andthen (asks hda_lastUpdate) (\<lambda>lastCheck.
      andthen (time_Now env) (\<lambda>now.
      if time_Unix now - lastCheck \<le> 2 * compare
      then ignore (SendStatusReady env AGENT_NAME_hda) else ignore (SendStatusNotReady env AGENT_NAME_hda))))"

text \<open>The start up to the loops: every error ends the program with status 1.\<close>

definition or_exit :: "('s, 'a) action \<Rightarrow> ('s, 'a) action" where
  "or_exit m = andthen (attempt m) (\<lambda>r. case r of Inl _ \<Rightarrow> crash ''exit status 1'' | Inr x \<Rightarrow> ret x)"

definition hda_start :: "'e hda_env_scheme \<Rightarrow> string \<Rightarrow> (hda, HdaConfig \<times> string) action" where
  "hda_start env configPath =
     (if configPath = [] then crash ''exit status 1''
      else andthen (or_exit (hda_New env configPath)) (\<lambda>cfg.
        andthen (or_exit (GetAuthConfig env None)) (\<lambda>_.
        andthen (or_exit (GetSystemUUID env)) (\<lambda>guid.
        andthen (or_exit (ConnectToEdgeInfrastructureManager env (hc_ServiceURL cfg))) (\<lambda>_.
        ret (cfg, guid))))))"

end
