(* ===== verification/Hda_Laws.thy ===== *)
theory Hda_Laws
  imports Hda_Agent
begin

text \<open>
  The laws of the Hardware Discovery Agent: the topology that is made of a listing of the
  processors, the addresses of an interface, the classes of a USB device, the dates of the BIOS,
  and the connection and the number of requests of one update.
\<close>

section \<open>Processors\<close>

text \<open>A processor of a listing: its number, its socket and its frequency, if it is known.\<close>

type_synonym listed_core = "nat \<times> nat \<times> nat option"

definition mhz_text :: "nat option \<Rightarrow> string" where
  "mhz_text f = (case f of None \<Rightarrow> ''-'' | Some n \<Rightarrow> show_nat n @ ''.0000'')"

definition core_line :: "nat \<Rightarrow> listed_core \<Rightarrow> string" where
  "core_line bl c = replicate bl (CHR '' '') @ show_nat (fst c) @ replicate (Suc bl) (CHR '' '') @ show_nat (fst (snd c)) @
     replicate (Suc bl) (CHR '' '') @ mhz_text (snd (snd c))"

definition core_listing :: "nat \<Rightarrow> listed_core list \<Rightarrow> string" where
  "core_listing bl cs = ''CPU SOCKET MAXMHZ'' @ [nl] @ concat (map (\<lambda>l. l @ [nl]) (map (core_line bl) cs))"

definition efficient :: "nat \<Rightarrow> listed_core \<Rightarrow> bool" where
  "efficient maxMhz c = (case snd (snd c) of None \<Rightarrow> False | Some f \<Rightarrow> 4 * f \<le> 3 * maxMhz)"

definition topology :: "listed_core list \<Rightarrow> nat \<Rightarrow> nat \<Rightarrow> Socket list" where
  "topology cs maxMhz sockets = map (\<lambda>s. let on = filter (\<lambda>c. fst (snd c) = s) cs; e = filter (efficient maxMhz) on in
     \<lparr>so_SocketID = of_nat s,
      so_CoreGroups = \<lparr>cg_Type = ''P-Core'', cg_List = map (of_nat \<circ> fst) (filter (\<lambda>c. \<not> efficient maxMhz c) on)\<rparr> #
        (if e \<noteq> [] then [\<lparr>cg_Type = ''E-Core'', cg_List = map (of_nat \<circ> fst) e\<rparr>] else [])\<rparr>) [0..<sockets]"

definition read_core :: "listed_core \<Rightarrow> cores" where
  "read_core c = \<lparr>co_CPU = show_nat (fst c), co_Socket = show_nat (fst (snd c)), co_MaxMhz = mhz_text (snd (snd c))\<rparr>"

definition listable :: "nat \<Rightarrow> listed_core \<Rightarrow> bool" where
  "listable sockets c = (fst c < 2 ^ 32 \<and> fst (snd c) < sockets \<and> (\<forall>f. snd (snd c) = Some f \<longrightarrow> f < 2 ^ 62))"

lemma mhz_text_chars: "c \<in> set (mhz_text f) \<Longrightarrow> \<not> is_space c \<and> c \<noteq> CHR ''C''" "mhz_text f \<noteq> []"
proof -
  assume c: "c \<in> set (mhz_text f)"
  show "\<not> is_space c \<and> c \<noteq> CHR ''C''"
  proof (cases f)
    case None
    with c show ?thesis by (simp add: mhz_text_def is_space_def)
  next
    case (Some n)
    with c consider "c \<in> set (show_nat n)" | "c \<in> set ''.0000''" by (auto simp: mhz_text_def)
    then show ?thesis
    proof cases
      case 1
      then show ?thesis using show_nat_no_space [OF 1] show_nat_digits [OF 1] by (auto simp: digit_of_def)
    qed (auto simp: is_space_def)
  qed
qed (simp add: mhz_text_def split: option.split)

lemma core_line_chars: "c \<in> set (core_line bl x) \<Longrightarrow> c \<noteq> nl \<and> c \<noteq> CHR ''C''"
proof -
  assume c: "c \<in> set (core_line bl x)"
  have d: "c \<in> set (show_nat n) \<Longrightarrow> c \<noteq> nl \<and> c \<noteq> CHR ''C''" for n
    using show_nat_digits [of c n] by (auto simp: digit_of_def)
  from c d mhz_text_chars(1) [of c "snd (snd x)"] nl_space show ?thesis
    by (auto simp: core_line_def)
qed

lemma core_line_Fields:
  "Fields (core_line bl c @ [nl]) = [show_nat (fst c), show_nat (fst (snd c)), mhz_text (snd (snd c))]"
proof -
  let ?b = "replicate bl (CHR '' '')" and ?b1 = "replicate (Suc bl) (CHR '' '')"
  have b: "\<forall>c \<in> set ?b. is_space c" "\<forall>c \<in> set ?b1. is_space c" by (simp_all add: is_space_def)
  have hd: "is_space (hd (?b1 @ s))" for s by (simp add: is_space_def)
  have w: "\<forall>c \<in> set (show_nat n). \<not> is_space c" for n using show_nat_no_space by blast
  have m: "\<forall>c \<in> set (mhz_text f). \<not> is_space c" for f using mhz_text_chars(1) by blast
  have 3: "Fields (?b1 @ mhz_text (snd (snd c)) @ [nl]) = [mhz_text (snd (snd c))]"
    using Fields_word [OF b(2) mhz_text_chars(2) m, of "[nl]"] nl_space by (simp add: Fields_blank)
  have 2: "Fields (?b1 @ show_nat (fst (snd c)) @ ?b1 @ mhz_text (snd (snd c)) @ [nl]) = [show_nat (fst (snd c)), mhz_text (snd (snd c))]"
    using Fields_word [OF b(2) show_nat_nonempty w, of "?b1 @ mhz_text (snd (snd c)) @ [nl]"] hd 3 by simp
  show ?thesis
    using Fields_word [OF b(1) show_nat_nonempty w, of "?b1 @ show_nat (fst (snd c)) @ ?b1 @ mhz_text (snd (snd c)) @ [nl]"] hd 2
    by (simp add: core_line_def)
qed

lemma core_infos_lines: "core_infos (map (\<lambda>l. l @ [nl]) (map (core_line bl) cs) @ [[]]) = Some (map read_core cs)"
proof (induction cs)
  case (Cons c cs)
  have n: "\<not> Contains (core_line bl c @ [nl]) ''CPU''"
  proof
    assume "Contains (core_line bl c @ [nl]) ''CPU''"
    then have "CHR ''C'' \<in> set (core_line bl c @ [nl])" unfolding Contains_iff by (metis in_set_conv_decomp append_Cons append_assoc)
    then show False using core_line_chars [of "CHR ''C''" bl c] by auto
  qed
  have "nl \<notin> set (mhz_text (snd (snd c)))" using mhz_text_chars(1) nl_space by blast
  with Cons n core_line_Fields [of bl c] show ?case by (simp add: read_core_def Split_no_sep)
qed simp

lemma core_infos_listing: "core_infos (SplitAfter (core_listing bl cs) [nl]) = Some (map read_core cs)"
proof -
  have "nl \<notin> set (core_line bl c)" for c using core_line_chars by blast
  then have "\<forall>l \<in> set (map (core_line bl) cs). nl \<notin> set l" by simp
  from SplitAfter_lines [OF this]
  have s: "SplitAfter (core_listing bl cs) [nl] = (''CPU SOCKET MAXMHZ'' @ [nl]) # map (\<lambda>l. l @ [nl]) (map (core_line bl) cs) @ [[]]"
    using SplitAfter_char_line [of nl "''CPU SOCKET MAXMHZ''"] by (simp add: core_listing_def)
  show ?thesis unfolding s using core_infos_lines [of bl cs] by (simp add: Contains_def)
qed

lemma le_eCoreTarget:
  assumes "f < 2 ^ 62" "m < 2 ^ 62"
  shows "(of_nat f :: 64 word) \<le> eCoreTargetFreq (show_nat m @ ''.0000'') \<longleftrightarrow> 4 * f \<le> 3 * m"
proof -
  have t: "eCoreTargetFreq (show_nat m @ ''.0000'') = (3 * of_nat m) div 4"
    using assms(2) by (simp add: eCoreTargetFreq_def ParseUint64_show)
  have u: "unat (3 * of_nat m :: 64 word) = 3 * m"
    using assms(2) by (simp add: unat_word_ariths unat_of_nat take_bit_eq_mod)
  have "unat (of_nat f :: 64 word) = f" using assms(1) by (simp add: unat_of_nat take_bit_eq_mod)
  then show ?thesis unfolding t word_le_nat_alt unat_div u by simp linarith
qed

lemma core_kind_read:
  assumes "listable k c" "m < 2 ^ 62"
  shows "core_kind (eCoreTargetFreq (show_nat m @ ''.0000'')) (read_core c) =
     Some (if efficient m c then Inr (of_nat (fst c)) else Inl (of_nat (fst c)))"
proof (cases "snd (snd c)")
  case None
  with assms show ?thesis by (simp add: core_kind_def read_core_def mhz_text_def efficient_def listable_def ParseUint32_show)
next
  case (Some f)
  have "show_nat f @ ''.0000'' \<noteq> ''-''" by (cases "show_nat f") auto
  with Some assms le_eCoreTarget [of f m] show ?thesis
    by (simp add: core_kind_def read_core_def mhz_text_def efficient_def listable_def ParseUint32_show ParseUint64_show)
qed

lemma on_socket_read:
  assumes "listable k c" "s < k" "k \<le> 2 ^ 32"
  shows "on_socket (of_nat s) (read_core c) \<longleftrightarrow> fst (snd c) = s"
proof -
  have "fst (snd c) < 2 ^ 32" "s < 2 ^ 32" using assms by (auto simp: listable_def)
  then show ?thesis
    by (simp add: on_socket_def read_core_def ParseUint32_show word_unat_eq_iff unat_of_nat take_bit_eq_mod)
qed

text \<open>The loop over the processors is two filters.\<close>

lemma place_cores:
  assumes "\<forall>c \<in> set cs. listable k c" "s < k" "k \<le> 2 ^ 32" "m < 2 ^ 62"
  shows "fold (place_core (of_nat s) (eCoreTargetFreq (show_nat m @ ''.0000''))) (map read_core cs) (p, e) =
    (p @ map (of_nat \<circ> fst) (filter (\<lambda>c. \<not> efficient m c) (filter (\<lambda>c. fst (snd c) = s) cs)),
     e @ map (of_nat \<circ> fst) (filter (efficient m) (filter (\<lambda>c. fst (snd c) = s) cs)))"
  using assms(1)
proof (induction cs arbitrary: p e)
  case (Cons c cs)
  then have "listable k c" by simp
  with Cons show ?case
    by (simp add: place_core_def core_kind_read [OF _ assms(4), of k] on_socket_read [OF _ assms(2,3)])
qed simp

lemma groups_of_socket:
  assumes "\<forall>c \<in> set cs. listable k c" "s < k" "k \<le> 2 ^ 32" "m < 2 ^ 62"
  shows "getCoreGroupsPerSocket (of_nat s) (map read_core cs) (eCoreTargetFreq (show_nat m @ ''.0000'')) =
    (let on = filter (\<lambda>c. fst (snd c) = s) cs; e = filter (efficient m) on in
     \<lparr>so_SocketID = of_nat s,
      so_CoreGroups = \<lparr>cg_Type = ''P-Core'', cg_List = map (of_nat \<circ> fst) (filter (\<lambda>c. \<not> efficient m c) on)\<rparr> #
        (if e \<noteq> [] then [\<lparr>cg_Type = ''E-Core'', cg_List = map (of_nat \<circ> fst) e\<rparr>] else [])\<rparr>)"
  unfolding getCoreGroupsPerSocket_def place_cores [OF assms] by (simp add: Let_def)

text \<open>C31: The listing of the processors is turned into the topology that it shows: the sockets in
  order, in each the processors of this socket, the ones with at most three quarters of the highest
  frequency as efficiency cores and all others as performance cores.\<close>

theorem topology_of_listing:
  assumes "\<forall>c \<in> set cs. listable (unat sockets) c" "m < 2 ^ 62"
  shows "map_option (\<lambda>infos. inferEPCores sockets infos (show_nat m @ ''.0000'')) (core_infos (SplitAfter (core_listing bl cs) [nl])) =
     Some (topology cs m (unat sockets))"
proof -
  have "unat sockets < 2 ^ LENGTH(32)" by (rule unsigned_less)
  then have k: "unat sockets \<le> 2 ^ 32" by simp
  then show ?thesis
    using groups_of_socket [OF assms(1) _ k assms(2)]
    by (simp add: core_infos_listing inferEPCores_def topology_def)
qed

theorem topology_of_listing_witness:
  "\<exists>infos. core_infos (SplitAfter (core_listing 2 [(0, 0, Some 4000), (1, 0, Some 3000), (2, 1, None)]) [nl]) = Some infos"
  using topology_of_listing [of "[(0, 0, Some 4000), (1, 0, Some 3000), (2, 1, None)]" 2 4000 2]
  by (auto simp: listable_def)

text \<open>In a topology every processor is in exactly one group of one socket.\<close>

lemma topology_partition:
  assumes "\<forall>c \<in> set cs. fst (snd c) < sockets"
  shows "set (concat (map (\<lambda>s. concat (map cg_List (so_CoreGroups s))) (topology cs m sockets))) = (\<lambda>c. of_nat (fst c)) ` set cs"
    and "length (concat (map (\<lambda>s. concat (map cg_List (so_CoreGroups s))) (topology cs m sockets))) = length cs"
proof -
  let ?on = "\<lambda>s. filter (\<lambda>c. fst (snd c) = s) cs"
  let ?l = "\<lambda>s. map (of_nat \<circ> fst) (filter (\<lambda>c. \<not> efficient m c) (?on s)) @ map (of_nat \<circ> fst) (filter (efficient m) (?on s)) :: 32 word list"
  have t: "map (\<lambda>s. concat (map cg_List (so_CoreGroups s))) (topology cs m sockets) = map ?l [0..<sockets]"
    by (auto simp: topology_def Let_def)
  show "set (concat (map (\<lambda>s. concat (map cg_List (so_CoreGroups s))) (topology cs m sockets))) = (\<lambda>c. of_nat (fst c)) ` set cs"
  proof -
    have u: "set (concat (map g [0..<sockets])) = (\<Union>s < sockets. set (g s))" for g :: "nat \<Rightarrow> 32 word list" by auto
    have "set (?l s) = (\<lambda>c. of_nat (fst c)) ` set (?on s)" for s by auto
    moreover have "(\<Union>s < sockets. set (?on s)) = set cs" using assms by auto
    ultimately show ?thesis unfolding t u by (simp only: image_UN [symmetric])
  qed
  have l: "length (?l s) = length (?on s)" for s
    using sum_length_filter_compl [of "efficient m" "?on s"] by (simp add: add.commute comp_def)
  have n: "(\<And>s. length (g s) = h s) \<Longrightarrow> length (concat (map g xs)) = sum_list (map h xs)" for g :: "nat \<Rightarrow> 32 word list" and h xs
    by (induction xs) simp_all
  have "sum_list (map (\<lambda>s. length (?on s)) [0..<sockets]) = length cs"
    using assms
  proof (induction cs)
    case (Cons c cs)
    have "sum_list (map (\<lambda>s. length (filter (\<lambda>c. fst (snd c) = s) (c # cs))) [0..<sockets])
        = sum_list (map (\<lambda>s. length (filter (\<lambda>c. fst (snd c) = s) cs) + (if fst (snd c) = s then 1 else 0)) [0..<sockets])"
      by (intro arg_cong [where f = sum_list] map_cong refl) simp
    also have "\<dots> = length cs + sum_list (map (\<lambda>s. if fst (snd c) = s then 1 else 0) [0..<sockets])"
      using Cons by (simp add: sum_list_addf)
    also have "sum_list (map (\<lambda>s. if fst (snd c) = s then 1 else 0) [0..<sockets]) = (1::nat)"
      using Cons.prems by (simp add: interv_sum_list_conv_sum_set_nat)
    finally show ?case by simp
  qed simp
  then show "length (concat (map (\<lambda>s. concat (map cg_List (so_CoreGroups s))) (topology cs m sockets))) = length cs"
    unfolding t n [OF l] .
qed

section \<open>Addresses\<close>

text \<open>What \<^verbatim>\<open>ip addr show\<close> prints: an address with its prefix length and what follows it up to the next one.\<close>

definition ip_entry :: "string \<times> nat \<times> string \<Rightarrow> string" where
  "ip_entry e = fst e @ ''/'' @ show_nat (fst (snd e)) @ '' '' @ snd (snd e)"

definition ip_output :: "string \<Rightarrow> nat \<Rightarrow> string \<Rightarrow> (string \<times> nat \<times> string) list \<Rightarrow> string" where
  "ip_output head mtu rest as = head @ ''mtu '' @ show_nat mtu @ '' '' @ rest @ concat (map (\<lambda>e. ''inet '' @ ip_entry e) as)"

definition read_address :: "string \<times> nat \<times> string \<Rightarrow> IPAddress" where
  "read_address e = \<lparr>ip_IPAddress = fst e, ip_NetPrefBits = int (fst (snd e)),
     ip_ConfigMode = (if Contains (ip_entry e) ''dynamic'' then CONFIG_MODE_DYNAMIC else CONFIG_MODE_STATIC)\<rparr>"

lemma ParseInt32_show: "n < 2 ^ 31 \<Longrightarrow> ParseInt32 (show_nat n) = Some (int n)"
proof -
  assume n: "n < 2 ^ 31"
  obtain c cs where s: "show_nat n = c # cs" by (cases "show_nat n") auto
  then have "digit_of c \<noteq> None" using show_nat_digits [of c n] by simp
  then have "c \<noteq> CHR ''-''" "c \<noteq> CHR ''+''" by (auto simp: digit_of_def)
  with s have "ParseInt64 (show_nat n) = Some (int n)"
    using n read_show_nat [of n] by (simp add: ParseInt64_def)
  with n show ?thesis by (simp add: ParseInt32_def)
qed

lemma ip_address_entry:
  assumes "CHR ''/'' \<notin> set (fst e)" "fst (snd e) < 2 ^ 31"
  shows "ip_address (ip_entry e) = Some (Inr (read_address e))"
proof -
  let ?n = "show_nat (fst (snd e))"
  have d: "CHR ''/'' \<notin> set ?n" "CHR '' '' \<notin> set ?n" by (rule show_nat_not_in, simp add: digit_of_def)+
  have "Split (ip_entry e) (CHR ''/'') = fst e # Split (?n @ CHR '' '' # snd (snd e)) (CHR ''/'')"
    using Split_append_sep [OF assms(1)] by (simp add: ip_entry_def)
  moreover obtain p ps where p: "Split (?n @ CHR '' '' # snd (snd e)) (CHR ''/'') = p # ps"
    by (cases "Split (?n @ CHR '' '' # snd (snd e)) (CHR ''/'')") simp_all
  moreover have "hd (Split p (CHR '' '')) = ?n"
  proof -
    have pre: "\<exists>q. hd (Split (a @ x # t) c) = a @ x # q" if "c \<notin> set a" "c \<noteq> x" for a :: string and x t c
      using that by (induction a) (auto split: list.split)
    obtain q where "p = ?n @ CHR '' '' # q" using pre [OF d(1), of "CHR '' ''" "snd (snd e)"] p by auto
    then show ?thesis using hd_Split_append [OF d(2)] by simp
  qed
  ultimately show ?thesis
    using ParseInt32_show [OF assms(2)] by (simp add: ip_address_def nth_of_def read_address_def)
qed

lemma ip_addresses_entries:
  "\<forall>e \<in> set as. CHR ''/'' \<notin> set (fst e) \<and> fst (snd e) < 2 ^ 31 \<Longrightarrow> ip_addresses (map ip_entry as) = Some (Inr (map read_address as))"
  by (induction as) (simp_all add: ip_address_entry)

text \<open>C32: The addresses of an interface are read back from the output of \<^verbatim>\<open>ip addr show\<close>, each with its
  prefix length, together with the MTU and the mark of the interface of the BMC.\<close>

theorem ip_output_is_parsed:
  assumes "\<not> Contains head ''mtu ''" "mtu < 2 ^ 32"
    and "\<not> Contains (head @ ''mtu '' @ show_nat mtu @ '' '' @ rest) ''inet ''"
    and "\<forall>e \<in> set as. CHR ''/'' \<notin> set (fst e) \<and> fst (snd e) < 2 ^ 31 \<and> \<not> Contains (ip_entry e) ''inet ''"
  shows "parseIPInfo (ip_output head mtu rest as) bmcAddr =
     Some (Inr (map read_address as, \<exists>e \<in> set as. fst e = bmcAddr, of_nat mtu))"
proof -
  have c: "CHR ''m'' \<notin> set ''tu ''" "CHR ''i'' \<notin> set ''net ''" by simp_all
  have "SplitSep (ip_output head mtu rest as) ''mtu '' = head # SplitSep (show_nat mtu @ '' '' @ rest @ concat (map (\<lambda>e. ''inet '' @ ip_entry e) as)) ''mtu ''"
    using SplitSep_boundary [OF assms(1) c(1)] by (simp add: ip_output_def)
  moreover obtain p ps where p: "SplitSep (show_nat mtu @ '' '' @ rest @ concat (map (\<lambda>e. ''inet '' @ ip_entry e) as)) ''mtu '' = p # ps"
    by (metis SplitSep_nonempty list.exhaust)
  moreover have "hd (Split p (CHR '' '')) = show_nat mtu"
  proof -
    have d: "CHR '' '' \<notin> set (show_nat mtu)" "CHR ''m'' \<notin> set (show_nat mtu)" by (rule show_nat_not_in, simp add: digit_of_def)+
    have pre: "\<exists>q. hd (SplitSep (a @ x # t) (c # cs)) = a @ x # q" if "c \<notin> set a" "c \<noteq> x" for a :: string and x t c cs
    proof (cases "Index (a @ x # t) (c # cs)")
      case None
      then show ?thesis by (subst SplitSep.simps) simp
    next
      case (Some i)
      have "HasPrefix (drop i (a @ x # t)) (c # cs)" using Some by (simp add: Index_iff)
      then obtain u where u: "drop i (a @ x # t) = c # u" by (auto simp: HasPrefix_iff)
      have "i > length a"
      proof (rule ccontr)
        assume "\<not> i > length a"
        then have "hd (drop i (a @ x # t)) \<in> set a \<union> {x}" by (cases "i = length a") (auto simp: hd_append hd_drop_conv_nth)
        with u that show False by auto
      qed
      then have "take i (a @ x # t) = a @ x # take (i - Suc (length a)) t" by (simp add: take_Cons' )
      with Some show ?thesis by (subst SplitSep.simps) simp
    qed
    obtain q where "p = show_nat mtu @ CHR '' '' # q"
      using pre [OF d(2), of "CHR '' ''" "rest @ concat (map (\<lambda>e. ''inet '' @ ip_entry e) as)" "''tu ''"] p by auto
    then show ?thesis using hd_Split_append [OF d(1)] by simp
  qed
  moreover have "drop 1 (SplitSep (ip_output head mtu rest as) ''inet '') = map ip_entry as"
  proof -
    have s: "ip_output head mtu rest as = (head @ ''mtu '' @ show_nat mtu @ '' '' @ rest) @ concat (map (\<lambda>p. ''inet '' @ p) (map ip_entry as))"
      by (simp add: ip_output_def comp_def)
    have n: "\<forall>p \<in> set (map ip_entry as). \<not> Contains p ''inet ''" using assms(4) by simp
    show ?thesis unfolding s SplitSep_pieces [OF c(2) assms(3) n] by simp
  qed
  ultimately show ?thesis
    using ip_addresses_entries [of as] assms(2,4) ParseUint32_show [of mtu]
    by (auto simp: parseIPInfo_def nth_of_def list_ex_iff read_address_def)
qed

theorem ip_output_is_parsed_witness:
  "parseIPInfo (ip_output ''2: eth0: '' 1500 ''qdisc'' [(''10.0.0.5'', 24, ''scope global dynamic eth0'')]) ''10.0.0.5'' =
     Some (Inr ([read_address (''10.0.0.5'', 24, ''scope global dynamic eth0'')], True, 1500))"
proof -
  have "\<not> Contains ''2: eth0: '' ''mtu ''" by code_simp
  moreover have "\<not> Contains (''2: eth0: '' @ ''mtu '' @ show_nat 1500 @ '' '' @ ''qdisc'') ''inet ''" by code_simp
  moreover have "\<not> Contains (ip_entry (''10.0.0.5'', 24, ''scope global dynamic eth0'')) ''inet ''" by code_simp
  ultimately show ?thesis
    using ip_output_is_parsed [of "''2: eth0: ''" 1500 "''qdisc''" "[(''10.0.0.5'', 24, ''scope global dynamic eth0'')]" "''10.0.0.5''"]
    by simp
qed

text \<open>What follows an address reaches up to the next IPv4 address: a static address with a dynamic
  IPv6 address behind it counts as dynamic.\<close>

lemma dynamic_v6_marks_v4:
  "ip_ConfigMode (read_address (''10.0.0.5'', 24, ''scope global eth0'' @ [nl] @ ''inet6 2001:db8::1/64 scope global dynamic'')) = CONFIG_MODE_DYNAMIC"
  by code_simp

section \<open>USB devices\<close>

text \<open>An interface of a listing: the number of its class, its name, and the lines behind.\<close>

definition usb_interface :: "string \<times> string \<times> string \<Rightarrow> string" where
  "usb_interface i = fst i @ '' '' @ fst (snd i) @ [nl] @ snd (snd i)"

lemma interface_class_line:
  assumes "nl \<notin> set (fst i)" "CHR '' '' \<notin> set (fst i)" "nl \<notin> set (fst (snd i))"
  shows "interface_class (usb_interface i @ t) = fst (snd i)"
proof -
  have h: "hd (Split (usb_interface i @ t) nl) = fst i @ '' '' @ fst (snd i)"
    using hd_Split_append [of nl "fst i @ '' '' @ fst (snd i)" "snd (snd i) @ t"] assms(1,3) by (simp add: usb_interface_def)
  show ?thesis
    using SplitAfter_char_line [OF assms(2), of "fst (snd i)"] by (simp add: interface_class_def h concat_SplitAfter)
qed

lemma fold_last: "fold (\<lambda>d (x, n). (f d, Suc n)) ds (x, n) = ((if ds = [] then x else f (last ds)), n + length ds)"
  by (induction ds arbitrary: x n) auto

text \<open>A USB device with several interfaces is reported with the class of its last interface for
  every one of them, because the list holds pointers to one variable.\<close>

theorem interfaces_share_last_class:
  assumes "\<not> Contains head ''bInterfaceClass         ''" "is \<noteq> []"
    and "\<forall>i \<in> set is. nl \<notin> set (fst i) \<and> CHR '' '' \<notin> set (fst i) \<and> nl \<notin> set (fst (snd i)) \<and> \<not> Contains (usb_interface i) ''bInterfaceClass         ''"
  shows "getInterfaces (head @ concat (map (\<lambda>i. ''bInterfaceClass         '' @ usb_interface i) is)) = replicate (length is) (fst (snd (last is)))"
proof -
  let ?k = "''bInterfaceClass         ''" and ?ps = "map usb_interface is"
  have c: "CHR ''b'' \<notin> set ''InterfaceClass         ''" by simp
  have n: "\<forall>p \<in> set ?ps. \<not> Contains p ?k" and ne: "?ps \<noteq> []" using assms(2,3) by simp_all
  have t: "concat (map (\<lambda>i. ?k @ usb_interface i) is) = concat (map (\<lambda>p. ?k @ p) ?ps)" by (simp add: comp_def)
  have s: "drop 1 (SplitAfter (head @ concat (map (\<lambda>p. ?k @ p) ?ps)) ?k) = map (\<lambda>p. p @ ?k) (butlast ?ps) @ [last ?ps]"
    unfolding SplitAfter_pieces [OF c assms(1) n ne] by simp
  have "interface_class (last ?ps) = fst (snd (last is))"
    using interface_class_line [of "last is" "[]"] assms(2,3) by (simp add: last_map)
  then show ?thesis
    unfolding getInterfaces_def t s fold_last using assms(2) by (simp add: Suc_diff_Suc)
qed

theorem interfaces_share_last_class_witness:
  "getInterfaces (''x'' @ concat (map (\<lambda>i. ''bInterfaceClass         '' @ usb_interface i)
     [(''3'', ''HID'', ''y''), (''8'', ''Mass Storage'', [])])) = [''Mass Storage'', ''Mass Storage'']"
proof -
  have "\<not> Contains ''x'' ''bInterfaceClass         ''" by code_simp
  moreover have "\<not> Contains (usb_interface (''3'', ''HID'', ''y'')) ''bInterfaceClass         ''"
    "\<not> Contains (usb_interface (''8'', ''Mass Storage'', [])) ''bInterfaceClass         ''" by code_simp+
  ultimately show ?thesis
    using interfaces_share_last_class [of "''x''" "[(''3'', ''HID'', ''y''), (''8'', ''Mass Storage'', [])]"]
    by (simp add: numeral_2_eq_2)
qed

text \<open>Only a serial number with two colons is reported; with one colon the agent panics, without a
  colon the number is not available.\<close>

lemma plain_serial_not_available: "getSerial (''iSerial                 3 0123456789'') = Some ''Not available''"
  by code_simp

lemma one_colon_serial_panics: "getSerial (''iSerial                 3 01:23'') = None"
  by code_simp

section \<open>Dates\<close>

definition two_digits :: "nat \<Rightarrow> string" where
  "two_digits n = (if n < 10 then CHR ''0'' # show_nat n else show_nat n)"

inductive date_part :: "string \<Rightarrow> string \<Rightarrow> bool" where
  short: "n \<in> set [1..<32] \<Longrightarrow> date_part (show_nat n) (two_digits n)"
| padded: "n \<in> set [1..<32] \<Longrightarrow> date_part (two_digits n) (two_digits n)"
| year: "1000 \<le> y \<Longrightarrow> date_part (show_nat y) (show_nat y)"

inductive_cases date_partE: "date_part p q"

lemma pad_two_digits: "list_all (\<lambda>n. pad_part (show_nat n) = two_digits n \<and> pad_part (two_digits n) = two_digits n) [1..<32]"
  by code_simp

lemma length_show_year: "1000 \<le> y \<Longrightarrow> 4 \<le> length (show_nat y)"
proof -
  have s: "10 \<le> n \<Longrightarrow> length (show_nat n) = Suc (length (show_nat (n div 10)))" for n
    by (subst show_nat.simps) simp
  assume y: "1000 \<le> y"
  have "1 \<le> length (show_nat (y div 10 div 10 div 10))" by (cases "show_nat (y div 10 div 10 div 10)") auto
  with y s [of y] s [of "y div 10"] s [of "y div 10 div 10"] show ?thesis by simp
qed

lemma pad_date_part: "date_part p q \<Longrightarrow> pad_part p = q"
  using pad_two_digits by (auto elim!: date_partE simp: list_all_iff pad_part_def [of "show_nat _"] dest: length_show_year)

lemma date_part_digits: "date_part p q \<Longrightarrow> c \<in> set p \<Longrightarrow> digit_of c \<noteq> None"
  by (erule date_partE) (auto simp: two_digits_def digit_of_def [of "CHR ''0''"] dest: show_nat_digits split: if_splits)

text \<open>The date of the BIOS is reported with two digits for month and day, however they were printed.\<close>

theorem release_date_has_two_digits:
  assumes "list_all2 date_part ps qs" "3 \<le> length ps" "sep = CHR ''/'' \<or> sep = CHR ''-''"
  shows "formatReleaseDate (Join ps [sep]) = Join qs [sep]"
proof -
  have d: "\<forall>p \<in> set ps. \<forall>c \<in> set p. digit_of c \<noteq> None"
    using assms(1) date_part_digits by (fastforce simp: list_all2_conv_all_nth in_set_conv_nth)
  have np: "CHR ''/'' \<notin> set p" "CHR ''-'' \<notin> set p" if "p \<in> set ps" for p
  proof -
    have "digit_of (CHR ''/'') = None" "digit_of (CHR ''-'') = None" by (simp_all add: digit_of_def)
    then show "CHR ''/'' \<notin> set p" "CHR ''-'' \<notin> set p" using d that by metis+
  qed
  have m: "map pad_part ps = qs"
    using assms(1) by (induction rule: list_all2_induct) (simp_all add: pad_date_part)
  have ne: "ps \<noteq> []" using assms(2) by auto
  then have sp: "Split (Join ps [sep]) sep = ps"
    using Split_Join [of ps sep] np assms(3) by auto
  have in_join: "c \<in> set (Join ps [sep]) \<Longrightarrow> c = sep \<or> (\<exists>p \<in> set ps. c \<in> set p)" for c
    by (induction ps "[sep]" rule: Join.induct) auto
  have has: "Contains (Join ps [sep]) [sep]"
  proof (rule ccontr)
    assume "\<not> Contains (Join ps [sep]) [sep]"
    then have "sep \<notin> set (Join ps [sep])" unfolding Contains_iff by (metis append_Cons append_Nil split_list)
    then have "ps = [Join ps [sep]]" using sp by (simp add: Split_no_sep)
    then have "length ps = 1" by (metis One_nat_def length_Cons list.size(3))
    with assms(2) show False by simp
  qed
  have no: "\<not> Contains (Join ps [CHR ''-'']) ''/''" if "sep = CHR ''-''"
  proof
    assume "Contains (Join ps [CHR ''-'']) ''/''"
    then have "CHR ''/'' \<in> set (Join ps [sep])" using that unfolding Contains_iff by auto
    with in_join np(1) that show False by fastforce
  qed
  show ?thesis using assms(2,3) sp has no by (auto simp: formatReleaseDate_def m)
qed

theorem release_date_has_two_digits_witness: "formatReleaseDate ''3/9/2021'' = ''03/09/2021''"
proof -
  have "date_part (show_nat 3) (two_digits 3)" "date_part (show_nat 9) (two_digits 9)" "date_part (show_nat 2021) (show_nat 2021)"
    by (auto intro: date_part.intros)
  moreover have "show_nat 3 = ''3''" "show_nat 9 = ''9''" "show_nat 2021 = ''2021''" "two_digits 3 = ''03''" "two_digits 9 = ''09''"
    by code_simp+
  ultimately show ?thesis
    using release_date_has_two_digits [of "[''3'', ''9'', ''2021'']" "[''03'', ''09'', ''2021'']" "CHR ''/''"] by simp
qed

section \<open>Gathering\<close>

text \<open>The tools of the graphics, disk, memory and BIOS information never make the agent panic.\<close>

lemma safe_gpu_devices: "safe (gpu_devices env gs)"
  by (induction gs) (auto simp: gpu_device_def Let_def intro!: safe_rules)

lemma safe_readers:
  "safe (GetGpuList env)" "safe (GetDiskList env j)" "safe (GetMemory env k)" "safe (GetBiosInfo env)" "safe (hda_GetSerialNumber env)"
  unfolding GetGpuList_def GetDiskList_def GetMemory_def GetBiosInfo_def hda_GetSerialNumber_def hda_dmidecode_def
  by (intro safe_rules safe_gpu_devices)+

text \<open>Gathering changes only what belongs to the host: it keeps every predicate on the rest.\<close>

context host_frame
begin

lemma command_rules [keeps_rules]:
  "keeps I (hda_dmidecode env m k)" "keeps I (os_command env argv)" "keeps I (GetAuthContext env p)"
  unfolding hda_dmidecode_def os_command_def GetAuthContext_def by (intro keeps_rules)+

lemma or_default_rule [keeps_rules]: "keeps I m \<Longrightarrow> keeps I (or_default d m)"
  unfolding or_default_def by (intro keeps_rules)

lemma usb_rules [keeps_rules]: "keeps I (usb_devices env ls)"
  by (induction ls) (auto simp: usb_device_def Let_def intro!: keeps_rules)

lemma gpu_rules [keeps_rules]: "keeps I (gpu_devices env gs)"
  by (induction gs) (auto simp: gpu_device_def Let_def intro!: keeps_rules)

lemma file_rules [keeps_rules]: "keeps I (getSriovVfCount env n)" "keeps I (getNICPhysicalAddress env n)"
    "keeps I (getNICPCIAddress env n)" "keeps I (checkIfSriovEnabled env n)"
  unfolding getSriovVfCount_def read_count_def getNICPhysicalAddress_def getNICPCIAddress_def checkIfSriovEnabled_def Let_def
  by (intro keeps_rules)+

lemma ethtool_rule [keeps_rules]: "keeps I (CollectEthtoolData env n)"
  unfolding CollectEthtoolData_def by (intro keeps_rules)

lemma nic_rule [keeps_rules]: "keeps I (nic_of env b f)"
  unfolding nic_of_def read_nic_def by (intro keeps_rules)

lemma nic_rules [keeps_rules]: "keeps I (nic_list env b fs)"
  by (induction fs) (auto intro!: keeps_rules)

lemma GenerateSystemInfoRequest_keeps: "keeps I (GenerateSystemInfoRequest env)"
  unfolding GenerateSystemInfoRequest_def GetDiskList_def hda_GetSerialNumber_def GetProductName_def GetOsInfo_def GetBiosInfo_def
    GetCPUList_def GetGpuList_def GetMemory_def GetNICList_def bmc_info_def GetUsbList_def Let_def
  by (intro keeps_rules)

end

section \<open>Requests and connections\<close>

definition hda_connected :: "hda \<Rightarrow> bool" where
  "hda_connected w \<longleftrightarrow> (\<exists>c. GrpcConn w = Some c \<and> SouthboundClient w = Some c \<and> c < dialed w \<and> c \<notin> set (closed_conns w)) \<and>
     (\<forall>k \<in> set (closed_conns w). k < dialed w)"

interpretation sent: host_frame "\<lambda>w :: hda. P (hostmgr_sent w)" for P
  by unfold_locales simp

interpretation connected: host_frame hda_connected
  by unfold_locales (simp add: hda_connected_def)

lemma keeps_rpc: "keeps hda_connected (hostmgr_rpc env ctx guid info)"
  unfolding hostmgr_rpc_def by (intro keeps_rules connected.host_rules) (auto simp: keeps_def modify_def hda_connected_def)

text \<open>Closing and connecting again gives a new open connection.\<close>

lemma keeps_reconnect:
  assumes "\<And>n a. dial_error env n a = None" "\<And>n. conn_Close env n = None"
  shows "keeps hda_connected (andthen (close_conn env) (\<lambda>_. andthen (hda_Connect env a) (\<lambda>_. fail e)))"
  unfolding keeps_def
proof (intro allI impI)
  fix w assume c: "hda_connected w"
  then obtain c0 where "GrpcConn w = Some c0" "c0 < dialed w" "\<forall>k \<in> set (closed_conns w). k < dialed w"
    by (auto simp: hda_connected_def)
  then show "hda_connected (snd (andthen (close_conn env) (\<lambda>_. andthen (hda_Connect env a) (\<lambda>_. fail e)) w))"
    by (auto simp: close_conn_def hda_Connect_def action_simps tick_apply assms hda_connected_def split: option.splits)
qed

lemma keeps_update:
  assumes "\<And>n a. dial_error env n a = None" "\<And>n. conn_Close env n = None"
  shows "keeps hda_connected (update_cycle env cfg guid)"
  unfolding update_cycle_def hda_updateWithRetry_def sendStatusUpdate_def UpdateHostSystemInfoByGUID_def
  by (intro keeps_rules connected.host_rules connected.command_rules connected.GenerateSystemInfoRequest_keeps keeps_rpc keeps_reconnect [OF assms])
     (auto simp: keeps_def modify_def hda_connected_def)

lemma keeps_or_exit [keeps_rules]: "keeps I m \<Longrightarrow> keeps I (or_exit m)"
  unfolding or_exit_def by (intro keeps_rules)

lemma or_exit_Ok: "or_exit m s = (Ok x, t) \<longleftrightarrow> m s = (Ok x, t)"
  by (auto simp: or_exit_def action_simps split: prod.splits outcome.splits)

interpretation unclosed: host_frame "\<lambda>w :: hda. closed_conns w = []"
  by unfold_locales simp

lemma hda_start_Ok:
  assumes "hda_start env p w0 = (Ok (cfg, guid), w)"
  obtains w1 where "or_exit (ConnectToEdgeInfrastructureManager env (hc_ServiceURL cfg)) w1 = (Ok (), w)"
    "closed_conns w0 = [] \<Longrightarrow> closed_conns w1 = []"
proof -
  let ?I = "\<lambda>w :: hda. closed_conns w = []"
  obtain wa u wb wc where n: "or_exit (hda_New env p) w0 = (Ok cfg, wa)" "or_exit (GetAuthConfig env None) wa = (Ok u, wb)"
      "or_exit (GetSystemUUID env) wb = (Ok guid, wc)" "or_exit (ConnectToEdgeInfrastructureManager env (hc_ServiceURL cfg)) wc = (Ok (), w)"
    using assms unfolding hda_start_def by (auto simp: andthen_eq_Ok ret_apply crash_apply split: if_splits)
  have k: "keeps ?I (or_exit (hda_New env p))" "keeps ?I (or_exit (GetAuthConfig env None))" "keeps ?I (or_exit (GetSystemUUID env))"
    unfolding hda_New_def GetAuthConfig_def GetSystemUUID_def Let_def
    by (intro keeps_rules unclosed.host_rules unclosed.command_rules)+
  have "?I wc" if "?I w0"
    by (rule keepsD [OF k(3) keepsD [OF k(2) keepsD [OF k(1) that n(1)] n(2)] n(3)])
  with n(4) show ?thesis by (rule that)
qed

text \<open>From the start on, and through any number of updates whatever fails in them, the client is
  bound to an open connection, provided that dialling and closing do not fail (a failed dial leaves
  a nil connection, on which the next failing update panics).\<close>

theorem client_stays_connected:
  assumes "\<forall>n a. dial_error env n a = None" "\<forall>n. conn_Close env n = None"
    and "closed_conns w0 = []" "hda_start env p w0 = (Ok (cfg, guid), w)"
    and "foreach (\<lambda>_. update_cycle env cfg guid) turns w = (r, w')"
  shows "hda_connected w'"
proof -
  have hyp: "\<And>n a. dial_error env n a = None" "\<And>n. conn_Close env n = None" using assms(1,2) by simp_all
  obtain w1 where w1: "or_exit (ConnectToEdgeInfrastructureManager env (hc_ServiceURL cfg)) w1 = (Ok (), w)" "closed_conns w1 = []"
    using hda_start_Ok [OF assms(4)] assms(3) by metis
  then have c: "hda_connected w"
    by (auto simp: or_exit_Ok ConnectToEdgeInfrastructureManager_def hda_Connect_def action_simps tick_apply hda_connected_def split: option.splits)
  have k: "keeps hda_connected (foreach (\<lambda>_. update_cycle env cfg guid) turns)"
    by (intro keeps_rules keeps_update hyp)
  show ?thesis by (rule keepsD [OF k c assms(5)])
qed

lemma failed_dial_panics:
  assumes "GrpcConn w = None"
  shows "close_conn env w = (Crash ''invalid memory address or nil pointer dereference'', w)"
  using assms by (simp add: close_conn_def action_simps)

text \<open>The number of requests: every step sends at most so many.\<close>

definition sends :: "nat \<Rightarrow> (hda, 'a) action \<Rightarrow> bool" where
  "sends k m \<longleftrightarrow> (\<forall>w. length (hostmgr_sent (snd (m w))) \<le> length (hostmgr_sent w) + k)"

lemma sends_keeps: "(\<And>l. keeps (\<lambda>w. hostmgr_sent w = l) m) \<Longrightarrow> sends 0 m"
  by (auto simp: sends_def keeps_def)

lemma sends_andthen:
  assumes "sends i m" "\<And>x. sends j (f x)"
  shows "sends (i + j) (andthen m f)"
  unfolding sends_def
proof
  fix w
  obtain r t where m: "m w = (r, t)" by fastforce
  then have t: "length (hostmgr_sent t) \<le> length (hostmgr_sent w) + i" using assms(1) by (metis sends_def snd_conv)
  show "length (hostmgr_sent (snd (andthen m f w))) \<le> length (hostmgr_sent w) + (i + j)"
  proof (cases r)
    case (Ok x)
    have "length (hostmgr_sent (snd (f x t))) \<le> length (hostmgr_sent t) + j" using assms(2) by (simp add: sends_def)
    with t m Ok show ?thesis by (simp add: andthen_apply)
  qed (use t m in \<open>simp_all add: andthen_apply\<close>)
qed

lemma sends_mono: "sends i m \<Longrightarrow> i \<le> j \<Longrightarrow> sends j m"
  unfolding sends_def by (meson add_left_mono order_trans)

lemma sends_attempt: "sends k m \<Longrightarrow> sends k (attempt m)"
  by (auto simp: sends_def attempt_apply split: prod.splits outcome.splits) (metis snd_conv)+

lemma sends_ret: "sends 0 (ret x)"
  by (simp add: sends_def ret_def)

lemma sends_asks: "sends 0 (asks f)"
  by (simp add: sends_def asks_def)

lemma sends_retry: "sends k m \<Longrightarrow> sends (Suc n * k) (retry n m)"
proof (induction n)
  case (Suc n)
  have "sends (k + Suc n * k) (retry (Suc n) m)"
    unfolding retry.simps
  proof (rule sends_andthen [OF sends_attempt [OF Suc.prems]])
    show "sends (Suc n * k) (case r of Inl _ \<Rightarrow> retry n m | Inr x \<Rightarrow> ret x)" for r
      using Suc sends_mono [OF sends_ret] by (cases r) simp_all
  qed
  then show ?case by simp
qed simp

lemma sends_rpc: "sends 1 (hostmgr_rpc env ctx guid info)"
  by (auto simp: sends_def hostmgr_rpc_def action_simps tick_apply split: option.splits)

lemma sends_UpdateHost: "sends 4 (UpdateHostSystemInfoByGUID env a ctx guid info)"
proof -
  have r: "sends 4 (attempt (retry (min NUM_RETRIES_hda k) (hostmgr_rpc env ctx guid info)))" for k
    by (rule sends_attempt, rule sends_mono [OF sends_retry [OF sends_rpc]]) (simp add: NUM_RETRIES_hda_def)
  have c: "sends 0 (andthen (close_conn env) (\<lambda>_. andthen (hda_Connect env a) (\<lambda>_. fail e)))" for e
    by (rule sends_keeps) (auto simp: keeps_def close_conn_def hda_Connect_def action_simps tick_apply split: option.splits)
  have b: "sends (4 + 0) (andthen (attempt (retry (min NUM_RETRIES_hda n) (hostmgr_rpc env ctx guid info))) (\<lambda>r. case r of
       Inr _ \<Rightarrow> ret () | Inl err \<Rightarrow> andthen (close_conn env) (\<lambda>_. andthen (hda_Connect env a) (\<lambda>_. fail err))))" for n
    by (rule sends_andthen [OF r]) (auto simp: sends_ret c split: sum.split)
  have "sends (0 + (4 + 0)) (UpdateHostSystemInfoByGUID env a ctx guid info)"
    unfolding UpdateHostSystemInfoByGUID_def by (rule sends_andthen [OF sends_asks b])
  then show ?thesis by simp
qed

text \<open>C33: One turn of the update loop sends at most sixteen requests, because the retries of the loop
  and the ones of the client multiply.\<close>

theorem update_requests_bounded:
  "length (hostmgr_sent (snd (update_cycle env cfg guid w))) \<le> length (hostmgr_sent w) + 16"
proof -
  have g: "sends 0 (GenerateSystemInfoRequest env)" "sends 0 (GetAuthContext env p)" for p
    by (rule sends_keeps, rule sent.GenerateSystemInfoRequest_keeps) (rule sends_keeps, rule sent.command_rules(3))
  have "sends (0 + (0 + 4)) (sendStatusUpdate env cfg guid)"
    unfolding sendStatusUpdate_def by (intro sends_andthen g sends_UpdateHost)
  then have r: "sends 16 (attempt (retry (min MAX_RETRIES_hda n) (sendStatusUpdate env cfg guid)))" for n
    by (intro sends_attempt sends_mono [OF sends_retry]) (auto simp: MAX_RETRIES_hda_def min_def)
  have t: "sends 0 (andthen (time_Now env) (\<lambda>now. modify (\<lambda>w. w\<lparr>hda_lastUpdate := time_Unix now\<rparr>)))"
    by (rule sends_keeps) (simp add: keeps_def action_simps time_Now_apply)
  have b: "sends (16 + 0) (andthen (attempt (retry (min MAX_RETRIES_hda n) (sendStatusUpdate env cfg guid))) (\<lambda>r. case r of
      Inl _ \<Rightarrow> ret () | Inr _ \<Rightarrow> andthen (time_Now env) (\<lambda>now. modify (\<lambda>w. w\<lparr>hda_lastUpdate := time_Unix now\<rparr>))))" for n
    by (rule sends_andthen [OF r]) (auto simp: sends_ret t split: sum.split)
  have "sends (0 + (16 + 0)) (update_cycle env cfg guid)"
    unfolding update_cycle_def hda_updateWithRetry_def by (rule sends_andthen [OF sends_asks b])
  then show ?thesis by (simp add: sends_def)
qed

section \<open>An example\<close>

definition demo_hda_config :: HdaConfig where
  "demo_hda_config = \<lparr>hc_Version = ''v1'', hc_LogLevel = ''info'', hc_ServiceURL = ''infra:443'', hc_StatusEndpoint = ''s'',
     hc_UpdateInterval = 30, hc_AccessTokenPath = ''/t''\<rparr>"

definition demo_hda_env :: hda_env where
  "demo_hda_env = \<lparr>host_cwd = [], os_Environ = [], process = \<lambda>n argv e d. (\<lparr>Stdout = ''U1'', Stderr = [], Combined = [], exit_error = None\<rparr>, d),
     delay = \<lambda>_. 0, status_call = \<lambda>_ _. Inr 10, dial_error = \<lambda>_ _. None, attempts_left = \<lambda>_. 0, SystemCertPool = \<lambda>_. Inr [],
     os_ReadDir_names = \<lambda>_ _. Inl ''no'', NewEthtool = \<lambda>_. None, eth_LinkState = \<lambda>_ _. Inr 0, eth_Features = \<lambda>_ _. Inr [],
     eth_CmdGetMapped = \<lambda>_ _. Inl ''no'', json_lsblk = \<lambda>_. Inr [], json_lsmem = \<lambda>_. Inr [], yaml_hda = \<lambda>_. Inr demo_hda_config,
     hostmgr_update = \<lambda>_ _ _ _. Some ''unavailable'', conn_Close = \<lambda>_. None\<rparr>"

definition demo_hda :: hda where
  "demo_hda = \<lparr>disk = \<lparr>tree = [[''c''] \<mapsto> Regular ''onboarding''], nlink = \<lambda>_. 1\<rparr>, clock_ns = 0, interactions = 0, processes = [],
     status_sent = [], GrpcConn = None, SouthboundClient = None, closed_conns = [], dialed = 0, hostmgr_sent = [], hda_lastUpdate = 0\<rparr>"

lemma demo_hda_start: "fst (hda_start demo_hda_env ''/c'' demo_hda) = Ok (demo_hda_config, ''U1'')"
  by code_simp

theorem client_stays_connected_witness:
  "\<exists>w r w'. hda_start demo_hda_env ''/c'' demo_hda = (Ok (demo_hda_config, ''U1''), w) \<and>
     foreach (\<lambda>_. update_cycle demo_hda_env demo_hda_config ''U1'') [(), ()] w = (r, w') \<and> hda_connected w'"
proof -
  obtain w where w: "hda_start demo_hda_env ''/c'' demo_hda = (Ok (demo_hda_config, ''U1''), w)"
    using demo_hda_start by (metis prod.collapse)
  obtain r w' where f: "foreach (\<lambda>_. update_cycle demo_hda_env demo_hda_config ''U1'') [(), ()] w = (r, w')"
    by (rule prod.exhaust)
  have "hda_connected w'"
    by (rule client_stays_connected [OF _ _ _ w f]) (simp_all add: demo_hda_env_def demo_hda_def)
  with w f show ?thesis by blast
qed

end
