(* ===== verification/Rep_Model.thy ===== *)
theory Rep_Model
  imports Complex_Main Agent_Common Go_Split
begin

text \<open>
  The Reporting Agent, first part: the model of the data (\<^verbatim>\<open>reporting-agent/internal/model/model.go\<close>)
  and the readers of the node (\<^verbatim>\<open>internal/cpu\<close>, \<open>memory\<close>, \<open>disk\<close>, \<open>system\<close> and \<open>network\<close>).

  What the commands print is a parameter, and so are the decoders of JSON and \<^verbatim>\<open>strconv.ParseFloat\<close>,
  which gives the number that the 64 bits stand for. A reader that fails has a value beside its
  error, which the collector uses: its result is a pair of an optional error and a value.
\<close>

section \<open>The data\<close>

record RepIdentity =
  ri_MachineID :: string
  ri_InitialMachineID :: string
  ri_GroupID :: string

record Locale =
  lo_CountryName :: string
  lo_CountryAbbr :: string
  lo_LangName :: string
  lo_LangAbbr :: string

record RepKernel =
  rk_Machine :: string
  rk_Name :: string
  rk_Release :: string
  rk_Version :: string
  rk_System :: string

record RepRelease =
  rr_ID :: string
  rr_VersionID :: string
  rr_Version :: string
  rr_Codename :: string
  rr_Family :: string
  rr_BuildID :: string
  rr_ImageID :: string
  rr_ImageVersion :: string

record OperatingSystem =
  ro_Timezone :: string
  ro_Locale :: Locale
  ro_Kernel :: RepKernel
  ro_Release :: RepRelease
  ro_UptimeSeconds :: real

record RepCPU =
  rc_Architecture :: string
  rc_Vendor :: string
  rc_Family :: string
  rc_ModelName :: string
  rc_Model :: string
  rc_Stepping :: string
  rc_SocketCount :: "64 word"
  rc_CoreCount :: "64 word"
  rc_ThreadCount :: "64 word"
  rc_Virtualization :: string
  rc_Hypervisor :: string

record MemorySummary =
  ms_TotalSizeMB :: "64 word"
  ms_CommonType :: string
  ms_CommonFormFactor :: string

record MemoryDevice =
  md_FormFactor :: string
  md_Size :: string
  md_Type :: string
  md_Speed :: string
  md_Manufacturer :: string

record RepMemory =
  rm_Summary :: MemorySummary
  rm_Devices :: "MemoryDevice list"

record RepDisk =
  rd_Name :: string
  rd_Vendor :: string
  rd_Model :: string
  rd_Size :: "64 word"
  rd_ChildrenCount :: nat

record ComputerSystem =
  cs_CPU :: RepCPU
  cs_Memory :: RepMemory
  cs_Disk :: "RepDisk list"

record KubernetesApplication =
  ka_Name :: string
  ka_Version :: string
  ka_AppName :: string
  ka_AppVersion :: string
  ka_AppPartOf :: string
  ka_HelmChart :: string

record Kubernetes =
  k8_Provider :: string
  k8_ServerVersion :: string
  k8_Applications :: "KubernetesApplication list"

record Root =
  rt_Identity :: RepIdentity
  rt_OperatingSystem :: OperatingSystem
  rt_ComputerSystem :: ComputerSystem
  rt_Kubernetes :: Kubernetes

definition zero_Locale :: Locale where
  "zero_Locale = \<lparr>lo_CountryName = [], lo_CountryAbbr = [], lo_LangName = [], lo_LangAbbr = []\<rparr>"

definition zero_Kernel :: RepKernel where
  "zero_Kernel = \<lparr>rk_Machine = [], rk_Name = [], rk_Release = [], rk_Version = [], rk_System = []\<rparr>"

definition zero_Release :: RepRelease where
  "zero_Release = \<lparr>rr_ID = [], rr_VersionID = [], rr_Version = [], rr_Codename = [], rr_Family = [], rr_BuildID = [],
     rr_ImageID = [], rr_ImageVersion = []\<rparr>"

definition zero_CPU :: RepCPU where
  "zero_CPU = \<lparr>rc_Architecture = [], rc_Vendor = [], rc_Family = [], rc_ModelName = [], rc_Model = [], rc_Stepping = [],
     rc_SocketCount = 0, rc_CoreCount = 0, rc_ThreadCount = 0, rc_Virtualization = [], rc_Hypervisor = []\<rparr>"

definition zero_Device :: MemoryDevice where
  "zero_Device = \<lparr>md_FormFactor = [], md_Size = [], md_Type = [], md_Speed = [], md_Manufacturer = []\<rparr>"

definition zero_Memory :: RepMemory where
  "zero_Memory = \<lparr>rm_Summary = \<lparr>ms_TotalSizeMB = 0, ms_CommonType = [], ms_CommonFormFactor = []\<rparr>, rm_Devices = []\<rparr>"

definition zero_Application :: KubernetesApplication where
  "zero_Application = \<lparr>ka_Name = [], ka_Version = [], ka_AppName = [], ka_AppVersion = [], ka_AppPartOf = [], ka_HelmChart = []\<rparr>"

definition InitializeRoot :: Root where
  "InitializeRoot = \<lparr>rt_Identity = \<lparr>ri_MachineID = [], ri_InitialMachineID = [], ri_GroupID = []\<rparr>,
     rt_OperatingSystem = \<lparr>ro_Timezone = [], ro_Locale = zero_Locale, ro_Kernel = zero_Kernel, ro_Release = zero_Release, ro_UptimeSeconds = 0\<rparr>,
     rt_ComputerSystem = \<lparr>cs_CPU = zero_CPU, cs_Memory = zero_Memory, cs_Disk = []\<rparr>,
     rt_Kubernetes = \<lparr>k8_Provider = [], k8_ServerVersion = [], k8_Applications = []\<rparr>\<rparr>"

definition GetKey :: "KubernetesApplication \<Rightarrow> string" where
  "GetKey ka = Join [ka_Name ka, ka_Version ka, ka_AppName ka, ka_AppVersion ka, ka_AppPartOf ka, ka_HelmChart ka] ''|''"

section \<open>What is left out of the message\<close>

definition Locale_IsZero :: "Locale \<Rightarrow> bool" where
  "Locale_IsZero l = (lo_CountryName l = [] \<and> lo_CountryAbbr l = [] \<and> lo_LangName l = [] \<and> lo_LangAbbr l = [])"

definition Kernel_IsZero :: "RepKernel \<Rightarrow> bool" where
  "Kernel_IsZero k = (rk_Machine k = [] \<and> rk_Name k = [] \<and> rk_Release k = [] \<and> rk_Version k = [] \<and> rk_System k = [])"

definition Release_IsZero :: "RepRelease \<Rightarrow> bool" where
  "Release_IsZero r = (rr_ID r = [] \<and> rr_VersionID r = [] \<and> rr_Version r = [] \<and> rr_Codename r = [] \<and> rr_Family r = [] \<and>
     rr_BuildID r = [] \<and> rr_ImageID r = [] \<and> rr_ImageVersion r = [])"

definition OperatingSystem_IsZero :: "OperatingSystem \<Rightarrow> bool" where
  "OperatingSystem_IsZero os = (ro_Timezone os = [] \<and> Locale_IsZero (ro_Locale os) \<and> Kernel_IsZero (ro_Kernel os) \<and>
     Release_IsZero (ro_Release os) \<and> ro_UptimeSeconds os = 0)"

definition CPU_IsZero :: "RepCPU \<Rightarrow> bool" where
  "CPU_IsZero cpu = (rc_Architecture cpu = [] \<and> rc_Vendor cpu = [] \<and> rc_Family cpu = [] \<and> rc_ModelName cpu = [] \<and>
     rc_Model cpu = [] \<and> rc_Stepping cpu = [] \<and> rc_SocketCount cpu = 0 \<and> rc_CoreCount cpu = 0 \<and> rc_ThreadCount cpu = 0 \<and>
     rc_Virtualization cpu = [] \<and> rc_Hypervisor cpu = [])"

definition MemorySummary_IsZero :: "MemorySummary \<Rightarrow> bool" where
  "MemorySummary_IsZero ms = (ms_TotalSizeMB ms = 0 \<and> ms_CommonType ms = [] \<and> ms_CommonFormFactor ms = [])"

definition MemoryDevice_IsZero :: "MemoryDevice \<Rightarrow> bool" where
  "MemoryDevice_IsZero md = (md_FormFactor md = [] \<and> md_Size md = [] \<and> md_Type md = [] \<and> md_Speed md = [] \<and> md_Manufacturer md = [])"

definition Memory_IsZero :: "RepMemory \<Rightarrow> bool" where
  "Memory_IsZero m = (let allDevicesZero = list_all MemoryDevice_IsZero (rm_Devices m) in
     MemorySummary_IsZero (rm_Summary m) \<and> (length (rm_Devices m) = 0 \<or> allDevicesZero))"

definition Disk_IsZero :: "RepDisk \<Rightarrow> bool" where
  "Disk_IsZero d = (rd_Name d = [] \<and> rd_Vendor d = [] \<and> rd_Model d = [] \<and> rd_Size d = 0 \<and> rd_ChildrenCount d = 0)"

definition ComputerSystem_IsZero :: "ComputerSystem \<Rightarrow> bool" where
  "ComputerSystem_IsZero cs = (let allDisksZero = list_all Disk_IsZero (cs_Disk cs) in
     CPU_IsZero (cs_CPU cs) \<and> Memory_IsZero (cs_Memory cs) \<and> (length (cs_Disk cs) = 0 \<or> allDisksZero))"

definition Application_IsZero :: "KubernetesApplication \<Rightarrow> bool" where
  "Application_IsZero ka = (ka_Name ka = [] \<and> ka_Version ka = [] \<and> ka_AppName ka = [] \<and> ka_AppVersion ka = [] \<and>
     ka_AppPartOf ka = [] \<and> ka_HelmChart ka = [])"

definition Kubernetes_IsZero :: "Kubernetes \<Rightarrow> bool" where
  "Kubernetes_IsZero k8s = (let allAppsZero = list_all Application_IsZero (k8_Applications k8s) in
     k8_Provider k8s = [] \<and> k8_ServerVersion k8s = [] \<and> (length (k8_Applications k8s) = 0 \<or> allAppsZero))"

section \<open>Processor, memory and disks\<close>

definition utils_TrimPrefix :: "string \<Rightarrow> string \<Rightarrow> string" where
  "utils_TrimPrefix s p = TrimSpace (TrimPrefix s p)"

text \<open>A number that does not parse is skipped. No label is a prefix of another one.\<close>

definition cpu_count :: "string \<Rightarrow> (64 word \<Rightarrow> RepCPU \<Rightarrow> RepCPU) \<Rightarrow> RepCPU \<Rightarrow> RepCPU" where
  "cpu_count val store cpu = (case ParseUint64 val of None \<Rightarrow> cpu | Some n \<Rightarrow> store n cpu)"

definition cpu_line :: "string \<Rightarrow> RepCPU \<Rightarrow> RepCPU" where
  "cpu_line line cpu = (let attr = TrimSpace line in
     if HasPrefix attr ''Architecture:'' then cpu\<lparr>rc_Architecture := utils_TrimPrefix attr ''Architecture:''\<rparr>
     else if HasPrefix attr ''Vendor ID:'' then cpu\<lparr>rc_Vendor := utils_TrimPrefix attr ''Vendor ID:''\<rparr>
     else if HasPrefix attr ''CPU family:'' then cpu\<lparr>rc_Family := utils_TrimPrefix attr ''CPU family:''\<rparr>
     else if HasPrefix attr ''Model name:'' then cpu\<lparr>rc_ModelName := utils_TrimPrefix attr ''Model name:''\<rparr>
     else if HasPrefix attr ''Model:'' then cpu\<lparr>rc_Model := utils_TrimPrefix attr ''Model:''\<rparr>
     else if HasPrefix attr ''Stepping:'' then cpu\<lparr>rc_Stepping := utils_TrimPrefix attr ''Stepping:''\<rparr>
     else if HasPrefix attr ''Socket(s):'' then cpu_count (utils_TrimPrefix attr ''Socket(s):'') (\<lambda>n c. c\<lparr>rc_SocketCount := n\<rparr>) cpu
     else if HasPrefix attr ''CPU(s):'' then cpu_count (utils_TrimPrefix attr ''CPU(s):'') (\<lambda>n c. c\<lparr>rc_ThreadCount := n\<rparr>) cpu
     else if HasPrefix attr ''Core(s) per socket:'' then cpu_count (utils_TrimPrefix attr ''Core(s) per socket:'') (\<lambda>n c. c\<lparr>rc_CoreCount := n\<rparr>) cpu
     else if HasPrefix attr ''Virtualization type:'' then cpu\<lparr>rc_Virtualization := utils_TrimPrefix attr ''Virtualization type:''\<rparr>
     else if HasPrefix attr ''Hypervisor vendor:'' then cpu\<lparr>rc_Hypervisor := utils_TrimPrefix attr ''Hypervisor vendor:''\<rparr>
     else cpu)"

definition parse_cpu :: "string \<Rightarrow> RepCPU" where
  "parse_cpu out = (let cpu = fold cpu_line (Split out nl) zero_CPU in cpu\<lparr>rc_CoreCount := rc_SocketCount cpu * rc_CoreCount cpu\<rparr>)"

definition reading :: "string \<Rightarrow> 'a \<Rightarrow> 'e host_env_scheme \<Rightarrow> string list \<Rightarrow> (string \<Rightarrow> string option \<times> 'a) \<Rightarrow> ('h host_scheme, string option \<times> 'a) action" where
  "reading msg d env argv parse = andthen (attempt (ReadFromCommand env argv)) (\<lambda>r.
     ret (case r of Inl e \<Rightarrow> (Some (msg @ e), d) | Inr out \<Rightarrow> parse out))"

definition GetCPUData :: "'e host_env_scheme \<Rightarrow> ('h host_scheme, string option \<times> RepCPU) action" where
  "GetCPUData env = reading ''failed to read data from lscpu command: '' zero_CPU env [''lscpu''] (\<lambda>out. (None, parse_cpu out))"

definition device_line :: "string \<Rightarrow> MemoryDevice \<Rightarrow> MemoryDevice" where
  "device_line line0 device = (let line = TrimSpace line0 in
     if HasPrefix line ''Form Factor:'' then device\<lparr>md_FormFactor := utils_TrimPrefix line ''Form Factor:''\<rparr>
     else if HasPrefix line ''Size:'' then device\<lparr>md_Size := utils_TrimPrefix line ''Size:''\<rparr>
     else if HasPrefix line ''Type:'' then device\<lparr>md_Type := utils_TrimPrefix line ''Type:''\<rparr>
     else if HasPrefix line ''Speed:'' then device\<lparr>md_Speed := utils_TrimPrefix line ''Speed:''\<rparr>
     else if HasPrefix line ''Manufacturer:'' then device\<lparr>md_Manufacturer := utils_TrimPrefix line ''Manufacturer:''\<rparr>
     else device)"

text \<open>The state of the loop: the total, the common type and form factor, the flag of the first device, the devices.\<close>

record memory_loop =
  ml_total :: "64 word"
  ml_type :: string
  ml_form :: string
  ml_first :: bool
  ml_devices :: "MemoryDevice list"

definition add_device :: "MemoryDevice \<Rightarrow> memory_loop \<Rightarrow> memory_loop" where
  "add_device device st =
     (let st1 = (case ParseSizeToMB (md_Size device) of Inl _ \<Rightarrow> st | Inr sizeMB \<Rightarrow> st\<lparr>ml_total := ml_total st + sizeMB\<rparr>);
          st2 = st1\<lparr>ml_devices := ml_devices st1 @ [device]\<rparr>
      in if ml_first st2 then st2\<lparr>ml_type := md_Type device, ml_form := md_FormFactor device, ml_first := False\<rparr>
         else let st3 = (if ml_type st2 \<noteq> md_Type device then st2\<lparr>ml_type := []\<rparr> else st2)
              in if ml_form st3 \<noteq> md_FormFactor device then st3\<lparr>ml_form := []\<rparr> else st3)"

definition memory_entry :: "string \<Rightarrow> memory_loop \<Rightarrow> memory_loop" where
  "memory_entry entry st =
     (if \<not> Contains entry ''Memory Device'' then st
      else let device = fold device_line (Split entry nl) zero_Device in
        if md_Size device \<noteq> [] \<and> md_Size device \<noteq> ''No Module Installed'' \<and> md_Size device \<noteq> ''Unknown''
        then add_device device st else st)"

definition memory_start :: memory_loop where
  "memory_start = \<lparr>ml_total = 0, ml_type = [], ml_form = [], ml_first = True, ml_devices = []\<rparr>"

definition parse_memory :: "string \<Rightarrow> RepMemory" where
  "parse_memory out = (let st = fold memory_entry (SplitSep out [nl, nl]) memory_start in
     \<lparr>rm_Summary = \<lparr>ms_TotalSizeMB = ml_total st, ms_CommonType = ml_type st, ms_CommonFormFactor = ml_form st\<rparr>, rm_Devices = ml_devices st\<rparr>)"

definition GetMemoryData :: "'e host_env_scheme \<Rightarrow> ('h host_scheme, string option \<times> RepMemory) action" where
  "GetMemoryData env = reading ''failed to read data from dmidecode command: '' zero_Memory env [''sudo'', ''dmidecode'', ''--type'', ''memory'']
     (\<lambda>out. (None, parse_memory out))"

datatype rep_lsblk = RepLsblk (rl_Name: string) (rl_Vendor: string) (rl_Model: string) (rl_Size: "64 word") (rl_Type: string) (rl_Children: "rep_lsblk list")

definition GetDiskData :: "(string \<Rightarrow> string + rep_lsblk list) \<Rightarrow> 'e host_env_scheme \<Rightarrow> ('h host_scheme, string option \<times> RepDisk list) action" where
  "GetDiskData json env = reading ''failed to read data from lsblk command: '' [] env
     [''lsblk'', ''-o'', ''KNAME,VENDOR,MODEL,SIZE,TYPE'', ''-J'', ''-b'', ''--tree''] (\<lambda>out. case json out of
       Inl e \<Rightarrow> (Some (''failed to unmarshal data: '' @ e), [])
     | Inr ds \<Rightarrow> (None, map (\<lambda>d. \<lparr>rd_Name = rl_Name d, rd_Vendor = rl_Vendor d, rd_Model = rl_Model d, rd_Size = rl_Size d,
         rd_ChildrenCount = length (rl_Children d)\<rparr>) (filter (\<lambda>d. rl_Type d = ''disk'') ds)))"

section \<open>System and network\<close>

definition GetTimezone :: "'e host_env_scheme \<Rightarrow> ('h host_scheme, string option \<times> string) action" where
  "GetTimezone env = reading ''failed to get timezone: '' [] env [''date'', ''+%Z''] (\<lambda>out. (None, TrimSpace out))"

definition locale_line :: "string \<Rightarrow> Locale \<Rightarrow> Locale" where
  "locale_line line l = (case SplitN2 line (CHR ''='') of
     [a, b] \<Rightarrow> (let key = TrimSpace a; val = Trim (TrimSpace b) [CHR 0x22] in
       if key = ''country_name'' then l\<lparr>lo_CountryName := val\<rparr>
       else if key = ''country_ab2'' then l\<lparr>lo_CountryAbbr := val\<rparr>
       else if key = ''lang_name'' then l\<lparr>lo_LangName := val\<rparr>
       else if key = ''lang_ab'' then l\<lparr>lo_LangAbbr := val\<rparr>
       else l)
   | _ \<Rightarrow> l)"

definition GetLocaleData :: "'e host_env_scheme \<Rightarrow> ('h host_scheme, string option \<times> Locale) action" where
  "GetLocaleData env = reading ''failed to get locale data: '' zero_Locale env [''locale'', ''-k'', ''LC_ADDRESS'']
     (\<lambda>out. (None, fold locale_line (Split out nl) zero_Locale))"

text \<open>The fields are filled one after another; the first command that fails ends the list.\<close>

fun uname_fields :: "'e host_env_scheme \<Rightarrow> (string \<times> string \<times> (string \<Rightarrow> RepKernel \<Rightarrow> RepKernel)) list \<Rightarrow> RepKernel \<Rightarrow>
    ('h host_scheme, string option \<times> RepKernel) action" where
  "uname_fields env [] k = ret (None, k)"
| "uname_fields env ((flg, what, store) # fs) k = andthen (attempt (ReadFromCommand env [''uname'', flg])) (\<lambda>r. case r of
     Inl e \<Rightarrow> ret (Some (''failed to get OS information ('' @ what @ ''): '' @ e), k)
   | Inr out \<Rightarrow> uname_fields env fs (store (TrimSpace out) k))"

definition GetKernelData :: "'e host_env_scheme \<Rightarrow> ('h host_scheme, string option \<times> RepKernel) action" where
  "GetKernelData env = uname_fields env
     [(''-m'', ''machine hardware name'', \<lambda>v k. k\<lparr>rk_Machine := v\<rparr>), (''-s'', ''kernel name'', \<lambda>v k. k\<lparr>rk_Name := v\<rparr>),
      (''-r'', ''kernel release'', \<lambda>v k. k\<lparr>rk_Release := v\<rparr>), (''-v'', ''kernel version'', \<lambda>v k. k\<lparr>rk_Version := v\<rparr>),
      (''-o'', ''operating system'', \<lambda>v k. k\<lparr>rk_System := v\<rparr>)] zero_Kernel"

definition release_line :: "string \<Rightarrow> RepRelease \<Rightarrow> RepRelease" where
  "release_line line r = (case SplitN2 line (CHR ''='') of
     [a, b] \<Rightarrow> (let key = TrimSpace a; val = TrimSpace (Trim b [CHR 0x22]) in
       if key = ''ID'' then r\<lparr>rr_ID := val\<rparr>
       else if key = ''VERSION_ID'' then r\<lparr>rr_VersionID := val\<rparr>
       else if key = ''VERSION'' then r\<lparr>rr_Version := val\<rparr>
       else if key = ''VERSION_CODENAME'' then r\<lparr>rr_Codename := val\<rparr>
       else if key = ''ID_LIKE'' then r\<lparr>rr_Family := val\<rparr>
       else if key = ''BUILD_ID'' then r\<lparr>rr_BuildID := val\<rparr>
       else if key = ''IMAGE_ID'' then r\<lparr>rr_ImageID := val\<rparr>
       else if key = ''IMAGE_VERSION'' then r\<lparr>rr_ImageVersion := val\<rparr>
       else r)
   | _ \<Rightarrow> r)"

definition GetReleaseData :: "'e host_env_scheme \<Rightarrow> ('h host_scheme, string option \<times> RepRelease) action" where
  "GetReleaseData env = reading ''failed to read data from /etc/os-release: '' zero_Release env [''cat'', ''/etc/os-release'']
     (\<lambda>out. (None, fold release_line (Split out nl) zero_Release))"

definition GetUptimeData :: "(string \<Rightarrow> string + real) \<Rightarrow> 'e host_env_scheme \<Rightarrow> ('h host_scheme, string option \<times> real) action" where
  "GetUptimeData parseFloat env = reading ''failed to read data from /proc/uptime: '' 0 env [''cat'', ''/proc/uptime'']
     (\<lambda>out. let uptimeStr = TrimSpace out in case Fields uptimeStr of
        [] \<Rightarrow> (Some (''unexpected format in /proc/uptime: '' @ uptimeStr), 0)
      | p # _ \<Rightarrow> (case parseFloat p of Inl e \<Rightarrow> (Some (''failed to parse uptime value: '' @ e), 0) | Inr u \<Rightarrow> (None, u)))"

definition rep_GetSerialNumber :: "'e host_env_scheme \<Rightarrow> ('h host_scheme, string) action" where
  "rep_GetSerialNumber env = andthen (wrap ''failed to get serial number: '' (ReadFromCommand env [''sudo'', ''dmidecode'', ''-s'', ''system-serial-number'']))
     (\<lambda>out. ret (TrimSpace out))"

definition rep_GetSystemUUID :: "'e host_env_scheme \<Rightarrow> ('h host_scheme, string) action" where
  "rep_GetSystemUUID env = andthen (wrap ''failed to get system UUID: '' (ReadFromCommand env [''sudo'', ''dmidecode'', ''-s'', ''system-uuid'']))
     (\<lambda>out. ret (TrimSpace out))"

definition GetNetworkSerials :: "(string \<Rightarrow> string + string list) \<Rightarrow> 'e host_env_scheme \<Rightarrow> ('h host_scheme, string list) action" where
  "GetNetworkSerials json env =
     andthen (wrap ''failed to read network devices: '' (ReadFromCommand env [''sudo'', ''lshw'', ''-json'', ''-class'', ''network''])) (\<lambda>out.
     andthen (wrap ''unable to unmarshal network serials: '' (lift_result (json out))) (\<lambda>serials.
     let serialStrings = filter (\<lambda>s. s \<noteq> []) serials in
     if length serialStrings = 0 then fail ''no network serials found'' else ret serialStrings))"

end
