(* ===== verification/Rep_Collect.thy ===== *)
theory Rep_Collect
  imports Rep_Model "HOL-Library.List_Lexorder" "HOL-Library.Char_ord"
begin

text \<open>
  The Reporting Agent, second part: the cluster of the node (\<^verbatim>\<open>internal/k8s/k8s.go\<close>), the identity
  of the machine (\<^verbatim>\<open>internal/identity/identity.go\<close>) and the collection of the facts
  (\<^verbatim>\<open>internal/collector/collector.go\<close>).

  The decoders of JSON and \<^verbatim>\<open>sha256.Sum256\<close> with \<^verbatim>\<open>hex.EncodeToString\<close> are parameters. A directory
  is a file whose size is not zero. The labels of a resource are a map, or nothing when the
  document has none; reading a missing key of a map gives the empty text.
\<close>

section \<open>Parameters\<close>

record k8s_item =
  it_Namespace :: string
  it_Labels :: "(string \<Rightarrow> string option) option"

record rep_json =
  json_lsblk :: "string \<Rightarrow> string + rep_lsblk list"
  json_serials :: "string \<Rightarrow> string + string list"
  json_version :: "string \<Rightarrow> string option"
  json_resources :: "string \<Rightarrow> string + k8s_item list"
  ParseFloat :: "string \<Rightarrow> string + real"
  sha256_hex :: "string \<Rightarrow> string"

section \<open>The configuration\<close>

record K8sConfig =
  kc_K3sKubectlPath :: string
  kc_K3sKubeConfigPath :: string
  kc_Rke2KubectlPath :: string
  kc_Rke2KubeConfigPath :: string

record BackendConfig =
  bc_MaxTries :: "64 word"

record RepConfig =
  rcf_K8s :: K8sConfig
  rcf_Backend :: BackendConfig

definition rep_setDefaults :: RepConfig where
  "rep_setDefaults = \<lparr>rcf_K8s = \<lparr>kc_K3sKubectlPath = ''/var/lib/rancher/k3s/bin/k3s kubectl'', kc_K3sKubeConfigPath = ''/etc/rancher/k3s/k3s.yaml'',
       kc_Rke2KubectlPath = ''/var/lib/rancher/rke2/bin/kubectl'', kc_Rke2KubeConfigPath = ''/etc/rancher/rke2/rke2.yaml''\<rparr>,
     rcf_Backend = \<lparr>bc_MaxTries = 20\<rparr>\<rparr>"

section \<open>Kubernetes\<close>

record kube =
  kb_kubectlPath :: string
  kb_kubectlArgs :: "string list"
  kb_kubeconfigPath :: string
  kb_provider :: string

definition rep_fileExists :: "path \<Rightarrow> string \<Rightarrow> disk \<Rightarrow> bool" where
  "rep_fileExists dir p d = (case resolve True False 40 (tree d) [] (components dir p) of Inl _ \<Rightarrow> False | Inr q \<Rightarrow> node_at d q \<noteq> None)"

definition splitKubectlPath :: "string \<Rightarrow> string \<times> string list" where
  "splitKubectlPath p = (case Fields p of [] \<Rightarrow> ([], []) | x # xs \<Rightarrow> (x, xs))"

fun first_kube :: "path \<Rightarrow> disk \<Rightarrow> (string \<times> string \<times> string) list \<Rightarrow> kube option" where
  "first_kube dir d [] = None"
| "first_kube dir d ((kubectl, kubeConfig, provider) # cs) = (case splitKubectlPath kubectl of (kubectlPath, kubectlArgs) \<Rightarrow>
     if kubectlPath \<noteq> [] \<and> rep_fileExists dir kubectlPath d \<and> rep_fileExists dir kubeConfig d
     then Some \<lparr>kb_kubectlPath = kubectlPath, kb_kubectlArgs = kubectlArgs, kb_kubeconfigPath = kubeConfig, kb_provider = provider\<rparr>
     else first_kube dir d cs)"

definition getKube :: "path \<Rightarrow> K8sConfig \<Rightarrow> disk \<Rightarrow> kube option" where
  "getKube dir cfg d = first_kube dir d
     [(kc_K3sKubectlPath cfg, kc_K3sKubeConfigPath cfg, ''k3s''), (kc_Rke2KubectlPath cfg, kc_Rke2KubeConfigPath cfg, ''rke2'')]"

definition excludedNamespaces :: "string list" where
  "excludedNamespaces = [''akri'', ''calico-system'', ''cattle-fleet-system'', ''cattle-impersonation-system'', ''cattle-system'',
     ''cattle-ui-plugin-system'', ''cdi'', ''cert-manager'', ''default'', ''east'', ''edge-system'', ''gatekeeper-system'',
     ''ingress-nginx'', ''intel-gpu-extension'', ''interconnect'', ''istio-operator'', ''istio-system'', ''kube-node-lease'',
     ''kube-public'', ''kube-system'', ''kubevirt'', ''local'', ''metallb-system'', ''nfd'', ''observability'', ''openebs'',
     ''orchestrator-system'', ''sriov-network-operator'', ''tigera-operator'', ''west'']"

definition label_of :: "(string \<Rightarrow> string option) \<Rightarrow> string \<Rightarrow> string" where
  "label_of labels k = (case labels k of None \<Rightarrow> [] | Some v \<Rightarrow> v)"

text \<open>What is made of the labels, when one of the two mandatory labels is there.\<close>

definition application_of :: "(string \<Rightarrow> string option) \<Rightarrow> KubernetesApplication option" where
  "application_of labels =
     (let name = label_of labels ''com.intel.edgeplatform.application.name'';
          version = label_of labels ''com.intel.edgeplatform.application.version'';
          appName = label_of labels ''app.kubernetes.io/name'';
          appVersion = label_of labels ''app.kubernetes.io/version'';
          appPartOf = label_of labels ''app.kubernetes.io/part-of'';
          helmChart = label_of labels ''helm.sh/chart'';
          a1 = (if name \<noteq> [] then zero_Application\<lparr>ka_Name := name, ka_Version := version\<rparr> else zero_Application);
          a2 = (if appName \<noteq> [] then a1\<lparr>ka_AppName := appName, ka_AppVersion := appVersion, ka_AppPartOf := appPartOf, ka_HelmChart := helmChart\<rparr>
                else a1)
      in if name \<noteq> [] \<or> appName \<noteq> [] then Some a2 else None)"

definition add_item :: "k8s_item \<Rightarrow> string set \<times> KubernetesApplication list \<Rightarrow> string set \<times> KubernetesApplication list" where
  "add_item item st =
     (if it_Namespace item \<in> set excludedNamespaces then st
      else case it_Labels item of None \<Rightarrow> st
      | Some labels \<Rightarrow> (case application_of labels of None \<Rightarrow> st
        | Some application \<Rightarrow> (case st of (uniqueApplications, applications) \<Rightarrow>
            let key = GetKey application in
            if key \<in> uniqueApplications then st else (insert key uniqueApplications, applications @ [application]))))"

definition parseApplications :: "rep_json \<Rightarrow> string \<Rightarrow> string option \<times> KubernetesApplication list" where
  "parseApplications js jsonData = (case json_resources js jsonData of
     Inl e \<Rightarrow> (Some (''failed to unmarshal Kubernetes resources data: '' @ e), [])
   | Inr items \<Rightarrow> (None, snd (fold add_item items ({}, []))))"

definition parseServerVersion :: "rep_json \<Rightarrow> string \<Rightarrow> string" where
  "parseServerVersion js jsonData = (case json_version js jsonData of None \<Rightarrow> [] | Some v \<Rightarrow> v)"

definition zero_Kubernetes :: Kubernetes where
  "zero_Kubernetes = \<lparr>k8_Provider = [], k8_ServerVersion = [], k8_Applications = []\<rparr>"

definition GetKubernetesData :: "rep_json \<Rightarrow> 'e host_env_scheme \<Rightarrow> K8sConfig \<Rightarrow> ('h host_scheme, string option \<times> Kubernetes) action" where
  "GetKubernetesData js env k8sCfg = andthen (asks (\<lambda>w. getKube (host_cwd env) k8sCfg (disk w))) (\<lambda>found. case found of
     None \<Rightarrow> ret (Some ''failed to get Kubernetes config: no valid kubeconfig and kubectl files found'', zero_Kubernetes)
   | Some kube \<Rightarrow>
       let k1 = zero_Kubernetes\<lparr>k8_Provider := kb_provider kube\<rparr>;
           command = (\<lambda>args. kb_kubectlPath kube # kb_kubectlArgs kube @ [''--kubeconfig'', kb_kubeconfigPath kube] @ args) in
       andthen (attempt (ReadFromCommand env (command [''version'', ''-o'', ''json'']))) (\<lambda>r. case r of
         Inl e \<Rightarrow> ret (Some (''failed to get Kubernetes server version: '' @ e), k1)
       | Inr serverVersionBytes \<Rightarrow>
           let k2 = k1\<lparr>k8_ServerVersion := parseServerVersion js serverVersionBytes\<rparr> in
           andthen (attempt (ReadFromCommand env (command [''get'', ''deployments,statefulsets,daemonsets'', ''-A'', ''-o'', ''json'']))) (\<lambda>r. case r of
             Inl e \<Rightarrow> ret (Some (''failed to get Kubernetes resources: '' @ e), k2)
           | Inr applicationsBytes \<Rightarrow> (case parseApplications js applicationsBytes of (err, apps) \<Rightarrow>
               ret (map_option (\<lambda>e. ''failed to parse Kubernetes applications: '' @ e) err, k2\<lparr>k8_Applications := apps\<rparr>)))))"

section \<open>The identity of the machine\<close>

record identity_paths =
  metricsPath :: string
  machineIDPath :: string
  initialMachineIDFilePath :: string
  groupIDFilePath :: string
  currentMachineIDFilePath :: string

definition NewIdentity :: identity_paths where
  "NewIdentity = \<lparr>metricsPath = ''/etc/edge-node/metrics'', machineIDPath = ''/var/lib/edge-node'',
     initialMachineIDFilePath = filepath_Join ''/etc/edge-node/metrics'' ''machine_id'',
     groupIDFilePath = filepath_Join ''/etc/edge-node/metrics'' ''group_id'',
     currentMachineIDFilePath = filepath_Join ''/var/lib/edge-node'' ''metrics''\<rparr>"

text \<open>\<^verbatim>\<open>os.Stat\<close>: whether the file is empty.\<close>

definition stat_empty :: "path \<Rightarrow> string \<Rightarrow> disk \<Rightarrow> walk_error + bool" where
  "stat_empty dir p d = (case resolve True False 40 (tree d) [] (components dir p) of
     Inl e \<Rightarrow> Inl e
   | Inr q \<Rightarrow> (case node_at d q of None \<Rightarrow> Inl ENOENT | Some (Regular c) \<Rightarrow> Inr (c = []) | Some Directory \<Rightarrow> Inr False | Some _ \<Rightarrow> Inr True))"

definition GetGroupID :: "path \<Rightarrow> identity_paths \<Rightarrow> (disk, string) action" where
  "GetGroupID dir idt = andthen (asks (stat_empty dir (groupIDFilePath idt))) (\<lambda>st. case st of
     Inl _ \<Rightarrow> fail ''failed to get group ID file stat''
   | Inr no_data \<Rightarrow> if no_data then fail ''group ID file is empty''
       else wrap ''failed to read group ID file: '' (ReadFileTrimmed dir (groupIDFilePath idt)))"

definition CalculateMachineID :: "rep_json \<Rightarrow> 'e host_env_scheme \<Rightarrow> ('h host_scheme, string) action" where
  "CalculateMachineID js env =
     andthen (wrap ''failed to get system UUID: '' (rep_GetSystemUUID env)) (\<lambda>systemUUID.
     andthen (wrap ''failed to get system serial number: '' (rep_GetSerialNumber env)) (\<lambda>systemSerial.
     andthen (wrap ''failed to get network serials: '' (GetNetworkSerials (json_serials js) env)) (\<lambda>networkSerials.
     ret (sha256_hex js (systemUUID @ systemSerial @ concat (sort networkSerials))))))"

text \<open>The result is the error, if there is one, and the initial machine id.\<close>

definition save_current :: "path \<Rightarrow> identity_paths \<Rightarrow> string \<Rightarrow> string \<Rightarrow> (disk, string option \<times> string) action" where
  "save_current dir idt machineIDHash initialMachineID =
     andthen (attempt (host_MkdirAll dir (machineIDPath idt))) (\<lambda>r. case r of
       Inl e \<Rightarrow> ret (Some (''failed to create current machine ID directory: '' @ e), initialMachineID)
     | Inr _ \<Rightarrow> andthen (attempt (disk_WriteFile dir (currentMachineIDFilePath idt) machineIDHash)) (\<lambda>r. case r of
         Inl e \<Rightarrow> ret (Some (''failed to write current machine ID: '' @ e), initialMachineID)
       | Inr _ \<Rightarrow> ret (None, initialMachineID)))"

definition SaveMachineIDs :: "path \<Rightarrow> identity_paths \<Rightarrow> string \<Rightarrow> (disk, string option \<times> string) action" where
  "SaveMachineIDs dir idt machineIDHash =
     andthen (attempt (host_MkdirAll dir (metricsPath idt))) (\<lambda>r. case r of
       Inl e \<Rightarrow> ret (Some (''failed to create metrics ID directory: '' @ e), [])
     | Inr _ \<Rightarrow> andthen (asks (stat_empty dir (initialMachineIDFilePath idt))) (\<lambda>st.
         if (case st of Inl e \<Rightarrow> e \<noteq> ENOENT | Inr _ \<Rightarrow> False) then ret (Some ''failed to get initial machine ID file stat'', [])
         else andthen (if (case st of Inl _ \<Rightarrow> True | Inr no_data \<Rightarrow> no_data)
                then attempt (disk_WriteFile dir (initialMachineIDFilePath idt) machineIDHash) else ret (Inr ())) (\<lambda>r. case r of
             Inl e \<Rightarrow> ret (Some (''failed to write initial machine ID: '' @ e), [])
           | Inr _ \<Rightarrow> andthen (attempt (ReadFileTrimmed dir (initialMachineIDFilePath idt))) (\<lambda>r. case r of
               Inl e \<Rightarrow> ret (Some (''failed to read initial machine ID: '' @ e), [])
             | Inr initialMachineID \<Rightarrow> save_current dir idt machineIDHash initialMachineID))))"

section \<open>The collector\<close>

text \<open>An error is logged; the value beside it is stored.\<close>

definition collectIdentity :: "rep_json \<Rightarrow> 'e host_env_scheme \<Rightarrow> Root \<Rightarrow> ('h host_scheme, Root) action" where
  "collectIdentity js env data =
     andthen (attempt (on_disk (GetGroupID (host_cwd env) NewIdentity))) (\<lambda>g.
     andthen (attempt (CalculateMachineID js env)) (\<lambda>m. let machineID = (case m of Inl _ \<Rightarrow> [] | Inr i \<Rightarrow> i) in
     andthen (on_disk (SaveMachineIDs (host_cwd env) NewIdentity machineID)) (\<lambda>(err, initialMachineID).
     ret (data\<lparr>rt_Identity := \<lparr>ri_MachineID = machineID, ri_InitialMachineID = initialMachineID,
       ri_GroupID = (case g of Inl _ \<Rightarrow> [] | Inr i \<Rightarrow> i)\<rparr>\<rparr>))))"

definition CollectData :: "rep_json \<Rightarrow> 'e host_env_scheme \<Rightarrow> RepConfig \<Rightarrow> ('h host_scheme, Root) action" where
  "CollectData js env cfg =
     andthen (GetTimezone env) (\<lambda>(_, tz). andthen (GetLocaleData env) (\<lambda>(_, loc).
     andthen (GetKernelData env) (\<lambda>(_, kern). andthen (GetReleaseData env) (\<lambda>(_, rel).
     andthen (GetUptimeData (ParseFloat js) env) (\<lambda>(_, up). andthen (GetCPUData env) (\<lambda>(_, cpu).
     andthen (GetMemoryData env) (\<lambda>(_, mem). andthen (GetDiskData (json_lsblk js) env) (\<lambda>(_, dsk).
     andthen (GetKubernetesData js env (rcf_K8s cfg)) (\<lambda>(_, k8s).
     collectIdentity js env (InitializeRoot
       \<lparr>rt_OperatingSystem := \<lparr>ro_Timezone = tz, ro_Locale = loc, ro_Kernel = kern, ro_Release = rel, ro_UptimeSeconds = up\<rparr>,
        rt_ComputerSystem := \<lparr>cs_CPU = cpu, cs_Memory = mem, cs_Disk = dsk\<rparr>,
        rt_Kubernetes := k8s\<rparr>))))))))))"

definition CollectDataShort :: "rep_json \<Rightarrow> 'e host_env_scheme \<Rightarrow> RepConfig \<Rightarrow> ('h host_scheme, Root) action" where
  "CollectDataShort js env cfg =
     andthen (GetUptimeData (ParseFloat js) env) (\<lambda>(_, up). andthen (GetKubernetesData js env (rcf_K8s cfg)) (\<lambda>(_, k8s).
     collectIdentity js env (InitializeRoot
       \<lparr>rt_OperatingSystem := (rt_OperatingSystem InitializeRoot)\<lparr>ro_UptimeSeconds := up\<rparr>, rt_Kubernetes := k8s\<rparr>)))"

end
