(* ===== verification/Rep_Send.thy ===== *)
theory Rep_Send
  imports Rep_Collect Go_Url
begin

text \<open>
  The Reporting Agent, third part: the configuration (\<^verbatim>\<open>internal/config/config.go\<close>), what is sent to
  the backend (\<^verbatim>\<open>internal/sender/sender.go\<close>) and the run of \<^verbatim>\<open>cmd/reporting-agent.go\<close>.

  The state adds to the host the requests that were sent and the audit log. \<^verbatim>\<open>viper\<close>, the encoders
  of JSON and what the backend answers are parameters. \<^verbatim>\<open>backoff.Retry\<close> tries at most
  \<^verbatim>\<open>MaxTries\<close> times, where zero means no bound, and gives up earlier when its time is over; how many
  times it tries again is the parameter \<open>attempts_left\<close> of the host, cut to one less than the bound.
\<close>

section \<open>State and parameters\<close>

record http_post =
  hp_URL :: string
  hp_ContentType :: string
  hp_OrgID :: string
  hp_Username :: string
  hp_Password :: string
  hp_Body :: string

record rep_host = host +
  http_sent :: "http_post list"
  audit_log :: "string list"

record loki_stream =
  lk_service_name :: string
  lk_group_id :: string
  lk_time :: string
  lk_line :: string

record rep_env = host_env +
  decoders :: rep_json
  Marshal_root :: "Root \<Rightarrow> string + string"
  Marshal_payload :: "loki_stream \<Rightarrow> string + string"
  NewRequest_error :: "string \<Rightarrow> string option"
  http_Do :: "nat \<Rightarrow> http_post \<Rightarrow> string + nat"
  viper_Read :: "string \<Rightarrow> disk \<Rightarrow> string + (string + RepConfig)"

section \<open>Configuration\<close>

definition rep_Load :: "rep_env \<Rightarrow> string \<Rightarrow> ('h host_scheme, RepConfig) action" where
  "rep_Load env configPath =
     (let defCfg = rep_setDefaults in
      if configPath = [] then ret defCfg
      else andthen (asks (\<lambda>w. viper_Read env configPath (disk w))) (\<lambda>r. case r of
        Inl _ \<Rightarrow> ret defCfg
      | Inr (Inl _) \<Rightarrow> ret defCfg
      | Inr (Inr cfg) \<Rightarrow> ret cfg))"

section \<open>The sender\<close>

definition readEndpointURL :: "rep_env \<Rightarrow> string \<Rightarrow> ('h host_scheme, string) action" where
  "readEndpointURL env endpointPath =
     andthen (wrap ''failed to read endpoint file: '' (on_disk (ReadFileTrimmed (host_cwd env) endpointPath))) (\<lambda>endpoint.
     andthen (wrap ''invalid endpoint URL: '' (lift_result (url_ParseRequestURI endpoint))) (\<lambda>parsed.
     if Scheme parsed \<noteq> ''https'' then fail (''invalid endpoint scheme: '' @ Scheme parsed @ '' (only https is allowed)'')
     else if Host parsed = [] then fail (''invalid endpoint URL, missing host: '' @ endpoint)
     else ret endpoint))"

definition readAuthCredentials :: "rep_env \<Rightarrow> string \<Rightarrow> ('h host_scheme, string \<times> string) action" where
  "readAuthCredentials env tokenPath =
     andthen (wrap ''failed to read token file: '' (on_disk (ReadFileTrimmed (host_cwd env) tokenPath))) (\<lambda>creds.
     case SplitN2 creds (CHR '':'') of
       [a, b] \<Rightarrow>
         if length a = 0 \<or> length b = 0 then fail ''username or password cannot be empty''
         else if length a > 256 then fail ''username too long (max 256 characters)''
         else if length b > 256 then fail ''password too long (max 256 characters)''
         else ret (a, b)
     | _ \<Rightarrow> fail ''invalid token format, expected username:password'')"

definition buildPayload :: "rep_env \<Rightarrow> Root \<Rightarrow> ('h host_scheme, string) action" where
  "buildPayload env data =
     andthen (wrap ''failed to marshal data for backend: '' (lift_result (Marshal_root env data))) (\<lambda>logJSON.
     andthen (time_Now env) (\<lambda>now.
     wrap ''failed to marshal backend payload: '' (lift_result (Marshal_payload env
       \<lparr>lk_service_name = ''reporting-service'', lk_group_id = ri_GroupID (rt_Identity data), lk_time = show_int now, lk_line = logJSON\<rparr>))))"

definition send_op :: "rep_env \<Rightarrow> string \<Rightarrow> string \<Rightarrow> string \<Rightarrow> string \<Rightarrow> (rep_host, nat) action" where
  "send_op env endpoint username password payload = (case NewRequest_error env endpoint of
     Some e \<Rightarrow> fail (''failed to create backend request: '' @ e)
   | None \<Rightarrow> let req = \<lparr>hp_URL = endpoint, hp_ContentType = ''application/json'', hp_OrgID = ''reporting-v1'', hp_Username = username,
         hp_Password = password, hp_Body = payload\<rparr> in
       andthen (modify (\<lambda>w. w\<lparr>http_sent := http_sent w @ [req]\<rparr>)) (\<lambda>_.
       andthen (wrap ''failed to send request to backend: '' (andthen (tick env 0 (\<lambda>n. http_Do env n req)) lift_result)) (\<lambda>code.
       if code < 200 \<or> code \<ge> 300 then fail ''non-2xx status returned'' else ret code)))"

definition sendRequest :: "rep_env \<Rightarrow> string \<Rightarrow> string \<Rightarrow> string \<Rightarrow> string \<Rightarrow> BackendConfig \<Rightarrow> (rep_host, unit) action" where
  "sendRequest env endpoint username password payload backendCfg = andthen (asks interactions) (\<lambda>n.
     let retries = (if bc_MaxTries backendCfg = 0 then attempts_left env n else min (unat (bc_MaxTries backendCfg) - 1) (attempts_left env n)) in
     andthen (wrap ''failed to send payload after retries: '' (retry retries (send_op env endpoint username password payload))) (\<lambda>_.
     modify (\<lambda>w. w\<lparr>audit_log := audit_log w @ [payload]\<rparr>)))"

definition rep_Send :: "rep_env \<Rightarrow> string \<Rightarrow> string \<Rightarrow> RepConfig \<Rightarrow> Root \<Rightarrow> (rep_host, unit) action" where
  "rep_Send env endpointPath tokenPath cfg data =
     andthen (readEndpointURL env endpointPath) (\<lambda>endpoint.
     andthen (readAuthCredentials env tokenPath) (\<lambda>(username, password).
     andthen (buildPayload env data) (\<lambda>payload.
     sendRequest env endpoint username password payload (rcf_Backend cfg))))"

section \<open>The run\<close>

text \<open>The durations are only logged.\<close>

definition runAgent :: "rep_env \<Rightarrow> string \<Rightarrow> bool \<Rightarrow> (rep_host, unit) action" where
  "runAgent env configPath shortMode =
     andthen (time_Now env) (\<lambda>start.
     andthen (rep_Load env configPath) (\<lambda>cfg.
     andthen (if shortMode then CollectDataShort (decoders env) env cfg else CollectData (decoders env) env cfg) (\<lambda>dataCollected.
     andthen (time_Now env) (\<lambda>_.
     ignore (rep_Send env ''/etc/edge-node/metrics/endpoint'' ''/etc/edge-node/metrics/token'' cfg dataCollected)))))"

end
