(* ===== verification/Rep_Laws.thy ===== *)
theory Rep_Laws
  imports Rep_Send
begin

text \<open>
  What the Reporting Agent keeps: the summary of the memory, the list of the applications, the ids
  of the machine on the disk, and the requests that leave the node.
\<close>

section \<open>Memory\<close>

definition common_value :: "string list \<Rightarrow> string" where
  "common_value xs = (case xs of [] \<Rightarrow> [] | x # ys \<Rightarrow> if \<forall>y \<in> set ys. y = x then x else [])"

definition size_MB :: "MemoryDevice \<Rightarrow> 64 word" where
  "size_MB d = (case ParseSizeToMB (md_Size d) of Inl _ \<Rightarrow> 0 | Inr n \<Rightarrow> n)"

definition memory_summary :: "MemoryDevice list \<Rightarrow> memory_loop" where
  "memory_summary ds = \<lparr>ml_total = sum_list (map size_MB ds), ml_type = common_value (map md_Type ds),
     ml_form = common_value (map md_FormFactor ds), ml_first = (ds = []), ml_devices = ds\<rparr>"

lemma common_value_snoc:
  "xs \<noteq> [] \<Longrightarrow> common_value (xs @ [y]) = (if common_value xs \<noteq> y then [] else y)"
  by (cases xs) (auto simp: common_value_def)

lemma add_device_summary: "add_device d (memory_summary ds) = memory_summary (ds @ [d])"
proof (cases "ds = []")
  case True
  then show ?thesis
    by (auto simp: add_device_def memory_summary_def size_MB_def common_value_def split: sum.split)
next
  case False
  then show ?thesis
    using common_value_snoc [of "map md_Type ds" "md_Type d"] common_value_snoc [of "map md_FormFactor ds" "md_FormFactor d"]
    by (auto simp: add_device_def memory_summary_def size_MB_def Let_def split: sum.split)
qed

lemma fold_add_device: "fold add_device ds (memory_summary es) = memory_summary (es @ ds)"
  by (induction ds arbitrary: es) (simp_all add: add_device_summary)

definition device_of :: "string \<Rightarrow> MemoryDevice" where
  "device_of entry = fold device_line (Split entry nl) zero_Device"

definition has_module :: "MemoryDevice \<Rightarrow> bool" where
  "has_module d = (md_Size d \<notin> {[], ''No Module Installed'', ''Unknown''})"

definition memory_devices :: "string \<Rightarrow> MemoryDevice list" where
  "memory_devices out = filter has_module (map device_of (filter (\<lambda>e. Contains e ''Memory Device'') (SplitSep out [nl, nl])))"

lemma memory_entries:
  "fold memory_entry es st = fold add_device (filter has_module (map device_of (filter (\<lambda>e. Contains e ''Memory Device'') es))) st"
  by (induction es arbitrary: st) (auto simp: memory_entry_def Let_def has_module_def device_of_def)

text \<open>C34: The memory that is reported: the devices are those of the entries of dmidecode that have a
  module, in their order; the size is the sum of the sizes that parse, modulo 2^64; the type and
  the form factor are those of all the devices, or nothing when two devices differ.\<close>

theorem parse_memory_summary:
  "parse_memory out = (let ds = memory_devices out in
     \<lparr>rm_Summary = \<lparr>ms_TotalSizeMB = sum_list (map size_MB ds), ms_CommonType = common_value (map md_Type ds),
        ms_CommonFormFactor = common_value (map md_FormFactor ds)\<rparr>, rm_Devices = ds\<rparr>)"
proof -
  have start: "memory_start = memory_summary []" by (simp add: memory_start_def memory_summary_def common_value_def)
  show ?thesis
    by (simp add: parse_memory_def Let_def start memory_entries fold_add_device memory_devices_def [symmetric])
       (simp add: memory_summary_def)
qed

section \<open>Empty parts of the message\<close>

text \<open>A part is left out of the message when it is the initial one.\<close>

lemma IsZero_initial:
  "OperatingSystem_IsZero os \<longleftrightarrow> os = rt_OperatingSystem InitializeRoot"
  "CPU_IsZero cpu \<longleftrightarrow> cpu = zero_CPU" "MemoryDevice_IsZero d \<longleftrightarrow> d = zero_Device"
  "Application_IsZero a \<longleftrightarrow> a = zero_Application"
  by (cases os; auto simp: OperatingSystem_IsZero_def InitializeRoot_def Locale_IsZero_def Kernel_IsZero_def Release_IsZero_def
        zero_Locale_def zero_Kernel_def zero_Release_def)
     (cases cpu; cases d; cases a; auto simp: CPU_IsZero_def zero_CPU_def MemoryDevice_IsZero_def zero_Device_def
        Application_IsZero_def zero_Application_def)+

section \<open>Applications\<close>

definition fields_of :: "KubernetesApplication \<Rightarrow> string list" where
  "fields_of a = [ka_Name a, ka_Version a, ka_AppName a, ka_AppVersion a, ka_AppPartOf a, ka_HelmChart a]"

definition plain_fields :: "KubernetesApplication \<Rightarrow> bool" where
  "plain_fields a = (\<forall>f \<in> set (fields_of a). CHR ''|'' \<notin> set f)"

lemma GetKey_inject:
  assumes "plain_fields a" "plain_fields b" "GetKey a = GetKey b"
  shows "a = b"
proof -
  have "Split (GetKey x) (CHR ''|'') = fields_of x" if "plain_fields x" for x
    unfolding GetKey_def fields_of_def [symmetric]
    by (rule Split_Join) (use that in \<open>auto simp: plain_fields_def fields_of_def\<close>)
  then have "fields_of a = fields_of b" using assms by metis
  then show ?thesis by (cases a; cases b) (simp add: fields_of_def)
qed

definition candidate :: "k8s_item \<Rightarrow> KubernetesApplication option" where
  "candidate item = (if it_Namespace item \<in> set excludedNamespaces then None
     else case it_Labels item of None \<Rightarrow> None | Some labels \<Rightarrow> application_of labels)"

text \<open>The first element of every key, in the order of the list.\<close>

fun first_by :: "('a \<Rightarrow> 'k) \<Rightarrow> 'a list \<Rightarrow> 'a list" where
  "first_by f [] = []"
| "first_by f (x # xs) = x # filter (\<lambda>y. f y \<noteq> f x) (first_by f xs)"

lemma first_by_set: "set (first_by f xs) \<subseteq> set xs"
  by (induction xs) auto

lemma first_by_distinct: "distinct (map f (first_by f xs))"
  by (induction xs) (auto simp: distinct_map inj_on_def)

lemma first_by_keys: "f ` set (first_by f xs) = f ` set xs"
proof (induction xs)
  case (Cons x xs)
  have "f ` set (filter (\<lambda>y. f y \<noteq> f x) ys) = f ` set ys - {f x}" for ys by auto
  with Cons show ?case by auto
qed simp

lemma add_item_candidate:
  "add_item item (ks, as) = (case candidate item of None \<Rightarrow> (ks, as)
     | Some a \<Rightarrow> if GetKey a \<in> ks then (ks, as) else (insert (GetKey a) ks, as @ [a]))"
  by (auto simp: add_item_def candidate_def Let_def split: option.split)

lemma fold_add_item:
  "fold add_item items (ks, as) = (ks \<union> GetKey ` set (List.map_filter candidate items),
     as @ filter (\<lambda>a. GetKey a \<notin> ks) (first_by GetKey (List.map_filter candidate items)))"
proof (induction items arbitrary: ks as)
  case (Cons item items)
  have f: "List.map_filter candidate (item # items) = (case candidate item of None \<Rightarrow> [] | Some a \<Rightarrow> [a]) @ List.map_filter candidate items"
    by (simp add: List.map_filter_simps split: option.split)
  show ?case
  proof (cases "candidate item")
    case (Some a)
    have g: "filter (\<lambda>b. GetKey b \<notin> insert (GetKey a) ks) xs = filter (\<lambda>b. GetKey b \<notin> ks) (filter (\<lambda>b. GetKey b \<noteq> GetKey a) xs)"
      "GetKey a \<in> ks \<Longrightarrow> filter (\<lambda>b. GetKey b \<notin> ks \<and> GetKey b \<noteq> GetKey a) xs = filter (\<lambda>b. GetKey b \<notin> ks) xs" for xs
      by (auto intro: filter_cong)
    show ?thesis
    proof (cases "GetKey a \<in> ks")
      case True
      with Some f Cons show ?thesis by (auto simp: add_item_candidate intro: filter_cong)
    next
      case False
      with Some f Cons g(1) show ?thesis by (auto simp: add_item_candidate)
    qed
  qed (use f Cons in \<open>simp add: add_item_candidate\<close>)
qed (simp add: List.map_filter_simps)

lemma parseApplications_first:
  "json_resources js out = Inr items \<Longrightarrow>
   parseApplications js out = (None, first_by GetKey (List.map_filter candidate items))"
  by (simp add: parseApplications_def fold_add_item)

lemma map_filter_set: "set (List.map_filter f xs) = {y. \<exists>x \<in> set xs. f x = Some y}"
  by (induction xs) (auto simp: List.map_filter_simps split: option.splits)

text \<open>C35: The applications of the cluster: each one once, in the order of their first resources, and
  exactly those that a resource with one of the two mandatory labels outside of the excluded
  namespaces describes, as long as no label contains the separator of the key.\<close>

theorem parseApplications_exact:
  assumes "json_resources js out = Inr items"
    and "\<forall>item \<in> set items. \<forall>a. candidate item = Some a \<longrightarrow> plain_fields a"
  shows "\<exists>apps. parseApplications js out = (None, apps) \<and> distinct apps \<and>
     set apps = {a. \<exists>item \<in> set items. candidate item = Some a} \<and>
     apps = first_by (\<lambda>a. a) (List.map_filter candidate items)"
proof -
  let ?cs = "List.map_filter candidate items"
  have plain: "plain_fields a" if "a \<in> set ?cs" for a using that assms(2) by (auto simp: map_filter_set)
  have inj: "inj_on GetKey (set ?cs)" using GetKey_inject plain by (auto intro: inj_onI)
  have same: "inj_on f (set xs) \<Longrightarrow> first_by f xs = first_by (\<lambda>a. a) xs" for f :: "KubernetesApplication \<Rightarrow> string" and xs
  proof (induction xs)
    case (Cons x xs)
    then have "first_by f xs = first_by (\<lambda>a. a) xs" by (simp add: inj_on_insert)
    moreover have "filter (\<lambda>y. f y \<noteq> f x) (first_by (\<lambda>a. a) xs) = filter (\<lambda>y. y \<noteq> x) (first_by (\<lambda>a. a) xs)"
      using Cons.prems first_by_set [of "\<lambda>a. a" xs] by (intro filter_cong) (auto simp: inj_on_def)
    ultimately show ?case by simp
  qed simp
  have "set (first_by (\<lambda>a. a) ?cs) = set ?cs" using first_by_keys [of "\<lambda>a. a" ?cs] by simp
  then show ?thesis
    using parseApplications_first [OF assms(1)] same [OF inj] first_by_distinct [of "\<lambda>a. a" ?cs]
    by (simp add: map_filter_set)
qed

definition demo_items :: "k8s_item list" where
  "demo_items = [\<lparr>it_Namespace = ''default'', it_Labels = Some [''app.kubernetes.io/name'' \<mapsto> ''hidden'']\<rparr>,
     \<lparr>it_Namespace = ''shop'', it_Labels = Some [''app.kubernetes.io/name'' \<mapsto> ''web'']\<rparr>,
     \<lparr>it_Namespace = ''shop'', it_Labels = None\<rparr>,
     \<lparr>it_Namespace = ''shop'', it_Labels = Some [''app.kubernetes.io/name'' \<mapsto> ''web'', ''tier'' \<mapsto> ''front'']\<rparr>]"

definition demo_rep_json :: rep_json where
  "demo_rep_json = \<lparr>json_lsblk = (\<lambda>_. Inr []), json_serials = (\<lambda>_. Inr []), json_version = (\<lambda>_. None),
     json_resources = (\<lambda>_. Inr demo_items), ParseFloat = (\<lambda>_. Inr 0), sha256_hex = (\<lambda>s. s)\<rparr>"

lemma parseApplications_exact_witness:
  "parseApplications demo_rep_json ''{}'' = (None, [zero_Application\<lparr>ka_AppName := ''web''\<rparr>])"
proof -
  have c: "map candidate demo_items = [None, Some (zero_Application\<lparr>ka_AppName := ''web''\<rparr>), None, Some (zero_Application\<lparr>ka_AppName := ''web''\<rparr>)]"
    by code_simp
  then have "candidate item \<in> {None, Some (zero_Application\<lparr>ka_AppName := ''web''\<rparr>)}" if "item \<in> set demo_items" for item
  proof -
    have "candidate item \<in> set (map candidate demo_items)" using that by simp
    then show ?thesis unfolding c by auto
  qed
  moreover have "plain_fields (zero_Application\<lparr>ka_AppName := ''web''\<rparr>)" by code_simp
  ultimately have p: "\<forall>item \<in> set demo_items. \<forall>a. candidate item = Some a \<longrightarrow> plain_fields a" by fastforce
  have "json_resources demo_rep_json ''{}'' = Inr demo_items" by (simp add: demo_rep_json_def)
  from parseApplications_exact [OF this p] c show ?thesis
    by (simp add: demo_items_def List.map_filter_simps)
qed

end
