(* ===== verification/Rep_Run.thy ===== *)
theory Rep_Run
  imports Rep_Laws "HOL-Library.Multiset"
begin

text \<open>
  What a run of the Reporting Agent keeps: the ids of the machine on the disk and the requests
  that leave the node. A run always comes to its end, whatever fails on the way.
\<close>

section \<open>A disk without symbolic links\<close>

definition no_links :: "filesystem \<Rightarrow> bool" where
  "no_links fs \<longleftrightarrow> (\<forall>p u. fs p \<noteq> Some (Link u))"

lemma walk_no_links: "walk fo cr fs n done cs q \<Longrightarrow> no_links fs \<Longrightarrow> q = clean_from done cs"
  by (induction rule: walk.induct) (auto simp: no_links_def)

lemma resolve_no_links: "resolve fo cr n fs [] cs = Inr q \<Longrightarrow> no_links fs \<Longrightarrow> q = clean_from [] cs"
  using walk_no_links resolve_walk by blast

lemma no_links_upd: "no_links fs \<Longrightarrow> no_links (fs(q := Some Directory))" "no_links fs \<Longrightarrow> no_links (fs(q := Some (Regular c)))"
  by (simp_all add: no_links_def)

lemma mkdirs_effect: "mkdirs done cs fs = (r, fs') \<Longrightarrow> no_links fs \<Longrightarrow> no_links fs' \<and> (\<forall>q. fs q \<noteq> None \<longrightarrow> fs' q = fs q)"
proof (induction "done" cs arbitrary: fs rule: mkdirs.induct)
  case (2 dn c cs)
  let ?step = "\<lambda>fs. case resolve True False 40 fs [] (dn @ [c]) of
       Inr q \<Rightarrow> if q = [] \<or> fs q = Some Directory then (Ok (), fs) else (Err ''error creating directory'', fs)
     | Inl _ \<Rightarrow> (case resolve False True 40 fs [] (dn @ [c]) of
          Inr q \<Rightarrow> if fs q = None then (Ok (), fs(q := Some Directory)) else (Err ''error creating directory'', fs)
        | Inl _ \<Rightarrow> (Err ''error creating directory'', fs))"
  obtain r1 fs1 where s: "?step fs = (r1, fs1)" by fastforce
  have 1: "no_links fs1 \<and> (\<forall>q. fs q \<noteq> None \<longrightarrow> fs1 q = fs q)"
    using s 2(3) no_links_upd(1) by (auto split: sum.splits if_splits)
  show ?case
  proof (cases r1)
    case (Ok u)
    with 2(2) s have "mkdirs (dn @ [c]) cs fs1 = (r, fs')" by (simp add: andthen_apply)
    from 2(1) [OF this] 1 show ?thesis by auto
  qed (use 2(2) s 1 in \<open>auto simp: andthen_apply\<close>)
qed (simp add: ret_apply)

lemma write_effect:
  assumes "disk_WriteFile dir p data d = (r, d')" "no_links (tree d)"
  shows "no_links (tree d') \<and> (\<forall>q. q \<noteq> clean_from [] (components dir p) \<longrightarrow> tree d' q = tree d q)"
  using assms resolve_no_links [of True True 40 "tree d" "components dir p"]
  by (auto simp: disk_WriteFile_def new_file_def no_links_upd(2) split: sum.splits option.splits node.splits)

section \<open>The ids of the machine\<close>

definition holds :: "path \<Rightarrow> string \<Rightarrow> disk \<Rightarrow> bool" where
  "holds q c d \<longleftrightarrow> no_links (tree d) \<and> tree d q = Some (Regular c)"

lemma keeps_links: "keeps (\<lambda>d. no_links (tree d)) (host_MkdirAll dir p)" "keeps (\<lambda>d. no_links (tree d)) (disk_WriteFile dir p x)"
proof -
  show "keeps (\<lambda>d. no_links (tree d)) (host_MkdirAll dir p)"
    using mkdirs_effect by (fastforce intro!: keepsI simp: host_MkdirAll_def on_tree_def split: prod.splits)
  show "keeps (\<lambda>d. no_links (tree d)) (disk_WriteFile dir p x)"
    by (intro keepsI) (metis prod.collapse write_effect)
qed

lemma keeps_holds:
  "keeps (holds q c) (host_MkdirAll dir p)"
  "q \<noteq> clean_from [] (components dir p) \<Longrightarrow> keeps (holds q c) (disk_WriteFile dir p x)"
proof -
  show "keeps (holds q c) (host_MkdirAll dir p)"
    using mkdirs_effect by (fastforce intro!: keepsI simp: holds_def host_MkdirAll_def on_tree_def split: prod.splits)
  assume "q \<noteq> clean_from [] (components dir p)"
  then show "keeps (holds q c) (disk_WriteFile dir p x)"
    by (intro keepsI) (metis holds_def prod.collapse write_effect)
qed

lemma keeps_asks_then: "(\<And>s. I s \<Longrightarrow> I (snd (g (f s) s))) \<Longrightarrow> keeps I (andthen (asks f) g)"
  by (rule keepsI) (simp add: andthen_apply asks_apply)

lemma keeps_at: "I (snd (m s)) \<Longrightarrow> (\<And>x. keeps I (g x)) \<Longrightarrow> I (snd (andthen m g s))"
  unfolding keeps_def andthen_apply by (cases "m s"; cases "fst (m s)") auto

lemma keeps_read [keeps_rules]: "keeps I (ReadFileTrimmed dir p)"
  by (rule keepsI) (auto simp: ReadFileTrimmed_def action_simps dest: ReadFileNoLinks_pure split: prod.splits outcome.splits)

lemma read_holds:
  assumes "ReadFileTrimmed dir p d = (Ok i, d')" "no_links (tree d)"
  shows "d' = d \<and> (\<exists>c. tree d (clean_from [] (components dir p)) = Some (Regular c) \<and> i = TrimSpace c)"
proof -
  obtain c where c: "ReadFileNoLinks dir p d = (Ok c, d')" "i = TrimSpace c"
    using assms(1) by (auto simp: ReadFileTrimmed_def andthen_eq_Ok ret_apply)
  obtain q where "d' = d" "open_at False dir p d = Inr q" "tree d q = Some (Regular c)"
    using ReadFileNoLinks_content [OF c(1)] by blast
  with c(2) resolve_no_links [of False False 40 "tree d"] assms(2) show ?thesis unfolding open_at_def by blast
qed

text \<open>A file that is not empty is not written again.\<close>

lemma write_initial:
  assumes "holds q c d" "c \<noteq> []" "q = clean_from [] (components dir p)" "q \<noteq> []" "stat_empty dir p d \<noteq> Inr False"
  shows "snd (disk_WriteFile dir p x d) = d"
proof (cases "resolve True True 40 (tree d) [] (components dir p)")
  case (Inr q')
  have q': "q' = q" using resolve_no_links [OF Inr] assms(1,3) by (simp add: holds_def)
  have "tree d q' \<noteq> None" using assms(1) q' by (simp add: holds_def)
  from walk_resolve [OF walk_existing [OF resolve_walk [OF Inr] this]] assms q' show ?thesis
    by (simp add: stat_empty_def node_at_def holds_def)
qed (simp add: disk_WriteFile_def)

definition distinct_files :: "path \<Rightarrow> identity_paths \<Rightarrow> bool" where
  "distinct_files dir idt = (let i = clean_from [] (components dir (initialMachineIDFilePath idt)) in
     i \<noteq> [] \<and> i \<noteq> clean_from [] (components dir (currentMachineIDFilePath idt)))"

lemma save_current_keeps:
  "distinct_files dir idt \<Longrightarrow> keeps (holds (clean_from [] (components dir (initialMachineIDFilePath idt))) c) (save_current dir idt h i)"
  unfolding save_current_def distinct_files_def Let_def by (intro keeps_rules keeps_holds) auto

lemma SaveMachineIDs_keeps:
  assumes f: "distinct_files dir idt" and c: "c \<noteq> []"
  shows "keeps (holds (clean_from [] (components dir (initialMachineIDFilePath idt))) c) (SaveMachineIDs dir idt h)"
proof -
  let ?q = "clean_from [] (components dir (initialMachineIDFilePath idt))"
  have w: "holds ?q c (snd (attempt (disk_WriteFile dir (initialMachineIDFilePath idt) h) d))"
    if "holds ?q c d" "stat_empty dir (initialMachineIDFilePath idt) d \<noteq> Inr False" for d
    using write_initial [OF that(1) c refl _ that(2), of h] f that(1)
    by (auto simp: distinct_files_def Let_def attempt_apply split: prod.splits outcome.splits)
  have middle: "keeps (holds ?q c) (andthen (asks (stat_empty dir (initialMachineIDFilePath idt))) (\<lambda>st.
      if (case st of Inl e \<Rightarrow> e \<noteq> ENOENT | Inr _ \<Rightarrow> False) then ret (Some e1, [])
      else andthen (if (case st of Inl _ \<Rightarrow> True | Inr no_data \<Rightarrow> no_data)
                then attempt (disk_WriteFile dir (initialMachineIDFilePath idt) h) else ret (Inr ())) g))"
    if g: "\<And>r. keeps (holds ?q c) (g r)" for e1 and g :: "string + unit \<Rightarrow> (disk, string option \<times> string) action"
  proof (rule keeps_asks_then)
    fix d assume d: "holds ?q c d"
    let ?st = "stat_empty dir (initialMachineIDFilePath idt) d"
    let ?m = "if (case ?st of Inl _ \<Rightarrow> True | Inr no_data \<Rightarrow> no_data)
                then attempt (disk_WriteFile dir (initialMachineIDFilePath idt) h) else ret (Inr ())"
    have m: "holds ?q c (snd (?m d))"
      using w [OF d] d by (auto simp: ret_apply split: sum.splits)
    have "holds ?q c (snd (andthen ?m g d))"
      by (rule keeps_at [where I = "holds ?q c" and m = ?m and s = d, OF m g])
    then show "holds ?q c (snd ((if case ?st of Inl e \<Rightarrow> e \<noteq> ENOENT | Inr _ \<Rightarrow> False then ret (Some e1, []) else andthen ?m g) d))"
      using d by (simp add: ret_apply)
  qed
  show ?thesis
    unfolding SaveMachineIDs_def
    by (rule keeps_andthen [OF keeps_attempt [OF keeps_holds(1)] keeps_case_sum [OF keeps_ret middle]])
       (intro keeps_rules save_current_keeps f)
qed

lemma SaveMachineIDs_steps:
  assumes "SaveMachineIDs dir idt h d = (Ok (None, i), d')"
  obtains u v d1 d2 d3 d4 where "host_MkdirAll dir (metricsPath idt) d = (u, d1)"
    and "if (case stat_empty dir (initialMachineIDFilePath idt) d1 of Inl _ \<Rightarrow> True | Inr no_data \<Rightarrow> no_data)
        then disk_WriteFile dir (initialMachineIDFilePath idt) h d1 = (Ok (), d2) else d2 = d1"
    and "ReadFileTrimmed dir (initialMachineIDFilePath idt) d2 = (Ok i, d3)"
    and "host_MkdirAll dir (machineIDPath idt) d3 = (v, d4)" and "disk_WriteFile dir (currentMachineIDFilePath idt) h d4 = (Ok (), d')"
  using assms by (auto simp: SaveMachineIDs_def save_current_def action_simps split: prod.splits outcome.splits sum.splits if_splits)

lemma steps_no_links:
  assumes "no_links (tree d)" "host_MkdirAll dir p d = (u, d1)" "if b then disk_WriteFile dir q h d1 = (r, d2) else d2 = d1"
  shows "no_links (tree d1)" "no_links (tree d2)"
proof -
  show 1: "no_links (tree d1)" using keepsD [OF keeps_links(1) assms(1,2)] .
  show "no_links (tree d2)" using assms(3) 1 write_effect [of dir q h d1 r d2] by (auto split: if_splits)
qed

lemma SaveMachineIDs_saved:
  assumes s: "SaveMachineIDs dir idt h d = (Ok (None, i), d')" and l: "no_links (tree d)" and h: "h \<noteq> []" and f: "distinct_files dir idt"
  shows "\<exists>c. c \<noteq> [] \<and> TrimSpace c = i \<and> holds (clean_from [] (components dir (initialMachineIDFilePath idt))) c d'"
proof (rule SaveMachineIDs_steps [OF s])
  let ?p = "initialMachineIDFilePath idt"
  let ?q = "clean_from [] (components dir ?p)"
  fix u v d1 d2 d3 d4
  assume 1: "host_MkdirAll dir (metricsPath idt) d = (u, d1)"
    and st: "if (case stat_empty dir ?p d1 of Inl _ \<Rightarrow> True | Inr no_data \<Rightarrow> no_data) then disk_WriteFile dir ?p h d1 = (Ok (), d2) else d2 = d1"
    and r: "ReadFileTrimmed dir ?p d2 = (Ok i, d3)" and m: "host_MkdirAll dir (machineIDPath idt) d3 = (v, d4)"
    and w: "disk_WriteFile dir (currentMachineIDFilePath idt) h d4 = (Ok (), d')"
  note l1 = steps_no_links [OF l 1 st]
  obtain c where c: "d3 = d2" "tree d2 ?q = Some (Regular c)" "i = TrimSpace c" using read_holds [OF r l1(2)] by blast
  have "c \<noteq> []"
  proof (cases "case stat_empty dir ?p d1 of Inl _ \<Rightarrow> True | Inr no_data \<Rightarrow> no_data")
    case True
    with st have w: "disk_WriteFile dir ?p h d1 = (Ok (), d2)" by simp
    obtain q' where "resolve True True 40 (tree d1) [] (components dir ?p) = Inr q'"
      using w by (auto simp: disk_WriteFile_def split: sum.splits)
    with w c(2) h resolve_no_links [OF this l1(1)] show ?thesis
      by (auto simp: disk_WriteFile_def new_file_def node_at_def split: option.splits node.splits if_splits)
  next
    case False
    then obtain q' where q': "resolve True False 40 (tree d1) [] (components dir ?p) = Inr q'"
      by (auto simp: stat_empty_def split: sum.splits)
    have "q' = ?q" "?q \<noteq> []" using resolve_no_links [OF q' l1(1)] f by (simp_all add: distinct_files_def Let_def)
    with False st c(2) q' show ?thesis by (auto simp: stat_empty_def node_at_def)
  qed
  moreover have "holds ?q c d3" using c l1 by (simp add: holds_def)
  then have "holds ?q c d'"
    using keepsD [OF keeps_holds(1) _ m] keepsD [OF keeps_holds(2) _ w] f by (simp add: distinct_files_def Let_def)
  ultimately show ?thesis using c(3) by blast
qed

lemma SaveMachineIDs_returns:
  assumes s: "SaveMachineIDs dir idt h d = (Ok (None, i), d')" and c: "c \<noteq> []" and f: "distinct_files dir idt"
    and d: "holds (clean_from [] (components dir (initialMachineIDFilePath idt))) c d"
  shows "i = TrimSpace c"
proof (rule SaveMachineIDs_steps [OF s])
  let ?p = "initialMachineIDFilePath idt"
  let ?q = "clean_from [] (components dir ?p)"
  fix u v d1 d2 d3 d4
  assume 1: "host_MkdirAll dir (metricsPath idt) d = (u, d1)"
    and st: "if (case stat_empty dir ?p d1 of Inl _ \<Rightarrow> True | Inr no_data \<Rightarrow> no_data) then disk_WriteFile dir ?p h d1 = (Ok (), d2) else d2 = d1"
    and r: "ReadFileTrimmed dir ?p d2 = (Ok i, d3)"
  have h1: "holds ?q c d1" by (rule keepsD [OF keeps_holds(1) d 1])
  have "stat_empty dir ?p d1 \<noteq> Inr False \<Longrightarrow> snd (disk_WriteFile dir ?p h d1) = d1"
    by (rule write_initial [OF h1 c refl]) (use f in \<open>simp_all add: distinct_files_def Let_def\<close>)
  then have "d2 = d1" using st by (auto split: sum.splits if_splits)
  with h1 have "holds ?q c d2" by simp
  with read_holds [OF r] show ?thesis by (simp add: holds_def)
qed

text \<open>What is saved as the current id is the new one.\<close>

lemma SaveMachineIDs_current:
  assumes s: "SaveMachineIDs dir idt h d = (Ok (None, i), d')" and l: "no_links (tree d)"
    and f: "clean_from [] (components dir (currentMachineIDFilePath idt)) \<noteq> []"
  shows "tree d' (clean_from [] (components dir (currentMachineIDFilePath idt))) \<in> {Some (Regular h), Some Special}"
proof (rule SaveMachineIDs_steps [OF s])
  let ?p = "initialMachineIDFilePath idt"
  fix u v d1 d2 d3 d4
  assume 1: "host_MkdirAll dir (metricsPath idt) d = (u, d1)"
    and st: "if (case stat_empty dir ?p d1 of Inl _ \<Rightarrow> True | Inr no_data \<Rightarrow> no_data) then disk_WriteFile dir ?p h d1 = (Ok (), d2) else d2 = d1"
    and r: "ReadFileTrimmed dir ?p d2 = (Ok i, d3)" and m: "host_MkdirAll dir (machineIDPath idt) d3 = (v, d4)"
    and w: "disk_WriteFile dir (currentMachineIDFilePath idt) h d4 = (Ok (), d')"
  note l1 = steps_no_links [OF l 1 st]
  have "no_links (tree d3)" using read_holds [OF r l1(2)] l1(2) by simp
  from keepsD [OF keeps_links(1) this m] have l4: "no_links (tree d4)" .
  obtain q where "resolve True True 40 (tree d4) [] (components dir (currentMachineIDFilePath idt)) = Inr q"
    using w by (auto simp: disk_WriteFile_def split: sum.splits)
  with w l4 f resolve_no_links [OF this l4] show ?thesis
    by (auto simp: disk_WriteFile_def new_file_def node_at_def no_links_def split: option.splits node.splits if_splits)
qed

lemma NewIdentity_files: "distinct_files dir NewIdentity"
proof -
  have "initialMachineIDFilePath NewIdentity = ''/etc/edge-node/metrics/machine_id''"
    "currentMachineIDFilePath NewIdentity = ''/var/lib/edge-node/metrics''" by code_simp+
  then show ?thesis by (simp add: distinct_files_def components_def)
qed

text \<open>C36: The initial id of the machine is chosen once: on a disk without symbolic links, after a
  successful save with an id that is not empty, no later saves change what the agent reports as
  the initial id, whatever ids they are given and whether they fail or not.\<close>

theorem initial_id_never_changes:
  assumes "no_links (tree d)" "h \<noteq> []" "SaveMachineIDs dir NewIdentity h d = (Ok (None, i), d1)"
    and "foreach (\<lambda>x. ignore (SaveMachineIDs dir NewIdentity x)) hs d1 = (r, d2)"
    and "SaveMachineIDs dir NewIdentity h' d2 = (Ok (None, i'), d3)"
  shows "i' = i"
proof -
  let ?q = "clean_from [] (components dir (initialMachineIDFilePath NewIdentity))"
  obtain c where c: "c \<noteq> []" "TrimSpace c = i" "holds ?q c d1"
    using SaveMachineIDs_saved [OF assms(3,1,2) NewIdentity_files] by blast
  have "keeps (holds ?q c) (foreach (\<lambda>x. ignore (SaveMachineIDs dir NewIdentity x)) hs)"
    by (intro keeps_rules SaveMachineIDs_keeps NewIdentity_files c(1))
  from keepsD [OF this c(3) assms(4)] have "holds ?q c d2" .
  from SaveMachineIDs_returns [OF assms(5) c(1) NewIdentity_files this] c(2) show ?thesis by simp
qed

definition new_disk :: disk where
  "new_disk = \<lparr>tree = \<lambda>_. None, nlink = \<lambda>_. 1\<rparr>"

lemma initial_id_never_changes_witness:
  "\<exists>d1 d2. SaveMachineIDs [] NewIdentity ''a1'' new_disk = (Ok (None, ''a1''), d1) \<and>
     foreach (\<lambda>x. ignore (SaveMachineIDs [] NewIdentity x)) [''b2'', []] d1 = (Ok (), d2) \<and>
     fst (SaveMachineIDs [] NewIdentity ''c3'' d2) = Ok (None, ''a1'')"
proof -
  let ?d1 = "snd (SaveMachineIDs [] NewIdentity ''a1'' new_disk)"
  let ?d2 = "snd (foreach (\<lambda>x. ignore (SaveMachineIDs [] NewIdentity x)) [''b2'', []] ?d1)"
  have "fst (SaveMachineIDs [] NewIdentity ''a1'' new_disk) = Ok (None, ''a1'')" by code_simp
  then have a: "SaveMachineIDs [] NewIdentity ''a1'' new_disk = (Ok (None, ''a1''), ?d1)" by (metis prod.collapse)
  have "fst (foreach (\<lambda>x. ignore (SaveMachineIDs [] NewIdentity x)) [''b2'', []] ?d1) = Ok ()" by code_simp
  then have b: "foreach (\<lambda>x. ignore (SaveMachineIDs [] NewIdentity x)) [''b2'', []] ?d1 = (Ok (), ?d2)" by (metis prod.collapse)
  have "case fst (SaveMachineIDs [] NewIdentity ''c3'' ?d2) of Ok (e, i) \<Rightarrow> e = None | _ \<Rightarrow> False" by code_simp
  then obtain i d3 where c: "SaveMachineIDs [] NewIdentity ''c3'' ?d2 = (Ok (None, i), d3)"
    by (cases "SaveMachineIDs [] NewIdentity ''c3'' ?d2") (auto split: outcome.splits)
  have "no_links (tree new_disk)" by (simp add: no_links_def new_disk_def)
  from initial_id_never_changes [OF this _ a b c] have "i = ''a1''" by simp
  with a b c show ?thesis by (metis fst_conv)
qed

section \<open>The id does not depend on the order of the devices\<close>

lemma serials_related:
  assumes "\<And>out. rel_sum (=) (\<lambda>xs ys. mset xs = mset ys) (json out) (json' out)"
  shows "rel_prod (\<lambda>a b. case (a, b) of (Ok xs, Ok ys) \<Rightarrow> mset xs = mset ys | (Err e, Err e') \<Rightarrow> e = e' | (Crash e, Crash e') \<Rightarrow> e = e' | _ \<Rightarrow> False) (=)
     (GetNetworkSerials json env w) (GetNetworkSerials json' env w)"
proof -
  obtain r w1 where c: "wrap ''failed to read network devices: '' (ReadFromCommand env [''sudo'', ''lshw'', ''-json'', ''-class'', ''network'']) w = (r, w1)"
    by fastforce
  show ?thesis
  proof (cases r)
    case (Ok out)
    have len: "filter P xs = [] \<longleftrightarrow> filter P ys = []" if "mset xs = mset ys" for P and xs ys :: "string list"
      using that by (metis mset_filter mset_zero_iff)
    from assms [of out] show ?thesis
    proof cases
      case (2 xs ys)
      with len [of xs ys "\<lambda>s. s \<noteq> []"] c Ok show ?thesis
        by (simp add: GetNetworkSerials_def andthen_apply wrap_apply lift_result_def ret_apply fail_apply Let_def mset_filter)
    qed (use c Ok in \<open>simp add: GetNetworkSerials_def andthen_apply wrap_apply lift_result_def fail_apply\<close>)
  qed (use c in \<open>simp_all add: GetNetworkSerials_def andthen_apply\<close>)
qed

lemma sorted_serials:
  assumes "\<And>out. rel_sum (=) (\<lambda>xs ys. mset xs = mset ys) (json out) (json' out)"
  shows "andthen (wrap p (GetNetworkSerials json' env)) (\<lambda>ns. ret (g (sort ns))) =
    andthen (wrap p (GetNetworkSerials json env)) (\<lambda>ns. ret (g (sort ns)))"
proof
  fix w
  have s: "sort ys = sort xs" if "mset xs = mset ys" for xs ys :: "string list"
    using that by (intro properties_for_sort) simp_all
  obtain a v b v' where e: "GetNetworkSerials json env w = (a, v)" "GetNetworkSerials json' env w = (b, v')"
    by fastforce
  from serials_related [where json = json and json' = json' and env = env and w = w, OF assms]
  show "andthen (wrap p (GetNetworkSerials json' env)) (\<lambda>ns. ret (g (sort ns))) w =
    andthen (wrap p (GetNetworkSerials json env)) (\<lambda>ns. ret (g (sort ns))) w"
    unfolding e by (cases a; cases b) (auto simp: andthen_apply wrap_apply ret_apply e dest: s)
qed

text \<open>The id of the machine does not depend on the order in which the network devices are listed:
  two decoders of the listing that give the same serials, each as often, give the same id.\<close>

theorem machine_id_order:
  assumes "sha256_hex js' = sha256_hex js"
    and "\<And>out. rel_sum (=) (\<lambda>xs ys. mset xs = mset ys) (json_serials js out) (json_serials js' out)"
  shows "CalculateMachineID js' env w = CalculateMachineID js env w"
  unfolding CalculateMachineID_def assms(1)
  by (simp only: sorted_serials [where json = "json_serials js" and json' = "json_serials js'"
        and g = "\<lambda>xs. sha256_hex js (a @ b @ concat xs)" for a b, OF assms(2)])

lemma machine_id_order_witness:
  "let js = \<lparr>json_lsblk = (\<lambda>_. Inr []), json_serials = (\<lambda>_. Inr [''b'', ''a'']), json_version = (\<lambda>_. None),
       json_resources = (\<lambda>_. Inr []), ParseFloat = (\<lambda>_. Inr 0), sha256_hex = (\<lambda>s. s)\<rparr>
   in CalculateMachineID (js\<lparr>json_serials := \<lambda>_. Inr [''a'', ''b'']\<rparr>) env w = CalculateMachineID js env w"
  unfolding Let_def by (rule machine_id_order) simp_all

section \<open>Requests\<close>

text \<open>The three parts of a run that only read.\<close>

lemma read_trimmed_same: "on_disk (ReadFileTrimmed dir p) w = (Ok x, w') \<Longrightarrow> w' = w"
  by (auto simp: on_disk_def ReadFileTrimmed_def action_simps dest!: ReadFileNoLinks_pure split: prod.splits outcome.splits)

lemma readEndpointURL_ok:
  assumes "readEndpointURL env p w = (Ok e, w')"
  shows "w' = w \<and> (\<exists>u. url_ParseRequestURI e = Inr u \<and> Scheme u = ''https'' \<and> Host u \<noteq> [])"
proof -
  obtain x w1 u w2 where r: "on_disk (ReadFileTrimmed (host_cwd env) p) w = (Ok x, w1)"
    and u: "lift_result (url_ParseRequestURI x) w1 = (Ok u, w2)"
    and f: "(if Scheme u \<noteq> ''https'' then fail (''invalid endpoint scheme: '' @ Scheme u @ '' (only https is allowed)'')
     else if Host u = [] then fail (''invalid endpoint URL, missing host: '' @ x) else ret x) w2 = (Ok e, w')"
    using assms unfolding readEndpointURL_def andthen_eq_Ok wrap_eq_Ok by blast
  show ?thesis
    using read_trimmed_same [OF r] u f by (cases "url_ParseRequestURI x") (auto simp: action_simps split: if_splits)
qed

lemma readAuthCredentials_ok:
  assumes "readAuthCredentials env p w = (Ok (a, b), w')"
  shows "w' = w \<and> a \<noteq> [] \<and> b \<noteq> [] \<and> length a \<le> 256 \<and> length b \<le> 256 \<and> CHR '':'' \<notin> set a"
proof -
  obtain x w1 where r: "on_disk (ReadFileTrimmed (host_cwd env) p) w = (Ok x, w1)"
    and f: "(case SplitN2 x (CHR '':'') of
       [a, b] \<Rightarrow>
         if length a = 0 \<or> length b = 0 then fail ''username or password cannot be empty''
         else if length a > 256 then fail ''username too long (max 256 characters)''
         else if length b > 256 then fail ''password too long (max 256 characters)''
         else ret (a, b)
     | _ \<Rightarrow> fail ''invalid token format, expected username:password'') w1 = (Ok (a, b), w')"
    using assms unfolding readAuthCredentials_def andthen_eq_Ok wrap_eq_Ok by blast
  show ?thesis
    using SplitN2_cases [of x "CHR '':''"] read_trimmed_same [OF r] f
    by (elim disjE exE conjE) (auto simp: action_simps split: if_splits)
qed

definition post :: "string \<Rightarrow> string \<Rightarrow> string \<Rightarrow> string \<Rightarrow> http_post" where
  "post endpoint username password payload = \<lparr>hp_URL = endpoint, hp_ContentType = ''application/json'', hp_OrgID = ''reporting-v1'',
     hp_Username = username, hp_Password = password, hp_Body = payload\<rparr>"

definition good_post :: "http_post \<Rightarrow> bool" where
  "good_post q \<longleftrightarrow> (\<exists>u. url_ParseRequestURI (hp_URL q) = Inr u \<and> Scheme u = ''https'' \<and> Host u \<noteq> []) \<and>
     hp_Username q \<noteq> [] \<and> length (hp_Username q) \<le> 256 \<and> CHR '':'' \<notin> set (hp_Username q) \<and>
     hp_Password q \<noteq> [] \<and> length (hp_Password q) \<le> 256 \<and> hp_ContentType q = ''application/json'' \<and> hp_OrgID q = ''reporting-v1''"

lemma send_op_effect:
  "send_op env e u p b w = (r, w') \<Longrightarrow> audit_log w' = audit_log w \<and> (\<forall>x. r \<noteq> Crash x) \<and>
     (\<exists>k \<le> 1. http_sent w' = http_sent w @ replicate k (post e u p b) \<and> ((\<exists>c. r = Ok c) \<longrightarrow> k = 1))"
  by (auto simp: send_op_def Let_def post_def action_simps tick_apply lift_result_def split: option.splits prod.splits outcome.splits sum.splits if_splits
      intro: exI [of _ 1] exI [of _ 0])

lemma retry_send:
  "retry n (send_op env e u p b) w = (r, w') \<Longrightarrow> audit_log w' = audit_log w \<and> (\<forall>x. r \<noteq> Crash x) \<and>
     (\<exists>k \<le> Suc n. http_sent w' = http_sent w @ replicate k (post e u p b) \<and> ((\<exists>c. r = Ok c) \<longrightarrow> 0 < k))"
proof (induction n arbitrary: w)
  case 0
  then show ?case using send_op_effect by fastforce
next
  case (Suc n)
  obtain r1 w1 where s: "send_op env e u p b w = (r1, w1)" by fastforce
  note e = send_op_effect [OF s]
  then obtain k1 where k1: "k1 \<le> 1" "http_sent w1 = http_sent w @ replicate k1 (post e u p b)" "(\<exists>c. r1 = Ok c) \<longrightarrow> k1 = 1" by blast
  show ?case
  proof (cases r1)
    case (Ok c)
    with Suc.prems s have "r = Ok c" "w' = w1" by (simp_all add: action_simps)
    with e k1 Ok show ?thesis by (intro conjI exI [of _ k1]) auto
  next
    case (Err m)
    with Suc.prems s have "retry n (send_op env e u p b) w1 = (r, w')" by (simp add: action_simps)
    from Suc.IH [OF this] obtain k where k: "k \<le> Suc n" "http_sent w' = http_sent w1 @ replicate k (post e u p b)"
      "(\<exists>c. r = Ok c) \<longrightarrow> 0 < k" "audit_log w' = audit_log w1" "\<forall>x. r \<noteq> Crash x" by blast
    with k1 e show ?thesis by (intro conjI exI [of _ "k1 + k"]) (auto simp: replicate_add)
  qed (use e in auto)
qed

section \<open>Collecting\<close>

text \<open>Collecting changes only what belongs to the host, and always returns.\<close>

context host_frame
begin

lemma reading_rule [keeps_rules]: "keeps I (reading m d env argv g)"
  unfolding reading_def by (intro keeps_rules)

lemma rep_readers [keeps_rules]:
  "keeps I (uname_fields env fs k)" "keeps I (GetKubernetesData js env c)" "keeps I (CalculateMachineID js env)"
proof -
  show "keeps I (uname_fields env fs k)"
    by (induction env fs k rule: uname_fields.induct) (auto intro!: keeps_rules)
  show "keeps I (GetKubernetesData js env c)"
    unfolding GetKubernetesData_def Let_def by (intro keeps_rules)
  show "keeps I (CalculateMachineID js env)"
    unfolding CalculateMachineID_def rep_GetSystemUUID_def rep_GetSerialNumber_def GetNetworkSerials_def Let_def by (intro keeps_rules)
qed

lemma CollectData_keeps: "keeps I (CollectData js env cfg)" "keeps I (CollectDataShort js env cfg)"
  unfolding CollectData_def CollectDataShort_def collectIdentity_def GetTimezone_def GetLocaleData_def GetKernelData_def GetReleaseData_def
    GetUptimeData_def GetCPUData_def GetMemoryData_def GetDiskData_def Let_def
  by (intro keeps_rules)+

end

interpretation posts: host_frame "\<lambda>w :: rep_host. http_sent w = xs \<and> audit_log w = ys" for xs ys
  by unfold_locales simp

definition returns :: "('s, 'a) action \<Rightarrow> bool" where
  "returns m \<longleftrightarrow> (\<forall>w. \<exists>x w'. m w = (Ok x, w'))"

named_theorems returns_rules \<open>actions that always return a value\<close>

lemma returns_basic [returns_rules]: "returns (ret x)" "returns (asks f)" "returns (modify g)" "returns (tick env d h)" "returns (time_Now env)"
  by (simp_all add: returns_def action_simps tick_apply time_Now_apply)

lemma returns_attempt [returns_rules]: "safe m \<Longrightarrow> returns (attempt m)"
  by (auto simp: returns_def safe_def attempt_apply split: prod.split outcome.split)

lemma returns_andthen [returns_rules]: "returns m \<Longrightarrow> (\<And>x. returns (f x)) \<Longrightarrow> returns (andthen m f)"
  unfolding returns_def by (metis andthen_Ok)

lemma returns_cases [returns_rules]:
  "(\<And>e. returns (f e)) \<Longrightarrow> (\<And>x. returns (g x)) \<Longrightarrow> returns (case s of Inl e \<Rightarrow> f e | Inr x \<Rightarrow> g x)"
  "returns m \<Longrightarrow> (\<And>x. returns (h x)) \<Longrightarrow> returns (case a of None \<Rightarrow> m | Some x \<Rightarrow> h x)"
  "(\<And>x y. returns (k x y)) \<Longrightarrow> returns (case p of (x, y) \<Rightarrow> k x y)"
  "returns m \<Longrightarrow> returns n \<Longrightarrow> returns (if b then m else n)"
  by (auto split: sum.split option.split prod.split)

lemma returns_ignore [returns_rules]: "safe m \<Longrightarrow> returns (ignore m)"
  unfolding ignore_def by (intro returns_rules)

lemma returns_on_disk [returns_rules]: "returns m \<Longrightarrow> returns (on_disk m)"
  unfolding returns_def on_disk_def by (metis prod.case)

lemma safe_disk [safe_rules]: "safe (host_MkdirAll dir p)" "safe (disk_WriteFile dir p x)" "safe (ReadFileTrimmed dir p)"
proof -
  have "safe (mkdirs dn cs)" for dn cs
    by (induction dn cs rule: mkdirs.induct) (auto simp: safe_def action_simps split: sum.splits if_splits prod.splits outcome.splits)
  then show "safe (host_MkdirAll dir p)" by (auto simp: host_MkdirAll_def on_tree_def safe_def split: prod.splits)
  show "safe (disk_WriteFile dir p x)"
    by (auto simp: safe_def disk_WriteFile_def split: sum.splits option.splits node.splits)
  show "safe (ReadFileTrimmed dir p)" unfolding ReadFileTrimmed_def by (intro safe_rules)
qed

lemma returns_readers [returns_rules]:
  "returns (reading m d env argv g)" "returns (uname_fields env fs k)" "returns (GetKubernetesData js env c)"
  "returns (SaveMachineIDs dir idt h)"
proof -
  show "returns (reading m d env argv g)" unfolding reading_def by (intro returns_rules safe_rules)
  show "returns (uname_fields env fs k)"
    by (induction env fs k rule: uname_fields.induct) (auto intro!: returns_rules safe_rules)
  show "returns (GetKubernetesData js env c)" unfolding GetKubernetesData_def Let_def by (intro returns_rules safe_rules)
  show "returns (SaveMachineIDs dir idt h)" unfolding SaveMachineIDs_def save_current_def by (intro returns_rules safe_rules)
qed

lemma safe_identity [safe_rules]: "safe (CalculateMachineID js env)" "safe (GetGroupID dir idt)"
  unfolding CalculateMachineID_def rep_GetSystemUUID_def rep_GetSerialNumber_def GetNetworkSerials_def GetGroupID_def Let_def
  by (intro safe_rules)+

lemma CollectData_returns: "returns (CollectData js env cfg)" "returns (CollectDataShort js env cfg)"
  unfolding CollectData_def CollectDataShort_def collectIdentity_def GetTimezone_def GetLocaleData_def GetKernelData_def GetReleaseData_def
    GetUptimeData_def GetCPUData_def GetMemoryData_def GetDiskData_def Let_def
  by (intro returns_rules safe_rules)+

section \<open>The run\<close>

lemma safe_send [safe_rules]: "safe (rep_Send env ep tp cfg data)"
proof -
  have "safe (send_op env e u p b)" for e u p b using send_op_effect unfolding safe_def by blast
  then show ?thesis
    unfolding rep_Send_def readEndpointURL_def readAuthCredentials_def buildPayload_def sendRequest_def Let_def
    by (intro safe_rules)
qed


definition max_posts :: "BackendConfig \<Rightarrow> nat \<Rightarrow> bool" where
  "max_posts c k \<longleftrightarrow> (bc_MaxTries c = 0 \<or> k \<le> unat (bc_MaxTries c))"

lemma max_posts_0 [simp]: "max_posts c 0"
  by (simp add: max_posts_def)

lemma sendRequest_posts:
  assumes "sendRequest env e u p b c w = (r, w')"
  shows "\<exists>k. http_sent w' = http_sent w @ replicate k (post e u p b) \<and> max_posts c k \<and>
     audit_log w' = audit_log w @ (if r = Ok () then [b] else []) \<and> (r = Ok () \<longrightarrow> 0 < k)"
proof -
  obtain n where n: "bc_MaxTries c \<noteq> 0 \<longrightarrow> Suc n \<le> unat (bc_MaxTries c)"
    and s: "andthen (wrap ''failed to send payload after retries: '' (retry n (send_op env e u p b))) (\<lambda>_.
      modify (\<lambda>w. w\<lparr>audit_log := audit_log w @ [b]\<rparr>)) w = (r, w')"
  proof
    let ?n = "if bc_MaxTries c = 0 then attempts_left env (interactions w) else min (unat (bc_MaxTries c) - 1) (attempts_left env (interactions w))"
    show "bc_MaxTries c \<noteq> 0 \<longrightarrow> Suc ?n \<le> unat (bc_MaxTries c)"
      using unat_gt_0 [of "bc_MaxTries c"] by auto
    show "andthen (wrap ''failed to send payload after retries: '' (retry ?n (send_op env e u p b))) (\<lambda>_.
      modify (\<lambda>w. w\<lparr>audit_log := audit_log w @ [b]\<rparr>)) w = (r, w')"
      using assms by (simp add: sendRequest_def Let_def andthen_apply asks_apply)
  qed
  obtain r1 w1 where t: "retry n (send_op env e u p b) w = (r1, w1)" by fastforce
  from retry_send [OF t] obtain k where k: "audit_log w1 = audit_log w" "\<forall>x. r1 \<noteq> Crash x" "k \<le> Suc n"
    "http_sent w1 = http_sent w @ replicate k (post e u p b)" "(\<exists>c. r1 = Ok c) \<longrightarrow> 0 < k" by blast
  have "max_posts c k" using n k(3) by (auto simp: max_posts_def)
  with k s t show ?thesis by (cases r1) (auto simp: andthen_apply wrap_apply modify_apply)
qed

lemma rep_Send_posts:
  assumes "rep_Send env ep tp cfg data w = (r, w')"
  shows "\<exists>k q. http_sent w' = http_sent w @ replicate k q \<and> (0 < k \<longrightarrow> good_post q) \<and> max_posts (rcf_Backend cfg) k \<and>
     audit_log w' = audit_log w @ (if r = Ok () then [hp_Body q] else []) \<and> (r = Ok () \<longrightarrow> 0 < k)"
proof -
  let ?I = "\<lambda>v :: rep_host. http_sent v = http_sent w \<and> audit_log v = audit_log w"
  have same: ?thesis if "r \<noteq> Ok ()" "?I w'"
    using that by (intro exI [of _ 0]) (auto simp: max_posts_def)
  have k1: "keeps ?I (readEndpointURL env ep)" unfolding readEndpointURL_def by (auto intro!: keeps_rules)
  have k2: "keeps ?I (readAuthCredentials env tp)" unfolding readAuthCredentials_def by (auto intro!: keeps_rules)
  have k3: "keeps ?I (buildPayload env data)" unfolding buildPayload_def by (auto intro!: keeps_rules)
  obtain r1 w1 where 1: "readEndpointURL env ep w = (r1, w1)" by fastforce
  have i1: "?I w1" using keepsD [OF k1 _ 1] by simp
  show ?thesis
  proof (cases r1)
    case (Ok e)
    obtain r2 w2 where 2: "readAuthCredentials env tp w1 = (r2, w2)" by fastforce
    have i2: "?I w2" using keepsD [OF k2 i1 2] .
    show ?thesis
    proof (cases r2)
      case ok2: (Ok up)
      obtain u p where up: "up = (u, p)" by fastforce
      obtain r3 w3 where 3: "buildPayload env data w2 = (r3, w3)" by fastforce
      have i3: "?I w3" using keepsD [OF k3 i2 3] .
      show ?thesis
      proof (cases r3)
        case (Ok b)
        have "sendRequest env e u p b (rcf_Backend cfg) w3 = (r, w')"
          using assms 1 2 3 \<open>r1 = Ok e\<close> ok2 up Ok by (simp add: rep_Send_def andthen_apply)
        from sendRequest_posts [OF this] i3 obtain k where
          k: "http_sent w' = http_sent w @ replicate k (post e u p b)" "max_posts (rcf_Backend cfg) k"
            "audit_log w' = audit_log w @ (if r = Ok () then [b] else [])" "r = Ok () \<longrightarrow> 0 < k" by auto
        have "good_post (post e u p b)"
          using readEndpointURL_ok [of env ep w e w1] readAuthCredentials_ok [of env tp w1 u p w2] 1 2 \<open>r1 = Ok e\<close> ok2 up
          by (simp add: good_post_def post_def)
        with k show ?thesis by (intro exI [of _ k] exI [of _ "post e u p b"]) (simp add: post_def)
      qed (use assms 1 2 3 \<open>r1 = Ok e\<close> ok2 up i3 in \<open>auto intro!: same simp: rep_Send_def andthen_apply\<close>)
    qed (use assms 1 2 \<open>r1 = Ok e\<close> i2 in \<open>auto intro!: same simp: rep_Send_def andthen_apply\<close>)
  qed (use assms 1 i1 in \<open>auto intro!: same simp: rep_Send_def andthen_apply\<close>)
qed

definition loaded_config :: "rep_env \<Rightarrow> string \<Rightarrow> disk \<Rightarrow> RepConfig" where
  "loaded_config env configPath d = (if configPath = [] then rep_setDefaults
     else case viper_Read env configPath d of Inr (Inr cfg) \<Rightarrow> cfg | _ \<Rightarrow> rep_setDefaults)"

lemma rep_Load_config: "rep_Load env configPath w = (Ok (loaded_config env configPath (disk w)), w)"
  by (auto simp: rep_Load_def loaded_config_def Let_def action_simps split: sum.split)

text \<open>C37: What a run sends to the backend: copies of one request, to an address with scheme https and
  a host, with a name and a password that are not empty, of at most 256 characters, the name
  without a colon; not more of them than the configured number of tries (20 by default), when one
  is configured; and the audit log gets the body of the request, or nothing, and only after a
  request was sent.\<close>

theorem runAgent_sends:
  assumes "runAgent env configPath shortMode w = (r, w')"
  shows "\<exists>k q. http_sent w' = http_sent w @ replicate k q \<and> (0 < k \<longrightarrow> good_post q) \<and>
     max_posts (rcf_Backend (loaded_config env configPath (disk w))) k \<and>
     (audit_log w' = audit_log w \<or> 0 < k \<and> audit_log w' = audit_log w @ [hp_Body q])"
proof -
  let ?cfg = "loaded_config env configPath (disk w)"
  let ?collect = "if shortMode then CollectDataShort (decoders env) env ?cfg else CollectData (decoders env) env ?cfg"
  let ?I = "\<lambda>v :: rep_host. http_sent v = http_sent w \<and> audit_log v = audit_log w"
  obtain w1 t where 1: "time_Now env w = (Ok t, w1)" "disk w1 = disk w" "?I w1" by (simp add: time_Now_apply)
  have "returns ?collect" by (simp add: CollectData_returns)
  then obtain data w2 where 2: "?collect w1 = (Ok data, w2)" unfolding returns_def by blast
  have "keeps ?I ?collect" by (simp add: posts.CollectData_keeps)
  from keepsD [OF this 1(3) 2] have i2: "?I w2" .
  obtain w3 t3 where 3: "time_Now env w2 = (Ok t3, w3)" "http_sent w3 = http_sent w2" "audit_log w3 = audit_log w2"
    by (simp add: time_Now_apply)
  let ?send = "rep_Send env ''/etc/edge-node/metrics/endpoint'' ''/etc/edge-node/metrics/token'' ?cfg data"
  have l: "rep_Load env configPath w1 = (Ok ?cfg, w1)" by (simp add: rep_Load_config 1(2))
  have "runAgent env configPath shortMode w = ignore ?send w3"
    by (simp only: runAgent_def andthen_apply 1(1) l 2 3(1) outcome.case prod.case)
  then obtain r4 where 4: "?send w3 = (r4, w')"
    using assms safeD [OF safe_send]
    by (auto simp: ignore_def attempt_apply andthen_apply ret_apply split: prod.splits outcome.splits)
  from rep_Send_posts [OF 4] i2 3 show ?thesis by (auto split: if_splits)
qed

definition demo_rep_disk :: disk where
  "demo_rep_disk = \<lparr>tree = [[''etc''] \<mapsto> Directory, [''etc'', ''edge-node''] \<mapsto> Directory, [''etc'', ''edge-node'', ''metrics''] \<mapsto> Directory,
     [''etc'', ''edge-node'', ''metrics'', ''endpoint''] \<mapsto> Regular ''https://logs.example/push'',
     [''etc'', ''edge-node'', ''metrics'', ''token''] \<mapsto> Regular ''node:secret'',
     [''etc'', ''edge-node'', ''metrics'', ''group_id''] \<mapsto> Regular ''g1'',
     [''var''] \<mapsto> Directory, [''var'', ''lib''] \<mapsto> Directory, [''var'', ''lib'', ''edge-node''] \<mapsto> Directory,
     [''var'', ''lib'', ''edge-node'', ''metrics''] \<mapsto> Regular ''abcd'',
     [''etc'', ''edge-node'', ''metrics'', ''machine_id''] \<mapsto> Regular ''abcd''], nlink = \<lambda>_. 1\<rparr>"

text \<open>Every command fails; the backend answers 503 once, then 204.\<close>

definition demo_rep_env :: rep_env where
  "demo_rep_env = \<lparr>host_cwd = [], os_Environ = [],
     process = (\<lambda>n argv environ d. (\<lparr>Stdout = [], Stderr = [], Combined = [], exit_error = Some ''exit status 1''\<rparr>, d)),
     delay = (\<lambda>_. 0), status_call = (\<lambda>_ _. Inr 0), dial_error = (\<lambda>_ _. None), attempts_left = (\<lambda>_. 5), SystemCertPool = (\<lambda>_. Inr []),
     decoders = \<lparr>json_lsblk = (\<lambda>_. Inr []), json_serials = (\<lambda>_. Inr []), json_version = (\<lambda>_. None),
       json_resources = (\<lambda>_. Inr []), ParseFloat = (\<lambda>_. Inl ''not a number''), sha256_hex = (\<lambda>s. s)\<rparr>,
     Marshal_root = (\<lambda>_. Inr ''facts''), Marshal_payload = (\<lambda>s. Inr (lk_group_id s @ '' '' @ lk_line s)), NewRequest_error = (\<lambda>_. None),
     http_Do = (\<lambda>n _. if n < 6 then Inr 503 else Inr 204), viper_Read = (\<lambda>_ _. Inl ''not found'')\<rparr>"

definition demo_rep_host :: rep_host where
  "demo_rep_host = \<lparr>disk = demo_rep_disk, clock_ns = 0, interactions = 0, processes = [], status_sent = [], http_sent = [], audit_log = []\<rparr>"

lemma runAgent_sends_witness:
  "\<exists>q. http_sent (snd (runAgent demo_rep_env [] True demo_rep_host)) = [q, q] \<and> good_post q \<and>
     audit_log (snd (runAgent demo_rep_env [] True demo_rep_host)) = [hp_Body q]"
proof -
  obtain r w' where e: "runAgent demo_rep_env [] True demo_rep_host = (r, w')" by fastforce
  have n: "length (http_sent (snd (runAgent demo_rep_env [] True demo_rep_host))) = 2"
    "audit_log (snd (runAgent demo_rep_env [] True demo_rep_host)) \<noteq> []" by code_simp+
  from runAgent_sends [OF e] obtain k q where k: "http_sent w' = replicate k q" "0 < k \<longrightarrow> good_post q"
    "audit_log w' = [] \<or> audit_log w' = [hp_Body q]" by (auto simp: demo_rep_host_def)
  with n e have "k = 2" by simp
  with k n e show ?thesis by (auto simp: numeral_2_eq_2)
qed

text \<open>When the id cannot be computed, the saved one is lost: the current id on the disk becomes empty.\<close>

lemma failed_id_is_saved:
  "tree (disk (snd (collectIdentity (decoders demo_rep_env) demo_rep_env InitializeRoot demo_rep_host))) [''var'', ''lib'', ''edge-node'', ''metrics'']
     = Some (Regular [])"
  by code_simp

end
