(* ===== verification/Inbc_Client.thy ===== *)
theory Inbc_Client
  imports Inbd_Server
begin

text \<open>
  The command line client of the in-band manageability daemon
  (\<^verbatim>\<open>in-band-manageability/internal/inbc/commands\<close>, \<^verbatim>\<open>cmd/inbc/main.go\<close>).

  The state is that of the client, with the daemon behind the socket as a part of it: what was
  printed, the requests with their time limits in seconds, how many connections were made and
  closed, and the state \<open>inbc_remote\<close> of the daemon. What the daemon does with a request is a
  parameter of the environment; \<open>serve\<close> is the instance for the modelled daemon. A call that
  runs out of its time limit is one of the errors of this parameter. A message of protobuf that is
  nil is \<open>None\<close>.
\<close>

section \<open>Requests\<close>

text \<open>The release date of a system update and the user name of a firmware update are fields of the
  requests that the daemon does not look at.\<close>

datatype inbc_request =
    RqUpdateSystemSoftware "int option" UpdateSystemSoftwareRequest
  | RqUpdateFirmware string UpdateFirmwareRequest
  | RqAddApplicationSource AddApplicationSourceRequest
  | RqRemoveApplicationSource string string
  | RqUpdateOSSource "string list"
  | RqSetPowerState PowerAction
  | RqLoadConfig string string string
  | RqGetConfig string
  | RqSetConfig string
  | RqAppendConfig string
  | RqRemoveConfig string
  | RqQuery QueryOption

record pkg_view = SoftwarePackage +
  pkg_Description :: string
  pkg_License :: string
  pkg_InstallDate :: "int option"

record swbom_view =
  sv_CollectionTimestamp :: "int option"
  sv_CollectionMethod :: string
  sv_Packages :: "pkg_view list"

record version_view =
  vv_Version :: string
  vv_InbmVersionCommit :: string
  vv_GitCommit :: string
  vv_BuildDate :: "int option"

record power_view = PowerCapabilities +
  CapabilitiesJson :: string

record all_view =
  al_Hardware :: "HardwareInfo option"
  al_Firmware :: "FirmwareInfo option"
  al_OsInfo :: "string option"
  al_Version :: "version_view option"
  al_PowerCapabilities :: "power_view option"
  al_Swbom :: "swbom_view option"
  al_AdditionalInfo :: "string list"

datatype values_view = VHardware "HardwareInfo option" | VFirmware "FirmwareInfo option" | VOsInfo "string option"
  | VSwbom "swbom_view option" | VVersion "version_view option" | VAllInfo "all_view option" | VNothing

record data_view =
  dv_Type :: string
  dv_Timestamp :: "int option"
  dv_Values :: values_view

record query_view =
  qv_StatusCode :: int
  qv_Error :: string
  qv_Success :: bool
  qv_Data :: "data_view option"

section \<open>State and environment\<close>

record 'w inbc =
  inbc_remote :: 'w
  inbc_out :: "string list"
  inbc_sent :: "(nat \<times> inbc_request) list"
  inbc_dialed :: nat
  inbc_closed :: nat

record 'w inbc_env =
  ie_NewClient :: "string \<Rightarrow> string option"
  ie_Close :: "string option"
  ie_DetectOS :: "string + string"
  ie_call :: "inbc_request \<Rightarrow> 'w \<Rightarrow> (string + response) \<times> 'w"
  ie_GetConfig :: "string \<Rightarrow> 'w \<Rightarrow> (string + GetConfigResponse) \<times> 'w"
  ie_Query :: "QueryOption \<Rightarrow> 'w \<Rightarrow> (string + query_view option) \<times> 'w"
  ie_RFC3339 :: "int \<Rightarrow> string"

definition say :: "string \<Rightarrow> ('w inbc, unit) action" where
  "say t = modify (\<lambda>w. w\<lparr>inbc_out := inbc_out w @ [t]\<rparr>)"

definition clientDialTimeoutInSeconds :: nat where "clientDialTimeoutInSeconds = 5"
definition sourceTimeoutInSeconds :: nat where "sourceTimeoutInSeconds = 15"
definition emtSoftwareUpdateTimerInSeconds :: nat where "emtSoftwareUpdateTimerInSeconds = 1200"
definition defaultSoftwareUpdateTimerInSeconds :: nat where "defaultSoftwareUpdateTimerInSeconds = 72000"
definition configTimeoutInSeconds :: nat where "configTimeoutInSeconds = 15"
definition firmwareUpdateTimerInSeconds :: nat where "firmwareUpdateTimerInSeconds = 90"
definition queryTimeoutInSeconds :: nat where "queryTimeoutInSeconds = 15"

section \<open>Connections and calls\<close>

definition inbc_Dial :: "'w inbc_env \<Rightarrow> string \<Rightarrow> ('w inbc, unit) action" where
  "inbc_Dial env addr = (case ie_NewClient env (''unix://'' @ addr) of
     Some e \<Rightarrow> fail e | None \<Rightarrow> modify (\<lambda>w. w\<lparr>inbc_dialed := Suc (inbc_dialed w)\<rparr>))"

definition inbc_Close :: "'w inbc_env \<Rightarrow> ('w inbc, unit) action" where
  "inbc_Close env = andthen (modify (\<lambda>w. w\<lparr>inbc_closed := Suc (inbc_closed w)\<rparr>)) (\<lambda>_.
     case ie_Close env of None \<Rightarrow> ret () | Some e \<Rightarrow> say (''Warning: failed to close gRPC connection: '' @ e))"

text \<open>What every handler does around its call: the connection, and the deferred close.\<close>

definition with_client :: "'w inbc_env \<Rightarrow> string \<Rightarrow> ('w inbc, unit) action \<Rightarrow> ('w inbc, unit) action" where
  "with_client env sock act = andthen (wrap ''error setting up new gRPC client: '' (inbc_Dial env sock)) (\<lambda>_.
     deferred act (inbc_Close env))"

definition remote_call :: "(inbc_request \<times> nat) \<Rightarrow> ('w \<Rightarrow> (string + 'a) \<times> 'w) \<Rightarrow> ('w inbc, 'a) action" where
  "remote_call rt f = andthen (modify (\<lambda>w. w\<lparr>inbc_sent := inbc_sent w @ [(snd rt, fst rt)]\<rparr>)) (\<lambda>_ w.
     case f (inbc_remote w) of (r, v) \<Rightarrow> lift_result r (w\<lparr>inbc_remote := v\<rparr>))"

definition inbc_call :: "'w inbc_env \<Rightarrow> nat \<Rightarrow> inbc_request \<Rightarrow> ('w inbc, response) action" where
  "inbc_call env timeout req = remote_call (req, timeout) (ie_call env req)"

definition show_response :: "string \<Rightarrow> response \<Rightarrow> string" where
  "show_response what resp = what @ '' Response: '' @ show_int (fst resp) @ ''-'' @ snd resp"

section \<open>Sources and power\<close>

fun first_duplicate :: "string set \<Rightarrow> string list \<Rightarrow> string option" where
  "first_duplicate seen [] = None"
| "first_duplicate seen (x # xs) = (if x \<in> seen then Some x else first_duplicate (insert x seen) xs)"

definition handleAddApplicationSource :: "'w inbc_env \<Rightarrow> string \<Rightarrow> string list \<Rightarrow> string \<Rightarrow> string \<Rightarrow> string \<Rightarrow> ('w inbc, unit) action" where
  "handleAddApplicationSource env sock sources filename gpgKeyURI gpgKeyName =
     andthen (say ''SOURCE APPLICATION ADD INBC Command was invoked.'') (\<lambda>_.
     case first_duplicate {} sources of Some s \<Rightarrow> fail (''duplicate source in the sources list: '' @ s)
   | None \<Rightarrow> with_client env sock
       (andthen (wrap ''error adding application source: '' (inbc_call env sourceTimeoutInSeconds (RqAddApplicationSource
          \<lparr>Source = sources, Filename = filename, GpgKeyUri = gpgKeyURI, GpgKeyName = gpgKeyName\<rparr>))) (\<lambda>resp.
        say (show_response ''SOURCE APPLICATION ADD Command'' resp))))"

definition handleRemoveApplicationSource :: "'w inbc_env \<Rightarrow> string \<Rightarrow> string \<Rightarrow> string \<Rightarrow> ('w inbc, unit) action" where
  "handleRemoveApplicationSource env sock filename gpgKeyName =
     andthen (say ''SOURCE APPLICATION REMOVE INBC Command was invoked.'') (\<lambda>_.
     with_client env sock
       (andthen (wrap ''error removing application source: '' (inbc_call env sourceTimeoutInSeconds (RqRemoveApplicationSource filename gpgKeyName))) (\<lambda>resp.
        say (show_response ''SOURCE APPLICATION REMOVE Command'' resp))))"

definition handleUpdateOSSource :: "'w inbc_env \<Rightarrow> string \<Rightarrow> string list \<Rightarrow> ('w inbc, unit) action" where
  "handleUpdateOSSource env sock sources =
     andthen (say ''SOURCE OS UPDATE INBC Command was invoked.'') (\<lambda>_.
     case first_duplicate {} sources of Some s \<Rightarrow> fail (''duplicate source in the sources list: '' @ s)
   | None \<Rightarrow> with_client env sock
       (andthen (wrap ''error updating OS sources: '' (inbc_call env sourceTimeoutInSeconds (RqUpdateOSSource sources))) (\<lambda>resp.
        say (show_response ''SOURCE OS UPDATE Command'' resp))))"

definition handleRestart :: "'w inbc_env \<Rightarrow> string \<Rightarrow> ('w inbc, unit) action" where
  "handleRestart env sock =
     andthen (say ''Restart INBC Command was invoked.'') (\<lambda>_.
     with_client env sock
       (andthen (wrap ''error restarting device: '' (inbc_call env firmwareUpdateTimerInSeconds (RqSetPowerState POWER_ACTION_CYCLE))) (\<lambda>resp.
        say (show_response ''Restart Command'' resp))))"

definition handleShutdown :: "'w inbc_env \<Rightarrow> string \<Rightarrow> ('w inbc, unit) action" where
  "handleShutdown env sock =
     andthen (say ''Shutdown INBC Command was invoked.'') (\<lambda>_.
     with_client env sock
       (andthen (wrap ''error shutting down device: '' (inbc_call env firmwareUpdateTimerInSeconds (RqSetPowerState POWER_ACTION_OFF))) (\<lambda>resp.
        say (show_response ''Shutdown Command'' resp))))"

section \<open>Updates\<close>

record sota_flags =
  so_url :: string
  so_releaseDate :: string
  so_mode :: string
  so_reboot :: bool
  so_packageList :: "string list"
  so_signature :: string

definition sota_date :: "string \<Rightarrow> string + int option" where
  "sota_date s = (if s = [] then Inr None else case time_Parse RFC3339_layout s of
     None \<Rightarrow> Inl ''error parsing release date'' | Some c \<Rightarrow> Inr (Some (unix_time c)))"

definition sota_mode :: "string \<Rightarrow> string + DownloadMode" where
  "sota_mode m = (if m = ''full'' then Inr DOWNLOAD_MODE_FULL
     else if m = ''no-download'' then Inr DOWNLOAD_MODE_NO_DOWNLOAD
     else if m = ''download-only'' then Inr DOWNLOAD_MODE_DOWNLOAD_ONLY
     else Inl ''invalid mode. Use one of full, no-download, download-only'')"

definition handleSOTA :: "'w inbc_env \<Rightarrow> string \<Rightarrow> sota_flags \<Rightarrow> ('w inbc, unit) action" where
  "handleSOTA env sock fl =
     andthen (say ''SOTA INBC Command was invoked.'') (\<lambda>_.
     andthen (lift_result (sota_date (so_releaseDate fl))) (\<lambda>date.
     case first_duplicate {} (so_packageList fl) of Some p \<Rightarrow> fail (''duplicate package in the package list: '' @ p)
   | None \<Rightarrow>
     andthen (lift_result (sota_mode (so_mode fl))) (\<lambda>mode.
     with_client env sock
       (andthen (wrap ''error detected OS type: '' (lift_result (ie_DetectOS env))) (\<lambda>os.
        let timeout = (if os = ''EMT'' then emtSoftwareUpdateTimerInSeconds else defaultSoftwareUpdateTimerInSeconds) in
        andthen (wrap ''error updating system software: '' (inbc_call env timeout (RqUpdateSystemSoftware date
          \<lparr>Url = so_url fl, Signature = so_signature fl, Mode = mode, DoNotReboot = (\<not> so_reboot fl), Packages = so_packageList fl\<rparr>))) (\<lambda>resp.
        andthen (say (show_response ''SOTA Command'' resp)) (\<lambda>_.
        if fst resp \<noteq> 200 then fail (''SOTA operation failed: '' @ snd resp) else ret ())))))))"

record fota_flags =
  fo_url :: string
  fo_releaseDate :: string
  fo_reboot :: bool
  fo_username :: string
  fo_signature :: string
  fo_hashAlgorithm :: string

definition fota_date :: "string \<Rightarrow> string + int option" where
  "fota_date s = (if s = [] then Inr None else case time_Parse ISO_date s of
       Some c \<Rightarrow> Inr (Some (unix_time c))
     | None \<Rightarrow> (case time_Parse RFC3339_layout s of
         None \<Rightarrow> Inl ''error parsing release date (expected YYYY-MM-DD or RFC3339 format)'' | Some c \<Rightarrow> Inr (Some (unix_time c))))"

definition fota_hash :: "string \<Rightarrow> string + string" where
  "fota_hash h = (if h = [] then Inr ''sha384''
     else if ToLower h \<in> {''sha256'', ''sha384'', ''sha512''} then Inr (ToLower h)
     else Inl ''invalid hash algorithm: must be sha256, sha384, or sha512'')"

definition handleFOTA :: "'w inbc_env \<Rightarrow> string \<Rightarrow> fota_flags \<Rightarrow> ('w inbc, unit) action" where
  "handleFOTA env sock fl =
     andthen (say ''FOTA INBC Command was invoked.'') (\<lambda>_.
     andthen (lift_result (fota_date (fo_releaseDate fl))) (\<lambda>date.
     andthen (lift_result (fota_hash (fo_hashAlgorithm fl))) (\<lambda>alg.
     with_client env sock
       (andthen (wrap ''error updating firmware: '' (inbc_call env firmwareUpdateTimerInSeconds (RqUpdateFirmware (fo_username fl)
          \<lparr>fw_Url = fo_url fl, fw_ReleaseDate = date, fw_DoNotReboot = (\<not> fo_reboot fl), fw_Signature = fo_signature fl, fw_HashAlgorithm = alg\<rparr>))) (\<lambda>resp.
        say (show_response ''FOTA Command'' resp))))))"

section \<open>Configuration\<close>

definition handleConfigLoadCmd :: "'w inbc_env \<Rightarrow> string \<Rightarrow> string \<Rightarrow> string \<Rightarrow> string \<Rightarrow> ('w inbc, unit) action" where
  "handleConfigLoadCmd env sock uri signature hashAlgorithm =
     andthen (say ''CONFIG LOAD command invoked.'') (\<lambda>_.
     if uri = [] then fail ''uri is required''
     else with_client env sock
       (andthen (wrap ''error performing config load: '' (inbc_call env configTimeoutInSeconds
          (RqLoadConfig uri signature (if hashAlgorithm \<noteq> [] then hashAlgorithm else ''sha384'')))) (\<lambda>resp.
        if fst resp \<noteq> 200 \<or> snd resp \<noteq> [] then fail (''config load failed: '' @ snd resp)
        else say (show_response ''CONFIG LOAD'' resp))))"

definition handleConfigGetCmd :: "'w inbc_env \<Rightarrow> string \<Rightarrow> string \<Rightarrow> ('w inbc, unit) action" where
  "handleConfigGetCmd env sock p =
     andthen (say ''CONFIG GET command invoked.'') (\<lambda>_.
     if p = [] then fail ''path is required''
     else with_client env sock
       (andthen (wrap ''error performing config get: '' (remote_call (RqGetConfig p, configTimeoutInSeconds) (ie_GetConfig env p))) (\<lambda>resp.
        say (show_response ''CONFIG GET'' (gc_StatusCode resp, gc_Error resp) @ '', value: '' @ gc_Value resp))))"

datatype configOperation = configSet | configAppend | configRemove

definition operationName :: "configOperation \<Rightarrow> string" where
  "operationName operation = (case operation of configSet \<Rightarrow> ''SET'' | configAppend \<Rightarrow> ''APPEND'' | configRemove \<Rightarrow> ''REMOVE'')"

definition handleConfigCmd :: "'w inbc_env \<Rightarrow> string \<Rightarrow> string \<Rightarrow> configOperation \<Rightarrow> ('w inbc, unit) action" where
  "handleConfigCmd env sock p operation =
     andthen (say (''CONFIG '' @ operationName operation @ '' command invoked.'')) (\<lambda>_.
     if p = [] then fail ''path is required''
     else if \<not> Contains p '':'' then fail (''path must be in the format 'key:value', got: '' @ p)
     else with_client env sock
       (andthen (wrap (''error performing config '' @ ToLower (operationName operation) @ '': '') (inbc_call env configTimeoutInSeconds
          (case operation of configSet \<Rightarrow> RqSetConfig p | configAppend \<Rightarrow> RqAppendConfig p | configRemove \<Rightarrow> RqRemoveConfig p))) (\<lambda>resp.
        say (show_response (''CONFIG '' @ operationName operation) resp))))"

end
