(* ===== verification/Inbc_Query.thy ===== *)
theory Inbc_Query
  imports Inbc_Client
begin

text \<open>
  The query command of the client (\<^verbatim>\<open>commands/query.go\<close>), the program (\<^verbatim>\<open>cmd/inbc/main.go\<close>) and
  the modelled daemon behind it.

  What a response shows is the list of the printed texts, one for each line.
\<close>

section \<open>The option\<close>

definition parseQueryOption :: "string \<Rightarrow> string + QueryOption" where
  "parseQueryOption option0 = (let option = ToLower option0 in
     if option = [] then Inl ''query option cannot be empty''
     else if option \<in> {''hw'', ''hardware''} then Inr QUERY_OPTION_HARDWARE
     else if option \<in> {''fw'', ''firmware''} then Inr QUERY_OPTION_FIRMWARE
     else if option \<in> {''os'', ''operating-system''} then Inr QUERY_OPTION_OS
     else if option \<in> {''swbom'', ''software-bom''} then Inr QUERY_OPTION_SWBOM
     else if option \<in> {''version'', ''ver''} then Inr QUERY_OPTION_VERSION
     else if option = ''all'' then Inr QUERY_OPTION_ALL
     else Inl (''invalid query option '' @ [CHR 0x27] @ option @ [CHR 0x27] @ ''. Valid options: hw, fw, os, swbom, version, all''))"

section \<open>What is shown\<close>

definition shown :: "string \<Rightarrow> string \<Rightarrow> string list" where
  "shown label v = (if v \<noteq> [] then [label @ v] else [])"

definition shown_time :: "(int \<Rightarrow> string) \<Rightarrow> string \<Rightarrow> int option \<Rightarrow> string list" where
  "shown_time fmt label t = (case t of None \<Rightarrow> [] | Some s \<Rightarrow> [label @ fmt s])"

definition shown_bool :: "bool \<Rightarrow> string" where
  "shown_bool b = (if b then ''true'' else ''false'')"

definition displayHardwareInfo :: "HardwareInfo option \<Rightarrow> string list" where
  "displayHardwareInfo hw = (case hw of None \<Rightarrow> [] | Some h \<Rightarrow>
     [[], ''=== Hardware Information ===''] @ shown ''CPU ID: '' (CpuId h) @ shown ''Total Physical Memory: '' (TotalPhysicalMemory h) @
     shown ''Disk Information: '' (DiskInformation h) @ shown ''System Manufacturer: '' (SystemManufacturer h) @
     shown ''System Product Name: '' (SystemProductName h))"

definition displayFirmwareInfo :: "(int \<Rightarrow> string) \<Rightarrow> FirmwareInfo option \<Rightarrow> string list" where
  "displayFirmwareInfo fmt fw = (case fw of None \<Rightarrow> [] | Some f \<Rightarrow>
     [[], ''=== Firmware Information ===''] @ shown ''BIOS Vendor: '' (BiosVendor f) @ shown ''BIOS Version: '' (BiosVersion f) @
     shown_time fmt ''BIOS Release Date: '' (BiosReleaseDate f))"

definition displayOSInfo :: "string option \<Rightarrow> string list" where
  "displayOSInfo os = (case os of None \<Rightarrow> [] | Some i \<Rightarrow> [[], ''=== Operating System Information ===''] @ shown ''OS Information: '' i)"

definition displayPackage :: "(int \<Rightarrow> string) \<Rightarrow> pkg_view \<Rightarrow> string list" where
  "displayPackage fmt pkg =
     [''  - '' @ pkg_Name pkg @ (if pkg_Version pkg \<noteq> [] then '' ('' @ pkg_Version pkg @ '')'' else [])
        @ (if pkg_Vendor pkg \<noteq> [] then '' by '' @ pkg_Vendor pkg else []) @ (if pkg_Type pkg \<noteq> [] then '' ['' @ pkg_Type pkg @ '']'' else [])
        @ (if pkg_Architecture pkg \<noteq> [] then '' ('' @ pkg_Architecture pkg @ '')'' else [])] @
     shown ''    Description: '' (pkg_Description pkg) @ shown ''    License: '' (pkg_License pkg) @
     shown_time fmt ''    Install Date: '' (pkg_InstallDate pkg)"

text \<open>\<open>i\<close> is the index of the first package of the rest, \<open>n\<close> the number of all packages.\<close>

fun displayPackages :: "(int \<Rightarrow> string) \<Rightarrow> nat \<Rightarrow> nat \<Rightarrow> pkg_view list \<Rightarrow> string list" where
  "displayPackages fmt n i [] = []"
| "displayPackages fmt n i (p # ps) = (if i \<ge> 10 then [''... and '' @ show_int (int n - 10) @ '' more packages'']
     else displayPackage fmt p @ displayPackages fmt n (Suc i) ps)"

definition displaySWBOMInfo :: "(int \<Rightarrow> string) \<Rightarrow> swbom_view option \<Rightarrow> string list" where
  "displaySWBOMInfo fmt swbom = (case swbom of None \<Rightarrow> [] | Some s \<Rightarrow>
     [[], ''=== Software Bill of Materials ===''] @ shown_time fmt ''Collection Timestamp: '' (sv_CollectionTimestamp s) @
     shown ''Collection Method: '' (sv_CollectionMethod s) @
     (let packages = sv_Packages s in if length packages > 0
      then [''Total Packages: '' @ show_nat (length packages), [], ''Packages:''] @ displayPackages fmt (length packages) 0 packages
      else []))"

definition displayVersionInfo :: "(int \<Rightarrow> string) \<Rightarrow> version_view option \<Rightarrow> string list" where
  "displayVersionInfo fmt version = (case version of None \<Rightarrow> [] | Some v \<Rightarrow>
     [[], ''=== Version Information ===''] @ shown ''Version: '' (vv_Version v) @ shown ''INBM Version Commit: '' (vv_InbmVersionCommit v) @
     shown ''Git Commit: '' (vv_GitCommit v) @ shown_time fmt ''Build Date: '' (vv_BuildDate v))"

definition displayPowerCapabilities :: "power_view option \<Rightarrow> string list" where
  "displayPowerCapabilities info = (case info of None \<Rightarrow> [] | Some p \<Rightarrow>
     [[], ''=== Power Capabilities ==='', ''Shutdown: '' @ shown_bool (Shutdown p), ''Reboot: '' @ shown_bool (Reboot p),
      ''Suspend: '' @ shown_bool (Suspend p), ''Hibernate: '' @ shown_bool (Hibernate p)] @ shown ''Capabilities JSON: '' (CapabilitiesJson p))"

definition displayAllInfo :: "(int \<Rightarrow> string) \<Rightarrow> all_view option \<Rightarrow> string list" where
  "displayAllInfo fmt info = (case info of None \<Rightarrow> [] | Some a \<Rightarrow>
     [[], ''=== All System Information ===''] @ displayHardwareInfo (al_Hardware a) @ displayFirmwareInfo fmt (al_Firmware a) @
     displayOSInfo (al_OsInfo a) @ displayVersionInfo fmt (al_Version a) @ displayPowerCapabilities (al_PowerCapabilities a) @
     displaySWBOMInfo fmt (al_Swbom a) @
     (if length (al_AdditionalInfo a) > 0 then [[], ''=== Additional Information ===''] @ map (\<lambda>i. ''  - '' @ i) (al_AdditionalInfo a) else []))"

definition display_values :: "(int \<Rightarrow> string) \<Rightarrow> values_view \<Rightarrow> string list" where
  "display_values fmt v = (case v of
     VHardware h \<Rightarrow> displayHardwareInfo h | VFirmware f \<Rightarrow> displayFirmwareInfo fmt f | VOsInfo i \<Rightarrow> displayOSInfo i
   | VSwbom s \<Rightarrow> displaySWBOMInfo fmt s | VVersion x \<Rightarrow> displayVersionInfo fmt x | VAllInfo a \<Rightarrow> displayAllInfo fmt a
   | VNothing \<Rightarrow> [''No specific data available''])"

definition displayQueryResponse :: "(int \<Rightarrow> string) \<Rightarrow> query_view \<Rightarrow> string \<Rightarrow> string list" where
  "displayQueryResponse fmt resp option =
     (''QUERY Response: '' @ show_int (qv_StatusCode resp) @ ''-'' @ qv_Error resp) #
     (case (qv_Success resp, qv_Data resp) of
        (True, Some d) \<Rightarrow> [''Query Type: '' @ option, ''Data Type: '' @ dv_Type d] @ shown_time fmt ''Timestamp: '' (dv_Timestamp d) @
          display_values fmt (dv_Values d)
      | (True, None) \<Rightarrow> []
      | (False, _) \<Rightarrow> [''Query failed: '' @ qv_Error resp])"

definition handleQueryCmd :: "'w inbc_env \<Rightarrow> string \<Rightarrow> string \<Rightarrow> ('w inbc, unit) action" where
  "handleQueryCmd env sock option =
     andthen (say ''QUERY command invoked.'') (\<lambda>_.
     let optionValue = (if option = [] then ''all'' else option) in
     andthen (wrap (''invalid query option '' @ [CHR 0x27] @ optionValue @ [CHR 0x27] @ '': '') (lift_result (parseQueryOption optionValue))) (\<lambda>queryOption.
     with_client env sock
       (andthen (wrap ''error performing query: '' (remote_call (RqQuery queryOption, queryTimeoutInSeconds) (ie_Query env queryOption))) (\<lambda>r.
        case r of None \<Rightarrow> fail ''received nil response from server''
        | Some resp \<Rightarrow> foreach say (displayQueryResponse (ie_RFC3339 env) resp optionValue)))))"

section \<open>The program\<close>

datatype inbc_command =
    CmdSOTA sota_flags
  | CmdFOTA fota_flags
  | CmdSourceApplicationAdd "string list" string string string
  | CmdSourceApplicationRemove string string
  | CmdSourceOSUpdate "string list"
  | CmdConfigLoad string string string
  | CmdConfigGet string
  | CmdConfig configOperation string
  | CmdRestart
  | CmdShutdown
  | CmdQuery string

definition run_inbc :: "'w inbc_env \<Rightarrow> string \<Rightarrow> inbc_command \<Rightarrow> ('w inbc, unit) action" where
  "run_inbc env sock c = (case c of
     CmdSOTA fl \<Rightarrow> handleSOTA env sock fl
   | CmdFOTA fl \<Rightarrow> handleFOTA env sock fl
   | CmdSourceApplicationAdd sources filename uri name \<Rightarrow> handleAddApplicationSource env sock sources filename uri name
   | CmdSourceApplicationRemove filename name \<Rightarrow> handleRemoveApplicationSource env sock filename name
   | CmdSourceOSUpdate sources \<Rightarrow> handleUpdateOSSource env sock sources
   | CmdConfigLoad uri sig alg \<Rightarrow> handleConfigLoadCmd env sock uri sig alg
   | CmdConfigGet p \<Rightarrow> handleConfigGetCmd env sock p
   | CmdConfig operation p \<Rightarrow> handleConfigCmd env sock p operation
   | CmdRestart \<Rightarrow> handleRestart env sock
   | CmdShutdown \<Rightarrow> handleShutdown env sock
   | CmdQuery option \<Rightarrow> handleQueryCmd env sock option)"

definition inbc_main :: "'w inbc_env \<Rightarrow> string \<Rightarrow> bool \<Rightarrow> inbc_command \<Rightarrow> ('w inbc, nat) action" where
  "inbc_main env sock verbose c = andthen (attempt (run_inbc env sock c)) (\<lambda>r. case r of
     Inr _ \<Rightarrow> ret 0
   | Inl e \<Rightarrow> andthen (if verbose then say e else ret ()) (\<lambda>_. ret 1))"

section \<open>The daemon behind the socket\<close>

text \<open>A handler that panics ends the daemon, and the call fails.\<close>

definition answered :: "('w, 'a) action \<Rightarrow> 'w \<Rightarrow> (string + 'a) \<times> 'w" where
  "answered m w = (case m w of (Ok x, v) \<Rightarrow> (Inr x, v) | (_, v) \<Rightarrow> (Inl ''rpc error: code = Unavailable'', v))"

definition serve_request :: "server_env \<Rightarrow> inbc_request \<Rightarrow> (inbd_world, response) action" where
  "serve_request env req = (case req of
     RqUpdateSystemSoftware _ q \<Rightarrow> UpdateSystemSoftware env q
   | RqUpdateFirmware _ q \<Rightarrow> UpdateFirmware env q
   | RqAddApplicationSource q \<Rightarrow> AddApplicationSource env q
   | RqRemoveApplicationSource f k \<Rightarrow> RemoveApplicationSource env f k
   | RqUpdateOSSource ss \<Rightarrow> UpdateOSSource env ss
   | RqSetPowerState a \<Rightarrow> SetPowerState env a
   | RqLoadConfig u s h \<Rightarrow> on_files (LoadConfig_request (inbd_env.truncate env) u s h)
   | RqGetConfig p \<Rightarrow> andthen (on_files (GetConfig (inbd_env.truncate env) p)) (\<lambda>r. ret (gc_StatusCode r, gc_Error r))
   | RqSetConfig p \<Rightarrow> on_files (SetConfig (inbd_env.truncate env) p)
   | RqAppendConfig p \<Rightarrow> on_files (AppendConfig (inbd_env.truncate env) p)
   | RqRemoveConfig p \<Rightarrow> on_files (RemoveConfig (inbd_env.truncate env) p)
   | RqQuery option \<Rightarrow> andthen (Query env (Some option)) (\<lambda>r. ret (fst r)))"

text \<open>The connection to the modelled daemon; \<open>view\<close> is what the wire keeps of the data of a query.\<close>

definition with_daemon :: "server_env \<Rightarrow> (QueryData \<Rightarrow> data_view) \<Rightarrow> inbd_world inbc_env \<Rightarrow> inbd_world inbc_env" where
  "with_daemon senv view env = env\<lparr>
     ie_call := (\<lambda>req. answered (serve_request senv req)),
     ie_GetConfig := (\<lambda>p. answered (on_files (GetConfig (inbd_env.truncate senv) p))),
     ie_Query := (\<lambda>option. answered (andthen (Query senv (Some option)) (\<lambda>((code, e), d).
       ret (Some \<lparr>qv_StatusCode = code, qv_Error = e, qv_Success = (d \<noteq> None), qv_Data = map_option view d\<rparr>))))\<rparr>"

end
