(* ===== verification/Inbc_Laws.thy ===== *)
theory Inbc_Laws
  imports Inbc_Query
begin

text \<open>
  What a run of the client does: at most one request, the one that the arguments describe, over a
  connection that is closed again; and what its exit status says about the answer.
\<close>

section \<open>The plan of a command\<close>

text \<open>What the arguments and the operating system of the node ask for: an error before any call, or
  the time limit and the request.\<close>

definition plan :: "'w inbc_env \<Rightarrow> inbc_command \<Rightarrow> (nat \<times> inbc_request) option" where
  "plan env c = (case c of
     CmdSOTA fl \<Rightarrow> (case (sota_date (so_releaseDate fl), sota_mode (so_mode fl), ie_DetectOS env) of
        (Inr date, Inr mode, Inr os) \<Rightarrow> if distinct (so_packageList fl)
          then Some (if os = ''EMT'' then 1200 else 72000, RqUpdateSystemSoftware date
            \<lparr>Url = so_url fl, Signature = so_signature fl, Mode = mode, DoNotReboot = (\<not> so_reboot fl), Packages = so_packageList fl\<rparr>) else None
      | _ \<Rightarrow> None)
   | CmdFOTA fl \<Rightarrow> (case (fota_date (fo_releaseDate fl), fota_hash (fo_hashAlgorithm fl)) of
        (Inr date, Inr alg) \<Rightarrow> Some (90, RqUpdateFirmware (fo_username fl)
          \<lparr>fw_Url = fo_url fl, fw_ReleaseDate = date, fw_DoNotReboot = (\<not> fo_reboot fl), fw_Signature = fo_signature fl, fw_HashAlgorithm = alg\<rparr>)
      | _ \<Rightarrow> None)
   | CmdSourceApplicationAdd sources filename uri name \<Rightarrow> if distinct sources
        then Some (15, RqAddApplicationSource \<lparr>Source = sources, Filename = filename, GpgKeyUri = uri, GpgKeyName = name\<rparr>) else None
   | CmdSourceApplicationRemove filename name \<Rightarrow> Some (15, RqRemoveApplicationSource filename name)
   | CmdSourceOSUpdate sources \<Rightarrow> if distinct sources then Some (15, RqUpdateOSSource sources) else None
   | CmdConfigLoad uri sig alg \<Rightarrow> if uri = [] then None else Some (15, RqLoadConfig uri sig (if alg = [] then ''sha384'' else alg))
   | CmdConfigGet p \<Rightarrow> if p = [] then None else Some (15, RqGetConfig p)
   | CmdConfig operation p \<Rightarrow> if p = [] \<or> \<not> Contains p '':'' then None else Some (15, case operation of
        configSet \<Rightarrow> RqSetConfig p | configAppend \<Rightarrow> RqAppendConfig p | configRemove \<Rightarrow> RqRemoveConfig p)
   | CmdRestart \<Rightarrow> Some (90, RqSetPowerState POWER_ACTION_CYCLE)
   | CmdShutdown \<Rightarrow> Some (90, RqSetPowerState POWER_ACTION_OFF)
   | CmdQuery option \<Rightarrow> (case parseQueryOption (if option = [] then ''all'' else option) of Inl _ \<Rightarrow> None | Inr q \<Rightarrow> Some (15, RqQuery q)))"

lemma first_duplicate_None: "first_duplicate seen xs = None \<longleftrightarrow> distinct xs \<and> set xs \<inter> seen = {}"
  by (induction xs arbitrary: seen) auto

lemma no_duplicate_distinct: "first_duplicate {} xs = None \<longleftrightarrow> distinct xs"
  by (simp add: first_duplicate_None)

text \<open>What the answer makes of a command that was sent.\<close>

definition accepted :: "'w inbc_env \<Rightarrow> inbc_command \<Rightarrow> inbc_request \<Rightarrow> 'w \<Rightarrow> bool" where
  "accepted env c q v = (case q of
     RqGetConfig p \<Rightarrow> (case fst (ie_GetConfig env p v) of Inl _ \<Rightarrow> False | Inr _ \<Rightarrow> True)
   | RqQuery option \<Rightarrow> (case fst (ie_Query env option v) of Inr (Some _) \<Rightarrow> True | _ \<Rightarrow> False)
   | _ \<Rightarrow> (case fst (ie_call env q v) of Inl _ \<Rightarrow> False
       | Inr resp \<Rightarrow> (case c of CmdSOTA _ \<Rightarrow> fst resp = 200 | CmdConfigLoad _ _ _ \<Rightarrow> fst resp = 200 \<and> snd resp = [] | _ \<Rightarrow> True)))"

definition remote_after :: "'w inbc_env \<Rightarrow> inbc_request \<Rightarrow> 'w \<Rightarrow> 'w" where
  "remote_after env q v = (case q of
     RqGetConfig p \<Rightarrow> snd (ie_GetConfig env p v) | RqQuery option \<Rightarrow> snd (ie_Query env option v) | _ \<Rightarrow> snd (ie_call env q v))"

text \<open>What a run leaves: the error or not, the requests, the state of the daemon and the connections.\<close>

definition inbc_ran :: "'w inbc_env \<Rightarrow> string \<Rightarrow> inbc_command \<Rightarrow> 'w inbc \<Rightarrow> unit outcome \<Rightarrow> 'w inbc \<Rightarrow> bool" where
  "inbc_ran env sock c w r w' \<longleftrightarrow> inbc_dialed w' + inbc_closed w = inbc_closed w' + inbc_dialed w \<and> (\<forall>x. r \<noteq> Crash x) \<and>
     (case (plan env c, ie_NewClient env (''unix://'' @ sock)) of
        (Some (t, q), None) \<Rightarrow> inbc_sent w' = inbc_sent w @ [(t, q)] \<and> inbc_remote w' = remote_after env q (inbc_remote w) \<and>
          (r = Ok () \<longleftrightarrow> accepted env c q (inbc_remote w))
      | _ \<Rightarrow> r \<noteq> Ok () \<and> inbc_sent w' = inbc_sent w \<and> inbc_remote w' = inbc_remote w)"

section \<open>Runs\<close>

lemma foreach_say: "foreach say ls w = (Ok (), w\<lparr>inbc_out := inbc_out w @ ls\<rparr>)"
  by (induction ls arbitrary: w) (simp_all add: say_def action_simps)

lemmas inbc_simps = say_def with_client_def inbc_Dial_def inbc_Close_def remote_call_def inbc_call_def action_simps
  deferred_def lift_result_def clientDialTimeoutInSeconds_def sourceTimeoutInSeconds_def emtSoftwareUpdateTimerInSeconds_def
  defaultSoftwareUpdateTimerInSeconds_def configTimeoutInSeconds_def firmwareUpdateTimerInSeconds_def queryTimeoutInSeconds_def

text \<open>The frame of the handlers: what the body does is what the command does, and the connection is closed.\<close>

lemma with_client_run:
  assumes "with_client env sock act w = (r, w')"
  shows "(\<exists>e. ie_NewClient env (''unix://'' @ sock) = Some e \<and> r = Err (''error setting up new gRPC client: '' @ e) \<and> w' = w) \<or>
    ie_NewClient env (''unix://'' @ sock) = None \<and> (\<exists>w1. act (w\<lparr>inbc_dialed := Suc (inbc_dialed w)\<rparr>) = (r, w1) \<and>
      ((\<exists>x. r = Crash x) \<or> inbc_sent w' = inbc_sent w1 \<and> inbc_remote w' = inbc_remote w1 \<and> inbc_dialed w' = inbc_dialed w1 \<and>
        inbc_closed w' = Suc (inbc_closed w1)))"
proof (cases "ie_NewClient env (''unix://'' @ sock)")
  case (Some e)
  with assms show ?thesis by (simp add: with_client_def inbc_Dial_def action_simps)
next
  case None
  obtain r1 w1 where b: "act (w\<lparr>inbc_dialed := Suc (inbc_dialed w)\<rparr>) = (r1, w1)" by fastforce
  show ?thesis
    using assms None b
    by (cases r1; cases "ie_Close env")
       (auto simp: with_client_def inbc_Dial_def inbc_Close_def say_def ignore_def deferred_def action_simps)
qed

text \<open>A call and what is done with its answer, which sends nothing more.\<close>

definition body_ran :: "'w inbc_env \<Rightarrow> inbc_command \<Rightarrow> (nat \<times> inbc_request) option \<Rightarrow> 'w inbc \<Rightarrow> unit outcome \<Rightarrow> 'w inbc \<Rightarrow> bool" where
  "body_ran env c pl w r w1 \<longleftrightarrow> inbc_dialed w1 = inbc_dialed w \<and> inbc_closed w1 = inbc_closed w \<and> (\<forall>x. r \<noteq> Crash x) \<and>
     (case pl of Some (t, q) \<Rightarrow> inbc_sent w1 = inbc_sent w @ [(t, q)] \<and> inbc_remote w1 = remote_after env q (inbc_remote w) \<and>
          (r = Ok () \<longleftrightarrow> accepted env c q (inbc_remote w))
      | None \<Rightarrow> r \<noteq> Ok () \<and> inbc_sent w1 = inbc_sent w \<and> inbc_remote w1 = inbc_remote w)"

lemma ran_body:
  assumes "with_client env sock act v = (r, w')" "inbc_sent v = inbc_sent w" "inbc_remote v = inbc_remote w"
    and "inbc_dialed v = inbc_dialed w" "inbc_closed v = inbc_closed w"
    and "\<And>u w1. act u = (r, w1) \<Longrightarrow> body_ran env c (plan env c) u r w1"
  shows "inbc_ran env sock c w r w'"
proof (cases "ie_NewClient env (''unix://'' @ sock)")
  case (Some e)
  with with_client_run [OF assms(1)] assms(2-5) show ?thesis by (auto simp: inbc_ran_def split: option.split)
next
  case None
  with with_client_run [OF assms(1)] obtain w1 where b: "act (v\<lparr>inbc_dialed := Suc (inbc_dialed v)\<rparr>) = (r, w1)"
    and e: "(\<exists>x. r = Crash x) \<or> inbc_sent w' = inbc_sent w1 \<and> inbc_remote w' = inbc_remote w1 \<and> inbc_dialed w' = inbc_dialed w1 \<and>
        inbc_closed w' = Suc (inbc_closed w1)" by auto
  from assms(6) [OF b] e None assms(2-5) show ?thesis
    by (auto simp: inbc_ran_def body_ran_def split: option.splits)
qed

lemma ran_refused: "plan env c = None \<Longrightarrow> inbc_ran env sock c w (Err e) (w\<lparr>inbc_out := ls\<rparr>)"
  by (simp add: inbc_ran_def)

lemma say_andthen: "andthen (say t) f w = f () (w\<lparr>inbc_out := inbc_out w @ [t]\<rparr>)"
  by (simp add: say_def action_simps)

lemma fail_andthen [simp]: "andthen (fail e) f = fail e"
  by (simp add: fun_eq_iff andthen_apply fail_apply)

lemma wrap_fail [simp]: "wrap p (fail e) = fail (p @ e)"
  by (simp add: fun_eq_iff wrap_apply fail_apply)

lemma call_said:
  assumes "andthen (wrap p (inbc_call env t q)) (\<lambda>resp. say (g resp)) u = (r, w1)"
    and "\<And>v. accepted env c q v = (case fst (ie_call env q v) of Inl _ \<Rightarrow> False | Inr _ \<Rightarrow> True)"
    and "\<And>v. remote_after env q v = snd (ie_call env q v)"
  shows "body_ran env c (Some (t, q)) u r w1"
  using assms(1)
  by (auto simp: body_ran_def assms(2,3) inbc_call_def remote_call_def say_def lift_result_def action_simps split: prod.splits sum.splits)

lemma SOTA_ran:
  assumes "handleSOTA env sock fl w = (r, w')"
  shows "inbc_ran env sock (CmdSOTA fl) w r w'"
proof (cases "sota_date (so_releaseDate fl)")
  case (Inl e)
  with assms show ?thesis by (auto simp: handleSOTA_def say_andthen fail_apply plan_def intro!: ran_refused)
next
  case date: (Inr date)
  show ?thesis
  proof (cases "first_duplicate {} (so_packageList fl)")
    case (Some p)
    then have "\<not> distinct (so_packageList fl)" using no_duplicate_distinct [of "so_packageList fl"] by simp
    with Some assms date show ?thesis
      by (auto simp: handleSOTA_def say_andthen fail_apply plan_def intro!: ran_refused split: sum.split)
  next
    case None
    then have d: "distinct (so_packageList fl)" by (simp add: no_duplicate_distinct)
    show ?thesis
    proof (cases "sota_mode (so_mode fl)")
      case (Inl e)
      with None assms date show ?thesis by (auto simp: handleSOTA_def say_andthen fail_apply plan_def intro!: ran_refused)
    next
      case (Inr mode)
      note a = assms [unfolded handleSOTA_def say_andthen date lift_result_Inr andthen_ret None option.case Inr]
      show ?thesis
        by (rule ran_body [OF a])
           (use date Inr d in \<open>auto simp: body_ran_def plan_def accepted_def remote_after_def inbc_simps Let_def
              split: sum.splits prod.splits if_splits\<close>)
    qed
  qed
qed

text \<open>The handlers that only print the answer.\<close>

definition printing :: "inbc_command \<Rightarrow> inbc_request \<Rightarrow> bool" where
  "printing c q \<longleftrightarrow> (\<forall>fl. c \<noteq> CmdSOTA fl) \<and> (\<forall>u s h. c \<noteq> CmdConfigLoad u s h) \<and> (\<forall>p. q \<noteq> RqGetConfig p) \<and> (\<forall>op. q \<noteq> RqQuery op)"

lemma printing_accepted:
  "printing c q \<Longrightarrow> accepted env c q v = (case fst (ie_call env q v) of Inl _ \<Rightarrow> False | Inr _ \<Rightarrow> True)"
  "printing c q \<Longrightarrow> remote_after env q v = snd (ie_call env q v)"
  by (auto simp: printing_def accepted_def remote_after_def split: inbc_request.split inbc_command.split sum.split)

lemma printing_ran:
  assumes "with_client env sock (andthen (wrap m (inbc_call env t q)) (\<lambda>resp. say (g resp))) (w\<lparr>inbc_out := ls\<rparr>) = (r, w')"
    and "plan env c = Some (t, q)" "printing c q"
  shows "inbc_ran env sock c w r w'"
proof (rule ran_body [OF assms(1)])
  fix u w1 assume "andthen (wrap m (inbc_call env t q)) (\<lambda>resp. say (g resp)) u = (r, w1)"
  from call_said [OF this printing_accepted(1) [OF assms(3)] printing_accepted(2) [OF assms(3)]]
  show "body_ran env c (plan env c) u r w1" unfolding assms(2) .
qed simp_all

lemma FOTA_ran:
  assumes "handleFOTA env sock fl w = (r, w')"
  shows "inbc_ran env sock (CmdFOTA fl) w r w'"
proof (cases "fota_date (fo_releaseDate fl)")
  case (Inl e)
  with assms show ?thesis by (auto simp: handleFOTA_def say_andthen fail_apply plan_def intro!: ran_refused)
next
  case date: (Inr date)
  show ?thesis
  proof (cases "fota_hash (fo_hashAlgorithm fl)")
    case (Inl e)
    with assms date show ?thesis by (auto simp: handleFOTA_def say_andthen fail_apply plan_def intro!: ran_refused)
  next
    case (Inr alg)
    show ?thesis
      by (rule printing_ran [OF assms [unfolded handleFOTA_def say_andthen date lift_result_Inr andthen_ret Inr]])
         (simp_all add: plan_def date Inr printing_def firmwareUpdateTimerInSeconds_def)
  qed
qed

lemma sources_ran:
  "handleAddApplicationSource env sock ss f u k w = (r, w') \<Longrightarrow> inbc_ran env sock (CmdSourceApplicationAdd ss f u k) w r w'"
  "handleUpdateOSSource env sock ss w = (r, w') \<Longrightarrow> inbc_ran env sock (CmdSourceOSUpdate ss) w r w'"
  "handleRemoveApplicationSource env sock f k w = (r, w') \<Longrightarrow> inbc_ran env sock (CmdSourceApplicationRemove f k) w r w'"
proof -
  assume a: "handleRemoveApplicationSource env sock f k w = (r, w')"
  show "inbc_ran env sock (CmdSourceApplicationRemove f k) w r w'"
    by (rule printing_ran [OF a [unfolded handleRemoveApplicationSource_def say_andthen]])
       (simp_all add: plan_def printing_def sourceTimeoutInSeconds_def)
next
  assume a: "handleAddApplicationSource env sock ss f u k w = (r, w')"
  show "inbc_ran env sock (CmdSourceApplicationAdd ss f u k) w r w'"
  proof (cases "first_duplicate {} ss")
    case None
    show ?thesis
      by (rule printing_ran [OF a [unfolded handleAddApplicationSource_def say_andthen None option.case]])
         (use None no_duplicate_distinct [of ss] in \<open>simp_all add: plan_def printing_def sourceTimeoutInSeconds_def\<close>)
  next
    case (Some s)
    with no_duplicate_distinct [of ss] a show ?thesis
      by (auto simp: handleAddApplicationSource_def say_andthen fail_apply plan_def intro!: ran_refused)
  qed
next
  assume a: "handleUpdateOSSource env sock ss w = (r, w')"
  show "inbc_ran env sock (CmdSourceOSUpdate ss) w r w'"
  proof (cases "first_duplicate {} ss")
    case None
    show ?thesis
      by (rule printing_ran [OF a [unfolded handleUpdateOSSource_def say_andthen None option.case]])
         (use None no_duplicate_distinct [of ss] in \<open>simp_all add: plan_def printing_def sourceTimeoutInSeconds_def\<close>)
  next
    case (Some s)
    with no_duplicate_distinct [of ss] a show ?thesis
      by (auto simp: handleUpdateOSSource_def say_andthen fail_apply plan_def intro!: ran_refused)
  qed
qed

lemma power_ran:
  "handleRestart env sock w = (r, w') \<Longrightarrow> inbc_ran env sock CmdRestart w r w'"
  "handleShutdown env sock w = (r, w') \<Longrightarrow> inbc_ran env sock CmdShutdown w r w'"
proof -
  assume a: "handleRestart env sock w = (r, w')"
  show "inbc_ran env sock CmdRestart w r w'"
    by (rule printing_ran [OF a [unfolded handleRestart_def say_andthen]])
       (simp_all add: plan_def printing_def firmwareUpdateTimerInSeconds_def)
next
  assume a: "handleShutdown env sock w = (r, w')"
  show "inbc_ran env sock CmdShutdown w r w'"
    by (rule printing_ran [OF a [unfolded handleShutdown_def say_andthen]])
       (simp_all add: plan_def printing_def firmwareUpdateTimerInSeconds_def)
qed

lemma config_ran: "handleConfigCmd env sock p op w = (r, w') \<Longrightarrow> inbc_ran env sock (CmdConfig op p) w r w'"
proof (cases "p = [] \<or> \<not> Contains p '':''")
  case True
  assume "handleConfigCmd env sock p op w = (r, w')"
  with True show ?thesis by (auto simp: handleConfigCmd_def say_andthen fail_apply plan_def intro!: ran_refused split: if_splits)
next
  case False
  assume a: "handleConfigCmd env sock p op w = (r, w')"
  from False have "(p = []) = False" "(\<not> Contains p '':'') = False" by auto
  note a = a [unfolded handleConfigCmd_def say_andthen this if_False]
  show ?thesis
    by (rule printing_ran [OF a])
       (use False in \<open>simp_all add: plan_def printing_def configTimeoutInSeconds_def split: configOperation.split\<close>)
qed

lemma load_ran: "handleConfigLoadCmd env sock u s h w = (r, w') \<Longrightarrow> inbc_ran env sock (CmdConfigLoad u s h) w r w'"
proof (cases "u = []")
  case True
  assume "handleConfigLoadCmd env sock u s h w = (r, w')"
  with True show ?thesis by (auto simp: handleConfigLoadCmd_def say_andthen fail_apply plan_def intro!: ran_refused)
next
  case False
  assume a: "handleConfigLoadCmd env sock u s h w = (r, w')"
  from False have "(u = []) = False" by simp
  note a = a [unfolded handleConfigLoadCmd_def say_andthen this if_False]
  show ?thesis
    by (rule ran_body [OF a])
       (use False in \<open>auto simp: body_ran_def plan_def accepted_def remote_after_def inbc_simps split: sum.splits prod.splits if_splits\<close>)
qed

lemma get_ran: "handleConfigGetCmd env sock p w = (r, w') \<Longrightarrow> inbc_ran env sock (CmdConfigGet p) w r w'"
proof (cases "p = []")
  case True
  assume "handleConfigGetCmd env sock p w = (r, w')"
  with True show ?thesis by (auto simp: handleConfigGetCmd_def say_andthen fail_apply plan_def intro!: ran_refused)
next
  case False
  assume a: "handleConfigGetCmd env sock p w = (r, w')"
  from False have "(p = []) = False" by simp
  note a = a [unfolded handleConfigGetCmd_def say_andthen this if_False]
  show ?thesis
    by (rule ran_body [OF a])
       (use False in \<open>auto simp: body_ran_def plan_def accepted_def remote_after_def inbc_simps split: sum.splits prod.splits\<close>)
qed

lemma query_ran: "handleQueryCmd env sock op w = (r, w') \<Longrightarrow> inbc_ran env sock (CmdQuery op) w r w'"
proof (cases "parseQueryOption (if op = [] then ''all'' else op)")
  case (Inl e)
  assume "handleQueryCmd env sock op w = (r, w')"
  with Inl show ?thesis
    by (auto simp: handleQueryCmd_def Let_def say_andthen fail_apply plan_def intro!: ran_refused)
next
  case (Inr q)
  assume a: "handleQueryCmd env sock op w = (r, w')"
  have wr: "andthen (wrap m (ret x)) f = f x" for m x and f :: "QueryOption \<Rightarrow> ('w inbc, unit) action"
    by (simp add: fun_eq_iff andthen_apply wrap_apply ret_apply)
  note a = a [unfolded handleQueryCmd_def Let_def say_andthen Inr lift_result_Inr wr]
  show ?thesis
    by (rule ran_body [OF a])
       (auto simp: Inr body_ran_def plan_def accepted_def remote_after_def inbc_simps foreach_say
          split: sum.splits prod.splits option.splits)
qed

lemma run_ran: "run_inbc env sock c w = (r, w') \<Longrightarrow> inbc_ran env sock c w r w'"
  by (cases c) (auto simp: run_inbc_def intro: SOTA_ran FOTA_ran sources_ran power_ran config_ran load_ran get_ran query_ran)

text \<open>C39: Every command of the client either is refused, or its connection fails, without a request, or it
  sends exactly the request that its arguments describe, with its time limit; it never panics, and
  every connection that was made is closed.\<close>

theorem inbc_runs_plan:
  assumes "run_inbc env sock c w = (r, w')"
  shows "inbc_ran env sock c w r w'"
  by (rule run_ran [OF assms])

section \<open>The exit status\<close>

definition exit_zero :: "'w inbc_env \<Rightarrow> string \<Rightarrow> inbc_command \<Rightarrow> 'w \<Rightarrow> bool" where
  "exit_zero env sock c v = (case (plan env c, ie_NewClient env (''unix://'' @ sock)) of
     (Some (t, q), None) \<Rightarrow> accepted env c q v | _ \<Rightarrow> False)"

lemma main_exit: "\<exists>w'. inbc_main env sock verbose c w = (Ok (if exit_zero env sock c (inbc_remote w) then 0 else 1), w')"
proof -
  obtain r w1 where e: "run_inbc env sock c w = (r, w1)" by fastforce
  note g = run_ran [OF e]
  show ?thesis
  proof (cases r)
    case (Ok u)
    with g have "exit_zero env sock c (inbc_remote w)"
      by (auto simp: inbc_ran_def exit_zero_def split: option.splits)
    with Ok e show ?thesis by (simp add: inbc_main_def action_simps)
  next
    case (Err m)
    with g have "\<not> exit_zero env sock c (inbc_remote w)"
      by (auto simp: inbc_ran_def exit_zero_def split: option.splits)
    with Err e show ?thesis by (simp add: inbc_main_def say_def action_simps)
  qed (use g in \<open>simp add: inbc_ran_def\<close>)
qed

text \<open>C40: The exit status of the client: zero exactly when the arguments are valid, the connection is made
  and the daemon answers, and, for the system update and the loading of a configuration only, the
  answer is a success.\<close>

theorem inbc_exit_status:
  "fst (inbc_main env sock verbose c w) = Ok (if exit_zero env sock c (inbc_remote w) then 0 else 1)"
  using main_exit [of env sock verbose c w] by auto

text \<open>A restart, a firmware update or a change of the configuration that the daemon answers with an error
  ends with the exit status zero.\<close>

lemma failed_request_exits_zero:
  assumes "plan env c = Some (t, q)" "printing c q" "ie_NewClient env (''unix://'' @ sock) = None"
    and "ie_call env q (inbc_remote w) = (Inr (code, e), v)"
  shows "fst (inbc_main env sock verbose c w) = Ok 0"
  using main_exit [of env sock verbose c w] assms by (auto simp: exit_zero_def printing_accepted)

lemma failed_restart_exits_zero:
  assumes "SetPowerState senv POWER_ACTION_CYCLE (inbc_remote w) = (Ok (500, e), v)" "ie_NewClient env (''unix://'' @ sock) = None"
  shows "fst (inbc_main (with_daemon senv view env) sock verbose CmdRestart w) = Ok 0"
  by (rule failed_request_exits_zero [where t = 90 and q = "RqSetPowerState POWER_ACTION_CYCLE" and code = 500 and e = e and v = v])
     (use assms in \<open>simp_all add: plan_def printing_def with_daemon_def serve_request_def answered_def\<close>)

section \<open>Queries\<close>

text \<open>The names of the query options that the daemon uses are read back by the client as the same
  options, in upper or lower case.\<close>

theorem query_option_roundtrip:
  assumes "option \<in> {QUERY_OPTION_HARDWARE, QUERY_OPTION_FIRMWARE, QUERY_OPTION_OS, QUERY_OPTION_SWBOM, QUERY_OPTION_VERSION, QUERY_OPTION_ALL}"
    and "ToLower s = convertQueryOptionToString option"
  shows "parseQueryOption s = Inr option"
  using assms by (auto simp: parseQueryOption_def Let_def convertQueryOptionToString_def)

lemma query_option_roundtrip_witness: "parseQueryOption ''SwBom'' = Inr QUERY_OPTION_SWBOM"
  by (rule query_option_roundtrip) code_simp+

lemma displayPackages_first:
  "i \<le> 10 \<Longrightarrow> displayPackages fmt n i ps = concat (map (displayPackage fmt) (take (10 - i) ps)) @
     (if length ps > 10 - i then [''... and '' @ show_int (int n - 10) @ '' more packages''] else [])"
proof (induction ps arbitrary: i)
  case (Cons p ps)
  show ?case
  proof (cases "i = 10")
    case False
    with Cons.prems have "take (10 - i) (p # ps) = p # take (10 - Suc i) ps" "Suc i \<le> 10" by (simp_all add: take_Cons' Suc_diff_le)
    with Cons.IH [of "Suc i"] False Cons.prems show ?thesis by auto
  qed simp
qed simp

text \<open>Ten packages are shown at most, and the number of the others.\<close>

lemma shown_packages:
  "displayPackages fmt (length ps) 0 ps = concat (map (displayPackage fmt) (take 10 ps)) @
     (if length ps > 10 then [''... and '' @ show_int (int (length ps) - 10) @ '' more packages''] else [])"
  using displayPackages_first [of 0] by simp

section \<open>A run\<close>

definition demo_inbc_env :: "unit inbc_env" where
  "demo_inbc_env = \<lparr>ie_NewClient = (\<lambda>_. None), ie_Close = None, ie_DetectOS = Inr ''EMT'', ie_call = (\<lambda>_ v. (Inr (500, ''no''), v)),
     ie_GetConfig = (\<lambda>_ v. (Inl ''no'', v)), ie_Query = (\<lambda>_ v. (Inr None, v)), ie_RFC3339 = (\<lambda>_. [])\<rparr>"

definition demo_inbc :: "unit inbc" where
  "demo_inbc = \<lparr>inbc_remote = (), inbc_out = [], inbc_sent = [], inbc_dialed = 0, inbc_closed = 0\<rparr>"

definition demo_sota :: sota_flags where
  "demo_sota = \<lparr>so_url = ''https://repo.example/image.raw'', so_releaseDate = [], so_mode = ''full'', so_reboot = True, so_packageList = [],
     so_signature = []\<rparr>"

lemma inbc_runs_plan_witness:
  "map fst (inbc_sent (snd (run_inbc demo_inbc_env ''/var/run/inbd.sock'' (CmdSOTA demo_sota) demo_inbc))) = [1200] \<and>
   fst (run_inbc demo_inbc_env ''/var/run/inbd.sock'' (CmdSOTA demo_sota) demo_inbc) \<noteq> Ok ()"
proof -
  obtain r w' where e: "run_inbc demo_inbc_env ''/var/run/inbd.sock'' (CmdSOTA demo_sota) demo_inbc = (r, w')" by fastforce
  from inbc_runs_plan [OF e] have "map fst (inbc_sent w') = [1200] \<and> r \<noteq> Ok ()"
    by (simp add: inbc_ran_def plan_def accepted_def demo_inbc_env_def demo_sota_def demo_inbc_def sota_date_def sota_mode_def)
  with e show ?thesis by simp
qed

end
