(* ===== verification/Pua_Report.thy ===== *)
theory Pua_Report
  imports Pua_System
begin

text \<open>
  The Platform Update Agent's configuration (\<^verbatim>\<open>internal/config/config.go\<close>) and the status that it
  reports (\<^verbatim>\<open>getUpgradablePackagesJSON\<close> and the message of \<^verbatim>\<open>handleEdgeInfrastructureManagerRequest\<close>
  in \<^verbatim>\<open>cmd/platform-update-agent/platform_update_agent.go\<close>), with what an answer to the report does to
  the metadata file.

  What the YAML decoder reads is a parameter. The package list is encoded as \<^verbatim>\<open>encoding/json\<close> does it
  for text in ASCII; other bytes are copied, as in valid UTF-8 without the two line separators.
\<close>

section \<open>Configuration\<close>

record PuaConfig =
  pc_Version :: string
  pc_GUID :: string
  pc_LogLevel :: string
  pc_UpdateServiceURL :: string
  pc_TickerInterval :: int
  pc_MetadataPath :: string
  pc_INBCLogsPath :: string
  pc_INBCGranularLogsPath :: string
  pc_MetricsEndpoint :: string
  pc_MetricsInterval :: int
  pc_AccessTokenPath :: string
  pc_ReleaseServiceFQDN :: string
  pc_ImmediateDownloadWindow :: int
  pc_DownloadWindow :: int
  pc_StatusEndpoint :: string

definition pc_setDefaults :: "PuaConfig \<Rightarrow> PuaConfig" where
  "pc_setDefaults cfg =
     (let cfg1 = (if pc_ImmediateDownloadWindow cfg = 0 then cfg\<lparr>pc_ImmediateDownloadWindow := 10 * 60 * 1000000000\<rparr> else cfg)
      in if pc_DownloadWindow cfg1 = 0 then cfg1\<lparr>pc_DownloadWindow := 6 * 60 * 60 * 1000000000\<rparr> else cfg1)"

definition pc_validate :: "PuaConfig \<Rightarrow> string + unit" where
  "pc_validate cfg =
     (if pc_UpdateServiceURL cfg = [] then Inl ''updateServiceURL is required''
      else if pc_GUID cfg = [] then Inl ''GUID is required''
      else if pc_AccessTokenPath cfg = [] then Inl ''JWT is required''
      else if pc_ImmediateDownloadWindow cfg < 0 then Inl ''immediateDownloadWindow cannot be negative''
      else if pc_DownloadWindow cfg < 0 then Inl ''downloadWindow cannot be negative''
      else Inr ())"

definition pc_New :: "env \<Rightarrow> (string \<Rightarrow> string + PuaConfig) \<Rightarrow> string \<Rightarrow> (world, PuaConfig) action" where
  "pc_New env yaml cfgPath =
     andthen (IsSymlink env cfgPath) (\<lambda>_.
     andthen (os_ReadFile env cfgPath) (\<lambda>content.
     andthen (lift_result (yaml content)) (\<lambda>config.
     let config1 = pc_setDefaults config in
     andthen (lift_result (pc_validate config1)) (\<lambda>_. ret config1))))"

section \<open>What is sent\<close>

record PackageInfo =
  pi_Name :: string
  pi_AvailableVersion :: string
  pi_Architecture :: string

definition json_hex :: "nat \<Rightarrow> char" where "json_hex n = ''0123456789abcdef'' ! n"

text \<open>The escapes of \<^verbatim>\<open>encoding/json\<close>, with those for HTML.\<close>

definition json_escape :: "char \<Rightarrow> string" where
  "json_escape c = (let n = of_char c :: nat in
     if c = CHR 0x22 \<or> c = CHR 0x5C then [CHR 0x5C, c]
     else if n = 8 then [CHR 0x5C, CHR ''b''] else if n = 12 then [CHR 0x5C, CHR ''f'']
     else if n = 10 then [CHR 0x5C, CHR ''n''] else if n = 13 then [CHR 0x5C, CHR ''r'']
     else if n = 9 then [CHR 0x5C, CHR ''t'']
     else if n < 32 \<or> c \<in> set ''<>&'' then CHR 0x5C # ''u00'' @ [json_hex (n div 16), json_hex (n mod 16)]
     else [c])"

definition json_text :: "string \<Rightarrow> string" where
  "json_text s = [CHR 0x22] @ concat (map json_escape s) @ [CHR 0x22]"

definition json_package :: "PackageInfo \<Rightarrow> string" where
  "json_package p = ''{'' @ json_text ''name'' @ '':'' @ json_text (pi_Name p) @ '','' @
     json_text ''available_version'' @ '':'' @ json_text (pi_AvailableVersion p) @ '','' @
     json_text ''architecture'' @ '':'' @ json_text (pi_Architecture p) @ ''}''"

definition json_packages :: "PackageInfo list \<Rightarrow> string" where
  "json_packages ps = ''['' @ Join (map json_package ps) '','' @ '']''"

definition getUpgradablePackagesJSON :: "env \<Rightarrow> string \<Rightarrow> (world, string) action" where
  "getUpgradablePackagesJSON env osType =
     (if osType \<noteq> ''ubuntu'' \<and> osType \<noteq> ''debian'' then ret []
      else andthen (attempt (ListUpgradablePackages env)) (\<lambda>r. case r of
        Inl _ \<Rightarrow> ret []
      | Inr [] \<Rightarrow> ret []
      | Inr pkgs \<Rightarrow> ret (json_packages (map (\<lambda>p. \<lparr>pi_Name = Name p, pi_AvailableVersion = AvailableVersion p,
          pi_Architecture = Architecture p\<rparr>) pkgs))))"

record UpdateStatusMsg =
  us_StatusType :: StatusType
  us_StatusDetail :: string
  us_ProfileName :: string
  us_ProfileVersion :: string
  us_OsImageId :: string
  us_OsUpdateAvailable :: string

text \<open>The status counts as \<open>FAILED\<close> when the metadata file cannot be read, the rest as empty.\<close>

definition status_message :: "env \<Rightarrow> string \<Rightarrow> (world, UpdateStatusMsg) action" where
  "status_message env osType =
     andthen (attempt (GetMetaUpdateStatus env)) (\<lambda>updateStatusType.
     andthen (attempt (GetMetaUpdateLog env)) (\<lambda>updateLog.
     andthen (attempt (GetMetaOSProfileUpdateSourceActual env)) (\<lambda>actual.
     andthen (getUpgradablePackagesJSON env osType) (\<lambda>osUpdateAvailable.
     let field = (\<lambda>f. case actual of Inr (Some p) \<Rightarrow> f p | _ \<Rightarrow> []) in
     ret \<lparr>us_StatusType = (case updateStatusType of Inl _ \<Rightarrow> FAILED | Inr st \<Rightarrow> st),
       us_StatusDetail = (case updateLog of Inl _ \<Rightarrow> [] | Inr l \<Rightarrow> l),
       us_ProfileName = field ProfileName, us_ProfileVersion = field ProfileVersion, us_OsImageId = field OsImageId,
       us_OsUpdateAvailable = osUpdateAvailable\<rparr>))))"

section \<open>The reported status\<close>

lemma stored_trace [simp]: "stored env m (s\<lparr>tick := n, trace := t\<rparr>) = stored env m s"
  by (simp add: stored_def)

lemma Upgradable_result:
  "\<exists>x t. getUpgradablePackagesJSON env osType s = (Ok x, t) \<and> (\<forall>m. stored env m s \<longrightarrow> stored env m t) \<and> metafile t = metafile s"
  by (auto simp: getUpgradablePackagesJSON_def ListUpgradablePackages_def Execute_def toCommandSlice_def action_simps
      stored_def split: sum.split list.split)

text \<open>On a usable file the message is what the file says.\<close>

definition describes :: "Meta \<Rightarrow> UpdateStatusMsg \<Rightarrow> bool" where
  "describes m msg \<longleftrightarrow> us_StatusType msg = convertStatusType (UpdateStatus m) \<and> us_StatusDetail msg = UpdateLog m \<and>
     us_OsImageId msg = (case OSProfileUpdateSourceActual m of None \<Rightarrow> [] | Some p \<Rightarrow> OsImageId p) \<and>
     us_ProfileName msg = (case OSProfileUpdateSourceActual m of None \<Rightarrow> [] | Some p \<Rightarrow> ProfileName p) \<and>
     us_ProfileVersion msg = (case OSProfileUpdateSourceActual m of None \<Rightarrow> [] | Some p \<Rightarrow> ProfileVersion p)"

lemma status_message_stored:
  assumes "stored env m s"
  shows "\<exists>msg t. status_message env osType s = (Ok msg, t) \<and> describes m msg \<and> stored env m t"
proof -
  let ?s = "s\<lparr>tick := Suc (Suc (Suc (Suc (Suc (Suc (tick s))))))\<rparr>"
  obtain x t where u: "getUpgradablePackagesJSON env osType ?s = (Ok x, t)" "stored env m t"
    using Upgradable_result [of env osType ?s] assms by auto
  have g: "get_meta env f (s\<lparr>tick := n\<rparr>) = (Ok (f m), s\<lparr>tick := n + 2\<rparr>)" for n and f :: "Meta \<Rightarrow> 'x"
    using get_meta_stored [of env m "s\<lparr>tick := n\<rparr>" f] assms by simp
  have g0: "get_meta env f s = (Ok (f m), s\<lparr>tick := tick s + 2\<rparr>)" for f :: "Meta \<Rightarrow> 'x"
    using get_meta_stored [OF assms] .
  show ?thesis
    using u(2) by (simp add: status_message_def getter_defs action_simps g0 g u(1) add.commute describes_def split: option.split)
qed

text \<open>A metadata file that cannot be read at that moment is reported as a failed update.\<close>

lemma unreadable_reported_as_failed:
  assumes "\<And>n. io_error env n ''read'' (MetaPath env) \<noteq> None"
  shows "\<exists>msg t. status_message env osType s = (Ok msg, t) \<and> us_StatusType msg = FAILED \<and> metafile t = metafile s"
proof -
  have r: "\<exists>e. ReadMeta env u = (Err e, u\<lparr>tick := Suc (tick u)\<rparr>)" for u
    using assms [of "tick u"] by (auto simp: ReadMeta_def io_def action_simps)
  obtain e1 where 1: "ReadMeta env s = (Err e1, s\<lparr>tick := Suc (tick s)\<rparr>)" using r by blast
  obtain e2 where 2: "ReadMeta env (s\<lparr>tick := Suc (tick s)\<rparr>) = (Err e2, s\<lparr>tick := Suc (Suc (tick s))\<rparr>)"
    using r [of "s\<lparr>tick := Suc (tick s)\<rparr>"] by auto
  let ?s = "s\<lparr>tick := Suc (Suc (Suc (tick s)))\<rparr>"
  obtain e3 where 3: "ReadMeta env (s\<lparr>tick := Suc (Suc (tick s))\<rparr>) = (Err e3, ?s)"
    using r [of "s\<lparr>tick := Suc (Suc (tick s))\<rparr>"] by auto
  obtain x t where u: "getUpgradablePackagesJSON env osType ?s = (Ok x, t)" "metafile t = metafile s"
    using Upgradable_result [of env osType ?s] by auto
  with 1 2 3 show ?thesis by (simp add: status_message_def getter_defs get_meta_def action_simps)
qed

section \<open>Handling an answer\<close>

lemma Now_apply: "Now env s = (Ok (clock env (tick s)), s\<lparr>tick := Suc (tick s)\<rparr>)"
  by (simp add: Now_def bump_def action_simps)

lemma handle_answer_stored:
  assumes "stored env m s" "handle_answer env osType ready sent res s = (r, t)"
  shows "\<exists>m'. stored env m' t \<and> UpdateInProgress m' = UpdateInProgress m \<and>
    UpdateStatus m' = (if sent = UPDATED then string_of_StatusType UP_TO_DATE else UpdateStatus m)"
proof -
  have l: "\<exists>t. SetMetaUpdateLog env x s = (Ok (), t) \<and> stored env (m\<lparr>UpdateLog := x\<rparr>) t" for x
    using log_field.put_stored [OF assms(1)] by blast
  define out where "out = (if osType = ''ubuntu'' \<or> osType = ''debian'' then handleUbuntuResponse env ready res
              else if osType = ''emt'' then handleEmtResponse env ready res else ret None)"
  define good where "good p \<longleftrightarrow> (\<exists>x t1 m1. p = (Ok (x :: Response option), t1) \<and> stored env m1 t1 \<and>
     UpdateStatus m1 = UpdateStatus m \<and> UpdateInProgress m1 = UpdateInProgress m)" for p
  have 1: "good (Ok x, s)" for x using assms(1) by (auto simp: good_def)
  have 2: "good (andthen (ignore (SetMetaUpdateLog env x)) (\<lambda>_. ret y) s)" for x y
  proof -
    obtain t1 where "SetMetaUpdateLog env x s = (Ok (), t1)" "stored env (m\<lparr>UpdateLog := x\<rparr>) t1" using l by blast
    then show ?thesis by (auto simp: good_def andthen_apply ignore_apply ret_apply)
  qed
  have "good (handleUbuntuResponse env ready res s)"
    by (cases "ResUpdateSource res"; cases "ResUpdateSchedule res")
       (simp_all add: handleUbuntuResponse_def trySendUpdateStatus_def if_app ret_apply 1 2)
  moreover have "good (handleEmtResponse env ready res s)"
    by (simp add: handleEmtResponse_def trySendUpdateStatus_def if_app ret_apply 1 2)
  ultimately have "good (out s)" by (simp add: out_def if_app ret_apply 1)
  then obtain x t1 m1 where o: "out s = (Ok x, t1)" "stored env m1 t1" "UpdateStatus m1 = UpdateStatus m"
    "UpdateInProgress m1 = UpdateInProgress m" by (auto simp: good_def)
  obtain t2 where "SetMetaUpdateStatus env UP_TO_DATE t1 = (Ok (), t2)"
    "stored env (m1\<lparr>UpdateStatus := string_of_StatusType UP_TO_DATE\<rparr>) t2"
    using status_field.put_stored [OF o(2)] by blast
  with assms(2) o show ?thesis
    unfolding handle_answer_def out_def [symmetric] by (auto simp: action_simps split: if_splits)
qed

text \<open>C6: The answer to an old report hides an update that has started meanwhile: after a restart it is
  not taken up again.\<close>

theorem stale_report_hides_update:
  assumes "stored env m s" "UpdateStatus m = string_of_StatusType STARTED" "UpdateInProgress m = string_of_UpdateType OS"
    and "handle_answer env osType ready UPDATED res s = (r, t)"
  shows "\<exists>m'. metafile (restart t) = Some (Encoded m') \<and> UpdateInProgress m' = string_of_UpdateType OS \<and>
    (\<exists>u. resume_update env osType logPath granularLogPath updaters (restart t) = (Ok (), u) \<and> metafile u = metafile t)"
proof -
  obtain m' where m': "stored env m' t" "UpdateInProgress m' = UpdateInProgress m"
    "UpdateStatus m' = string_of_StatusType UP_TO_DATE"
    using handle_answer_stored [OF assms(1,4)] by auto
  have s: "stored env m' (restart t)" using m'(1) by (simp add: stored_def restart_def)
  have "GetMetaUpdateStatus env (restart t) = (Ok UP_TO_DATE, (restart t)\<lparr>tick := tick (restart t) + 2\<rparr>)"
    by (simp add: getter_defs get_meta_stored [OF s] m'(3) convertStatusType_def)
  then have "resume_update env osType logPath granularLogPath updaters (restart t) = (Ok (), (restart t)\<lparr>tick := tick (restart t) + 2\<rparr>)"
    by (simp add: resume_update_def action_simps)
  with stored_metafile [OF s] m' assms(3) show ?thesis by (auto simp: restart_def)
qed

lemma stale_report_hides_update_witness:
  "\<exists>t m' u. handle_answer calm_env ''emt'' True UPDATED
      \<lparr>ResUpdateSource = None, ResUpdateSchedule = None, ResInstalledPackages = [], ResOsType = OS_TYPE_UNSPECIFIED,
       ResOsProfileUpdateSource = None\<rparr>
      (calm_world (initial_meta\<lparr>UpdateStatus := ''STATUS_TYPE_STARTED'', UpdateInProgress := ''OS''\<rparr>)) = (Ok None, t) \<and>
     metafile (restart t) = Some (Encoded m') \<and> UpdateInProgress m' = ''OS'' \<and>
     resume_update calm_env ''emt'' ''log'' ''granular'' [] (restart t) = (Ok (), u)"
proof -
  let ?m = "initial_meta\<lparr>UpdateStatus := ''STATUS_TYPE_STARTED'', UpdateInProgress := ''OS''\<rparr>"
  let ?res = "\<lparr>ResUpdateSource = None, ResUpdateSchedule = None, ResInstalledPackages = [], ResOsType = OS_TYPE_UNSPECIFIED,
       ResOsProfileUpdateSource = None\<rparr>"
  obtain t where t: "handle_answer calm_env ''emt'' True UPDATED ?res (calm_world ?m) = (Ok None, t)"
    by (simp add: handle_answer_def handleEmtResponse_def run_simps)
  from stale_report_hides_update [OF calm_stored _ _ t] t show ?thesis by (force simp: calm_stored)
qed

end
