(* ===== verification/Pua_Main.thy ===== *)
theory Pua_Main
  imports Pua_Report Agent_Common
begin

text \<open>
  The Platform Update Agent's client of the maintenance manager and its main program
  (\<^verbatim>\<open>internal/comms/comms.go\<close>, \<^verbatim>\<open>cmd/platform-update-agent/platform_update_agent.go\<close>): the start up to
  the loops, one round of the requests and one turn of the reports of its health.

  The process is the \<open>world\<close> of \<open>Pua_Metadata\<close>, which holds the metadata and the configuration
  file and the clock that is read, in a \<open>host\<close>, which holds the token file and the status service.
  A connection is the number of connections made before it; the library refuses calls on a closed
  one. What the maintenance manager answers, what a connection attempt gives and what the YAML
  decoder reads are functions of \<open>mm_env\<close>.
\<close>

section \<open>The client of the maintenance manager\<close>

text \<open>\<open>mm_sent\<close>: the requests, each with the bearer token, the node's id and whether it was answered.\<close>

record mm_request =
  rq_token :: string
  rq_guid :: string
  rq_status :: UpdateStatusMsg
  rq_answered :: bool

record pua = host +
  pw :: world
  GrpcConn :: "nat option"
  MMClient :: "nat option"
  dialed :: nat
  closed_conns :: "nat list"
  mm_sent :: "mm_request list"
  lastUpdateTimestamp :: int

record mm_env = host_env +
  yaml_pua :: "string \<Rightarrow> string + PuaConfig"
  mm_update_status :: "nat \<Rightarrow> string \<Rightarrow> string \<Rightarrow> UpdateStatusMsg \<Rightarrow> string + Response"
  conn_Close :: "nat \<Rightarrow> string option"

definition on_world :: "(world, 'a) action \<Rightarrow> (pua, 'a) action" where
  "on_world m = (\<lambda>w. case m (pw w) of (r, s) \<Rightarrow> (r, w\<lparr>pw := s\<rparr>))"

definition pua_Connect :: "'e mm_env_scheme \<Rightarrow> string \<Rightarrow> (pua, unit) action" where
  "pua_Connect menv addr = andthen (tick menv 0 (\<lambda>n. dial_error menv n addr)) (\<lambda>e. case e of
     Some m \<Rightarrow> andthen (modify (\<lambda>w. w\<lparr>GrpcConn := None\<rparr>)) (\<lambda>_. fail (''connection to '' @ addr @ '' failed: '' @ m))
   | None \<Rightarrow> modify (\<lambda>w. w\<lparr>GrpcConn := Some (dialed w), MMClient := Some (dialed w), dialed := Suc (dialed w)\<rparr>))"

definition TICKER_INTERVAL :: int where "TICKER_INTERVAL = 500000000"

definition RETRY_INTERVAL :: int where "RETRY_INTERVAL = 10 * time_Second"

text \<open>The context of the main program is never cancelled: the attempts go on until one succeeds.\<close>

definition connect_attempt :: "'e mm_env_scheme \<Rightarrow> string \<Rightarrow> (pua, bool) action" where
  "connect_attempt menv addr = andthen (tick menv TICKER_INTERVAL (\<lambda>_. ())) (\<lambda>_.
     andthen (attempt (pua_Connect menv addr)) (\<lambda>r. case r of
       Inr _ \<Rightarrow> ret True
     | Inl _ \<Rightarrow> andthen (time_Sleep menv RETRY_INTERVAL) (\<lambda>_. ret False)))"

partial_function (option) pua_ConnectToEdgeInfrastructureManager :: "'e mm_env_scheme \<Rightarrow> string \<Rightarrow> pua \<Rightarrow> pua option" where
  "pua_ConnectToEdgeInfrastructureManager menv addr w = (case connect_attempt menv addr w of
     (r, w') \<Rightarrow> if r = Ok True then Some w' else pua_ConnectToEdgeInfrastructureManager menv addr w')"

definition PlatformUpdateStatus :: "'e mm_env_scheme \<Rightarrow> string \<Rightarrow> UpdateStatusMsg \<Rightarrow> string \<Rightarrow> (pua, Response) action" where
  "PlatformUpdateStatus menv ctx status hostGUID = andthen (asks (\<lambda>w. (MMClient w, closed_conns w))) (\<lambda>(client, closed). case client of
     None \<Rightarrow> crash ''invalid memory address or nil pointer dereference''
   | Some c \<Rightarrow> if c \<in> set closed then fail ''grpc: the client connection is closing''
       else andthen (tick menv 0 (\<lambda>n. mm_update_status menv n ctx hostGUID status)) (\<lambda>res.
         andthen (modify (\<lambda>w. w\<lparr>mm_sent := mm_sent w @ [\<lparr>rq_token = ctx, rq_guid = hostGUID, rq_status = status,
            rq_answered = (\<not> isl res)\<rparr>]\<rparr>)) (\<lambda>_. lift_result res)))"

definition pua_close :: "'e mm_env_scheme \<Rightarrow> (pua, unit) action" where
  "pua_close menv = andthen (asks GrpcConn) (\<lambda>conn. case conn of
     None \<Rightarrow> crash ''invalid memory address or nil pointer dereference''
   | Some c \<Rightarrow> andthen (modify (\<lambda>w. w\<lparr>closed_conns := c # closed_conns w\<rparr>)) (\<lambda>_.
       andthen (tick menv 0 (conn_Close menv)) (\<lambda>e. case e of None \<Rightarrow> ret () | Some m \<Rightarrow> fail m)))"

section \<open>One round of the requests\<close>

definition NUM_RETRIES_pua :: nat where "NUM_RETRIES_pua = 3"

definition request_op :: "'e mm_env_scheme \<Rightarrow> PuaConfig \<Rightarrow> UpdateStatusMsg \<Rightarrow> (pua, Response) action" where
  "request_op menv cfg status = andthen (GetAuthContext menv (pc_AccessTokenPath cfg)) (\<lambda>ctx.
     PlatformUpdateStatus menv ctx status (pc_GUID cfg))"

text \<open>What follows the attempts: a new connection, or the handling of the answer. \<open>ready\<close>: whether the receiver
  of the responses waits for one.\<close>

definition round_end ::
  "env \<Rightarrow> 'e mm_env_scheme \<Rightarrow> PuaConfig \<Rightarrow> string \<Rightarrow> bool \<Rightarrow> StatusType \<Rightarrow> string + Response \<Rightarrow> (pua, Response option) action" where
  "round_end env menv cfg osType ready sent r = (case r of
     Inl _ \<Rightarrow> andthen (ignore (pua_close menv)) (\<lambda>_.
              andthen (ignore (pua_Connect menv (pc_UpdateServiceURL cfg))) (\<lambda>_. ret None))
   | Inr resp \<Rightarrow> andthen (on_world (Now env)) (\<lambda>now.
                andthen (modify (\<lambda>w. w\<lparr>lastUpdateTimestamp := time_Unix now\<rparr>)) (\<lambda>_.
                on_world (handle_answer env osType ready sent resp))))"

definition request_round :: "env \<Rightarrow> 'e mm_env_scheme \<Rightarrow> PuaConfig \<Rightarrow> string \<Rightarrow> bool \<Rightarrow> (pua, Response option) action" where
  "request_round env menv cfg osType ready =
     andthen (on_world (status_message env osType)) (\<lambda>status.
     andthen (asks interactions) (\<lambda>n.
     andthen (attempt (retry (min NUM_RETRIES_pua (attempts_left menv n)) (request_op menv cfg status)))
       (round_end env menv cfg osType ready (us_StatusType status))))"

section \<open>The reports of the health\<close>

definition AGENT_NAME_pua :: string where "AGENT_NAME_pua = ''platform-update-agent''"

definition pua_initStatusClientAndTicker :: "'e mm_env_scheme \<Rightarrow> string \<Rightarrow> (pua, int) action" where
  "pua_initStatusClientAndTicker menv statusServer = status_client_and_interval menv AGENT_NAME_pua statusServer"

definition health_turn :: "env \<Rightarrow> 'e mm_env_scheme \<Rightarrow> int \<Rightarrow> int \<Rightarrow> (pua, unit) action" where
  "health_turn env menv statusInterval tickerInterval =
     andthen (asks lastUpdateTimestamp) (\<lambda>lastCheck.
     andthen (on_world (Now env)) (\<lambda>now.
     andthen (if status_ready statusInterval tickerInterval lastCheck (time_Unix now)
              then ignore (SendStatusReady menv AGENT_NAME_pua) else ignore (SendStatusNotReady menv AGENT_NAME_pua)) (\<lambda>_.
     ticker_Reset statusInterval)))"

section \<open>The start\<close>

definition pua_fatal :: "string \<Rightarrow> ('s, 'a) action \<Rightarrow> ('s, 'a) action" where
  "pua_fatal msg m = andthen (attempt m) (\<lambda>r. case r of Inl e \<Rightarrow> crash (msg @ e) | Inr x \<Rightarrow> ret x)"

text \<open>From here on the metadata file is the configured one.\<close>

definition pua_env :: "env \<Rightarrow> PuaConfig \<Rightarrow> env" where
  "pua_env env cfg = env\<lparr>MetaPath := pc_MetadataPath cfg\<rparr>"

definition pua_prepare :: "env \<Rightarrow> 'e mm_env_scheme \<Rightarrow> string \<Rightarrow> (pua, PuaConfig) action" where
  "pua_prepare env menv configPath =
     andthen (pua_fatal ''Unable to initialize configuration. Platform update agent will terminate''
                (on_world (pc_New env (yaml_pua menv) configPath))) (\<lambda>cfg.
     andthen (pua_fatal ''Error initializing metadata: '' (on_world (InitMetadata (pua_env env cfg)))) (\<lambda>_.
     andthen (ignore (on_world (ProvisionInbm (pua_env env cfg)))) (\<lambda>_.
     andthen (pua_fatal ''TLS configuration creation failed! Error: '' (GetAuthConfig menv None)) (\<lambda>_.
     ret cfg))))"

text \<open>The loop of the requests starts a ticker, which panics for an interval that is not positive.\<close>

definition pua_loops_start :: "PuaConfig \<Rightarrow> string \<Rightarrow> ('s, unit) action" where
  "pua_loops_start cfg osType =
     (if osType \<noteq> ''ubuntu'' \<and> osType \<noteq> ''emt'' \<and> osType \<noteq> ''debian'' then crash (''Unsupported OS: '' @ osType)
      else if pc_TickerInterval cfg \<le> 0 then crash ''non-positive interval for NewTicker''
      else ret ())"

record pua_running =
  run_cfg :: PuaConfig
  run_os :: string
  run_updaters :: "(world, unit) action list"
  run_meta :: Meta

definition pua_resume :: "env \<Rightarrow> PuaConfig \<Rightarrow> string \<Rightarrow> (pua, pua_running) action" where
  "pua_resume env cfg forceOS = (let e = pua_env env cfg in
     andthen (pua_fatal ''Terminating: unable to detect OS: '' (on_world (DetectOS e forceOS))) (\<lambda>osType.
     andthen (pua_fatal ''Terminating: unable to initialize update controller: ''
                (lift_result (NewUpdateController e osType (downloadChecker e)))) (\<lambda>updaters.
     andthen (on_world (resume_update e osType (pc_INBCLogsPath cfg) (pc_INBCGranularLogsPath cfg) updaters)) (\<lambda>_.
     andthen (pua_fatal ''Failed to read metadata: '' (on_world (ReadMeta e))) (\<lambda>meta.
     andthen (pua_loops_start cfg osType) (\<lambda>_.
     ret \<lparr>run_cfg = cfg, run_os = osType, run_updaters = updaters, run_meta = meta\<rparr>))))))"

text \<open>None when the maintenance manager can never be connected.\<close>

definition pua_start :: "env \<Rightarrow> 'e mm_env_scheme \<Rightarrow> string \<Rightarrow> string \<Rightarrow> pua \<Rightarrow> (pua_running outcome \<times> pua) option" where
  "pua_start env menv configPath forceOS w = (case pua_prepare env menv configPath w of
     (Ok cfg, w1) \<Rightarrow> map_option (pua_resume env cfg forceOS)
        (pua_ConnectToEdgeInfrastructureManager menv (pc_UpdateServiceURL cfg) w1)
   | (Err e, w1) \<Rightarrow> Some (Err e, w1)
   | (Crash e, w1) \<Rightarrow> Some (Crash e, w1))"

end
