(* ===== verification/Pua_Main_Laws.thy ===== *)
theory Pua_Main_Laws
  imports Pua_Main
begin

text \<open>
  What the main program of the Platform Update Agent guarantees: what a round of requests sends and
  when it forgets an outcome, what holds when the loops start, and when the attempts to connect end.
\<close>

section \<open>Lifting to the process\<close>

interpretation in_world: host_frame "\<lambda>w :: pua. pw w = s" for s
  by unfold_locales simp

interpretation in_requests: host_frame "\<lambda>w :: pua. mm_sent w = ms" for ms
  by unfold_locales simp

interpretation in_time: host_frame "\<lambda>w :: pua. lastUpdateTimestamp w = t" for t
  by unfold_locales simp

lemma on_world_apply: "on_world m w = (fst (m (pw w)), w\<lparr>pw := snd (m (pw w))\<rparr>)"
  by (simp add: on_world_def split: prod.split)

lemma keeps_on_world [keeps_rules]: "keeps (\<lambda>w. mm_sent w = ms) (on_world m)"
  by (simp add: keeps_def on_world_apply)

lemma pw_client [keeps_rules]:
  "keeps (\<lambda>w. pw w = s) (PlatformUpdateStatus menv ctx status guid)" "keeps (\<lambda>w. pw w = s) (pua_close menv)"
  "keeps (\<lambda>w. pw w = s) (pua_Connect menv addr)" "keeps (\<lambda>w. pw w = s) (GetAuthContext menv p)"
  unfolding PlatformUpdateStatus_def pua_close_def pua_Connect_def GetAuthContext_def
  by (intro keeps_rules keeps_modify; simp)+

lemma pw_request_op: "keeps (\<lambda>w. pw w = s) (request_op menv cfg status)"
  unfolding request_op_def by (intro keeps_rules)

lemma requests_of_the_client [keeps_rules]:
  "keeps (\<lambda>w. mm_sent w = ms) (pua_close menv)" "keeps (\<lambda>w. mm_sent w = ms) (pua_Connect menv addr)"
  unfolding pua_close_def pua_Connect_def by (intro keeps_rules keeps_modify; simp)+

section \<open>The requests of a round\<close>

definition request_for :: "PuaConfig \<Rightarrow> UpdateStatusMsg \<Rightarrow> bool \<Rightarrow> mm_request \<Rightarrow> bool" where
  "request_for cfg status answered q \<longleftrightarrow> rq_guid q = pc_GUID cfg \<and> rq_status q = status \<and> rq_answered q = answered"

text \<open>\<open>tries cfg status ok qs\<close>: requests with the status, none answered but, if \<open>ok\<close>, the last one.\<close>

definition tries :: "PuaConfig \<Rightarrow> UpdateStatusMsg \<Rightarrow> bool \<Rightarrow> mm_request list \<Rightarrow> bool" where
  "tries cfg status ok qs \<longleftrightarrow> (if ok then \<exists>us q. qs = us @ [q] \<and> list_all (request_for cfg status False) us \<and>
     request_for cfg status True q else list_all (request_for cfg status False) qs)"

lemma tries_append: "list_all (request_for cfg status False) ps \<Longrightarrow> tries cfg status ok qs \<Longrightarrow> tries cfg status ok (ps @ qs)"
  unfolding tries_def by (metis append.assoc list_all_append)

lemma tries_contents: "tries cfg status ok qs \<Longrightarrow> q \<in> set qs \<Longrightarrow> rq_guid q = pc_GUID cfg \<and> rq_status q = status"
  by (auto simp: tries_def request_for_def list_all_iff split: if_splits)

lemma tries_answered: "tries cfg status ok qs \<Longrightarrow> ok = (\<exists>us q. qs = us @ [q] \<and> rq_answered q)"
  by (auto simp: tries_def request_for_def list_all_iff split: if_splits)

lemma request_op_sends:
  assumes "request_op menv cfg status w = (r, w')"
  shows "\<exists>qs. mm_sent w' = mm_sent w @ qs \<and> length qs \<le> 1 \<and> tries cfg status (\<exists>x. r = Ok x) qs"
proof -
  obtain tok where g: "GetAuthContext menv (pc_AccessTokenPath cfg) w = (Ok tok, w)"
    using GetAuthContext_Ok by blast
  let ?ans = "mm_update_status menv (interactions w) tok (pc_GUID cfg) status"
  show ?thesis
  proof (cases "\<exists>c. MMClient w = Some c \<and> c \<notin> set (closed_conns w)")
    case True
    then have "r = (case ?ans of Inl e \<Rightarrow> Err e | Inr x \<Rightarrow> Ok x) \<and> mm_sent w' = mm_sent w @
        [\<lparr>rq_token = tok, rq_guid = pc_GUID cfg, rq_status = status, rq_answered = (\<not> isl ?ans)\<rparr>]"
      using assms g by (cases ?ans) (auto simp: request_op_def PlatformUpdateStatus_def action_simps tick_apply)
    then show ?thesis by (cases ?ans) (auto simp: tries_def request_for_def)
  next
    case False
    then have "(\<nexists>x. r = Ok x) \<and> w' = w"
      using assms g by (cases "MMClient w") (auto simp: request_op_def PlatformUpdateStatus_def action_simps)
    then show ?thesis by (auto simp: tries_def)
  qed
qed

lemma retry_sends:
  assumes "retry n (request_op menv cfg status) w = (r, w')"
  shows "\<exists>qs. mm_sent w' = mm_sent w @ qs \<and> length qs \<le> Suc n \<and> tries cfg status (\<exists>x. r = Ok x) qs"
  using assms
proof (induction n arbitrary: w)
  case 0
  from request_op_sends [OF 0 [simplified]] show ?case by simp
next
  case (Suc n)
  obtain r1 w1 where m: "request_op menv cfg status w = (r1, w1)" by fastforce
  then obtain ps where p: "mm_sent w1 = mm_sent w @ ps" "length ps \<le> 1" "tries cfg status (\<exists>x. r1 = Ok x) ps"
    using request_op_sends by blast
  show ?case
  proof (cases "\<exists>e. r1 = Err e")
    case True
    then have "retry n (request_op menv cfg status) w1 = (r, w')" using Suc.prems m by (auto simp: andthen_apply attempt_apply)
    then obtain qs where q: "mm_sent w' = mm_sent w1 @ qs" "length qs \<le> Suc n" "tries cfg status (\<exists>x. r = Ok x) qs"
      using Suc.IH by blast
    have "list_all (request_for cfg status False) ps" using p(3) True by (auto simp: tries_def)
    from tries_append [OF this q(3)] p q show ?thesis by (intro exI [of _ "ps @ qs"]) simp
  next
    case False
    then have "r = r1 \<and> w' = w1"
      using m Suc.prems by (cases r1) (auto simp: andthen_apply attempt_apply ret_apply)
    with p show ?thesis by (intro exI [of _ ps]) auto
  qed
qed

lemma time_request_op: "keeps (\<lambda>w :: pua. lastUpdateTimestamp w = t) (request_op menv cfg status)"
  unfolding request_op_def PlatformUpdateStatus_def GetAuthContext_def by (intro keeps_rules keeps_modify; simp)

lemma time_connection [keeps_rules]:
  "keeps (\<lambda>w :: pua. lastUpdateTimestamp w = t) (pua_close menv)" "keeps (\<lambda>w :: pua. lastUpdateTimestamp w = t) (pua_Connect menv addr)"
  unfolding pua_close_def pua_Connect_def by (intro keeps_rules keeps_modify; simp)+

lemma round_end_stored:
  assumes "stored env m (pw w)" "round_end env menv cfg osType ready sent x w = (r, w')"
  shows "mm_sent w' = mm_sent w \<and> (\<exists>m'. stored env m' (pw w') \<and> UpdateStatus m' =
      (if \<not> isl x \<and> sent = UPDATED then string_of_StatusType UP_TO_DATE else UpdateStatus m)) \<and>
    (isl x \<longrightarrow> lastUpdateTimestamp w' = lastUpdateTimestamp w)"
proof (cases x)
  case (Inl e)
  let ?m = "andthen (ignore (pua_close menv)) (\<lambda>_. andthen (ignore (pua_Connect menv (pc_UpdateServiceURL cfg))) (\<lambda>_. ret (None :: Response option)))"
  have r: "?m w = (r, w')" using assms(2) Inl by (simp add: round_end_def)
  have "keeps (\<lambda>w. pw w = pw v) ?m" "keeps (\<lambda>w. mm_sent w = mm_sent v) ?m"
    "keeps (\<lambda>w. lastUpdateTimestamp w = lastUpdateTimestamp v) ?m" for v :: pua
    by (intro keeps_rules)+
  from this [THEN keepsD, OF refl r] assms(1) Inl show ?thesis by auto
next
  case (Inr resp)
  obtain now s1 where n: "Now env (pw w) = (Ok now, s1)" "stored env m s1"
    using assms(1) by (simp add: Now_apply)
  obtain r1 t1 where h: "handle_answer env osType ready sent resp s1 = (r1, t1)" by fastforce
  have "r = r1 \<and> w' = w\<lparr>pw := t1, lastUpdateTimestamp := time_Unix now\<rparr>"
    using assms(2) Inr n(1) h by (auto simp: round_end_def andthen_apply on_world_apply modify_apply)
  then show ?thesis using handle_answer_stored [OF n(2) h] Inr by auto
qed

text \<open>C4: A round on a usable metadata file reports what the file says, at most four times, and forgets a finished
  update, by marking the node as up to date, only after that report has been answered.\<close>

theorem update_outcome_not_lost:
  assumes "stored env m (pw w)" "request_round env menv cfg osType ready w = (r, w')"
  shows "\<exists>qs m'. mm_sent w' = mm_sent w @ qs \<and> length qs \<le> 4 \<and>
    (\<forall>q \<in> set qs. rq_guid q = pc_GUID cfg \<and> describes m (rq_status q)) \<and> stored env m' (pw w') \<and>
    (if UpdateStatus m = string_of_StatusType UPDATED \<and> (\<exists>us q. qs = us @ [q] \<and> rq_answered q)
     then UpdateStatus m' = string_of_StatusType UP_TO_DATE else UpdateStatus m' = UpdateStatus m) \<and>
    (lastUpdateTimestamp w' \<noteq> lastUpdateTimestamp w \<longrightarrow> (\<exists>us q. qs = us @ [q] \<and> rq_answered q))"
proof -
  obtain msg s1 where m: "status_message env osType (pw w) = (Ok msg, s1)" "describes m msg" "stored env m s1"
    using status_message_stored [OF assms(1)] by blast
  define w1 where "w1 = w\<lparr>pw := s1\<rparr>"
  let ?n = "min NUM_RETRIES_pua (attempts_left menv (interactions w1))"
  obtain r2 w2 where a: "retry ?n (request_op menv cfg msg) w1 = (r2, w2)" by fastforce
  then obtain qs where q: "mm_sent w2 = mm_sent w1 @ qs" "length qs \<le> Suc ?n" "tries cfg msg (\<exists>x. r2 = Ok x) qs"
    using retry_sends by blast
  have s2: "pw w2 = s1" using keepsD [OF keeps_retry [OF pw_request_op] _ a, of s1] by (simp add: w1_def)
  have t2: "lastUpdateTimestamp w2 = lastUpdateTimestamp w"
    using keepsD [OF keeps_retry [OF time_request_op] _ a, of "lastUpdateTimestamp w"] by (simp add: w1_def)
  have w1: "request_round env menv cfg osType ready w = andthen (attempt (retry ?n (request_op menv cfg msg)))
      (round_end env menv cfg osType ready (us_StatusType msg)) w1"
    by (simp add: request_round_def andthen_apply on_world_apply m(1) asks_apply w1_def)
  have "mm_sent w' = mm_sent w2 \<and> (\<exists>m'. stored env m' (pw w') \<and> UpdateStatus m' =
      (if (\<exists>x. r2 = Ok x) \<and> us_StatusType msg = UPDATED then string_of_StatusType UP_TO_DATE else UpdateStatus m)) \<and>
      ((\<nexists>x. r2 = Ok x) \<longrightarrow> lastUpdateTimestamp w' = lastUpdateTimestamp w2)"
    using assms(2) round_end_stored [of env m w2 menv cfg osType ready "us_StatusType msg" _ r w'] m(3) s2
    unfolding w1 by (cases r2) (fastforce simp: andthen_apply attempt_apply a)+
  moreover have "us_StatusType msg = UPDATED \<longleftrightarrow> UpdateStatus m = string_of_StatusType UPDATED"
    using m(2) by (simp add: describes_def convertStatusType_def)
  moreover have "\<forall>q \<in> set qs. rq_guid q = pc_GUID cfg \<and> describes m (rq_status q)"
    using tries_contents [OF q(3)] m(2) by blast
  moreover have "length qs \<le> 4" using q(2) by (simp add: NUM_RETRIES_pua_def)
  ultimately show ?thesis
    using q(1) t2 tries_answered [OF q(3)] by (intro exI [of _ qs]) (auto simp: w1_def)
qed

section \<open>Connecting\<close>

lemma connect_attempt_apply:
  "\<exists>w1. interactions w < interactions w1 \<and> pw w1 = pw w \<and> closed_conns w1 = closed_conns w \<and>
    (if dial_error menv (Suc (interactions w)) addr = None
     then connect_attempt menv addr w = (Ok True, w1) \<and> GrpcConn w1 = Some (dialed w) \<and> MMClient w1 = Some (dialed w) \<and>
       dialed w1 = Suc (dialed w)
     else connect_attempt menv addr w = (Ok False, w1) \<and> dialed w1 = dialed w)"
  by (cases "dial_error menv (Suc (interactions w)) addr")
     (simp_all add: connect_attempt_def pua_Connect_def tick_apply time_Sleep_apply andthen_apply attempt_apply modify_apply
       fail_apply ret_apply case_option_app case_sum_app)

text \<open>The attempts end when the manager can be reached from some time on, with a client that is bound to a new
  connection; if it never can be, they never end.\<close>

lemma connect_ends:
  assumes "\<And>n. N \<le> n \<Longrightarrow> dial_error menv n addr = None"
  shows "\<exists>w'. pua_ConnectToEdgeInfrastructureManager menv addr w = Some w' \<and> pw w' = pw w \<and>
    closed_conns w' = closed_conns w \<and> dialed w \<le> dialed w' \<and>
    (\<exists>c \<ge> dialed w. GrpcConn w' = Some c \<and> MMClient w' = Some c)"
proof (induction "N - interactions w" arbitrary: w rule: less_induct)
  case less
  obtain w1 where w1: "interactions w < interactions w1" "pw w1 = pw w" "closed_conns w1 = closed_conns w"
    and c: "if dial_error menv (Suc (interactions w)) addr = None
     then connect_attempt menv addr w = (Ok True, w1) \<and> GrpcConn w1 = Some (dialed w) \<and> MMClient w1 = Some (dialed w) \<and>
       dialed w1 = Suc (dialed w)
     else connect_attempt menv addr w = (Ok False, w1) \<and> dialed w1 = dialed w"
    using connect_attempt_apply [of w menv addr] by blast
  show ?case
  proof (cases "dial_error menv (Suc (interactions w)) addr")
    case None
    with c w1 show ?thesis by (subst pua_ConnectToEdgeInfrastructureManager.simps) auto
  next
    case (Some e)
    then have "Suc (interactions w) < N" using assms by (metis not_le option.distinct(1))
    with w1(1) have "N - interactions w1 < N - interactions w" by linarith
    from less [OF this] c w1 Some show ?thesis
      by (subst pua_ConnectToEdgeInfrastructureManager.simps) auto
  qed
qed

section \<open>The start\<close>

lemma pua_fatal_Ok: "pua_fatal msg m w = (Ok x, w') \<longleftrightarrow> m w = (Ok x, w')"
  by (auto simp: pua_fatal_def andthen_apply attempt_apply crash_apply ret_apply split: prod.splits outcome.splits sum.splits)

lemma pua_world_Ok: "on_world m w = (Ok x, w') \<longleftrightarrow> (\<exists>s. m (pw w) = (Ok x, s) \<and> w' = w\<lparr>pw := s\<rparr>)"
  by (auto simp: on_world_def split: prod.split)

lemma lift_result_Ok: "lift_result r w = (Ok x, w') \<longleftrightarrow> r = Inr x \<and> w' = w"
  by (cases r) (auto simp: action_simps)

lemma pc_New_Ok:
  assumes "pc_New env yaml p s = (Ok cfg, t)"
  shows "\<exists>content c. files s p = Some content \<and> \<not> links s p \<and> yaml content = Inr c \<and> cfg = pc_setDefaults c \<and> pc_validate cfg = Inr ()"
  using assms
  by (auto simp: pc_New_def IsSymlink_def os_ReadFile_def andthen_eq_Ok wrap_eq_Ok lift_result_Ok Let_def ret_apply asks_apply
      fail_apply io_def bump_def modify_apply split: option.splits if_splits)

lemma valid_config:
  assumes "pc_validate (pc_setDefaults c) = Inr ()"
  shows "pc_UpdateServiceURL c \<noteq> [] \<and> pc_GUID c \<noteq> [] \<and> pc_AccessTokenPath c \<noteq> [] \<and>
    0 < pc_ImmediateDownloadWindow (pc_setDefaults c) \<and> 0 < pc_DownloadWindow (pc_setDefaults c)"
  using assms by (auto simp: pc_validate_def pc_setDefaults_def Let_def split: if_splits)

lemma connect_binds:
  assumes "pua_ConnectToEdgeInfrastructureManager menv addr w = Some w'"
  shows "pw w' = pw w \<and> closed_conns w' = closed_conns w \<and> (\<exists>c \<ge> dialed w. GrpcConn w' = Some c \<and> MMClient w' = Some c)"
  using assms
proof (induction rule: pua_ConnectToEdgeInfrastructureManager.raw_induct [rotated 1, consumes 1])
  case (1 rec menv addr w w')
  obtain w1 where w1: "interactions w < interactions w1" "pw w1 = pw w" "closed_conns w1 = closed_conns w"
    and c: "if dial_error menv (Suc (interactions w)) addr = None
     then connect_attempt menv addr w = (Ok True, w1) \<and> GrpcConn w1 = Some (dialed w) \<and> MMClient w1 = Some (dialed w) \<and>
       dialed w1 = Suc (dialed w)
     else connect_attempt menv addr w = (Ok False, w1) \<and> dialed w1 = dialed w"
    using connect_attempt_apply [of w menv addr] by blast
  show ?case
  proof (cases "dial_error menv (Suc (interactions w)) addr")
    case None
    with c w1 1(2) show ?thesis by auto
  next
    case (Some e)
    then have "rec menv addr w1 = Some w'" using c 1(2) by simp
    from 1(1) [OF this] w1 c Some show ?thesis by auto
  qed
qed

interpretation in_counts: host_frame "\<lambda>w :: pua. closed_conns w = cs \<and> dialed w = d" for cs d
  by unfold_locales simp

interpretation in_client: host_frame "\<lambda>w :: pua. GrpcConn w = g \<and> MMClient w = c \<and> closed_conns w = cs" for g c cs
  by unfold_locales simp

lemma client_on_world [keeps_rules]:
  "keeps (\<lambda>w. closed_conns w = cs \<and> dialed w = d) (on_world m)"
  "keeps (\<lambda>w. GrpcConn w = g \<and> MMClient w = c \<and> closed_conns w = cs) (on_world m)"
  by (simp_all add: keeps_def on_world_apply)

lemma keeps_pua_fatal [keeps_rules]: "keeps I m \<Longrightarrow> keeps I (pua_fatal msg m)"
  unfolding pua_fatal_def by (intro keeps_rules)

lemma keeps_prepare: "keeps (\<lambda>w. closed_conns w = cs \<and> dialed w = d) (pua_prepare env menv p)"
  unfolding pua_prepare_def GetAuthConfig_def by (intro keeps_rules)

lemma keeps_resume: "keeps (\<lambda>w. GrpcConn w = g \<and> MMClient w = c \<and> closed_conns w = cs) (pua_resume env cfg os)"
  unfolding pua_resume_def Let_def pua_loops_start_def by (intro keeps_rules)

lemma pua_resume_Ok:
  assumes "pua_resume env cfg forceOS w = (Ok q, w')"
  shows "run_cfg q = cfg \<and> run_os q \<in> {''ubuntu'', ''debian'', ''emt''} \<and> 0 < pc_TickerInterval cfg \<and>
    NewUpdateController (pua_env env cfg) (run_os q) (downloadChecker (pua_env env cfg)) = Inr (run_updaters q) \<and>
    metafile (pw w') = Some (Encoded (run_meta q))"
proof -
  obtain os us meta s0 s where u: "NewUpdateController (pua_env env cfg) os (downloadChecker (pua_env env cfg)) = Inr us"
    and m: "ReadMeta (pua_env env cfg) s0 = (Ok meta, s)" and l: "pua_loops_start cfg os (w\<lparr>pw := s\<rparr>) = (Ok (), w')"
    and q: "q = \<lparr>run_cfg = cfg, run_os = os, run_updaters = us, run_meta = meta\<rparr>"
    using assms unfolding pua_resume_def Let_def andthen_eq_Ok pua_fatal_Ok lift_result_Ok ret_apply
    by (auto simp: pua_world_Ok)
  from ReadMeta_result [OF m] have "metafile s = Some (Encoded meta)" by auto
  with l q u show ?thesis
    by (auto simp: pua_loops_start_def ret_apply crash_apply NewUpdateController_def split: if_splits)
qed

text \<open>C5: When the loops start, the configuration is the one of the file with its defaults, valid and with a positive
  interval, the client is bound to an open connection, the updaters are those of the detected system, and
  the remembered record is what the metadata file holds.\<close>

theorem pua_start_ready:
  assumes "pua_start env menv configPath forceOS w = Some (Ok q, w')" "\<forall>c \<in> set (closed_conns w). c < dialed w"
  shows "(\<exists>content c. files (pw w) configPath = Some content \<and> \<not> links (pw w) configPath \<and>
      yaml_pua menv content = Inr c \<and> run_cfg q = pc_setDefaults c) \<and>
    pc_GUID (run_cfg q) \<noteq> [] \<and> pc_UpdateServiceURL (run_cfg q) \<noteq> [] \<and> pc_AccessTokenPath (run_cfg q) \<noteq> [] \<and>
    0 < pc_ImmediateDownloadWindow (run_cfg q) \<and> 0 < pc_DownloadWindow (run_cfg q) \<and> 0 < pc_TickerInterval (run_cfg q) \<and>
    (\<exists>c. GrpcConn w' = Some c \<and> MMClient w' = Some c \<and> c \<notin> set (closed_conns w')) \<and>
    run_os q \<in> {''ubuntu'', ''debian'', ''emt''} \<and>
    NewUpdateController (pua_env env (run_cfg q)) (run_os q) (downloadChecker (pua_env env (run_cfg q))) = Inr (run_updaters q) \<and>
    metafile (pw w') = Some (Encoded (run_meta q))"
proof -
  obtain cfg w1 w2 where p: "pua_prepare env menv configPath w = (Ok cfg, w1)"
    and c: "pua_ConnectToEdgeInfrastructureManager menv (pc_UpdateServiceURL cfg) w1 = Some w2"
    and r: "pua_resume env cfg forceOS w2 = (Ok q, w')"
    using assms(1) by (auto simp: pua_start_def split: prod.splits outcome.splits)
  let ?e = "pua_env env cfg"
  obtain s0 where n: "pc_New env (yaml_pua menv) configPath (pw w) = (Ok cfg, s0)"
    using p by (auto simp: pua_prepare_def andthen_eq_Ok pua_fatal_Ok pua_world_Ok ret_apply)
  have k: "closed_conns w1 = closed_conns w \<and> dialed w1 = dialed w"
    using keepsD [OF keeps_prepare [of "closed_conns w" "dialed w"] _ p] by simp
  obtain k where b: "GrpcConn w2 = Some k" "MMClient w2 = Some k" "closed_conns w2 = closed_conns w" "dialed w \<le> k"
    using connect_binds [OF c] k by auto
  then have "k \<notin> set (closed_conns w2)" using assms(2) by auto
  moreover have "GrpcConn w' = Some k \<and> MMClient w' = Some k \<and> closed_conns w' = closed_conns w2"
    using keepsD [OF keeps_resume [of "Some k" "Some k" "closed_conns w2"] _ r] b by simp
  moreover have "run_cfg q = cfg \<and> run_os q \<in> {''ubuntu'', ''debian'', ''emt''} \<and> 0 < pc_TickerInterval cfg \<and>
      NewUpdateController ?e (run_os q) (downloadChecker ?e) = Inr (run_updaters q) \<and> metafile (pw w') = Some (Encoded (run_meta q))"
    by (rule pua_resume_Ok [OF r])
  ultimately show ?thesis using pc_New_Ok [OF n] valid_config by (auto simp: pc_setDefaults_def Let_def)
qed

text \<open>The interval of the requests has no default and is not checked: without it the start ends in a panic.\<close>

lemma unset_ticker_panics:
  assumes "pc_TickerInterval c = 0" "os \<in> {''ubuntu'', ''debian'', ''emt''}"
  shows "pua_loops_start (pc_setDefaults c) os w = (Crash ''non-positive interval for NewTicker'', w)"
  using assms by (auto simp: pua_loops_start_def pc_setDefaults_def Let_def crash_apply)

text \<open>After a connection could not be made, the next round without an answer panics: it closes a nil connection.\<close>

lemma lost_connection_panics:
  assumes "GrpcConn w = None"
  shows "round_end env menv cfg osType ready sent (Inl e) w = (Crash ''invalid memory address or nil pointer dereference'', w)"
  using assms by (simp add: round_end_def pua_close_def action_simps)

section \<open>Concrete runs\<close>

definition demo_pua_config :: PuaConfig where
  "demo_pua_config = \<lparr>pc_Version = ''1'', pc_GUID = ''g'', pc_LogLevel = ''info'', pc_UpdateServiceURL = ''u:1'',
     pc_TickerInterval = 20 * time_Second, pc_MetadataPath = ''meta'', pc_INBCLogsPath = ''log'',
     pc_INBCGranularLogsPath = ''granular'', pc_MetricsEndpoint = [], pc_MetricsInterval = 0, pc_AccessTokenPath = ''/t'',
     pc_ReleaseServiceFQDN = ''rs'', pc_ImmediateDownloadWindow = 0, pc_DownloadWindow = 0, pc_StatusEndpoint = ''unix:s''\<rparr>"

definition demo_menv :: mm_env where
  "demo_menv = \<lparr>host_cwd = [], os_Environ = [], process = (\<lambda>n argv e d. (\<lparr>Stdout = [], Stderr = [], Combined = [], exit_error = None\<rparr>, d)),
     delay = (\<lambda>_. 0), status_call = (\<lambda>_ _. Inr 10), dial_error = (\<lambda>_ _. None), attempts_left = (\<lambda>_. 9),
     SystemCertPool = (\<lambda>_. Inr []), yaml_pua = (\<lambda>_. Inr demo_pua_config), mm_update_status = (\<lambda>_ _ _ _. Inl ''down''),
     conn_Close = (\<lambda>_. None)\<rparr>"

definition demo_pua :: "world \<Rightarrow> pua" where
  "demo_pua s = \<lparr>disk = \<lparr>tree = (\<lambda>_. None), nlink = (\<lambda>_. 1)\<rparr>, clock_ns = 0, interactions = 0, processes = [], status_sent = [],
     pw = s, GrpcConn = None, MMClient = None, dialed = 0, closed_conns = [], mm_sent = [], lastUpdateTimestamp = 0\<rparr>"

lemma update_outcome_not_lost_witness:
  "\<exists>qs m'. mm_sent (snd (request_round calm_env demo_menv demo_pua_config ''emt'' True (demo_pua (calm_world initial_meta)))) = qs \<and>
     length qs \<le> 4 \<and> (\<forall>q \<in> set qs. rq_guid q = ''g'') \<and>
     stored calm_env m' (pw (snd (request_round calm_env demo_menv demo_pua_config ''emt'' True (demo_pua (calm_world initial_meta)))))"
proof -
  obtain r w' where w': "request_round calm_env demo_menv demo_pua_config ''emt'' True (demo_pua (calm_world initial_meta)) = (r, w')"
    by fastforce
  have "stored calm_env initial_meta (pw (demo_pua (calm_world initial_meta)))" by (simp add: demo_pua_def)
  from update_outcome_not_lost [OF this w'] w' show ?thesis by (auto simp: demo_pua_def demo_pua_config_def)
qed

definition demo_files :: world where
  "demo_files = (calm_world initial_meta)\<lparr>files := [''c'' \<mapsto> ''yaml'']\<rparr>"

lemma demo_env: "pua_env calm_env (pc_setDefaults demo_pua_config) = calm_env"
  by (simp add: pua_env_def pc_setDefaults_def Let_def demo_pua_config_def calm_env_def)

lemma resume_emt:
  assumes "pua_env env cfg = e" "stored e m (pw w)" "convertStatusType (UpdateStatus m) \<noteq> STARTED" "0 < pc_TickerInterval cfg"
  shows "\<exists>q w'. pua_resume env cfg ''emt'' w = (Ok q, w')"
proof -
  have "resume_update e os p q us (pw w) = (Ok (), (pw w)\<lparr>world.tick := world.tick (pw w) + 2\<rparr>)" for os p q us
    by (simp add: resume_update_def action_simps getter_defs get_meta_stored [OF assms(2)] assms(3))
  then show ?thesis
    using assms(2,4) by (simp add: pua_resume_def Let_def assms(1) pua_fatal_def andthen_apply attempt_apply on_world_apply ret_apply
        DetectOS_def NewUpdateController_def ReadMeta_stored pua_loops_start_def if_app)
qed

lemma demo_start:
  "\<exists>q w'. pua_start calm_env demo_menv ''c'' ''emt'' (demo_pua demo_files) = Some (Ok q, w')"
proof -
  obtain s1 where 1: "pc_New calm_env (yaml_pua demo_menv) ''c'' demo_files = (Ok (pc_setDefaults demo_pua_config), s1)"
    "stored calm_env initial_meta s1"
    by (simp add: pc_New_def demo_files_def demo_menv_def mm_env.defs os_ReadFile_def run_simps stored_def Let_def
        pc_setDefaults_def demo_pua_config_def pc_validate_def time_Second_def)
  obtain s2 where 2: "InitMetadata calm_env s1 = (Ok (), s2)" "stored calm_env initial_meta s2"
    using 1(2) by (simp add: InitMetadata_def fileExists_def fileHasContent_def stored_def io_healthy action_simps)
  obtain r s3 where 3: "ProvisionInbm calm_env s2 = (r, s3)" by fastforce
  have 4: "stored calm_env initial_meta s3 \<and> (\<forall>e. r \<noteq> Crash e)"
    using 2(2) 3 by (auto simp: ProvisionInbm_def stored_def io_healthy Execute_def action_simps split: sum.splits if_splits)
  have "\<exists>w1. pua_prepare calm_env demo_menv ''c'' (demo_pua demo_files) = (Ok (pc_setDefaults demo_pua_config), w1) \<and> pw w1 = s3"
    using 1(1) 2(1) 3 4
    by (cases r) (simp_all add: pua_prepare_def pua_fatal_def andthen_apply attempt_apply on_world_apply ret_apply demo_env ignore_apply
        demo_pua_def GetAuthConfig_def wrap_apply tick_apply demo_menv_def mm_env.defs)
  then obtain w1 where p: "pua_prepare calm_env demo_menv ''c'' (demo_pua demo_files) = (Ok (pc_setDefaults demo_pua_config), w1)"
    "pw w1 = s3" by blast
  obtain w2 where c: "pua_ConnectToEdgeInfrastructureManager demo_menv (pc_UpdateServiceURL (pc_setDefaults demo_pua_config)) w1 = Some w2"
    "pw w2 = s3"
    using connect_ends [of 0 demo_menv "pc_UpdateServiceURL (pc_setDefaults demo_pua_config)" w1] p(2)
    by (auto simp: demo_menv_def mm_env.defs)
  have "0 < pc_TickerInterval (pc_setDefaults demo_pua_config)"
    by (simp add: pc_setDefaults_def demo_pua_config_def time_Second_def)
  then have "\<exists>q w'. pua_resume calm_env (pc_setDefaults demo_pua_config) ''emt'' w2 = (Ok q, w')"
    using resume_emt [OF demo_env, of initial_meta w2] 4 c(2) by (simp add: initial_meta_def convertStatusType_def)
  with p c show ?thesis by (auto simp: pua_start_def)
qed

lemma pua_start_ready_witness:
  "\<exists>q w'. pua_start calm_env demo_menv ''c'' ''emt'' (demo_pua demo_files) = Some (Ok q, w') \<and>
     0 < pc_DownloadWindow (run_cfg q) \<and> metafile (pw w') = Some (Encoded (run_meta q))"
proof -
  obtain q w' where s: "pua_start calm_env demo_menv ''c'' ''emt'' (demo_pua demo_files) = Some (Ok q, w')"
    using demo_start by blast
  have "\<forall>c \<in> set (closed_conns (demo_pua demo_files)). c < dialed (demo_pua demo_files)" by (simp add: demo_pua_def)
  from pua_start_ready [OF s this] s show ?thesis by blast
qed

end
