(* ===== verification/Cluster_Main.thy ===== *)
theory Cluster_Main
  imports Cluster_Agent Agent_Common
begin

text \<open>
  The Cluster Agent as a process (\<^verbatim>\<open>cmd/cluster-agent/cluster-agent.go\<close>): the start, one turn of the
  heartbeats and of the reports of its health, and how the heartbeats hand the requested actions to
  the goroutine that drives the state machine of \<open>Cluster_Agent\<close>.

  The process is that state machine in a \<open>host\<close>. \<open>answers\<close> and \<open>taken\<close> are histories: the actions that
  the orchestrator asked for and those that the state machine was given. An unbuffered channel with
  a send that does not wait joins the two goroutines: an action is handed over only while the
  receiver waits. While it works on an action, a heartbeat may find the state machine in any of the
  states on its way. Signals and metrics are not modelled.
\<close>

section \<open>The process\<close>

record cluster = host +
  machine :: StateMachine
  have_orch :: bool
  lastResponse :: int
  answers :: "ActionRequest list"
  taken :: "ActionRequest list"
  told :: "State list"

definition on_machine :: "(StateMachine, 'a) action \<Rightarrow> (cluster, 'a) action" where
  "on_machine m = (\<lambda>w. case m (machine w) of (r, sm) \<Rightarrow> (r, w\<lparr>machine := sm\<rparr>))"

definition AGENT_NAME_cluster :: string where "AGENT_NAME_cluster = ''cluster-agent''"

definition cluster_exit :: "('s, 'a) action \<Rightarrow> ('s, 'a) action" where
  "cluster_exit m = andthen (attempt m) (\<lambda>r. case r of Inl _ \<Rightarrow> crash ''exit status 1'' | Inr x \<Rightarrow> ret x)"

text \<open>An error of the connection is only logged; the program goes on without a client.\<close>

definition ConnectToClusterOrch :: "'e host_env_scheme \<Rightarrow> string \<Rightarrow> (cluster, unit) action" where
  "ConnectToClusterOrch henv serverAddr = andthen (tick henv 0 (\<lambda>n. dial_error henv n serverAddr)) (\<lambda>e. case e of
     Some m \<Rightarrow> fail (''connection to '' @ serverAddr @ '' failed: '' @ m)
   | None \<Rightarrow> modify (\<lambda>w. w\<lparr>have_orch := True\<rparr>))"

definition cluster_start :: "'e host_env_scheme \<Rightarrow> string + ClusterConfig \<Rightarrow> (cluster, ClusterConfig) action" where
  "cluster_start henv decoded =
     andthen (cluster_exit (lift_result (cc_New decoded))) (\<lambda>cfg.
     andthen (cluster_exit (GetAuthConfig henv None)) (\<lambda>_.
     andthen (ignore (ConnectToClusterOrch henv (cc_ServerAddr cfg))) (\<lambda>_.
     andthen (modify (\<lambda>w. w\<lparr>machine := NewStateMachine\<rparr>)) (\<lambda>_.
     ret cfg))))"

section \<open>The heartbeats\<close>

text \<open>\<open>st\<close> is the state that the heartbeat finds. A method of a nil client panics.\<close>

definition heartbeat_op :: "cluster_env \<Rightarrow> 'e host_env_scheme \<Rightarrow> ClusterConfig \<Rightarrow> State \<Rightarrow> (cluster, ActionRequest) action" where
  "heartbeat_op env henv cfg st =
     andthen (GetAuthContext henv (cc_AccessTokenPath cfg)) (\<lambda>_.
     andthen (asks have_orch) (\<lambda>present.
     if \<not> present then crash ''invalid memory address or nil pointer dereference'' else
     andthen (modify (\<lambda>w. w\<lparr>told := told w @ [st]\<rparr>)) (\<lambda>_.
     andthen (on_machine (UpdateClusterStatus env st (cc_GUID cfg))) (\<lambda>res.
     andthen (time_Now henv) (\<lambda>now.
     andthen (modify (\<lambda>w. w\<lparr>lastResponse := time_Unix now\<rparr>)) (\<lambda>_. ret res))))))"

text \<open>What the heartbeat has to hand over, if it was answered.\<close>

definition heartbeat :: "cluster_env \<Rightarrow> 'e host_env_scheme \<Rightarrow> ClusterConfig \<Rightarrow> State \<Rightarrow> (cluster, ActionRequest option) action" where
  "heartbeat env henv cfg st =
     andthen (attempt (backoff_Retry henv (heartbeat_op env henv cfg st))) (\<lambda>r.
     andthen (case r of Inl _ \<Rightarrow> ret None
              | Inr a \<Rightarrow> andthen (modify (\<lambda>w. w\<lparr>answers := answers w @ [a]\<rparr>)) (\<lambda>_. ret (Some a))) (\<lambda>out.
     andthen (ticker_Reset (cc_Heartbeat cfg)) (\<lambda>_. ret out)))"

section \<open>The reports of the health\<close>

definition cluster_initStatusClientAndTicker :: "'e host_env_scheme \<Rightarrow> string \<Rightarrow> (cluster, int) action" where
  "cluster_initStatusClientAndTicker henv statusServer = status_client_and_interval henv AGENT_NAME_cluster statusServer"

definition cluster_status_turn :: "'e host_env_scheme \<Rightarrow> ClusterConfig \<Rightarrow> int \<Rightarrow> (cluster, unit) action" where
  "cluster_status_turn henv cfg statusInterval =
     (let compareInterval = max (statusInterval div time_Second) (cc_Heartbeat cfg div time_Second) in
      andthen (asks lastResponse) (\<lambda>lastCheck.
      andthen (time_Now henv) (\<lambda>now.
      andthen (if time_Unix now - lastCheck \<le> 2 * compareInterval
               then ignore (SendStatusReady henv AGENT_NAME_cluster)
               else ignore (SendStatusNotReady henv AGENT_NAME_cluster)) (\<lambda>_.
      ticker_Reset statusInterval))))"

section \<open>The two goroutines\<close>

text \<open>The states that a machine has been in.\<close>

definition course :: "StateMachine \<Rightarrow> State list" where
  "course sm = INACTIVE # entered sm"

text \<open>The receiver waits, or works on an action: then the machine will be \<open>sm\<close> at the end, and was last seen at
  place \<open>k\<close> of its course.\<close>

datatype receiver = Waiting | Working nat StateMachine

inductive cluster_step :: "cluster_env \<Rightarrow> 'e host_env_scheme \<Rightarrow> ClusterConfig \<Rightarrow> int \<Rightarrow>
    cluster \<times> receiver \<Rightarrow> cluster \<times> receiver \<Rightarrow> bool" for env henv cfg interval where
  handed_over: "heartbeat env henv cfg (currentState (machine w)) w = (Ok (Some a), w') \<Longrightarrow>
    handle_action env a (machine w') = (r, sm) \<Longrightarrow>
    cluster_step env henv cfg interval (w, Waiting)
      (w'\<lparr>taken := taken w' @ [a]\<rparr>, Working (length (entered (machine w'))) sm)"
| unanswered: "heartbeat env henv cfg (currentState (machine w)) w = (Ok None, w') \<Longrightarrow>
    cluster_step env henv cfg interval (w, Waiting) (w', Waiting)"
| dropped: "k \<le> k' \<Longrightarrow> k' < length (course sm) \<Longrightarrow> heartbeat env henv cfg (course sm ! k') w = (Ok x, w') \<Longrightarrow>
    cluster_step env henv cfg interval (w, Working k sm) (w', Working k' sm)"
| worked: "cluster_step env henv cfg interval (w, Working k sm) (w\<lparr>machine := sm\<rparr>, Waiting)"
| status: "cluster_status_turn henv cfg interval w = (Ok (), w') \<Longrightarrow>
    cluster_step env henv cfg interval (w, c) (w', c)"

inductive cluster_runs :: "cluster_env \<Rightarrow> 'e host_env_scheme \<Rightarrow> string + ClusterConfig \<Rightarrow> ClusterConfig \<Rightarrow> int \<Rightarrow>
    cluster \<times> receiver \<Rightarrow> bool" for env henv decoded cfg interval where
  started: "cluster_start henv decoded w = (Ok cfg, w') \<Longrightarrow> answers w = [] \<Longrightarrow> taken w = [] \<Longrightarrow> told w = [] \<Longrightarrow>
    cluster_runs env henv decoded cfg interval (w', Waiting)"
| went_on: "cluster_runs env henv decoded cfg interval c \<Longrightarrow> cluster_step env henv cfg interval c d \<Longrightarrow>
    cluster_runs env henv decoded cfg interval d"

inductive_cases cluster_step_cases: "cluster_step env henv cfg interval c d"

section \<open>What an action does to the course\<close>

text \<open>An action only adds to the course, and enters ACTIVE only after a command has succeeded.\<close>

definition earned :: "State list \<Rightarrow> StateMachine \<Rightarrow> bool" where
  "earned es sm \<longleftrightarrow> prefix es (entered sm) \<and> (ACTIVE \<in> set (entered sm) \<longrightarrow> (\<exists>c. (c, True) \<in> set (commands_run sm)))"

lemma earned_set_state [keeps_rules]: "s \<noteq> ACTIVE \<Longrightarrow> keeps (earned es) (set_state s)"
  by (auto simp: keeps_def earned_def set_state_def modify_apply)

lemma earned_tick: "earned es (sm\<lparr>sm_tick := n\<rparr>) = earned es sm"
  by (simp add: earned_def)

lemma earned_modify [keeps_rules]: "keeps (earned es) (modify (\<lambda>sm. sm\<lparr>uninstallCmd := u\<rparr>))"
  "keeps (earned es) (modify (\<lambda>sm. sm\<lparr>installCmd := i, uninstallCmd := u\<rparr>))"
  by (simp_all add: keeps_def earned_def modify_apply)

lemma earned_basic [keeps_rules]: "keeps (earned es) sm_next" "keeps (earned es) (bash env c)"
  "keeps (earned es) (read_lsb_release env)" "keeps (earned es) incorrectActionRequest"
proof -
  show n: "keeps (earned es) sm_next"
    by (auto simp: keeps_def sm_next_def action_simps earned_tick)
  have m: "keeps (earned es) (modify (\<lambda>sm. sm\<lparr>commands_run := commands_run sm @ [x]\<rparr>))" for x
    by (auto simp: keeps_def earned_def modify_apply)
  show "keeps (earned es) (bash env c)" "keeps (earned es) (read_lsb_release env)" "keeps (earned es) incorrectActionRequest"
    unfolding bash_def read_lsb_release_def incorrectActionRequest_def by (intro keeps_rules n m)+
qed

lemma earned_fetch [keeps_rules]: "keeps (earned es) (fetch_commands env)"
  unfolding fetch_commands_def registerToClusterOrch_def cli_Register_def by (intro keeps_rules)

lemma earned_install [keeps_rules]: "keeps (earned es) (InstallInProgress_Register env)"
proof (rule keepsI)
  fix sm assume e: "earned es sm"
  obtain r1 s1 where g: "bash env (installCmd sm) sm = (r1, s1)" by fastforce
  note b = bash_result [OF g]
  show "earned es (snd (InstallInProgress_Register env sm))"
    using b e by (cases r1) (auto simp: InstallInProgress_Register_def action_simps g set_state_def earned_def)
qed

lemma earned_handle_action: "keeps (earned es) (handle_action env a)"
proof -
  have "keeps (earned es) (Register env)"
    unfolding Register_def Inactive_Register_def Registering_Register_def
    by (rule keeps_andthen [OF keeps_asks]) (split State.split, auto intro!: keeps_rules)
  moreover have "keeps (earned es) (Deregister env)"
    unfolding Deregister_def Inactive_Deregister_def Active_Deregister_def Deregistering_Deregister_def UninstallInProgress_Deregister_def
    by (rule keeps_andthen [OF keeps_asks]) (split State.split, auto intro!: keeps_rules)
  ultimately show ?thesis
    unfolding handle_action_def by (cases a) (auto intro!: keeps_rules)
qed

end
