(* ===== verification/Cluster_Main_Laws.thy ===== *)
theory Cluster_Main_Laws
  imports Cluster_Main
begin

text \<open>
  What the two goroutines of the Cluster Agent guarantee in every interleaving: the state machine
  keeps its invariant, the actions it is given are some of those that were asked for, in their order,
  and what the orchestrator is told is a walk along the course of the machine.
\<close>

section \<open>A heartbeat\<close>

text \<open>What a heartbeat that finds the state \<open>st\<close> may change.\<close>

definition heard :: "cluster \<Rightarrow> State \<Rightarrow> cluster \<Rightarrow> bool" where
  "heard v st w \<longleftrightarrow> (\<exists>k. machine w = (machine v)\<lparr>sm_tick := k\<rparr>) \<and> (\<exists>n. told w = told v @ replicate n st) \<and>
     taken w = taken v \<and> answers w = answers v"

lemma heard_refl: "heard v st v"
proof -
  have "machine v = (machine v)\<lparr>sm_tick := sm_tick (machine v)\<rparr>" by simp
  moreover have "told v = told v @ replicate 0 st" by simp
  ultimately show ?thesis unfolding heard_def by blast
qed

interpretation hears: host_frame "heard v st" for v st
  by unfold_locales (simp add: heard_def)

lemma ticks_basic [keeps_rules]: "keeps (\<lambda>sm. \<exists>k. sm = m\<lparr>sm_tick := k\<rparr>) sm_next"
  by (auto simp: keeps_def sm_next_def action_simps)

lemma ticks_UpdateClusterStatus: "keeps (\<lambda>sm. \<exists>k. sm = m\<lparr>sm_tick := k\<rparr>) (UpdateClusterStatus env st guid)"
  unfolding UpdateClusterStatus_def conn_step_def by (intro keeps_rules)

lemma heard_on_machine [keeps_rules]: "keeps (heard v st) (on_machine (UpdateClusterStatus env st guid))"
proof (rule keepsI)
  fix w assume h: "heard v st w"
  obtain r sm where u: "UpdateClusterStatus env st guid (machine w) = (r, sm)" by fastforce
  have "\<exists>k. machine w = (machine v)\<lparr>sm_tick := k\<rparr>" using h by (simp add: heard_def)
  from keepsD [OF ticks_UpdateClusterStatus this u] h show "heard v st (snd (on_machine (UpdateClusterStatus env st guid) w))"
    by (simp add: on_machine_def u heard_def)
qed

lemma heard_modify [keeps_rules]: "keeps (heard v st) (modify (\<lambda>w. w\<lparr>told := told w @ [st]\<rparr>))"
  "keeps (heard v st) (modify (\<lambda>w. w\<lparr>lastResponse := t\<rparr>))"
proof -
  have "\<exists>n'. (told v @ replicate n st) @ [st] = told v @ replicate n' st" for n
    by (rule exI [of _ "Suc n"]) (simp add: replicate_append_same)
  then show "keeps (heard v st) (modify (\<lambda>w. w\<lparr>told := told w @ [st]\<rparr>))"
    by (auto simp: keeps_def heard_def modify_apply)
  show "keeps (heard v st) (modify (\<lambda>w. w\<lparr>lastResponse := t\<rparr>))"
    by (simp add: keeps_def heard_def modify_apply)
qed

lemma heard_op: "keeps (heard v st) (heartbeat_op env henv cfg st)"
  unfolding heartbeat_op_def GetAuthContext_def by (intro keeps_rules)

lemma keeps_backoff_Retry [keeps_rules]: "keeps I m \<Longrightarrow> keeps I (backoff_Retry env m)"
  unfolding backoff_Retry_def by (intro keeps_rules)

lemma heartbeat_result:
  assumes "heartbeat env henv cfg st w = (r, w')"
  shows "\<exists>v as. heard w st v \<and> w' = v\<lparr>answers := answers w @ as\<rparr> \<and> (\<forall>a. r = Ok (Some a) \<longrightarrow> as = [a])"
proof -
  obtain r1 w1 where b: "backoff_Retry henv (heartbeat_op env henv cfg st) w = (r1, w1)" by fastforce
  have h: "heard w st w1" using keepsD [OF keeps_backoff_Retry [OF heard_op] heard_refl b] .
  then have a: "answers w1 = answers w" by (simp add: heard_def)
  show ?thesis
  proof (cases r1)
    case (Ok x)
    with assms b a have "w' = w1\<lparr>answers := answers w @ [x]\<rparr> \<and> (\<forall>a. r = Ok (Some a) \<longrightarrow> a = x)"
      by (auto simp: heartbeat_def action_simps ticker_Reset_def split: if_splits)
    with h show ?thesis by (intro exI [of _ w1] exI [of _ "[x]"]) auto
  next
    case (Err e)
    with assms b a have "w' = w1\<lparr>answers := answers w @ []\<rparr> \<and> (\<forall>a. r \<noteq> Ok (Some a))"
      by (auto simp: heartbeat_def action_simps ticker_Reset_def split: if_splits)
    with h show ?thesis by (intro exI [of _ w1] exI [of _ "[]"]) auto
  next
    case (Crash e)
    with assms b a have "w' = w1\<lparr>answers := answers w @ []\<rparr> \<and> (\<forall>a. r \<noteq> Ok (Some a))"
      by (auto simp: heartbeat_def action_simps)
    with h show ?thesis by (intro exI [of _ w1] exI [of _ "[]"]) auto
  qed
qed

section \<open>A report of the health\<close>

definition still :: "cluster \<Rightarrow> cluster \<Rightarrow> bool" where
  "still v w \<longleftrightarrow> machine w = machine v \<and> told w = told v \<and> taken w = taken v \<and> answers w = answers v"

interpretation stays: host_frame "still v" for v
  by unfold_locales (simp add: still_def)

lemma still_status [keeps_rules]: "keeps (still v) (SendStatusReady henv a)" "keeps (still v) (SendStatusNotReady henv a)"
proof -
  have m: "keeps (still v) (modify (\<lambda>w. w\<lparr>status_sent := f w\<rparr>))" for f
    by (simp add: keeps_def still_def modify_apply)
  show "keeps (still v) (SendStatusReady henv a)" "keeps (still v) (SendStatusNotReady henv a)"
    unfolding SendStatusReady_def SendStatusNotReady_def sendStatusRequest_def status_rpc_def
    by (intro keeps_rules m)+
qed

lemma status_turn_still: "cluster_status_turn henv cfg interval w = (r, w') \<Longrightarrow> still w w'"
proof -
  have k: "keeps (still w) (cluster_status_turn henv cfg interval)"
    unfolding cluster_status_turn_def Let_def ticker_Reset_def by (intro keeps_rules)
  assume "cluster_status_turn henv cfg interval w = (r, w')"
  from keepsD [OF k _ this] show ?thesis by (simp add: still_def)
qed

section \<open>Every interleaving\<close>

text \<open>The machine at the end of the action in progress, and the last place of its course that was seen.\<close>

fun coming :: "cluster \<times> receiver \<Rightarrow> StateMachine" where
  "coming (w, Waiting) = machine w"
| "coming (w, Working k sm) = sm"

fun place :: "cluster \<times> receiver \<Rightarrow> nat" where
  "place (w, Waiting) = length (entered (machine w))"
| "place (w, Working k sm) = k"

definition along :: "State list \<Rightarrow> nat \<Rightarrow> State list \<Rightarrow> bool" where
  "along ss k ts \<longleftrightarrow> k < length ss \<and> (\<exists>js. sorted js \<and> (\<forall>i \<in> set js. i \<le> k) \<and> ts = map ((!) ss) js)"

lemma along_more:
  assumes "along ss k ts" "k \<le> k'" "k' < length ss"
  shows "along ss k' (ts @ replicate n (ss ! k'))"
proof -
  obtain js where i: "sorted js" "\<forall>i \<in> set js. i \<le> k" "ts = map ((!) ss) js" using assms(1) by (auto simp: along_def)
  have "sorted (js @ replicate n k')" using i(1,2) assms(2) by (fastforce simp: sorted_append sorted_replicate)
  moreover have "\<forall>i \<in> set (js @ replicate n k'). i \<le> k'" using i(2) assms(2) by auto
  moreover have "ts @ replicate n (ss ! k') = map ((!) ss) (js @ replicate n k')" using i(3) by simp
  ultimately show ?thesis using assms(3) unfolding along_def by blast
qed

lemma along_prefix: "along ss k ts \<Longrightarrow> prefix ss us \<Longrightarrow> along us k ts"
proof -
  assume a: "along ss k ts" and p: "prefix ss us"
  obtain vs where us: "us = ss @ vs" using p by (auto simp: prefix_def)
  obtain js where i: "sorted js" "\<forall>i \<in> set js. i \<le> k" "ts = map ((!) ss) js" and k: "k < length ss"
    using a by (auto simp: along_def)
  have "\<forall>i \<in> set js. us ! i = ss ! i" using i(2) k us by (auto simp: nth_append)
  with i k us show ?thesis unfolding along_def by (metis length_append map_eq_conv trans_less_add1)
qed

definition goroutines_inv :: "cluster \<times> receiver \<Rightarrow> bool" where
  "goroutines_inv c \<longleftrightarrow> machine_inv (coming c) \<and> earned [] (coming c) \<and> subseq (taken (fst c)) (answers (fst c)) \<and>
     along (course (coming c)) (place c) (told (fst c))"

lemma machine_tick: "machine_inv (sm\<lparr>sm_tick := n\<rparr>) = machine_inv sm" "course (sm\<lparr>sm_tick := n\<rparr>) = course sm"
  by (simp_all add: machine_inv_def on_path_def resting_def course_def)

lemma current_on_course: "machine_inv sm \<Longrightarrow> course sm ! length (entered sm) = currentState sm"
  by (auto simp: machine_inv_def on_path_def course_def last_conv_nth nth_Cons' split: if_splits)

lemma handle_action_inv:
  assumes "machine_inv sm" "handle_action env a sm = (r, t)"
  shows "machine_inv t"
proof -
  obtain u where "run_actions env [a] sm = (Ok (), u)" "machine_inv u" using run_actions_inv [OF assms(1)] by blast
  with assms(2) show ?thesis by (auto simp: run_actions_def action_simps split: outcome.splits)
qed

lemma heard_inv:
  assumes "goroutines_inv (w, Waiting)" "heard w (currentState (machine w)) v"
  shows "goroutines_inv (v\<lparr>answers := answers w @ as\<rparr>, Waiting)"
proof -
  obtain k n where m: "machine v = (machine w)\<lparr>sm_tick := k\<rparr>" and t: "told v = told w @ replicate n (currentState (machine w))"
    and tk: "taken v = taken w" using assms(2) by (auto simp: heard_def)
  have inv: "machine_inv (machine w)" "along (course (machine w)) (length (entered (machine w))) (told w)"
    using assms(1) by (simp_all add: goroutines_inv_def)
  from along_more [OF inv(2), of "length (entered (machine w))" n] current_on_course [OF inv(1)] t
  have "along (course (machine w)) (length (entered (machine w))) (told v)" by (simp add: course_def)
  moreover have "subseq (taken w) (answers w @ as)"
    using assms(1) by (auto simp: goroutines_inv_def intro: subseq_order.trans)
  ultimately show ?thesis using assms(1) m tk by (simp add: goroutines_inv_def machine_tick earned_tick)
qed

lemma heard_working_inv:
  assumes "goroutines_inv (w, Working k sm)" "k \<le> k'" "k' < length (course sm)" "heard w (course sm ! k') v"
  shows "goroutines_inv (v\<lparr>answers := answers w @ as\<rparr>, Working k' sm)"
proof -
  obtain n where "told v = told w @ replicate n (course sm ! k')" "taken v = taken w"
    using assms(4) by (auto simp: heard_def)
  moreover have "subseq (taken w) (answers w @ as)"
    using assms(1) by (auto simp: goroutines_inv_def intro: subseq_order.trans)
  ultimately show ?thesis
    using assms(1) along_more [OF _ assms(2,3), of "told w" n] by (simp add: goroutines_inv_def)
qed

lemma hand_over_inv:
  assumes "goroutines_inv (w, Waiting)" "answers w = as @ [a]" "subseq (taken w) as" "handle_action env b (machine w) = (r, sm)"
  shows "goroutines_inv (w\<lparr>taken := taken w @ [a]\<rparr>, Working (length (entered (machine w))) sm)"
proof -
  have i: "machine_inv (machine w)" "earned [] (machine w)" "along (course (machine w)) (length (entered (machine w))) (told w)"
    using assms(1) by (simp_all add: goroutines_inv_def)
  have "earned (entered (machine w)) (machine w)" using i(2) by (simp add: earned_def)
  from keepsD [OF earned_handle_action this assms(4)] have e: "earned (entered (machine w)) sm" .
  then have "along (course sm) (length (entered (machine w))) (told w)"
    by (intro along_prefix [OF i(3)]) (simp add: course_def earned_def)
  moreover have "earned [] sm" using e by (simp add: earned_def)
  moreover have "subseq (taken w @ [a]) (answers w)" using assms(2,3) by (simp add: list_emb_append_mono)
  ultimately show ?thesis using handle_action_inv [OF i(1) assms(4)] by (simp add: goroutines_inv_def)
qed

lemma cluster_step_inv:
  assumes "goroutines_inv c" "cluster_step env henv cfg interval c d"
  shows "goroutines_inv d"
  using assms(2)
proof cases
  case (handed_over w a w' r sm)
  obtain v as where v: "heard w (currentState (machine w)) v" "w' = v\<lparr>answers := answers w @ as\<rparr>" "as = [a]"
    using heartbeat_result [OF handed_over(3)] by blast
  have "goroutines_inv (w', Waiting)" using heard_inv [OF _ v(1), of as] assms(1) handed_over(1) v(2) by simp
  moreover have "answers w' = answers w @ [a]" "subseq (taken w') (answers w)"
    using v assms(1) handed_over(1) by (simp_all add: heard_def goroutines_inv_def)
  ultimately show ?thesis unfolding handed_over(2) using hand_over_inv handed_over(4) by blast
next
  case (unanswered w w')
  then show ?thesis using heartbeat_result [OF unanswered(3)] heard_inv assms(1) by blast
next
  case (dropped k k' sm w x w')
  then show ?thesis using heartbeat_result [OF dropped(5)] heard_working_inv assms(1) by blast
next
  case (worked w k sm)
  then have i: "goroutines_inv (w, Working k sm)" using assms(1) by simp
  then have "along (course sm) k (told w)" by (simp add: goroutines_inv_def)
  then have "along (course sm) (length (entered sm)) (told w)"
    using along_more [of "course sm" k "told w" "length (entered sm)" 0] by (simp add: along_def course_def)
  with i show ?thesis unfolding worked by (simp add: goroutines_inv_def)
next
  case (status w w' c')
  from status_turn_still [OF status(3)] have "still w w'" .
  with assms(1) status(1,2) show ?thesis by (cases c') (simp_all add: goroutines_inv_def still_def)
qed

lemma cluster_start_fresh:
  assumes "cluster_start henv decoded w = (Ok cfg, w')"
  shows "machine w' = NewStateMachine \<and> answers w' = answers w \<and> taken w' = taken w \<and> told w' = told w"
  using assms
  by (auto simp: cluster_start_def cluster_exit_def ConnectToClusterOrch_def GetAuthConfig_def lift_result_def action_simps tick_apply
      split: sum.splits option.splits outcome.splits prod.splits)

lemma cluster_runs_inv: "cluster_runs env henv decoded cfg interval c \<Longrightarrow> goroutines_inv c"
proof (induction rule: cluster_runs.induct)
  case (started w w')
  with cluster_start_fresh [OF started(1)] machine_inv_New show ?case
    by (simp add: goroutines_inv_def earned_def along_def course_def NewStateMachine_def)
next
  case (went_on c d)
  then show ?case using cluster_step_inv by blast
qed


text \<open>Without a connection the program starts its loops all the same, and the first heartbeat ends it.\<close>

lemma no_orchestrator_panics:
  assumes "\<not> have_orch w"
  shows "\<exists>w'. heartbeat env henv cfg st w = (Crash ''invalid memory address or nil pointer dereference'', w')"
proof -
  obtain tok where "GetAuthContext henv (cc_AccessTokenPath cfg) w = (Ok tok, w)" using GetAuthContext_Ok by blast
  then have op: "heartbeat_op env henv cfg st w = (Crash ''invalid memory address or nil pointer dereference'', w)"
    using assms by (simp add: heartbeat_op_def action_simps)
  then show ?thesis
    by (cases "attempts_left henv (interactions w)") (simp_all add: heartbeat_def backoff_Retry_def action_simps op)
qed

section \<open>A concrete run\<close>

definition demo_cluster_env :: cluster_env where
  "demo_cluster_env = helpful_env\<lparr>rpc_UpdateClusterStatus := \<lambda>_ _ _. Inr REGISTER\<rparr>"

definition demo_cluster_host :: host_env where
  "demo_cluster_host = \<lparr>host_cwd = [], os_Environ = [], process = (\<lambda>n argv e d. (\<lparr>Stdout = [], Stderr = [], Combined = [], exit_error = None\<rparr>, d)),
     delay = (\<lambda>_. 0), status_call = (\<lambda>_ _. Inr 10), dial_error = (\<lambda>_ _. None), attempts_left = (\<lambda>_. 0), SystemCertPool = (\<lambda>_. Inr [])\<rparr>"

definition demo_cluster_config :: ClusterConfig where
  "demo_cluster_config = \<lparr>cc_GUID = ''g'', cc_LogLevel = ''info'', cc_ServerAddr = ''o:1'', cc_Heartbeat = 10000000000, cc_AccessTokenPath = ''/t''\<rparr>"

definition demo_cluster :: cluster where
  "demo_cluster = \<lparr>disk = \<lparr>tree = (\<lambda>_. None), nlink = (\<lambda>_. 1)\<rparr>, clock_ns = 0, interactions = 0, processes = [], status_sent = [],
     machine = NewStateMachine, have_orch = True, lastResponse = 0, answers = [], taken = [], told = []\<rparr>"

lemma demo_cluster_start:
  "cluster_start demo_cluster_host (Inr demo_cluster_config) demo_cluster = (Ok demo_cluster_config, demo_cluster\<lparr>interactions := 2\<rparr>)"
  by (simp add: cluster_start_def cluster_exit_def cc_New_def cc_setDefaults_def cc_validate_def demo_cluster_config_def Let_def
      GetAuthConfig_def ConnectToClusterOrch_def tick_apply action_simps demo_cluster_host_def demo_cluster_def)

lemma retry_first: "m s = (Ok x, t) \<Longrightarrow> retry n m s = (Ok x, t)"
  by (cases n) (simp_all add: action_simps)

lemma heartbeat_answered:
  assumes "have_orch w" "\<And>n c g. rpc_UpdateClusterStatus env n c g = Inr a" "0 < cc_Heartbeat cfg"
  shows "\<exists>w'. heartbeat env henv cfg st w = (Ok (Some a), w') \<and> taken w' = taken w"
proof -
  have u: "\<exists>t. UpdateClusterStatus env st guid sm = (Ok a, t)" for guid sm
  proof -
    let ?m = "andthen sm_next (\<lambda>k. lift_result (rpc_UpdateClusterStatus env k (convertStatus (State_string st)) guid))"
    have "?m sm = (Ok a, sm\<lparr>sm_tick := Suc (sm_tick sm)\<rparr>)" by (simp add: sm_next_def action_simps assms(2))
    from retry_first [where m = ?m and s = sm, OF this] show ?thesis by (simp add: UpdateClusterStatus_def action_simps)
  qed
  obtain tok where g: "GetAuthContext henv (cc_AccessTokenPath cfg) w = (Ok tok, w)" using GetAuthContext_Ok by blast
  obtain sm where sm: "UpdateClusterStatus env st (cc_GUID cfg) (machine w) = (Ok a, sm)" using u by blast
  obtain w2 where "heartbeat_op env henv cfg st w = (Ok a, w2)"
    by (simp add: heartbeat_op_def action_simps g assms(1) on_machine_def sm time_Now_apply)
  then have b: "backoff_Retry henv (heartbeat_op env henv cfg st) w = (Ok a, w2)"
    by (simp add: backoff_Retry_def action_simps retry_first)
  then have "taken w2 = taken w"
    using keepsD [OF keeps_backoff_Retry [OF heard_op] heard_refl b] by (simp add: heard_def)
  then show ?thesis using assms(3) by (simp add: heartbeat_def action_simps b ticker_Reset_def)
qed


end
