(* ===== verification/Spec2Isabelle.thy ===== *)
theory Spec2Isabelle
  imports Pua_System Cluster_Agent Inbd_Server_Laws Pma_Main Node_Laws Pta_Laws Dda_Laws Hda_Laws Rep_Run Inbc_Laws
    Pua_Main_Laws Cluster_Main_Laws
begin

text \<open>
  Edge node agents: a verification library for the Go agents that manage an edge node.

  The repository holds independent daemons, one directory each, that talk to an orchestrator and
  to each other over gRPC and keep their state in files. Modelled are the Platform Update Agent
  (\<^verbatim>\<open>platform-update-agent\<close>), which downloads and installs updates at scheduled times and survives
  the reboot in between; the in-band manageability daemon (\<^verbatim>\<open>in-band-manageability\<close>), which carries
  out the privileged part; the Cluster Agent (\<^verbatim>\<open>cluster-agent\<close>), which joins a node to a cluster
  and takes it out again; the Platform Manageability Agent (\<^verbatim>\<open>platform-manageability-agent\<close>), which
  activates and deactivates the management engine; the Node Agent (\<^verbatim>\<open>node-agent\<close>) with its status
  service, which collects the health of all agents and keeps their tokens; the Platform Telemetry
  Agent (\<^verbatim>\<open>platform-telemetry-agent\<close>), which configures telegraf and fluent-bit; the Device
  Discovery Agent (\<^verbatim>\<open>device-discovery-agent\<close>), which onboards a node; the Hardware Discovery Agent
  (\<^verbatim>\<open>hardware-discovery-agent\<close>), which reports the hardware of the node to the host manager; and the
  Reporting Agent (\<^verbatim>\<open>reporting-agent\<close>), which sends facts about the node to a log backend.

  How Go is modelled (theory Prelude): a function with effects is an \<open>action\<close>, from the state of
  its component to an outcome (\<open>Ok\<close>, \<open>Err\<close> a returned error, \<open>Crash\<close> a panic or log.Fatal) and
  the next state. Everything outside of src/ (commands, the clock, JSON and cron libraries, gRPC
  peers, random numbers) is a record of functions, an environment, that an operation takes as its
  first argument; where it may answer differently each time it takes a tick that counts the
  calls. Strings are lists of bytes, int64 and uint32 fields keep their width where they wrap.
  Go_Strings holds the functions of package strings, strconv and the regular expressions that
  the agents use; Go_Url the parts of net/url; Go_Split splitting at strings, and the
  panic of an index out of range.

  The theories and the code:

  \<^item> Pua_Metadata: \<^verbatim>\<open>internal/metadata/metadata.go\<close>, the JSON file with the status, schedules and
    update in progress. \<open>world\<close> is the state of the whole agent. Its lemmas: setters preserve
    the well-formedness of the file and touch one field.
  \<^item> Pua_Apt: \<^verbatim>\<open>internal/aptmirror\<close>, the forward proxy and the repository sources; the printed list
    of upgradable packages parses back.
  \<^item> Pua_Updater: \<^verbatim>\<open>internal/updater/updater.go\<close> and \<^verbatim>\<open>internal/installer\<close>: the subsystem updaters run
    by StartUpdate, the timeout, the kernel parameters, the verdict after a reboot.
  \<^item> Pua_Downloader: \<^verbatim>\<open>internal/downloader\<close>: download timer, operation lock, last downloaded image.
  \<^item> Pua_Scheduler: \<^verbatim>\<open>internal/scheduler/scheduler.go\<close>: single and repeated schedules as jobs.
  \<^item> Pua_Agent: \<^verbatim>\<open>cmd/platform-update-agent\<close>: the handling of a response for Ubuntu and EMT, and
    the continuation after a restart.
  \<^item> Pua_System: the agent as a transition system over the operations above, with crashes, power
    losses and restarts as steps (\<open>step\<close>, \<open>reachable\<close>), and its invariant by rule induction.
  \<^item> Pua_Report, Pua_Main, Pua_Main_Laws: \<^verbatim>\<open>internal/config\<close>, \<^verbatim>\<open>internal/comms\<close> and the main function: the
    checked configuration, the status that is reported, the client with its connections, one round of
    the requests and the start. The lemmas: a round reports what the file says and forgets a finished
    update only after that was answered, what holds when the loops start, and when connecting ends.
  \<^item> Cluster_Agent: \<^verbatim>\<open>internal/state\<close>, \<^verbatim>\<open>internal/comms\<close>, \<^verbatim>\<open>internal/k8sbootstrap\<close>, \<^verbatim>\<open>internal/config\<close> and the
    loop of \<^verbatim>\<open>cmd/cluster-agent\<close> over received actions. The diagram of states is the relation
    \<open>arrow\<close>; every run is a path of it.
  \<^item> Cluster_Main, Cluster_Main_Laws: the rest of \<^verbatim>\<open>cmd/cluster-agent\<close>. The heartbeats, the reports of the
    health and the goroutine that works on the actions interleave as the step relation
    \<open>cluster_step\<close>; an action is handed over only while the receiver waits. In every run what the
    orchestrator is told is a walk along the course of the state machine.
  \<^item> Inbd_Files: \<^verbatim>\<open>internal/inbd/utils/file_service.go\<close>. The kernel's walk of a path is the function
    \<open>resolve\<close> (40 links at most, 255 for EvalSymlinks, as in the kernel and Go; these are the fuel
    of a function that terminates for every bound) and, for proofs, the relation \<open>walk\<close>. The
    lemmas bound what each operation reads and changes.
  \<^item> Inbd_Signature: \<^verbatim>\<open>verify_signature.go\<close>: which certificate verifies a package, the archive's safety
    checks, the hash and the RSA verification as parameters.
  \<^item> Inbd_Config: \<^verbatim>\<open>config_command.go\<close> and \<^verbatim>\<open>json_validator.go\<close>. The paths into a JSON object are
    a store: the locale \<open>json_store\<close>, interpreted on getJSONPath and setJSONPath. A change of the
    configuration is all or nothing.
  \<^item> Inbd_World: the world of the daemon, which is its files, the commands it ran and a tick; the
    allow-list of commands (\<^verbatim>\<open>internal/common\<close>), configuration, token, state file and the two logs of
    updates. Its lemmas are three calculi: \<open>emits\<close> (every command that an action runs satisfies a
    predicate), \<open>reads_only\<close> and \<open>safe\<close> (no panic).
  \<^item> Inbd_Download: \<^verbatim>\<open>disk_space.go\<close> and \<^verbatim>\<open>downloader.go\<close>: TLS settings, sizes, the free space as a
    64-bit product, the float64 buffer.
  \<^item> Inbd_Os, Inbd_Os_Laws, Inbd_Os_Start: \<^verbatim>\<open>internal/os_updater\<close>. The frame UpdateOS takes a provider, a
    record of five operations; the locale \<open>os_provider\<close> is their contract (which commands they may
    run) with the frame's guarantees, interpreted on the EMT and the Ubuntu provider.
    Inbd_Os_Start holds the verification after a reboot, repeated starts as the function \<open>starts\<close> and the
    state file as an implementation of a cell with the pending update.
  \<^item> Inbd_Sources: \<^verbatim>\<open>ubuntu/os_source\<close> and \<^verbatim>\<open>ubuntu/app_source\<close>, the apt sources and their keys.
  \<^item> Go_Time, Inbd_Telemetry: \<^verbatim>\<open>internal/inbd/telemetry\<close> with the layouts of package time that it
    parses: hardware, firmware, system, version, power and the bill of materials.
  \<^item> Inbd_Firmware: \<^verbatim>\<open>internal/fw_updater\<close>: the checked tool table, the package, the run of the tool.
  \<^item> Inbd_Server, Inbd_Server_Laws: \<^verbatim>\<open>internal/inbd/inbdserver.go\<close> and \<^verbatim>\<open>server.go\<close>: the request handlers
    and the start of the server; which answers they give and under what conditions.
  \<^item> Agent_Common: \<^verbatim>\<open>common/pkg\<close>, files without links, sizes, tokens, commands and the status
    client, over the world \<open>host\<close> that the remaining agents share and extend: a clock that time
    and sleeping advance, a disk, the processes that were started, a count of the answers from
    outside. Its calculi are \<open>keeps\<close>, \<open>appends\<close> (processes are only added) and \<open>ages\<close> (time only advances).
  \<^item> Pma_Agent, Pma_Laws, Pma_Main: \<^verbatim>\<open>platform-manageability-agent\<close>. The client's operations, with the
    interleaving of the activation loop and of the deactivations that it launches as the step
    relation \<open>agent_step\<close>; the sequential functions are runs of it.
  \<^item> Node_Agent, Node_Cluster, Node_Laws: \<^verbatim>\<open>node-agent\<close>. The status service with its two tables and the
    rule for a healthy node; tokens; the detection of clusters and the calls to the host manager.
  \<^item> Pta_Config, Pta_Agent, Pta_Laws: \<^verbatim>\<open>platform-telemetry-agent\<close>. The texts made of templates; the four
    dirty bits and what they guarantee; the updates of the host and the cluster; one refresh.
  \<^item> Dda_Config, Dda_Agent, Dda_Laws: \<^verbatim>\<open>device-discovery-agent\<close>. The configuration file and its round
    trip, package flag with the two passes over the command line, the identity of the node, tokens,
    the streaming and the interactive mode and the choice between them.
  \<^item> Inbc_Client, Inbc_Query, Inbc_Laws: \<^verbatim>\<open>internal/inbc/commands\<close> and \<^verbatim>\<open>cmd/inbc\<close>, the command line
    client, with the daemon as a parameter that \<open>with_daemon\<close> instantiates by the handlers of
    Inbd_Server. \<open>plan\<close> says which request the arguments describe; every run carries it out, and
    \<open>exit_zero\<close> is what its exit status tells.
  \<^item> Hda_Parsers, Hda_Network, Hda_Agent, Hda_Laws: \<^verbatim>\<open>hardware-discovery-agent\<close>. The parsers of what the
    tools print and the walk over the network interfaces; the message, the client with its
    connections and one turn of the update loop. The lemmas: printed listings are read back, the
    client stays connected, and how often an update is sent. The locale \<open>host_frame\<close> (Agent_Common)
    says that gathering keeps every predicate on the rest of the state; it is interpreted for the
    requests, the connections and, in Rep_Run, the posts.
  \<^item> Rep_Model, Rep_Collect, Rep_Send, Rep_Laws, Rep_Run: \<^verbatim>\<open>reporting-agent\<close>. The readers with the value
    beside each error, the applications of the cluster, the ids of the machine on the disk, the
    request to the backend and the whole run. The lemmas: the summary of the memory and the list of
    applications are what their definitions by lists say, the initial id never changes, a run
    always returns and what it sends.

  Bounds: the number of verification retries after a reboot is the 5 of the code; the rounds of
  the installer's polling and the attempts of the Cluster Agent's exponential backoff are numbers
  given by the environment, since they depend on how long a round takes; likewise the retries that
  the backoff library allows (\<open>attempts_left\<close>). The polling of the Platform Manageability Agent ends
  because its clock advances by the sleep of every round. The onboarding of a registered node may
  wait for ever, and \<open>onboard_loop\<close> is a \<^verbatim>\<open>partial_function (option)\<close>, as are the attempts to connect of
  the Platform Manageability Agent and of the Platform Update Agent. The walk that empties the
  download directory has fuel 2048: a path has at most 4096 bytes, so at most 2048 components.

  Not modelled: goroutine interleavings inside one operation (operations are steps; the mutexes
  that order them are part of the state), except for the deactivations of the Platform
  Manageability Agent and the goroutines of the Cluster Agent; the four updates of a telemetry refresh run one after another in an order
  left open. gRPC transport, logging, signals and metrics, file permissions and full disks; the
  generated gRPC code; the flag parser of the command line client of in-band manageability; the
  terminal of the interactive onboarding, which is a parameter; the set-up of the logging, metrics
  and validation libraries and the mock servers.
\<close>

end
